(* ===== verification/Opener_Prelude.thy ===== *)
theory Opener_Prelude
  imports Main "HOL-Library.Word" "HOL-Library.Monad_Syntax"
begin

text \<open>
  Shared vocabulary of the OpENer development: the C integer types of
  \<^verbatim>\<open>typedefs.h\<close> as words, the EipStatus enumeration, generic lemmas on words,
  octet lists and the option monad, and the collections of facts the component
  theories use.

  A C operation whose effect is not defined (a read or write outside of the
  memory it is given, a failed \<^verbatim>\<open>OPENER_ASSERT\<close>, a dereferenced null pointer)
  is modelled by the value \<^term>\<open>None\<close>; sequencing of such operations is the bind
  of the option type.
\<close>

unbundle bit_operations_syntax

named_theorems enip_defs \<open>definitions of the message buffer operations\<close>
named_theorems codec_simps \<open>rewrite rules for encoding and decoding octets\<close>

subsection \<open>The C integer types\<close>

type_synonym octet = "8 word"
type_synonym CipUsint = "8 word"
type_synonym CipSint = "8 word"
type_synonym CipBool = "8 word"
type_synonym CipByte = "8 word"
type_synonym CipUint = "16 word"
type_synonym CipInt = "16 word"
type_synonym CipWord = "16 word"
type_synonym CipUdint = "32 word"
type_synonym CipDint = "32 word"
type_synonym CipDword = "32 word"
type_synonym CipUlint = "64 word"
type_synonym CipInstanceNum = "16 word"
type_synonym CipSessionHandle = "32 word"
type_synonym size_t = "64 word"
type_synonym MilliSeconds = "64 word"

abbreviation (input) kEipInvalidSocket :: int where "kEipInvalidSocket \<equiv> -1"

datatype EipStatus = kEipStatusOk | kEipStatusOkSend | kEipStatusError

text \<open>
  The C code compares a status with the integers 0, 1 and -1 in places, e.g.\ in
  \<^verbatim>\<open>if(status > 0)\<close>.
\<close>

fun eip_status_value :: "EipStatus \<Rightarrow> int" where
  "eip_status_value kEipStatusOk = 0"
| "eip_status_value kEipStatusOkSend = 1"
| "eip_status_value kEipStatusError = -1"

subsection \<open>The option monad\<close>

lemma bind_Some_iff [simp]:
  "(Option.bind x f = Some y) \<longleftrightarrow> (\<exists>a. x = Some a \<and> f a = Some y)"
  by (cases x) auto

lemma bind_None_iff:
  "(Option.bind x f = None) \<longleftrightarrow> (x = None \<or> (\<exists>a. x = Some a \<and> f a = None))"
  by (cases x) auto

definition guard :: "bool \<Rightarrow> unit option" where
  "guard b = (if b then Some () else None)"

lemma guard_Some [simp]: "guard b = Some u \<longleftrightarrow> b"
  by (simp add: guard_def)

lemma guard_simps [simp]:
  "guard True = Some ()" "guard False = None"
  by (simp_all add: guard_def)

lemma guard_None [simp]: "guard b = None \<longleftrightarrow> \<not> b"
  by (simp add: guard_def)

subsection \<open>Overwriting a segment of a list\<close>

definition splice_at :: "nat \<Rightarrow> 'a list \<Rightarrow> 'a list \<Rightarrow> 'a list" where
  "splice_at i xs ys = take i ys @ xs @ drop (i + length xs) ys"

lemma length_splice_at [simp]:
  "i + length xs \<le> length ys \<Longrightarrow> length (splice_at i xs ys) = length ys"
  by (simp add: splice_at_def)

lemma take_splice_at [simp]:
  "i + length xs \<le> length ys \<Longrightarrow> take i (splice_at i xs ys) = take i ys"
  by (simp add: splice_at_def)

lemma take_splice_at_end:
  "i + length xs \<le> length ys \<Longrightarrow> take (i + length xs) (splice_at i xs ys) = take i ys @ xs"
  by (simp add: splice_at_def)

lemma drop_splice_at_end:
  "i + length xs \<le> length ys \<Longrightarrow> drop (i + length xs) (splice_at i xs ys) = drop (i + length xs) ys"
  by (simp add: splice_at_def)

lemma splice_at_Nil [simp]: "splice_at i [] ys = ys"
  by (simp add: splice_at_def)

lemma splice_at_append:
  assumes "i + length xs + length xs' \<le> length ys"
  shows "splice_at (i + length xs) xs' (splice_at i xs ys) = splice_at i (xs @ xs') ys"
  using assms by (simp add: splice_at_def ac_simps)

subsection \<open>Words as little-endian octets\<close>

definition le_octets :: "nat \<Rightarrow> 'a::len word \<Rightarrow> octet list" where
  "le_octets n w = map (\<lambda>i. ucast (drop_bit (8 * i) w)) [0..<n]"

primrec le_word :: "octet list \<Rightarrow> 'a::len word" where
  "le_word [] = 0"
| "le_word (b # bs) = ucast b OR push_bit 8 (le_word bs)"

lemma length_le_octets [simp]: "length (le_octets n w) = n"
  by (simp add: le_octets_def)

lemma le_octets_0 [simp]: "le_octets 0 w = []"
  by (simp add: le_octets_def)

lemma le_octets_Suc: "le_octets (Suc n) w = ucast w # le_octets n (drop_bit 8 w)"
proof -
  have "[0..<Suc n] = 0 # map Suc [0..<n]"
    by (simp add: map_Suc_upt upt_conv_Cons)
  then show ?thesis
    by (simp add: le_octets_def o_def drop_bit_drop_bit add.commute del: upt_Suc)
qed

lemma bit_le_word:
  "bit (le_word bs :: 'a::len word) i
     \<longleftrightarrow> i < LENGTH('a) \<and> i div 8 < length bs \<and> bit (bs ! (i div 8)) (i mod 8)"
proof (induction bs arbitrary: i)
  case Nil
  then show ?case by simp
next
  case (Cons b bs)
  show ?case
  proof (cases "i < 8")
    case True
    then show ?thesis
      by (auto simp: bit_simps)
  next
    case False
    then obtain j where j: "i = 8 + j"
      using le_Suc_ex by (metis linorder_not_less)
    moreover have "(8 + j) div 8 = Suc (j div 8)" by simp
    ultimately show ?thesis
      by (auto simp: bit_simps Cons.IH simp del: div_add_self1 dest: bit_imp_le_length)
  qed
qed

lemma bit_le_octets:
  "i < n \<Longrightarrow> j < 8 \<Longrightarrow> bit (le_octets n w ! i) j \<longleftrightarrow> bit w (8 * i + j)"
  by (simp add: le_octets_def bit_simps)

lemma le_word_octets:
  assumes "LENGTH('a::len) = 8 * n"
  shows "le_word (le_octets n w) = (w :: 'a word)"
proof (rule bit_word_eqI)
  fix i
  assume i: "i < LENGTH('a)"
  then have "i div 8 < n"
    using assms by auto
  with i show "bit (le_word (le_octets n w) :: 'a word) i = bit w i"
    by (simp add: bit_le_word bit_le_octets)
qed

lemma le_octets_word:
  assumes "LENGTH('a::len) = 8 * n" and "length bs = n"
  shows "le_octets n (le_word bs :: 'a word) = bs"
proof (rule nth_equalityI)
  show "length (le_octets n (le_word bs :: 'a word)) = length bs"
    using assms by simp
next
  fix i
  assume "i < length (le_octets n (le_word bs :: 'a word))"
  then have i: "i < n" by simp
  show "le_octets n (le_word bs :: 'a word) ! i = bs ! i"
  proof (rule bit_word_eqI)
    fix j
    assume "j < LENGTH(8)"
    then have j: "j < 8" by simp
    have "8 * i + j < LENGTH('a)"
      using i j assms(1) by simp
    with i j assms show "bit (le_octets n (le_word bs :: 'a word) ! i) j = bit (bs ! i) j"
      by (simp add: bit_le_octets bit_le_word)
  qed
qed

subsection \<open>Shifts\<close>

lemma push_bit_fixpoint:
  fixes z :: "'a::len word"
  assumes "z = push_bit n z" and "0 < n"
  shows "z = 0"
proof (rule bit_word_eqI)
  fix i
  assume "i < LENGTH('a)"
  show "bit z i = bit 0 i"
  proof (induction i rule: less_induct)
    case (less i)
    have "bit z i \<longleftrightarrow> n \<le> i \<and> i < LENGTH('a) \<and> bit z (i - n)"
      by (subst assms(1)) (auto simp: bit_simps)
    with less assms(2) show ?case
      by (cases "n \<le> i") auto
  qed
qed

lemma drop_bit_fixpoint:
  fixes z :: "'a::len word"
  assumes "z = drop_bit n z" and "0 < n"
  shows "z = 0"
proof (rule bit_word_eqI)
  fix i
  assume "i < LENGTH('a)"
  have "\<not> bit z i" for i
  proof (induction "LENGTH('a) - i" arbitrary: i rule: less_induct)
    case less
    have "bit z i \<longleftrightarrow> bit z (n + i)"
      by (subst assms(1)) (simp add: bit_simps)
    moreover have "\<not> bit z (n + i)"
    proof (cases "i < LENGTH('a)")
      case True
      with assms(2) have "LENGTH('a) - (n + i) < LENGTH('a) - i" by simp
      then show ?thesis by (rule less)
    next
      case False
      then show ?thesis by (simp add: impossible_bit)
    qed
    ultimately show ?case by simp
  qed
  then show "bit z i = bit 0 i" by simp
qed

lemma xor_shift_left_inj:
  fixes x y :: "'a::len word"
  assumes "x XOR push_bit n x = y XOR push_bit n y" and "0 < n"
  shows "x = y"
proof -
  have "x XOR y = push_bit n (x XOR y)"
    using assms(1) by (metis (no_types, lifting) push_bit_xor xor.assoc xor.left_commute xor_self_eq xor.right_neutral)
  then have "x XOR y = 0" using assms(2) by (rule push_bit_fixpoint)
  then show ?thesis
    by (metis xor.assoc xor.left_neutral xor_self_eq xor.right_neutral)
qed

lemma xor_shift_right_inj:
  fixes x y :: "'a::len word"
  assumes "x XOR drop_bit n x = y XOR drop_bit n y" and "0 < n"
  shows "x = y"
proof -
  have "x XOR y = drop_bit n (x XOR y)"
    using assms(1) by (metis (no_types, lifting) drop_bit_xor xor.assoc xor.left_commute xor_self_eq xor.right_neutral)
  then have "x XOR y = 0" using assms(2) by (rule drop_bit_fixpoint)
  then show ?thesis
    by (metis xor.assoc xor.left_neutral xor_self_eq xor.right_neutral)
qed

subsection \<open>Signed readings\<close>

lemma sint_cases:
  fixes v :: "'a::len word"
  shows "sint v = int (unat v) - (if unat v < 2 ^ (LENGTH('a) - 1) then 0 else 2 ^ LENGTH('a))"
proof -
  obtain n where n: "LENGTH('a) = Suc n"
    by (metis Suc_pred' len_gt_0)
  have "unat v < 2 ^ LENGTH('a)" by (rule unsigned_less)
  then have lt: "unat v < 2 * 2 ^ n" by (simp add: n)
  have s: "sint v = signed_take_bit n (uint v)"
    by (simp add: sint_uint n)
  have t: "take_bit (Suc n) (uint v) = uint v"
    unfolding n [symmetric] by (rule take_bit_int_eq_self) simp_all
  have "bit (uint v) n \<longleftrightarrow> odd (unat v div 2 ^ n)"
    by (simp add: bit_unsigned_iff flip: bit_iff_odd)
  moreover have "unat v div 2 ^ n < 2"
    using lt by (simp add: less_mult_imp_div_less)
  moreover have "odd q \<longleftrightarrow> q \<noteq> 0" if "q < 2" for q :: nat
    using that by presburger
  ultimately have b: "bit (uint v) n \<longleftrightarrow> \<not> unat v < 2 ^ n"
    by (metis div_eq_0_iff power_not_zero zero_neq_numeral)
  have "sint v = uint v - 2 ^ Suc n * of_bool (\<not> unat v < 2 ^ n)"
    unfolding s signed_take_bit_eq_take_bit_minus t b ..
  then show ?thesis unfolding n by simp
qed

lemma sint_word_of_int_64:
  assumes "- 9223372036854775808 \<le> k" and "k < 9223372036854775808"
  shows "sint (word_of_int k :: 64 word) = k"
proof -
  have "(k + 2 ^ 63) mod 2 ^ 64 = k + 2 ^ 63"
    by (rule mod_pos_pos_trivial) (use assms in simp_all)
  then show ?thesis unfolding int_word_sint by simp
qed

lemma unat_octet_less: "unat (b :: octet) < 256"
  using unsigned_less [of b] by simp

lemma unat_uint16_less: "unat (w :: 16 word) < 65536"
  using unsigned_less [of w] by simp

lemma unat_uint32_less: "unat (w :: 32 word) < 4294967296"
  using unsigned_less [of w] by simp

lemma unat_of_nat_16: "k < 65536 \<Longrightarrow> unat (of_nat k :: 16 word) = k"
  by (simp add: unsigned_of_nat take_bit_nat_eq_self)

subsection \<open>The first element of an array with a property\<close>

fun first_index :: "('a \<Rightarrow> bool) \<Rightarrow> 'a list \<Rightarrow> nat option" where
  "first_index P [] = None"
| "first_index P (x # xs) = (if P x then Some 0 else map_option Suc (first_index P xs))"

lemma first_index_None: "first_index P xs = None \<longleftrightarrow> (\<forall>x \<in> set xs. \<not> P x)"
  by (induction xs) auto

lemma first_index_Some:
  "first_index P xs = Some j \<longleftrightarrow> j < length xs \<and> P (xs ! j) \<and> (\<forall>i < j. \<not> P (xs ! i))"
proof (induction xs arbitrary: j)
  case (Cons x xs)
  then show ?case by (cases j) (auto simp: less_Suc_eq_0_disj)
qed simp

lemma first_index_unique:
  assumes "j < length xs" "P (xs ! j)" and "\<And>i. i < length xs \<Longrightarrow> P (xs ! i) \<Longrightarrow> i = j"
  shows "first_index P xs = Some j"
proof -
  have "\<not> P (xs ! i)" if "i < j" for i
    using assms(3) [of i] assms(1) that by auto
  with assms(1,2) show ?thesis by (simp add: first_index_Some)
qed

end
