(* ===== verification/XorShift.thy ===== *)
theory XorShift
  imports Opener_Prelude
begin

text \<open>
  The pseudo-random number generator of \<^verbatim>\<open>utils/xorshiftrandom.c\<close>, which the
  connection manager and the sessions draw identifiers from. Its only state is the
  file-global \<^verbatim>\<open>xor_shift_seed\<close>; the result of \<^verbatim>\<open>time(NULL)\<close> is an argument.
\<close>

definition SetXorShiftSeed :: "32 word \<Rightarrow> 32 word" where
  "SetXorShiftSeed seed = seed"

definition CalculateNextSeed :: "64 word \<Rightarrow> 32 word \<Rightarrow> 32 word" where
  "CalculateNextSeed time_now xor_shift_seed =
     (let s0 = (if xor_shift_seed = 0 then SetXorShiftSeed (ucast time_now) else xor_shift_seed);
          s1 = s0 XOR push_bit 13 s0;
          s2 = s1 XOR drop_bit 17 s1
      in s2 XOR push_bit 5 s2)"

definition NextXorShiftUint32 :: "64 word \<Rightarrow> 32 word \<Rightarrow> 32 word \<times> 32 word" where
  "NextXorShiftUint32 time_now xor_shift_seed =
     (let s = CalculateNextSeed time_now xor_shift_seed in (s, s))"

text \<open>Drawing a sequence of numbers, the clock showing \<open>clk i\<close> at draw \<open>i\<close>.\<close>

primrec draws :: "(nat \<Rightarrow> 64 word) \<Rightarrow> nat \<Rightarrow> 32 word \<Rightarrow> 32 word" where
  "draws clk 0 seed = seed"
| "draws clk (Suc n) seed = snd (NextXorShiftUint32 (clk n) (draws clk n seed))"

lemma xorshift_step_inj:
  fixes x y :: "32 word"
  assumes "(let s1 = x XOR push_bit 13 x; s2 = s1 XOR drop_bit 17 s1 in s2 XOR push_bit 5 s2) =
      (let s1 = y XOR push_bit 13 y; s2 = s1 XOR drop_bit 17 s1 in s2 XOR push_bit 5 s2)"
  shows "x = y"
  using assms unfolding Let_def
  by (rule xor_shift_left_inj [OF xor_shift_right_inj [OF xor_shift_left_inj]]) simp_all

lemma CalculateNextSeed_inj:
  assumes "CalculateNextSeed t x = CalculateNextSeed t' y" and "x \<noteq> 0" and "y \<noteq> 0"
  shows "x = y"
  by (rule xorshift_step_inj) (use assms in \<open>simp only: CalculateNextSeed_def Let_def if_False\<close>)

lemma CalculateNextSeed_nonzero:
  assumes "x \<noteq> 0"
  shows "CalculateNextSeed t x \<noteq> 0"
proof
  assume "CalculateNextSeed t x = 0"
  then have "x = 0"
    by (intro xorshift_step_inj [of x 0])
      (use assms in \<open>simp only: CalculateNextSeed_def Let_def if_False push_bit_of_0 drop_bit_of_0 xor.right_neutral\<close>)
  with assms show False by simp
qed

text \<open>
  from a non-zero seed the generator never yields zero (so the clock is never
  consulted again), and it is a permutation of the non-zero 32 bit values: any two
  different seeds produce different values at every later draw.
\<close>

theorem xorshift_never_zero_and_injective:
  assumes "x \<noteq> 0" and "y \<noteq> 0"
  shows "draws clk n x \<noteq> 0 \<and> (draws clk n x = draws clk' n y \<longleftrightarrow> x = y)"
proof -
  have nz: "draws c n s \<noteq> 0" if "s \<noteq> 0" for c n s
    using that by (induction n) (simp_all add: NextXorShiftUint32_def Let_def CalculateNextSeed_nonzero)
  have clock: "CalculateNextSeed t s = CalculateNextSeed t' s" if "s \<noteq> 0" for t t' s
    using that by (simp add: CalculateNextSeed_def)
  have "draws clk n x = draws clk' n y \<longleftrightarrow> x = y"
  proof (induction n)
    case (Suc n)
    then show ?case
      using CalculateNextSeed_inj [OF _ nz [OF assms(1)] nz [OF assms(2)]] clock [OF nz [OF assms(2)]]
      by (auto simp: NextXorShiftUint32_def Let_def)
  qed simp
  then show ?thesis using nz [OF assms(1)] by simp
qed

lemma xorshift_never_zero_and_injective_witness:
  "draws (\<lambda>_. 7) 3 1 \<noteq> 0 \<and> draws (\<lambda>_. 7) 3 1 \<noteq> draws (\<lambda>_. 9) 3 2"
  using xorshift_never_zero_and_injective [of 1 2 "\<lambda>_. 7" 3 "\<lambda>_. 9"] by simp

end
