(* ===== verification/EndianConv.thy ===== *)
theory EndianConv
  imports Opener_Prelude
begin

text \<open>
  The message buffer (\<^verbatim>\<open>utils/enipmessage.[ch]\<close>) and the conversions between C
  integers and little-endian octets (\<^verbatim>\<open>enet_encap/endianconv.[ch]\<close>).

  A received message is the list of octets from the read pointer to the end of the
  memory it lies in; a reader returns the value together with the advanced pointer,
  and \<^term>\<open>None\<close> when it would read outside of that memory.
  An outgoing message is the record \<open>enip_message\<close>, whose pointer
  \<^verbatim>\<open>current_message_position\<close> is an index into the buffer; a writer returns
  \<^term>\<open>None\<close> when it would write outside of the buffer.

  The locale \<open>message_codec\<close> is the contract of one reader/encoder pair, the locale
  \<open>message_writer\<close> adds the \<^verbatim>\<open>Add...ToMessage\<close> operation. Both are interpreted on
  the 8, 16 and 32 bit operations of the code.
\<close>

subsection \<open>The outgoing message buffer\<close>

definition PC_OPENER_ETHERNET_BUFFER_SIZE :: nat where
  "PC_OPENER_ETHERNET_BUFFER_SIZE = 512"

record enip_message =
  message_buffer :: "octet list"
  current_message_position :: nat
  used_message_length :: size_t

definition InitializeENIPMessage :: "enip_message \<Rightarrow> enip_message" where
  "InitializeENIPMessage message =
     message\<lparr>message_buffer := replicate PC_OPENER_ETHERNET_BUFFER_SIZE 0,
       current_message_position := 0, used_message_length := 0\<rparr>"

text \<open>
  The assignments \<^verbatim>\<open>current_message_position[0] = ...; current_message_position[1] = ...\<close>
  and \<^verbatim>\<open>memset\<close>/\<^verbatim>\<open>memcpy\<close> at the current position store a run of octets there.
\<close>

definition put_octets :: "octet list \<Rightarrow> enip_message \<Rightarrow> enip_message option" where
  "put_octets bs m =
     (if current_message_position m + length bs \<le> length (message_buffer m)
      then Some (m\<lparr>message_buffer :=
             splice_at (current_message_position m) bs (message_buffer m)\<rparr>)
      else None)"

definition AddSintToMessage :: "8 word \<Rightarrow> enip_message \<Rightarrow> enip_message option" where
  "AddSintToMessage data outgoing_message = do {
     m \<leftarrow> put_octets [data] outgoing_message;
     Some (m\<lparr>current_message_position := current_message_position m + 1,
             used_message_length := used_message_length m + 1\<rparr>)
   }"

definition AddIntToMessage :: "16 word \<Rightarrow> enip_message \<Rightarrow> enip_message option" where
  "AddIntToMessage data outgoing_message = do {
     m \<leftarrow> put_octets [ucast data, ucast (drop_bit 8 data)] outgoing_message;
     Some (m\<lparr>current_message_position := current_message_position m + 2,
             used_message_length := used_message_length m + 2\<rparr>)
   }"

definition AddDintToMessage :: "32 word \<Rightarrow> enip_message \<Rightarrow> enip_message option" where
  "AddDintToMessage data outgoing_message = do {
     m \<leftarrow> put_octets [ucast data, ucast (drop_bit 8 data), ucast (drop_bit 16 data),
            ucast (drop_bit 24 data)] outgoing_message;
     Some (m\<lparr>current_message_position := current_message_position m + 4,
             used_message_length := used_message_length m + 4\<rparr>)
   }"

definition AddLintToMessage :: "64 word \<Rightarrow> enip_message \<Rightarrow> enip_message option" where
  "AddLintToMessage data outgoing_message = do {
     m \<leftarrow> put_octets [ucast data, ucast (drop_bit 8 data), ucast (drop_bit 16 data),
            ucast (drop_bit 24 data), ucast (drop_bit 32 data), ucast (drop_bit 40 data),
            ucast (drop_bit 48 data), ucast (drop_bit 56 data)] outgoing_message;
     Some (m\<lparr>current_message_position := current_message_position m + 8,
             used_message_length := used_message_length m + 8\<rparr>)
   }"

text \<open>
  Moving the position by a signed amount; a pointer outside of the buffer (or its
  one-past-the-end position) is undefined in C.
\<close>

definition MoveMessageNOctets :: "int \<Rightarrow> enip_message \<Rightarrow> enip_message option" where
  "MoveMessageNOctets amount_of_bytes_moved m =
     (let p = int (current_message_position m) + amount_of_bytes_moved
      in if 0 \<le> p \<and> p \<le> int (length (message_buffer m))
         then Some (m\<lparr>current_message_position := nat p,
                      used_message_length := used_message_length m + of_int amount_of_bytes_moved\<rparr>)
         else None)"

definition FillNextNMessageOctetsWith :: "octet \<Rightarrow> nat \<Rightarrow> enip_message \<Rightarrow> enip_message option" where
  "FillNextNMessageOctetsWith v amount_of_bytes_written outgoing_message =
     put_octets (replicate amount_of_bytes_written v) outgoing_message"

definition FillNextNMessageOctetsWithValueAndMoveToNextPosition ::
    "octet \<Rightarrow> nat \<Rightarrow> enip_message \<Rightarrow> enip_message option" where
  "FillNextNMessageOctetsWithValueAndMoveToNextPosition v amount_of_filled_bytes outgoing_message = do {
     m \<leftarrow> FillNextNMessageOctetsWith v amount_of_filled_bytes outgoing_message;
     MoveMessageNOctets (int amount_of_filled_bytes) m
   }"

subsection \<open>Readers\<close>

fun GetSintFromMessage :: "octet list \<Rightarrow> (CipSint \<times> octet list) option" where
  "GetSintFromMessage (b0 # bs) = Some (b0, bs)"
| "GetSintFromMessage _ = None"

fun GetByteFromMessage :: "octet list \<Rightarrow> (CipByte \<times> octet list) option" where
  "GetByteFromMessage (b0 # bs) = Some (b0, bs)"
| "GetByteFromMessage _ = None"

fun GetUsintFromMessage :: "octet list \<Rightarrow> (CipUsint \<times> octet list) option" where
  "GetUsintFromMessage (b0 # bs) = Some (b0, bs)"
| "GetUsintFromMessage _ = None"

fun GetBoolFromMessage :: "octet list \<Rightarrow> (CipBool \<times> octet list) option" where
  "GetBoolFromMessage (b0 # bs) = Some (b0, bs)"
| "GetBoolFromMessage _ = None"

fun GetIntFromMessage :: "octet list \<Rightarrow> (CipInt \<times> octet list) option" where
  "GetIntFromMessage (b0 # b1 # bs) = Some (ucast b0 OR push_bit 8 (ucast b1), bs)"
| "GetIntFromMessage _ = None"

fun GetUintFromMessage :: "octet list \<Rightarrow> (CipUint \<times> octet list) option" where
  "GetUintFromMessage (b0 # b1 # bs) = Some (ucast b0 OR push_bit 8 (ucast b1), bs)"
| "GetUintFromMessage _ = None"

fun GetWordFromMessage :: "octet list \<Rightarrow> (CipWord \<times> octet list) option" where
  "GetWordFromMessage (b0 # b1 # bs) = Some (ucast b0 OR push_bit 8 (ucast b1), bs)"
| "GetWordFromMessage _ = None"

fun GetDintFromMessage :: "octet list \<Rightarrow> (CipDint \<times> octet list) option" where
  "GetDintFromMessage (b0 # b1 # b2 # b3 # bs) =
     Some (ucast b0 OR push_bit 8 (ucast b1) OR push_bit 16 (ucast b2) OR push_bit 24 (ucast b3), bs)"
| "GetDintFromMessage _ = None"

fun GetUdintFromMessage :: "octet list \<Rightarrow> (CipUdint \<times> octet list) option" where
  "GetUdintFromMessage (b0 # b1 # b2 # b3 # bs) =
     Some (ucast b0 OR push_bit 8 (ucast b1) OR push_bit 16 (ucast b2) OR push_bit 24 (ucast b3), bs)"
| "GetUdintFromMessage _ = None"

fun GetDwordFromMessage :: "octet list \<Rightarrow> (CipDword \<times> octet list) option" where
  "GetDwordFromMessage (b0 # b1 # b2 # b3 # bs) =
     Some (ucast b0 OR push_bit 8 (ucast b1) OR push_bit 16 (ucast b2) OR push_bit 24 (ucast b3), bs)"
| "GetDwordFromMessage _ = None"

text \<open>The 64 bit reader shifts its \<^emph>\<open>first\<close> octet to the top of the result.\<close>

fun GetLintFromMessage :: "octet list \<Rightarrow> (CipUlint \<times> octet list) option" where
  "GetLintFromMessage (b0 # b1 # b2 # b3 # b4 # b5 # b6 # b7 # bs) =
     Some ((push_bit 56 (ucast b0) AND 0xFF00000000000000) +
           (push_bit 48 (ucast b1) AND 0x00FF000000000000) +
           (push_bit 40 (ucast b2) AND 0x0000FF0000000000) +
           (push_bit 32 (ucast b3) AND 0x000000FF00000000) +
           (push_bit 24 (ucast b4) AND 0x00000000FF000000) +
           (push_bit 16 (ucast b5) AND 0x0000000000FF0000) +
           (push_bit 8 (ucast b6) AND 0x000000000000FF00) +
           (ucast b7 AND 0x00000000000000FF), bs)"
| "GetLintFromMessage _ = None"

subsection \<open>Endianess of the platform\<close>

datatype OpenerEndianess =
  kOpenerEndianessUnknown | kOpENerEndianessLittle | kOpENerEndianessBig

text \<open>
  \<^verbatim>\<open>DetermineEndianess\<close> inspects the first octet in memory of the integer 1; that
  octet is a fact about the platform and an argument of the model.
\<close>

definition DetermineEndianess :: "octet \<Rightarrow> OpenerEndianess" where
  "DetermineEndianess first_octet_of_one =
     (if first_octet_of_one = 1 then kOpENerEndianessLittle else kOpENerEndianessBig)"

fun GetEndianess :: "OpenerEndianess \<Rightarrow> int" where
  "GetEndianess kOpenerEndianessUnknown = -1"
| "GetEndianess kOpENerEndianessLittle = 0"
| "GetEndianess kOpENerEndianessBig = 1"

text \<open>The socket API's \<^verbatim>\<open>htons\<close> and \<^verbatim>\<open>htonl\<close>, which depend on the platform.\<close>

definition htons :: "OpenerEndianess \<Rightarrow> 16 word \<Rightarrow> 16 word" where
  "htons e x = (if e = kOpENerEndianessLittle then le_word (rev (le_octets 2 x)) else x)"

definition htonl :: "OpenerEndianess \<Rightarrow> 32 word \<Rightarrow> 32 word" where
  "htonl e x = (if e = kOpENerEndianessLittle then le_word (rev (le_octets 4 x)) else x)"

definition AF_INET :: "16 word" where
  "AF_INET = 2"

definition EncapsulateIpAddress ::
    "OpenerEndianess \<Rightarrow> 16 word \<Rightarrow> 32 word \<Rightarrow> enip_message \<Rightarrow> enip_message option" where
  "EncapsulateIpAddress g_opener_platform_endianess port address outgoing_message =
     (if kOpENerEndianessLittle = g_opener_platform_endianess then do {
        m \<leftarrow> AddIntToMessage (htons g_opener_platform_endianess AF_INET) outgoing_message;
        m \<leftarrow> AddIntToMessage port m;
        AddDintToMessage address m
      }
      else if kOpENerEndianessBig = g_opener_platform_endianess then do {
        m \<leftarrow> AddIntToMessage (htons g_opener_platform_endianess AF_INET) outgoing_message;
        m \<leftarrow> AddSintToMessage (ucast (drop_bit 8 port)) m;
        m \<leftarrow> AddSintToMessage (ucast port) m;
        m \<leftarrow> AddSintToMessage (ucast address) m;
        m \<leftarrow> AddSintToMessage (ucast (drop_bit 8 address)) m;
        m \<leftarrow> AddSintToMessage (ucast (drop_bit 16 address)) m;
        AddSintToMessage (ucast (drop_bit 24 address)) m
      }
      else None)"

subsection \<open>The buffer as a growing octet string\<close>

text \<open>
  Every writer appends a run of octets. \<open>emit\<close> is that common effect, \<open>msg_content\<close>
  the octet string written so far, and \<open>wf_msg\<close> the invariant of a message.
\<close>

definition emit :: "octet list \<Rightarrow> enip_message \<Rightarrow> enip_message option" where
  "emit bs outgoing_message = do {
     m \<leftarrow> put_octets bs outgoing_message;
     Some (m\<lparr>current_message_position := current_message_position m + length bs,
             used_message_length := used_message_length m + of_nat (length bs)\<rparr>)
   }"

definition msg_content :: "enip_message \<Rightarrow> octet list" where
  "msg_content m = take (current_message_position m) (message_buffer m)"

definition wf_msg :: "enip_message \<Rightarrow> bool" where
  "wf_msg m \<longleftrightarrow> length (message_buffer m) = PC_OPENER_ETHERNET_BUFFER_SIZE
     \<and> current_message_position m \<le> PC_OPENER_ETHERNET_BUFFER_SIZE
     \<and> used_message_length m = of_nat (current_message_position m)"

definition msg_room :: "enip_message \<Rightarrow> nat" where
  "msg_room m = length (message_buffer m) - current_message_position m"

lemma le_octets_1: "le_octets (Suc 0) (x :: 8 word) = [x]"
  by (simp add: le_octets_Suc)

lemma le_octets_2: "le_octets 2 x = [ucast x, ucast (drop_bit 8 x)]"
  by (simp add: le_octets_Suc numeral_eq_Suc)

lemma le_octets_4:
  "le_octets 4 x = [ucast x, ucast (drop_bit 8 x), ucast (drop_bit 16 x), ucast (drop_bit 24 x)]"
  by (simp add: le_octets_def upt_rec)

lemma le_octets_8:
  "le_octets 8 x = [ucast x, ucast (drop_bit 8 x), ucast (drop_bit 16 x), ucast (drop_bit 24 x),
     ucast (drop_bit 32 x), ucast (drop_bit 40 x), ucast (drop_bit 48 x), ucast (drop_bit 56 x)]"
  by (simp add: le_octets_def upt_rec)

lemma AddSint_emit [codec_simps]: "AddSintToMessage x = emit [x]"
  by (rule ext) (simp add: AddSintToMessage_def emit_def)

lemma AddInt_emit [codec_simps]: "AddIntToMessage x = emit (le_octets 2 x)"
  by (rule ext) (simp add: AddIntToMessage_def emit_def le_octets_2 [symmetric])

lemma AddDint_emit [codec_simps]: "AddDintToMessage x = emit (le_octets 4 x)"
  by (rule ext) (simp add: AddDintToMessage_def emit_def le_octets_4 [symmetric])

lemma AddLint_emit [codec_simps]: "AddLintToMessage x = emit (le_octets 8 x)"
  by (rule ext) (simp add: AddLintToMessage_def emit_def le_octets_8 [symmetric])

lemma emit_Nil [simp]: "current_message_position m \<le> length (message_buffer m) \<Longrightarrow> emit [] m = Some m"
  by (simp add: emit_def put_octets_def)

lemma emit_emit [codec_simps]: "Option.bind (emit bs m) (emit cs) = emit (bs @ cs) m"
  by (auto simp: emit_def put_octets_def splice_at_append algebra_simps)

lemma emit_bind [codec_simps]:
  "Option.bind (emit bs m) (\<lambda>m. Option.bind (emit cs m) f) = Option.bind (emit (bs @ cs) m) f"
  by (simp add: emit_emit [symmetric] bind_assoc)

lemma emit_emit_eta [codec_simps]:
  "Option.bind (emit bs m) (\<lambda>m. emit cs m) = emit (bs @ cs) m"
  by (simp add: emit_emit [symmetric])

lemma emit_None_iff:
  "emit bs m = None \<longleftrightarrow> length (message_buffer m) < current_message_position m + length bs"
  by (auto simp: emit_def put_octets_def)

lemma emit_fits:
  assumes "current_message_position m + length bs \<le> length (message_buffer m)"
  obtains m' where "emit bs m = Some m'" "msg_content m' = msg_content m @ bs"
    "length (message_buffer m') = length (message_buffer m)"
    "current_message_position m' = current_message_position m + length bs"
    "drop (current_message_position m') (message_buffer m') =
       drop (current_message_position m') (message_buffer m)"
    "used_message_length m' = used_message_length m + of_nat (length bs)"
proof -
  let ?m = "m\<lparr>message_buffer := splice_at (current_message_position m) bs (message_buffer m),
    current_message_position := current_message_position m + length bs,
    used_message_length := used_message_length m + of_nat (length bs)\<rparr>"
  have "emit bs m = Some ?m"
    using assms by (simp add: emit_def put_octets_def)
  then show thesis
    by (rule that) (use assms in \<open>simp_all add: msg_content_def take_splice_at_end drop_splice_at_end\<close>)
qed

lemma emit_SomeD:
  assumes "emit bs m = Some m'"
  shows "msg_content m' = msg_content m @ bs"
    and "length (message_buffer m') = length (message_buffer m)"
    and "current_message_position m' = current_message_position m + length bs"
    and "current_message_position m' \<le> length (message_buffer m')"
    and "used_message_length m' = used_message_length m + of_nat (length bs)"
  using assms by (auto simp: emit_def put_octets_def msg_content_def take_splice_at_end split: if_splits)

lemma emit_wf: "wf_msg m \<Longrightarrow> emit bs m = Some m' \<Longrightarrow> wf_msg m'"
  using emit_SomeD(2-5) [of bs m m'] by (simp add: wf_msg_def)

lemma msg_room_fits:
  "wf_msg m \<Longrightarrow> n \<le> msg_room m \<longleftrightarrow> current_message_position m + n \<le> length (message_buffer m)"
  unfolding wf_msg_def msg_room_def by linarith

lemma emit_wf_fits:
  assumes "wf_msg m" and "length bs \<le> msg_room m"
  shows "\<exists>m'. emit bs m = Some m' \<and> wf_msg m' \<and> msg_content m' = msg_content m @ bs
           \<and> msg_room m' = msg_room m - length bs"
proof -
  have "current_message_position m + length bs \<le> length (message_buffer m)"
    using assms by (simp add: msg_room_fits)
  then obtain m' where m': "emit bs m = Some m'" "msg_content m' = msg_content m @ bs"
      "length (message_buffer m') = length (message_buffer m)"
      "current_message_position m' = current_message_position m + length bs"
    by (rule emit_fits)
  moreover have "wf_msg m'" using assms(1) m'(1) by (rule emit_wf)
  ultimately show ?thesis by (auto simp: msg_room_def)
qed

lemma wf_msg_init [simp]: "wf_msg (InitializeENIPMessage m)"
  by (simp add: wf_msg_def InitializeENIPMessage_def)

lemma msg_content_init [simp]: "msg_content (InitializeENIPMessage m) = []"
  by (simp add: msg_content_def InitializeENIPMessage_def)

lemma msg_room_init [simp]: "msg_room (InitializeENIPMessage m) = PC_OPENER_ETHERNET_BUFFER_SIZE"
  by (simp add: msg_room_def InitializeENIPMessage_def)

lemma length_msg_content: "wf_msg m \<Longrightarrow> length (msg_content m) = current_message_position m"
  by (simp add: msg_content_def wf_msg_def)

lemma unat_used_message_length:
  "wf_msg m \<Longrightarrow> unat (used_message_length m) = length (msg_content m)"
  by (simp add: length_msg_content wf_msg_def unat_of_nat PC_OPENER_ETHERNET_BUFFER_SIZE_def)

lemma Fill_and_move_emit [codec_simps]:
  "FillNextNMessageOctetsWithValueAndMoveToNextPosition v n = emit (replicate n v)"
  by (rule ext)
    (auto simp: FillNextNMessageOctetsWithValueAndMoveToNextPosition_def FillNextNMessageOctetsWith_def
      MoveMessageNOctets_def emit_def put_octets_def Let_def nat_add_distrib)

text \<open>Every operation of the message buffer, as an \<open>emit\<close>.\<close>

lemmas message_ops = AddSint_emit AddInt_emit AddDint_emit AddLint_emit Fill_and_move_emit
  emit_bind emit_emit emit_emit_eta

subsection \<open>The contract of a reader and its encoding\<close>

locale message_codec =
  fixes enc :: "'a \<Rightarrow> octet list"
    and dec :: "octet list \<Rightarrow> ('a \<times> octet list) option"
    and width :: nat
  assumes enc_length: "length (enc x) = width"
    and dec_enc: "dec (enc x @ bs) = Some (x, bs)"
    and dec_Some: "dec bs = Some (x, rs) \<Longrightarrow> bs = enc x @ rs"
    and dec_total: "width \<le> length bs \<Longrightarrow> dec bs \<noteq> None"
begin

lemma dec_consumes: "dec bs = Some (x, rs) \<Longrightarrow> width \<le> length bs \<and> rs = drop width bs"
  using dec_Some enc_length by force

lemma dec_None_iff: "dec bs = None \<longleftrightarrow> length bs < width"
proof
  assume "dec bs = None"
  then show "length bs < width"
    using dec_total leI by blast
next
  assume "length bs < width"
  then show "dec bs = None"
    using dec_consumes by (metis not_le option.exhaust surj_pair)
qed

lemma enc_inj: "enc x = enc y \<Longrightarrow> x = y"
  using dec_enc by (metis option.inject prod.inject)

text \<open>Reading \<open>n\<close> values one after the other.\<close>

primrec dec_many :: "nat \<Rightarrow> octet list \<Rightarrow> ('a list \<times> octet list) option" where
  "dec_many 0 bs = Some ([], bs)"
| "dec_many (Suc n) bs = (case dec bs of None \<Rightarrow> None
     | Some (x, rs) \<Rightarrow> (case dec_many n rs of None \<Rightarrow> None | Some (xs, qs) \<Rightarrow> Some (x # xs, qs)))"

lemma dec_many_enc: "dec_many (length xs) (concat (map enc xs) @ bs) = Some (xs, bs)"
  by (induction xs) (simp_all add: dec_enc)

end

text \<open>
  A writer of the same type appends the encoding; what it wrote is read back from the
  position it wrote to.
\<close>

locale message_writer = message_codec +
  fixes add :: "'a \<Rightarrow> enip_message \<Rightarrow> enip_message option"
  assumes add_emit: "add x = emit (enc x)"
begin

lemma add_wf: "wf_msg m \<Longrightarrow> add x m = Some m' \<Longrightarrow> wf_msg m'"
  by (simp add: add_emit emit_wf)

lemma add_None_iff: "wf_msg m \<Longrightarrow> add x m = None \<longleftrightarrow> msg_room m < width"
  by (auto simp: add_emit emit_None_iff enc_length msg_room_def wf_msg_def)

lemma add_then_read:
  assumes "wf_msg m" and "width \<le> msg_room m"
  shows "\<exists>m'. add x m = Some m' \<and> wf_msg m' \<and> msg_content m' = msg_content m @ enc x
           \<and> dec (drop (current_message_position m) (message_buffer m')) =
               Some (x, drop (current_message_position m') (message_buffer m'))"
proof -
  have fits: "current_message_position m + length (enc x) \<le> length (message_buffer m)"
    using assms by (simp add: msg_room_fits enc_length)
  then obtain m' where m': "emit (enc x) m = Some m'" "msg_content m' = msg_content m @ enc x"
      "length (message_buffer m') = length (message_buffer m)"
      "current_message_position m' = current_message_position m + length (enc x)"
    by (rule emit_fits)
  have "message_buffer m' = msg_content m' @ drop (current_message_position m') (message_buffer m')"
    by (simp add: msg_content_def)
  then have "message_buffer m' = msg_content m @ enc x @
      drop (current_message_position m') (message_buffer m')"
    using m'(2) by simp
  then have "drop (current_message_position m) (message_buffer m') =
      enc x @ drop (current_message_position m') (message_buffer m')"
    using length_msg_content [OF assms(1)] by (metis append_eq_conv_conj)
  then show ?thesis
    using m' emit_wf [OF assms(1)] by (auto simp: add_emit dec_enc)
qed

end

subsection \<open>The readers and writers of the code meet the contract\<close>

lemma le_codec:
  assumes "LENGTH('a::len) = 8 * n"
    and "\<And>bs. dec bs = (if length bs < n then None else Some (le_word (take n bs) :: 'a word, drop n bs))"
  shows "message_codec (le_octets n) dec n"
proof
  fix x :: "'a word" and bs
  show "length (le_octets n x) = n" by simp
  show "dec (le_octets n x @ bs) = Some (x, bs)"
    using assms by (simp add: le_word_octets)
next
  fix x :: "'a word" and bs rs
  assume "dec bs = Some (x, rs)"
  then have "n \<le> length bs" "x = le_word (take n bs)" "rs = drop n bs"
    using assms(2) by (simp_all split: if_splits)
  then show "bs = le_octets n x @ rs"
    using assms(1) by (simp add: le_octets_word)
next
  fix bs :: "octet list"
  assume "n \<le> length bs"
  then show "dec bs \<noteq> None"
    using assms(2) by simp
qed

lemma length_ge_Suc: "\<not> length bs < Suc n \<longleftrightarrow> (\<exists>b rs. bs = b # rs \<and> \<not> length rs < n)"
  by (cases bs) auto

lemma GetUsint_le:
  "GetUsintFromMessage bs = (if length bs < 1 then None else Some (le_word (take 1 bs), drop 1 bs))"
  by (cases bs rule: GetUsintFromMessage.cases) simp_all

lemma GetUint_le:
  "GetUintFromMessage bs = (if length bs < 2 then None else Some (le_word (take 2 bs), drop 2 bs))"
  by (cases bs rule: GetUintFromMessage.cases) (simp_all add: numeral_2_eq_2)

lemma GetUdint_le:
  "GetUdintFromMessage bs = (if length bs < 4 then None else Some (le_word (take 4 bs), drop 4 bs))"
  by (cases bs rule: GetUdintFromMessage.cases)
    (simp_all add: push_bit_or push_bit_push_bit or.assoc)

text \<open>The remaining readers differ in the name of the result type only.\<close>

lemma Get_aliases [codec_simps]:
  "GetSintFromMessage = GetUsintFromMessage" "GetByteFromMessage = GetUsintFromMessage"
  "GetBoolFromMessage = GetUsintFromMessage" "GetIntFromMessage = GetUintFromMessage"
  "GetWordFromMessage = GetUintFromMessage" "GetDintFromMessage = GetUdintFromMessage"
  "GetDwordFromMessage = GetUdintFromMessage"
proof -
  show "GetSintFromMessage = GetUsintFromMessage"
    by (rule ext, case_tac x rule: GetUsintFromMessage.cases) simp_all
  show "GetByteFromMessage = GetUsintFromMessage"
    by (rule ext, case_tac x rule: GetUsintFromMessage.cases) simp_all
  show "GetBoolFromMessage = GetUsintFromMessage"
    by (rule ext, case_tac x rule: GetUsintFromMessage.cases) simp_all
  show "GetIntFromMessage = GetUintFromMessage"
    by (rule ext, case_tac x rule: GetUintFromMessage.cases) simp_all
  show "GetWordFromMessage = GetUintFromMessage"
    by (rule ext, case_tac x rule: GetUintFromMessage.cases) simp_all
  show "GetDintFromMessage = GetUdintFromMessage"
    by (rule ext, case_tac x rule: GetUdintFromMessage.cases) simp_all
  show "GetDwordFromMessage = GetUdintFromMessage"
    by (rule ext, case_tac x rule: GetUdintFromMessage.cases) simp_all
qed

interpretation usint: message_writer "le_octets 1" GetUsintFromMessage 1 AddSintToMessage
  by (intro message_writer.intro le_codec message_writer_axioms.intro)
    (simp_all add: GetUsint_le AddSint_emit le_octets_1)

interpretation uint: message_writer "le_octets 2" GetUintFromMessage 2 AddIntToMessage
  by (intro message_writer.intro le_codec message_writer_axioms.intro)
    (simp_all add: GetUint_le AddInt_emit)

interpretation udint: message_writer "le_octets 4" GetUdintFromMessage 4 AddDintToMessage
  by (intro message_writer.intro le_codec message_writer_axioms.intro)
    (simp_all add: GetUdint_le AddDint_emit)

subsection \<open>The 64 bit pair\<close>

lemma ucast_octet_mask: "ucast (b :: octet) AND mask 8 = (ucast b :: 64 word)"
  by (rule bit_word_eqI) (auto simp: bit_simps dest: bit_imp_le_length)

lemma and_octet_mask:
  "push_bit n (ucast (b :: octet)) AND push_bit n (mask 8) = (push_bit n (ucast b) :: 64 word)"
  by (simp add: push_bit_and [symmetric] ucast_octet_mask)

lemma octet_masks:
  "(0xFF00000000000000 :: 64 word) = push_bit 56 (mask 8)"
  "(0x00FF000000000000 :: 64 word) = push_bit 48 (mask 8)"
  "(0x0000FF0000000000 :: 64 word) = push_bit 40 (mask 8)"
  "(0x000000FF00000000 :: 64 word) = push_bit 32 (mask 8)"
  "(0x00000000FF000000 :: 64 word) = push_bit 24 (mask 8)"
  "(0x0000000000FF0000 :: 64 word) = push_bit 16 (mask 8)"
  "(0x000000000000FF00 :: 64 word) = push_bit 8 (mask 8)"
  "(0x00000000000000FF :: 64 word) = push_bit 0 (mask 8)"
  by (simp_all add: mask_numeral)

lemma shifted_octet_add:
  "push_bit (8 + n) x + push_bit n (ucast (b :: octet)) =
     (push_bit n (ucast b OR push_bit 8 x) :: 'a::len word)"
proof -
  have "push_bit (8 + n) x + push_bit n (ucast b) = push_bit (8 + n) x OR (push_bit n (ucast b) :: 'a word)"
    by (rule disjunctive_add) (auto simp: bit_simps dest: bit_imp_le_length)
  then show ?thesis
    by (simp add: push_bit_or push_bit_push_bit or.commute add.commute)
qed

lemma GetLint_be:
  "GetLintFromMessage bs = (if length bs < 8 then None
     else Some (le_word (rev (take 8 bs)), drop 8 bs))"
proof (cases bs rule: GetLintFromMessage.cases)
  case (1 b0 b1 b2 b3 b4 b5 b6 b7 rs)
  note add = shifted_octet_add [where 'a = 64]
  have "push_bit 56 (ucast b0) + push_bit 48 (ucast b1) + push_bit 40 (ucast b2) +
      push_bit 32 (ucast b3) + push_bit 24 (ucast b4) + push_bit 16 (ucast b5) +
      push_bit 8 (ucast b6) + ucast b7 = (le_word [b7, b6, b5, b4, b3, b2, b1, b0] :: 64 word)"
    by (simp only: add [of 40, simplified arith_simps]
        add [of 32, simplified arith_simps] add [of 24, simplified arith_simps]
        add [of 16, simplified arith_simps] add [of 8, simplified arith_simps]
        add [of 48, simplified arith_simps] add [of 0, simplified push_bit_0_id id_apply add_0_right]
        le_word.simps push_bit_of_0 or.right_neutral)
  with 1 show ?thesis
    unfolding 1 GetLintFromMessage.simps octet_masks
    by (simp add: and_octet_mask ucast_octet_mask)
qed simp_all

subsection \<open>Properties\<close>

text \<open>
  writing a 16 bit and then a 32 bit value into a well-formed message with enough
  room appends exactly the little-endian octets of the two values, keeps the message
  well formed, and the readers return both values in order from the position where
  writing began.
\<close>

theorem message_uint_udint_roundtrip:
  assumes "wf_msg m" and "6 \<le> msg_room m"
  shows "\<exists>m'. Option.bind (AddIntToMessage x m) (AddDintToMessage y) = Some m'
    \<and> wf_msg m'
    \<and> msg_content m' = msg_content m @ le_octets 2 x @ le_octets 4 y
    \<and> Option.bind (GetUintFromMessage (drop (current_message_position m) (message_buffer m')))
        (\<lambda>(a, rest). map_option (\<lambda>(b, rest'). (a, b, rest')) (GetUdintFromMessage rest))
      = Some (x, y, drop (current_message_position m') (message_buffer m'))"
proof -
  let ?bs = "le_octets 2 x @ le_octets 4 y"
  have "length ?bs \<le> msg_room m" using assms(2) by simp
  then obtain m' where m': "emit ?bs m = Some m'" "wf_msg m'" "msg_content m' = msg_content m @ ?bs"
    using emit_wf_fits [OF assms(1)] by blast
  have "message_buffer m' = msg_content m' @ drop (current_message_position m') (message_buffer m')"
    by (simp add: msg_content_def)
  then have "drop (current_message_position m) (message_buffer m') =
      le_octets 2 x @ le_octets 4 y @ drop (current_message_position m') (message_buffer m')"
    using m'(3) length_msg_content [OF assms(1)] by (metis append.assoc append_eq_conv_conj)
  then show ?thesis
    using m' by (simp add: AddInt_emit AddDint_emit emit_emit uint.dec_enc udint.dec_enc)
qed

lemma message_uint_udint_roundtrip_witness:
  "\<exists>m'. Option.bind (AddIntToMessage 0x1234 (InitializeENIPMessage \<lparr>message_buffer = [], current_message_position = 0, used_message_length = 0\<rparr>)) (AddDintToMessage 0xDEADBEEF) = Some m'
    \<and> msg_content m' = [0x34, 0x12, 0xEF, 0xBE, 0xAD, 0xDE]"
  using message_uint_udint_roundtrip
    [of "InitializeENIPMessage \<lparr>message_buffer = [], current_message_position = 0, used_message_length = 0\<rparr>"
      "0x1234" "0xDEADBEEF"]
  by (auto simp: PC_OPENER_ETHERNET_BUFFER_SIZE_def le_octets_2 le_octets_4)

text \<open>
  the 64 bit reader is not the inverse of the 64 bit writer. Reading back the
  octets that \<^verbatim>\<open>AddLintToMessage\<close> wrote yields the value with its eight octets
  reversed.
\<close>

theorem message_lint_byte_reversed:
  "\<exists>m'. AddLintToMessage x (InitializeENIPMessage m) = Some m'
    \<and> GetLintFromMessage (msg_content m') = Some (le_word (rev (le_octets 8 x)), [])"
proof -
  obtain m' where "emit (le_octets 8 x) (InitializeENIPMessage m) = Some m'"
      "msg_content m' = le_octets 8 x"
    using emit_wf_fits [OF wf_msg_init, of "le_octets 8 x" m]
    by (auto simp: PC_OPENER_ETHERNET_BUFFER_SIZE_def)
  then show ?thesis
    by (simp add: AddLint_emit GetLint_be)
qed

text \<open>
  The octets \<^verbatim>\<open>EncapsulateIpAddress\<close> appends for a host port and a host address that
  the caller converted to network byte order.
\<close>

definition be_octets :: "nat \<Rightarrow> 'a::len word \<Rightarrow> octet list" where
  "be_octets n x = rev (le_octets n x)"

lemma le_octets_swap:
  "le_octets 2 (le_word (rev (le_octets 2 x)) :: 16 word) = be_octets 2 x"
  "le_octets 4 (le_word (rev (le_octets 4 y)) :: 32 word) = be_octets 4 y"
  by (simp_all add: le_octets_word be_octets_def)

text \<open>
  the socket address that \<^verbatim>\<open>EncapsulateIpAddress\<close> writes. On a little-endian
  platform it is the big-endian sockaddr the protocol asks for; on a big-endian
  platform the address family and the IP address come out in the opposite octet
  order; before \<^verbatim>\<open>DetermineEndianess\<close> has run the process exits.
\<close>

theorem EncapsulateIpAddress_octets:
  "EncapsulateIpAddress kOpENerEndianessLittle (htons kOpENerEndianessLittle port)
       (htonl kOpENerEndianessLittle address) m =
     emit (be_octets 2 AF_INET @ be_octets 2 port @ be_octets 4 address) m
   \<and> EncapsulateIpAddress kOpENerEndianessBig (htons kOpENerEndianessBig port)
       (htonl kOpENerEndianessBig address) m =
     emit (le_octets 2 AF_INET @ be_octets 2 port @ le_octets 4 address) m
   \<and> EncapsulateIpAddress kOpenerEndianessUnknown p a m = None"
proof (intro conjI)
  show "EncapsulateIpAddress kOpENerEndianessLittle (htons kOpENerEndianessLittle port)
       (htonl kOpENerEndianessLittle address) m =
     emit (be_octets 2 AF_INET @ be_octets 2 port @ be_octets 4 address) m"
    by (simp add: EncapsulateIpAddress_def htons_def htonl_def AddInt_emit AddDint_emit
        le_octets_swap emit_emit)
  have "be_octets 2 port = [ucast (drop_bit 8 port), ucast port]"
    by (simp add: be_octets_def le_octets_2)
  then show "EncapsulateIpAddress kOpENerEndianessBig (htons kOpENerEndianessBig port)
       (htonl kOpENerEndianessBig address) m =
     emit (le_octets 2 AF_INET @ be_octets 2 port @ le_octets 4 address) m"
    by (simp add: EncapsulateIpAddress_def htons_def htonl_def AddInt_emit AddSint_emit
        le_octets_4 emit_emit)
  show "EncapsulateIpAddress kOpenerEndianessUnknown p a m = None"
    by (simp add: EncapsulateIpAddress_def)
qed

end
