(* ===== verification/CipTypes.thy ===== *)
theory CipTypes
  imports EndianConv
begin

text \<open>
  The CIP data types, service codes, attribute flags and error codes
  (\<^verbatim>\<open>cip/ciptypes.h\<close>, \<^verbatim>\<open>cip/ciperror.h\<close>), the request and response of the message
  router, and \<^verbatim>\<open>GetCipDataTypeLength\<close> (\<^verbatim>\<open>cip/ciptypes.c\<close>). The C enumerations are
  stored in octets and compared with arbitrary received octets, so their members are
  abbreviations of octet constants.
\<close>

subsection \<open>Data type codes\<close>

abbreviation (input) kCipAny :: octet where "kCipAny \<equiv> 0x00"
abbreviation (input) kCipBool :: octet where "kCipBool \<equiv> 0xC1"
abbreviation (input) kCipSint :: octet where "kCipSint \<equiv> 0xC2"
abbreviation (input) kCipInt :: octet where "kCipInt \<equiv> 0xC3"
abbreviation (input) kCipDint :: octet where "kCipDint \<equiv> 0xC4"
abbreviation (input) kCipLint :: octet where "kCipLint \<equiv> 0xC5"
abbreviation (input) kCipUsint :: octet where "kCipUsint \<equiv> 0xC6"
abbreviation (input) kCipUint :: octet where "kCipUint \<equiv> 0xC7"
abbreviation (input) kCipUdint :: octet where "kCipUdint \<equiv> 0xC8"
abbreviation (input) kCipUlint :: octet where "kCipUlint \<equiv> 0xC9"
abbreviation (input) kCipReal :: octet where "kCipReal \<equiv> 0xCA"
abbreviation (input) kCipLreal :: octet where "kCipLreal \<equiv> 0xCB"
abbreviation (input) kCipStime :: octet where "kCipStime \<equiv> 0xCC"
abbreviation (input) kCipDate :: octet where "kCipDate \<equiv> 0xCD"
abbreviation (input) kCipTimeOfDay :: octet where "kCipTimeOfDay \<equiv> 0xCE"
abbreviation (input) kCipDateAndTime :: octet where "kCipDateAndTime \<equiv> 0xCF"
abbreviation (input) kCipString :: octet where "kCipString \<equiv> 0xD0"
abbreviation (input) kCipByte :: octet where "kCipByte \<equiv> 0xD1"
abbreviation (input) kCipWord :: octet where "kCipWord \<equiv> 0xD2"
abbreviation (input) kCipDword :: octet where "kCipDword \<equiv> 0xD3"
abbreviation (input) kCipLword :: octet where "kCipLword \<equiv> 0xD4"
abbreviation (input) kCipString2 :: octet where "kCipString2 \<equiv> 0xD5"
abbreviation (input) kCipFtime :: octet where "kCipFtime \<equiv> 0xD6"
abbreviation (input) kCipLtime :: octet where "kCipLtime \<equiv> 0xD7"
abbreviation (input) kCipItime :: octet where "kCipItime \<equiv> 0xD8"
abbreviation (input) kCipStringN :: octet where "kCipStringN \<equiv> 0xD9"
abbreviation (input) kCipShortString :: octet where "kCipShortString \<equiv> 0xDA"
abbreviation (input) kCipTime :: octet where "kCipTime \<equiv> 0xDB"
abbreviation (input) kCipEpath :: octet where "kCipEpath \<equiv> 0xDC"
abbreviation (input) kCipEngUnit :: octet where "kCipEngUnit \<equiv> 0xDD"
abbreviation (input) kCipUsintUsint :: octet where "kCipUsintUsint \<equiv> 0xA0"
abbreviation (input) kCipUdintUdintUdintUdintUdintString :: octet where "kCipUdintUdintUdintUdintUdintString \<equiv> 0xA1"
abbreviation (input) kCip6Usint :: octet where "kCip6Usint \<equiv> 0xA2"
abbreviation (input) kCipMemberList :: octet where "kCipMemberList \<equiv> 0xA3"
abbreviation (input) kCipByteArray :: octet where "kCipByteArray \<equiv> 0xA4"
abbreviation (input) kCipStringI :: octet where "kCipStringI \<equiv> 0xF1"

subsection \<open>Service codes and attribute flags\<close>

abbreviation (input) kGetAttributeAll :: octet where "kGetAttributeAll \<equiv> 0x01"
abbreviation (input) kSetAttributeAll :: octet where "kSetAttributeAll \<equiv> 0x02"
abbreviation (input) kGetAttributeList :: octet where "kGetAttributeList \<equiv> 0x03"
abbreviation (input) kSetAttributeList :: octet where "kSetAttributeList \<equiv> 0x04"
abbreviation (input) kReset :: octet where "kReset \<equiv> 0x05"
abbreviation (input) kCreate :: octet where "kCreate \<equiv> 0x08"
abbreviation (input) kDelete :: octet where "kDelete \<equiv> 0x09"
abbreviation (input) kGetAttributeSingle :: octet where "kGetAttributeSingle \<equiv> 0x0E"
abbreviation (input) kSetAttributeSingle :: octet where "kSetAttributeSingle \<equiv> 0x10"
abbreviation (input) kForwardOpen :: octet where "kForwardOpen \<equiv> 0x54"
abbreviation (input) kLargeForwardOpen :: octet where "kLargeForwardOpen \<equiv> 0x5B"
abbreviation (input) kForwardClose :: octet where "kForwardClose \<equiv> 0x4E"
abbreviation (input) kUnconnectedSend :: octet where "kUnconnectedSend \<equiv> 0x52"
abbreviation (input) kGetConnectionOwner :: octet where "kGetConnectionOwner \<equiv> 0x5A"
abbreviation (input) kGetConnectionData :: octet where "kGetConnectionData \<equiv> 0x56"
abbreviation (input) kSearchConnectionData :: octet where "kSearchConnectionData \<equiv> 0x57"

abbreviation (input) kNotSetOrGetable :: octet where "kNotSetOrGetable \<equiv> 0x00"
abbreviation (input) kGetableAll :: octet where "kGetableAll \<equiv> 0x01"
abbreviation (input) kGetableSingle :: octet where "kGetableSingle \<equiv> 0x02"
abbreviation (input) kSetable :: octet where "kSetable \<equiv> 0x04"
abbreviation (input) kSetAndGetAble :: octet where "kSetAndGetAble \<equiv> 0x07"
abbreviation (input) kGetableSingleAndAll :: octet where "kGetableSingleAndAll \<equiv> 0x03"
abbreviation (input) kGetableAllDummy :: octet where "kGetableAllDummy \<equiv> 0x08"
abbreviation (input) kPreGetFunc :: octet where "kPreGetFunc \<equiv> 0x10"
abbreviation (input) kPostGetFunc :: octet where "kPostGetFunc \<equiv> 0x20"
abbreviation (input) kPreSetFunc :: octet where "kPreSetFunc \<equiv> 0x40"
abbreviation (input) kPostSetFunc :: octet where "kPostSetFunc \<equiv> 0x80"
abbreviation (input) kNvDataFunc :: octet where "kNvDataFunc \<equiv> 0x80"

subsection \<open>General status codes\<close>

abbreviation (input) kCipErrorSuccess :: octet where "kCipErrorSuccess \<equiv> 0x00"
abbreviation (input) kCipErrorConnectionFailure :: octet where "kCipErrorConnectionFailure \<equiv> 0x01"
abbreviation (input) kCipErrorResourceUnavailable :: octet where "kCipErrorResourceUnavailable \<equiv> 0x02"
abbreviation (input) kCipErrorInvalidParameterValue :: octet where "kCipErrorInvalidParameterValue \<equiv> 0x03"
abbreviation (input) kCipErrorPathSegmentError :: octet where "kCipErrorPathSegmentError \<equiv> 0x04"
abbreviation (input) kCipErrorPathDestinationUnknown :: octet where "kCipErrorPathDestinationUnknown \<equiv> 0x05"
abbreviation (input) kCipErrorPartialTransfer :: octet where "kCipErrorPartialTransfer \<equiv> 0x06"
abbreviation (input) kCipErrorServiceNotSupported :: octet where "kCipErrorServiceNotSupported \<equiv> 0x08"
abbreviation (input) kCipErrorInvalidAttributeValue :: octet where "kCipErrorInvalidAttributeValue \<equiv> 0x09"
abbreviation (input) kCipErrorAttributeListError :: octet where "kCipErrorAttributeListError \<equiv> 0x0A"
abbreviation (input) kCipErrorObjectStateConflict :: octet where "kCipErrorObjectStateConflict \<equiv> 0x0C"
abbreviation (input) kCipErrorAttributeNotSetable :: octet where "kCipErrorAttributeNotSetable \<equiv> 0x0E"
abbreviation (input) kCipErrorNotEnoughData :: octet where "kCipErrorNotEnoughData \<equiv> 0x13"
abbreviation (input) kCipErrorAttributeNotSupported :: octet where "kCipErrorAttributeNotSupported \<equiv> 0x14"
abbreviation (input) kCipErrorTooMuchData :: octet where "kCipErrorTooMuchData \<equiv> 0x15"
abbreviation (input) kCipErrorPathSizeInvalid :: octet where "kCipErrorPathSizeInvalid \<equiv> 0x26"
abbreviation (input) kCipErrorInvalidParameter :: octet where "kCipErrorInvalidParameter \<equiv> 0x20"
abbreviation (input) kCipErrorAttributeNotGettable :: octet where "kCipErrorAttributeNotGettable \<equiv> 0x2C"
abbreviation (input) kCipErrorInstanceNotDeletable :: octet where "kCipErrorInstanceNotDeletable \<equiv> 0x2D"

subsection \<open>Paths, requests and responses\<close>

record cip_epath =
  path_size :: CipUsint
  class_id :: CipUint
  instance_number :: CipInstanceNum
  attribute_number :: CipUint

record mr_request =
  req_service :: CipUsint
  request_path :: cip_epath
  request_data_size :: size_t
  req_data :: "octet list"

record mr_response =
  reply_service :: CipUsint
  reserved :: octet
  general_status :: CipUsint
  size_of_additional_status :: CipUsint
  additional_status :: "16 word list"
  message :: enip_message

subsection \<open>Length of a data type\<close>

text \<open>
  \<open>data\<close> is \<^term>\<open>None\<close> for a null pointer and otherwise the memory the pointer points
  to. \<^verbatim>\<open>GetIntFromMessage\<close> returns a signed 16 bit value and \<^verbatim>\<open>GetSintFromMessage\<close> a
  signed 8 bit value; the sum with the size of the length indicator is a C
  \<^verbatim>\<open>int\<close>, converted to \<^verbatim>\<open>size_t\<close>. The length field of a byte array is read in the
  host's order, here that of a little-endian host.
\<close>

definition GetCipDataTypeLength :: "octet \<Rightarrow> octet list option \<Rightarrow> size_t option" where
  "GetCipDataTypeLength type data =
     (if type \<in> {kCipBool, kCipSint, kCipUsint, kCipByte} then Some 1
      else if type \<in> {kCipInt, kCipUint, kCipWord, kCipUsintUsint, kCipItime, kCipDate, kCipEngUnit}
        then Some 2
      else if type \<in> {kCipDint, kCipUdint, kCipDword, kCipStime, kCipFtime, kCipTime, kCipReal,
          kCipTimeOfDay} then Some 4
      else if type \<in> {kCipLint, kCipUlint, kCipLreal, kCipLword, kCipLtime} then Some 8
      else if type = kCip6Usint then Some 6
      else if type \<in> {kCipString, kCipString2, kCipStringN} then
        (case data of None \<Rightarrow> Some 0
         | Some d \<Rightarrow> map_option (\<lambda>(v, _). of_int (sint v + 2)) (GetIntFromMessage d))
      else if type = kCipShortString then
        (case data of None \<Rightarrow> Some 0
         | Some d \<Rightarrow> map_option (\<lambda>(v, _). of_int (sint v + 1)) (GetSintFromMessage d))
      else if type = kCipEpath then
        (case data of None \<Rightarrow> Some 0
         | Some d \<Rightarrow> map_option (\<lambda>(v, _). of_int (sint v + 2)) (GetIntFromMessage d))
      else if type = kCipByteArray then
        (case data of None \<Rightarrow> Some 0
         | Some d \<Rightarrow> map_option (\<lambda>(v, _). ucast v) (GetUintFromMessage d))
      else Some 0)"

text \<open>
  The length of a short string attribute is the length indicator plus one only while
  the indicator is below 128; the same holds for strings below 32768. From there on
  the sign of the reader makes the result wrap to a value next to the top of the
  range of \<^verbatim>\<open>size_t\<close>.
\<close>

lemma short_string_length:
  "GetCipDataTypeLength kCipShortString (Some (l # d)) =
     Some (if unat l < 128 then of_nat (unat l + 1) else of_int (int (unat l) - 255))"
proof -
  have "GetCipDataTypeLength kCipShortString (Some (l # d)) = Some (of_int (sint l + 1))"
    by (simp add: GetCipDataTypeLength_def)
  then show ?thesis
    unfolding sint_cases [of l] by simp
qed

lemma string_length_field:
  "GetCipDataTypeLength kCipString (Some (le_octets 2 (l :: 16 word) @ d)) =
     Some (if unat l < 32768 then of_nat (unat l + 2) else of_int (int (unat l) - 65534))"
proof -
  have "GetCipDataTypeLength kCipString (Some (le_octets 2 l @ d)) = Some (of_int (sint l + 2))"
    by (simp add: GetCipDataTypeLength_def Get_aliases uint.dec_enc)
  then show ?thesis
    unfolding sint_cases [of l] by simp
qed

text \<open>
  the size of a variable-length attribute is computed through signed readers. For
  a short string of length \<open>l\<close> the computed size is \<open>l + 1\<close> when \<open>l < 128\<close>, but for
  every longer string it is a \<^verbatim>\<open>size_t\<close> beyond \<open>2 ^ 63\<close> (except for \<open>l = 255\<close>,
  where it is 0), which is negative when the services compare it with the space left.
\<close>

theorem short_string_size_wraps:
  assumes "128 \<le> unat (l :: octet)"
  shows "\<exists>n. GetCipDataTypeLength kCipShortString (Some (l # d)) = Some n
           \<and> sint n = int (unat l) - 255 \<and> sint n \<le> 0 \<and> sint n \<noteq> int (unat l + 1)"
proof -
  have b: "unat l < 256" by (rule unat_octet_less)
  have "sint (word_of_int (int (unat l) - 255) :: size_t) = int (unat l) - 255"
    by (rule sint_word_of_int_64) (use assms b in linarith)+
  moreover have "GetCipDataTypeLength kCipShortString (Some (l # d)) =
      Some (word_of_int (int (unat l) - 255))"
    unfolding short_string_length using assms by simp
  ultimately show ?thesis
    using b by (intro exI [of _ "word_of_int (int (unat l) - 255)"]) linarith
qed

lemma short_string_size_wraps_witness:
  "128 \<le> unat (200 :: octet) \<and>
     (\<exists>n. GetCipDataTypeLength kCipShortString (Some [200]) = Some n \<and> sint n = -55)"
  using short_string_size_wraps [of 200 "[]"] by auto

end
