(* ===== verification/CipString.thy ===== *)
theory CipString
  imports CipTypes
begin

text \<open>
  The CIP string structures and the operations of \<^verbatim>\<open>cip/cipstring.c\<close>. The pointer
  \<^verbatim>\<open>string\<close> of a structure is \<^term>\<open>None\<close> for a null pointer and otherwise the
  allocated octets. Whether \<^verbatim>\<open>CipCalloc\<close> finds memory is the argument \<open>calloc_ok\<close>.
  The setters return the structure and whether the returned pointer is non-null.
\<close>

record cip_short_string =
  ss_length :: CipUsint
  ss_string :: "octet list option"

record cip_string =
  s_length :: CipUint
  s_string :: "octet list option"

record cip_string2 =
  s2_length :: CipUint
  s2_string :: "octet list option"

record cip_string_n =
  sn_size :: CipUint
  sn_length :: CipUint
  sn_string :: "octet list option"

text \<open>\<^verbatim>\<open>memcpy\<close> of \<open>n\<close> octets out of a memory that may be shorter.\<close>

definition copy_octets :: "nat \<Rightarrow> octet list \<Rightarrow> octet list option" where
  "copy_octets n src = (if n \<le> length src then Some (take n src) else None)"

lemma copy_octets_Some [simp]:
  "copy_octets n src = Some bs \<longleftrightarrow> n \<le> length src \<and> bs = take n src"
  by (auto simp: copy_octets_def)

definition ClearCipStringN :: "cip_string_n \<Rightarrow> cip_string_n" where
  "ClearCipStringN cs = cs\<lparr>sn_string := None, sn_length := 0, sn_size := 0\<rparr>"

definition SetCipStringNByData ::
    "bool \<Rightarrow> cip_string_n \<Rightarrow> CipUint \<Rightarrow> CipUint \<Rightarrow> octet list \<Rightarrow> (cip_string_n \<times> bool) option" where
  "SetCipStringNByData calloc_ok cs str_len sz data =
     (let cs = ClearCipStringN cs in
      if str_len \<noteq> 0 then
        (if \<not> calloc_ok then Some (cs\<lparr>sn_length := 0, sn_size := 0\<rparr>, False)
         else do {
           bs \<leftarrow> copy_octets (unat str_len * unat sz) data;
           Some (cs\<lparr>sn_length := str_len, sn_size := sz, sn_string := Some bs\<rparr>, True)
         })
      else Some (cs, True))"

definition SetCipStringNByCstr ::
    "bool \<Rightarrow> cip_string_n \<Rightarrow> octet list \<Rightarrow> CipUint \<Rightarrow> (cip_string_n \<times> bool) option" where
  "SetCipStringNByCstr calloc_ok cs cstr symbol_size = do {
     guard (symbol_size \<noteq> 0);
     if length cstr mod unat symbol_size \<noteq> 0 then Some (cs, True)
     else SetCipStringNByData calloc_ok cs
            (of_nat (unat (of_nat (length cstr) :: CipUint) div unat symbol_size))
            symbol_size (cstr @ [0])
   }"

definition ClearCipString2 :: "cip_string2 \<Rightarrow> cip_string2" where
  "ClearCipString2 cs =
     (if s2_string cs \<noteq> None then cs\<lparr>s2_string := None, s2_length := 0\<rparr> else cs)"

definition SetCipString2ByData ::
    "bool \<Rightarrow> cip_string2 \<Rightarrow> CipUint \<Rightarrow> octet list \<Rightarrow> (cip_string2 \<times> bool) option" where
  "SetCipString2ByData calloc_ok cs str_len data =
     (let cs = ClearCipString2 cs in
      if str_len \<noteq> 0 then
        (if \<not> calloc_ok then Some (cs, False)
         else do {
           bs \<leftarrow> copy_octets (unat str_len * 2) data;
           Some (cs\<lparr>s2_length := str_len, s2_string := Some bs\<rparr>, True)
         })
      else Some (cs, True))"

definition SetCipString2ByCstr ::
    "bool \<Rightarrow> cip_string2 \<Rightarrow> octet list \<Rightarrow> (cip_string2 \<times> bool) option" where
  "SetCipString2ByCstr calloc_ok cs cstr =
     SetCipString2ByData calloc_ok cs
       (of_nat (unat (of_nat (length cstr) :: CipUint) div 2)) (cstr @ [0])"

definition ClearCipString :: "cip_string \<Rightarrow> cip_string" where
  "ClearCipString cs =
     (if s_string cs \<noteq> None then cs\<lparr>s_string := None, s_length := 0\<rparr> else cs)"

definition SetCipStringByData ::
    "bool \<Rightarrow> cip_string \<Rightarrow> CipUint \<Rightarrow> octet list \<Rightarrow> (cip_string \<times> bool) option" where
  "SetCipStringByData calloc_ok cs str_len data =
     (let cs = ClearCipString cs in
      if str_len \<noteq> 0 then
        (if \<not> calloc_ok then Some (cs, False)
         else do {
           bs \<leftarrow> copy_octets (unat str_len) data;
           Some (cs\<lparr>s_length := str_len, s_string := Some bs\<rparr>, True)
         })
      else Some (cs, True))"

definition SetCipStringByCstr ::
    "bool \<Rightarrow> cip_string \<Rightarrow> octet list \<Rightarrow> (cip_string \<times> bool) option" where
  "SetCipStringByCstr calloc_ok cs cstr =
     SetCipStringByData calloc_ok cs (of_nat (length cstr)) (cstr @ [0])"

definition ClearCipShortString :: "cip_short_string \<Rightarrow> cip_short_string" where
  "ClearCipShortString cs =
     (if ss_string cs \<noteq> None then cs\<lparr>ss_string := None, ss_length := 0\<rparr> else cs)"

definition SetCipShortStringByData ::
    "bool \<Rightarrow> cip_short_string \<Rightarrow> CipUsint \<Rightarrow> octet list \<Rightarrow> (cip_short_string \<times> bool) option" where
  "SetCipShortStringByData calloc_ok cs str_len data =
     (let cs = ClearCipShortString cs in
      if str_len \<noteq> 0 then
        (if \<not> calloc_ok then Some (cs, False)
         else do {
           bs \<leftarrow> copy_octets (unat str_len) data;
           Some (cs\<lparr>ss_length := str_len, ss_string := Some bs\<rparr>, True)
         })
      else Some (cs, True))"

definition SetCipShortStringByCstr ::
    "bool \<Rightarrow> cip_short_string \<Rightarrow> octet list \<Rightarrow> (cip_short_string \<times> bool) option" where
  "SetCipShortStringByCstr calloc_ok cs cstr =
     SetCipShortStringByData calloc_ok cs (of_nat (length cstr)) (cstr @ [0])"

text \<open>
  \<^verbatim>\<open>GetCstrFromCipShortString\<close> with null-able arguments; the difference of two
  \<^verbatim>\<open>size_t\<close> values is truncated to a 32 bit \<^verbatim>\<open>int\<close>.
\<close>

definition GetCstrFromCipShortString ::
    "cip_short_string option \<Rightarrow> octet list option \<Rightarrow> size_t \<Rightarrow> (int \<times> octet list option) option" where
  "GetCstrFromCipShortString string buf len =
     (case (string, buf) of
        (Some string, Some buf) \<Rightarrow>
          if len < 1 then Some (-1, Some buf)
          else
            let num = (ucast (ss_length string) :: size_t);
                rc = (if len \<le> num then sint (ucast (num - len - 1) :: 32 word) else 0);
                num = (if len \<le> num then len - 1 else num)
            in do {
              bs \<leftarrow> copy_octets (unat num) (case ss_string string of None \<Rightarrow> [] | Some s \<Rightarrow> s);
              guard (unat num < length buf);
              Some (rc, Some (splice_at 0 (bs @ [0]) buf))
            }
      | _ \<Rightarrow> Some (-1, buf))"

text \<open>A string structure owns exactly as many octets as its length field says.\<close>

definition wf_cip_string :: "cip_string \<Rightarrow> bool" where
  "wf_cip_string cs \<longleftrightarrow>
     (case s_string cs of None \<Rightarrow> s_length cs = 0 | Some bs \<Rightarrow> length bs = unat (s_length cs))"

definition wf_cip_short_string :: "cip_short_string \<Rightarrow> bool" where
  "wf_cip_short_string cs \<longleftrightarrow>
     (case ss_string cs of None \<Rightarrow> ss_length cs = 0 | Some bs \<Rightarrow> length bs = unat (ss_length cs))"

definition string_octets :: "cip_string \<Rightarrow> octet list" where
  "string_octets cs = (case s_string cs of None \<Rightarrow> [] | Some bs \<Rightarrow> bs)"

definition short_string_octets :: "cip_short_string \<Rightarrow> octet list" where
  "short_string_octets cs = (case ss_string cs of None \<Rightarrow> [] | Some bs \<Rightarrow> bs)"

lemma SetCipStringByData_result:
  assumes "wf_cip_string cs" and "unat n \<le> length data"
  shows "\<exists>cs'. SetCipStringByData True cs n data = Some (cs', True) \<and> wf_cip_string cs'
           \<and> s_length cs' = n \<and> string_octets cs' = take (unat n) data"
  using assms
  by (auto simp: SetCipStringByData_def ClearCipString_def wf_cip_string_def string_octets_def
      copy_octets_def unat_eq_0 split: option.splits)

lemma SetCipShortStringByData_result:
  assumes "wf_cip_short_string cs" and "unat n \<le> length data"
  shows "\<exists>cs'. SetCipShortStringByData True cs n data = Some (cs', True) \<and> wf_cip_short_string cs'
           \<and> ss_length cs' = n \<and> short_string_octets cs' = take (unat n) data"
  using assms
  by (auto simp: SetCipShortStringByData_def ClearCipShortString_def wf_cip_short_string_def
      short_string_octets_def copy_octets_def unat_eq_0 split: option.splits)

lemma cstr_rc:
  fixes num len :: size_t
  assumes "unat len \<le> k" and "k < 256" and "unat num = k"
  shows "sint (ucast (num - len - 1) :: 32 word) = int k - int (unat len) - 1"
proof -
  have eq: "num - len - 1 = word_of_int (int k - int (unat len) - 1)"
    using assms(3) by (auto simp flip: assms(3))
  have "(ucast (word_of_int i :: size_t) :: 32 word) = word_of_int i" for i
    by (rule bit_word_eqI) (simp add: bit_simps)
  then have "(ucast (num - len - 1) :: 32 word) = word_of_int (int k - int (unat len) - 1)"
    unfolding eq .
  moreover have "sint (word_of_int i :: 32 word) = i" if "-1 \<le> i" "i < 256" for i
    unfolding int_word_sint using that mod_pos_pos_trivial [of "i + 2147483648" 4294967296] by simp
  moreover have "-1 \<le> int k - int (unat len) - 1" "int k - int (unat len) - 1 < 256"
    using assms(1,2) by linarith+
  ultimately show ?thesis by metis
qed

text \<open>
  \<^verbatim>\<open>GetCstrFromCipShortString\<close> stores the longest prefix that fits, terminated by a
  zero octet, and returns 0 when the whole string fits; but it also returns 0 when the
  string is exactly one octet longer than the buffer, although two octets were cut off.
\<close>

theorem GetCstr_result:
  assumes "wf_cip_short_string s" and "1 \<le> unat len" and "unat len = length buf"
    and "unat len < 2 ^ 31"
  shows "\<exists>rc buf'. GetCstrFromCipShortString (Some s) (Some buf) len = Some (rc, Some buf')
    \<and> take (Suc (min (unat (ss_length s)) (unat len - 1))) buf' =
        take (unat len - 1) (short_string_octets s) @ [0]
    \<and> length buf' = length buf
    \<and> (rc = 0 \<longleftrightarrow> unat (ss_length s) < unat len \<or> unat (ss_length s) = unat len + 1)"
proof -
  let ?num = "unat (ss_length s)" and ?len = "unat len"
  have n: "?num < 256" by (rule unat_octet_less)
  have num: "unat (ucast (ss_length s) :: size_t) = ?num"
    by (simp add: unsigned_ucast_eq take_bit_nat_eq_self n order_less_trans [OF n])
  have le: "len \<le> ucast (ss_length s) \<longleftrightarrow> ?len \<le> ?num"
    by (simp add: word_le_nat_alt num)
  have one: "\<not> len < 1"
    using assms(2) by (simp add: word_less_nat_alt)
  have str: "length (short_string_octets s) = ?num" "short_string_octets s = (case ss_string s of None \<Rightarrow> [] | Some b \<Rightarrow> b)"
    using assms(1) by (auto simp: wf_cip_short_string_def short_string_octets_def split: option.splits)
  show ?thesis
  proof (cases "?len \<le> ?num")
    case False
    then show ?thesis
      using assms str one le num
      by (auto simp: GetCstrFromCipShortString_def Let_def copy_octets_def splice_at_def)
  next
    case True
    have rc: "sint (ucast (ucast (ss_length s) - len - 1 :: size_t) :: 32 word) = 0 \<longleftrightarrow> ?num = ?len + 1"
      unfolding cstr_rc [OF True n num] by linarith
    have "unat (len - 1) = ?len - 1"
      using assms(2) by (simp add: unat_sub word_le_nat_alt)
    then show ?thesis
      using assms str one le True rc
      by (auto simp: GetCstrFromCipShortString_def Let_def copy_octets_def splice_at_def)
  qed
qed

lemma GetCstr_result_witness:
  "\<exists>rc buf'. GetCstrFromCipShortString (Some \<lparr>ss_length = 3, ss_string = Some [65, 66, 67]\<rparr>)
       (Some [9, 9]) 2 = Some (rc, Some buf') \<and> take 2 buf' = [65, 0] \<and> rc = 0"
  using GetCstr_result [of "\<lparr>ss_length = 3, ss_string = Some [65, 66, 67]\<rparr>" 2 "[9, 9]"]
  by (auto simp: wf_cip_short_string_def short_string_octets_def)

end
