(* ===== verification/PaddedEPath.thy ===== *)
theory PaddedEPath
  imports CipTypes
begin

text \<open>
  Padded EPATHs of explicit requests: \<^verbatim>\<open>EncodeEPath\<close> and \<^verbatim>\<open>DecodePaddedEPath\<close> of
  \<^verbatim>\<open>cip/cipcommon.c\<close>. The decoding loop is a recursive function over the elements
  already decoded; its body, the \<^verbatim>\<open>switch\<close> on the segment type, is
  \<open>decode_path_segment\<close>. The octets of well-formed paths are described by the datatype
  \<open>path_segment\<close>, and decoding is shown to invert printing for every sequence of segments.
\<close>

subsection \<open>Encoding\<close>

definition EncodeEPath :: "cip_epath \<Rightarrow> enip_message \<Rightarrow> enip_message option" where
  "EncodeEPath epath m0 = (let len = (ucast (path_size epath) :: 32 word) in do {
     (len, m) \<leftarrow>
       (if 0 < len then
          (if class_id epath < 256 then do {
             m \<leftarrow> AddSintToMessage 0x20 m0;
             m \<leftarrow> AddSintToMessage (ucast (class_id epath)) m;
             Some (len - 1, m) }
           else do {
             m \<leftarrow> AddSintToMessage 0x21 m0;
             m \<leftarrow> AddSintToMessage 0 m;
             m \<leftarrow> AddIntToMessage (class_id epath) m;
             Some (len - 2, m) })
        else Some (len, m0));
     m \<leftarrow>
       (if 0 < len then do {
          (len, m) \<leftarrow>
            (if instance_number epath < 256 then do {
               m \<leftarrow> AddSintToMessage 0x24 m;
               m \<leftarrow> AddSintToMessage (ucast (instance_number epath)) m;
               Some (len - 1, m) }
             else do {
               m \<leftarrow> AddSintToMessage 0x25 m;
               m \<leftarrow> AddSintToMessage 0 m;
               m \<leftarrow> AddIntToMessage (instance_number epath) m;
               Some (len - 2, m) });
          (if 0 < len then
             (if attribute_number epath < 256 then do {
                m \<leftarrow> AddSintToMessage 0x30 m;
                AddSintToMessage (ucast (attribute_number epath)) m }
              else do {
                m \<leftarrow> AddSintToMessage 0x31 m;
                m \<leftarrow> AddSintToMessage 0 m;
                AddIntToMessage (attribute_number epath) m })
           else Some m) }
        else Some m);
     guard (ucast (path_size epath) * 2 = used_message_length m - used_message_length m0);
     Some m
   })"

subsection \<open>Decoding\<close>

text \<open>Advancing a read pointer inside of its memory.\<close>

definition advance :: "nat \<Rightarrow> octet list \<Rightarrow> octet list option" where
  "advance n run = (if n \<le> length run then Some (drop n run) else None)"

text \<open>
  One turn of the loop: \<^term>\<open>Inl ()\<close> for \<^verbatim>\<open>return kEipStatusError\<close>, otherwise the number
  of elements the segment counts for, the advanced pointer and the updated path. The
  enumeration member \<^verbatim>\<open>kSegmentTypeReserved\<close> of \<^verbatim>\<open>cipepath.h\<close> has the value 7.
\<close>

definition decode_path_segment ::
    "octet list \<Rightarrow> cip_epath \<Rightarrow> (unit + nat \<times> octet list \<times> cip_epath) option" where
  "decode_path_segment run e =
     (case run of [] \<Rightarrow> None
      | b # run1 \<Rightarrow>
        if 7 = b AND 7 then Some (Inl ())
        else if b = 0x20 then
          (case run1 of [] \<Rightarrow> None | c # r \<Rightarrow> Some (Inr (1, r, e\<lparr>class_id := ucast c\<rparr>)))
        else if b = 0x21 then do {
          r \<leftarrow> advance 2 run; (v, r) \<leftarrow> GetUintFromMessage r;
          Some (Inr (2, r, e\<lparr>class_id := v\<rparr>)) }
        else if b = 0x24 then
          (case run1 of [] \<Rightarrow> None | c # r \<Rightarrow> Some (Inr (1, r, e\<lparr>instance_number := ucast c\<rparr>)))
        else if b = 0x25 then do {
          r \<leftarrow> advance 2 run; (v, r) \<leftarrow> GetUintFromMessage r;
          Some (Inr (2, r, e\<lparr>instance_number := v\<rparr>)) }
        else if b = 0x30 then
          (case run1 of [] \<Rightarrow> None | c # r \<Rightarrow> Some (Inr (1, r, e\<lparr>attribute_number := ucast c\<rparr>)))
        else if b = 0x31 then do {
          r \<leftarrow> advance 2 run; (v, r) \<leftarrow> GetUintFromMessage r;
          Some (Inr (2, r, e\<lparr>attribute_number := v\<rparr>)) }
        else if b = 0x28 then do { r \<leftarrow> advance 2 run; Some (Inr (1, r, e)) }
        else if b = 0x29 then do { r \<leftarrow> advance 2 run; Some (Inr (2, r, e)) }
        else Some (Inl ()))"

lemma decode_path_segment_counts:
  "decode_path_segment run e = Some (Inr (k, r, e')) \<Longrightarrow> 1 \<le> k \<and> path_size e' = path_size e"
  by (auto simp: decode_path_segment_def split: list.splits if_splits)

function decode_path_loop ::
    "nat \<Rightarrow> octet list \<Rightarrow> cip_epath \<Rightarrow> (EipStatus \<times> nat \<times> octet list \<times> cip_epath) option" where
  "decode_path_loop n run e =
     (if n < unat (path_size e) then
        (case decode_path_segment run e of
           None \<Rightarrow> None
         | Some (Inl u) \<Rightarrow> Some (kEipStatusError, n, run, e)
         | Some (Inr (k, run', e')) \<Rightarrow> decode_path_loop (n + k) run' e')
      else Some (kEipStatusOk, n, run, e))"
  by pat_completeness auto
termination
  by (relation "measure (\<lambda>(n, run, e). unat (path_size e) - n)")
    (auto dest!: decode_path_segment_counts)

declare decode_path_loop.simps [simp del]

text \<open>
  The result is the status, the path, the read pointer and, on success, the number of
  octets stored to \<^verbatim>\<open>bytes_consumed\<close>.
\<close>

definition DecodePaddedEPath ::
    "cip_epath \<Rightarrow> octet list \<Rightarrow> (EipStatus \<times> cip_epath \<times> octet list \<times> nat option) option" where
  "DecodePaddedEPath epath msg =
     (case msg of [] \<Rightarrow> None
      | sz # runner \<Rightarrow> do {
          (status, n, runner', e) \<leftarrow> decode_path_loop 0 runner
             (epath\<lparr>path_size := sz, class_id := 0, instance_number := 0, attribute_number := 0\<rparr>);
          (if status = kEipStatusError then Some (kEipStatusError, e, msg, None)
           else Some (kEipStatusOk, e, runner', Some (n * 2 + 1)))
        })"

subsection \<open>Printing segments\<close>

datatype path_segment =
  ClassSeg CipUint | InstanceSeg CipInstanceNum | AttributeSeg CipUint
| ClassSeg16 CipUint | InstanceSeg16 CipInstanceNum | AttributeSeg16 CipUint
| MemberSeg octet

text \<open>The first three constructors choose the short form where the identifier allows it.\<close>

fun segment_octets :: "path_segment \<Rightarrow> octet list" where
  "segment_octets (ClassSeg c) =
     (if c < 256 then [0x20, ucast c] else [0x21, 0] @ le_octets 2 c)"
| "segment_octets (InstanceSeg c) =
     (if c < 256 then [0x24, ucast c] else [0x25, 0] @ le_octets 2 c)"
| "segment_octets (AttributeSeg c) =
     (if c < 256 then [0x30, ucast c] else [0x31, 0] @ le_octets 2 c)"
| "segment_octets (ClassSeg16 c) = [0x21, 0] @ le_octets 2 c"
| "segment_octets (InstanceSeg16 c) = [0x25, 0] @ le_octets 2 c"
| "segment_octets (AttributeSeg16 c) = [0x31, 0] @ le_octets 2 c"
| "segment_octets (MemberSeg m) = [0x28, m]"

fun segment_words :: "path_segment \<Rightarrow> nat" where
  "segment_words (ClassSeg c) = (if c < 256 then 1 else 2)"
| "segment_words (InstanceSeg c) = (if c < 256 then 1 else 2)"
| "segment_words (AttributeSeg c) = (if c < 256 then 1 else 2)"
| "segment_words (MemberSeg m) = 1"
| "segment_words _ = 2"

fun apply_segment :: "path_segment \<Rightarrow> cip_epath \<Rightarrow> cip_epath" where
  "apply_segment (ClassSeg c) e = e\<lparr>class_id := c\<rparr>"
| "apply_segment (InstanceSeg c) e = e\<lparr>instance_number := c\<rparr>"
| "apply_segment (AttributeSeg c) e = e\<lparr>attribute_number := c\<rparr>"
| "apply_segment (ClassSeg16 c) e = e\<lparr>class_id := c\<rparr>"
| "apply_segment (InstanceSeg16 c) e = e\<lparr>instance_number := c\<rparr>"
| "apply_segment (AttributeSeg16 c) e = e\<lparr>attribute_number := c\<rparr>"
| "apply_segment (MemberSeg m) e = e"

lemma length_segment_octets: "length (segment_octets s) = 2 * segment_words s"
  by (cases s) auto

lemma segment_words_pos: "0 < segment_words s"
  by (cases s) auto

lemma path_size_apply [simp]: "path_size (apply_segment s e) = path_size e"
  by (cases s) auto

lemma ucast_ucast_small:
  assumes "c < 256"
  shows "ucast (ucast c :: octet) = (c :: 16 word)"
proof -
  have c: "unat c < 256"
    using assms by (simp add: word_less_nat_alt)
  then have "unat (ucast (ucast c :: octet) :: 16 word) = unat c"
    by (simp add: unsigned_ucast_eq unsigned_take_bit_eq take_bit_nat_eq_self)
  then show ?thesis by (simp add: unsigned_word_eqI)
qed

lemma decode_path_segment_octets:
  "decode_path_segment (segment_octets s @ rest) e =
     Some (Inr (segment_words s, rest, apply_segment s e))"
  by (cases s)
    (simp_all add: decode_path_segment_def advance_def uint.dec_enc ucast_ucast_small
      del: GetUintFromMessage.simps)

lemma decode_path_loop_segments:
  assumes "n + sum_list (map segment_words segs) = unat (path_size e)"
  shows "decode_path_loop n (concat (map segment_octets segs) @ rest) e =
    Some (kEipStatusOk, unat (path_size e), rest, fold apply_segment segs e)"
  using assms
proof (induction segs arbitrary: n e)
  case Nil
  then show ?case by (simp add: decode_path_loop.simps)
next
  case (Cons s segs)
  have "n < unat (path_size e)"
    using Cons.prems segment_words_pos [of s] by simp
  then show ?case
    using Cons by (subst decode_path_loop.simps) (simp add: decode_path_segment_octets add.assoc)
qed

subsection \<open>Round trip\<close>

text \<open>The segments that \<^verbatim>\<open>EncodeEPath\<close> writes for a path that has all three parts.\<close>

definition full_segments :: "cip_epath \<Rightarrow> path_segment list" where
  "full_segments e =
     [ClassSeg (class_id e), InstanceSeg (instance_number e), AttributeSeg (attribute_number e)]"

definition full_path_words :: "cip_epath \<Rightarrow> nat" where
  "full_path_words e = sum_list (map segment_words (full_segments e))"

lemma EncodeEPath_full:
  assumes "unat (path_size e) = full_path_words e"
  shows "EncodeEPath e m0 = Option.bind (emit (concat (map segment_octets (full_segments e))) m0)
    (\<lambda>m. Option.bind (guard (of_nat (2 * full_path_words e) = used_message_length m - used_message_length m0))
      (\<lambda>_. Some m))"
proof -
  have "path_size e = of_nat (full_path_words e)"
    by (simp flip: assms)
  then show ?thesis
    by (cases "class_id e < 256"; cases "instance_number e < 256"; cases "attribute_number e < 256")
      (simp_all add: EncodeEPath_def full_path_words_def full_segments_def message_ops)
qed

text \<open>
  C37: a path with class, instance and attribute whose size field counts its 16 bit words
  is encoded into exactly that many words, and \<^verbatim>\<open>DecodePaddedEPath\<close> applied to the size
  octet followed by these words returns the same path, stops behind them and reports
  the number of octets read. This holds for 8 bit and 16 bit identifiers alike.
\<close>

theorem EPath_roundtrip:
  assumes "unat (path_size e) = full_path_words e" and "wf_msg m" and "12 \<le> msg_room m"
  shows "\<exists>m' bs. EncodeEPath e m = Some m' \<and> wf_msg m' \<and> msg_content m' = msg_content m @ bs
    \<and> length bs = 2 * unat (path_size e)
    \<and> DecodePaddedEPath e0 (path_size e # bs @ rest) =
        Some (kEipStatusOk, cip_epath.extend (cip_epath.truncate e) (cip_epath.more e0), rest,
          Some (2 * unat (path_size e) + 1))"
proof -
  let ?bs = "concat (map segment_octets (full_segments e))"
  have len: "length ?bs = 2 * full_path_words e"
    by (simp add: full_path_words_def full_segments_def length_segment_octets del: segment_octets.simps segment_words.simps)
  have "full_path_words e \<le> 6"
    by (simp add: full_path_words_def full_segments_def)
  then have "length ?bs \<le> msg_room m" using len assms(3) by simp
  then obtain m' where m': "emit ?bs m = Some m'" "wf_msg m'" "msg_content m' = msg_content m @ ?bs"
    using emit_wf_fits [OF assms(2)] by blast
  have "used_message_length m' - used_message_length m = of_nat (2 * full_path_words e)"
    using emit_SomeD(5) [OF m'(1)] len by simp
  then have enc: "EncodeEPath e m = Some m'"
    using m'(1) by (simp add: EncodeEPath_full [OF assms(1)])
  let ?e = "e0\<lparr>path_size := path_size e, class_id := 0, instance_number := 0, attribute_number := 0\<rparr>"
  have "decode_path_loop 0 (?bs @ rest) ?e =
      Some (kEipStatusOk, unat (path_size ?e), rest, fold apply_segment (full_segments e) ?e)"
    by (rule decode_path_loop_segments) (simp add: assms(1) full_path_words_def)
  moreover have "fold apply_segment (full_segments e) ?e =
      cip_epath.extend (cip_epath.truncate e) (cip_epath.more e0)"
    by (cases e0; cases e) (simp add: full_segments_def cip_epath.extend_def cip_epath.truncate_def)
  ultimately have "DecodePaddedEPath e0 (path_size e # ?bs @ rest) = Some (kEipStatusOk,
      cip_epath.extend (cip_epath.truncate e) (cip_epath.more e0), rest,
      Some (2 * unat (path_size e) + 1))"
    by (simp add: DecodePaddedEPath_def)
  with enc m' len assms(1) show ?thesis by auto
qed

lemma EPath_roundtrip_witness:
  "\<exists>m' bs. EncodeEPath \<lparr>path_size = 4, class_id = 0x04, instance_number = 0x1234, attribute_number = 3\<rparr>
       (InitializeENIPMessage \<lparr>message_buffer = [], current_message_position = 0, used_message_length = 0\<rparr>) = Some m'
     \<and> msg_content m' = bs \<and> length bs = 8"
  using EPath_roundtrip [of "\<lparr>path_size = 4, class_id = 0x04, instance_number = 0x1234, attribute_number = 3\<rparr>"
      "InitializeENIPMessage \<lparr>message_buffer = [], current_message_position = 0, used_message_length = 0\<rparr>"
      "\<lparr>path_size = 0, class_id = 0, instance_number = 0, attribute_number = 0\<rparr>" "[]"]
  by (auto simp: full_path_words_def full_segments_def PC_OPENER_ETHERNET_BUFFER_SIZE_def)

text \<open>
  a 16 bit member segment breaks the correspondence between the reported octets and
  the read pointer. It is counted as two elements but the pointer is moved by two octets
  only, so the caller's pointer ends up in the middle of the segment.
\<close>

theorem DecodePaddedEPath_member16:
  "DecodePaddedEPath e (2 # 0x29 # pad # lo # hi # rest) =
     Some (kEipStatusOk,
       e\<lparr>path_size := 2, class_id := 0, instance_number := 0, attribute_number := 0\<rparr>,
       lo # hi # rest, Some 5)"
  by (simp add: DecodePaddedEPath_def decode_path_loop.simps decode_path_segment_def advance_def)

text \<open>Decoding reads inside of the message when the announced words are all there.\<close>

lemma decode_path_segment_total:
  assumes "4 \<le> length run"
  shows "decode_path_segment run e \<noteq> None"
proof -
  obtain b0 b1 b2 b3 rs where "run = b0 # b1 # b2 # b3 # rs"
    using assms by (auto simp: Suc_le_length_iff numeral_eq_Suc)
  then show ?thesis
    by (simp add: decode_path_segment_def advance_def)
qed

lemma decode_path_segment_length:
  "decode_path_segment run e = Some (Inr (k, r, e')) \<Longrightarrow> length run \<le> length r + 2 * k \<and> k \<le> 2"
  by (auto simp: decode_path_segment_def advance_def dest!: uint.dec_consumes
      split: list.splits if_splits)

lemma decode_path_loop_total:
  assumes "n < unat (path_size e) \<Longrightarrow> 2 * (unat (path_size e) - n) + 2 \<le> length run"
  shows "decode_path_loop n run e \<noteq> None"
  using assms
proof (induction n run e rule: decode_path_loop.induct)
  case (1 n run e)
  show ?case
  proof (cases "n < unat (path_size e)")
    case True
    then have "4 \<le> length run" using "1.prems" by fastforce
    then have nn: "decode_path_segment run e \<noteq> None" by (rule decode_path_segment_total)
    then obtain res where res: "decode_path_segment run e = Some res" by blast
    show ?thesis
    proof (cases res)
      case (Inl u)
      then show ?thesis using True res by (subst decode_path_loop.simps) simp
    next
      case (Inr t)
      obtain k r e' where t: "t = (k, r, e')" by (cases t)
      note seg = res [unfolded Inr t]
      have "2 * (unat (path_size e') - (n + k)) + 2 \<le> length r" if "n + k < unat (path_size e')"
        using that decode_path_segment_length [OF seg] decode_path_segment_counts [OF seg]
          "1.prems" [OF True] by auto
      then have "decode_path_loop (n + k) r e' \<noteq> None"
        using "1.IH" [OF True] res Inr t by blast
      then show ?thesis using True seg by (subst decode_path_loop.simps) simp
    qed
  qed (simp add: decode_path_loop.simps)
qed

text \<open>
  C38: decoding terminates, and it stays inside of the received octets when the message
  holds the announced number of words and one further word (a 16 bit segment may start
  at the last announced word).
\<close>

theorem DecodePaddedEPath_in_bounds:
  assumes "2 * unat sz + 2 \<le> length rest"
  shows "\<exists>st e' rest' n. DecodePaddedEPath e (sz # rest) = Some (st, e', rest', n)
           \<and> st \<in> {kEipStatusOk, kEipStatusError}"
proof -
  let ?e = "e\<lparr>path_size := sz, class_id := 0, instance_number := 0, attribute_number := 0\<rparr>"
  have "decode_path_loop 0 rest ?e \<noteq> None"
    by (rule decode_path_loop_total) (use assms in simp)
  then obtain st n r e' where "decode_path_loop 0 rest ?e = Some (st, n, r, e')"
    by auto
  then show ?thesis
    by (cases "st = kEipStatusError") (simp_all add: DecodePaddedEPath_def)
qed

lemma DecodePaddedEPath_in_bounds_witness:
  "\<exists>st e' rest' n. DecodePaddedEPath \<lparr>path_size = 0, class_id = 0, instance_number = 0, attribute_number = 0\<rparr>
     (2 # [0x20, 6, 0x24, 1, 0, 0]) = Some (st, e', rest', n)"
  using DecodePaddedEPath_in_bounds [of 2 "[0x20, 6, 0x24, 1, 0, 0]"
      "\<lparr>path_size = 0, class_id = 0, instance_number = 0, attribute_number = 0\<rparr>"]
  by auto

end
