(* ===== verification/CipData.thy ===== *)
theory CipData
  imports CipString PaddedEPath
begin

text \<open>
  Encoding and decoding of attribute data (\<^verbatim>\<open>cip/cipcommon.c\<close>). The memory behind an
  attribute's \<^verbatim>\<open>void *data\<close> is a value of the type \<open>cip_value\<close>; an encoder or decoder
  that is applied to data of another layout has no defined result.
  The encoders and decoders have the types of the function pointers
  \<^verbatim>\<open>CipAttributeEncodeInMessage\<close> and \<^verbatim>\<open>CipAttributeDecodeFromMessage\<close>, so an attribute can
  hold them as they are.
\<close>

text \<open>The string of one language behind its \<^verbatim>\<open>void\<close> pointer; \<open>SINull\<close> is the null pointer.\<close>

datatype string_i_content =
    SIString cip_string | SIShortString cip_short_string | SIString2 cip_string2 | SIStringN cip_string_n | SINull

record string_i_struct =
  language_char_1 :: CipUsint
  language_char_2 :: CipUsint
  language_char_3 :: CipUsint
  char_string_struct :: CipUint
  character_set :: CipUint
  si_string :: string_i_content

text \<open>
  The non-volatile storage of the device: directories, and files with their contents. It is a value so that it can lie in the memory that the
  callbacks of attributes work on; no encoder or decoder is applied to it.
\<close>

record file_store =
  directories :: "string list"
  files :: "(string \<times> string) list"

datatype cip_value =
    V8 octet
  | V16 "16 word"
  | V32 "32 word"
  | V64 "64 word"
  | VShortString cip_short_string
  | VString cip_string
  | VStringI CipUsint "string_i_struct list"
  | VByteArray "16 word" "octet list"
  | VEpath cip_epath
  | VOctets "octet list"
  | VStruct "cip_value list"
  | VFiles file_store

type_synonym encode_fn = "cip_value \<Rightarrow> enip_message \<Rightarrow> enip_message option"

type_synonym decode_fn =
  "cip_value \<Rightarrow> mr_request \<Rightarrow> mr_response \<Rightarrow> (int \<times> cip_value \<times> mr_request \<times> mr_response) option"

subsection \<open>Encoders\<close>

fun EncodeCipUsint :: encode_fn where
  "EncodeCipUsint (V8 v) outgoing_message = AddSintToMessage v outgoing_message"
| "EncodeCipUsint _ _ = None"

fun EncodeCipUint :: encode_fn where
  "EncodeCipUint (V16 v) outgoing_message = AddIntToMessage v outgoing_message"
| "EncodeCipUint _ _ = None"

fun EncodeCipUdint :: encode_fn where
  "EncodeCipUdint (V32 v) outgoing_message = AddDintToMessage v outgoing_message"
| "EncodeCipUdint _ _ = None"

fun EncodeCipUlint :: encode_fn where
  "EncodeCipUlint (V64 v) outgoing_message = AddLintToMessage v outgoing_message"
| "EncodeCipUlint _ _ = None"

definition EncodeCipBool :: encode_fn where "EncodeCipBool = EncodeCipUsint"
definition EncodeCipByte :: encode_fn where "EncodeCipByte = EncodeCipUsint"
definition EncodeCipSint :: encode_fn where "EncodeCipSint = EncodeCipUsint"
definition EncodeCipWord :: encode_fn where "EncodeCipWord = EncodeCipUint"
definition EncodeCipInt :: encode_fn where "EncodeCipInt = EncodeCipUint"
definition EncodeCipDword :: encode_fn where "EncodeCipDword = EncodeCipUdint"
definition EncodeCipDint :: encode_fn where "EncodeCipDint = EncodeCipUdint"
definition EncodeCipReal :: encode_fn where "EncodeCipReal = EncodeCipUdint"
definition EncodeCipLword :: encode_fn where "EncodeCipLword = EncodeCipUlint"
definition EncodeCipLint :: encode_fn where "EncodeCipLint = EncodeCipUlint"
definition EncodeCipLreal :: encode_fn where "EncodeCipLreal = EncodeCipUlint"

text \<open>\<^verbatim>\<open>memcpy\<close> to the current position, then moving position and length.\<close>

definition append_octets :: "octet list \<Rightarrow> enip_message \<Rightarrow> enip_message option" where
  "append_octets bs m = do {
     m \<leftarrow> put_octets bs m;
     Some (m\<lparr>current_message_position := current_message_position m + length bs,
             used_message_length := used_message_length m + of_nat (length bs)\<rparr>)
   }"

fun EncodeCipShortString :: encode_fn where
  "EncodeCipShortString (VShortString s) m = do {
     m \<leftarrow> AddSintToMessage (ss_length s) m;
     bs \<leftarrow> copy_octets (unat (ss_length s)) (short_string_octets s);
     append_octets bs m }"
| "EncodeCipShortString _ _ = None"

text \<open>The pad octet depends on the length of the whole message, not of the string.\<close>

fun EncodeCipString :: encode_fn where
  "EncodeCipString (VString s) m = do {
     m \<leftarrow> AddIntToMessage (s_length s) m;
     if s_length s \<noteq> 0 then do {
       bs \<leftarrow> copy_octets (unat (s_length s)) (string_octets s);
       m \<leftarrow> append_octets bs m;
       if used_message_length m AND 1 \<noteq> 0 then AddSintToMessage 0 m else Some m }
     else Some m }"
| "EncodeCipString _ _ = None"

text \<open>Not implemented in the code: an assertion that always fails.\<close>

definition EncodeCipString2 :: encode_fn where "EncodeCipString2 v m = None"
definition EncodeCipStringN :: encode_fn where "EncodeCipStringN v m = None"

definition CipStringIHeaderEncoding :: "string_i_struct \<Rightarrow> enip_message \<Rightarrow> enip_message option" where
  "CipStringIHeaderEncoding s m = do {
     m \<leftarrow> AddSintToMessage (language_char_1 s) m;
     m \<leftarrow> AddSintToMessage (language_char_2 s) m;
     m \<leftarrow> AddSintToMessage (language_char_3 s) m;
     m \<leftarrow> AddSintToMessage (ucast (char_string_struct s)) m;
     AddIntToMessage (character_set s) m }"

text \<open>
  \<^verbatim>\<open>EncodeCipUsint(&(string->char_string_struct), ...)\<close> reads the first octet of a 16 bit
  field, which is its low octet on a little-endian host.
\<close>

fun encode_string_i_structs :: "string_i_struct list \<Rightarrow> enip_message \<Rightarrow> enip_message option" where
  "encode_string_i_structs [] m = Some m"
| "encode_string_i_structs (s # ss) m = do {
     m \<leftarrow> CipStringIHeaderEncoding s m;
     m \<leftarrow> (if char_string_struct s = ucast kCipString then
            (case si_string s of SIString t \<Rightarrow> EncodeCipString (VString t) m | _ \<Rightarrow> None)
          else if char_string_struct s = ucast kCipShortString then
            (case si_string s of SIShortString t \<Rightarrow> EncodeCipShortString (VShortString t) m | _ \<Rightarrow> None)
          else None);
     encode_string_i_structs ss m }"

fun EncodeCipStringI :: encode_fn where
  "EncodeCipStringI (VStringI n structs) m = do {
     m \<leftarrow> AddSintToMessage n m;
     guard (unat n \<le> length structs);
     encode_string_i_structs (take (unat n) structs) m }"
| "EncodeCipStringI _ _ = None"

fun EncodeCipByteArray :: encode_fn where
  "EncodeCipByteArray (VByteArray n d) m = do {
     bs \<leftarrow> copy_octets (unat n) d;
     append_octets bs m }"
| "EncodeCipByteArray _ _ = None"

fun EncodeCipEPath :: encode_fn where
  "EncodeCipEPath (VEpath e) m = do {
     m \<leftarrow> AddIntToMessage (ucast (path_size e)) m;
     EncodeEPath e m }"
| "EncodeCipEPath _ _ = None"

fun EncodeCipEthernetLinkPhyisicalAddress :: encode_fn where
  "EncodeCipEthernetLinkPhyisicalAddress (VOctets p) m = do {
     bs \<leftarrow> copy_octets 6 p;
     append_octets bs m }"
| "EncodeCipEthernetLinkPhyisicalAddress _ _ = None"

subsection \<open>Decoders\<close>

text \<open>
  The common shape of the fixed-size decoders: read from the request, store the value,
  report success. \<open>octets\<close> is the number each decoder returns.
\<close>

definition decode_with ::
    "(octet list \<Rightarrow> ('a \<times> octet list) option) \<Rightarrow> ('a \<Rightarrow> cip_value) \<Rightarrow> int \<Rightarrow> mr_request \<Rightarrow> mr_response
       \<Rightarrow> (int \<times> cip_value \<times> mr_request \<times> mr_response) option" where
  "decode_with get mk octets req resp = do {
     (v, rest) \<leftarrow> get (req_data req);
     Some (octets, mk v, req\<lparr>req_data := rest\<rparr>, resp\<lparr>general_status := kCipErrorSuccess\<rparr>) }"

fun DecodeCipBool :: decode_fn where
  "DecodeCipBool (V8 _) req resp = decode_with GetBoolFromMessage V8 1 req resp"
| "DecodeCipBool _ _ _ = None"

fun DecodeCipByte :: decode_fn where
  "DecodeCipByte (V8 _) req resp = decode_with GetByteFromMessage V8 1 req resp"
| "DecodeCipByte _ _ _ = None"

fun DecodeCipUsint :: decode_fn where
  "DecodeCipUsint (V8 _) req resp = decode_with GetUsintFromMessage V8 1 req resp"
| "DecodeCipUsint _ _ _ = None"

fun DecodeCipSint :: decode_fn where
  "DecodeCipSint (V8 _) req resp = decode_with GetSintFromMessage V8 1 req resp"
| "DecodeCipSint _ _ _ = None"

fun DecodeCipWord :: decode_fn where
  "DecodeCipWord (V16 _) req resp = decode_with GetWordFromMessage V16 2 req resp"
| "DecodeCipWord _ _ _ = None"

fun DecodeCipUint :: decode_fn where
  "DecodeCipUint (V16 _) req resp = decode_with GetUintFromMessage V16 2 req resp"
| "DecodeCipUint _ _ _ = None"

fun DecodeCipInt :: decode_fn where
  "DecodeCipInt (V16 _) req resp = decode_with GetIntFromMessage V16 2 req resp"
| "DecodeCipInt _ _ _ = None"

fun DecodeCipDword :: decode_fn where
  "DecodeCipDword (V32 _) req resp = decode_with GetDintFromMessage V32 4 req resp"
| "DecodeCipDword _ _ _ = None"

fun DecodeCipUdint :: decode_fn where
  "DecodeCipUdint (V32 _) req resp = decode_with GetUdintFromMessage V32 4 req resp"
| "DecodeCipUdint _ _ _ = None"

fun DecodeCipDint :: decode_fn where
  "DecodeCipDint (V32 _) req resp = decode_with GetDintFromMessage V32 4 req resp"
| "DecodeCipDint _ _ _ = None"

text \<open>\<^verbatim>\<open>DecodeCipLword\<close> consumes eight octets and returns 4.\<close>

fun DecodeCipLword :: decode_fn where
  "DecodeCipLword (V64 _) req resp = decode_with GetLintFromMessage V64 4 req resp"
| "DecodeCipLword _ _ _ = None"

fun DecodeCipUlint :: decode_fn where
  "DecodeCipUlint (V64 _) req resp = decode_with GetLintFromMessage V64 8 req resp"
| "DecodeCipUlint _ _ _ = None"

fun DecodeCipLint :: decode_fn where
  "DecodeCipLint (V64 _) req resp = decode_with GetLintFromMessage V64 8 req resp"
| "DecodeCipLint _ _ _ = None"

fun DecodeCipByteArray :: decode_fn where
  "DecodeCipByteArray (VByteArray n d) req resp =
     (if request_data_size req < ucast n then
        Some (-1, VByteArray n d, req, resp\<lparr>general_status := kCipErrorNotEnoughData\<rparr>)
      else if request_data_size req > ucast n then
        Some (-1, VByteArray n d, req, resp\<lparr>general_status := kCipErrorTooMuchData\<rparr>)
      else do {
        bs \<leftarrow> copy_octets (unat n) (req_data req);
        guard (unat n \<le> length d);
        Some (int (unat n), VByteArray n (splice_at 0 bs d), req,
              resp\<lparr>general_status := kCipErrorSuccess\<rparr>) })"
| "DecodeCipByteArray _ _ _ = None"

text \<open>The variable-length decoders need memory for the string; \<open>calloc_ok\<close> as above.\<close>

fun DecodeCipString :: "bool \<Rightarrow> decode_fn" where
  "DecodeCipString calloc_ok (VString s) req resp = do {
     (len, d) \<leftarrow> GetUintFromMessage (req_data req);
     (s', ok) \<leftarrow> SetCipStringByData calloc_ok s len d;
     guard ok;
     d \<leftarrow> advance (unat (s_length s')) d;
     let n = int (unat (s_length s')) + 2;
     (d, n) \<leftarrow> (if odd n then do { d \<leftarrow> advance 1 d; Some (d, n + 1) } else Some (d, n));
     Some (n, VString s', req\<lparr>req_data := d\<rparr>, resp\<lparr>general_status := kCipErrorSuccess\<rparr>) }"
| "DecodeCipString _ _ _ _ = None"

fun DecodeCipShortString :: "bool \<Rightarrow> decode_fn" where
  "DecodeCipShortString calloc_ok (VShortString s) req resp = do {
     (len, d) \<leftarrow> GetUsintFromMessage (req_data req);
     (s', ok) \<leftarrow> SetCipShortStringByData calloc_ok s len d;
     guard ok;
     d \<leftarrow> advance (unat (ss_length s')) d;
     Some (int (unat (ss_length s')) + 1, VShortString s', req\<lparr>req_data := d\<rparr>,
           resp\<lparr>general_status := kCipErrorSuccess\<rparr>) }"
| "DecodeCipShortString _ _ _ _ = None"

lemma append_octets_emit [codec_simps]: "append_octets = emit"
  by (intro ext) (simp add: append_octets_def emit_def)

lemmas encode_aliases = EncodeCipBool_def EncodeCipByte_def EncodeCipSint_def EncodeCipWord_def
  EncodeCipInt_def EncodeCipDword_def EncodeCipDint_def EncodeCipReal_def EncodeCipLword_def
  EncodeCipLint_def EncodeCipLreal_def

subsection \<open>The contract of an attribute codec\<close>

text \<open>
  What the attribute services rely on: the encoder appends the representation of the
  data, and the decoder turns a representation at the front of the request back into
  the data, whatever was stored before.
\<close>

locale attribute_codec =
  fixes encode :: encode_fn
    and decode :: decode_fn
    and repr :: "cip_value \<Rightarrow> octet list"
    and layout :: "cip_value \<Rightarrow> bool"
  assumes encode_emit: "layout v \<Longrightarrow> encode v m = emit (repr v) m"
    and decode_repr: "layout v \<Longrightarrow> layout v0 \<Longrightarrow> req_data req = repr v @ rest \<Longrightarrow>
      \<exists>n. decode v0 req resp =
        Some (n, v, req\<lparr>req_data := rest\<rparr>, resp\<lparr>general_status := kCipErrorSuccess\<rparr>)"
    and decode_layout: "layout v0 \<Longrightarrow> decode v0 req resp = Some (n, v, req', resp') \<Longrightarrow> layout v"
begin

lemma encode_init:
  assumes "layout v" and "length (repr v) \<le> PC_OPENER_ETHERNET_BUFFER_SIZE"
  shows "\<exists>m'. encode v (InitializeENIPMessage m) = Some m' \<and> wf_msg m' \<and> msg_content m' = repr v"
  using emit_wf_fits [OF wf_msg_init, of "repr v" m] assms by (auto simp: encode_emit)

lemma decode_encoded:
  assumes "layout v" and "layout v0"
    and "encode v (InitializeENIPMessage m) = Some m'"
    and "req_data req = msg_content m'"
  shows "\<exists>n. decode v0 req resp =
    Some (n, v, req\<lparr>req_data := []\<rparr>, resp\<lparr>general_status := kCipErrorSuccess\<rparr>)"
proof -
  have "msg_content m' = repr v"
    using assms(1,3) emit_SomeD(1) [of "repr v"] by (simp add: encode_emit)
  then show ?thesis
    using assms decode_repr [of v v0 req "[]" resp] by simp
qed

lemma repr_inj:
  assumes "layout v" and "layout w" and "repr v = repr w"
  shows "v = w"
proof -
  let ?req = "(undefined :: mr_request)\<lparr>req_data := repr v\<rparr>"
  have "\<exists>n. decode v ?req undefined = Some (n, v, ?req\<lparr>req_data := []\<rparr>,
      undefined\<lparr>general_status := kCipErrorSuccess\<rparr>)"
    by (rule decode_repr) (simp_all add: assms)
  moreover have "\<exists>n. decode v ?req undefined = Some (n, w, ?req\<lparr>req_data := []\<rparr>,
      undefined\<lparr>general_status := kCipErrorSuccess\<rparr>)"
    by (rule decode_repr) (simp_all add: assms)
  ultimately show ?thesis by (metis option.inject prod.inject)
qed

end

text \<open>The representations of the data the code can both encode and decode.\<close>

fun value_octets :: "cip_value \<Rightarrow> octet list" where
  "value_octets (V8 b) = [b]"
| "value_octets (V16 w) = le_octets 2 w"
| "value_octets (V32 w) = le_octets 4 w"
| "value_octets (VShortString s) = ss_length s # short_string_octets s"
| "value_octets _ = []"

fun is_V8 :: "cip_value \<Rightarrow> bool" where "is_V8 (V8 _) = True" | "is_V8 _ = False"
fun is_V16 :: "cip_value \<Rightarrow> bool" where "is_V16 (V16 _) = True" | "is_V16 _ = False"
fun is_V32 :: "cip_value \<Rightarrow> bool" where "is_V32 (V32 _) = True" | "is_V32 _ = False"

fun is_short_string :: "cip_value \<Rightarrow> bool" where
  "is_short_string (VShortString s) \<longleftrightarrow>
     wf_cip_short_string s \<and> (ss_length s = 0 \<longrightarrow> ss_string s = None)"
| "is_short_string _ \<longleftrightarrow> False"

lemma is_V8_iff: "is_V8 v \<longleftrightarrow> (\<exists>b. v = V8 b)" by (cases v) auto
lemma is_V16_iff: "is_V16 v \<longleftrightarrow> (\<exists>b. v = V16 b)" by (cases v) auto
lemma is_V32_iff: "is_V32 v \<longleftrightarrow> (\<exists>b. v = V32 b)" by (cases v) auto

lemma decode_fixed:
  "DecodeCipUsint (V8 x) req resp = decode_with GetUsintFromMessage V8 1 req resp"
  "DecodeCipUint (V16 y) req resp = decode_with GetUintFromMessage V16 2 req resp"
  "DecodeCipUdint (V32 z) req resp = decode_with GetUdintFromMessage V32 4 req resp"
  by simp_all

interpretation cip_usint: attribute_codec EncodeCipUsint DecodeCipUsint value_octets is_V8
  by unfold_locales
    (auto simp: is_V8_iff decode_with_def AddSint_emit usint.dec_enc)

interpretation cip_uint: attribute_codec EncodeCipUint DecodeCipUint value_octets is_V16
  by unfold_locales
    (auto simp: is_V16_iff decode_with_def AddInt_emit uint.dec_enc)

interpretation cip_udint: attribute_codec EncodeCipUdint DecodeCipUdint value_octets is_V32
  by unfold_locales
    (auto simp: is_V32_iff decode_with_def AddDint_emit udint.dec_enc)

lemma is_short_stringE:
  assumes "is_short_string v"
  obtains s where "v = VShortString s" "wf_cip_short_string s" "ss_length s = 0 \<Longrightarrow> ss_string s = None"
    "length (short_string_octets s) = unat (ss_length s)"
  using assms
  by (cases v) (auto simp: wf_cip_short_string_def short_string_octets_def split: option.splits)

lemma SetCipShortStringByData_canonical:
  assumes "is_short_string (VShortString s)" and "is_short_string (VShortString t)"
    and "d = short_string_octets t @ rest"
  shows "SetCipShortStringByData True s (ss_length t) d = Some (t, True)"
  using assms
  by (cases s; cases t)
    (auto simp: SetCipShortStringByData_def ClearCipShortString_def wf_cip_short_string_def
      short_string_octets_def copy_octets_def split: option.splits if_splits)

interpretation cip_short_string: attribute_codec
  EncodeCipShortString "DecodeCipShortString True" value_octets is_short_string
proof (unfold_locales, goal_cases)
  case (1 v m)
  then obtain s where "v = VShortString s" "length (short_string_octets s) = unat (ss_length s)"
    by (rule is_short_stringE)
  then show ?case
    by (simp add: AddSint_emit append_octets_emit copy_octets_def emit_emit_eta emit_emit)
next
  case (2 v v0 req rest resp)
  from 2(1) obtain t where t: "v = VShortString t" "length (short_string_octets t) = unat (ss_length t)"
    by (rule is_short_stringE)
  from 2(2) obtain s where s: "v0 = VShortString s" by (rule is_short_stringE)
  have "SetCipShortStringByData True s (ss_length t) (short_string_octets t @ rest) = Some (t, True)"
    using 2 s t by (intro SetCipShortStringByData_canonical [where rest = rest]) simp_all
  then show ?case
    using 2(3) s t by (simp add: advance_def)
next
  case (3 v0 req resp n v req' resp')
  then obtain s where s: "v0 = VShortString s" "is_short_string (VShortString s)"
    by (auto elim: is_short_stringE)
  then show ?case
    using 3(2)
    by (auto simp: SetCipShortStringByData_def ClearCipShortString_def wf_cip_short_string_def
        Let_def split: option.splits if_splits)
qed

subsection \<open>Strings and their pad octet\<close>

lemma word_odd_iff: "(x :: size_t) AND 1 \<noteq> 0 \<longleftrightarrow> odd (unat x)"
proof -
  have "unat (x AND 1) = unat x mod 2"
    by (simp add: and_one_eq unat_mod)
  then show ?thesis
    by (metis odd_iff_mod_2_eq_one unat_eq_zero even_iff_mod_2_eq_zero)
qed

definition is_string :: "cip_string \<Rightarrow> bool" where
  "is_string s \<longleftrightarrow> wf_cip_string s \<and> s_length s \<noteq> 0"

lemma is_string_octets: "is_string s \<Longrightarrow> length (string_octets s) = unat (s_length s)"
  by (auto simp: is_string_def wf_cip_string_def string_octets_def split: option.splits)

lemma EncodeCipString_octets:
  assumes "is_string s" and "wf_msg m" and "unat (s_length s) + 3 \<le> msg_room m"
  shows "\<exists>m'. EncodeCipString (VString s) m = Some m' \<and> wf_msg m' \<and>
    msg_content m' = msg_content m @ le_octets 2 (s_length s) @ string_octets s @
      (if odd (length (msg_content m) + unat (s_length s)) then [0] else [])"
proof -
  let ?bs = "le_octets 2 (s_length s) @ string_octets s"
  note len = is_string_octets [OF assms(1)]
  obtain m1 where m1: "emit ?bs m = Some m1" "wf_msg m1" "msg_content m1 = msg_content m @ ?bs"
      "msg_room m1 = msg_room m - length ?bs"
    using emit_wf_fits [OF assms(2), of ?bs] assms(3) len by auto
  have enc: "EncodeCipString (VString s) m = Option.bind (emit ?bs m)
      (\<lambda>m. if used_message_length m AND 1 \<noteq> 0 then emit [0] m else Some m)"
    using assms(1) len
    by (simp add: is_string_def message_ops append_octets_emit copy_octets_def cong: if_cong)
  have odd: "used_message_length m1 AND 1 \<noteq> 0 \<longleftrightarrow> odd (length (msg_content m) + unat (s_length s))"
    unfolding word_odd_iff unat_used_message_length [OF m1(2)] m1(3) using len by simp
  show ?thesis
  proof (cases "odd (length (msg_content m) + unat (s_length s))")
    case True
    have "length [0 :: octet] \<le> msg_room m1"
      using m1(4) assms(3) len by simp
    then obtain m2 where "emit [0] m1 = Some m2" "wf_msg m2" "msg_content m2 = msg_content m1 @ [0]"
      using emit_wf_fits [OF m1(2)] by blast
    then show ?thesis unfolding enc using m1 odd True by simp
  next
    case False
    then show ?thesis unfolding enc using m1 odd by simp
  qed
qed

lemma SetCipStringByData_exact:
  assumes "is_string s" and "wf_cip_string s0"
  shows "SetCipStringByData True s0 (s_length s) (string_octets s @ rest) =
    Some (cip_string.extend (cip_string.truncate s) (cip_string.more s0), True)"
  using assms is_string_octets [OF assms(1)]
  by (cases s0; cases s)
    (auto simp: SetCipStringByData_def ClearCipString_def is_string_def string_octets_def
      wf_cip_string_def copy_octets_def Let_def cip_string.extend_def cip_string.truncate_def
      split: option.splits)

text \<open>
  a non-empty CIP string is decoded back completely from what \<^verbatim>\<open>EncodeCipString\<close>
  appended if and only if it starts at an even offset of the message: the encoder pads
  the message to an even length, the decoder skips a pad octet after a string of odd
  length.
\<close>

theorem CipString_roundtrip_iff_even:
  fixes s s0 :: cip_string
  assumes "is_string s" and "wf_cip_string s0" and "wf_msg m" and "unat (s_length s) + 3 \<le> msg_room m"
  shows "\<exists>m'. EncodeCipString (VString s) m = Some m' \<and>
    ((\<exists>n resp'. DecodeCipString True (VString s0)
          (req\<lparr>req_data := drop (length (msg_content m)) (msg_content m')\<rparr>) resp =
        Some (n, VString s, req\<lparr>req_data := []\<rparr>, resp'))
     \<longleftrightarrow> even (length (msg_content m)))"
proof -
  let ?pad = "if odd (length (msg_content m) + unat (s_length s)) then [0 :: octet] else []"
  let ?d = "le_octets 2 (s_length s) @ string_octets s @ ?pad"
  obtain m' where m': "EncodeCipString (VString s) m = Some m'" "msg_content m' = msg_content m @ ?d"
    using EncodeCipString_octets [OF assms(1,3,4)] by blast
  have drop: "drop (length (msg_content m)) (msg_content m') = ?d"
    using m'(2) by simp
  have "SetCipStringByData True s0 (s_length s) (string_octets s @ ?pad) = Some (s, True)"
    using SetCipStringByData_exact [OF assms(1,2)] by (simp add: cip_string.extend_def cip_string.truncate_def)
  moreover have par: "even (uint (s_length s)) \<longleftrightarrow> even (unat (s_length s))"
    unfolding uint_nat by (rule even_of_nat)
  moreover have "GetUintFromMessage ?d = Some (s_length s, string_octets s @ ?pad)"
    by (rule uint.dec_enc)
  ultimately have dec: "DecodeCipString True (VString s0) (req\<lparr>req_data := ?d\<rparr>) resp =
      (if odd (unat (s_length s))
       then Option.bind (advance 1 ?pad) (\<lambda>d. Some (int (unat (s_length s)) + 3, VString s,
              req\<lparr>req_data := d\<rparr>, resp\<lparr>general_status := kCipErrorSuccess\<rparr>))
       else Some (int (unat (s_length s)) + 2, VString s, req\<lparr>req_data := ?pad\<rparr>,
              resp\<lparr>general_status := kCipErrorSuccess\<rparr>))"
    using is_string_octets [OF assms(1)]
    by (auto simp: advance_def Let_def par simp del: GetUintFromMessage.simps)
  show ?thesis
  proof (intro exI [of _ m'] conjI)
    show "(\<exists>n resp'. DecodeCipString True (VString s0)
          (req\<lparr>req_data := drop (length (msg_content m)) (msg_content m')\<rparr>) resp =
        Some (n, VString s, req\<lparr>req_data := []\<rparr>, resp')) \<longleftrightarrow> even (length (msg_content m))"
      unfolding drop dec
      by (cases "odd (unat (s_length s))"; cases "odd (length (msg_content m))")
        (auto simp: advance_def dest: arg_cong [where f = req_data])
  qed (rule m'(1))
qed

lemma CipString_roundtrip_iff_even_witness:
  "\<exists>m'. EncodeCipString (VString \<lparr>s_length = 1, s_string = Some [65]\<rparr>)
       (InitializeENIPMessage \<lparr>message_buffer = [], current_message_position = 0, used_message_length = 0\<rparr>) = Some m'
     \<and> (\<exists>n resp'. DecodeCipString True (VString \<lparr>s_length = 0, s_string = None\<rparr>)
          (undefined\<lparr>req_data := msg_content m'\<rparr>) undefined =
        Some (n, VString \<lparr>s_length = 1, s_string = Some [65]\<rparr>, undefined\<lparr>req_data := []\<rparr>, resp'))"
  using CipString_roundtrip_iff_even [of "\<lparr>s_length = 1, s_string = Some [65]\<rparr>" "\<lparr>s_length = 0, s_string = None\<rparr>"
      "InitializeENIPMessage \<lparr>message_buffer = [], current_message_position = 0, used_message_length = 0\<rparr>"
      undefined undefined]
  unfolding msg_content_init msg_room_init
  by (simp add: is_string_def wf_cip_string_def PC_OPENER_ETHERNET_BUFFER_SIZE_def
      del: EncodeCipString.simps DecodeCipString.simps)

end
