(* ===== verification/CipClass.thy ===== *)
theory CipClass
  imports CipData
begin

text \<open>
  Classes, instances, attributes and services of \<^verbatim>\<open>cip/cipcommon.c\<close>.

  In the C code a class is itself an instance (of its meta class), and an instance
  points to the class that describes it. The part of a class that describes its
  instances is the record \<open>cip_core\<close>; a class has one for its instances and one, the
  meta class, for itself. The address in an attribute's \<^verbatim>\<open>data\<close> pointer is a value of
  type \<open>data_ref\<close>: either a field of the class the attribute belongs to or an object of
  the application. The services work on a memory \<open>cip_mem\<close> that gives the data behind
  each address.

  Service functions and callbacks are function pointers. A callback is a function on the
  memory. A service function is a value of the type variable \<open>'svc\<close>, whose meaning is an
  argument of \<open>NotifyClass\<close>.
\<close>

subsection \<open>Data structures\<close>

datatype data_ref =
    RevisionField | MaxInstanceField | NumberOfInstancesField
  | HighestAttributeField | MetaHighestAttributeField | UintZero
  | Obj nat

type_synonym cip_mem = "data_ref \<Rightarrow> cip_value"

record cip_attribute =
  attr_number :: CipUint
  attr_type :: octet
  attr_encode :: "encode_fn option"
  attr_decode :: "decode_fn option"
  attribute_flags :: octet
  attr_data :: "data_ref option"

record cip_instance =
  inst_number :: CipInstanceNum
  attributes :: "cip_attribute list"

type_synonym get_set_callback = "cip_instance \<Rightarrow> cip_attribute \<Rightarrow> CipByte \<Rightarrow> cip_mem \<Rightarrow> cip_mem"

type_synonym cip_callback =
  "cip_instance \<Rightarrow> mr_request \<Rightarrow> mr_response \<Rightarrow> cip_mem \<Rightarrow> EipStatus \<times> mr_response \<times> cip_mem"

record 'svc cip_service =
  service_number :: octet
  service_function :: "'svc option"
  service_name :: string

record 'svc cip_core =
  number_of_attributes :: CipUint
  highest_attribute_number :: CipUint
  get_single_bit_mask :: "octet list"
  set_bit_mask :: "octet list"
  get_all_bit_mask :: "octet list"
  number_of_services :: CipUint
  services :: "'svc cip_service list"
  PreGetCallback :: "get_set_callback option"
  PostGetCallback :: "get_set_callback option"
  PreSetCallback :: "get_set_callback option"
  PostSetCallback :: "get_set_callback option"
  PreCreateCallback :: "cip_callback option"
  PostCreateCallback :: "cip_callback option"
  PreDeleteCallback :: "cip_callback option"
  PostDeleteCallback :: "cip_callback option"
  PreResetCallback :: "cip_callback option"
  PostResetCallback :: "cip_callback option"

record 'svc cip_class =
  class_inst :: cip_instance
  meta_class :: "'svc cip_core"
  core :: "'svc cip_core"
  class_code :: CipUdint
  revision :: CipUint
  max_instance :: CipUint
  number_of_instances :: CipUint
  instances :: "cip_instance list"
  class_name :: string

text \<open>A zeroed attribute or service slot, as \<^verbatim>\<open>CipCalloc\<close> leaves it.\<close>

definition empty_attribute :: cip_attribute where
  "empty_attribute = \<lparr>attr_number = 0, attr_type = 0, attr_encode = None, attr_decode = None,
     attribute_flags = 0, attr_data = None\<rparr>"

definition empty_service :: "'svc cip_service" where
  "empty_service = \<lparr>service_number = 0, service_function = None, service_name = []\<rparr>"

definition empty_core :: "'svc cip_core" where
  "empty_core = \<lparr>number_of_attributes = 0, highest_attribute_number = 0, get_single_bit_mask = [],
     set_bit_mask = [], get_all_bit_mask = [], number_of_services = 0, services = [],
     PreGetCallback = None, PostGetCallback = None, PreSetCallback = None, PostSetCallback = None,
     PreCreateCallback = None, PostCreateCallback = None, PreDeleteCallback = None,
     PostDeleteCallback = None, PreResetCallback = None, PostResetCallback = None\<rparr>"

text \<open>The memory as the services of a class see it: its own fields and the application's objects.\<close>

definition class_memory :: "'svc cip_class \<Rightarrow> (nat \<Rightarrow> cip_value) \<Rightarrow> cip_mem" where
  "class_memory c store ref =
     (case ref of
        RevisionField \<Rightarrow> V16 (revision c)
      | MaxInstanceField \<Rightarrow> V16 (max_instance c)
      | NumberOfInstancesField \<Rightarrow> V16 (number_of_instances c)
      | HighestAttributeField \<Rightarrow> V16 (highest_attribute_number (core c))
      | MetaHighestAttributeField \<Rightarrow> V16 (highest_attribute_number (meta_class c))
      | UintZero \<Rightarrow> V16 0
      | Obj n \<Rightarrow> store n)"

subsection \<open>Bit masks\<close>

definition CalculateIndex :: "CipUint \<Rightarrow> nat" where
  "CalculateIndex n = unat n div 8"

definition AllocateAttributeMasks :: "'svc cip_core \<Rightarrow> 'svc cip_core" where
  "AllocateAttributeMasks target_class =
     (let sz = 1 + CalculateIndex (highest_attribute_number target_class)
      in target_class\<lparr>get_single_bit_mask := replicate sz 0, set_bit_mask := replicate sz 0,
           get_all_bit_mask := replicate sz 0\<rparr>)"

text \<open>\<^verbatim>\<open>mask[CalculateIndex(n)] & (1 << (n % 8))\<close>, undefined outside of the mask.\<close>

definition mask_test :: "octet list \<Rightarrow> CipUint \<Rightarrow> bool option" where
  "mask_test bm n =
     (if CalculateIndex n < length bm
      then Some (bm ! CalculateIndex n AND push_bit (unat n mod 8) 1 \<noteq> 0) else None)"

definition mask_set :: "octet list \<Rightarrow> CipUint \<Rightarrow> bool \<Rightarrow> octet list option" where
  "mask_set bm n b =
     (if CalculateIndex n < length bm
      then Some (bm[CalculateIndex n :=
             bm ! CalculateIndex n OR (if b then push_bit (unat n mod 8) 1 else 0)])
      else None)"

subsection \<open>Building a class\<close>

definition GetMaxInstanceNumber :: "'svc cip_class \<Rightarrow> CipUint" where
  "GetMaxInstanceNumber c =
     foldl (\<lambda>m i. if inst_number i > m then inst_number i else m) 0 (instances c)"

text \<open>
  The search for a free instance number. It gives up after one more attempt than there
  are instances; a run that is longer has met every number it can produce
  (\<open>find_free_number_total\<close>).
\<close>

fun find_free_number :: "nat \<Rightarrow> cip_instance list \<Rightarrow> CipInstanceNum \<Rightarrow> CipInstanceNum option" where
  "find_free_number 0 insts n = None"
| "find_free_number (Suc fuel) insts n =
     (if n \<in> set (map inst_number insts) then find_free_number fuel insts (n + 1) else Some n)"

text \<open>
  The loop of \<^verbatim>\<open>AddCipInstances\<close>: each turn appends one instance at the end of the chain.
  The remaining number of turns, the class, and the next candidate number are the
  loop's variables; the numbers of the new instances are collected in order.
\<close>

fun add_instances_loop ::
    "nat \<Rightarrow> CipInstanceNum \<Rightarrow> 'svc cip_class \<Rightarrow> ('svc cip_class \<times> CipInstanceNum list) option" where
  "add_instances_loop 0 n c = Some (c, [])"
| "add_instances_loop (Suc k) n c = do {
     n \<leftarrow> find_free_number (Suc (length (instances c))) (instances c) n;
     let inst = \<lparr>inst_number = n,
           attributes = replicate (unat (number_of_attributes (core c))) empty_attribute\<rparr>;
     (c', ns) \<leftarrow> add_instances_loop k (n + 1)
         (c\<lparr>instances := instances c @ [inst],
            number_of_instances := number_of_instances c + 1\<rparr>);
     Some (c', n # ns)
   }"

text \<open>The result is the class and the number of the first new instance (the returned pointer).\<close>

definition AddCipInstances ::
    "'svc cip_class \<Rightarrow> CipInstanceNum \<Rightarrow> ('svc cip_class \<times> CipInstanceNum option) option" where
  "AddCipInstances c n = do {
     (c, ns) \<leftarrow> add_instances_loop (unat n) 1 c;
     Some (c\<lparr>max_instance := GetMaxInstanceNumber c\<rparr>, case ns of [] \<Rightarrow> None | k # _ \<Rightarrow> Some k)
   }"

definition GetCipInstance :: "'svc cip_class \<Rightarrow> CipInstanceNum \<Rightarrow> cip_instance option" where
  "GetCipInstance c n =
     (if n = 0 then Some (class_inst c) else find (\<lambda>i. inst_number i = n) (instances c))"

text \<open>The new instance is the last one of the chain; its number is overwritten.\<close>

definition AddCipInstance ::
    "'svc cip_class \<Rightarrow> CipInstanceNum \<Rightarrow> ('svc cip_class \<times> cip_instance) option" where
  "AddCipInstance c instance_id =
     (case GetCipInstance c instance_id of
        Some i \<Rightarrow> Some (c\<lparr>max_instance := GetMaxInstanceNumber c\<rparr>, i)
      | None \<Rightarrow> do {
          (c, _) \<leftarrow> AddCipInstances c 1;
          let inst = (last (instances c))\<lparr>inst_number := instance_id\<rparr>;
          let c = c\<lparr>instances := butlast (instances c) @ [inst]\<rparr>;
          Some (c\<lparr>max_instance := GetMaxInstanceNumber c\<rparr>, inst) })"

text \<open>
  \<^verbatim>\<open>InsertAttribute\<close> fills the first slot whose \<^verbatim>\<open>data\<close> is null and sets the masks of the
  class the instance belongs to. \<open>insert_slot\<close> is the loop over the slots.
\<close>

fun insert_slot :: "nat \<Rightarrow> cip_attribute \<Rightarrow> cip_attribute list \<Rightarrow> cip_attribute list option" where
  "insert_slot 0 a slots = None"
| "insert_slot (Suc k) a [] = None"
| "insert_slot (Suc k) a (s # slots) =
     (if attr_data s = None then Some (a # slots)
      else map_option ((#) s) (insert_slot k a slots))"

definition InsertAttribute ::
    "'svc cip_core \<Rightarrow> cip_instance \<Rightarrow> CipUint \<Rightarrow> octet \<Rightarrow> encode_fn option \<Rightarrow> decode_fn option \<Rightarrow> data_ref
       \<Rightarrow> octet \<Rightarrow> ('svc cip_core \<times> cip_instance) option" where
  "InsertAttribute cls inst n type enc dec data cip_flags = do {
     let a = \<lparr>attr_number = n, attr_type = type, attr_encode = enc, attr_decode = dec,
              attribute_flags = cip_flags, attr_data = Some data\<rparr>;
     slots \<leftarrow> insert_slot (unat (number_of_attributes cls)) a (attributes inst);
     guard (n \<le> highest_attribute_number cls);
     single \<leftarrow> mask_set (get_single_bit_mask cls) n (cip_flags AND kGetableSingle \<noteq> 0);
     ga \<leftarrow> mask_set (get_all_bit_mask cls) n (cip_flags AND (kGetableAll OR kGetableAllDummy) \<noteq> 0);
     sb \<leftarrow> mask_set (set_bit_mask cls) n (cip_flags AND kSetable \<noteq> 0);
     Some (cls\<lparr>get_single_bit_mask := single, get_all_bit_mask := ga, set_bit_mask := sb\<rparr>,
           inst\<lparr>attributes := slots\<rparr>)
   }"

text \<open>\<^verbatim>\<open>InsertService\<close> reuses a slot with the same number or fills the first free one.\<close>

fun insert_service_slot :: "nat \<Rightarrow> 'svc cip_service \<Rightarrow> 'svc cip_service list \<Rightarrow> 'svc cip_service list option" where
  "insert_service_slot 0 a slots = None"
| "insert_service_slot (Suc k) a [] = None"
| "insert_service_slot (Suc k) a (s # slots) =
     (if service_number s = service_number a \<or> service_function s = None then Some (a # slots)
      else map_option ((#) s) (insert_service_slot k a slots))"

definition InsertService :: "'svc cip_core \<Rightarrow> octet \<Rightarrow> 'svc \<Rightarrow> string \<Rightarrow> 'svc cip_core option" where
  "InsertService cls n f name = do {
     slots \<leftarrow> insert_service_slot (unat (number_of_services cls))
        \<lparr>service_number = n, service_function = Some f, service_name = name\<rparr> (services cls);
     Some (cls\<lparr>services := slots\<rparr>)
   }"

definition InsertGetSetCallback :: "'svc cip_core \<Rightarrow> get_set_callback \<Rightarrow> octet \<Rightarrow> 'svc cip_core" where
  "InsertGetSetCallback cls f callbacks_to_install =
     (let cls = (if kPreGetFunc AND callbacks_to_install \<noteq> 0 then cls\<lparr>PreGetCallback := Some f\<rparr> else cls);
          cls = (if kPostGetFunc AND callbacks_to_install \<noteq> 0 then cls\<lparr>PostGetCallback := Some f\<rparr> else cls);
          cls = (if kPreSetFunc AND callbacks_to_install \<noteq> 0 then cls\<lparr>PreSetCallback := Some f\<rparr> else cls)
      in if (kPostSetFunc OR kNvDataFunc) AND callbacks_to_install \<noteq> 0
         then cls\<lparr>PostSetCallback := Some f\<rparr> else cls)"

subsection \<open>Looking up\<close>

definition GetCipAttribute :: "'svc cip_core \<Rightarrow> cip_instance \<Rightarrow> CipUint \<Rightarrow> cip_attribute option" where
  "GetCipAttribute cls inst n =
     find (\<lambda>a. n = attr_number a) (take (unat (number_of_attributes cls)) (attributes inst))"

definition GetCipService :: "'svc cip_core \<Rightarrow> CipUsint \<Rightarrow> 'svc cip_service option" where
  "GetCipService cls n =
     find (\<lambda>s. service_number s = n) (take (unat (number_of_services cls)) (services cls))"

subsection \<open>Free instance numbers\<close>

abbreviation inst_numbers :: "cip_instance list \<Rightarrow> CipInstanceNum set" where
  "inst_numbers insts \<equiv> set (map inst_number insts)"

lemma find_free_number_Some:
  assumes "find_free_number fuel insts n = Some m"
  shows "m \<notin> inst_numbers insts
    \<and> (\<exists>k<fuel. m = n + of_nat k \<and> (\<forall>j<k. n + of_nat j \<in> inst_numbers insts))"
  using assms
proof (induction fuel arbitrary: n)
  case 0
  then show ?case by simp
next
  case (Suc fuel)
  show ?case
  proof (cases "n \<in> inst_numbers insts")
    case True
    with Suc.prems have "find_free_number fuel insts (n + 1) = Some m" by simp
    from Suc.IH [OF this] obtain k where k: "k < fuel" "m = n + 1 + of_nat k"
        "\<forall>j<k. n + 1 + of_nat j \<in> inst_numbers insts" "m \<notin> inst_numbers insts"
      by blast
    have "n + of_nat j \<in> inst_numbers insts" if "j < Suc k" for j
      using that True k(3) by (cases j) (simp_all add: add.assoc)
    with k show ?thesis by (intro conjI exI [of _ "Suc k"]) (simp_all add: add.assoc)
  next
    case False
    then show ?thesis using Suc.prems by auto
  qed
qed

lemma find_free_number_None:
  "find_free_number fuel insts n = None \<Longrightarrow> j < fuel \<Longrightarrow> n + of_nat j \<in> inst_numbers insts"
proof (induction fuel arbitrary: n j)
  case (Suc fuel)
  then show ?case
    by (cases j) (auto simp: add.assoc [symmetric] split: if_splits)
qed simp

lemma inj_on_of_nat_offset: "k \<le> 65536 \<Longrightarrow> inj_on (\<lambda>j. (n :: 16 word) + of_nat j) {..<k}"
proof (rule inj_onI)
  fix x y
  assume *: "k \<le> 65536" "x \<in> {..<k}" "y \<in> {..<k}" "n + of_nat x = n + of_nat y"
  then have "unat (of_nat x :: 16 word) = unat (of_nat y :: 16 word)" by simp
  then show "x = y" using * by (simp add: unsigned_of_nat take_bit_nat_eq_self)
qed

lemma run_of_numbers_length:
  assumes "\<forall>j<k. n + of_nat j \<in> inst_numbers insts" and "k \<le> 65536"
  shows "k \<le> length insts"
proof -
  have "(\<lambda>j. n + of_nat j) ` {..<k} \<subseteq> inst_numbers insts" using assms(1) by auto
  then have "card ((\<lambda>j. n + of_nat j) ` {..<k}) \<le> card (inst_numbers insts)"
    by (intro card_mono) auto
  also have "\<dots> \<le> length insts" by (metis card_length length_map)
  finally show ?thesis
    using card_image [OF inj_on_of_nat_offset [OF assms(2), of n]] by simp
qed

lemma find_free_number_total:
  assumes "length insts < 65536"
  shows "\<exists>m. find_free_number (Suc (length insts)) insts n = Some m"
proof (rule ccontr)
  assume "\<not> ?thesis"
  then have "find_free_number (Suc (length insts)) insts n = None" by simp
  then have "\<forall>j<Suc (length insts). n + of_nat j \<in> inst_numbers insts"
    using find_free_number_None by blast
  then have "Suc (length insts) \<le> length insts"
    using assms by (intro run_of_numbers_length) simp_all
  then show False by simp
qed

subsection \<open>Well-formed classes\<close>

definition wf_instances :: "'svc cip_class \<Rightarrow> bool" where
  "wf_instances c \<longleftrightarrow>
     distinct (map inst_number (instances c)) \<and> 0 \<notin> inst_numbers (instances c)
     \<and> number_of_instances c = of_nat (length (instances c))
     \<and> (\<forall>i \<in> set (instances c). length (attributes i) = unat (number_of_attributes (core c)))"

definition wf_class :: "'svc cip_class \<Rightarrow> bool" where
  "wf_class c \<longleftrightarrow> wf_instances c \<and> max_instance c = GetMaxInstanceNumber c"

lemma GetMaxInstanceNumber_Max:
  "GetMaxInstanceNumber c = Max (insert 0 (inst_numbers (instances c)))"
proof -
  have "foldl (\<lambda>m i. if inst_number i > m then inst_number i else m) a is =
      Max (insert a (inst_numbers is))" for a and "is" :: "cip_instance list"
  proof (induction "is" arbitrary: a)
    case (Cons i "is")
    have "Max (insert (max a (inst_number i)) (inst_numbers is)) =
        Max (insert a (inst_numbers (i # is)))"
      by (cases "is = []") (simp_all add: Max_insert max.assoc)
    moreover have "(if inst_number i > a then inst_number i else a) = max a (inst_number i)"
      by (auto simp: max_def)
    ultimately show ?case using Cons.IH by simp
  qed simp
  then show ?thesis by (simp add: GetMaxInstanceNumber_def)
qed

text \<open>All numbers from 1 up to the next candidate are taken.\<close>

definition taken_below :: "CipInstanceNum \<Rightarrow> cip_instance list \<Rightarrow> bool" where
  "taken_below n insts \<longleftrightarrow> 1 \<le> unat n \<and> (\<forall>j. 1 \<le> j \<and> j < unat n \<longrightarrow> of_nat j \<in> inst_numbers insts)"

lemma find_free_number_step:
  assumes "find_free_number (Suc (length insts)) insts n = Some m"
    and "taken_below n insts" and "length insts < 65535"
  shows "m \<noteq> 0 \<and> m \<notin> inst_numbers insts \<and> taken_below m insts"
proof -
  obtain k where k: "k < Suc (length insts)" "m = n + of_nat k"
      "\<forall>j<k. n + of_nat j \<in> inst_numbers insts" and m: "m \<notin> inst_numbers insts"
    using find_free_number_Some [OF assms(1)] by blast
  let ?t = "unat n - 1 + k"
  have all: "of_nat j \<in> inst_numbers insts" if "1 \<le> j" "j \<le> ?t" for j
  proof (cases "j < unat n")
    case True
    then show ?thesis using that assms(2) by (simp add: taken_below_def)
  next
    case False
    then obtain i where i: "j = unat n + i" using le_Suc_ex not_less by blast
    moreover have "i < k" using i that assms(2) by (auto simp: taken_below_def)
    ultimately show ?thesis using k(3) by simp
  qed
  have "\<forall>j<min ?t 65535. (1 :: 16 word) + of_nat j \<in> inst_numbers insts"
    using all [of "Suc _"] by (simp add: Suc_leI)
  then have "min ?t 65535 \<le> length insts"
    by (rule run_of_numbers_length) simp
  then have t: "?t < 65535" using assms(3) by simp
  have "unat m = ?t + 1"
  proof -
    have "m = of_nat (unat n + k)" using k(2) by simp
    moreover have "unat n + k < 65536" using t assms(2) by (simp add: taken_below_def)
    ultimately have "unat m = unat n + k" by (metis unat_of_nat_16)
    then show ?thesis using assms(2) by (simp add: taken_below_def)
  qed
  then show ?thesis using all m by (auto simp: taken_below_def)
qed

lemma add_instances_loop_wf:
  assumes "wf_instances c" and "taken_below n (instances c)"
    and "length (instances c) + k \<le> 65535"
  shows "\<exists>c' ns new. add_instances_loop k n c = Some (c', ns) \<and> wf_instances c'
    \<and> instances c' = instances c @ new \<and> map inst_number new = ns \<and> length ns = k
    \<and> core c' = core c \<and> meta_class c' = meta_class c \<and> class_inst c' = class_inst c
    \<and> class_code c' = class_code c"
  using assms
proof (induction k arbitrary: n c)
  case 0
  then show ?case by auto
next
  case (Suc k)
  obtain m where m: "find_free_number (Suc (length (instances c))) (instances c) n = Some m"
    using find_free_number_total [of "instances c" n] Suc.prems(3) by auto
  have step: "m \<noteq> 0" "m \<notin> inst_numbers (instances c)" "taken_below m (instances c)"
    using find_free_number_step [OF m Suc.prems(2)] Suc.prems(3) by auto
  let ?i = "\<lparr>inst_number = m, attributes = replicate (unat (number_of_attributes (core c))) empty_attribute\<rparr>"
  let ?c = "c\<lparr>instances := instances c @ [?i], number_of_instances := number_of_instances c + 1\<rparr>"
  have wf: "wf_instances ?c"
    using Suc.prems(1) step by (auto simp: wf_instances_def)
  show ?case
  proof (cases "k = 0")
    case True
    then show ?thesis using m wf by (auto simp: Let_def)
  next
    case False
    have "unat m < 65535"
    proof (rule ccontr)
      assume "\<not> ?thesis"
      then have "\<forall>j<65534. (1 :: 16 word) + of_nat j \<in> inst_numbers (instances c)"
        using step(3) by (auto simp: taken_below_def simp flip: of_nat_Suc)
      then have "65534 \<le> length (instances c)" by (rule run_of_numbers_length) simp
      then show False using Suc.prems(3) False by simp
    qed
    then have "unat (m + 1) = unat m + 1"
      by (simp add: unat_word_ariths)
    then have "taken_below (m + 1) (instances ?c)"
      using step(3) by (auto simp: taken_below_def less_Suc_eq)
    then obtain c' ns new where "add_instances_loop k (m + 1) ?c = Some (c', ns)" "wf_instances c'"
        "instances c' = instances ?c @ new" "map inst_number new = ns" "length ns = k"
        "core c' = core ?c" "meta_class c' = meta_class ?c" "class_inst c' = class_inst ?c"
        "class_code c' = class_code ?c"
      using Suc.IH [OF wf] Suc.prems(3) by fastforce
    then show ?thesis
      using m by (intro exI [of _ c'] exI [of _ "m # ns"] exI [of _ "?i # new"]) (simp add: Let_def)
  qed
qed

lemma add_instances_ok:
  assumes "wf_class c" and "length (instances c) + unat n \<le> 65535"
  shows "\<exists>c' new. AddCipInstances c n = Some (c', case new of [] \<Rightarrow> None | i # _ \<Rightarrow> Some (inst_number i))
    \<and> wf_class c' \<and> instances c' = instances c @ new \<and> length new = unat n
    \<and> number_of_instances c' = number_of_instances c + n"
proof -
  have "taken_below 1 (instances c)" by (simp add: taken_below_def)
  then obtain c' ns new where c': "add_instances_loop (unat n) 1 c = Some (c', ns)" "wf_instances c'"
      "instances c' = instances c @ new" "map inst_number new = ns" "length ns = unat n"
    using add_instances_loop_wf [of c 1 "unat n"] assms by (auto simp: wf_class_def)
  let ?c = "c'\<lparr>max_instance := GetMaxInstanceNumber c'\<rparr>"
  have "wf_class ?c"
    using c'(2) by (simp add: wf_class_def wf_instances_def GetMaxInstanceNumber_def)
  moreover have "number_of_instances c' = number_of_instances c + n"
    using c'(2-5) assms(1) by (auto simp: wf_class_def wf_instances_def)
  ultimately show ?thesis
    using c' by (intro exI [of _ ?c] exI [of _ new]) (auto simp: AddCipInstances_def split: list.splits)
qed

text \<open>
  C28: adding instances to a well-formed class succeeds as long as no more than 65535
  instances result. It keeps the existing instances and appends the new ones, with as many attribute slots as the class has; all numbers are then
  non-zero and different from each other, the class attribute "number of instances" is the number of the instances, and "max instance" is the
  largest of their numbers (0 if there is none).
\<close>

theorem AddCipInstances_wf:
  assumes "wf_class c" and "length (instances c) + unat n \<le> 65535"
  shows "\<exists>c' new. AddCipInstances c n = Some (c', case new of [] \<Rightarrow> None | i # _ \<Rightarrow> Some (inst_number i))
    \<and> wf_class c' \<and> instances c' = instances c @ new \<and> length new = unat n
    \<and> (\<forall>i \<in> set new. length (attributes i) = unat (number_of_attributes (core c')))
    \<and> distinct (map inst_number (instances c')) \<and> 0 \<notin> inst_numbers (instances c')
    \<and> unat (number_of_instances c') = length (instances c')
    \<and> max_instance c' = Max (insert 0 (inst_numbers (instances c')))"
proof -
  obtain c' new where c': "AddCipInstances c n = Some (c', case new of [] \<Rightarrow> None | i # _ \<Rightarrow> Some (inst_number i))"
      "wf_class c'" "instances c' = instances c @ new" "length new = unat n"
    using add_instances_ok [OF assms] by blast
  have "number_of_instances c' = of_nat (length (instances c'))" "length (instances c') < 2 ^ 16"
    using c'(2-4) assms(2) by (simp_all add: wf_class_def wf_instances_def)
  then have "unat (number_of_instances c') = length (instances c')"
    by (simp only: unsigned_of_nat) (simp add: take_bit_nat_eq_self)
  then show ?thesis
    using c' by (intro exI [of _ c'] exI [of _ new]) (simp add: wf_class_def wf_instances_def GetMaxInstanceNumber_Max)
qed

definition example_class :: "nat cip_class" where
  "example_class = \<lparr>class_inst = \<lparr>inst_number = 0, attributes = []\<rparr>, meta_class = empty_core,
     core = empty_core, class_code = 4, revision = 2, max_instance = 3, number_of_instances = 1,
     instances = [\<lparr>inst_number = 3, attributes = []\<rparr>], class_name = ''assembly''\<rparr>"

lemma AddCipInstances_wf_witness:
  "\<exists>c' new. AddCipInstances example_class 2 = Some (c', case new of [] \<Rightarrow> None | i # _ \<Rightarrow> Some (inst_number i))
     \<and> wf_class c' \<and> instances c' = instances example_class @ new \<and> length new = 2
     \<and> max_instance c' = Max (insert 0 (inst_numbers (instances c')))"
proof -
  have "wf_class example_class"
    by (simp add: wf_class_def wf_instances_def example_class_def GetMaxInstanceNumber_def empty_core_def)
  moreover have "length (instances example_class) + unat (2 :: CipInstanceNum) \<le> 65535"
    by (simp add: example_class_def)
  ultimately show ?thesis using AddCipInstances_wf [of example_class 2] by auto
qed

subsection \<open>The masks reflect the flags\<close>

lemma mask_test_bit:
  "CalculateIndex n < length bm \<Longrightarrow> mask_test bm n = Some (bit (bm ! CalculateIndex n) (unat n mod 8))"
  by (simp add: mask_test_def bit_iff_and_push_bit_not_eq_0)

lemma CalculateIndex_mod_inj:
  "CalculateIndex n = CalculateIndex k \<Longrightarrow> unat n mod 8 = unat k mod 8 \<Longrightarrow> n = k"
  unfolding CalculateIndex_def by (metis div_mult_mod_eq unsigned_word_eqI)

lemma mask_set_test:
  assumes "mask_set bm n b = Some bm'"
  shows "length bm' = length bm"
    and "mask_test bm' k = (if k = n then map_option (\<lambda>x. x \<or> b) (mask_test bm n) else mask_test bm k)"
proof -
  have n: "CalculateIndex n < length bm"
    and bm': "bm' = bm[CalculateIndex n := bm ! CalculateIndex n OR (if b then push_bit (unat n mod 8) 1 else 0)]"
    using assms by (auto simp: mask_set_def split: if_splits)
  show "length bm' = length bm" using bm' by simp
  show "mask_test bm' k = (if k = n then map_option (\<lambda>x. x \<or> b) (mask_test bm n) else mask_test bm k)"
  proof (cases "CalculateIndex k = CalculateIndex n")
    case True
    have "bit (bm' ! CalculateIndex n) (unat k mod 8) \<longleftrightarrow>
        bit (bm ! CalculateIndex n) (unat k mod 8) \<or> b \<and> unat k mod 8 = unat n mod 8"
      using n by (simp add: bm' bit_or_iff bit_exp_iff push_bit_of_1)
    then show ?thesis
      using True n bm' CalculateIndex_mod_inj [OF True] by (auto simp: mask_test_bit)
  next
    case False
    then show ?thesis using bm' by (auto simp: mask_test_def)
  qed
qed

text \<open>
  The invariant of a class and its only instance (or a meta class and the class): the
  masks cover all attribute numbers, and a mask has the bit of a number exactly when an
  attribute with that number was inserted with a flag the mask stands for.
\<close>

definition used_attributes :: "cip_instance \<Rightarrow> cip_attribute set" where
  "used_attributes inst = {a \<in> set (attributes inst). attr_data a \<noteq> None}"

definition mask_exact :: "octet list \<Rightarrow> octet \<Rightarrow> 'svc cip_core \<Rightarrow> cip_instance \<Rightarrow> bool" where
  "mask_exact bm flag cls inst \<longleftrightarrow>
     length bm = 1 + CalculateIndex (highest_attribute_number cls)
     \<and> (\<forall>n \<le> highest_attribute_number cls.
          mask_test bm n = Some (\<exists>a \<in> used_attributes inst. attr_number a = n \<and> attribute_flags a AND flag \<noteq> 0))"

definition masks_ok :: "'svc cip_core \<Rightarrow> cip_instance \<Rightarrow> bool" where
  "masks_ok cls inst \<longleftrightarrow>
     length (attributes inst) = unat (number_of_attributes cls)
     \<and> (\<forall>a \<in> used_attributes inst. attr_number a \<le> highest_attribute_number cls)
     \<and> mask_exact (get_single_bit_mask cls) kGetableSingle cls inst
     \<and> mask_exact (set_bit_mask cls) kSetable cls inst
     \<and> mask_exact (get_all_bit_mask cls) (kGetableAll OR kGetableAllDummy) cls inst"

lemma insert_slot_used:
  "insert_slot k a slots = Some slots' \<Longrightarrow>
     length slots' = length slots
     \<and> {x \<in> set slots'. attr_data x \<noteq> None} =
         {x \<in> set slots. attr_data x \<noteq> None} \<union> (if attr_data a = None then {} else {a})"
proof (induction k a slots arbitrary: slots' rule: insert_slot.induct)
  case (3 k a s slots)
  show ?case
  proof (cases "attr_data s = None")
    case True
    then show ?thesis using "3.prems" by auto
  next
    case False
    then obtain r where r: "insert_slot k a slots = Some r" "slots' = s # r"
      using "3.prems" by auto
    then show ?thesis using "3.IH" [OF False r(1)] False by auto
  qed
qed simp_all

lemma insert_slot_total:
  "\<exists>s \<in> set (take k slots). attr_data s = None \<Longrightarrow> insert_slot k a slots \<noteq> None"
  by (induction k a slots rule: insert_slot.induct) auto

lemma CalculateIndex_mono: "n \<le> k \<Longrightarrow> CalculateIndex n \<le> CalculateIndex k"
  by (simp add: CalculateIndex_def div_le_mono word_le_nat_alt)

lemma mask_exact_insert:
  assumes "mask_exact bm flag cls inst" and "mask_set bm n (fl AND flag \<noteq> 0) = Some bm'"
    and "used_attributes inst' = insert a (used_attributes inst)" and "attr_number a = n"
    and "attribute_flags a = fl" and "highest_attribute_number cls' = highest_attribute_number cls"
  shows "mask_exact bm' flag cls' inst'"
  using assms mask_set_test [OF assms(2)] unfolding mask_exact_def by auto

lemma InsertAttribute_ok:
  assumes "masks_ok cls inst" and "n \<le> highest_attribute_number cls"
    and "\<exists>s \<in> set (attributes inst). attr_data s = None"
  shows "\<exists>cls' inst'. InsertAttribute cls inst n type enc dec data fl = Some (cls', inst')
    \<and> masks_ok cls' inst'
    \<and> used_attributes inst' = insert \<lparr>attr_number = n, attr_type = type, attr_encode = enc,
         attr_decode = dec, attribute_flags = fl, attr_data = Some data\<rparr> (used_attributes inst)"
proof -
  let ?a = "\<lparr>attr_number = n, attr_type = type, attr_encode = enc, attr_decode = dec,
    attribute_flags = fl, attr_data = Some data\<rparr>"
  let ?f = "kGetableAll OR kGetableAllDummy"
  have len: "length (attributes inst) = unat (number_of_attributes cls)"
    and ex: "mask_exact (get_single_bit_mask cls) kGetableSingle cls inst"
      "mask_exact (set_bit_mask cls) kSetable cls inst" "mask_exact (get_all_bit_mask cls) ?f cls inst"
    using assms(1) by (simp_all add: masks_ok_def)
  obtain slots where slots: "insert_slot (unat (number_of_attributes cls)) ?a (attributes inst) = Some slots"
    using insert_slot_total [of "unat (number_of_attributes cls)" "attributes inst" ?a] assms(3) len by auto
  have used: "used_attributes (inst\<lparr>attributes := slots\<rparr>) = insert ?a (used_attributes inst)"
    using insert_slot_used [OF slots] by (auto simp: used_attributes_def)
  have idx: "CalculateIndex n < 1 + CalculateIndex (highest_attribute_number cls)"
    using CalculateIndex_mono [OF assms(2)] by simp
  obtain m1 m2 m3 where m:
      "mask_set (get_single_bit_mask cls) n (fl AND kGetableSingle \<noteq> 0) = Some m1"
      "mask_set (get_all_bit_mask cls) n (fl AND ?f \<noteq> 0) = Some m2"
      "mask_set (set_bit_mask cls) n (fl AND kSetable \<noteq> 0) = Some m3"
    using ex idx by (auto simp: mask_exact_def mask_set_def)
  let ?cls = "cls\<lparr>get_single_bit_mask := m1, get_all_bit_mask := m2, set_bit_mask := m3\<rparr>"
  let ?inst = "inst\<lparr>attributes := slots\<rparr>"
  have "mask_exact m1 kGetableSingle ?cls ?inst"
    by (rule mask_exact_insert [OF ex(1) m(1) used]) simp_all
  moreover have "mask_exact m3 kSetable ?cls ?inst"
    by (rule mask_exact_insert [OF ex(2) m(3) used]) simp_all
  moreover have "mask_exact m2 ?f ?cls ?inst"
    by (rule mask_exact_insert [OF ex(3) m(2) used]) simp_all
  moreover have "length slots = unat (number_of_attributes cls)"
    using insert_slot_used [OF slots] len by simp
  moreover have "\<forall>a \<in> used_attributes ?inst. attr_number a \<le> highest_attribute_number cls"
    using assms(1,2) used by (auto simp: masks_ok_def)
  ultimately have "masks_ok ?cls ?inst" by (simp add: masks_ok_def)
  then show ?thesis
    using slots m used assms(2) by (simp add: InsertAttribute_def Let_def)
qed

text \<open>
  C27: \<^verbatim>\<open>InsertAttribute\<close> succeeds on an instance with a free slot for a number up to the
  class's highest attribute number (which the code asserts), adds exactly the new attribute and
  keeps the three masks of the class in agreement with the flags of the attributes.
\<close>

theorem InsertAttribute_masks:
  assumes "masks_ok cls inst" and "n \<le> highest_attribute_number cls"
    and "\<exists>s \<in> set (attributes inst). attr_data s = None"
  shows "\<exists>cls' inst'. InsertAttribute cls inst n type enc dec data fl = Some (cls', inst')
    \<and> masks_ok cls' inst'
    \<and> used_attributes inst' = insert \<lparr>attr_number = n, attr_type = type, attr_encode = enc,
         attr_decode = dec, attribute_flags = fl, attr_data = Some data\<rparr> (used_attributes inst)"
  using assms by (rule InsertAttribute_ok)

definition example_core :: "nat cip_core" where
  "example_core = AllocateAttributeMasks (empty_core\<lparr>number_of_attributes := 2, highest_attribute_number := 7\<rparr>)"

definition example_instance :: cip_instance where
  "example_instance = \<lparr>inst_number = 1, attributes = replicate 2 empty_attribute\<rparr>"

lemma masks_ok_empty:
  "masks_ok (AllocateAttributeMasks cls)
     \<lparr>inst_number = i, attributes = replicate (unat (number_of_attributes cls)) empty_attribute\<rparr>"
proof -
  have "used_attributes \<lparr>inst_number = i, attributes = replicate k empty_attribute\<rparr> = {}" for k
    by (auto simp: used_attributes_def empty_attribute_def)
  moreover have "n \<le> highest_attribute_number cls \<Longrightarrow>
      mask_test (replicate (Suc (CalculateIndex (highest_attribute_number cls))) 0) n = Some False" for n
    using CalculateIndex_mono [of n "highest_attribute_number cls"]
    by (simp add: mask_test_def del: replicate_Suc)
  ultimately show ?thesis
    by (simp add: masks_ok_def mask_exact_def AllocateAttributeMasks_def Let_def del: replicate_Suc)
qed

lemma InsertAttribute_masks_witness:
  "\<exists>cls' inst'. InsertAttribute example_core example_instance 7 kCipUint None None (Obj 0) kSetAndGetAble
       = Some (cls', inst') \<and> masks_ok cls' inst'"
proof -
  have "masks_ok example_core example_instance"
    using masks_ok_empty [of "empty_core\<lparr>number_of_attributes := 2, highest_attribute_number := 7\<rparr>" 1]
    by (simp add: example_core_def example_instance_def)
  moreover have "7 \<le> highest_attribute_number example_core"
    by (simp add: example_core_def AllocateAttributeMasks_def Let_def)
  moreover have "\<exists>s \<in> set (attributes example_instance). attr_data s = None"
    by (simp add: example_instance_def empty_attribute_def)
  ultimately show ?thesis
    using InsertAttribute_masks [of example_core example_instance 7 kCipUint None None "Obj 0" kSetAndGetAble]
    by auto
qed

end
