(* ===== verification/CipServices.thy ===== *)
theory CipServices
  imports CipClass
begin

text \<open>
  The services of \<^verbatim>\<open>cip/cipcommon.c\<close>: reading and writing attributes one by one, all at
  once and by list, creating, deleting and resetting instances, the dispatch of a request to
  a service (\<^verbatim>\<open>NotifyClass\<close>), and the creation of a class.

  A service is a function of the class that describes the instance, the instance, the
  memory behind the attributes, the request and the response; \<^term>\<open>None\<close> stands for the
  runs that leave the defined behaviour of C (a failed assertion, a null pointer, a write
  behind the message buffer, a read behind the request).
\<close>

subsection \<open>Single attributes\<close>

definition GenerateGetAttributeSingleHeader :: "mr_request \<Rightarrow> mr_response \<Rightarrow> mr_response" where
  "GenerateGetAttributeSingleHeader req resp =
     resp\<lparr>message := InitializeENIPMessage (message resp), reply_service := 0x80 OR req_service req,
       general_status := kCipErrorAttributeNotSupported, size_of_additional_status := 0\<rparr>"

definition GenerateSetAttributeSingleHeader :: "mr_request \<Rightarrow> mr_response \<Rightarrow> mr_response" where
  "GenerateSetAttributeSingleHeader req resp =
     resp\<lparr>message := InitializeENIPMessage (message resp), reply_service := 0x80 OR req_service req,
       general_status := kCipErrorAttributeNotSupported, size_of_additional_status := 0\<rparr>"

text \<open>\<^verbatim>\<open>attribute->encode(attribute->data, ...)\<close> and \<^verbatim>\<open>attribute->decode(attribute->data, ...)\<close>.\<close>

definition encode_attribute :: "cip_attribute \<Rightarrow> cip_mem \<Rightarrow> enip_message \<Rightarrow> enip_message option" where
  "encode_attribute a mem m = do {
     enc \<leftarrow> attr_encode a;
     p \<leftarrow> attr_data a;
     enc (mem p) m }"

definition decode_attribute ::
    "cip_attribute \<Rightarrow> cip_mem \<Rightarrow> mr_request \<Rightarrow> mr_response \<Rightarrow> (cip_mem \<times> mr_request \<times> mr_response) option" where
  "decode_attribute a mem req resp = do {
     dec \<leftarrow> attr_decode a;
     p \<leftarrow> attr_data a;
     (_, v, req, resp) \<leftarrow> dec (mem p) req resp;
     Some (mem(p := v), req, resp) }"

text \<open>A callback runs when the attribute asks for it and the class provides one.\<close>

definition run_callback ::
    "octet \<Rightarrow> get_set_callback option \<Rightarrow> cip_instance \<Rightarrow> cip_attribute \<Rightarrow> mr_request \<Rightarrow> cip_mem \<Rightarrow> cip_mem" where
  "run_callback flag f inst a req mem =
     (if attribute_flags a AND flag \<noteq> 0
      then (case f of None \<Rightarrow> mem | Some f \<Rightarrow> f inst a (req_service req) mem) else mem)"

definition GetAttributeSingle ::
    "'svc cip_core \<Rightarrow> cip_instance \<Rightarrow> cip_mem \<Rightarrow> mr_request \<Rightarrow> mr_response
      \<Rightarrow> (EipStatus \<times> cip_mem \<times> mr_request \<times> mr_response) option" where
  "GetAttributeSingle cls inst mem req resp =
     (let n = attribute_number (request_path req);
          resp = GenerateGetAttributeSingleHeader req resp
      in case GetCipAttribute cls inst n of
           None \<Rightarrow> Some (kEipStatusOkSend, mem, req, resp)
         | Some a \<Rightarrow>
             if attr_data a = None then Some (kEipStatusOkSend, mem, req, resp)
             else do {
               gettable \<leftarrow> mask_test (get_single_bit_mask cls) n;
               if gettable then do {
                 let mem = run_callback kPreGetFunc (PreGetCallback cls) inst a req mem;
                 m \<leftarrow> encode_attribute a mem (message resp);
                 let mem = run_callback kPostGetFunc (PostGetCallback cls) inst a req mem;
                 Some (kEipStatusOkSend, mem, req, resp\<lparr>message := m, general_status := kCipErrorSuccess\<rparr>)
               } else Some (kEipStatusOkSend, mem, req, resp) })"

definition SetAttributeSingle ::
    "'svc cip_core \<Rightarrow> cip_instance \<Rightarrow> cip_mem \<Rightarrow> mr_request \<Rightarrow> mr_response
      \<Rightarrow> (EipStatus \<times> cip_mem \<times> mr_request \<times> mr_response) option" where
  "SetAttributeSingle cls inst mem req resp =
     (let n = attribute_number (request_path req);
          resp = GenerateSetAttributeSingleHeader req resp
      in case GetCipAttribute cls inst n of
           None \<Rightarrow> Some (kEipStatusOkSend, mem, req, resp)
         | Some a \<Rightarrow>
             if attr_data a = None
                \<or> attribute_flags a \<in> {kGetableAllDummy, kNotSetOrGetable, kGetableAll}
             then Some (kEipStatusOkSend, mem, req, resp)
             else do {
               settable \<leftarrow> mask_test (set_bit_mask cls) n;
               if settable then do {
                 let mem = run_callback kPreSetFunc (PreSetCallback cls) inst a req mem;
                 (mem, req, resp) \<leftarrow> decode_attribute a mem req resp;
                 let mem = run_callback (kPostSetFunc OR kNvDataFunc) (PostSetCallback cls) inst a req mem;
                 Some (kEipStatusOkSend, mem, req, resp)
               } else Some (kEipStatusOkSend, mem, req, resp\<lparr>general_status := kCipErrorAttributeNotSetable\<rparr>) })"

subsection \<open>All attributes\<close>

text \<open>The loop also leaves the number of the last attribute it returned in the request path.\<close>

fun get_all_loop ::
    "octet list \<Rightarrow> cip_mem \<Rightarrow> cip_attribute list \<Rightarrow> mr_request \<Rightarrow> enip_message
      \<Rightarrow> (mr_request \<times> enip_message) option" where
  "get_all_loop bm mem [] req m = Some (req, m)"
| "get_all_loop bm mem (a # as) req m = do {
     included \<leftarrow> mask_test bm (attr_number a);
     if included then do {
       let req = req\<lparr>request_path := (request_path req)\<lparr>attribute_number := attr_number a\<rparr>\<rparr>;
       m \<leftarrow> encode_attribute a mem m;
       get_all_loop bm mem as req m
     } else get_all_loop bm mem as req m }"

definition GetAttributeAll ::
    "'svc cip_core \<Rightarrow> cip_instance \<Rightarrow> cip_mem \<Rightarrow> mr_request \<Rightarrow> mr_response
      \<Rightarrow> (EipStatus \<times> cip_mem \<times> mr_request \<times> mr_response) option" where
  "GetAttributeAll cls inst mem req resp =
     (let resp = resp\<lparr>message := InitializeENIPMessage (message resp)\<rparr>
      in if number_of_attributes cls = 0
         then Some (kEipStatusOkSend, mem, req, resp\<lparr>reply_service := 0x80 OR req_service req,
                general_status := kCipErrorServiceNotSupported, size_of_additional_status := 0\<rparr>)
         else do {
           let resp = (GenerateGetAttributeSingleHeader req resp)\<lparr>general_status := kCipErrorSuccess\<rparr>;
           guard (unat (number_of_attributes cls) \<le> length (attributes inst));
           (req, m) \<leftarrow> get_all_loop (get_all_bit_mask cls) mem
              (take (unat (number_of_attributes cls)) (attributes inst)) req (message resp);
           Some (kEipStatusOkSend, mem, req, resp\<lparr>message := m\<rparr>) })"

subsection \<open>Lists of attributes\<close>

text \<open>
  \<^verbatim>\<open>GetCipDataTypeLength(attribute->type, attribute->data)\<close> looks at the first octets of the
  object in memory: \<open>host_octets\<close> gives them for a little-endian host. The padding behind
  the first field of a path is zero, as in objects with static storage.
\<close>

fun host_octets :: "cip_value \<Rightarrow> octet list" where
  "host_octets (V8 b) = [b]"
| "host_octets (V16 w) = le_octets 2 w"
| "host_octets (V32 w) = le_octets 4 w"
| "host_octets (V64 w) = le_octets 8 w"
| "host_octets (VShortString s) = [ss_length s]"
| "host_octets (VString s) = le_octets 2 (s_length s)"
| "host_octets (VStringI n _) = [n]"
| "host_octets (VByteArray n _) = le_octets 2 n"
| "host_octets (VEpath e) = [path_size e, 0]"
| "host_octets (VOctets bs) = bs"

text \<open>Both are values of the signed 64 bit type \<^verbatim>\<open>int_fast64_t\<close>.\<close>

definition needed_message_space :: "cip_mem \<Rightarrow> cip_attribute option \<Rightarrow> int option" where
  "needed_message_space mem attribute =
     (case attribute of
        None \<Rightarrow> Some 2
      | Some a \<Rightarrow> map_option sint
          (GetCipDataTypeLength (attr_type a) (map_option (\<lambda>p. host_octets (mem p)) (attr_data a))))"

definition remaining_message_space :: "enip_message \<Rightarrow> int" where
  "remaining_message_space m =
     int PC_OPENER_ETHERNET_BUFFER_SIZE - sint (used_message_length m) - 33"

text \<open>Writing the number of attributes to the place reserved for it.\<close>

definition patch_count :: "CipUint \<Rightarrow> nat \<Rightarrow> enip_message \<Rightarrow> enip_message option" where
  "patch_count attribute_count_request pos m = do {
     let save_current_position = current_message_position m;
     m \<leftarrow> AddIntToMessage attribute_count_request
            (m\<lparr>used_message_length := used_message_length m - 2, current_message_position := pos\<rparr>);
     Some (m\<lparr>current_message_position := save_current_position\<rparr>) }"

definition attribute_status :: "CipUsint \<Rightarrow> mr_response \<Rightarrow> mr_response option" where
  "attribute_status status resp = do {
     m \<leftarrow> AddSintToMessage status (message resp);
     m \<leftarrow> AddSintToMessage 0 m;
     Some (resp\<lparr>message := m\<rparr>) }"

text \<open>
  The loop the two list services share: the number, the space check with its early
  return, the attribute's number in the reply, then the service's own part \<open>item\<close>, which
  may end the service, and after the last attribute the count.
\<close>

type_synonym service_state = "cip_mem \<times> mr_request \<times> mr_response"

fun attribute_list_loop ::
    "(CipUint \<Rightarrow> cip_attribute option \<Rightarrow> service_state \<Rightarrow> (bool \<times> service_state) option)
      \<Rightarrow> 'svc cip_core \<Rightarrow> cip_instance \<Rightarrow> CipUint \<Rightarrow> nat \<Rightarrow> nat \<Rightarrow> service_state \<Rightarrow> service_state option" where
  "attribute_list_loop item cls inst attribute_count_request pos 0 (mem, req, resp) = do {
     m \<leftarrow> patch_count attribute_count_request pos (message resp);
     Some (mem, req, resp\<lparr>message := m\<rparr>) }"
| "attribute_list_loop item cls inst attribute_count_request pos (Suc k) (mem, req, resp) = do {
     (n, rest) \<leftarrow> GetUintFromMessage (req_data req);
     let req = req\<lparr>req_data := rest\<rparr>;
     let attribute = GetCipAttribute cls inst n;
     needed \<leftarrow> needed_message_space mem attribute;
     if needed > remaining_message_space (message resp) then do {
       m \<leftarrow> patch_count attribute_count_request pos (message resp);
       Some (mem, req, resp\<lparr>message := m,
         general_status := (if general_status resp \<noteq> kCipErrorAttributeListError
                            then kCipErrorPartialTransfer else general_status resp)\<rparr>)
     } else do {
       m \<leftarrow> AddIntToMessage n (message resp);
       (stop, s) \<leftarrow> item n attribute (mem, req, resp\<lparr>message := m\<rparr>);
       if stop then Some s
       else attribute_list_loop item cls inst attribute_count_request pos k s } }"

definition get_list_item ::
    "'svc cip_core \<Rightarrow> CipUint \<Rightarrow> cip_attribute option \<Rightarrow> service_state \<Rightarrow> (bool \<times> service_state) option" where
  "get_list_item cls n attribute = (\<lambda>(mem, req, resp).
     case attribute of
       Some a \<Rightarrow> do {
         gettable \<leftarrow> mask_test (get_single_bit_mask cls) n;
         if gettable then do {
           resp \<leftarrow> attribute_status kCipErrorSuccess resp;
           m \<leftarrow> encode_attribute a mem (message resp);
           Some (False, mem, req, resp\<lparr>message := m\<rparr>)
         } else do {
           resp \<leftarrow> attribute_status kCipErrorAttributeNotGettable resp;
           Some (False, mem, req, resp\<lparr>general_status := kCipErrorAttributeListError\<rparr>) } }
     | None \<Rightarrow> do {
         resp \<leftarrow> attribute_status kCipErrorAttributeNotSupported resp;
         Some (False, mem, req, resp\<lparr>general_status := kCipErrorAttributeListError\<rparr>) })"

definition set_list_item ::
    "'svc cip_core \<Rightarrow> CipUint \<Rightarrow> cip_attribute option \<Rightarrow> service_state \<Rightarrow> (bool \<times> service_state) option" where
  "set_list_item cls n attribute = (\<lambda>(mem, req, resp).
     case attribute of
       Some a \<Rightarrow> do {
         settable \<leftarrow> mask_test (set_bit_mask cls) n;
         if settable then do {
           resp \<leftarrow> attribute_status kCipErrorSuccess resp;
           s \<leftarrow> decode_attribute a mem req resp;
           Some (False, s)
         } else do {
           resp \<leftarrow> attribute_status kCipErrorAttributeNotSetable resp;
           attribute_data_length \<leftarrow> GetCipDataTypeLength (attr_type a) (Some (req_data req));
           if attribute_data_length \<noteq> 0 then do {
             rest \<leftarrow> advance (unat attribute_data_length) (req_data req);
             Some (False, mem, req\<lparr>req_data := rest\<rparr>,
               resp\<lparr>general_status := kCipErrorAttributeListError\<rparr>)
           } else Some (True, mem, req, resp\<lparr>general_status := kCipErrorPartialTransfer\<rparr>) } }
     | None \<Rightarrow> do {
         resp \<leftarrow> attribute_status kCipErrorAttributeNotSupported resp;
         Some (False, mem, req, resp\<lparr>general_status := kCipErrorAttributeListError\<rparr>) })"

definition attribute_list_service ::
    "(CipUint \<Rightarrow> cip_attribute option \<Rightarrow> service_state \<Rightarrow> (bool \<times> service_state) option)
      \<Rightarrow> 'svc cip_core \<Rightarrow> cip_instance \<Rightarrow> cip_mem \<Rightarrow> mr_request \<Rightarrow> mr_response
      \<Rightarrow> (EipStatus \<times> cip_mem \<times> mr_request \<times> mr_response) option" where
  "attribute_list_service item cls inst mem req resp = do {
     let resp = resp\<lparr>message := InitializeENIPMessage (message resp),
           reply_service := 0x80 OR req_service req, general_status := kCipErrorSuccess,
           size_of_additional_status := 0\<rparr>;
     (attribute_count_request, rest) \<leftarrow> GetUintFromMessage (req_data req);
     let req = req\<lparr>req_data := rest\<rparr>;
     if attribute_count_request \<noteq> 0 then do {
       let pos = current_message_position (message resp);
       m \<leftarrow> MoveMessageNOctets 2 (message resp);
       s \<leftarrow> attribute_list_loop item cls inst attribute_count_request pos
              (unat attribute_count_request) (mem, req, resp\<lparr>message := m\<rparr>);
       Some (kEipStatusOkSend, s)
     } else Some (kEipStatusOkSend, mem, req, resp\<lparr>general_status := kCipErrorAttributeListError\<rparr>) }"

definition GetAttributeList ::
    "'svc cip_core \<Rightarrow> cip_instance \<Rightarrow> cip_mem \<Rightarrow> mr_request \<Rightarrow> mr_response
      \<Rightarrow> (EipStatus \<times> cip_mem \<times> mr_request \<times> mr_response) option" where
  "GetAttributeList cls = attribute_list_service (get_list_item cls) cls"

definition SetAttributeList ::
    "'svc cip_core \<Rightarrow> cip_instance \<Rightarrow> cip_mem \<Rightarrow> mr_request \<Rightarrow> mr_response
      \<Rightarrow> (EipStatus \<times> cip_mem \<times> mr_request \<times> mr_response) option" where
  "SetAttributeList cls = attribute_list_service (set_list_item cls) cls"

subsection \<open>Creating, deleting and resetting instances\<close>

definition reply_header :: "CipUsint \<Rightarrow> mr_request \<Rightarrow> mr_response \<Rightarrow> mr_response" where
  "reply_header status req resp =
     resp\<lparr>message := InitializeENIPMessage (message resp), reply_service := 0x80 OR req_service req,
       general_status := status, size_of_additional_status := 0\<rparr>"

text \<open>The class's callbacks see the application's objects and the current fields of the class.\<close>

definition run_cip_callback ::
    "cip_callback option \<Rightarrow> 'svc cip_class \<Rightarrow> cip_instance \<Rightarrow> mr_request \<Rightarrow> mr_response \<Rightarrow> (nat \<Rightarrow> cip_value)
      \<Rightarrow> EipStatus \<times> mr_response \<times> (nat \<Rightarrow> cip_value)" where
  "run_cip_callback f c inst req resp store =
     (case f of
        None \<Rightarrow> (kEipStatusOk, resp, store)
      | Some f \<Rightarrow> (case f inst req resp (class_memory c store) of
           (status, resp, mem) \<Rightarrow> (status, resp, \<lambda>n. mem (Obj n))))"

text \<open>\<open>found\<close> is what \<^verbatim>\<open>GetCipClass\<close> gives for the class of the request path.\<close>

definition CipCreateService ::
    "'svc cip_class option \<Rightarrow> cip_instance \<Rightarrow> (nat \<Rightarrow> cip_value) \<Rightarrow> mr_request \<Rightarrow> mr_response
      \<Rightarrow> (EipStatus \<times> 'svc cip_class \<times> (nat \<Rightarrow> cip_value) \<times> mr_request \<times> mr_response) option" where
  "CipCreateService found inst store req resp = do {
     let resp = reply_header kCipErrorSuccess req resp;
     c \<leftarrow> found;
     let (internal_state, resp, store) = run_cip_callback (PreCreateCallback (core c)) c inst req resp store;
     if internal_state = kEipStatusOk then do {
       (c, first) \<leftarrow> AddCipInstances c 1;
       k \<leftarrow> first;
       new_instance \<leftarrow> GetCipInstance c k;
       let (_, resp, store) = run_cip_callback (PostCreateCallback (core c)) c new_instance req resp store;
       Some (kEipStatusOkSend, c, store, req, resp)
     } else Some (kEipStatusOkSend, c, store, req, resp) }"

text \<open>The head of the chain and the loop that looks for the predecessor.\<close>

fun unlink_instance :: "CipInstanceNum \<Rightarrow> cip_instance list \<Rightarrow> cip_instance list" where
  "unlink_instance n [] = []"
| "unlink_instance n (i # is) = (if inst_number i = n then is else i # unlink_instance n is)"

definition CipDeleteService ::
    "'svc cip_class \<Rightarrow> cip_instance \<Rightarrow> (nat \<Rightarrow> cip_value) \<Rightarrow> mr_request \<Rightarrow> mr_response
      \<Rightarrow> (EipStatus \<times> 'svc cip_class \<times> (nat \<Rightarrow> cip_value) \<times> mr_request \<times> mr_response) option" where
  "CipDeleteService c inst store req resp = do {
     let resp = reply_header kCipErrorInstanceNotDeletable req resp;
     let (internal_state, resp, store) = run_cip_callback (PreDeleteCallback (core c)) c inst req resp store;
     if internal_state = kEipStatusOk then do {
       guard (instances c \<noteq> []);
       let c = c\<lparr>instances := unlink_instance (inst_number inst) (instances c)\<rparr>;
       let (_, resp, store) = run_cip_callback (PostDeleteCallback (core c)) c inst req resp store;
       let c = c\<lparr>number_of_instances := number_of_instances c - 1\<rparr>;
       let c = c\<lparr>max_instance := GetMaxInstanceNumber c\<rparr>;
       Some (kEipStatusOk, c, store, req, resp\<lparr>general_status := kCipErrorSuccess\<rparr>)
     } else Some (kEipStatusOk, c, store, req, resp) }"

definition CipResetService ::
    "'svc cip_core \<Rightarrow> 'svc cip_class \<Rightarrow> cip_instance \<Rightarrow> (nat \<Rightarrow> cip_value) \<Rightarrow> mr_request \<Rightarrow> mr_response
      \<Rightarrow> EipStatus \<times> (nat \<Rightarrow> cip_value) \<times> mr_request \<times> mr_response" where
  "CipResetService cls c inst store req resp =
     (let resp = reply_header kCipErrorSuccess req resp;
          (internal_state, resp, store) = run_cip_callback (PreResetCallback cls) c inst req resp store
      in if internal_state \<noteq> kEipStatusError
         then (let (_, resp, store) = run_cip_callback (PostResetCallback cls) c inst req resp store
               in (internal_state, store, req, resp))
         else (internal_state, store, req, resp))"

subsection \<open>Dispatch\<close>

text \<open>
  The class an instance points to: the meta class for instance 0, the class itself, and
  the class otherwise.
\<close>

definition core_of :: "'svc cip_class \<Rightarrow> cip_instance \<Rightarrow> 'svc cip_core" where
  "core_of c inst = (if inst_number inst = 0 then meta_class c else core c)"

text \<open>\<open>call\<close> gives the meaning of a service function.\<close>

definition NotifyClass ::
    "('svc \<Rightarrow> 'svc cip_class \<Rightarrow> cip_instance \<Rightarrow> 's \<Rightarrow> mr_request \<Rightarrow> mr_response
       \<Rightarrow> (EipStatus \<times> 'svc cip_class \<times> 's \<times> mr_request \<times> mr_response) option)
     \<Rightarrow> 'svc cip_class \<Rightarrow> 's \<Rightarrow> mr_request \<Rightarrow> mr_response
       \<Rightarrow> (EipStatus \<times> 'svc cip_class \<times> 's \<times> mr_request \<times> mr_response) option" where
  "NotifyClass call c s req resp =
     (let error_reply = (\<lambda>status. Some (kEipStatusOkSend, c, s, req,
            resp\<lparr>general_status := status, size_of_additional_status := 0,
              message := InitializeENIPMessage (message resp),
              reply_service := 0x80 OR req_service req\<rparr>))
      in case GetCipInstance c (instance_number (request_path req)) of
           Some inst \<Rightarrow> (case GetCipService (core_of c inst) (req_service req) of
               Some service \<Rightarrow> do {
                 f \<leftarrow> service_function service;
                 call f c inst s req resp }
             | None \<Rightarrow> error_reply kCipErrorServiceNotSupported)
         | None \<Rightarrow> error_reply kCipErrorPathDestinationUnknown)"

text \<open>The services of this file as service functions, beside those of other objects.\<close>

datatype 'u std_service =
    SvcGetAttributeSingle | SvcSetAttributeSingle | SvcGetAttributeAll
  | SvcGetAttributeList | SvcSetAttributeList
  | SvcCreate | SvcDelete | SvcReset
  | SvcOther 'u


definition call_std ::
    "('u \<Rightarrow> 'u std_service cip_class \<Rightarrow> cip_instance \<Rightarrow> (nat \<Rightarrow> cip_value) \<Rightarrow> mr_request \<Rightarrow> mr_response
       \<Rightarrow> (EipStatus \<times> 'u std_service cip_class \<times> (nat \<Rightarrow> cip_value) \<times> mr_request \<times> mr_response) option)
     \<Rightarrow> 'u std_service \<Rightarrow> 'u std_service cip_class \<Rightarrow> cip_instance \<Rightarrow> (nat \<Rightarrow> cip_value) \<Rightarrow> mr_request \<Rightarrow> mr_response
       \<Rightarrow> (EipStatus \<times> 'u std_service cip_class \<times> (nat \<Rightarrow> cip_value) \<times> mr_request \<times> mr_response) option" where
  "call_std other svc c inst store req resp =
     (let cls = core_of c inst; mem = class_memory c store;
          on_memory = map_option (\<lambda>(status, mem, req, resp). (status, c, (\<lambda>n. mem (Obj n)), req, resp))
      in case svc of
           SvcGetAttributeSingle \<Rightarrow> on_memory (GetAttributeSingle cls inst mem req resp)
         | SvcSetAttributeSingle \<Rightarrow> on_memory (SetAttributeSingle cls inst mem req resp)
         | SvcGetAttributeAll \<Rightarrow> on_memory (GetAttributeAll cls inst mem req resp)
         | SvcGetAttributeList \<Rightarrow> on_memory (GetAttributeList cls inst mem req resp)
         | SvcSetAttributeList \<Rightarrow> on_memory (SetAttributeList cls inst mem req resp)
         | SvcCreate \<Rightarrow> CipCreateService (Some c) inst store req resp
         | SvcDelete \<Rightarrow> CipDeleteService c inst store req resp
         | SvcReset \<Rightarrow> (case CipResetService cls c inst store req resp of
              (status, store, req, resp) \<Rightarrow> Some (status, c, store, req, resp))
         | SvcOther u \<Rightarrow> other u c inst store req resp)"

subsection \<open>What the masks mean to the services\<close>

lemma GetCipAttribute_SomeD:
  assumes "GetCipAttribute cls inst n = Some a"
  shows "a \<in> set (attributes inst)" and "attr_number a = n"
proof -
  obtain i where "i < length (take (unat (number_of_attributes cls)) (attributes inst))"
      "a = take (unat (number_of_attributes cls)) (attributes inst) ! i" "n = attr_number a"
    using assms unfolding GetCipAttribute_def find_Some_iff by auto
  then show "a \<in> set (attributes inst)" and "attr_number a = n"
    by (metis in_set_takeD nth_mem, simp)
qed

text \<open>
  With one attribute per number, the mask bit of a number that is in use is the flag of
  its attribute.
\<close>

lemma mask_exact_flag:
  assumes "mask_exact bm flag cls inst" and "masks_ok cls inst"
    and "inj_on attr_number (used_attributes inst)"
    and "GetCipAttribute cls inst n = Some a" and "attr_data a = Some p"
  shows "mask_test bm n = Some (attribute_flags a AND flag \<noteq> 0)"
proof -
  have a: "a \<in> used_attributes inst" "attr_number a = n"
    using GetCipAttribute_SomeD [OF assms(4)] assms(5) by (auto simp: used_attributes_def)
  then have "n \<le> highest_attribute_number cls" using assms(2) by (auto simp: masks_ok_def)
  with assms(1) have "mask_test bm n =
      Some (\<exists>b \<in> used_attributes inst. attr_number b = n \<and> attribute_flags b AND flag \<noteq> 0)"
    by (simp add: mask_exact_def)
  moreover have "b = a" if "b \<in> used_attributes inst" "attr_number b = n" for b
    by (rule inj_onD [OF assms(3)]) (use a that in simp_all)
  then have "(\<exists>b \<in> used_attributes inst. attr_number b = n \<and> attribute_flags b AND flag \<noteq> 0)
      \<longleftrightarrow> attribute_flags a AND flag \<noteq> 0" using a by blast
  ultimately show ?thesis by simp
qed

lemmas mask_flag = mask_exact_flag [rotated]

lemma masks_ok_exact:
  assumes "masks_ok cls inst"
  shows "mask_exact (get_single_bit_mask cls) kGetableSingle cls inst"
    and "mask_exact (set_bit_mask cls) kSetable cls inst"
    and "mask_exact (get_all_bit_mask cls) (kGetableAll OR kGetableAllDummy) cls inst"
  using assms by (simp_all add: masks_ok_def)

lemma header_simps [simp]:
  "general_status (GenerateGetAttributeSingleHeader req resp) = kCipErrorAttributeNotSupported"
  "general_status (GenerateSetAttributeSingleHeader req resp) = kCipErrorAttributeNotSupported"
  "message (GenerateGetAttributeSingleHeader req resp) = InitializeENIPMessage (message resp)"
  "message (GenerateSetAttributeSingleHeader req resp) = InitializeENIPMessage (message resp)"
  "reply_service (GenerateGetAttributeSingleHeader req resp) = 0x80 OR req_service req"
  "reply_service (GenerateSetAttributeSingleHeader req resp) = 0x80 OR req_service req"
  by (simp_all add: GenerateGetAttributeSingleHeader_def GenerateSetAttributeSingleHeader_def)

lemma emit_init:
  "if length bs \<le> PC_OPENER_ETHERNET_BUFFER_SIZE
   then \<exists>m'. emit bs (InitializeENIPMessage m) = Some m' \<and> msg_content m' = bs
   else emit bs (InitializeENIPMessage m) = None"
proof (cases "length bs \<le> PC_OPENER_ETHERNET_BUFFER_SIZE")
  case True
  then show ?thesis using emit_wf_fits [OF wf_msg_init, of bs m] by auto
next
  case False
  then show ?thesis by (simp add: emit_None_iff InitializeENIPMessage_def)
qed

text \<open>
  C24: what \<^verbatim>\<open>GetAttributeSingle\<close> answers for every attribute number, in an instance whose
  masks agree with the flags of its attributes and which has one attribute per number. If the
  number has no attribute, or its attribute has no data or is not flagged as gettable, the
  answer is "attribute not supported" with no data, and the memory is left alone. If it is
  gettable, and its encoder appends the octets bs for the data as the pre-get callback leaves
  it, the answer is a success that carries exactly bs when bs has at most 512 octets, and the
  post-get callback runs last; with more octets the encoder writes behind the message buffer,
  which the model gives as None. The reply service is the request's with the top bit set.
\<close>

theorem GetAttributeSingle_by_flag:
  assumes "masks_ok cls inst" and "inj_on attr_number (used_attributes inst)"
    and attribute: "GetCipAttribute cls inst (attribute_number (request_path req)) = found"
    and encoder: "\<And>a p. found = Some a \<Longrightarrow> attr_data a = Some p \<Longrightarrow> attribute_flags a AND kGetableSingle \<noteq> 0 \<Longrightarrow>
      \<exists>enc. attr_encode a = Some enc \<and>
        (\<forall>m. enc (run_callback kPreGetFunc (PreGetCallback cls) inst a req mem p) m = emit bs m)"
    and refused: "refused \<longleftrightarrow> (\<exists>resp'. GetAttributeSingle cls inst mem req resp = Some (kEipStatusOkSend, mem, req, resp')
      \<and> reply_service resp' = 0x80 OR req_service req
      \<and> general_status resp' = kCipErrorAttributeNotSupported \<and> msg_content (message resp') = [])"
  shows "case found of
      None \<Rightarrow> refused
    | Some a \<Rightarrow>
        if attr_data a = None \<or> attribute_flags a AND kGetableSingle = 0 then refused
        else if length bs \<le> PC_OPENER_ETHERNET_BUFFER_SIZE
        then \<exists>mem' resp'. GetAttributeSingle cls inst mem req resp = Some (kEipStatusOkSend, mem', req, resp')
          \<and> mem' = run_callback kPostGetFunc (PostGetCallback cls) inst a req
                    (run_callback kPreGetFunc (PreGetCallback cls) inst a req mem)
          \<and> reply_service resp' = 0x80 OR req_service req
          \<and> general_status resp' = kCipErrorSuccess \<and> msg_content (message resp') = bs
        else GetAttributeSingle cls inst mem req resp = None"
proof (cases found)
  case None
  then show ?thesis using attribute by (simp add: refused GetAttributeSingle_def Let_def)
next
  case (Some a)
  show ?thesis
  proof (cases "attr_data a")
    case None
    then show ?thesis using attribute Some by (simp add: refused GetAttributeSingle_def Let_def)
  next
    case data: (Some p)
    have bit: "mask_test (get_single_bit_mask cls) (attribute_number (request_path req))
        = Some (attribute_flags a AND kGetableSingle \<noteq> 0)"
      using attribute Some by (intro mask_flag [OF assms(1,2) _ data masks_ok_exact(1) [OF assms(1)]]) simp
    show ?thesis
    proof (cases "attribute_flags a AND kGetableSingle = 0")
      case True
      then show ?thesis
        using attribute Some data bit by (simp add: refused GetAttributeSingle_def Let_def)
    next
      case False
      then obtain enc where "attr_encode a = Some enc"
        "\<And>m. enc (run_callback kPreGetFunc (PreGetCallback cls) inst a req mem p) m = emit bs m"
        using encoder [OF Some data] by blast
      then show ?thesis
        using attribute Some data bit False emit_init [of bs "message resp"]
        by (auto simp: GetAttributeSingle_def encode_attribute_def Let_def)
    qed
  qed
qed

text \<open>
  C25: what \<^verbatim>\<open>SetAttributeSingle\<close> stores is what \<^verbatim>\<open>GetAttributeSingle\<close> returns, for every
  data type whose encoder and decoder fit together and every attribute that is both settable
  and gettable in a class without get and set callbacks; no other object changes.
\<close>

theorem SetAttributeSingle_then_Get:
  assumes "masks_ok cls inst" and "inj_on attr_number (used_attributes inst)"
    and "GetCipAttribute cls inst (attribute_number (request_path req)) = Some a"
    and "attr_data a = Some p" and "attr_encode a = Some enc" and "attr_decode a = Some dec"
    and "attribute_codec enc dec repr layout"
    and "attribute_flags a AND kSetable \<noteq> 0" and "attribute_flags a AND kGetableSingle \<noteq> 0"
    and "PreGetCallback cls = None" "PostGetCallback cls = None"
    and "PreSetCallback cls = None" "PostSetCallback cls = None"
    and "layout v" and "layout (mem p)" and "length (repr v) \<le> PC_OPENER_ETHERNET_BUFFER_SIZE"
    and "req_data req = repr v @ rest"
    and "attribute_number (request_path get_req) = attribute_number (request_path req)"
  shows "\<exists>req' resp' get_resp'.
    SetAttributeSingle cls inst mem req resp = Some (kEipStatusOkSend, mem(p := v), req', resp')
    \<and> general_status resp' = kCipErrorSuccess \<and> req_data req' = rest
    \<and> GetAttributeSingle cls inst (mem(p := v)) get_req get_resp = Some (kEipStatusOkSend, mem(p := v), get_req, get_resp')
    \<and> general_status get_resp' = kCipErrorSuccess \<and> msg_content (message get_resp') = repr v"
proof -
  have bits: "mask_test (get_single_bit_mask cls) (attribute_number (request_path req)) = Some True"
      "mask_test (set_bit_mask cls) (attribute_number (request_path req)) = Some True"
    using mask_flag [OF assms(1-4) masks_ok_exact(1) [OF assms(1)]]
      mask_flag [OF assms(1-4) masks_ok_exact(2) [OF assms(1)]] assms(8,9) by simp_all
  have flags: "attribute_flags a \<notin> {kGetableAllDummy, kNotSetOrGetable, kGetableAll}"
    using assms(8) by auto
  let ?resp = "GenerateSetAttributeSingleHeader req resp"
  obtain n where "dec (mem p) req ?resp =
      Some (n, v, req\<lparr>req_data := rest\<rparr>, ?resp\<lparr>general_status := kCipErrorSuccess\<rparr>)"
    using attribute_codec.decode_repr [OF assms(7,14,15,17), of ?resp] by auto
  moreover obtain m' where "enc v (InitializeENIPMessage (message get_resp)) = Some m'" "msg_content m' = repr v"
    using attribute_codec.encode_init [OF assms(7,14,16), of "message get_resp"] by auto
  ultimately show ?thesis
    using bits flags assms(3-6,10-13,18)
    by (simp add: GetAttributeSingle_def SetAttributeSingle_def encode_attribute_def decode_attribute_def
      run_callback_def Let_def split: option.splits)
qed

text \<open>
  C26: \<^verbatim>\<open>SetAttributeSingle\<close> on a number for which no settable attribute was inserted always
  answers with an error and changes nothing, whatever data the request carries.
\<close>

theorem SetAttributeSingle_rejects:
  assumes "masks_ok cls inst"
    and "\<forall>a \<in> used_attributes inst. attr_number a = attribute_number (request_path req)
           \<longrightarrow> attribute_flags a AND kSetable = 0"
  shows "\<exists>resp'. SetAttributeSingle cls inst mem req resp = Some (kEipStatusOkSend, mem, req, resp')
    \<and> general_status resp' \<in> {kCipErrorAttributeNotSupported, kCipErrorAttributeNotSetable}
    \<and> msg_content (message resp') = []"
proof -
  let ?n = "attribute_number (request_path req)"
  have "mask_test (set_bit_mask cls) ?n = Some False"
    if "GetCipAttribute cls inst ?n = Some a" "attr_data a \<noteq> None" for a
  proof -
    have "a \<in> used_attributes inst" "attr_number a = ?n"
      using GetCipAttribute_SomeD [OF that(1)] that(2) by (auto simp: used_attributes_def)
    then have "?n \<le> highest_attribute_number cls" using assms(1) by (auto simp: masks_ok_def)
    then show ?thesis
      using masks_ok_exact(2) [OF assms(1)] assms(2) by (auto simp: mask_exact_def)
  qed
  then show ?thesis
    by (auto simp: SetAttributeSingle_def Let_def split: option.splits)
qed

subsection \<open>A class to evaluate the services on\<close>

definition example_attribute :: cip_attribute where
  "example_attribute = \<lparr>attr_number = 1, attr_type = kCipUint, attr_encode = Some EncodeCipUint,
     attr_decode = Some DecodeCipUint, attribute_flags = kSetAndGetAble, attr_data = Some (Obj 0)\<rparr>"

definition service_core :: "unit cip_core" where
  "service_core = empty_core\<lparr>number_of_attributes := 1, highest_attribute_number := 1,
     get_single_bit_mask := [2], set_bit_mask := [2], get_all_bit_mask := [2]\<rparr>"

definition service_instance :: cip_instance where
  "service_instance = \<lparr>inst_number = 1, attributes = [example_attribute]\<rparr>"

definition service_request :: "CipUsint \<Rightarrow> CipUint \<Rightarrow> octet list \<Rightarrow> mr_request" where
  "service_request svc n d = \<lparr>req_service = svc,
     request_path = \<lparr>path_size = 3, class_id = 100, instance_number = 1, attribute_number = n\<rparr>,
     request_data_size = of_nat (length d), req_data = d\<rparr>"

definition service_response :: mr_response where
  "service_response = \<lparr>reply_service = 0, reserved = 0, general_status = 0, size_of_additional_status = 0,
     additional_status = [], message = \<lparr>message_buffer = [], current_message_position = 0,
     used_message_length = 0\<rparr>\<rparr>"

lemma service_request_simps [simp]:
  "attribute_number (request_path (service_request svc n d)) = n"
  "req_data (service_request svc n d) = d" "req_service (service_request svc n d) = svc"
  by (simp_all add: service_request_def)

lemma example_attribute_simps [simp]:
  "attr_number example_attribute = 1" "attr_type example_attribute = kCipUint"
  "attr_encode example_attribute = Some EncodeCipUint" "attr_decode example_attribute = Some DecodeCipUint"
  "attribute_flags example_attribute = kSetAndGetAble" "attr_data example_attribute = Some (Obj 0)"
  by (simp_all add: example_attribute_def)

lemma service_used [simp]: "used_attributes service_instance = {example_attribute}"
  by (auto simp: used_attributes_def service_instance_def)

lemma service_masks_ok: "masks_ok service_core service_instance"
proof -
  have le_1: "n \<le> 1 \<longleftrightarrow> n = 0 \<or> n = 1" for n :: "16 word"
  proof
    assume "n \<le> 1"
    then have "unat n = unat (0 :: 16 word) \<or> unat n = unat (1 :: 16 word)"
      by (auto simp: word_le_nat_alt)
    then show "n = 0 \<or> n = 1" by (metis unsigned_word_eqI)
  qed auto
  have "mask_exact [2] flag service_core service_instance" if "flag \<in> {kGetableSingle, kSetable, 9}" for flag
    using that by (auto simp: mask_exact_def service_core_def le_1 mask_test_def CalculateIndex_def)
  then show ?thesis
    by (auto simp: masks_ok_def service_core_def service_instance_def le_1 used_attributes_def)
qed

lemma service_lookup [simp]: "GetCipAttribute service_core service_instance 1 = Some example_attribute"
  by (simp add: GetCipAttribute_def service_core_def service_instance_def)

lemma service_no_callbacks [simp]:
  "PreGetCallback service_core = None" "PostGetCallback service_core = None"
  "PreSetCallback service_core = None" "PostSetCallback service_core = None"
  by (simp_all add: service_core_def empty_core_def)

lemma run_callback_None [simp]: "run_callback flag None inst a req mem = mem"
  by (simp add: run_callback_def)

lemma buffer_size_le [simp]: "n \<le> PC_OPENER_ETHERNET_BUFFER_SIZE \<longleftrightarrow> n \<le> 512"
  by (simp add: PC_OPENER_ETHERNET_BUFFER_SIZE_def)

lemma GetAttributeSingle_by_flag_witness:
  "\<exists>mem' resp'. GetAttributeSingle service_core service_instance (\<lambda>_. V16 0x1234)
       (service_request kGetAttributeSingle 1 []) service_response =
         Some (kEipStatusOkSend, mem', service_request kGetAttributeSingle 1 [], resp')
     \<and> general_status resp' = kCipErrorSuccess \<and> msg_content (message resp') = [0x34, 0x12]"
proof -
  have "EncodeCipUint (V16 0x1234) m = emit [0x34, 0x12] m" for m
  proof -
    have "value_octets (V16 0x1234) = [0x34, 0x12]" by (simp add: le_octets_2)
    then show ?thesis using cip_uint.encode_emit [of "V16 0x1234" m] by (metis is_V16.simps(1))
  qed
  then show ?thesis
    using GetAttributeSingle_by_flag [OF service_masks_ok, of "service_request kGetAttributeSingle 1 []"
        "Some example_attribute" "\<lambda>_. V16 0x1234" "[0x34, 0x12]" _ service_response]
    by auto
qed

lemma SetAttributeSingle_then_Get_witness:
  "\<exists>req' resp'. SetAttributeSingle service_core service_instance (\<lambda>_. V16 0)
       (service_request kSetAttributeSingle 1 [0x34, 0x12]) service_response =
         Some (kEipStatusOkSend, (\<lambda>_. V16 0)(Obj 0 := V16 0x1234), req', resp')
     \<and> general_status resp' = kCipErrorSuccess"
proof -
  have "value_octets (V16 0x1234) = [0x34, 0x12]" by (simp add: le_octets_2)
  then show ?thesis
    using SetAttributeSingle_then_Get [OF service_masks_ok, of "service_request kSetAttributeSingle 1 [0x34, 0x12]"
        example_attribute "Obj 0" EncodeCipUint DecodeCipUint value_octets is_V16 "V16 0x1234"
        "\<lambda>_. V16 0" "[]" "service_request kGetAttributeSingle 1 []" service_response service_response]
      cip_uint.attribute_codec_axioms
    by auto
qed

lemma SetAttributeSingle_rejects_witness:
  "\<exists>resp'. SetAttributeSingle service_core service_instance (\<lambda>_. V16 0)
       (service_request kSetAttributeSingle 2 [1, 2]) service_response =
         Some (kEipStatusOkSend, (\<lambda>_. V16 0), service_request kSetAttributeSingle 2 [1, 2], resp')
     \<and> msg_content (message resp') = []"
  using SetAttributeSingle_rejects [OF service_masks_ok, of "service_request kSetAttributeSingle 2 [1, 2]"
    "\<lambda>_. V16 0" service_response] by auto

subsection \<open>GetAttributeAll\<close>

lemma get_all_loop_content:
  assumes "\<forall>a \<in> set as. mask_test bm (attr_number a) = Some (inc a)"
    and "\<forall>a \<in> set as. inc a \<longrightarrow> encode_attribute a mem = emit (rep a)"
    and "wf_msg m" and "length (concat (map rep (filter inc as))) \<le> msg_room m"
  shows "\<exists>req' m'. get_all_loop bm mem as req m = Some (req', m') \<and> wf_msg m'
    \<and> msg_content m' = msg_content m @ concat (map rep (filter inc as))"
  using assms
proof (induction as arbitrary: req m)
  case (Cons a as)
  show ?case
  proof (cases "inc a")
    case True
    then have "length (rep a) \<le> msg_room m" using Cons.prems(4) by simp
    then obtain m1 where m1: "emit (rep a) m = Some m1" "wf_msg m1"
        "msg_content m1 = msg_content m @ rep a" "msg_room m1 = msg_room m - length (rep a)"
      using emit_wf_fits [OF Cons.prems(3)] by blast
    let ?req = "req\<lparr>request_path := (request_path req)\<lparr>attribute_number := attr_number a\<rparr>\<rparr>"
    have "length (concat (map rep (filter inc as))) \<le> msg_room m1"
      using Cons.prems(4) True m1(4) by simp
    then obtain req' m' where "get_all_loop bm mem as ?req m1 = Some (req', m')" "wf_msg m'"
        "msg_content m' = msg_content m1 @ concat (map rep (filter inc as))"
      using Cons.IH [of m1 ?req] Cons.prems(1,2) m1(2) by auto
    then show ?thesis using Cons.prems(1,2) True m1 by (simp add: Let_def)
  next
    case False
    then show ?thesis using Cons.IH [of m req] Cons.prems by simp
  qed
qed simp

text \<open>Slots that were never filled are as \<^verbatim>\<open>CipCalloc\<close> left them, and 0 is no attribute number.\<close>

definition tidy_slots :: "cip_instance \<Rightarrow> bool" where
  "tidy_slots inst \<longleftrightarrow> (\<forall>a \<in> set (attributes inst). attr_data a = None \<longleftrightarrow> attr_number a = 0)
     \<and> inj_on attr_number (used_attributes inst)"

lemma mask_of_slot:
  assumes "mask_exact bm flag cls inst" and "masks_ok cls inst" and "tidy_slots inst"
    and "a \<in> set (attributes inst)"
  shows "mask_test bm (attr_number a) = Some (attr_data a \<noteq> None \<and> attribute_flags a AND flag \<noteq> 0)"
proof -
  have le: "attr_number a \<le> highest_attribute_number cls"
    using assms(2-4) by (cases "attr_data a = None") (auto simp: tidy_slots_def masks_ok_def used_attributes_def)
  have "b \<in> used_attributes inst \<and> attr_number b = attr_number a \<longleftrightarrow> b = a \<and> attr_data a \<noteq> None" for b
  proof
    assume *: "b \<in> used_attributes inst \<and> attr_number b = attr_number a"
    then have "attr_data a \<noteq> None"
      using assms(3,4) by (metis (mono_tags, lifting) mem_Collect_eq tidy_slots_def used_attributes_def)
    then show "b = a \<and> attr_data a \<noteq> None"
      using * assms(3,4) inj_onD [of attr_number "used_attributes inst" b a]
      unfolding tidy_slots_def used_attributes_def by blast
  qed (use assms(4) in \<open>simp add: used_attributes_def\<close>)
  then have "(\<exists>b \<in> used_attributes inst. attr_number b = attr_number a \<and> attribute_flags b AND flag \<noteq> 0)
      \<longleftrightarrow> attr_data a \<noteq> None \<and> attribute_flags a AND flag \<noteq> 0" by metis
  then show ?thesis using assms(1) le by (simp add: mask_exact_def)
qed

text \<open>
  \<^verbatim>\<open>GetAttributeAll\<close> succeeds and returns, in the order of the attribute table, the
  representations of exactly the attributes flagged for it, as long as they fit into the
  message buffer together.
\<close>

theorem GetAttributeAll_content:
  assumes "masks_ok cls inst" and "tidy_slots inst" and "number_of_attributes cls \<noteq> 0"
    and "inc = (\<lambda>a. attr_data a \<noteq> None \<and> attribute_flags a AND (kGetableAll OR kGetableAllDummy) \<noteq> 0)"
    and "\<forall>a \<in> set (attributes inst). inc a \<longrightarrow> encode_attribute a mem = emit (rep a)"
    and "length (concat (map rep (filter inc (attributes inst)))) \<le> PC_OPENER_ETHERNET_BUFFER_SIZE"
  shows "\<exists>req' resp'. GetAttributeAll cls inst mem req resp = Some (kEipStatusOkSend, mem, req', resp')
    \<and> general_status resp' = kCipErrorSuccess \<and> wf_msg (message resp')
    \<and> msg_content (message resp') = concat (map rep (filter inc (attributes inst)))"
proof -
  have len: "length (attributes inst) = unat (number_of_attributes cls)"
    using assms(1) by (simp add: masks_ok_def)
  let ?m = "InitializeENIPMessage (InitializeENIPMessage (message resp))"
  have "\<forall>a \<in> set (attributes inst). mask_test (get_all_bit_mask cls) (attr_number a) = Some (inc a)"
    using mask_of_slot [OF masks_ok_exact(3) [OF assms(1)] assms(1,2)] assms(4) by simp
  then obtain req' m' where "get_all_loop (get_all_bit_mask cls) mem (attributes inst) req ?m = Some (req', m')"
      "wf_msg m'" "msg_content m' = concat (map rep (filter inc (attributes inst)))"
    using get_all_loop_content [of "attributes inst" "get_all_bit_mask cls" inc mem rep ?m req] assms(5,6) by auto
  then show ?thesis
    using assms(3) len by (simp add: GetAttributeAll_def Let_def)
qed

lemma service_tidy: "tidy_slots service_instance"
  by (simp add: tidy_slots_def) (simp add: service_instance_def)

lemma GetAttributeAll_content_witness:
  "\<exists>req' resp'. GetAttributeAll service_core service_instance (\<lambda>_. V16 0x1234)
       (service_request kGetAttributeAll 0 []) service_response =
         Some (kEipStatusOkSend, (\<lambda>_. V16 0x1234), req', resp')
     \<and> msg_content (message resp') = [0x34, 0x12]"
proof -
  let ?inc = "\<lambda>a :: cip_attribute. attr_data a \<noteq> None \<and> attribute_flags a AND (kGetableAll OR kGetableAllDummy) \<noteq> 0"
  have "le_octets 2 (0x1234 :: 16 word) = [0x34, 0x12]" by (simp add: le_octets_2)
  then have "encode_attribute example_attribute (\<lambda>_. V16 0x1234) = emit [0x34, 0x12]"
    by (intro ext) (simp add: encode_attribute_def AddInt_emit)
  moreover have "number_of_attributes service_core \<noteq> 0" by (simp add: service_core_def)
  ultimately show ?thesis
    using GetAttributeAll_content [OF service_masks_ok service_tidy, of ?inc "\<lambda>_. V16 0x1234" "\<lambda>_. [0x34, 0x12]"
        "service_request kGetAttributeAll 0 []" service_response]
    by (auto simp: service_instance_def)
qed

subsection \<open>GetAttributeList\<close>

lemma patch_count_content:
  assumes "wf_msg m" and "2 \<le> current_message_position m"
  shows "\<exists>m'. patch_count c 0 m = Some m' \<and> wf_msg m'
    \<and> msg_content m' = le_octets 2 c @ drop 2 (msg_content m)"
proof -
  have "splice_at 0 (le_octets 2 c) (message_buffer m) = le_octets 2 c @ drop 2 (message_buffer m)"
    by (simp add: splice_at_def) (simp add: numeral_2_eq_2)
  then show ?thesis
    using assms
    by (auto simp: patch_count_def AddInt_emit emit_def put_octets_def Let_def wf_msg_def msg_content_def
      PC_OPENER_ETHERNET_BUFFER_SIZE_def drop_take take_append)
qed

lemma remaining_message_space_wf:
  assumes "wf_msg m"
  shows "remaining_message_space m = 479 - int (length (msg_content m))"
proof -
  have "sint (of_nat (current_message_position m) :: 64 word) = int (current_message_position m)"
    using assms sint_word_of_int_64 [of "int (current_message_position m)"] by (simp add: wf_msg_def)
  then show ?thesis
    using assms by (simp add: remaining_message_space_def length_msg_content PC_OPENER_ETHERNET_BUFFER_SIZE_def)
      (simp add: wf_msg_def)
qed

text \<open>
  A class whose attributes can be listed: the masks cover the attribute numbers, and the
  encoder of every gettable attribute appends as many octets as \<^verbatim>\<open>GetCipDataTypeLength\<close> says.
\<close>

definition listable :: "'svc cip_core \<Rightarrow> cip_instance \<Rightarrow> cip_mem \<Rightarrow> (cip_attribute \<Rightarrow> octet list) \<Rightarrow> bool" where
  "listable cls inst mem rep \<longleftrightarrow>
     (\<forall>n a. GetCipAttribute cls inst n = Some a \<longrightarrow>
        needed_message_space mem (Some a) = Some (int (length (rep a)))
        \<and> (\<exists>b. mask_test (get_single_bit_mask cls) n = Some b \<and> (b \<longrightarrow> encode_attribute a mem = emit (rep a))))"

definition is_gettable :: "'svc cip_core \<Rightarrow> cip_instance \<Rightarrow> CipUint \<Rightarrow> bool" where
  "is_gettable cls inst n \<longleftrightarrow>
     GetCipAttribute cls inst n \<noteq> None \<and> mask_test (get_single_bit_mask cls) n = Some True"

text \<open>The reply's entry for one requested attribute number.\<close>

definition list_entry :: "'svc cip_core \<Rightarrow> cip_instance \<Rightarrow> (cip_attribute \<Rightarrow> octet list) \<Rightarrow> CipUint \<Rightarrow> octet list" where
  "list_entry cls inst rep n = le_octets 2 n @
     (case GetCipAttribute cls inst n of
        None \<Rightarrow> [kCipErrorAttributeNotSupported, 0]
      | Some a \<Rightarrow> if is_gettable cls inst n then [kCipErrorSuccess, 0] @ rep a
                  else [kCipErrorAttributeNotGettable, 0])"

lemma get_list_item_entry:
  assumes "listable cls inst mem rep" and "wf_msg (message resp)"
    and "needed_message_space mem (GetCipAttribute cls inst n) = Some needed"
    and "needed \<le> remaining_message_space (message resp)"
  shows "\<exists>m resp'. AddIntToMessage n (message resp) = Some m
    \<and> get_list_item cls n (GetCipAttribute cls inst n) (mem, req, resp\<lparr>message := m\<rparr>) = Some (False, mem, req, resp')
    \<and> wf_msg (message resp') \<and> msg_content (message resp') = msg_content (message resp) @ list_entry cls inst rep n
    \<and> length (msg_content (message resp')) \<le> 483
    \<and> general_status resp' = (if is_gettable cls inst n then general_status resp else kCipErrorAttributeListError)"
proof -
  have len: "length (msg_content (message resp)) + length (list_entry cls inst rep n) \<le> 483"
  proof (cases "GetCipAttribute cls inst n")
    case None
    then show ?thesis
      using assms(2-4) by (simp add: remaining_message_space_wf list_entry_def needed_message_space_def)
  next
    case (Some a)
    then have "needed = int (length (rep a))" using assms(1,3) by (auto simp: listable_def)
    then show ?thesis
      using assms(2,4) Some by (simp add: remaining_message_space_wf list_entry_def)
  qed
  then have "length (list_entry cls inst rep n) \<le> msg_room (message resp)"
    using assms(2) by (auto simp: msg_room_def wf_msg_def length_msg_content PC_OPENER_ETHERNET_BUFFER_SIZE_def)
  then obtain m' where m': "emit (list_entry cls inst rep n) (message resp) = Some m'" "wf_msg m'"
      "msg_content m' = msg_content (message resp) @ list_entry cls inst rep n"
    using emit_wf_fits [OF assms(2)] by blast
  show ?thesis
  proof (cases "GetCipAttribute cls inst n")
    case None
    then have "list_entry cls inst rep n = le_octets 2 n @ [kCipErrorAttributeNotSupported] @ [0]"
      by (simp add: list_entry_def)
    then show ?thesis
      using m' len None
      by (auto simp: get_list_item_def attribute_status_def is_gettable_def AddInt_emit AddSint_emit
        emit_emit [symmetric] simp del: append_Cons)
  next
    case (Some a)
    then obtain b where b: "mask_test (get_single_bit_mask cls) n = Some b"
        "b \<longrightarrow> encode_attribute a mem = emit (rep a)"
      using assms(1) by (auto simp: listable_def)
    then have "list_entry cls inst rep n =
        (if b then le_octets 2 n @ [kCipErrorSuccess] @ [0] @ rep a
         else le_octets 2 n @ [kCipErrorAttributeNotGettable] @ [0])"
      using Some by (simp add: list_entry_def is_gettable_def)
    then show ?thesis
      using m' len Some b
      by (cases b) (auto simp: get_list_item_def attribute_status_def is_gettable_def AddInt_emit AddSint_emit
        emit_emit [symmetric] simp del: append_Cons)
  qed
qed

lemma attribute_list_loop_content:
  assumes "listable cls inst mem rep" and "wf_msg (message resp)"
    and "2 \<le> length (msg_content (message resp))" and "length (msg_content (message resp)) \<le> 483"
    and "req_data req = concat (map (le_octets 2) ns) @ rest"
    and "general_status resp \<in> {kCipErrorSuccess, kCipErrorAttributeListError}"
  shows "\<exists>j req' resp'. j \<le> length ns
    \<and> attribute_list_loop (get_list_item cls) cls inst c 0 (length ns) (mem, req, resp) = Some (mem, req', resp')
    \<and> wf_msg (message resp') \<and> length (msg_content (message resp')) \<le> 483
    \<and> msg_content (message resp') = le_octets 2 c @ drop 2 (msg_content (message resp))
         @ concat (map (list_entry cls inst rep) (take j ns))
    \<and> general_status resp' =
         (if general_status resp = kCipErrorAttributeListError \<or> \<not> list_all (is_gettable cls inst) (take j ns)
          then kCipErrorAttributeListError
          else if j < length ns then kCipErrorPartialTransfer else kCipErrorSuccess)"
  using assms
proof (induction ns arbitrary: req resp)
  case Nil
  then obtain m' where "patch_count c 0 (message resp) = Some m'" "wf_msg m'"
      "msg_content m' = le_octets 2 c @ drop 2 (msg_content (message resp))"
    using patch_count_content [of "message resp" c] by (auto simp: length_msg_content)
  with Nil show ?case by (auto simp: le_octets_2)
next
  case (Cons n ns)
  let ?req = "req\<lparr>req_data := concat (map (le_octets 2) ns) @ rest\<rparr>"
  have read: "GetUintFromMessage (req_data req) = Some (n, concat (map (le_octets 2) ns) @ rest)"
    using Cons.prems(5) by (simp add: uint.dec_enc)
  obtain needed where needed: "needed_message_space mem (GetCipAttribute cls inst n) = Some needed"
    using Cons.prems(1) by (cases "GetCipAttribute cls inst n")
      (simp add: needed_message_space_def, simp add: listable_def)
  show ?case
  proof (cases "needed > remaining_message_space (message resp)")
    case True
    obtain m' where "patch_count c 0 (message resp) = Some m'" "wf_msg m'"
        "msg_content m' = le_octets 2 c @ drop 2 (msg_content (message resp))"
      using patch_count_content [of "message resp" c] Cons.prems(2,3) by (auto simp: length_msg_content)
    with True read needed Cons.prems show ?thesis
      by (intro exI [of _ "0 :: nat"]) (auto simp: Let_def le_octets_2)
  next
    case False
    then obtain m resp1 where step: "AddIntToMessage n (message resp) = Some m"
        "get_list_item cls n (GetCipAttribute cls inst n) (mem, ?req, resp\<lparr>message := m\<rparr>) = Some (False, mem, ?req, resp1)"
        "wf_msg (message resp1)" "msg_content (message resp1) = msg_content (message resp) @ list_entry cls inst rep n"
        "length (msg_content (message resp1)) \<le> 483"
        "general_status resp1 = (if is_gettable cls inst n then general_status resp else kCipErrorAttributeListError)"
      using get_list_item_entry [OF Cons.prems(1,2) needed, of ?req] by auto
    have "2 \<le> length (msg_content (message resp1))" using step(4) Cons.prems(3) by simp
    moreover have "general_status resp1 \<in> {kCipErrorSuccess, kCipErrorAttributeListError}"
      using step(6) Cons.prems(6) by simp
    ultimately obtain j req' resp' where "j \<le> length ns"
        "attribute_list_loop (get_list_item cls) cls inst c 0 (length ns) (mem, ?req, resp1) = Some (mem, req', resp')"
        "wf_msg (message resp')" "length (msg_content (message resp')) \<le> 483"
        "msg_content (message resp') = le_octets 2 c @ drop 2 (msg_content (message resp1))
           @ concat (map (list_entry cls inst rep) (take j ns))"
        "general_status resp' =
           (if general_status resp1 = kCipErrorAttributeListError \<or> \<not> list_all (is_gettable cls inst) (take j ns)
            then kCipErrorAttributeListError
            else if j < length ns then kCipErrorPartialTransfer else kCipErrorSuccess)"
      using Cons.IH [of resp1 ?req] Cons.prems(1) step(3,5) by auto
    then show ?thesis
      using False read needed step Cons.prems(3)
      by (intro exI [of _ "Suc j"] exI [of _ req'] exI [of _ resp']) (auto simp: Let_def)
  qed
qed

text \<open>
  \<^verbatim>\<open>GetAttributeList\<close> on a class whose attributes have the sizes \<^verbatim>\<open>GetCipDataTypeLength\<close>
  computes always answers and never writes more than 483 octets, so that 29 octets of the
  message buffer stay free. The reply consists of the \<^emph>\<open>requested\<close> count and the entries of
  a prefix of the requested numbers; the status tells whether one of the entries reports an
  error, and otherwise whether the prefix is proper.
\<close>

theorem GetAttributeList_reply:
  assumes "listable cls inst mem rep" and "ns \<noteq> []" and "length ns < 65536"
    and "req_data req = le_octets 2 (of_nat (length ns) :: 16 word) @ concat (map (le_octets 2) ns) @ rest"
  shows "\<exists>j req' resp'. j \<le> length ns
    \<and> GetAttributeList cls inst mem req resp = Some (kEipStatusOkSend, mem, req', resp')
    \<and> wf_msg (message resp') \<and> length (msg_content (message resp')) \<le> 483
    \<and> msg_content (message resp') = le_octets 2 (of_nat (length ns) :: 16 word)
         @ concat (map (list_entry cls inst rep) (take j ns))
    \<and> general_status resp' =
         (if \<not> list_all (is_gettable cls inst) (take j ns) then kCipErrorAttributeListError
          else if j < length ns then kCipErrorPartialTransfer else kCipErrorSuccess)"
proof -
  let ?c = "of_nat (length ns) :: 16 word"
  let ?req = "req\<lparr>req_data := concat (map (le_octets 2) ns) @ rest\<rparr>"
  let ?init = "InitializeENIPMessage (message resp)"
  let ?m = "?init\<lparr>current_message_position := 2, used_message_length := 2\<rparr>"
  let ?resp = "resp\<lparr>reply_service := 0x80 OR req_service req, general_status := kCipErrorSuccess,
    size_of_additional_status := 0, message := ?m\<rparr>"
  have c: "unat ?c = length ns" using assms(3) by (rule unat_of_nat_16)
  then have "?c \<noteq> 0" using assms(2) by (metis length_0_conv unat_0)
  have read: "GetUintFromMessage (req_data req) = Some (?c, concat (map (le_octets 2) ns) @ rest)"
    using assms(4) uint.dec_enc [of ?c] by simp
  have move: "MoveMessageNOctets 2 ?init = Some ?m"
    by (simp add: MoveMessageNOctets_def InitializeENIPMessage_def Let_def PC_OPENER_ETHERNET_BUFFER_SIZE_def)
  have m: "wf_msg ?m" "length (msg_content ?m) = 2"
    by (simp_all add: wf_msg_def msg_content_def InitializeENIPMessage_def PC_OPENER_ETHERNET_BUFFER_SIZE_def)
  obtain j req' resp' where loop: "j \<le> length ns"
      "attribute_list_loop (get_list_item cls) cls inst ?c 0 (length ns) (mem, ?req, ?resp) = Some (mem, req', resp')"
      "wf_msg (message resp')" "length (msg_content (message resp')) \<le> 483"
      "msg_content (message resp') = le_octets 2 ?c @ concat (map (list_entry cls inst rep) (take j ns))"
      "general_status resp' =
         (if \<not> list_all (is_gettable cls inst) (take j ns) then kCipErrorAttributeListError
          else if j < length ns then kCipErrorPartialTransfer else kCipErrorSuccess)"
    using attribute_list_loop_content [OF assms(1), of ?resp ?req ns rest ?c] m by auto
  have "GetAttributeList cls inst mem req resp = Some (kEipStatusOkSend, mem, req', resp')"
    using loop(2) read move c \<open>?c \<noteq> 0\<close>
    by (simp add: GetAttributeList_def attribute_list_service_def Let_def InitializeENIPMessage_def)
  with loop show ?thesis by blast
qed

lemma service_listable: "listable service_core service_instance (\<lambda>_. V16 0x1234) (\<lambda>_. [0x34, 0x12])"
proof -
  have "n = 1 \<and> a = example_attribute" if "GetCipAttribute service_core service_instance n = Some a" for n a
    using GetCipAttribute_SomeD [OF that] by (simp add: service_instance_def)
  moreover have "needed_message_space (\<lambda>_. V16 0x1234) (Some example_attribute) = Some 2"
    by (simp add: needed_message_space_def GetCipDataTypeLength_def)
  moreover have "mask_test (get_single_bit_mask service_core) 1 = Some True"
    by (simp add: mask_test_def CalculateIndex_def service_core_def)
  moreover have "le_octets 2 (0x1234 :: 16 word) = [0x34, 0x12]" by (simp add: le_octets_2)
  then have "encode_attribute example_attribute (\<lambda>_. V16 0x1234) = emit [0x34, 0x12]"
    by (intro ext) (simp add: encode_attribute_def AddInt_emit)
  ultimately show ?thesis by (auto simp: listable_def)
qed

lemma GetAttributeList_reply_witness:
  "\<exists>(j :: nat) req' resp'. j \<le> 2
     \<and> GetAttributeList service_core service_instance (\<lambda>_. V16 0x1234)
          (service_request kGetAttributeList 0 [2, 0, 1, 0, 9, 0]) service_response =
         Some (kEipStatusOkSend, (\<lambda>_. V16 0x1234), req', resp')
     \<and> length (msg_content (message resp')) \<le> 483"
proof -
  have "[2, 0, 1, 0, 9, 0] =
      le_octets 2 (of_nat (length [1, 9 :: CipUint]) :: 16 word) @ concat (map (le_octets 2) [1, 9 :: CipUint]) @ []"
    by (simp add: le_octets_2)
  then show ?thesis
    using GetAttributeList_reply [OF service_listable, of "[1, 9]"
        "service_request kGetAttributeList 0 [2, 0, 1, 0, 9, 0]" "[]" service_response] by auto
qed

subsection \<open>SetAttributeList\<close>

lemma position_init: "current_message_position (InitializeENIPMessage m) = 0"
  by (simp add: InitializeENIPMessage_def)

lemma entry_status:
  assumes "emit (le_octets 2 n @ [status, 0]) m = Some m'"
  obtains m0 where "AddIntToMessage n m = Some m0"
    "attribute_status status (resp\<lparr>message := m0\<rparr>) = Some (resp\<lparr>message := m'\<rparr>)"
proof -
  have "emit (le_octets 2 n @ [status] @ [0]) m = Some m'" using assms by simp
  then show thesis
    using that by (auto simp: attribute_status_def AddInt_emit AddSint_emit emit_emit [symmetric]
      simp del: append_Cons)
qed

text \<open>
  the decoders report success in the field that holds the status of the whole reply.
  When a \<^verbatim>\<open>SetAttributeList\<close> request names an unknown attribute and after it one that can be
  set, the reply's entries tell of the failure but its general status is success.
\<close>

theorem SetAttributeList_hides_error:
  assumes "GetCipAttribute cls inst n = None" and "GetCipAttribute cls inst k = Some a"
    and "attr_data a = Some p" and "attr_decode a = Some dec"
    and "attribute_codec enc dec repr layout" and "layout v" and "layout (mem p)"
    and "mask_test (set_bit_mask cls) k = Some True"
    and "needed_message_space mem (Some a) = Some needed" and "needed \<le> 400"
    and "req_data req = le_octets 2 (2 :: 16 word) @ le_octets 2 n @ le_octets 2 k @ repr v @ rest"
  shows "\<exists>req' resp'. SetAttributeList cls inst mem req resp = Some (kEipStatusOkSend, mem(p := v), req', resp')
    \<and> msg_content (message resp') = le_octets 2 (2 :: 16 word) @ le_octets 2 n @ [kCipErrorAttributeNotSupported, 0]
         @ le_octets 2 k @ [kCipErrorSuccess, 0]
    \<and> general_status resp' = kCipErrorSuccess"
proof -
  let ?init = "InitializeENIPMessage (message resp)"
  let ?m = "?init\<lparr>current_message_position := 2, used_message_length := 2\<rparr>"
  have move: "MoveMessageNOctets 2 ?init = Some ?m"
    by (simp add: MoveMessageNOctets_def InitializeENIPMessage_def Let_def PC_OPENER_ETHERNET_BUFFER_SIZE_def)
  have m: "wf_msg ?m" "length (msg_content ?m) = 2" "msg_room ?m = 510"
    by (simp_all add: wf_msg_def msg_content_def InitializeENIPMessage_def PC_OPENER_ETHERNET_BUFFER_SIZE_def
      msg_room_def)
  obtain m1 where m1: "emit (le_octets 2 n @ [kCipErrorAttributeNotSupported, 0]) ?m = Some m1" "wf_msg m1"
      "msg_content m1 = msg_content ?m @ le_octets 2 n @ [kCipErrorAttributeNotSupported, 0]" "msg_room m1 = 506"
    using emit_wf_fits [OF m(1), of "le_octets 2 n @ [kCipErrorAttributeNotSupported, 0]"] m(3) by auto
  obtain m2 where m2: "emit (le_octets 2 k @ [kCipErrorSuccess, 0]) m1 = Some m2" "wf_msg m2"
      "msg_content m2 = msg_content m1 @ le_octets 2 k @ [kCipErrorSuccess, 0]"
    using emit_wf_fits [OF m1(2), of "le_octets 2 k @ [kCipErrorSuccess, 0]"] m1(4) by auto
  obtain m3 where m3: "patch_count 2 0 m2 = Some m3"
      "msg_content m3 = le_octets 2 (2 :: 16 word) @ drop 2 (msg_content m2)"
    using patch_count_content [OF m2(2), of 2] length_msg_content [OF m2(2)] m2(3) m1(3) m(2) by auto
  have space: "remaining_message_space ?m = 477" "remaining_message_space m1 = 473"
    using m m1 by (simp_all add: remaining_message_space_wf)
  have reads: "GetUintFromMessage (req_data req) = Some (2, le_octets 2 n @ le_octets 2 k @ repr v @ rest)"
      "GetUintFromMessage (le_octets 2 n @ le_octets 2 k @ repr v @ rest) = Some (n, le_octets 2 k @ repr v @ rest)"
      "GetUintFromMessage (le_octets 2 k @ repr v @ rest) = Some (k, repr v @ rest)"
    using assms(11) uint.dec_enc by auto
  let ?resp = "resp\<lparr>reply_service := 0x80 OR req_service req, general_status := kCipErrorSuccess,
    size_of_additional_status := 0, message := ?m\<rparr>"
  let ?req = "\<lambda>d. req\<lparr>req_data := d\<rparr>"
  obtain x where x: "AddIntToMessage n ?m = Some x"
      "attribute_status kCipErrorAttributeNotSupported (?resp\<lparr>message := x\<rparr>) = Some (?resp\<lparr>message := m1\<rparr>)"
    by (rule entry_status [OF m1(1), of ?resp])
  let ?resp1 = "?resp\<lparr>message := m1, general_status := kCipErrorAttributeListError\<rparr>"
  obtain y where y: "AddIntToMessage k m1 = Some y"
      "attribute_status kCipErrorSuccess (?resp1\<lparr>message := y\<rparr>) = Some (?resp1\<lparr>message := m2\<rparr>)"
    by (rule entry_status [OF m2(1), of ?resp1])
  obtain i where dec: "dec (mem p) (?req (repr v @ rest)) (?resp1\<lparr>message := m2\<rparr>) =
      Some (i, v, ?req rest, ?resp1\<lparr>message := m2, general_status := kCipErrorSuccess\<rparr>)"
    using attribute_codec.decode_repr [OF assms(5-7), of "?req (repr v @ rest)" rest "?resp1\<lparr>message := m2\<rparr>"] by auto
  have "attribute_list_loop (set_list_item cls) cls inst 2 0 (Suc (Suc 0))
      (mem, ?req (le_octets 2 n @ le_octets 2 k @ repr v @ rest), ?resp) =
    Some (mem(p := v), ?req rest, ?resp1\<lparr>message := m2, general_status := kCipErrorSuccess, message := m3\<rparr>)"
    using reads space x y dec m3 assms(1-4,8-10)
    by (simp add: set_list_item_def decode_attribute_def needed_message_space_def [of _ None] Let_def)
  then have "SetAttributeList cls inst mem req resp = Some (kEipStatusOkSend, mem(p := v), ?req rest,
      ?resp1\<lparr>message := m2, general_status := kCipErrorSuccess, message := m3\<rparr>)"
    using reads move
    by (simp add: SetAttributeList_def attribute_list_service_def Let_def position_init flip: numeral_2_eq_2)
  then show ?thesis using m3 m2(3) m1(3) m(2) by simp
qed

lemma SetAttributeList_hides_error_witness:
  "\<exists>req' resp'. SetAttributeList service_core service_instance (\<lambda>_. V16 0)
       (service_request kSetAttributeList 0 [2, 0, 9, 0, 1, 0, 0x34, 0x12]) service_response =
         Some (kEipStatusOkSend, (\<lambda>_. V16 0)(Obj 0 := V16 0x1234), req', resp')
     \<and> general_status resp' = kCipErrorSuccess"
proof -
  have "value_octets (V16 0x1234) = [0x34, 0x12]" "le_octets 2 (2 :: 16 word) = [2, 0]"
      "le_octets 2 (9 :: 16 word) = [9, 0]" "le_octets 2 (1 :: 16 word) = [1, 0]"
    by (simp_all add: le_octets_2)
  moreover have "GetCipAttribute service_core service_instance 9 = None"
    by (simp add: GetCipAttribute_def service_core_def service_instance_def)
  moreover have "needed_message_space (\<lambda>_. V16 0) (Some example_attribute) = Some 2"
    by (simp add: needed_message_space_def GetCipDataTypeLength_def)
  moreover have "mask_test (set_bit_mask service_core) 1 = Some True"
    by (simp add: mask_test_def CalculateIndex_def service_core_def)
  ultimately show ?thesis
    using SetAttributeList_hides_error [of service_core service_instance 9 1 example_attribute "Obj 0"
        DecodeCipUint EncodeCipUint value_octets is_V16 "V16 0x1234" "\<lambda>_. V16 0" 2
        "service_request kSetAttributeList 0 [2, 0, 9, 0, 1, 0, 0x34, 0x12]" "[]" service_response]
      cip_uint.attribute_codec_axioms
    by auto
qed

subsection \<open>Create and delete\<close>

lemma wf_class_lookup:
  assumes "wf_class c" and "i \<in> set (instances c)"
  shows "GetCipInstance c (inst_number i) = Some i"
proof -
  have "inst_number i \<noteq> 0" "distinct (map inst_number (instances c))"
    using assms by (auto simp: wf_class_def wf_instances_def)
  moreover have "find (\<lambda>j. inst_number j = inst_number i) is = Some i"
    if "i \<in> set is" "distinct (map inst_number is)" for "is"
    using that by (induction "is") force+
  ultimately show ?thesis using assms(2) by (simp add: GetCipInstance_def)
qed

text \<open>
  unless the class's pre-create callback objects, \<^verbatim>\<open>CipCreateService\<close> adds exactly one
  instance to a well-formed class with room for it, with a number no other instance has; the
  class attributes stay correct and the service always asks for the reply to be sent.
\<close>

theorem CipCreateService_wf:
  assumes "wf_class c" and "length (instances c) < 65535"
  shows "\<exists>c' store' resp'. CipCreateService (Some c) inst store req resp = Some (kEipStatusOkSend, c', store', req, resp')
    \<and> wf_class c'
    \<and> (if fst (run_cip_callback (PreCreateCallback (core c)) c inst req
            (reply_header kCipErrorSuccess req resp) store) = kEipStatusOk
       then \<exists>i. instances c' = instances c @ [i] \<and> inst_number i \<notin> inst_numbers (instances c)
              \<and> GetCipInstance c' (inst_number i) = Some i
       else c' = c)"
proof -
  obtain status resp1 store1 where pre: "run_cip_callback (PreCreateCallback (core c)) c inst req
      (reply_header kCipErrorSuccess req resp) store = (status, resp1, store1)"
    using prod_cases3 by blast
  show ?thesis
  proof (cases "status = kEipStatusOk")
    case False
    then show ?thesis using pre assms(1) by (simp add: CipCreateService_def Let_def)
  next
    case True
    have "length (instances c) + unat (1 :: CipInstanceNum) \<le> 65535" using assms(2) by simp
    then obtain c' i where c': "AddCipInstances c 1 = Some (c', Some (inst_number i))" "wf_class c'"
        "instances c' = instances c @ [i]"
      using add_instances_ok [OF assms(1), of 1] by (auto simp: length_Suc_conv)
    have i: "GetCipInstance c' (inst_number i) = Some i"
      using c'(2,3) by (intro wf_class_lookup) auto
    have "inst_number i \<notin> inst_numbers (instances c)"
      using c'(2,3) by (auto simp: wf_class_def wf_instances_def)
    obtain status2 resp2 store2 where "run_cip_callback (PostCreateCallback (core c')) c' i req resp1 store1
        = (status2, resp2, store2)"
      using prod_cases3 by blast
    with True pre c' i \<open>inst_number i \<notin> _\<close> show ?thesis
      by (simp add: CipCreateService_def Let_def)
  qed
qed

lemma unlink_instance_filter:
  "distinct (map inst_number is) \<Longrightarrow> unlink_instance n is = filter (\<lambda>i. inst_number i \<noteq> n) is"
proof (induction "is")
  case (Cons i "is")
  then show ?case by (auto simp: image_iff intro!: filter_True [symmetric])
qed simp

lemma filter_number_length:
  assumes "distinct (map inst_number is)" and "i \<in> set is"
  shows "length is = Suc (length (filter (\<lambda>j. inst_number j \<noteq> inst_number i) is))"
  using assms
proof (induction "is")
  case (Cons j "is")
  show ?case
  proof (cases "inst_number j = inst_number i")
    case True
    then have "filter (\<lambda>k. inst_number k \<noteq> inst_number i) is = is"
      using Cons.prems(1) by (auto simp: image_iff filter_id_conv)
    then show ?thesis using True by simp
  next
    case False
    then show ?thesis using Cons by auto
  qed
qed simp

text \<open>
  unless the pre-delete callback objects, \<^verbatim>\<open>CipDeleteService\<close> removes exactly the
  addressed instance from the chain and keeps the class well formed: the instance can no
  longer be looked up, the others can, and the class attributes count the rest.
\<close>

theorem CipDeleteService_wf:
  assumes "wf_class c" and "i \<in> set (instances c)"
    and "fst (run_cip_callback (PreDeleteCallback (core c)) c i req
           (reply_header kCipErrorInstanceNotDeletable req resp) store) = kEipStatusOk"
  shows "\<exists>c' store' resp'. CipDeleteService c i store req resp = Some (kEipStatusOk, c', store', req, resp')
    \<and> wf_class c' \<and> general_status resp' = kCipErrorSuccess
    \<and> instances c' = filter (\<lambda>j. inst_number j \<noteq> inst_number i) (instances c)
    \<and> GetCipInstance c' (inst_number i) = None
    \<and> (\<forall>j \<in> set (instances c). inst_number j \<noteq> inst_number i \<longrightarrow> GetCipInstance c' (inst_number j) = Some j)"
proof -
  obtain resp1 store1 where pre: "run_cip_callback (PreDeleteCallback (core c)) c i req
      (reply_header kCipErrorInstanceNotDeletable req resp) store = (kEipStatusOk, resp1, store1)"
    using assms(3) by (metis prod.collapse)
  let ?is = "filter (\<lambda>j. inst_number j \<noteq> inst_number i) (instances c)"
  let ?c1 = "c\<lparr>instances := ?is\<rparr>"
  let ?c2 = "?c1\<lparr>number_of_instances := number_of_instances c - 1\<rparr>"
  let ?c3 = "?c2\<lparr>max_instance := GetMaxInstanceNumber ?c2\<rparr>"
  obtain status2 resp2 store2 where post: "run_cip_callback (PostDeleteCallback (core c)) ?c1 i req resp1 store1
      = (status2, resp2, store2)"
    using prod_cases3 by blast
  have wf: "distinct (map inst_number (instances c))" "0 \<notin> inst_numbers (instances c)"
      "number_of_instances c = of_nat (length (instances c))"
      "\<forall>i \<in> set (instances c). length (attributes i) = unat (number_of_attributes (core c))"
    using assms(1) by (simp_all add: wf_class_def wf_instances_def)
  have "number_of_instances c - 1 = of_nat (length ?is)"
    using wf(3) filter_number_length [OF wf(1) assms(2)] by simp
  then have wf3: "wf_class ?c3"
    using wf by (auto simp: wf_class_def wf_instances_def GetMaxInstanceNumber_def distinct_map_filter)
  have "instances c \<noteq> []" using assms(2) by auto
  then have "CipDeleteService c i store req resp =
      Some (kEipStatusOk, ?c3, store2, req, resp2\<lparr>general_status := kCipErrorSuccess\<rparr>)"
    using pre post by (simp add: CipDeleteService_def Let_def unlink_instance_filter [OF wf(1)])
  moreover have "GetCipInstance ?c3 (inst_number i) = None"
    using wf(2) assms(2) by (auto simp: GetCipInstance_def find_None_iff)
  moreover have "GetCipInstance ?c3 (inst_number j) = Some j"
    if "j \<in> set (instances c)" "inst_number j \<noteq> inst_number i" for j
    using that by (intro wf_class_lookup [OF wf3]) simp
  ultimately show ?thesis using wf3 by auto
qed

lemma example_class_wf: "wf_class example_class"
  by (simp add: wf_class_def wf_instances_def example_class_def GetMaxInstanceNumber_def empty_core_def)

lemma CipCreateService_wf_witness:
  "\<exists>c' store' resp'. CipCreateService (Some example_class) (class_inst example_class) (\<lambda>_. V8 0)
       (service_request kCreate 0 []) service_response =
         Some (kEipStatusOkSend, c', store', service_request kCreate 0 [], resp') \<and> wf_class c'"
  using CipCreateService_wf [OF example_class_wf, of "class_inst example_class" "\<lambda>_. V8 0"
      "service_request kCreate 0 []" service_response]
  by (auto simp: example_class_def)

lemma CipDeleteService_wf_witness:
  "\<exists>c' store' resp'. CipDeleteService example_class \<lparr>inst_number = 3, attributes = []\<rparr> (\<lambda>_. V8 0)
       (service_request kDelete 0 []) service_response =
         Some (kEipStatusOk, c', store', service_request kDelete 0 [], resp')
     \<and> wf_class c' \<and> instances c' = []"
  using CipDeleteService_wf [OF example_class_wf, of "\<lparr>inst_number = 3, attributes = []\<rparr>"
      "service_request kDelete 0 []" service_response "\<lambda>_. V8 0"]
  by (auto simp: example_class_def run_cip_callback_def empty_core_def)

end
