(* ===== verification/MessageRouter.thy ===== *)
theory MessageRouter
  imports CipServices
begin

text \<open>
  The message router (\<^verbatim>\<open>cip/cipmessagerouter.c\<close>) and the creation of classes, which
  registers them there (\<^verbatim>\<open>CreateCipClass\<close> of \<^verbatim>\<open>cip/cipcommon.c\<close>). The registry is the
  list of the registered classes in the order of the linked list that starts at
  \<^verbatim>\<open>g_first_object\<close>; a node's pointer to a class is the class itself, so a service that
  changes its class changes the registry. Allocation of memory always succeeds.
\<close>

subsection \<open>The registry\<close>

type_synonym 'svc registry = "'svc cip_class list"

definition RegisterCipClass :: "'svc cip_class \<Rightarrow> 'svc registry \<Rightarrow> EipStatus \<times> 'svc registry" where
  "RegisterCipClass c objects = (kEipStatusOk, objects @ [c])"

definition GetRegisteredObject :: "'svc registry \<Rightarrow> CipUdint \<Rightarrow> 'svc cip_class option" where
  "GetRegisteredObject objects code = find (\<lambda>c. class_code c = code) objects"

definition GetCipClass :: "'svc registry \<Rightarrow> CipUdint \<Rightarrow> 'svc cip_class option" where
  "GetCipClass objects code =
     (case GetRegisteredObject objects code of Some c \<Rightarrow> Some c | None \<Rightarrow> None)"

definition DeleteAllClasses :: "'svc registry \<Rightarrow> 'svc registry" where
  "DeleteAllClasses objects = []"

text \<open>The effect on the registry of writing through the pointer of the first node with that code.\<close>

fun store_class :: "CipUdint \<Rightarrow> 'svc cip_class \<Rightarrow> 'svc registry \<Rightarrow> 'svc registry" where
  "store_class code c' [] = []"
| "store_class code c' (c # cs) = (if class_code c = code then c' # cs else c # store_class code c' cs)"

subsection \<open>Creating a class\<close>

definition insert_class_attribute ::
    "CipUint \<Rightarrow> encode_fn \<Rightarrow> data_ref \<Rightarrow> octet \<Rightarrow> 'svc cip_class \<Rightarrow> 'svc cip_class option" where
  "insert_class_attribute n enc data fl c = do {
     (mc, ci) \<leftarrow> InsertAttribute (meta_class c) (class_inst c) n kCipUint (Some enc) None data fl;
     Some (c\<lparr>meta_class := mc, class_inst := ci\<rparr>) }"

definition insert_class_service ::
    "octet \<Rightarrow> 'svc \<Rightarrow> string \<Rightarrow> 'svc cip_class \<Rightarrow> 'svc cip_class option" where
  "insert_class_service n f name c = do {
     mc \<leftarrow> InsertService (meta_class c) n f name;
     Some (c\<lparr>meta_class := mc\<rparr>) }"

text \<open>The standard class attributes and services, used when there is no initializer.\<close>

definition default_class_init :: "int \<Rightarrow> 'u std_service cip_class \<Rightarrow> 'u std_service cip_class option" where
  "default_class_init number_of_class_services c = do {
     c \<leftarrow> insert_class_attribute 1 EncodeCipUint RevisionField kGetableSingleAndAll c;
     c \<leftarrow> insert_class_attribute 2 EncodeCipUint MaxInstanceField kGetableSingleAndAll c;
     c \<leftarrow> insert_class_attribute 3 EncodeCipUint NumberOfInstancesField kGetableSingleAndAll c;
     c \<leftarrow> insert_class_attribute 4 EncodeCipUint UintZero kGetableAllDummy c;
     c \<leftarrow> insert_class_attribute 5 EncodeCipUint UintZero kNotSetOrGetable c;
     c \<leftarrow> insert_class_attribute 6 EncodeCipUint MetaHighestAttributeField kGetableSingle c;
     c \<leftarrow> insert_class_attribute 7 EncodeCipUint HighestAttributeField kGetableSingle c;
     if number_of_class_services > 0 then do {
       c \<leftarrow> (if number_of_class_services > 1
             then insert_class_service kGetAttributeAll SvcGetAttributeAll ''GetAttributeAll'' c
             else Some c);
       insert_class_service kGetAttributeSingle SvcGetAttributeSingle ''GetAttributeSingle'' c
     } else Some c }"

text \<open>The numbers are C integers that the fields of the class truncate to 16 bits.\<close>

definition blank_class ::
    "CipUdint \<Rightarrow> int \<Rightarrow> 32 word \<Rightarrow> int \<Rightarrow> int \<Rightarrow> 32 word \<Rightarrow> int \<Rightarrow> string \<Rightarrow> CipUint \<Rightarrow> 'svc cip_class" where
  "blank_class code number_of_class_attributes highest_class_attribute_number number_of_class_services
     number_of_instance_attributes highest_instance_attribute_number number_of_instance_services name rev_no =
     (let mc = empty_core\<lparr>number_of_attributes := of_int (number_of_class_attributes + 7),
                 highest_attribute_number := ucast highest_class_attribute_number,
                 number_of_services := of_int number_of_class_services,
                 services := replicate (unat (of_int number_of_class_services :: CipUint)) empty_service\<rparr>;
          cc = empty_core\<lparr>number_of_attributes := of_int number_of_instance_attributes,
                 highest_attribute_number := ucast highest_instance_attribute_number,
                 number_of_services := of_int number_of_instance_services,
                 services := replicate (unat (of_int number_of_instance_services :: CipUint)) empty_service\<rparr>
      in \<lparr>class_inst = \<lparr>inst_number = 0,
              attributes = replicate (unat (number_of_attributes mc)) empty_attribute\<rparr>,
          meta_class = mc, core = cc, class_code = code, revision = rev_no, max_instance = 0,
          number_of_instances = 0, instances = [], class_name = name\<rparr>)"

definition CreateCipClass ::
    "'u std_service registry \<Rightarrow> CipUdint \<Rightarrow> int \<Rightarrow> 32 word \<Rightarrow> int \<Rightarrow> int \<Rightarrow> 32 word \<Rightarrow> int \<Rightarrow> CipInstanceNum
      \<Rightarrow> string \<Rightarrow> CipUint \<Rightarrow> ('u std_service cip_class \<Rightarrow> 'u std_service cip_class option) option
      \<Rightarrow> ('u std_service cip_class \<times> 'u std_service registry) option" where
  "CreateCipClass objects code number_of_class_attributes highest_class_attribute_number
     number_of_class_services number_of_instance_attributes highest_instance_attribute_number
     number_of_instance_services n_instances name rev_no initializer = do {
     guard (GetCipClass objects code = None);
     guard (name \<noteq> []);
     let c = blank_class code number_of_class_attributes highest_class_attribute_number
        number_of_class_services number_of_instance_attributes highest_instance_attribute_number
        number_of_instance_services name rev_no;
     c \<leftarrow> (if n_instances > 0 then map_option fst (AddCipInstances c n_instances) else Some c);
     let c = c\<lparr>meta_class := AllocateAttributeMasks (meta_class c), core := AllocateAttributeMasks (core c)\<rparr>;
     c \<leftarrow> (case initializer of
             None \<Rightarrow> default_class_init number_of_class_services c
           | Some init \<Rightarrow> init c);
     Some (c, snd (RegisterCipClass c objects)) }"

definition kCipMessageRouterClassCode :: CipUdint where
  "kCipMessageRouterClassCode = 0x02"

definition InitializeCipMessageRouterClass :: "'u std_service cip_class \<Rightarrow> 'u std_service cip_class option" where
  "InitializeCipMessageRouterClass c = do {
     c \<leftarrow> insert_class_attribute 1 EncodeCipUint RevisionField kGetableSingleAndAll c;
     c \<leftarrow> insert_class_attribute 2 EncodeCipUint NumberOfInstancesField kGetableSingle c;
     c \<leftarrow> insert_class_attribute 3 EncodeCipUint NumberOfInstancesField kGetableSingle c;
     c \<leftarrow> insert_class_attribute 4 EncodeCipUint UintZero kGetableAll c;
     c \<leftarrow> insert_class_attribute 5 EncodeCipUint UintZero kGetableAll c;
     c \<leftarrow> insert_class_attribute 6 EncodeCipUint MetaHighestAttributeField kGetableSingleAndAll c;
     c \<leftarrow> insert_class_attribute 7 EncodeCipUint HighestAttributeField kGetableSingleAndAll c;
     c \<leftarrow> insert_class_service kGetAttributeAll SvcGetAttributeAll ''GetAttributeAll'' c;
     insert_class_service kGetAttributeSingle SvcGetAttributeSingle ''GetAttributeSingle'' c }"

definition CipMessageRouterInit ::
    "'u std_service registry \<Rightarrow> (EipStatus \<times> 'u std_service registry) option" where
  "CipMessageRouterInit objects = do {
     (message_router, objects) \<leftarrow> CreateCipClass objects kCipMessageRouterClassCode 7 7 2 0 0 1 1
        ''message router'' 1 (Some InitializeCipMessageRouterClass);
     cc \<leftarrow> InsertService (core message_router) kGetAttributeSingle SvcGetAttributeSingle ''GetAttributeSingle'';
     Some (kEipStatusOk, store_class kCipMessageRouterClassCode (message_router\<lparr>core := cc\<rparr>) objects) }"

subsection \<open>Requests\<close>

text \<open>
  \<open>data\<close> is the memory from the received message on, \<open>data_length\<close> the signed 16 bit
  parameter. It is decremented at its width and, compared with and subtracted from
  a \<^verbatim>\<open>size_t\<close>, converted to that unsigned type with its sign.
\<close>

definition CreateMessageRouterRequestStructure ::
    "octet list \<Rightarrow> 16 word \<Rightarrow> mr_request \<Rightarrow> (CipUsint \<times> mr_request) option" where
  "CreateMessageRouterRequestStructure data data_length req =
     (case data of [] \<Rightarrow> None
      | b # data \<Rightarrow> do {
          let req = req\<lparr>req_service := b\<rparr>;
          let data_length = data_length - 1;
          (path_result, path, rest, number_of_decoded_bytes) \<leftarrow> DecodePaddedEPath (request_path req) data;
          let req = req\<lparr>request_path := path\<rparr>;
          if path_result \<noteq> kEipStatusOk then Some (kCipErrorPathSegmentError, req)
          else do {
            n \<leftarrow> number_of_decoded_bytes;
            let len = (scast data_length :: size_t);
            if of_nat n > len then Some (kCipErrorPathSizeInvalid, req)
            else Some (kCipErrorSuccess,
              req\<lparr>req_data := rest, request_data_size := len - of_nat n\<rparr>) } })"

text \<open>
  The request structure is the global \<^verbatim>\<open>g_message_router_request\<close>. On the error paths the
  message of the response is left as the caller prepared it.
\<close>

definition NotifyMessageRouter ::
    "('svc \<Rightarrow> 'svc cip_class \<Rightarrow> cip_instance \<Rightarrow> 's \<Rightarrow> mr_request \<Rightarrow> mr_response
       \<Rightarrow> (EipStatus \<times> 'svc cip_class \<times> 's \<times> mr_request \<times> mr_response) option)
     \<Rightarrow> octet list \<Rightarrow> int \<Rightarrow> 'svc registry \<Rightarrow> mr_request \<Rightarrow> 's \<Rightarrow> mr_response
       \<Rightarrow> (EipStatus \<times> 'svc registry \<times> mr_request \<times> 's \<times> mr_response) option" where
  "NotifyMessageRouter call data data_length objects req s resp = do {
     (status, req) \<leftarrow> CreateMessageRouterRequestStructure data (of_int data_length) req;
     let error_reply = (\<lambda>status. Some (kEipStatusOkSend, objects, req, s,
           resp\<lparr>general_status := status, size_of_additional_status := 0, reserved := 0,
             reply_service := 0x80 OR req_service req\<rparr>));
     if status \<noteq> kCipErrorSuccess then error_reply status
     else (case GetRegisteredObject objects (ucast (class_id (request_path req))) of
        None \<Rightarrow> error_reply kCipErrorPathDestinationUnknown
      | Some c \<Rightarrow> do {
          (eip_status, c', s, req, resp) \<leftarrow> NotifyClass call c s req (resp\<lparr>reserved := 0\<rparr>);
          Some (eip_status, store_class (class_code c) c' objects, req, s, resp) }) }"

subsection \<open>The registry as a table\<close>

lemma GetCipClass_eq: "GetCipClass = GetRegisteredObject"
  by (intro ext) (simp add: GetCipClass_def split: option.splits)

lemma GetCipClass_register:
  "GetCipClass (snd (RegisterCipClass c objects)) code =
     (case GetCipClass objects code of Some d \<Rightarrow> Some d
      | None \<Rightarrow> if class_code c = code then Some c else None)"
  by (induction objects) (auto simp: GetCipClass_eq GetRegisteredObject_def RegisterCipClass_def split: option.splits)

lemma GetCipClass_store:
  assumes "GetCipClass objects code = Some c" and "class_code c' = code"
  shows "GetCipClass (store_class code c' objects) k = (if k = code then Some c' else GetCipClass objects k)"
  using assms by (induction objects) (auto simp: GetCipClass_eq GetRegisteredObject_def split: if_splits)

lemma store_class_same:
  "GetRegisteredObject objects code = Some c \<Longrightarrow> store_class code c objects = objects"
  by (induction objects) (auto simp: GetRegisteredObject_def split: if_splits)

lemma GetRegisteredObject_code: "GetRegisteredObject objects code = Some c \<Longrightarrow> class_code c = code"
  by (induction objects) (auto simp: GetRegisteredObject_def split: if_splits)

subsection \<open>Building up the class attributes\<close>

definition free_slots :: "cip_instance \<Rightarrow> nat" where
  "free_slots inst = length (filter (\<lambda>a. attr_data a = None) (attributes inst))"

lemma free_slots_pos: "0 < free_slots inst \<Longrightarrow> \<exists>s \<in> set (attributes inst). attr_data s = None"
  by (auto simp: free_slots_def filter_empty_conv)

lemma insert_slot_free:
  "insert_slot k a slots = Some slots' \<Longrightarrow> attr_data a \<noteq> None \<Longrightarrow>
     length (filter (\<lambda>a. attr_data a = None) slots) = Suc (length (filter (\<lambda>a. attr_data a = None) slots'))
     \<and> {x \<in> set slots'. attr_data x = None} \<subseteq> set slots"
  by (induction k a slots arbitrary: slots' rule: insert_slot.induct) (auto split: if_splits)

lemma InsertAttribute_frame:
  assumes "InsertAttribute cls inst n type enc dec data fl = Some (cls', inst')"
  shows "highest_attribute_number cls' = highest_attribute_number cls"
    and "number_of_services cls' = number_of_services cls" and "services cls' = services cls"
    and "inst_number inst' = inst_number inst"
    and "PreGetCallback cls' = PreGetCallback cls" and "PostGetCallback cls' = PostGetCallback cls"
    and "free_slots inst = Suc (free_slots inst')"
    and "{x \<in> set (attributes inst'). attr_data x = None} \<subseteq> set (attributes inst)"
proof -
  obtain slots where slots: "insert_slot (unat (number_of_attributes cls)) \<lparr>attr_number = n, attr_type = type,
        attr_encode = enc, attr_decode = dec, attribute_flags = fl, attr_data = Some data\<rparr> (attributes inst) = Some slots"
      "inst' = inst\<lparr>attributes := slots\<rparr>"
    using assms by (auto simp: InsertAttribute_def Let_def)
  show "highest_attribute_number cls' = highest_attribute_number cls"
    "number_of_services cls' = number_of_services cls" "services cls' = services cls"
    "PreGetCallback cls' = PreGetCallback cls" "PostGetCallback cls' = PostGetCallback cls"
    using assms by (auto simp: InsertAttribute_def Let_def)
  show "inst_number inst' = inst_number inst" "free_slots inst = Suc (free_slots inst')"
    "{x \<in> set (attributes inst'). attr_data x = None} \<subseteq> set (attributes inst)"
    using slots(2) insert_slot_free [OF slots(1)] by (simp_all add: free_slots_def)
qed

text \<open>
  The state of a class under construction: its masks agree with the attributes inserted so
  far, the rest of the slots is blank, and everything else is as in the class it began with.
\<close>

definition under_construction ::
    "'svc cip_class \<Rightarrow> cip_attribute set \<Rightarrow> nat \<Rightarrow> 'svc cip_class \<Rightarrow> bool" where
  "under_construction c0 used free c \<longleftrightarrow>
     masks_ok (meta_class c) (class_inst c) \<and> used_attributes (class_inst c) = used
     \<and> free_slots (class_inst c) = free \<and> inst_number (class_inst c) = 0
     \<and> (\<forall>a \<in> set (attributes (class_inst c)). attr_data a = None \<longrightarrow> attr_number a = 0)
     \<and> highest_attribute_number (meta_class c) = highest_attribute_number (meta_class c0)
     \<and> number_of_services (meta_class c) = number_of_services (meta_class c0)
     \<and> services (meta_class c) = services (meta_class c0)
     \<and> PreGetCallback (meta_class c) = PreGetCallback (meta_class c0)
     \<and> PostGetCallback (meta_class c) = PostGetCallback (meta_class c0)
     \<and> c = c0\<lparr>meta_class := meta_class c, class_inst := class_inst c\<rparr>"

lemma insert_class_attribute_step:
  assumes "under_construction c0 used (Suc k) c" and "n \<le> highest_attribute_number (meta_class c0)"
  obtains c' where "insert_class_attribute n enc data fl c = Some c'"
    "under_construction c0 (insert \<lparr>attr_number = n, attr_type = kCipUint, attr_encode = Some enc,
       attr_decode = None, attribute_flags = fl, attr_data = Some data\<rparr> used) k c'"
proof -
  have c: "masks_ok (meta_class c) (class_inst c)" "n \<le> highest_attribute_number (meta_class c)"
      "\<exists>s \<in> set (attributes (class_inst c)). attr_data s = None"
    using assms free_slots_pos by (auto simp: under_construction_def)
  obtain mc ci where ins: "InsertAttribute (meta_class c) (class_inst c) n kCipUint (Some enc) None data fl = Some (mc, ci)"
      "masks_ok mc ci" "used_attributes ci = insert \<lparr>attr_number = n, attr_type = kCipUint, attr_encode = Some enc,
        attr_decode = None, attribute_flags = fl, attr_data = Some data\<rparr> used"
    using InsertAttribute_ok [OF c, of kCipUint "Some enc" None data fl] assms(1)
    by (auto simp: under_construction_def)
  note frame = InsertAttribute_frame [OF ins(1)]
  have "\<forall>a \<in> set (attributes ci). attr_data a = None \<longrightarrow> attr_number a = 0"
    using frame(8) assms(1) by (auto simp: under_construction_def)
  moreover have "c = c0\<lparr>meta_class := meta_class c, class_inst := class_inst c\<rparr>"
    using assms(1) by (simp add: under_construction_def)
  then have "c\<lparr>meta_class := mc, class_inst := ci\<rparr> = c0\<lparr>meta_class := mc, class_inst := ci\<rparr>"
    by (cases c0; cases c) simp
  ultimately show thesis
    using ins frame assms(1)
    by (intro that [of "c\<lparr>meta_class := mc, class_inst := ci\<rparr>"])
      (simp_all add: insert_class_attribute_def under_construction_def)
qed

lemma lookup_used_attribute:
  assumes "masks_ok cls inst" and "tidy_slots inst" and "a \<in> used_attributes inst"
  shows "GetCipAttribute cls inst (attr_number a) = Some a"
proof -
  have len: "length (attributes inst) = unat (number_of_attributes cls)"
    using assms(1) by (simp add: masks_ok_def)
  have "find (\<lambda>b. attr_number a = attr_number b) (attributes inst) \<noteq> None"
    using assms(3) by (auto simp: find_None_iff used_attributes_def)
  then obtain b where b: "GetCipAttribute cls inst (attr_number a) = Some b"
    using len by (auto simp: GetCipAttribute_def)
  note bs = GetCipAttribute_SomeD [OF b]
  have "attr_data b = None \<longleftrightarrow> attr_data a = None"
    using assms(2,3) bs unfolding tidy_slots_def used_attributes_def by (metis (no_types, lifting) mem_Collect_eq)
  then have "b \<in> used_attributes inst"
    using assms(3) bs by (simp add: used_attributes_def del: not_None_eq)
  then show ?thesis
    using assms(2,3) b bs(2) inj_onD [of attr_number "used_attributes inst" b a] by (simp add: tidy_slots_def)
qed

subsection \<open>Services\<close>

lemma insert_service_slot_lookup:
  "insert_service_slot k a slots = Some slots' \<Longrightarrow>
     find (\<lambda>s. service_number s = service_number a) (take k slots') = Some a \<and> length slots' = length slots"
  by (induction k a slots arbitrary: slots' rule: insert_service_slot.induct) (auto split: if_splits)

lemma insert_service_slot_total:
  "\<exists>s \<in> set (take k slots). service_function s = None \<Longrightarrow> \<exists>slots'. insert_service_slot k a slots = Some slots'"
  by (induction k a slots rule: insert_service_slot.induct) auto

lemma InsertService_lookup:
  assumes "InsertService cls n f name = Some cls'"
  shows "GetCipService cls' n = Some \<lparr>service_number = n, service_function = Some f, service_name = name\<rparr>"
    and "number_of_services cls' = number_of_services cls"
  using assms insert_service_slot_lookup
  by (fastforce simp: InsertService_def GetCipService_def)+

lemma masks_ok_cong:
  assumes "number_of_attributes cls' = number_of_attributes cls"
    and "highest_attribute_number cls' = highest_attribute_number cls"
    and "get_single_bit_mask cls' = get_single_bit_mask cls" and "set_bit_mask cls' = set_bit_mask cls"
    and "get_all_bit_mask cls' = get_all_bit_mask cls"
  shows "masks_ok cls' inst \<longleftrightarrow> masks_ok cls inst"
  using assms by (simp add: masks_ok_def mask_exact_def)

lemma insert_class_service_step:
  assumes "service_function (services (meta_class c) ! i) = None"
    and "i < unat (number_of_services (meta_class c))" "i < length (services (meta_class c))"
  obtains c' where "insert_class_service n f name c = Some c'"
    "c' = c\<lparr>meta_class := meta_class c'\<rparr>" "class_inst c' = class_inst c"
    "masks_ok (meta_class c') inst \<longleftrightarrow> masks_ok (meta_class c) inst"
    "GetCipService (meta_class c') n = Some \<lparr>service_number = n, service_function = Some f, service_name = name\<rparr>"
    "number_of_services (meta_class c') = number_of_services (meta_class c)"
    "PreGetCallback (meta_class c') = PreGetCallback (meta_class c)"
    "PostGetCallback (meta_class c') = PostGetCallback (meta_class c)"
    "Some (services (meta_class c')) = insert_service_slot (unat (number_of_services (meta_class c)))
       \<lparr>service_number = n, service_function = Some f, service_name = name\<rparr> (services (meta_class c))"
proof -
  have "services (meta_class c) ! i \<in> set (take (unat (number_of_services (meta_class c))) (services (meta_class c)))"
    using assms(2,3) by (metis length_take min_less_iff_conj nth_mem nth_take)
  then obtain slots' where slots': "insert_service_slot (unat (number_of_services (meta_class c)))
      \<lparr>service_number = n, service_function = Some f, service_name = name\<rparr> (services (meta_class c)) = Some slots'"
    using insert_service_slot_total assms(1) by blast
  let ?mc = "(meta_class c)\<lparr>services := slots'\<rparr>"
  have "InsertService (meta_class c) n f name = Some ?mc"
    using slots' by (simp add: InsertService_def)
  with InsertService_lookup(1) [OF this] show thesis
    using slots' by (intro that [of "c\<lparr>meta_class := ?mc\<rparr>"])
      (simp_all add: insert_class_service_def masks_ok_cong [of ?mc "meta_class c"])
qed

subsection \<open>Creation\<close>

text \<open>The class attributes that \<^verbatim>\<open>CreateCipClass\<close> installs: number, place and flags.\<close>

definition std_attributes :: "(CipUint \<times> data_ref \<times> octet) list" where
  "std_attributes = [(1, RevisionField, kGetableSingleAndAll), (2, MaxInstanceField, kGetableSingleAndAll),
     (3, NumberOfInstancesField, kGetableSingleAndAll), (4, UintZero, kGetableAllDummy),
     (5, UintZero, kNotSetOrGetable), (6, MetaHighestAttributeField, kGetableSingle),
     (7, HighestAttributeField, kGetableSingle)]"

definition std_attribute :: "CipUint \<times> data_ref \<times> octet \<Rightarrow> cip_attribute" where
  "std_attribute = (\<lambda>(n, data, fl). \<lparr>attr_number = n, attr_type = kCipUint, attr_encode = Some EncodeCipUint,
     attr_decode = None, attribute_flags = fl, attr_data = Some data\<rparr>)"

lemma std_attribute_simps [simp]:
  "attr_number (std_attribute (n, data, fl)) = n" "attr_data (std_attribute (n, data, fl)) = Some data"
  "attr_encode (std_attribute (n, data, fl)) = Some EncodeCipUint"
  "attribute_flags (std_attribute (n, data, fl)) = fl"
  by (simp_all add: std_attribute_def)

definition std_class :: "'u std_service cip_class \<Rightarrow> bool" where
  "std_class c \<longleftrightarrow> masks_ok (meta_class c) (class_inst c) \<and> tidy_slots (class_inst c)
     \<and> inst_number (class_inst c) = 0
     \<and> used_attributes (class_inst c) = std_attribute ` set std_attributes
     \<and> PreGetCallback (meta_class c) = None \<and> PostGetCallback (meta_class c) = None
     \<and> GetCipService (meta_class c) kGetAttributeSingle = Some \<lparr>service_number = kGetAttributeSingle,
          service_function = Some SvcGetAttributeSingle, service_name = ''GetAttributeSingle''\<rparr>"

lemma default_class_attributes:
  assumes "under_construction c0 {} (k + 7) c0" and "7 \<le> highest_attribute_number (meta_class c0)"
  obtains c where "default_class_init ncs c0 =
      (if ncs > 0 then Option.bind (if ncs > 1
          then insert_class_service kGetAttributeAll SvcGetAttributeAll ''GetAttributeAll'' c else Some c)
        (insert_class_service kGetAttributeSingle SvcGetAttributeSingle ''GetAttributeSingle'') else Some c)"
    "under_construction c0 (std_attribute ` set std_attributes) k c"
proof -
  have le: "1 \<le> highest_attribute_number (meta_class c0)" "2 \<le> highest_attribute_number (meta_class c0)"
      "3 \<le> highest_attribute_number (meta_class c0)" "4 \<le> highest_attribute_number (meta_class c0)"
      "5 \<le> highest_attribute_number (meta_class c0)" "6 \<le> highest_attribute_number (meta_class c0)"
    by (rule order_trans [OF _ assms(2)], simp)+
  have uc: "under_construction c0 (std_attribute ` set (take 0 std_attributes))
      (Suc (Suc (Suc (Suc (Suc (Suc (Suc k))))))) c0"
    using assms(1) by (simp add: numeral_eq_Suc)
  note attrs = std_attribute_def std_attributes_def insert_commute
  obtain c1 where c1: "insert_class_attribute 1 EncodeCipUint RevisionField kGetableSingleAndAll c0 = Some c1"
      "under_construction c0 (std_attribute ` set (take 1 std_attributes)) (Suc (Suc (Suc (Suc (Suc (Suc k)))))) c1"
    by (rule insert_class_attribute_step [OF uc le(1), of EncodeCipUint RevisionField kGetableSingleAndAll])
      (simp add: attrs)
  obtain c2 where c2: "insert_class_attribute 2 EncodeCipUint MaxInstanceField kGetableSingleAndAll c1 = Some c2"
      "under_construction c0 (std_attribute ` set (take 2 std_attributes)) (Suc (Suc (Suc (Suc (Suc k))))) c2"
    by (rule insert_class_attribute_step [OF c1(2) le(2), of EncodeCipUint MaxInstanceField kGetableSingleAndAll])
      (simp add: attrs)
  obtain c3 where c3: "insert_class_attribute 3 EncodeCipUint NumberOfInstancesField kGetableSingleAndAll c2 = Some c3"
      "under_construction c0 (std_attribute ` set (take 3 std_attributes)) (Suc (Suc (Suc (Suc k)))) c3"
    by (rule insert_class_attribute_step [OF c2(2) le(3), of EncodeCipUint NumberOfInstancesField kGetableSingleAndAll])
      (simp add: attrs)
  obtain c4 where c4: "insert_class_attribute 4 EncodeCipUint UintZero kGetableAllDummy c3 = Some c4"
      "under_construction c0 (std_attribute ` set (take 4 std_attributes)) (Suc (Suc (Suc k))) c4"
    by (rule insert_class_attribute_step [OF c3(2) le(4), of EncodeCipUint UintZero kGetableAllDummy])
      (simp add: attrs)
  obtain c5 where c5: "insert_class_attribute 5 EncodeCipUint UintZero kNotSetOrGetable c4 = Some c5"
      "under_construction c0 (std_attribute ` set (take 5 std_attributes)) (Suc (Suc k)) c5"
    by (rule insert_class_attribute_step [OF c4(2) le(5), of EncodeCipUint UintZero kNotSetOrGetable])
      (simp add: attrs)
  obtain c6 where c6: "insert_class_attribute 6 EncodeCipUint MetaHighestAttributeField kGetableSingle c5 = Some c6"
      "under_construction c0 (std_attribute ` set (take 6 std_attributes)) (Suc k) c6"
    by (rule insert_class_attribute_step [OF c5(2) le(6), of EncodeCipUint MetaHighestAttributeField kGetableSingle])
      (simp add: attrs)
  obtain c7 where c7: "insert_class_attribute 7 EncodeCipUint HighestAttributeField kGetableSingle c6 = Some c7"
      "under_construction c0 (std_attribute ` set std_attributes) k c7"
    by (rule insert_class_attribute_step [OF c6(2) assms(2), of EncodeCipUint HighestAttributeField kGetableSingle])
      (simp add: attrs)
  show thesis
    by (rule that [of c7]) (use c1 c2 c3 c4 c5 c6 c7 in \<open>simp_all add: default_class_init_def\<close>)
qed

lemma blank_class_simps [simp]:
  "class_code (blank_class code nca hca ncs nia hia nis name r) = code"
  "instances (blank_class code nca hca ncs nia hia nis name r) = []"
  "inst_number (class_inst (blank_class code nca hca ncs nia hia nis name r)) = 0"
  "revision (blank_class code nca hca ncs nia hia nis name r) = r"
  by (simp_all add: blank_class_def Let_def)

lemma blank_class_wf: "wf_class (blank_class code nca hca ncs nia hia nis name r)"
  by (simp add: wf_class_def wf_instances_def blank_class_def Let_def GetMaxInstanceNumber_def)

text \<open>What \<^verbatim>\<open>AddCipInstances\<close> leaves alone.\<close>

lemma add_instances_loop_frame:
  "add_instances_loop k n c = Some (c', ns) \<Longrightarrow>
     meta_class c' = meta_class c \<and> core c' = core c \<and> class_inst c' = class_inst c
     \<and> class_code c' = class_code c \<and> revision c' = revision c"
  by (induction k n c arbitrary: c' ns rule: add_instances_loop.induct) (auto simp: Let_def)

lemma AddCipInstances_frame:
  "AddCipInstances c n = Some (c', first) \<Longrightarrow>
     meta_class c' = meta_class c \<and> core c' = core c \<and> class_inst c' = class_inst c
     \<and> class_code c' = class_code c \<and> revision c' = revision c"
  by (auto simp: AddCipInstances_def dest: add_instances_loop_frame)

lemma wf_class_masks: "wf_class c \<Longrightarrow> wf_class (c\<lparr>meta_class := mc, core := AllocateAttributeMasks (core c)\<rparr>)"
  by (simp add: wf_class_def wf_instances_def GetMaxInstanceNumber_def AllocateAttributeMasks_def Let_def)

lemma wf_class_cong:
  assumes "wf_class c" and "c' = c\<lparr>class_inst := ci, meta_class := mc\<rparr>"
  shows "wf_class c'"
  using assms by (simp add: wf_class_def wf_instances_def GetMaxInstanceNumber_def)

lemma number_of_class_attributes:
  assumes "0 \<le> k" and "k + 7 \<le> 65535"
  shows "unat (of_int (k + 7) :: 16 word) = nat k + 7"
proof -
  have "unat (of_int (k + 7) :: 16 word) = nat (take_bit 16 (k + 7))"
    by (simp only: unsigned_of_int) simp
  then show ?thesis using assms by (simp add: take_bit_int_eq_self nat_add_distrib)
qed

lemma std_attributes_tidy:
  assumes "used_attributes inst = std_attribute ` set std_attributes"
    and "\<forall>a \<in> set (attributes inst). attr_data a = None \<longrightarrow> attr_number a = 0"
  shows "tidy_slots inst"
proof -
  have "inj_on attr_number (std_attribute ` set std_attributes)"
    by (simp add: inj_on_def std_attributes_def std_attribute_def)
  moreover have "\<forall>a \<in> std_attribute ` set std_attributes. attr_number a \<noteq> 0"
    by (simp add: std_attributes_def std_attribute_def)
  moreover have "attr_data a = None" if "a \<in> set (attributes inst)" "attr_number a = 0" for a
  proof (rule ccontr)
    assume "attr_data a \<noteq> None"
    with that(1) have "a \<in> used_attributes inst" by (simp add: used_attributes_def)
    then show False using that(2) assms(1) calculation(2) by simp
  qed
  ultimately show ?thesis
    using assms unfolding tidy_slots_def by metis
qed

text \<open>A class before its attributes are inserted, with instances and masks allocated.\<close>

lemma created_under_construction:
  assumes "0 \<le> nca" and "nca + 7 \<le> 65535"
    and "c0 = blank_class code nca hca ncs nia hia nis name r"
    and "meta_class c = AllocateAttributeMasks (meta_class c0)" and "class_inst c = class_inst c0"
  shows "under_construction c {} (nat nca + 7) c"
proof -
  let ?mc = "meta_class c0"
  have ci: "class_inst c = \<lparr>inst_number = 0, attributes = replicate (unat (number_of_attributes ?mc)) empty_attribute\<rparr>"
    using assms(3,5) by (simp add: blank_class_def Let_def)
  have n: "unat (number_of_attributes ?mc) = nat nca + 7"
    using number_of_class_attributes [OF assms(1,2)] assms(3) by (simp add: blank_class_def Let_def)
  have "masks_ok (meta_class c) (class_inst c)"
    using masks_ok_empty [of ?mc 0] by (simp only: assms(4) ci)
  moreover have "used_attributes (class_inst c) = {}" "free_slots (class_inst c) = nat nca + 7"
    unfolding ci n by (auto simp: used_attributes_def free_slots_def empty_attribute_def)
  ultimately show ?thesis
    using ci by (simp add: under_construction_def empty_attribute_def)
qed

lemma default_class_services:
  assumes "number_of_services (meta_class c) = of_int ncs"
    and "services (meta_class c) = replicate (nat ncs) empty_service" and "1 \<le> ncs" and "ncs \<le> 65535"
  obtains c' where "Option.bind (if ncs > 1
        then insert_class_service kGetAttributeAll SvcGetAttributeAll ''GetAttributeAll'' c else Some c)
      (insert_class_service kGetAttributeSingle SvcGetAttributeSingle ''GetAttributeSingle'') = Some c'"
    "c' = c\<lparr>meta_class := meta_class c'\<rparr>"
    "masks_ok (meta_class c') (class_inst c) \<longleftrightarrow> masks_ok (meta_class c) (class_inst c)"
    "PreGetCallback (meta_class c') = PreGetCallback (meta_class c)"
    "PostGetCallback (meta_class c') = PostGetCallback (meta_class c)"
    "GetCipService (meta_class c') kGetAttributeSingle = Some \<lparr>service_number = kGetAttributeSingle,
       service_function = Some SvcGetAttributeSingle, service_name = ''GetAttributeSingle''\<rparr>"
proof -
  have u: "unat (of_int ncs :: 16 word) = nat ncs"
    using assms(3,4) by (simp add: unsigned_of_int take_bit_int_eq_self)
  obtain d i where d: "(if ncs > 1
        then insert_class_service kGetAttributeAll SvcGetAttributeAll ''GetAttributeAll'' c else Some c) = Some d"
      "d = c\<lparr>meta_class := meta_class d\<rparr>"
      "masks_ok (meta_class d) (class_inst c) \<longleftrightarrow> masks_ok (meta_class c) (class_inst c)"
      "PreGetCallback (meta_class d) = PreGetCallback (meta_class c)"
      "PostGetCallback (meta_class d) = PostGetCallback (meta_class c)"
      "service_function (services (meta_class d) ! i) = None"
      "i < unat (number_of_services (meta_class d))" "i < length (services (meta_class d))"
  proof (cases "ncs > 1")
    case True
    then obtain k where k: "nat ncs = Suc (Suc k)"
      by (metis Suc_diff_Suc nat_less_eq_zless nat_one_as_int less_imp_Suc_add add_Suc_right add_Suc One_nat_def
        plus_nat.add_0 nat_1 zero_le_one)
    have "service_function (services (meta_class c) ! 0) = None" "0 < unat (number_of_services (meta_class c))"
        "0 < length (services (meta_class c))"
      using assms(1,2) u k by (simp_all add: empty_service_def)
    from insert_class_service_step [OF this, of kGetAttributeAll SvcGetAttributeAll "''GetAttributeAll''" "class_inst c"]
    obtain d where "insert_class_service kGetAttributeAll SvcGetAttributeAll ''GetAttributeAll'' c = Some d"
        "d = c\<lparr>meta_class := meta_class d\<rparr>"
        "masks_ok (meta_class d) (class_inst c) \<longleftrightarrow> masks_ok (meta_class c) (class_inst c)"
        "number_of_services (meta_class d) = number_of_services (meta_class c)"
        "PreGetCallback (meta_class d) = PreGetCallback (meta_class c)"
        "PostGetCallback (meta_class d) = PostGetCallback (meta_class c)"
        "Some (services (meta_class d)) = insert_service_slot (unat (number_of_services (meta_class c)))
           \<lparr>service_number = kGetAttributeAll, service_function = Some SvcGetAttributeAll,
             service_name = ''GetAttributeAll''\<rparr> (services (meta_class c))"
      by blast
    then show thesis using True assms(1,2) u k by (intro that [of d 1]) (simp_all add: empty_service_def)
  next
    case False
    then show thesis using assms u by (intro that [of c 0]) (simp_all add: empty_service_def)
  qed
  obtain c' where c': "insert_class_service kGetAttributeSingle SvcGetAttributeSingle ''GetAttributeSingle'' d = Some c'"
      "c' = d\<lparr>meta_class := meta_class c'\<rparr>"
      "masks_ok (meta_class c') (class_inst c) \<longleftrightarrow> masks_ok (meta_class d) (class_inst c)"
      "PreGetCallback (meta_class c') = PreGetCallback (meta_class d)"
      "PostGetCallback (meta_class c') = PostGetCallback (meta_class d)"
      "GetCipService (meta_class c') kGetAttributeSingle = Some \<lparr>service_number = kGetAttributeSingle,
         service_function = Some SvcGetAttributeSingle, service_name = ''GetAttributeSingle''\<rparr>"
    using insert_class_service_step [OF d(6-8), of kGetAttributeSingle SvcGetAttributeSingle
        "''GetAttributeSingle''" "class_inst c"] by blast
  moreover have "c' = c\<lparr>meta_class := meta_class c'\<rparr>"
    by (subst c'(2), subst d(2)) simp
  ultimately show thesis using d by (intro that) simp_all
qed

text \<open>The class after its instances were added and its masks allocated.\<close>

lemma created_class:
  assumes "0 \<le> nca" and "nca + 7 \<le> 65535" and "c0 = blank_class code nca hca ncs nia hia nis name r"
  obtains c1 c2 where "(if n > 0 then map_option fst (AddCipInstances c0 n) else Some c0) = Some c1"
    "c2 = c1\<lparr>meta_class := AllocateAttributeMasks (meta_class c1), core := AllocateAttributeMasks (core c1)\<rparr>"
    "wf_class c2" "length (instances c2) = unat n" "class_code c2 = code" "revision c2 = r"
    "meta_class c2 = AllocateAttributeMasks (meta_class c0)" "under_construction c2 {} (nat nca + 7) c2"
proof -
  have wf0: "wf_class c0" using assms(3) by (simp add: blank_class_wf)
  obtain c1 where c1: "(if n > 0 then map_option fst (AddCipInstances c0 n) else Some c0) = Some c1"
      "wf_class c1" "length (instances c1) = unat n" "meta_class c1 = meta_class c0"
      "class_inst c1 = class_inst c0" "class_code c1 = code" "revision c1 = r"
  proof (cases "n > 0")
    case True
    have "length (instances c0) + unat n \<le> 65535"
      using unat_uint16_less [of n] assms(3) by simp
    then obtain c1 new where "AddCipInstances c0 n = Some (c1, case new of [] \<Rightarrow> None | i # _ \<Rightarrow> Some (inst_number i))"
        "wf_class c1" "instances c1 = instances c0 @ new" "length new = unat n"
      using add_instances_ok [OF wf0, of n] by blast
    then show thesis
      using True AddCipInstances_frame [of c0 n] assms(3) by (intro that [of c1]) auto
  next
    case False
    then have "n = 0" by (simp add: word_gt_0)
    then show thesis using wf0 assms(3) by (intro that [of c0]) simp_all
  qed
  let ?c2 = "c1\<lparr>meta_class := AllocateAttributeMasks (meta_class c1), core := AllocateAttributeMasks (core c1)\<rparr>"
  have "under_construction ?c2 {} (nat nca + 7) ?c2"
    by (rule created_under_construction [OF assms]) (simp_all add: c1(4,5))
  with c1 wf_class_masks [OF c1(2)] show thesis by (intro that [of c1 ?c2]) simp_all
qed

lemma CreateCipClass_std:
  assumes "GetCipClass objects code = None" and "name \<noteq> []"
    and "0 \<le> nca" and "nca + 7 \<le> 65535" and "7 \<le> (ucast hca :: 16 word)"
    and "1 \<le> ncs" and "ncs \<le> 65535"
  obtains c where "CreateCipClass objects code nca hca ncs nia hia nis n name r None = Some (c, objects @ [c])"
    "wf_class c" "length (instances c) = unat n" "class_code c = code" "revision c = r" "std_class c"
proof -
  obtain c0 :: "'a std_service cip_class" where c0: "c0 = blank_class code nca hca ncs nia hia nis name r" by simp
  obtain c1 c2 where c1: "(if n > 0 then map_option fst (AddCipInstances c0 n) else Some c0) = Some c1"
      and c2: "c2 = c1\<lparr>meta_class := AllocateAttributeMasks (meta_class c1), core := AllocateAttributeMasks (core c1)\<rparr>"
      "wf_class c2" "length (instances c2) = unat n" "class_code c2 = code" "revision c2 = r"
      "meta_class c2 = AllocateAttributeMasks (meta_class c0)" "under_construction c2 {} (nat nca + 7) c2"
    by (rule created_class [OF assms(3,4) c0])
  have "7 \<le> highest_attribute_number (meta_class c2)"
    using assms(5) by (simp add: c2(6) c0 blank_class_def Let_def AllocateAttributeMasks_def)
  then obtain c3 where c3: "default_class_init ncs c2 =
      (if ncs > 0 then Option.bind (if ncs > 1
          then insert_class_service kGetAttributeAll SvcGetAttributeAll ''GetAttributeAll'' c3 else Some c3)
        (insert_class_service kGetAttributeSingle SvcGetAttributeSingle ''GetAttributeSingle'') else Some c3)"
      "under_construction c2 (std_attribute ` set std_attributes) (nat nca) c3"
    by (rule default_class_attributes [OF c2(7)])
  have no_get: "PreGetCallback (meta_class c2) = None" "PostGetCallback (meta_class c2) = None"
    by (simp_all add: c2(6) c0 blank_class_def Let_def AllocateAttributeMasks_def empty_core_def)
  have ns: "number_of_services (meta_class c3) = of_int ncs"
      "services (meta_class c3) = replicate (nat ncs) empty_service"
    using c3(2) assms(6,7)
    by (simp_all add: under_construction_def c2(6) c0 blank_class_def Let_def AllocateAttributeMasks_def
      unsigned_of_int take_bit_int_eq_self)
  obtain c where c: "default_class_init ncs c2 = Some c" "c = c3\<lparr>meta_class := meta_class c\<rparr>"
      "masks_ok (meta_class c) (class_inst c3) \<longleftrightarrow> masks_ok (meta_class c3) (class_inst c3)"
      "PreGetCallback (meta_class c) = PreGetCallback (meta_class c3)"
      "PostGetCallback (meta_class c) = PostGetCallback (meta_class c3)"
      "GetCipService (meta_class c) kGetAttributeSingle = Some \<lparr>service_number = kGetAttributeSingle,
         service_function = Some SvcGetAttributeSingle, service_name = ''GetAttributeSingle''\<rparr>"
    by (rule default_class_services [OF ns assms(6,7)]) (use c3(1) assms(6) in simp)
  have ci: "class_inst c = class_inst c3" by (subst c(2)) simp
  have "c3 = c2\<lparr>meta_class := meta_class c3, class_inst := class_inst c3\<rparr>"
    using c3(2) by (simp add: under_construction_def)
  from arg_cong [OF this, of "\<lambda>x. x\<lparr>meta_class := meta_class c\<rparr>"]
  have eq: "c = c2\<lparr>class_inst := class_inst c3, meta_class := meta_class c\<rparr>"
    using c(2) by simp
  have create: "CreateCipClass objects code nca hca ncs nia hia nis n name r None = Some (c, objects @ [c])"
    using assms(1,2) c1 c(1) by (simp add: CreateCipClass_def c0 [symmetric] c2(1) Let_def RegisterCipClass_def)
  moreover have "wf_class c" by (rule wf_class_cong [OF c2(2) eq])
  moreover have "std_class c"
    using c3(2) c(3-6) ci no_get std_attributes_tidy [of "class_inst c3"]
    by (simp add: std_class_def under_construction_def)
  moreover have "length (instances c) = unat n" "class_code c = code" "revision c = r"
    using c2(3-5) by (subst eq, simp)+
  ultimately show thesis by (intro that)
qed

subsection \<open>Requests\<close>

lemma unat_of_nat_64: "n < 2 ^ 64 \<Longrightarrow> unat (of_nat n :: 64 word) = n"
  by (simp add: unsigned_of_nat take_bit_nat_eq_self)

lemma unat_minus_64:
  assumes "(x :: 64 word) \<noteq> 0"
  shows "unat (- x) = 2 ^ 64 - unat x"
proof -
  have "unat x \<noteq> 0" using assms by (metis unat_0 unsigned_word_eqI)
  moreover have "(unat x + unat (- x)) mod 2 ^ 64 = 0"
    using unat_word_ariths(1) [of x "- x"] by simp
  moreover have "unat x < 2 ^ 64" "unat (- x) < 2 ^ 64"
    using unsigned_less [of x] unsigned_less [of "- x"] by simp_all
  moreover obtain k where k: "unat x + unat (- x) = 2 ^ 64 * k"
    using calculation(2) by (auto simp: mod_eq_0_iff_dvd elim!: dvdE)
  ultimately have "0 < k" "k < 2" by (auto intro: gr0I)
  then have "k = 1" by simp
  then show ?thesis using k by simp
qed

lemma request_length_scast:
  assumes "len < 32768"
  shows "(scast (of_nat (Suc len) - 1 :: 16 word) :: 64 word) = of_nat len"
proof -
  have u: "unat (of_nat len :: 16 word) = len" by (rule unat_of_nat_16) (use assms in simp)
  have "sint (of_nat len :: 16 word) = int len"
    unfolding sint_cases u using assms by simp
  moreover have "(scast (of_nat len :: 16 word) :: 64 word) = of_int (sint (of_nat len :: 16 word))"
    by simp
  ultimately have "(scast (of_nat len :: 16 word) :: 64 word) = of_nat len" by simp
  then show ?thesis by simp
qed

definition segments_path :: "path_segment list \<Rightarrow> cip_epath \<Rightarrow> cip_epath" where
  "segments_path segs e = fold apply_segment segs (e\<lparr>path_size := of_nat (sum_list (map segment_words segs)),
     class_id := 0, instance_number := 0, attribute_number := 0\<rparr>)"

lemma DecodePaddedEPath_segments:
  assumes "sum_list (map segment_words segs) \<le> 255"
  shows "DecodePaddedEPath e (of_nat (sum_list (map segment_words segs)) # concat (map segment_octets segs) @ rest) =
    Some (kEipStatusOk, segments_path segs e, rest, Some (2 * sum_list (map segment_words segs) + 1))"
proof -
  let ?w = "sum_list (map segment_words segs)"
  have "unat (of_nat ?w :: octet) = ?w"
    using assms by (simp add: unsigned_of_nat take_bit_nat_eq_self)
  then show ?thesis
    using decode_path_loop_segments [of 0 segs "e\<lparr>path_size := of_nat ?w, class_id := 0, instance_number := 0,
        attribute_number := 0\<rparr>" rest]
    by (simp add: DecodePaddedEPath_def segments_path_def)
qed

lemma request_structure:
  assumes "w = sum_list (map segment_words segs)" and "w \<le> 255" and "1 \<le> len" and "len \<le> 32768"
  shows "CreateMessageRouterRequestStructure (svc # of_nat w # concat (map segment_octets segs) @ rest) (of_nat len) req =
    (if 2 + 2 * w \<le> len
     then Some (kCipErrorSuccess, req\<lparr>req_service := svc, request_path := segments_path segs (request_path req),
        req_data := rest, request_data_size := of_nat (len - (2 + 2 * w))\<rparr>)
     else Some (kCipErrorPathSizeInvalid, req\<lparr>req_service := svc, request_path := segments_path segs (request_path req)\<rparr>))"
proof -
  obtain l where l: "len = Suc l" using assms(3) by (cases len) auto
  then have sc: "(scast (of_nat len - 1 :: 16 word) :: 64 word) = of_nat l"
    using request_length_scast [of l] assms(4) by simp
  have lt: "of_nat (2 * w + 1) > (of_nat l :: 64 word) \<longleftrightarrow> \<not> 2 + 2 * w \<le> len"
    using assms(2,4) l unat_of_nat_64 [of "2 * w + 1"] unat_of_nat_64 [of l]
    by (auto simp: word_less_nat_alt simp del: of_nat_Suc of_nat_add of_nat_mult)
  have "(of_nat l :: 64 word) - of_nat (2 * w + 1) = of_nat (len - (2 + 2 * w))" if "2 + 2 * w \<le> len"
  proof -
    have "(of_nat l :: 64 word) - of_nat (2 * w + 1) = of_nat (l - (2 * w + 1))"
      by (rule of_nat_diff [symmetric]) (use that l in simp)
    then show ?thesis by (simp add: l del: of_nat_Suc of_nat_add of_nat_mult)
  qed
  then show ?thesis
    using DecodePaddedEPath_segments [of segs "request_path req" rest] assms(1,2) sc lt
    by (simp add: CreateMessageRouterRequestStructure_def Let_def del: of_nat_Suc of_nat_add)
qed

text \<open>
  C2: the message router takes a request apart the way it was put together. For a message
  of 1 to 32767 octets with a service, a path and data, the request structure has the service,
  the path the segments describe and exactly the octets behind the path as data, or the
  request is refused as "path size invalid" if and only if the path reaches behind the message.
\<close>

theorem CreateMessageRouterRequestStructure_exact:
  assumes "w = sum_list (map segment_words segs)" and "w \<le> 255" and "1 \<le> len" and "len \<le> 32767"
  shows "CreateMessageRouterRequestStructure (svc # of_nat w # concat (map segment_octets segs) @ rest) (of_nat len) req =
    (if 2 + 2 * w \<le> len
     then Some (kCipErrorSuccess, req\<lparr>req_service := svc, request_path := segments_path segs (request_path req),
        req_data := rest, request_data_size := of_nat (len - (2 + 2 * w))\<rparr>)
     else Some (kCipErrorPathSizeInvalid, req\<lparr>req_service := svc, request_path := segments_path segs (request_path req)\<rparr>))"
  by (rule request_structure) (use assms in simp_all)

definition empty_request :: mr_request where
  "empty_request = \<lparr>req_service = 0, request_path = \<lparr>path_size = 0, class_id = 0, instance_number = 0,
     attribute_number = 0\<rparr>, request_data_size = 0, req_data = []\<rparr>"

lemma CreateMessageRouterRequestStructure_exact_witness:
  "CreateMessageRouterRequestStructure [0x10, 2, 0x20, 1, 0x24, 1, 0xAA, 0xBB] 8 empty_request =
     Some (kCipErrorSuccess, empty_request\<lparr>req_service := 0x10, request_path :=
       segments_path [ClassSeg 1, InstanceSeg 1] (request_path empty_request),
       req_data := [0xAA, 0xBB], request_data_size := 2\<rparr>)"
  using CreateMessageRouterRequestStructure_exact [where w = 2 and segs = "[ClassSeg 1, InstanceSeg 1]" and len = 8
      and svc = "0x10" and rest = "[0xAA, 0xBB]" and req = empty_request]
  by simp

text \<open>
  a message of length 0 is accepted. The length is decremented below zero and compared
  as an unsigned number, so that whatever octets lie in memory are taken as a service and a
  path, and the size of the request's data becomes almost \<open>2 ^ 64\<close>.
\<close>

theorem zero_length_request_accepted:
  assumes "w = sum_list (map segment_words segs)" and "w \<le> 255"
  shows "\<exists>req'. CreateMessageRouterRequestStructure (svc # of_nat w # concat (map segment_octets segs) @ rest) 0 req =
      Some (kCipErrorSuccess, req') \<and> unat (request_data_size req') = 2 ^ 64 - (2 + 2 * w)"
proof -
  have sc: "(scast (0 - 1 :: 16 word) :: 64 word) = - 1" by simp
  have lt: "\<not> of_nat (2 * w + 1) > (- 1 :: 64 word)" by simp
  have "(- 1 :: 64 word) - of_nat (2 * w + 1) = - of_nat (2 * w + 2)" by simp
  moreover have "unat (- of_nat (2 * w + 2) :: 64 word) = 2 ^ 64 - (2 + 2 * w)"
  proof -
    have u: "unat (of_nat (2 * w + 2) :: 64 word) = 2 * w + 2"
      by (rule unat_of_nat_64) (use assms(2) in simp)
    then have "(of_nat (2 * w + 2) :: 64 word) \<noteq> 0" by (metis add_2_eq_Suc' nat.distinct(1) unat_0)
    from unat_minus_64 [OF this] show ?thesis using u by (simp del: of_nat_Suc of_nat_add of_nat_mult)
  qed
  ultimately show ?thesis
    using DecodePaddedEPath_segments [of segs "request_path req" rest] assms sc lt
    by (simp add: CreateMessageRouterRequestStructure_def Let_def del: of_nat_Suc of_nat_add)
qed

lemma zero_length_request_accepted_witness:
  "\<exists>req'. CreateMessageRouterRequestStructure [0x0E, 2, 0x20, 1, 0x24, 1] 0 empty_request = Some (kCipErrorSuccess, req')
     \<and> unat (request_data_size req') = 2 ^ 64 - 6"
  using zero_length_request_accepted [where w = 2 and segs = "[ClassSeg 1, InstanceSeg 1]" and svc = "0x0E"
      and rest = "[]" and req = empty_request]
  by simp

subsection \<open>Class attributes, from the request to the reply\<close>

lemma std_class_get:
  assumes "std_class c" and "(k, ref, fl) \<in> set std_attributes" and "fl AND kGetableSingle \<noteq> 0"
    and "class_memory c store ref = V16 v"
    and "req_service req = kGetAttributeSingle" and "instance_number (request_path req) = 0"
    and "attribute_number (request_path req) = k"
  shows "\<exists>resp'. NotifyClass (call_std other) c store req resp = Some (kEipStatusOkSend, c, store, req, resp')
    \<and> general_status resp' = kCipErrorSuccess \<and> msg_content (message resp') = le_octets 2 v"
proof -
  let ?a = "std_attribute (k, ref, fl)"
  have c: "masks_ok (meta_class c) (class_inst c)" "tidy_slots (class_inst c)" "inst_number (class_inst c) = 0"
      "used_attributes (class_inst c) = std_attribute ` set std_attributes"
      "GetCipService (meta_class c) kGetAttributeSingle = Some \<lparr>service_number = kGetAttributeSingle,
          service_function = Some SvcGetAttributeSingle, service_name = ''GetAttributeSingle''\<rparr>"
      "PreGetCallback (meta_class c) = None" "PostGetCallback (meta_class c) = None"
    using assms(1) by (simp_all add: std_class_def)
  have a: "GetCipAttribute (meta_class c) (class_inst c) k = Some ?a"
    using lookup_used_attribute [OF c(1,2), of ?a] assms(2) c(4) by simp
  have bit: "mask_test (get_single_bit_mask (meta_class c)) k = Some True"
    using mask_flag [OF c(1) _ a _ masks_ok_exact(1) [OF c(1)], of ref] c(2) assms(3)
    by (simp add: tidy_slots_def)
  obtain m' where "EncodeCipUint (V16 v) (InitializeENIPMessage (message resp)) = Some m'" "msg_content m' = le_octets 2 v"
    using cip_uint.encode_init [of "V16 v" "message resp"] by auto
  then have "GetAttributeSingle (meta_class c) (class_inst c) (class_memory c store) req resp =
      Some (kEipStatusOkSend, class_memory c store, req,
        (GenerateGetAttributeSingleHeader req resp)\<lparr>message := m', general_status := kCipErrorSuccess\<rparr>)"
    using a bit assms(4,7) c(6,7)
    by (simp add: GetAttributeSingle_def encode_attribute_def Let_def)
  then show ?thesis
    using c(3,5) assms(5,6) \<open>msg_content m' = le_octets 2 v\<close>
    by (simp add: NotifyClass_def GetCipInstance_def core_of_def call_std_def Let_def class_memory_def)
qed

text \<open>
  C3: a class created with the standard class attributes can be read through the message
  router right away. A request for attribute 1, 2 or 3 of instance 0, with any encoding of its
  path, is answered with the revision, the largest instance number and the number of instances
  of the class; the request changes neither the registry nor the application's objects.
\<close>

theorem class_attribute_request:
  assumes "GetCipClass objects (ucast cc) = None" and "name \<noteq> []"
    and "0 \<le> nca" and "nca + 7 \<le> 65535" and "7 \<le> (ucast hca :: 16 word)"
    and "1 \<le> ncs" and "ncs \<le> 65535"
    and "w = sum_list (map segment_words segs)" and "w \<le> 255"
    and "class_id (segments_path segs (request_path req)) = cc"
    and "instance_number (segments_path segs (request_path req)) = 0"
    and "attribute_number (segments_path segs (request_path req)) = k" and "k \<in> {1, 2, 3}"
  shows "\<exists>c objects' req' resp'.
    CreateCipClass objects (ucast cc) nca hca ncs nia hia nis n name r None = Some (c, objects')
    \<and> NotifyMessageRouter (call_std other) (kGetAttributeSingle # of_nat w # concat (map segment_octets segs))
         (int (2 + 2 * w)) objects' req store resp = Some (kEipStatusOkSend, objects', req', store, resp')
    \<and> general_status resp' = kCipErrorSuccess
    \<and> msg_content (message resp') = le_octets 2 (if k = 1 then r
        else if k = 2 then Max (insert 0 (inst_numbers (instances c))) else n)"
proof -
  obtain c where create: "CreateCipClass objects (ucast cc) nca hca ncs nia hia nis n name r None = Some (c, objects @ [c])"
      and c: "wf_class c" "length (instances c) = unat n" "class_code c = ucast cc" "revision c = r" "std_class c"
    by (rule CreateCipClass_std [OF assms(1-7)])
  let ?req = "req\<lparr>req_service := kGetAttributeSingle, request_path := segments_path segs (request_path req),
    req_data := [], request_data_size := 0\<rparr>"
  let ?v = "if k = 1 then r else if k = 2 then Max (insert 0 (inst_numbers (instances c))) else n"
  have fields: "max_instance c = Max (insert 0 (inst_numbers (instances c)))" "number_of_instances c = n"
    using c(1,2) by (simp_all add: wf_class_def wf_instances_def GetMaxInstanceNumber_Max)
  let ?ref = "if k = 1 then RevisionField else if k = 2 then MaxInstanceField else NumberOfInstancesField"
  have "(k, ?ref, kGetableSingleAndAll) \<in> set std_attributes"
    using assms(13) by (auto simp: std_attributes_def)
  moreover have "class_memory c store ?ref = V16 ?v"
    using assms(13) c(4) fields by (auto simp: class_memory_def)
  ultimately obtain resp' where resp': "NotifyClass (call_std other) c store ?req (resp\<lparr>reserved := 0\<rparr>) =
      Some (kEipStatusOkSend, c, store, ?req, resp')" "general_status resp' = kCipErrorSuccess"
      "msg_content (message resp') = le_octets 2 ?v"
    using std_class_get [OF c(5), of k ?ref kGetableSingleAndAll store ?v ?req other "resp\<lparr>reserved := 0\<rparr>"]
      assms(11,12) by auto
  have "CreateMessageRouterRequestStructure (kGetAttributeSingle # of_nat w # concat (map segment_octets segs))
      (of_nat (2 + 2 * w)) req = Some (kCipErrorSuccess, ?req)"
    using request_structure [OF assms(8,9), of "2 + 2 * w" kGetAttributeSingle "[]" req] assms(9) by simp
  moreover have "GetRegisteredObject (objects @ [c]) (ucast cc) = Some c"
    using GetCipClass_register [of c objects "ucast cc"] assms(1) c(3)
    by (simp add: RegisterCipClass_def GetCipClass_eq)
  ultimately have "NotifyMessageRouter (call_std other) (kGetAttributeSingle # of_nat w # concat (map segment_octets segs))
         (int (2 + 2 * w)) (objects @ [c]) req store resp = Some (kEipStatusOkSend, objects @ [c], ?req, store, resp')"
    using resp'(1) assms(10) c(3) store_class_same [of "objects @ [c]" "ucast cc" c]
    by (simp add: NotifyMessageRouter_def Let_def)
  with create resp'(2,3) show ?thesis by blast
qed

lemma class_attribute_request_witness:
  "\<exists>c objects' req' resp'.
    CreateCipClass [] 0x64 0 7 1 0 0 0 2 ''demo'' 5 None = Some (c, objects')
    \<and> NotifyMessageRouter (call_std (\<lambda>(u :: unit) _ _ _ _ _. None)) [0x0E, 3, 0x20, 0x64, 0x24, 0, 0x30, 1]
         8 objects' empty_request (\<lambda>_. V8 0) service_response = Some (kEipStatusOkSend, objects', req', (\<lambda>_. V8 0), resp')
    \<and> general_status resp' = kCipErrorSuccess \<and> msg_content (message resp') = [5, 0]"
proof -
  have "le_octets 2 (5 :: 16 word) = [5, 0]" by (simp add: le_octets_2)
  then show ?thesis
    using class_attribute_request [where objects = "[]" and cc = "0x64" and name = "''demo''" and nca = 0 and hca = 7
        and ncs = 1 and w = 3 and segs = "[ClassSeg 0x64, InstanceSeg 0, AttributeSeg 1]" and req = empty_request
        and k = 1 and nia = 0 and hia = 0 and nis = 0 and n = 2 and r = 5
        and other = "\<lambda>(u :: unit) _ _ _ _ _. None" and store = "\<lambda>_. V8 0" and resp = service_response]
    by (simp add: GetCipClass_eq GetRegisteredObject_def segments_path_def)
qed

end
