(* ===== verification/ConnectionObject.thy ===== *)
theory ConnectionObject
  imports MessageRouter
begin

text \<open>
  Connection objects (\<^verbatim>\<open>cip/cipconnectionobject.c\<close>): their record, the reading of a forward
  open request, the interpretation of the packed parameters, and the timers.

  A connection object is a record with the fields of \<^verbatim>\<open>struct cip_connection_object\<close>;
  function pointers are values of the type variable \<open>'fn\<close>. The setters and getters that
  only name a field are the record's updates and selectors. The instances of the connected
  assemblies are named by their numbers; the encoded paths of the attributes 13 to 16, which
  nothing reads, and the freed key data are left out. The random connection
  number and the connection identifiers the target chooses are arguments.
\<close>

subsection \<open>Data\<close>

datatype ConnectionObjectState =
    kConnectionObjectStateNonExistent | kConnectionObjectStateConfiguring
  | kConnectionObjectStateWaitingForConnectionID | kConnectionObjectStateEstablished
  | kConnectionObjectStateTimedOut | kConnectionObjectStateDeferredDelete
  | kConnectionObjectStateClosing | kConnectionObjectStateInvalid

datatype ProductionTrigger =
  ProductionTriggerInvalid | ProductionTriggerCyclic | ProductionTriggerChangeOfState
| ProductionTriggerApplicationObject

datatype TransportClass =
  TransportClassInvalid | TransportClass0 | TransportClass1 | TransportClass2 | TransportClass3

datatype TriggerDirection = TriggerDirectionClient | TriggerDirectionServer

datatype ConnectionType =
  ConnectionTypeNull | ConnectionTypeMulticast | ConnectionTypePointToPoint | ConnectionTypeInvalid

datatype ConnectionPriority = PriorityLow | PriorityHigh | PriorityScheduled | PriorityUrgent

datatype ConnectionSizeType = ConnectionSizeTypeFixed | ConnectionSizeTypeVariable

abbreviation (input) kInstanceTypeInvalid :: octet where "kInstanceTypeInvalid \<equiv> 255"
abbreviation (input) kInstanceTypeExplicitMessaging :: octet where "kInstanceTypeExplicitMessaging \<equiv> 0"
abbreviation (input) kInstanceTypeIO :: octet where "kInstanceTypeIO \<equiv> 1"
abbreviation (input) kInstanceTypeIOExclusiveOwner :: octet where "kInstanceTypeIOExclusiveOwner \<equiv> 2"
abbreviation (input) kInstanceTypeIOInputOnly :: octet where "kInstanceTypeIOInputOnly \<equiv> 3"
abbreviation (input) kInstanceTypeIOListenOnly :: octet where "kInstanceTypeIOListenOnly \<equiv> 4"
abbreviation (input) kInstanceTypeCipBridged :: octet where "kInstanceTypeCipBridged \<equiv> 5"

record connection_path_epath =
  cp_class_id :: CipDword
  cp_instance_id :: CipInstanceNum
  cp_connection_point :: CipDword

record sockaddr_in =
  sin_port :: "16 word"
  sin_addr :: "32 word"

record 'fn connection_object =
  co_state :: CipUsint
  instance_type :: CipUsint
  transport_class_trigger :: CipByte
  produced_connection_size :: CipUint
  consumed_connection_size :: CipUint
  expected_packet_rate :: CipUint
  cip_produced_connection_id :: CipUdint
  cip_consumed_connection_id :: CipUdint
  watchdog_timeout_action :: CipUsint
  produced_path :: connection_path_epath
  consumed_path :: connection_path_epath
  configuration_path :: connection_path_epath
  electronic_key_format :: CipUsint
  producing_instance :: "CipInstanceNum option"
  consuming_instance :: "CipInstanceNum option"
  production_inhibit_time :: CipUint
  connection_timeout_multiplier :: CipUsint
  requested_produced_connection_size :: CipUint
  requested_consumed_connection_size :: CipUint
  transmission_trigger_timer :: "64 word"
  inactivity_watchdog_timer :: "64 word"
  last_package_watchdog_timer :: "64 word"
  production_inhibit_timer :: "64 word"
  connection_serial_number :: CipUint
  originator_vendor_id :: CipUint
  originator_serial_number :: CipUdint
  connection_number :: CipUint
  o_to_t_requested_packet_interval :: CipUdint
  o_to_t_network_connection_parameters :: CipDword
  t_to_o_requested_packet_interval :: CipUdint
  t_to_o_network_connection_parameters :: CipDword
  sequence_count_producing :: CipUint
  sequence_count_consuming :: CipUint
  eip_level_sequence_count_producing :: "32 word"
  eip_level_sequence_count_consuming :: "32 word"
  eip_first_level_sequence_count_received :: bool
  correct_originator_to_target_size :: CipInt
  correct_target_to_originator_size :: CipInt
  socket_consuming :: int
  socket_producing :: int
  remote_address :: sockaddr_in
  originator_address :: sockaddr_in
  associated_encapsulation_session :: CipUdint
  connection_close_function :: "'fn option"
  connection_timeout_function :: "'fn option"
  connection_send_data_function :: "'fn option"
  connection_receive_data_function :: "'fn option"
  last_reply_sent :: enip_message
  is_large_forward_open :: bool

definition zero_path :: connection_path_epath where
  "zero_path = \<lparr>cp_class_id = 0, cp_instance_id = 0, cp_connection_point = 0\<rparr>"

definition zero_address :: sockaddr_in where
  "zero_address = \<lparr>sin_port = 0, sin_addr = 0\<rparr>"

text \<open>\<^verbatim>\<open>ConnectionObjectInitializeEmpty\<close>: all zero, both sockets invalid, state non-existent.\<close>

definition ConnectionObjectInitializeEmpty :: "'fn connection_object" where
  "ConnectionObjectInitializeEmpty = \<lparr>
     co_state = 0, instance_type = 0, transport_class_trigger = 0, produced_connection_size = 0,
     consumed_connection_size = 0, expected_packet_rate = 0, cip_produced_connection_id = 0,
     cip_consumed_connection_id = 0, watchdog_timeout_action = 0, produced_path = zero_path,
     consumed_path = zero_path, configuration_path = zero_path,
     electronic_key_format = 0, producing_instance = None, consuming_instance = None, production_inhibit_time = 0,
     connection_timeout_multiplier = 0, requested_produced_connection_size = 0,
     requested_consumed_connection_size = 0, transmission_trigger_timer = 0,
     inactivity_watchdog_timer = 0, last_package_watchdog_timer = 0, production_inhibit_timer = 0,
     connection_serial_number = 0, originator_vendor_id = 0, originator_serial_number = 0,
     connection_number = 0, o_to_t_requested_packet_interval = 0,
     o_to_t_network_connection_parameters = 0, t_to_o_requested_packet_interval = 0,
     t_to_o_network_connection_parameters = 0, sequence_count_producing = 0,
     sequence_count_consuming = 0, eip_level_sequence_count_producing = 0,
     eip_level_sequence_count_consuming = 0, eip_first_level_sequence_count_received = False,
     correct_originator_to_target_size = 0, correct_target_to_originator_size = 0,
     socket_consuming = kEipInvalidSocket, socket_producing = kEipInvalidSocket,
     remote_address = zero_address, originator_address = zero_address,
     associated_encapsulation_session = 0, connection_close_function = None,
     connection_timeout_function = None, connection_send_data_function = None,
     connection_receive_data_function = None,
     last_reply_sent = \<lparr>message_buffer = replicate PC_OPENER_ETHERNET_BUFFER_SIZE 0,
       current_message_position = 0, used_message_length = 0\<rparr>,
     is_large_forward_open = False\<rparr>"

subsection \<open>State and types\<close>

definition ConnectionObjectGetState :: "'fn connection_object \<Rightarrow> ConnectionObjectState" where
  "ConnectionObjectGetState c =
     (if co_state c = 0 then kConnectionObjectStateNonExistent
      else if co_state c = 1 then kConnectionObjectStateConfiguring
      else if co_state c = 2 then kConnectionObjectStateWaitingForConnectionID
      else if co_state c = 3 then kConnectionObjectStateEstablished
      else if co_state c = 4 then kConnectionObjectStateTimedOut
      else if co_state c = 5 then kConnectionObjectStateDeferredDelete
      else if co_state c = 6 then kConnectionObjectStateClosing
      else kConnectionObjectStateInvalid)"

text \<open>Setting the invalid state runs into an assertion.\<close>

fun ConnectionObjectSetState ::
    "'fn connection_object \<Rightarrow> ConnectionObjectState \<Rightarrow> 'fn connection_object option" where
  "ConnectionObjectSetState c kConnectionObjectStateNonExistent = Some (c\<lparr>co_state := 0\<rparr>)"
| "ConnectionObjectSetState c kConnectionObjectStateConfiguring = Some (c\<lparr>co_state := 1\<rparr>)"
| "ConnectionObjectSetState c kConnectionObjectStateWaitingForConnectionID = Some (c\<lparr>co_state := 2\<rparr>)"
| "ConnectionObjectSetState c kConnectionObjectStateEstablished = Some (c\<lparr>co_state := 3\<rparr>)"
| "ConnectionObjectSetState c kConnectionObjectStateTimedOut = Some (c\<lparr>co_state := 4\<rparr>)"
| "ConnectionObjectSetState c kConnectionObjectStateDeferredDelete = Some (c\<lparr>co_state := 5\<rparr>)"
| "ConnectionObjectSetState c kConnectionObjectStateClosing = Some (c\<lparr>co_state := 6\<rparr>)"
| "ConnectionObjectSetState c kConnectionObjectStateInvalid = None"

definition ConnectionObjectGetInstanceTypeForAttribute :: "'fn connection_object \<Rightarrow> CipUsint option" where
  "ConnectionObjectGetInstanceTypeForAttribute c =
     (if instance_type c = kInstanceTypeExplicitMessaging then Some 0
      else if instance_type c \<in> {kInstanceTypeIO, kInstanceTypeIOExclusiveOwner, kInstanceTypeIOInputOnly,
          kInstanceTypeIOListenOnly} then Some 1
      else if instance_type c = kInstanceTypeCipBridged then Some 2
      else None)"

definition ConnectionObjectIsTypeNonLOIOConnection :: "'fn connection_object \<Rightarrow> bool" where
  "ConnectionObjectIsTypeNonLOIOConnection c \<longleftrightarrow>
     instance_type c \<in> {kInstanceTypeIO, kInstanceTypeIOExclusiveOwner, kInstanceTypeIOInputOnly}"

definition ConnectionObjectIsTypeIOConnection :: "'fn connection_object \<Rightarrow> bool" where
  "ConnectionObjectIsTypeIOConnection c \<longleftrightarrow>
     instance_type c \<in> {kInstanceTypeIO, kInstanceTypeIOExclusiveOwner, kInstanceTypeIOInputOnly,
       kInstanceTypeIOListenOnly}"

subsection \<open>Packed parameters\<close>

definition ConnectionObjectGetTransportClassTriggerDirection :: "'fn connection_object \<Rightarrow> TriggerDirection" where
  "ConnectionObjectGetTransportClassTriggerDirection c =
     (if transport_class_trigger c AND 0x80 = 0x80 then TriggerDirectionServer else TriggerDirectionClient)"

definition ConnectionObjectGetTransportClassTriggerProductionTrigger ::
    "'fn connection_object \<Rightarrow> ProductionTrigger" where
  "ConnectionObjectGetTransportClassTriggerProductionTrigger c =
     (let b = transport_class_trigger c AND 0x70
      in if b = 0 then ProductionTriggerCyclic
         else if b = 0x10 then ProductionTriggerChangeOfState
         else if b = 0x20 then ProductionTriggerApplicationObject
         else ProductionTriggerInvalid)"

definition ConnectionObjectGetTransportClassTriggerTransportClass :: "'fn connection_object \<Rightarrow> TransportClass" where
  "ConnectionObjectGetTransportClassTriggerTransportClass c =
     (let b = transport_class_trigger c AND 0x0F
      in if b = 0 then TransportClass0 else if b = 1 then TransportClass1
         else if b = 2 then TransportClass2 else if b = 3 then TransportClass3
         else TransportClassInvalid)"

definition ConnectionObjectIsRedundantOwner :: "CipDword \<Rightarrow> bool \<Rightarrow> bool" where
  "ConnectionObjectIsRedundantOwner p is_lfo \<longleftrightarrow>
     (if is_lfo then p AND push_bit 31 1 \<noteq> 0 else p AND push_bit 15 1 \<noteq> 0)"

definition ConnectionObjectGetConnectionType :: "CipDword \<Rightarrow> bool \<Rightarrow> ConnectionType" where
  "ConnectionObjectGetConnectionType p is_lfo =
     (let t = (if is_lfo then drop_bit 29 (p AND push_bit 29 3) else drop_bit 13 (p AND push_bit 13 3))
      in if t = 0 then ConnectionTypeNull else if t = 1 then ConnectionTypeMulticast
         else if t = 2 then ConnectionTypePointToPoint else ConnectionTypeInvalid)"

definition ConnectionObjectGetPriority :: "CipDword \<Rightarrow> bool \<Rightarrow> ConnectionPriority option" where
  "ConnectionObjectGetPriority p is_lfo =
     (let t = (if is_lfo then drop_bit 26 (p AND push_bit 26 3) else drop_bit 10 (p AND push_bit 10 3))
      in if t = 0 then Some PriorityLow else if t = 1 then Some PriorityHigh
         else if t = 2 then Some PriorityScheduled else if t = 3 then Some PriorityUrgent
         else None)"

definition ConnectionObjectGetConnectionSizeType :: "CipDword \<Rightarrow> bool \<Rightarrow> ConnectionSizeType" where
  "ConnectionObjectGetConnectionSizeType p is_lfo =
     (if (if is_lfo then p AND push_bit 25 1 \<noteq> 0 else p AND push_bit 9 1 \<noteq> 0)
      then ConnectionSizeTypeVariable else ConnectionSizeTypeFixed)"

definition ConnectionObjectGetConnectionSize :: "CipDword \<Rightarrow> bool \<Rightarrow> size_t" where
  "ConnectionObjectGetConnectionSize p is_lfo =
     ucast (p AND (if is_lfo then 0xFFFF else 0x1FF))"

definition ConnectionObjectGetOToTConnectionType :: "'fn connection_object \<Rightarrow> ConnectionType" where
  "ConnectionObjectGetOToTConnectionType c =
     ConnectionObjectGetConnectionType (o_to_t_network_connection_parameters c) (is_large_forward_open c)"

definition ConnectionObjectGetTToOConnectionType :: "'fn connection_object \<Rightarrow> ConnectionType" where
  "ConnectionObjectGetTToOConnectionType c =
     ConnectionObjectGetConnectionType (t_to_o_network_connection_parameters c) (is_large_forward_open c)"

definition ConnectionObjectGetOToTConnectionSize :: "'fn connection_object \<Rightarrow> size_t" where
  "ConnectionObjectGetOToTConnectionSize c =
     ConnectionObjectGetConnectionSize (o_to_t_network_connection_parameters c) (is_large_forward_open c)"

definition ConnectionObjectGetTToOConnectionSize :: "'fn connection_object \<Rightarrow> size_t" where
  "ConnectionObjectGetTToOConnectionSize c =
     ConnectionObjectGetConnectionSize (t_to_o_network_connection_parameters c) (is_large_forward_open c)"

subsection \<open>Timers\<close>

definition kOpenerTimerTickInMilliSeconds :: "64 word" where
  "kOpenerTimerTickInMilliSeconds = 10"

definition ConnectionObjectGetRequestedPacketInterval :: "'fn connection_object \<Rightarrow> CipUint" where
  "ConnectionObjectGetRequestedPacketInterval c =
     (let rpi = t_to_o_requested_packet_interval c;
          remainder_to_resolution = (ucast ((ucast rpi :: 64 word) mod (kOpenerTimerTickInMilliSeconds * 1000)) :: CipUdint)
      in if remainder_to_resolution = 0 then ucast (rpi div 1000)
         else ucast (rpi div 1000 - remainder_to_resolution div 1000))"

definition ConnectionObjectSetExpectedPacketRate :: "'fn connection_object \<Rightarrow> 'fn connection_object" where
  "ConnectionObjectSetExpectedPacketRate c =
     (let rpi = t_to_o_requested_packet_interval c;
          remainder_to_resolution = (ucast ((ucast rpi :: 64 word) mod (kOpenerTimerTickInMilliSeconds * 1000)) :: CipUdint)
      in if remainder_to_resolution = 0 then c\<lparr>expected_packet_rate := ucast (rpi div 1000)\<rparr>
         else c\<lparr>expected_packet_rate := ucast (rpi div 1000
            + (ucast kOpenerTimerTickInMilliSeconds - remainder_to_resolution div 1000))\<rparr>)"

text \<open>A shift by 64 or more is undefined.\<close>

definition ConnectionObjectCalculateRegularInactivityWatchdogTimerValue ::
    "'fn connection_object \<Rightarrow> 64 word option" where
  "ConnectionObjectCalculateRegularInactivityWatchdogTimerValue c = do {
     guard (2 + unat (connection_timeout_multiplier c) < 64);
     Some (push_bit (2 + unat (connection_timeout_multiplier c))
       ((ucast (o_to_t_requested_packet_interval c) :: 64 word) div 1000)) }"

definition ConnectionObjectSetInitialInactivityWatchdogTimerValue ::
    "'fn connection_object \<Rightarrow> 'fn connection_object option" where
  "ConnectionObjectSetInitialInactivityWatchdogTimerValue c = do {
     v \<leftarrow> ConnectionObjectCalculateRegularInactivityWatchdogTimerValue c;
     Some (c\<lparr>inactivity_watchdog_timer := (if v > 10000 then v else 10000)\<rparr>) }"

definition ConnectionObjectResetInactivityWatchdogTimerValue ::
    "'fn connection_object \<Rightarrow> 'fn connection_object option" where
  "ConnectionObjectResetInactivityWatchdogTimerValue c = do {
     v \<leftarrow> ConnectionObjectCalculateRegularInactivityWatchdogTimerValue c;
     Some (c\<lparr>inactivity_watchdog_timer := v\<rparr>) }"

definition ConnectionObjectResetLastPackageInactivityTimerValue ::
    "'fn connection_object \<Rightarrow> 'fn connection_object option" where
  "ConnectionObjectResetLastPackageInactivityTimerValue c = do {
     v \<leftarrow> ConnectionObjectCalculateRegularInactivityWatchdogTimerValue c;
     Some (c\<lparr>last_package_watchdog_timer := v\<rparr>) }"

definition ConnectionObjectResetSequenceCounts :: "'fn connection_object \<Rightarrow> 'fn connection_object" where
  "ConnectionObjectResetSequenceCounts c =
     c\<lparr>eip_level_sequence_count_producing := 0, sequence_count_producing := 0,
       eip_level_sequence_count_consuming := 0, eip_first_level_sequence_count_received := False,
       sequence_count_consuming := 0\<rparr>"

definition ConnectionObjectResetProductionInhibitTimer :: "'fn connection_object \<Rightarrow> 'fn connection_object" where
  "ConnectionObjectResetProductionInhibitTimer c =
     c\<lparr>production_inhibit_timer := ucast (production_inhibit_time c)\<rparr>"

definition ConnectionObjectSetWatchdogTimeoutAction ::
    "'fn connection_object \<Rightarrow> CipUsint \<Rightarrow> 'fn connection_object" where
  "ConnectionObjectSetWatchdogTimeoutAction c a =
     c\<lparr>watchdog_timeout_action := (if a \<le> 3 then a else 4)\<rparr>"

subsection \<open>Setting up\<close>

text \<open>
  \<open>GetConnectionId\<close> gives the next connection identifier of the target and the state it
  was taken from.
\<close>

definition ConnectionObjectGeneralConfiguration ::
    "('i \<Rightarrow> CipUdint \<times> 'i) \<Rightarrow> 'i \<Rightarrow> 'fn connection_object \<Rightarrow> 'fn connection_object \<times> 'i" where
  "ConnectionObjectGeneralConfiguration GetConnectionId i c =
     (let c = c\<lparr>socket_consuming := kEipInvalidSocket, socket_producing := kEipInvalidSocket\<rparr>;
          (c, i) = (if ConnectionObjectGetOToTConnectionType c = ConnectionTypePointToPoint
             then (case GetConnectionId i of (n, i) \<Rightarrow> (c\<lparr>cip_consumed_connection_id := n\<rparr>, i)) else (c, i));
          (c, i) = (if ConnectionObjectGetTToOConnectionType c = ConnectionTypeMulticast
             then (case GetConnectionId i of (n, i) \<Rightarrow> (c\<lparr>cip_produced_connection_id := n\<rparr>, i)) else (c, i));
          c = ConnectionObjectResetSequenceCounts c;
          c = ConnectionObjectSetWatchdogTimeoutAction c 4;
          c = ConnectionObjectResetProductionInhibitTimer c
      in (c\<lparr>transmission_trigger_timer := 0\<rparr>, i))"

text \<open>\<open>random_number\<close> is the unused number \<^verbatim>\<open>GenerateRandomConnectionNumber\<close> returns.\<close>

definition read_connection_parameters :: "bool \<Rightarrow> octet list \<Rightarrow> (CipDword \<times> octet list) option" where
  "read_connection_parameters large msg =
     (if large then GetDwordFromMessage msg
      else map_option (\<lambda>(v, rest). (ucast v, rest)) (GetWordFromMessage msg))"

definition ConnectionObjectInitializeFromMessage ::
    "CipUint \<Rightarrow> octet list \<Rightarrow> 'fn connection_object \<Rightarrow> ('fn connection_object \<times> octet list) option" where
  "ConnectionObjectInitializeFromMessage random_number msg c = do {
     (priority_timetick, msg) \<leftarrow> GetByteFromMessage msg;
     (timeout_ticks, msg) \<leftarrow> GetUsintFromMessage msg;
     (o_to_t_id, msg) \<leftarrow> GetUdintFromMessage msg;
     (t_to_o_id, msg) \<leftarrow> GetUdintFromMessage msg;
     (serial, msg) \<leftarrow> GetUintFromMessage msg;
     (vendor, msg) \<leftarrow> GetUintFromMessage msg;
     (orig_serial, msg) \<leftarrow> GetUdintFromMessage msg;
     let c = c\<lparr>cip_consumed_connection_id := o_to_t_id, cip_produced_connection_id := t_to_o_id,
       connection_serial_number := serial, originator_vendor_id := vendor,
       originator_serial_number := orig_serial, connection_number := random_number,
       co_state := 0, sequence_count_producing := 0\<rparr>;
     (multiplier, msg) \<leftarrow> GetUsintFromMessage msg;
     msg \<leftarrow> advance 3 msg;
     (o_to_t_rpi, msg) \<leftarrow> GetUdintFromMessage msg;
     let c = c\<lparr>connection_timeout_multiplier := multiplier, o_to_t_requested_packet_interval := o_to_t_rpi\<rparr>;
     c \<leftarrow> ConnectionObjectSetInitialInactivityWatchdogTimerValue c;
     (o_to_t_par, msg) \<leftarrow> read_connection_parameters (is_large_forward_open c) msg;
     (t_to_o_rpi, msg) \<leftarrow> GetUdintFromMessage msg;
     let c = ConnectionObjectSetExpectedPacketRate
       (c\<lparr>o_to_t_network_connection_parameters := o_to_t_par, t_to_o_requested_packet_interval := t_to_o_rpi\<rparr>);
     (t_to_o_par, msg) \<leftarrow> read_connection_parameters (is_large_forward_open c) msg;
     (trigger, msg) \<leftarrow> GetByteFromMessage msg;
     Some (c\<lparr>t_to_o_network_connection_parameters := t_to_o_par, transport_class_trigger := trigger\<rparr>, msg) }"

subsection \<open>Comparing\<close>

definition ConnectionObjectEqualOriginator :: "'fn connection_object \<Rightarrow> 'fn connection_object \<Rightarrow> bool" where
  "ConnectionObjectEqualOriginator a b \<longleftrightarrow>
     originator_vendor_id a = originator_vendor_id b \<and> originator_serial_number a = originator_serial_number b"

definition EqualConnectionTriad :: "'fn connection_object \<Rightarrow> 'fn connection_object \<Rightarrow> bool" where
  "EqualConnectionTriad a b \<longleftrightarrow>
     connection_serial_number a = connection_serial_number b
     \<and> originator_vendor_id a = originator_vendor_id b \<and> originator_serial_number a = originator_serial_number b"

definition CipConnectionObjectOriginatorHasSameIP :: "'fn connection_object \<Rightarrow> sockaddr_in \<Rightarrow> bool" where
  "CipConnectionObjectOriginatorHasSameIP c address \<longleftrightarrow> sin_addr address = sin_addr (originator_address c)"

subsection \<open>Packet rates\<close>

lemma unat_div_word: "unat ((a :: 'a::len word) div b) = unat a div unat b"
  by (simp add: unat_div)

lemma tick_remainder:
  "unat (ucast ((ucast (rpi :: CipUdint) :: 64 word) mod (kOpenerTimerTickInMilliSeconds * 1000)) :: CipUdint)
     = unat rpi mod 10000"
proof -
  have b: "unat rpi < 4294967296" by (rule unat_uint32_less)
  have "unat (ucast rpi :: 64 word) = unat rpi"
    using b by (simp add: unsigned_ucast_eq take_bit_nat_eq_self)
  then have "unat ((ucast rpi :: 64 word) mod 10000) = unat rpi mod 10000"
    by (simp add: unat_mod)
  then show ?thesis
    by (simp add: kOpenerTimerTickInMilliSeconds_def unsigned_ucast_eq unsigned_take_bit_eq take_bit_nat_eq_self)
qed

lemma round_up_tick:
  fixes n :: nat
  shows "n mod 10000 = 0 \<Longrightarrow> n div 1000 = 10 * ((n + 9999) div 10000)"
    and "n mod 10000 \<noteq> 0 \<Longrightarrow> n div 1000 + (10 - n mod 10000 div 1000) = 10 * ((n + 9999) div 10000)"
proof -
  let ?q = "n div 10000" and ?r = "n mod 10000"
  have n: "n = ?r + 1000 * (10 * ?q)" and n': "n + 9999 = (?r + 9999) + 10000 * ?q" by simp_all
  have d: "n div 1000 = 10 * ?q + ?r div 1000"
    by (subst n, subst div_mult_self2) simp_all
  have e: "(n + 9999) div 10000 = ?q + (?r + 9999) div 10000"
    by (subst n', subst div_mult_self2) simp_all
  show "n div 1000 = 10 * ((n + 9999) div 10000)" if "?r = 0"
    using that d e by simp
  show "n div 1000 + (10 - ?r div 1000) = 10 * ((n + 9999) div 10000)" if "?r \<noteq> 0"
  proof -
    have "(?r + 9999) div 10000 = 1" using that by (intro div_nat_eqI) simp_all
    moreover have "?r div 1000 \<le> 10" by (simp add: div_le_dividend less_imp_le)
    ultimately show ?thesis using d e by simp
  qed
qed

text \<open>
  the expected packet rate is the requested packet interval of the T-to-O direction
  (in microseconds) rounded up to a multiple of the 10 ms timer tick, in milliseconds, but
  truncated to 16 bits: an interval of 65536 ms gives the rate 4.
\<close>

theorem expected_packet_rate_exact:
  "unat (expected_packet_rate (ConnectionObjectSetExpectedPacketRate c)) =
     10 * ((unat (t_to_o_requested_packet_interval c) + 9999) div 10000) mod 65536"
proof -
  let ?rpi = "t_to_o_requested_packet_interval c"
  let ?n = "unat ?rpi"
  let ?rem = "ucast ((ucast ?rpi :: 64 word) mod (kOpenerTimerTickInMilliSeconds * 1000)) :: CipUdint"
  have n: "?n < 4294967296" by (rule unat_uint32_less)
  have rem: "unat ?rem = ?n mod 10000" by (rule tick_remainder)
  have trunc: "unat (ucast x :: 16 word) = unat x mod 65536" for x :: "32 word"
    by (simp add: unsigned_ucast_eq unsigned_take_bit_eq take_bit_eq_mod)
  show ?thesis
  proof (cases "?rem = 0")
    case True
    then have "?n mod 10000 = 0" using rem by simp
    then show ?thesis
      using True round_up_tick(1) [of ?n]
      by (simp add: ConnectionObjectSetExpectedPacketRate_def Let_def trunc unat_div)
  next
    case False
    then have ne: "?n mod 10000 \<noteq> 0" using rem by (metis unat_0 unsigned_word_eqI)
    let ?d = "10 - ?rem div 1000"
    have q: "unat (?rem div 1000) = ?n mod 10000 div 1000" by (simp add: unat_div rem)
    have "unat ?d = 10 - ?n mod 10000 div 1000"
    proof -
      have "?rem div 1000 \<le> 10"
        unfolding word_le_nat_alt q by simp
      then show ?thesis by (simp add: unat_sub q)
    qed
    moreover have "unat (?rpi div 1000 + ?d) = unat (?rpi div 1000) + unat ?d"
      using n calculation by (simp add: unat_word_ariths unat_div)
    ultimately have "unat (?rpi div 1000 + ?d) = 10 * ((?n + 9999) div 10000)"
      using round_up_tick(2) [OF ne] by (simp add: unat_div)
    moreover have "(ucast kOpenerTimerTickInMilliSeconds :: 32 word) = 10"
      by (simp add: kOpenerTimerTickInMilliSeconds_def)
    ultimately show ?thesis
      using False by (simp add: ConnectionObjectSetExpectedPacketRate_def Let_def trunc)
  qed
qed

subsection \<open>The inactivity watchdog\<close>

lemma watchdog_value:
  assumes "2 + unat (connection_timeout_multiplier c) < 64"
  shows "\<exists>v. ConnectionObjectCalculateRegularInactivityWatchdogTimerValue c = Some v
    \<and> unat v = unat (o_to_t_requested_packet_interval c) div 1000 * 2 ^ (2 + unat (connection_timeout_multiplier c)) mod 2 ^ 64"
proof -
  let ?rpi = "o_to_t_requested_packet_interval c" and ?k = "2 + unat (connection_timeout_multiplier c)"
  have "unat (ucast ?rpi :: 64 word) = unat ?rpi"
    using unat_uint32_less [of ?rpi] by (simp add: unsigned_ucast_eq take_bit_nat_eq_self)
  then have d: "unat ((ucast ?rpi :: 64 word) div 1000) = unat ?rpi div 1000" by (simp add: unat_div)
  have "unat (push_bit ?k ((ucast ?rpi :: 64 word) div 1000)) = take_bit 64 (push_bit ?k (unat ?rpi div 1000))"
    by (simp only: unsigned_push_bit_eq d) simp
  then show ?thesis
    using assms by (simp add: ConnectionObjectCalculateRegularInactivityWatchdogTimerValue_def
      take_bit_eq_mod push_bit_eq_mult del: power_Suc)
qed

text \<open>
  for the timeout multipliers 0 to 7 of the CIP specification the regular watchdog value is
  \<open>4 * 2 ^ multiplier\<close> times the requested interval in milliseconds, without loss, and the
  first value after a forward open is this or 10 seconds, whichever is longer.
\<close>

theorem initial_watchdog:
  assumes "unat (connection_timeout_multiplier c) \<le> 7"
  shows "\<exists>c'. ConnectionObjectSetInitialInactivityWatchdogTimerValue c = Some c'
    \<and> unat (inactivity_watchdog_timer c') =
        max 10000 (unat (o_to_t_requested_packet_interval c) div 1000 * (4 * 2 ^ unat (connection_timeout_multiplier c)))"
proof -
  let ?n = "unat (o_to_t_requested_packet_interval c) div 1000" and ?m = "unat (connection_timeout_multiplier c)"
  obtain v where v: "ConnectionObjectCalculateRegularInactivityWatchdogTimerValue c = Some v"
      "unat v = ?n * 2 ^ (2 + ?m) mod 2 ^ 64"
    using watchdog_value [of c] assms by auto
  have "(2 :: nat) ^ (2 + ?m) \<le> 2 ^ 9" using assms by (intro power_increasing) simp_all
  moreover have "?n \<le> 4294967" using unat_uint32_less [of "o_to_t_requested_packet_interval c"] by simp
  ultimately have "?n * 2 ^ (2 + ?m) \<le> 4294967 * 2 ^ 9" by (rule mult_le_mono [rotated])
  then have "unat v = ?n * (4 * 2 ^ ?m)" using v(2) by (simp add: power_add)
  then show ?thesis
    using v(1) by (simp add: ConnectionObjectSetInitialInactivityWatchdogTimerValue_def word_less_nat_alt max_def)
qed

text \<open>A connection object with the given interval and multiplier.\<close>

definition example_connection :: "CipUdint \<Rightarrow> CipUsint \<Rightarrow> unit connection_object" where
  "example_connection rpi m = ConnectionObjectInitializeEmpty
     \<lparr>o_to_t_requested_packet_interval := rpi, connection_timeout_multiplier := m\<rparr>"

lemma initial_watchdog_witness:
  "\<exists>c'. ConnectionObjectSetInitialInactivityWatchdogTimerValue (example_connection 5000000 3) = Some c'
     \<and> unat (inactivity_watchdog_timer c') = 160000"
  using initial_watchdog [of "example_connection 5000000 3"] by (simp add: example_connection_def)

subsection \<open>Forward open parameters\<close>

definition parameter_octets :: "bool \<Rightarrow> CipDword \<Rightarrow> octet list" where
  "parameter_octets large p = (if large then le_octets 4 p else le_octets 2 (ucast p :: 16 word))"

lemma read_connection_parameters_octets:
  assumes "large \<or> p < 65536"
  shows "read_connection_parameters large (parameter_octets large p @ rest) = Some (p, rest)"
proof (cases large)
  case True
  then show ?thesis
    by (simp add: read_connection_parameters_def parameter_octets_def Get_aliases udint.dec_enc)
next
  case False
  then have "unat p < 65536" using assms by (simp add: word_less_nat_alt)
  then have "unat (ucast (ucast p :: 16 word) :: 32 word) = unat p"
    by (simp add: unsigned_ucast_eq unsigned_take_bit_eq take_bit_nat_eq_self)
  then have "ucast (ucast p :: 16 word) = p" by (rule unsigned_word_eqI)
  then show ?thesis
    using False by (simp add: read_connection_parameters_def parameter_octets_def Get_aliases uint.dec_enc)
qed

definition forward_open_octets ::
    "bool \<Rightarrow> octet \<Rightarrow> octet \<Rightarrow> CipUdint \<Rightarrow> CipUdint \<Rightarrow> CipUint \<Rightarrow> CipUint \<Rightarrow> CipUdint \<Rightarrow> CipUsint
      \<Rightarrow> CipUdint \<Rightarrow> CipDword \<Rightarrow> CipUdint \<Rightarrow> CipDword \<Rightarrow> CipByte \<Rightarrow> octet list" where
  "forward_open_octets large tick ticks o_to_t_id t_to_o_id serial vendor orig_serial multiplier
     o_to_t_rpi o_to_t_par t_to_o_rpi t_to_o_par trigger =
     [tick] @ [ticks] @ le_octets 4 o_to_t_id @ le_octets 4 t_to_o_id @ le_octets 2 serial @ le_octets 2 vendor
     @ le_octets 4 orig_serial @ [multiplier] @ [0, 0, 0] @ le_octets 4 o_to_t_rpi @ parameter_octets large o_to_t_par
     @ le_octets 4 t_to_o_rpi @ parameter_octets large t_to_o_par @ [trigger]"

lemma SetExpectedPacketRate_update:
  "ConnectionObjectSetExpectedPacketRate c =
     c\<lparr>expected_packet_rate := expected_packet_rate (ConnectionObjectSetExpectedPacketRate c)\<rparr>"
  by (simp add: ConnectionObjectSetExpectedPacketRate_def Let_def)

text \<open>
  C35: a forward open request, large or not, is read back field by field, the read pointer ends
  behind the transport trigger, and the connection is not yet established. (A timeout
  multiplier of 62 or more, which nothing rejects, makes the watchdog's shift undefined.)
\<close>

theorem ForwardOpen_parameters_roundtrip:
  assumes "unat multiplier < 62"
    and "is_large_forward_open c \<or> o_to_t_par < 65536 \<and> t_to_o_par < 65536"
  shows "\<exists>c'. ConnectionObjectInitializeFromMessage n (forward_open_octets (is_large_forward_open c) tick ticks
        o_to_t_id t_to_o_id serial vendor orig_serial multiplier o_to_t_rpi o_to_t_par t_to_o_rpi t_to_o_par trigger
        @ rest) c = Some (c', rest)
    \<and> cip_consumed_connection_id c' = o_to_t_id \<and> cip_produced_connection_id c' = t_to_o_id
    \<and> connection_serial_number c' = serial \<and> originator_vendor_id c' = vendor
    \<and> originator_serial_number c' = orig_serial \<and> connection_timeout_multiplier c' = multiplier
    \<and> o_to_t_requested_packet_interval c' = o_to_t_rpi \<and> t_to_o_requested_packet_interval c' = t_to_o_rpi
    \<and> o_to_t_network_connection_parameters c' = o_to_t_par \<and> t_to_o_network_connection_parameters c' = t_to_o_par
    \<and> transport_class_trigger c' = trigger
    \<and> ConnectionObjectGetState c' = kConnectionObjectStateNonExistent
    \<and> 10000 \<le> unat (inactivity_watchdog_timer c')"
proof -
  define c1 where "c1 = c\<lparr>cip_consumed_connection_id := o_to_t_id, cip_produced_connection_id := t_to_o_id,
       connection_serial_number := serial, originator_vendor_id := vendor,
       originator_serial_number := orig_serial, connection_number := n, co_state := 0, sequence_count_producing := 0,
       connection_timeout_multiplier := multiplier, o_to_t_requested_packet_interval := o_to_t_rpi\<rparr>"
  obtain v where "ConnectionObjectCalculateRegularInactivityWatchdogTimerValue c1 = Some v"
    using watchdog_value [of c1] assms(1) by (auto simp: c1_def)
  then obtain w where w: "ConnectionObjectSetInitialInactivityWatchdogTimerValue c1 = Some (c1\<lparr>inactivity_watchdog_timer := w\<rparr>)"
      "10000 \<le> unat w"
    by (auto simp: ConnectionObjectSetInitialInactivityWatchdogTimerValue_def word_less_nat_alt
      split: if_splits intro: that [of v] that [of 10000])
  have l: "is_large_forward_open c1 = is_large_forward_open c" by (simp add: c1_def)
  have p: "read_connection_parameters (is_large_forward_open c)
        (parameter_octets (is_large_forward_open c) o_to_t_par @ xs) = Some (o_to_t_par, xs)"
      "read_connection_parameters (is_large_forward_open c)
        (parameter_octets (is_large_forward_open c) t_to_o_par @ xs) = Some (t_to_o_par, xs)" for xs
    using assms(2) read_connection_parameters_octets by blast+
  obtain r where r: "ConnectionObjectSetExpectedPacketRate (c1\<lparr>inactivity_watchdog_timer := w,
      o_to_t_network_connection_parameters := o_to_t_par, t_to_o_requested_packet_interval := t_to_o_rpi\<rparr>) =
      c1\<lparr>inactivity_watchdog_timer := w, o_to_t_network_connection_parameters := o_to_t_par,
        t_to_o_requested_packet_interval := t_to_o_rpi, expected_packet_rate := r\<rparr>"
    by (rule that, rule SetExpectedPacketRate_update)
  have "ConnectionObjectInitializeFromMessage n (forward_open_octets (is_large_forward_open c) tick ticks
        o_to_t_id t_to_o_id serial vendor orig_serial multiplier o_to_t_rpi o_to_t_par t_to_o_rpi t_to_o_par trigger
        @ rest) c = Some (c1\<lparr>inactivity_watchdog_timer := w, o_to_t_network_connection_parameters := o_to_t_par,
          t_to_o_requested_packet_interval := t_to_o_rpi, expected_packet_rate := r,
          t_to_o_network_connection_parameters := t_to_o_par, transport_class_trigger := trigger\<rparr>, rest)"
    using w(1) r p
    by (simp add: ConnectionObjectInitializeFromMessage_def forward_open_octets_def Get_aliases udint.dec_enc
      uint.dec_enc advance_def Let_def c1_def del: GetUdintFromMessage.simps GetUintFromMessage.simps)
  then show ?thesis
    using w(2) by (simp add: c1_def ConnectionObjectGetState_def)
qed

lemma ForwardOpen_parameters_roundtrip_witness:
  "\<exists>c'. ConnectionObjectInitializeFromMessage 7 (forward_open_octets False 3 250 0x11 0x22 0x1234 0x5678 0xCAFE 1
        10000 0x4302 20000 0x2302 1 @ [0xFF]) (example_connection 0 0) = Some (c', [0xFF])
     \<and> originator_serial_number c' = 0xCAFE"
  using ForwardOpen_parameters_roundtrip [where c = "example_connection 0 0" and multiplier = 1
      and o_to_t_par = "0x4302" and t_to_o_par = "0x2302" and n = 7 and tick = 3 and ticks = 250
      and o_to_t_id = "0x11" and t_to_o_id = "0x22" and serial = "0x1234" and vendor = "0x5678"
      and orig_serial = "0xCAFE" and o_to_t_rpi = 10000 and t_to_o_rpi = 20000 and trigger = 1 and rest = "[0xFF]"]
  by (auto simp: example_connection_def ConnectionObjectInitializeEmpty_def)

end
