(* ===== verification/EncapHeader.thy ===== *)
theory EncapHeader
  imports EndianConv
begin

text \<open>
  The header of an encapsulation message (\<^verbatim>\<open>enet_encap/encap.c\<close>): its structure, reading it
  from a received message and writing it into a reply. The pointers of
  \<^verbatim>\<open>EncapsulationData\<close> are the octets from the pointer on.
\<close>

subsection \<open>Definitions\<close>

definition ENCAPSULATION_HEADER_LENGTH :: nat where
  "ENCAPSULATION_HEADER_LENGTH = 24"

definition kSenderContextSize :: nat where
  "kSenderContextSize = 8"

datatype EncapsulationProtocolErrorCode =
    kEncapsulationProtocolSuccess | kEncapsulationProtocolInvalidCommand
  | kEncapsulationProtocolInsufficientMemory | kEncapsulationProtocolIncorrectData
  | kEncapsulationProtocolInvalidSessionHandle | kEncapsulationProtocolInvalidLength
  | kEncapsulationProtocolUnsupportedProtocol

fun protocol_error_value :: "EncapsulationProtocolErrorCode \<Rightarrow> CipUdint" where
  "protocol_error_value kEncapsulationProtocolSuccess = 0x0000"
| "protocol_error_value kEncapsulationProtocolInvalidCommand = 0x0001"
| "protocol_error_value kEncapsulationProtocolInsufficientMemory = 0x0002"
| "protocol_error_value kEncapsulationProtocolIncorrectData = 0x0003"
| "protocol_error_value kEncapsulationProtocolInvalidSessionHandle = 0x0064"
| "protocol_error_value kEncapsulationProtocolInvalidLength = 0x0065"
| "protocol_error_value kEncapsulationProtocolUnsupportedProtocol = 0x0069"

record encapsulation_data =
  command_code :: CipUint
  ed_data_length :: CipUint
  ed_session_handle :: CipSessionHandle
  ed_status :: CipUdint
  sender_context :: "octet list"
  ed_options :: CipUdint
  communication_buffer_start :: "octet list"
  current_communication_buffer_position :: "octet list"

text \<open>
  \<open>receive_buffer\<close> is the memory of the receive buffer, which is larger than the received
  message; \<open>receive_buffer_length\<close> is the number of received octets. The result is a signed
  number: negative for a fragment.
\<close>

definition CreateEncapsulationStructure ::
    "octet list \<Rightarrow> size_t \<Rightarrow> (int \<times> encapsulation_data) option" where
  "CreateEncapsulationStructure receive_buffer receive_buffer_length = do {
     (code, p) \<leftarrow> GetUintFromMessage receive_buffer;
     (len, p) \<leftarrow> GetUintFromMessage p;
     (session, p) \<leftarrow> GetUdintFromMessage p;
     (status, p) \<leftarrow> GetUdintFromMessage p;
     guard (kSenderContextSize \<le> length p);
     let context = take kSenderContextSize p;
     let p = drop kSenderContextSize p;
     (opts, p) \<leftarrow> GetUdintFromMessage p;
     guard (unat receive_buffer_length \<le> 2147483647);
     Some (int (unat receive_buffer_length) - int ENCAPSULATION_HEADER_LENGTH - int (unat len),
       \<lparr>command_code = code, ed_data_length = len, ed_session_handle = session, ed_status = status,
        sender_context = context, ed_options = opts, communication_buffer_start = receive_buffer,
        current_communication_buffer_position = p\<rparr>) }"

definition SkipEncapsulationHeader :: "enip_message \<Rightarrow> enip_message option" where
  "SkipEncapsulationHeader m = do {
     guard (current_message_position m + ENCAPSULATION_HEADER_LENGTH \<le> length (message_buffer m));
     Some (m\<lparr>current_message_position := current_message_position m + ENCAPSULATION_HEADER_LENGTH\<rparr>) }"

definition GenerateEncapsulationHeader ::
    "encapsulation_data \<Rightarrow> size_t \<Rightarrow> CipSessionHandle \<Rightarrow> EncapsulationProtocolErrorCode
      \<Rightarrow> enip_message \<Rightarrow> enip_message option" where
  "GenerateEncapsulationHeader receive_data command_specific_data_length session_handle status m = do {
     m \<leftarrow> AddIntToMessage (command_code receive_data) m;
     m \<leftarrow> AddIntToMessage (ucast command_specific_data_length) m;
     m \<leftarrow> AddDintToMessage session_handle m;
     m \<leftarrow> AddDintToMessage (protocol_error_value status) m;
     m \<leftarrow> put_octets (take kSenderContextSize (sender_context receive_data)) m;
     m \<leftarrow> Some (m\<lparr>current_message_position := current_message_position m + kSenderContextSize,
                 used_message_length := used_message_length m + of_nat kSenderContextSize\<rparr>);
     AddDintToMessage 0 m }"

subsection \<open>The octets of a header\<close>

definition header_octets ::
    "CipUint \<Rightarrow> CipUint \<Rightarrow> CipSessionHandle \<Rightarrow> CipUdint \<Rightarrow> octet list \<Rightarrow> octet list" where
  "header_octets code len session status context =
     le_octets 2 code @ le_octets 2 len @ le_octets 4 session @ le_octets 4 status @ context @ le_octets 4 (0 :: 32 word)"

lemma length_header_octets [simp]:
  "length context = 8 \<Longrightarrow> length (header_octets code len session status context) = 24"
  by (simp add: header_octets_def)

lemma put_octets_emit:
  assumes "length bs = n"
  shows "Option.bind (put_octets bs m) (\<lambda>m. Option.bind (Some (m\<lparr>current_message_position := current_message_position m + n,
           used_message_length := used_message_length m + of_nat n\<rparr>)) f) = Option.bind (emit bs m) f"
  using assms by (simp add: emit_def bind_assoc)

lemma GenerateEncapsulationHeader_emit:
  assumes "length (sender_context d) = kSenderContextSize"
  shows "GenerateEncapsulationHeader d n session status =
     emit (header_octets (command_code d) (ucast n) session (protocol_error_value status) (sender_context d))"
proof
  fix m
  have "length (take kSenderContextSize (sender_context d)) = kSenderContextSize"
    using assms by simp
  note p = put_octets_emit [OF this]
  show "GenerateEncapsulationHeader d n session status m = emit (header_octets (command_code d) (ucast n) session
          (protocol_error_value status) (sender_context d)) m"
    unfolding GenerateEncapsulationHeader_def p
    using assms by (simp add: codec_simps header_octets_def)
qed

lemma CreateEncapsulationStructure_header:
  assumes "length context = kSenderContextSize" and "unat n \<le> 2147483647"
  shows "CreateEncapsulationStructure (header_octets code len session status context @ rest) n =
     Some (int (unat n) - 24 - int (unat len), \<lparr>command_code = code, ed_data_length = len, ed_session_handle = session,
       ed_status = status, sender_context = context, ed_options = 0,
       communication_buffer_start = header_octets code len session status context @ rest,
       current_communication_buffer_position = rest\<rparr>)"
  using assms
  by (simp add: CreateEncapsulationStructure_def header_octets_def uint.dec_enc udint.dec_enc ENCAPSULATION_HEADER_LENGTH_def)

subsection \<open>Properties\<close>

text \<open>
  C36: Header round trip. The header that \<^verbatim>\<open>GenerateEncapsulationHeader\<close> appends to a message
  with room for it is 24 octets, and \<^verbatim>\<open>CreateEncapsulationStructure\<close> reads back the command,
  session handle, status and sender context, the low 16 bits of the length, options 0, and the
  octets after the header as the data. Its result is the number of received octets beyond the
  message, negative exactly for a fragment.
\<close>
theorem encapsulation_header_roundtrip:
  assumes "length (sender_context d) = kSenderContextSize" and "wf_msg m"
    and "ENCAPSULATION_HEADER_LENGTH \<le> msg_room m" and "unat received \<le> 2147483647"
  shows "\<exists>m' h ed k. GenerateEncapsulationHeader d n session status m = Some m' \<and> wf_msg m'
     \<and> msg_content m' = msg_content m @ h \<and> length h = ENCAPSULATION_HEADER_LENGTH
     \<and> CreateEncapsulationStructure (h @ rest) received = Some (k, ed)
     \<and> command_code ed = command_code d \<and> ed_data_length ed = ucast n \<and> ed_session_handle ed = session
     \<and> ed_status ed = protocol_error_value status \<and> sender_context ed = sender_context d
     \<and> ed_options ed = 0 \<and> current_communication_buffer_position ed = rest
     \<and> (k < 0 \<longleftrightarrow> unat received < ENCAPSULATION_HEADER_LENGTH + unat n mod 65536)
     \<and> (k \<ge> 0 \<longrightarrow> unat received = ENCAPSULATION_HEADER_LENGTH + unat n mod 65536 + nat k)"
proof -
  let ?h = "header_octets (command_code d) (ucast n) session (protocol_error_value status) (sender_context d)"
  have len: "length ?h = ENCAPSULATION_HEADER_LENGTH"
    using assms(1) by (simp add: kSenderContextSize_def ENCAPSULATION_HEADER_LENGTH_def)
  obtain m' where m': "emit ?h m = Some m'" "wf_msg m'" "msg_content m' = msg_content m @ ?h"
    using emit_wf_fits [OF assms(2), of ?h] assms(3) len by auto
  have u: "unat (ucast n :: 16 word) = unat n mod 65536"
    by (simp add: unsigned_ucast_eq unsigned_take_bit_eq take_bit_eq_mod)
  let ?k = "int (unat received) - 24 - int (unat (ucast n :: 16 word))"
  have k: "?k < 0 \<longleftrightarrow> unat received < ENCAPSULATION_HEADER_LENGTH + unat n mod 65536"
      "?k \<ge> 0 \<longrightarrow> unat received = ENCAPSULATION_HEADER_LENGTH + unat n mod 65536 + nat ?k"
    unfolding u ENCAPSULATION_HEADER_LENGTH_def by linarith+
  obtain ed where ed: "CreateEncapsulationStructure (?h @ rest) received = Some (?k, ed)"
      "command_code ed = command_code d" "ed_data_length ed = ucast n" "ed_session_handle ed = session"
      "ed_status ed = protocol_error_value status" "sender_context ed = sender_context d"
      "ed_options ed = 0" "current_communication_buffer_position ed = rest"
    using CreateEncapsulationStructure_header [OF assms(1,4), of "command_code d" "ucast n" session
        "protocol_error_value status" rest] by simp
  have gen: "GenerateEncapsulationHeader d n session status m = Some m'"
    using m'(1) GenerateEncapsulationHeader_emit [OF assms(1)] by simp
  show ?thesis
    by (rule exI [of _ m'], rule exI [of _ ?h], rule exI [of _ ed], rule exI [of _ ?k], intro conjI)
      (rule gen m'(2,3) len ed k)+
qed

definition example_header :: encapsulation_data where
  "example_header = \<lparr>command_code = 0x65, ed_data_length = 4, ed_session_handle = 0, ed_status = 0,
     sender_context = [1, 2, 3, 4, 5, 6, 7, 8], ed_options = 0, communication_buffer_start = [],
     current_communication_buffer_position = [1, 0, 0, 0]\<rparr>"

lemma encapsulation_header_roundtrip_witness:
  "\<exists>m' h ed k. GenerateEncapsulationHeader example_header 4 1 kEncapsulationProtocolSuccess
       (InitializeENIPMessage undefined) = Some m'
     \<and> msg_content m' = h \<and> CreateEncapsulationStructure (h @ [1, 0, 0, 0]) 28 = Some (k, ed)
     \<and> k = 0 \<and> command_code ed = 0x65 \<and> ed_session_handle ed = 1"
proof -
  have "length (sender_context example_header) = kSenderContextSize"
    by (simp add: example_header_def kSenderContextSize_def)
  from encapsulation_header_roundtrip [OF this, of "InitializeENIPMessage undefined" 28 4 1
      kEncapsulationProtocolSuccess "[1, 0, 0, 0]"]
  show ?thesis
    by (force simp: ENCAPSULATION_HEADER_LENGTH_def PC_OPENER_ETHERNET_BUFFER_SIZE_def example_header_def)
qed


end
