(* ===== verification/DoublyLinkedList.thy ===== *)
theory DoublyLinkedList
  imports Opener_Prelude
begin

text \<open>
  The doubly linked list (\<^verbatim>\<open>utils/doublylinkedlist.c\<close>) on the pool of nodes of the connection
  objects (\<^verbatim>\<open>CipConnectionObjectListArrayAllocator\<close> and \<^verbatim>\<open>CipConnectionObjectListArrayFree\<close> of
  \<^verbatim>\<open>cip/cipconnectionobject.c\<close>). The memory is explicit: a node is an index into the pool, a
  null pointer is \<^term>\<open>None\<close>, and every operation returns the changed pool. Using a null pointer
  has no defined result.
\<close>

subsection \<open>Nodes, pool and list\<close>

record 'a dll_node =
  node_data :: "'a option"
  node_previous :: "nat option"
  node_next :: "nat option"

type_synonym 'a pool = "'a dll_node list"

record dll =
  dll_first :: "nat option"
  dll_last :: "nat option"

definition free_node :: "'a dll_node" where
  "free_node = \<lparr>node_data = None, node_previous = None, node_next = None\<rparr>"

definition is_free :: "'a dll_node \<Rightarrow> bool" where
  "is_free n \<longleftrightarrow> node_previous n = None \<and> node_next n = None \<and> node_data n = None"

fun find_free :: "nat \<Rightarrow> 'a pool \<Rightarrow> nat option" where
  "find_free i [] = None"
| "find_free i (n # ns) = (if is_free n then Some i else find_free (Suc i) ns)"

definition CipConnectionObjectListArrayAllocator :: "'a pool \<Rightarrow> nat option" where
  "CipConnectionObjectListArrayAllocator h = find_free 0 h"

definition CipConnectionObjectListArrayFree :: "nat \<Rightarrow> 'a pool \<Rightarrow> 'a pool" where
  "CipConnectionObjectListArrayFree i h = h[i := free_node]"

definition DoublyLinkedListInitialize :: dll where
  "DoublyLinkedListInitialize = \<lparr>dll_first = None, dll_last = None\<rparr>"

subsection \<open>Operations\<close>

definition DoublyLinkedListNodeCreate :: "'a \<Rightarrow> 'a pool \<Rightarrow> (nat \<times> 'a pool) option" where
  "DoublyLinkedListNodeCreate d h = do {
     i \<leftarrow> CipConnectionObjectListArrayAllocator h;
     Some (i, h[i := (h ! i)\<lparr>node_data := Some d\<rparr>]) }"

definition set_next :: "nat \<Rightarrow> nat option \<Rightarrow> 'a pool \<Rightarrow> 'a pool" where
  "set_next i p h = h[i := (h ! i)\<lparr>node_next := p\<rparr>]"

definition set_previous :: "nat \<Rightarrow> nat option \<Rightarrow> 'a pool \<Rightarrow> 'a pool" where
  "set_previous i p h = h[i := (h ! i)\<lparr>node_previous := p\<rparr>]"

definition DoublyLinkedListInsertAtHead :: "'a \<Rightarrow> dll \<times> 'a pool \<Rightarrow> (dll \<times> 'a pool) option" where
  "DoublyLinkedListInsertAtHead d = (\<lambda>(l, h). do {
     (new_node, h) \<leftarrow> DoublyLinkedListNodeCreate d h;
     case dll_first l of
       None \<Rightarrow> Some (l\<lparr>dll_first := Some new_node, dll_last := Some new_node\<rparr>, h)
     | Some f \<Rightarrow>
         let h = set_next new_node (Some f) h;
             h = set_previous f (Some new_node) h
         in Some (l\<lparr>dll_first := Some new_node\<rparr>, h) })"

definition DoublyLinkedListInsertAtTail :: "'a \<Rightarrow> dll \<times> 'a pool \<Rightarrow> (dll \<times> 'a pool) option" where
  "DoublyLinkedListInsertAtTail d = (\<lambda>(l, h). do {
     (new_node, h) \<leftarrow> DoublyLinkedListNodeCreate d h;
     case dll_last l of
       None \<Rightarrow> Some (l\<lparr>dll_first := Some new_node, dll_last := Some new_node\<rparr>, h)
     | Some f \<Rightarrow>
         let h = set_previous new_node (Some f) h;
             h = set_next f (Some new_node) h
         in Some (l\<lparr>dll_last := Some new_node\<rparr>, h) })"

definition DoublyLinkedListInsertBeforeNode :: "nat \<Rightarrow> 'a \<Rightarrow> dll \<times> 'a pool \<Rightarrow> (dll \<times> 'a pool) option" where
  "DoublyLinkedListInsertBeforeNode node d = (\<lambda>(l, h).
     if dll_first l = Some node then DoublyLinkedListInsertAtHead d (l, h)
     else do {
       (new_node, h) \<leftarrow> DoublyLinkedListNodeCreate d h;
       p \<leftarrow> node_previous (h ! node);
       let h = set_previous new_node (Some p) h;
       let h = set_next new_node (Some node) h;
       let h = set_previous node (Some new_node) h;
       Some (l, set_next p (Some new_node) h) })"

definition DoublyLinkedListInsertAfterNode :: "nat \<Rightarrow> 'a \<Rightarrow> dll \<times> 'a pool \<Rightarrow> (dll \<times> 'a pool) option" where
  "DoublyLinkedListInsertAfterNode node d = (\<lambda>(l, h).
     if dll_last l = Some node then DoublyLinkedListInsertAtTail d (l, h)
     else do {
       (new_node, h) \<leftarrow> DoublyLinkedListNodeCreate d h;
       let h = set_previous new_node (Some node) h;
       q \<leftarrow> node_next (h ! node);
       let h = set_next new_node (Some q) h;
       let h = set_previous q (Some new_node) h;
       Some (l, set_next node (Some new_node) h) })"

definition DoublyLinkedListRemoveNode :: "nat \<Rightarrow> dll \<times> 'a pool \<Rightarrow> dll \<times> 'a pool" where
  "DoublyLinkedListRemoveNode node = (\<lambda>(l, h).
     let previous = node_previous (h ! node);
         nxt = node_next (h ! node);
         (l, h) =
           (if dll_first l = Some node \<and> dll_last l = Some node
            then (l\<lparr>dll_first := None, dll_last := None\<rparr>, h)
            else
              let l = (if dll_first l = Some node then l\<lparr>dll_first := nxt\<rparr> else l);
                  l = (if dll_last l = Some node then l\<lparr>dll_last := previous\<rparr> else l);
                  h = (case previous of None \<Rightarrow> h | Some p \<Rightarrow> set_next p nxt h);
                  h = (case nxt of None \<Rightarrow> h | Some q \<Rightarrow> set_previous q previous h)
              in (l, h))
     in (l, CipConnectionObjectListArrayFree node h))"

text \<open>
  \<^verbatim>\<open>DoublyLinkedListDestroy\<close>: the walk along the chain takes at most as many steps as the pool
  has nodes.
\<close>

fun destroy_nodes :: "nat \<Rightarrow> nat option \<Rightarrow> 'a pool \<Rightarrow> 'a pool" where
  "destroy_nodes 0 p h = h"
| "destroy_nodes (Suc k) None h = h"
| "destroy_nodes (Suc k) (Some i) h =
     destroy_nodes k (node_next (h ! i)) (CipConnectionObjectListArrayFree i h)"

definition DoublyLinkedListDestroy :: "dll \<times> 'a pool \<Rightarrow> dll \<times> 'a pool" where
  "DoublyLinkedListDestroy = (\<lambda>(l, h).
     (\<lparr>dll_first = None, dll_last = None\<rparr>, destroy_nodes (Suc (length h)) (dll_first l) h))"

text \<open>Following the \<^verbatim>\<open>next\<close> pointers from a node, as the loops over a list do.\<close>

fun walk :: "nat \<Rightarrow> nat option \<Rightarrow> 'a pool \<Rightarrow> nat list" where
  "walk 0 p h = []"
| "walk (Suc k) None h = []"
| "walk (Suc k) (Some i) h = i # walk k (node_next (h ! i)) h"

subsection \<open>What a list represents\<close>

text \<open>
  \<open>chain h p xs q\<close>: the nodes of \<open>xs\<close>, a list of nodes with their data, are linked in this
  order in both directions, the first one points back to \<open>p\<close> and the last one on to \<open>q\<close>.
\<close>

fun chain :: "'a pool \<Rightarrow> nat option \<Rightarrow> (nat \<times> 'a) list \<Rightarrow> nat option \<Rightarrow> bool" where
  "chain h p [] q \<longleftrightarrow> True"
| "chain h p ((i, d) # xs) q \<longleftrightarrow> i < length h
     \<and> h ! i = \<lparr>node_data = Some d, node_previous = p,
               node_next = (case xs of [] \<Rightarrow> q | x # _ \<Rightarrow> Some (fst x))\<rparr>
     \<and> chain h (Some i) xs q"

definition hd_opt :: "'a list \<Rightarrow> 'a option" where
  "hd_opt xs = (case xs of [] \<Rightarrow> None | x # _ \<Rightarrow> Some x)"

definition last_opt :: "'a list \<Rightarrow> 'a option" where
  "last_opt xs = (if xs = [] then None else Some (last xs))"

definition dll_rep :: "dll \<times> 'a pool \<Rightarrow> (nat \<times> 'a) list \<Rightarrow> bool" where
  "dll_rep = (\<lambda>(l, h) xs. chain h None xs None \<and> distinct (map fst xs)
     \<and> dll_first l = hd_opt (map fst xs) \<and> dll_last l = last_opt (map fst xs)
     \<and> (\<forall>i < length h. i \<notin> fst ` set xs \<longrightarrow> h ! i = free_node))"

lemma hd_opt_simps [simp]: "hd_opt [] = None" "hd_opt (x # xs) = Some x"
  by (simp_all add: hd_opt_def)

lemma last_opt_simps [simp]: "last_opt [] = None" "last_opt (xs @ [x]) = Some x"
  by (simp_all add: last_opt_def)

lemma last_opt_single [simp]: "last_opt [x] = Some x"
  by (simp add: last_opt_def)

lemma hd_opt_append [simp]: "hd_opt (xs @ y # z # zs) = hd_opt (xs @ [y])"
  by (cases xs) simp_all

lemma last_opt_Cons [simp]: "ys \<noteq> [] \<Longrightarrow> last_opt (x # ys) = last_opt ys"
  by (simp add: last_opt_def)

lemma chain_in_pool: "chain h p xs q \<Longrightarrow> i \<in> fst ` set xs \<Longrightarrow> i < length h \<and> \<not> is_free (h ! i)"
  by (induction h p xs q rule: chain.induct) (auto simp: is_free_def)

lemma chain_append:
  "chain h p (xs @ ys) q \<longleftrightarrow>
     chain h p xs (if ys = [] then q else Some (fst (hd ys)))
     \<and> chain h (if xs = [] then p else Some (fst (last xs))) ys q"
proof (induction xs arbitrary: p)
  case (Cons x xs)
  then show ?case by (cases x; cases xs; cases ys) auto
qed simp

lemma chain_frame [simp]:
  "j \<notin> fst ` set xs \<Longrightarrow> chain (h[j := n]) p xs q \<longleftrightarrow> chain h p xs q"
  by (induction h p xs q rule: chain.induct) (auto simp: nth_list_update)

lemma length_setters [simp]:
  "length (set_next i p h) = length h" "length (set_previous i p h) = length h"
  by (simp_all add: set_next_def set_previous_def)

lemma chain_setters_frame [simp]:
  "j \<notin> fst ` set xs \<Longrightarrow> chain (set_next j r h) p xs q \<longleftrightarrow> chain h p xs q"
  "j \<notin> fst ` set xs \<Longrightarrow> chain (set_previous j r h) p xs q \<longleftrightarrow> chain h p xs q"
  by (simp_all add: set_next_def set_previous_def)

lemma chain_set_next:
  assumes "chain h p (xs @ [(j, d)]) q" and "distinct (map fst (xs @ [(j, d)]))"
  shows "chain (set_next j q' h) p (xs @ [(j, d)]) q'"
  using assms by (auto simp: chain_append set_next_def)

lemma chain_set_previous:
  assumes "chain h p ((j, d) # ys) q" and "distinct (map fst ((j, d) # ys))"
  shows "chain (set_previous j p' h) p' ((j, d) # ys) q"
  using assms by (auto simp: set_previous_def)

subsection \<open>Linking and unlinking a node\<close>

definition link_next :: "nat option \<Rightarrow> nat option \<Rightarrow> 'a pool \<Rightarrow> 'a pool" where
  "link_next p r h = (case p of None \<Rightarrow> h | Some p \<Rightarrow> set_next p r h)"

definition link_previous :: "nat option \<Rightarrow> nat option \<Rightarrow> 'a pool \<Rightarrow> 'a pool" where
  "link_previous q r h = (case q of None \<Rightarrow> h | Some q \<Rightarrow> set_previous q r h)"

abbreviation first_of :: "(nat \<times> 'a) list \<Rightarrow> nat option" where
  "first_of xs \<equiv> hd_opt (map fst xs)"

abbreviation last_of :: "(nat \<times> 'a) list \<Rightarrow> nat option" where
  "last_of xs \<equiv> last_opt (map fst xs)"

lemma length_link [simp]:
  "length (link_next p r h) = length h" "length (link_previous q r h) = length h"
  by (simp_all add: link_next_def link_previous_def split: option.splits)

lemma first_of_in: "first_of xs = Some q \<Longrightarrow> q \<in> fst ` set xs"
  by (cases xs) auto

lemma last_of_in: "last_of xs = Some q \<Longrightarrow> q \<in> fst ` set xs"
  by (cases xs rule: rev_cases) auto

lemma nth_setters_neq:
  "i \<noteq> j \<Longrightarrow> set_next i p h ! j = h ! j" "i \<noteq> j \<Longrightarrow> set_previous i p h ! j = h ! j"
  by (simp_all add: set_next_def set_previous_def)

lemma nth_link_next: "i \<notin> fst ` set xs \<Longrightarrow> link_next (last_of xs) r h ! i = h ! i"
  using last_of_in [of xs i] by (cases "last_of xs") (auto simp: link_next_def intro: nth_setters_neq)

lemma nth_link_previous: "i \<notin> fst ` set xs \<Longrightarrow> link_previous (first_of xs) r h ! i = h ! i"
  using first_of_in [of xs i] by (cases "first_of xs") (auto simp: link_previous_def intro: nth_setters_neq)

lemma chain_link_next:
  "chain h p xs a \<Longrightarrow> distinct (map fst xs) \<Longrightarrow> chain (link_next (last_of xs) r h) p xs r"
  by (cases xs rule: rev_cases) (auto simp: link_next_def intro!: chain_set_next)

lemma chain_link_previous:
  "chain h b ys q \<Longrightarrow> distinct (map fst ys) \<Longrightarrow> chain (link_previous (first_of ys) r h) r ys q"
  by (cases ys) (auto simp: link_previous_def set_previous_def)

lemma chain_join:
  fixes h :: "'a pool" and r s :: "nat option"
  assumes "chain h p xs a" and "chain h b ys q" and "distinct (map fst (xs @ ys))"
  defines "h' \<equiv> link_previous (first_of ys) s (link_next (last_of xs) r h)"
  shows "chain h' p xs r" and "chain h' s ys q"
proof -
  have dis: "fst ` set xs \<inter> fst ` set ys = {}"
    using assms(3) by (auto simp: map_append)
  have 1: "chain (link_next (last_of xs) r h) p xs r"
    using assms(1,3) by (intro chain_link_next) auto
  have "a \<notin> fst ` set ys" if "last_of xs = Some a" for a
    using that dis last_of_in [of xs a] by blast
  then have 2: "chain (link_next (last_of xs) r h) b ys q"
    using assms(2) by (cases "last_of xs") (simp_all add: link_next_def)
  have "a \<notin> fst ` set xs" if "first_of ys = Some a" for a
    using that dis first_of_in [of ys a] by blast
  then show "chain h' p xs r"
    using 1 unfolding h'_def by (cases "first_of ys") (simp_all add: link_previous_def)
  show "chain h' s ys q"
    unfolding h'_def using 2 assms(3) by (intro chain_link_previous) auto
qed

lemma last_of_append: "last_of (xs @ ys) = (if ys = [] then last_of xs else last_of ys)"
  by (simp add: last_opt_def)

lemma first_of_append: "first_of (xs @ ys) = (if xs = [] then first_of ys else first_of xs)"
  by (cases xs) auto

lemma last_of_None [simp]: "last_of xs = None \<longleftrightarrow> xs = []"
  by (simp add: last_opt_def)

lemma first_of_None [simp]: "first_of xs = None \<longleftrightarrow> xs = []"
  by (cases xs) auto

lemma chain_append_None:
  "chain h None (xs @ ys) None \<longleftrightarrow> chain h None xs (first_of ys) \<and> chain h (last_of xs) ys None"
  by (cases ys) (simp_all add: chain_append last_opt_def last_map)

lemma chain_split:
  "chain h p (xs @ (i, d) # ys) q \<longleftrightarrow>
     chain h p xs (Some i)
     \<and> i < length h
     \<and> h ! i = \<lparr>node_data = Some d, node_previous = (if xs = [] then p else last_of xs),
               node_next = (if ys = [] then q else first_of ys)\<rparr>
     \<and> chain h (Some i) ys q"
  by (auto simp: chain_append last_opt_def hd_opt_def last_map split: list.splits)

lemma dll_repI:
  assumes "chain h None xs None" and "distinct (map fst xs)" and "dll_first l = first_of xs"
    and "dll_last l = last_of xs" and "\<And>i. i < length h \<Longrightarrow> i \<notin> fst ` set xs \<Longrightarrow> h ! i = free_node"
  shows "dll_rep (l, h) xs"
  using assms by (simp add: dll_rep_def)

lemma dll_repD:
  assumes "dll_rep (l, h) xs"
  shows "chain h None xs None" "distinct (map fst xs)" "dll_first l = first_of xs"
    "dll_last l = last_of xs" "\<And>i. i < length h \<Longrightarrow> i \<notin> fst ` set xs \<Longrightarrow> h ! i = free_node"
  using assms by (simp_all add: dll_rep_def)

lemma dll_rep_splice:
  fixes h :: "'a pool" and d :: 'a
  assumes rep: "dll_rep (l, h) (xs @ ys)" and i: "i < length h" "i \<notin> fst ` set (xs @ ys)"
  defines "n \<equiv> \<lparr>node_data = Some d, node_previous = last_of xs, node_next = first_of ys\<rparr>"
  shows "dll_rep (\<lparr>dll_first = first_of (xs @ [(i, d)]), dll_last = last_of ((i, d) # ys)\<rparr>,
           link_previous (first_of ys) (Some i) (link_next (last_of xs) (Some i) (h[i := n])))
         (xs @ (i, d) # ys)" (is "dll_rep (?l, ?h) _")
proof -
  note r = dll_repD [OF rep]
  have c: "chain (h[i := n]) None xs (first_of ys)" "chain (h[i := n]) (last_of xs) ys None"
    using r(1) i(2) by (simp_all add: chain_append_None image_Un)
  note j = chain_join [OF c r(2), of "Some i" "Some i"]
  have hi: "?h ! i = n"
    using i by (simp add: nth_link_previous nth_link_next image_Un)
  show ?thesis
  proof (rule dll_repI)
    show "chain ?h None (xs @ (i, d) # ys) None"
      unfolding chain_split using j hi i by (auto simp: n_def)
    show "distinct (map fst (xs @ (i, d) # ys))"
      using r(2) i(2) by auto
    show "?h ! k = free_node" if "k < length ?h" "k \<notin> fst ` set (xs @ (i, d) # ys)" for k
      using that r(5) by (simp add: nth_link_previous nth_link_next image_Un)
  qed ((cases xs; simp add: last_opt_def)+)
qed

lemma dll_rep_unlink:
  assumes rep: "dll_rep (l, h) (xs @ (i, d) # ys)"
  shows "dll_rep (\<lparr>dll_first = first_of (xs @ ys), dll_last = last_of (xs @ ys)\<rparr>,
           (link_previous (first_of ys) (last_of xs) (link_next (last_of xs) (first_of ys) h))[i := free_node])
         (xs @ ys)" (is "dll_rep (?l, ?h[i := _]) _")
proof -
  note r = dll_repD [OF rep]
  have c: "chain h None xs (Some i)" "chain h (Some i) ys None"
    using r(1) by (simp_all add: chain_split)
  have d: "distinct (map fst (xs @ ys))" "i \<notin> fst ` set (xs @ ys)"
    using r(2) by auto
  note j = chain_join [OF c d(1), of "last_of xs" "first_of ys"]
  show ?thesis
  proof (rule dll_repI)
    show "chain (?h[i := free_node]) None (xs @ ys) None"
      using j d(2) by (simp add: chain_append_None image_Un)
    show "?h[i := free_node] ! k = free_node"
      if "k < length (?h[i := free_node])" "k \<notin> fst ` set (xs @ ys)" for k
      using that r(5) by (cases "k = i") (simp_all add: nth_link_previous nth_link_next image_Un)
  qed (use d in simp_all)
qed


subsection \<open>The operations on the represented list\<close>

lemma find_free_Some: "find_free k ns = Some j \<Longrightarrow> k \<le> j \<and> j < k + length ns \<and> is_free (ns ! (j - k))"
  by (induction k ns rule: find_free.induct) (force split: if_splits simp: nth_Cons' Suc_le_eq)+

lemma find_free_None: "find_free k ns = None \<longleftrightarrow> (\<forall>n \<in> set ns. \<not> is_free n)"
  by (induction k ns rule: find_free.induct) auto

lemma is_free_iff: "is_free n \<longleftrightarrow> n = free_node"
  by (cases n) (auto simp: is_free_def free_node_def)

lemma dll_rep_nodes:
  assumes "dll_rep (l, h) xs"
  shows "fst ` set xs \<subseteq> {..<length h}" and "length xs = card (fst ` set xs)" and "length xs \<le> length h"
    and "i < length h \<Longrightarrow> is_free (h ! i) \<longleftrightarrow> i \<notin> fst ` set xs"
proof -
  note r = dll_repD [OF assms]
  show sub: "fst ` set xs \<subseteq> {..<length h}"
    using chain_in_pool [OF r(1)] by auto
  show c: "length xs = card (fst ` set xs)"
    using distinct_card [OF r(2)] by simp
  show "length xs \<le> length h"
    unfolding c using card_mono [OF _ sub] by simp
  show "i < length h \<Longrightarrow> is_free (h ! i) \<longleftrightarrow> i \<notin> fst ` set xs"
    using chain_in_pool [OF r(1), of i] r(5) [of i] by (auto simp: is_free_iff)
qed

lemma node_create:
  assumes rep: "dll_rep (l, h) xs" and room: "length xs < length h"
  obtains i where "i < length h" and "i \<notin> fst ` set xs"
    and "DoublyLinkedListNodeCreate d h =
      Some (i, h[i := \<lparr>node_data = Some d, node_previous = None, node_next = None\<rparr>])"
proof -
  have "fst ` set xs \<noteq> {..<length h}"
    using dll_rep_nodes(2) [OF rep] room by (metis card_lessThan less_irrefl)
  then obtain k where k: "k < length h" "k \<notin> fst ` set xs"
    using dll_rep_nodes(1) [OF rep] by auto
  then have "find_free 0 h \<noteq> None"
    using dll_rep_nodes(4) [OF rep, of k] nth_mem [of k h] by (auto simp: find_free_None)
  then obtain i where i: "find_free 0 h = Some i" by blast
  then have "i < length h" "is_free (h ! i)"
    using find_free_Some [OF i] by simp_all
  with i dll_rep_nodes(4) [OF rep, of i] show ?thesis
    by (intro that [of i])
      (simp_all add: DoublyLinkedListNodeCreate_def CipConnectionObjectListArrayAllocator_def is_free_iff free_node_def)
qed

lemma node_create_full:
  assumes rep: "dll_rep (l, h) xs" and full: "length xs = length h"
  shows "DoublyLinkedListNodeCreate d h = None"
proof -
  have "fst ` set xs = {..<length h}"
    using dll_rep_nodes(1,2) [OF rep] full by (intro card_subset_eq) auto
  then have "find_free 0 h = None"
    unfolding find_free_None using dll_rep_nodes(4) [OF rep] by (auto simp: in_set_conv_nth)
  then show ?thesis
    by (simp add: DoublyLinkedListNodeCreate_def CipConnectionObjectListArrayAllocator_def)
qed

lemma dll_eqI: "dll_first l = a \<Longrightarrow> dll_last l = b \<Longrightarrow> l = \<lparr>dll_first = a, dll_last = b\<rparr>"
  by (cases l) simp

lemma insert_at_head:
  assumes rep: "dll_rep (l, h) xs" and room: "length xs < length h"
  shows "\<exists>i l' h'. DoublyLinkedListInsertAtHead d (l, h) = Some (l', h') \<and> length h' = length h
    \<and> i \<notin> fst ` set xs \<and> dll_rep (l', h') ((i, d) # xs)"
proof -
  obtain i where i: "i < length h" "i \<notin> fst ` set xs"
    and create: "DoublyLinkedListNodeCreate d h =
      Some (i, h[i := \<lparr>node_data = Some d, node_previous = None, node_next = None\<rparr>])"
    using node_create [OF assms] .
  note r = dll_repD [OF rep]
  have "dll_rep (\<lparr>dll_first = Some i, dll_last = last_of ((i, d) # xs)\<rparr>,
      link_previous (first_of xs) (Some i)
       (h[i := \<lparr>node_data = Some d, node_previous = None, node_next = first_of xs\<rparr>])) ((i, d) # xs)"
    using dll_rep_splice [of l h "[]" xs i d] rep i by (simp add: link_next_def)
  then show ?thesis
    using i r(3,4) by (cases xs; cases l)
      (auto simp: DoublyLinkedListInsertAtHead_def create link_previous_def set_next_def image_iff)
qed

lemma insert_at_tail:
  assumes rep: "dll_rep (l, h) xs" and room: "length xs < length h"
  shows "\<exists>i l' h'. DoublyLinkedListInsertAtTail d (l, h) = Some (l', h') \<and> length h' = length h
    \<and> i \<notin> fst ` set xs \<and> dll_rep (l', h') (xs @ [(i, d)])"
proof -
  obtain i where i: "i < length h" "i \<notin> fst ` set xs"
    and create: "DoublyLinkedListNodeCreate d h =
      Some (i, h[i := \<lparr>node_data = Some d, node_previous = None, node_next = None\<rparr>])"
    using node_create [OF assms] .
  note r = dll_repD [OF rep]
  have "dll_rep (\<lparr>dll_first = first_of (xs @ [(i, d)]), dll_last = Some i\<rparr>,
      link_next (last_of xs) (Some i)
       (h[i := \<lparr>node_data = Some d, node_previous = last_of xs, node_next = None\<rparr>])) (xs @ [(i, d)])"
    using dll_rep_splice [of l h xs "[]" i d] rep i by (simp add: link_previous_def last_opt_def)
  then show ?thesis
    using i r(3,4) by (cases xs rule: rev_cases; cases l)
      (auto simp: DoublyLinkedListInsertAtTail_def create link_next_def set_previous_def image_iff
        first_of_append)
qed

lemma remove_node:
  assumes rep: "dll_rep (l, h) (xs @ (i, d) # ys)"
  shows "\<exists>l' h'. DoublyLinkedListRemoveNode i (l, h) = (l', h') \<and> length h' = length h
    \<and> dll_rep (l', h') (xs @ ys)"
proof -
  note r = dll_repD [OF rep]
  have n: "node_previous (h ! i) = last_of xs" "node_next (h ! i) = first_of ys"
    using r(1) unfolding chain_split by (auto simp: hd_opt_def)
  have out: "i \<notin> fst ` set xs" "i \<notin> fst ` set ys"
    using r(2) by auto
  have f: "dll_first l = Some i \<longleftrightarrow> xs = []"
    using r(3) out(1) first_of_in [of xs i] by (cases xs) auto
  have la: "dll_last l = Some i \<longleftrightarrow> ys = []"
    using r(4) out(2) last_of_in [of ys i] by (auto simp: last_opt_def split: if_splits)
  have "DoublyLinkedListRemoveNode i (l, h) =
     (\<lparr>dll_first = first_of (xs @ ys), dll_last = last_of (xs @ ys)\<rparr>,
      (link_previous (first_of ys) (last_of xs) (link_next (last_of xs) (first_of ys) h))[i := free_node])"
    using f la
    by (subst (1) dll_eqI [OF r(3,4)], cases "xs = []"; cases "ys = []")
       (simp_all add: r(3,4) DoublyLinkedListRemoveNode_def CipConnectionObjectListArrayFree_def n
         link_next_def link_previous_def first_of_append last_of_append del: map_append split: option.split)
  then show ?thesis
    using dll_rep_unlink [OF rep] by simp
qed


lemma insert_between:
  assumes rep: "dll_rep (l, h) (xs @ (a, x) # (b, y) # ys)"
    and room: "length (xs @ (a, x) # (b, y) # ys) < length h"
  obtains i where "i \<notin> fst ` set (xs @ (a, x) # (b, y) # ys)"
    and "dll_rep (l, set_previous b (Some i) (set_next a (Some i)
           (h[i := \<lparr>node_data = Some d, node_previous = Some a, node_next = Some b\<rparr>])))
          (xs @ (a, x) # (i, d) # (b, y) # ys)"
    and "DoublyLinkedListNodeCreate d h =
      Some (i, h[i := \<lparr>node_data = Some d, node_previous = None, node_next = None\<rparr>])"
    and "i < length h" and "node_next (h ! a) = Some b" and "node_previous (h ! b) = Some a"
    and "i \<noteq> a" and "i \<noteq> b" and "a \<noteq> b" and "dll_first l \<noteq> Some b" and "dll_last l \<noteq> Some a"
    and "a < length h" and "b < length h"
proof -
  note r = dll_repD [OF rep]
  obtain i where i: "i < length h" "i \<notin> fst ` set (xs @ (a, x) # (b, y) # ys)"
    and create: "DoublyLinkedListNodeCreate d h =
      Some (i, h[i := \<lparr>node_data = Some d, node_previous = None, node_next = None\<rparr>])"
    using node_create [OF assms] .
  have l: "l = \<lparr>dll_first = first_of (xs @ [(a, x)]), dll_last = last_of ((b, y) # ys)\<rparr>"
    using r(3,4) by (cases l) (simp add: last_opt_def)
  have lf: "dll_first l \<noteq> Some b" "dll_last l \<noteq> Some a"
    using r(2) first_of_in [of xs b] last_of_in [of ys a] unfolding l
    by (cases xs; auto simp: last_opt_def split: if_splits)+
  have c: "node_next (h ! a) = Some b" "node_previous (h ! b) = Some a" "a < length h" "b < length h"
    using r(1) unfolding chain_split by auto
  show ?thesis
    using dll_rep_splice [of l h "xs @ [(a, x)]" "(b, y) # ys" i d] rep i l lf c r(2) create
    by (intro that [of i]) (auto simp: link_next_def link_previous_def last_opt_def)
qed

lemma update_absorb:
  "i \<noteq> a \<Longrightarrow> i \<noteq> b \<Longrightarrow> h[i := n, a := x, b := y, i := m] = h[a := x, b := y, i := m]"
  by (simp add: list_update_swap [of i])

lemma insert_before_node:
  assumes rep: "dll_rep (l, h) (xs @ (b, y) # ys)" and room: "length (xs @ (b, y) # ys) < length h"
  shows "\<exists>i l' h'. DoublyLinkedListInsertBeforeNode b d (l, h) = Some (l', h') \<and> length h' = length h
    \<and> i \<notin> fst ` set (xs @ (b, y) # ys) \<and> dll_rep (l', h') (xs @ (i, d) # (b, y) # ys)"
proof (cases xs rule: rev_cases)
  case Nil
  with rep have "dll_first l = Some b"
    using dll_repD(3) by fastforce
  with Nil insert_at_head [OF rep room, of d] show ?thesis
    by (simp add: DoublyLinkedListInsertBeforeNode_def)
next
  case (snoc zs z)
  obtain a x where z: "z = (a, x)" by (cases z)
  have rep': "dll_rep (l, h) (zs @ (a, x) # (b, y) # ys)"
    and room': "length (zs @ (a, x) # (b, y) # ys) < length h"
    using rep room by (simp_all add: snoc z)
  show ?thesis
    by (rule insert_between [OF rep' room', where d = d])
       (auto simp: DoublyLinkedListInsertBeforeNode_def set_next_def set_previous_def snoc z
         list_update_swap update_absorb intro!: exI)
qed

lemma insert_after_node:
  assumes rep: "dll_rep (l, h) (xs @ (a, x) # ys)" and room: "length (xs @ (a, x) # ys) < length h"
  shows "\<exists>i l' h'. DoublyLinkedListInsertAfterNode a d (l, h) = Some (l', h') \<and> length h' = length h
    \<and> i \<notin> fst ` set (xs @ (a, x) # ys) \<and> dll_rep (l', h') (xs @ (a, x) # (i, d) # ys)"
proof (cases ys)
  case Nil
  with rep have "dll_last l = Some a"
    using dll_repD(4) by fastforce
  with Nil insert_at_tail [OF rep room, of d] show ?thesis
    by (simp add: DoublyLinkedListInsertAfterNode_def)
next
  case (Cons z zs)
  obtain b y where z: "z = (b, y)" by (cases z)
  have rep': "dll_rep (l, h) (xs @ (a, x) # (b, y) # zs)"
    and room': "length (xs @ (a, x) # (b, y) # zs) < length h"
    using rep room by (simp_all add: Cons z)
  show ?thesis
    by (rule insert_between [OF rep' room', where d = d])
       (auto simp: DoublyLinkedListInsertAfterNode_def set_next_def set_previous_def Cons z
         list_update_swap update_absorb intro!: exI)
qed

lemma insert_full:
  assumes "dll_rep (l, h) xs" and "length xs = length h"
  shows "DoublyLinkedListInsertAtHead d (l, h) = None" and "DoublyLinkedListInsertAtTail d (l, h) = None"
    and "DoublyLinkedListInsertBeforeNode i d (l, h) = None"
    and "DoublyLinkedListInsertAfterNode i d (l, h) = None"
  using node_create_full [OF assms]
  by (simp_all add: DoublyLinkedListInsertAtHead_def DoublyLinkedListInsertAtTail_def
      DoublyLinkedListInsertBeforeNode_def DoublyLinkedListInsertAfterNode_def)

lemma nth_list_update': "i < length h \<Longrightarrow> h[j := n] ! i = (if i = j then n else h ! i)"
  by (cases "i = j") simp_all

lemma destroy_chain:
  "chain h p xs None \<Longrightarrow> distinct (map fst xs) \<Longrightarrow> length xs < k \<Longrightarrow>
   (\<And>i. i < length h \<Longrightarrow> i \<notin> fst ` set xs \<Longrightarrow> h ! i = free_node) \<Longrightarrow>
   destroy_nodes k (first_of xs) h = replicate (length h) free_node"
proof (induction xs arbitrary: h p k)
  case Nil
  then show ?case by (cases k) (auto intro: nth_equalityI)
next
  case (Cons x xs)
  obtain i d where x: "x = (i, d)" by (cases x)
  obtain k' where k: "k = Suc k'" using Cons.prems(3) by (cases k) auto
  have c: "chain (h[i := free_node]) (Some i) xs None"
    using Cons.prems(1,2) by (simp add: x)
  have n: "node_next (h ! i) = first_of xs"
    using Cons.prems(1) by (simp add: x hd_opt_def split: list.split)
  have "destroy_nodes k' (first_of xs) (h[i := free_node]) = replicate (length (h[i := free_node])) free_node"
    using Cons.prems(2-4) by (intro Cons.IH [OF c]) (auto simp: k x nth_list_update')
  then show ?case
    by (simp add: k x n CipConnectionObjectListArrayFree_def)
qed

lemma walk_chain:
  "chain h p xs None \<Longrightarrow> length xs < k \<Longrightarrow> walk k (first_of xs) h = map fst xs"
proof (induction xs arbitrary: p k)
  case Nil
  then show ?case by (cases k) auto
next
  case (Cons x xs)
  then show ?case
    by (cases x; cases k) (auto simp: hd_opt_def split: list.splits)
qed


text \<open>The data of the nodes in the order of the list, as a loop over the list meets them.\<close>

definition list_data :: "dll \<times> 'a pool \<Rightarrow> 'a list" where
  "list_data = (\<lambda>(l, h). List.map_filter (\<lambda>i. node_data (h ! i)) (walk (Suc (length h)) (dll_first l) h))"

lemma map_filter_chain: "chain h p xs q \<Longrightarrow> List.map_filter (\<lambda>i. node_data (h ! i)) (map fst xs) = map snd xs"
  by (induction xs arbitrary: p) (auto simp: List.map_filter_simps)

subsection \<open>The list as an interface\<close>

text \<open>
  What the users of the list rely on: a state stands for a list of nodes with their data, in a
  pool of fixed capacity. Inserting succeeds exactly while the pool has a free node; a removed
  node becomes free again.
\<close>

primrec insert_all :: "('a \<Rightarrow> 's \<Rightarrow> 's option) \<Rightarrow> 'a list \<Rightarrow> 's \<Rightarrow> 's option" where
  "insert_all ins [] s = Some s"
| "insert_all ins (d # ds) s = Option.bind (ins d s) (insert_all ins ds)"

locale node_list =
  fixes rep :: "'s \<Rightarrow> (nat \<times> 'a) list \<Rightarrow> bool"
    and capacity :: "'s \<Rightarrow> nat"
    and insert_head :: "'a \<Rightarrow> 's \<Rightarrow> 's option"
    and remove :: "nat \<Rightarrow> 's \<Rightarrow> 's"
  assumes bounded: "rep s xs \<Longrightarrow> length xs \<le> capacity s"
    and insert_free: "rep s xs \<Longrightarrow> length xs < capacity s \<Longrightarrow>
      \<exists>i s'. insert_head d s = Some s' \<and> i \<notin> fst ` set xs \<and> rep s' ((i, d) # xs) \<and> capacity s' = capacity s"
    and insert_full: "rep s xs \<Longrightarrow> length xs = capacity s \<Longrightarrow> insert_head d s = None"
    and remove_node: "rep s (xs @ (i, d) # ys) \<Longrightarrow>
      rep (remove i s) (xs @ ys) \<and> capacity (remove i s) = capacity s"
begin

lemma insert_head_iff: "rep s xs \<Longrightarrow> insert_head d s \<noteq> None \<longleftrightarrow> length xs < capacity s"
  using bounded [of s xs] insert_free [of s xs d] insert_full [of s xs d] by fastforce

lemma insert_all_iff:
  "rep s xs \<Longrightarrow> insert_all insert_head ds s \<noteq> None \<longleftrightarrow> length xs + length ds \<le> capacity s"
proof (induction ds arbitrary: s xs)
  case Nil
  then show ?case using bounded by simp
next
  case (Cons d ds)
  show ?case
  proof (cases "length xs < capacity s")
    case True
    then obtain i s' where "insert_head d s = Some s'" "rep s' ((i, d) # xs)" "capacity s' = capacity s"
      using insert_free [OF Cons.prems] by blast
    then show ?thesis using Cons.IH by fastforce
  next
    case False
    then have "insert_head d s = None"
      using bounded [OF Cons.prems] by (intro insert_full [OF Cons.prems]) simp
    then show ?thesis using False by simp
  qed
qed

lemma insert_all_contents:
  "rep s xs \<Longrightarrow> insert_all insert_head ds s = Some s' \<Longrightarrow>
   \<exists>ys. rep s' (ys @ xs) \<and> map snd ys = rev ds \<and> capacity s' = capacity s"
proof (induction ds arbitrary: s xs)
  case (Cons d ds)
  then have "insert_head d s \<noteq> None" by (auto simp: bind_eq_Some_conv)
  then have "length xs < capacity s" using insert_head_iff [OF Cons.prems(1)] by simp
  then obtain i t where t: "insert_head d s = Some t" "rep t ((i, d) # xs)" "capacity t = capacity s"
    using insert_free [OF Cons.prems(1)] by blast
  with Cons.IH [OF t(2)] Cons.prems(2) obtain ys
    where "rep s' (ys @ (i, d) # xs)" "map snd ys = rev ds" "capacity s' = capacity s" by auto
  then show ?case by (intro exI [of _ "ys @ [(i, d)]"]) simp
qed simp

lemma insert_then_remove:
  assumes "rep s xs" and "insert_head d s = Some s'"
  shows "\<exists>i. rep s' ((i, d) # xs) \<and> rep (remove i s') xs"
proof -
  have "length xs < capacity s" using insert_head_iff [OF assms(1), of d] assms(2) by simp
  then obtain i where "rep s' ((i, d) # xs)" using insert_free [OF assms(1), of d] assms(2) by auto
  then show ?thesis using remove_node [of s' "[]" i d xs] by auto
qed

end

definition pool_capacity :: "dll \<times> 'a pool \<Rightarrow> nat" where
  "pool_capacity = (\<lambda>(l, h). length h)"

interpretation dl: node_list dll_rep pool_capacity DoublyLinkedListInsertAtHead DoublyLinkedListRemoveNode
proof (unfold_locales, goal_cases)
  case (1 s xs)
  then show ?case using dll_rep_nodes(3) by (cases s) (auto simp: pool_capacity_def)
next
  case (2 s xs d)
  then show ?case using insert_at_head [of "fst s" "snd s" xs d] by (cases s) (fastforce simp: pool_capacity_def)
next
  case (3 s xs d)
  then show ?case using insert_full(1) by (cases s) (auto simp: pool_capacity_def)
next
  case (4 s xs i d ys)
  then show ?case using remove_node [of "fst s" "snd s" xs i d ys] by (cases s) (auto simp: pool_capacity_def)
qed

lemma list_data_rep: "dll_rep s xs \<Longrightarrow> list_data s = map snd xs"
proof -
  assume r: "dll_rep s xs"
  obtain l h where s: "s = (l, h)" by (cases s)
  have "length xs \<le> length h" using dl.bounded [OF r] by (simp add: s pool_capacity_def)
  then have "walk (Suc (length h)) (dll_first l) h = map fst xs"
    using walk_chain [of h None xs "Suc (length h)"] r by (simp add: s dll_rep_def)
  then show ?thesis
    using r map_filter_chain [of h None xs None] by (simp add: s list_data_def dll_rep_def)
qed

lemma empty_list: "dll_rep (DoublyLinkedListInitialize, replicate n free_node) []"
  by (simp add: dll_rep_def DoublyLinkedListInitialize_def)

subsection \<open>Properties\<close>

text \<open>
  C31: The four insertions refine insertion into a list: in a well-formed list, the empty one included, on a pool with a
  free node, inserting at the head or at the tail, and inserting before or after any of its nodes, puts one new node with
  the given data at that place, keeps all other nodes and the links in both directions, and
  yields a well-formed list on a pool of the same size.
\<close>
theorem dll_insert_refines:
  assumes "dll_rep (l, h) zs" and "length zs < length h"
  shows "(\<exists>i l' h'. DoublyLinkedListInsertAtHead d (l, h) = Some (l', h') \<and> length h' = length h
           \<and> i \<notin> fst ` set zs \<and> dll_rep (l', h') ((i, d) # zs))
    \<and> (\<exists>i l' h'. DoublyLinkedListInsertAtTail d (l, h) = Some (l', h') \<and> length h' = length h
           \<and> i \<notin> fst ` set zs \<and> dll_rep (l', h') (zs @ [(i, d)]))
    \<and> (\<forall>xs b y ys. zs = xs @ (b, y) # ys \<longrightarrow>
         (\<exists>i l' h'. DoublyLinkedListInsertBeforeNode b d (l, h) = Some (l', h') \<and> dll_rep (l', h') (xs @ (i, d) # (b, y) # ys))
       \<and> (\<exists>i l' h'. DoublyLinkedListInsertAfterNode b d (l, h) = Some (l', h') \<and> dll_rep (l', h') (xs @ (b, y) # (i, d) # ys)))"
proof (intro conjI allI impI)
  show "\<exists>i l' h'. DoublyLinkedListInsertAtHead d (l, h) = Some (l', h') \<and> length h' = length h
      \<and> i \<notin> fst ` set zs \<and> dll_rep (l', h') ((i, d) # zs)"
    by (rule insert_at_head [OF assms])
  show "\<exists>i l' h'. DoublyLinkedListInsertAtTail d (l, h) = Some (l', h') \<and> length h' = length h
      \<and> i \<notin> fst ` set zs \<and> dll_rep (l', h') (zs @ [(i, d)])"
    by (rule insert_at_tail [OF assms])
next
  fix xs b y ys assume zs: "zs = xs @ (b, y) # ys"
  show "\<exists>i l' h'. DoublyLinkedListInsertBeforeNode b d (l, h) = Some (l', h') \<and> dll_rep (l', h') (xs @ (i, d) # (b, y) # ys)"
    using insert_before_node [OF assms [unfolded zs], of d] by blast
  show "\<exists>i l' h'. DoublyLinkedListInsertAfterNode b d (l, h) = Some (l', h') \<and> dll_rep (l', h') (xs @ (b, y) # (i, d) # ys)"
    using insert_after_node [OF assms [unfolded zs], of d] by blast
qed

definition two_nodes :: "dll \<times> nat pool" where
  "two_nodes = (\<lparr>dll_first = Some 1, dll_last = Some 0\<rparr>,
     [\<lparr>node_data = Some 10, node_previous = Some 1, node_next = None\<rparr>,
      \<lparr>node_data = Some 11, node_previous = None, node_next = Some 0\<rparr>, free_node])"

lemma two_nodes_rep: "dll_rep two_nodes [(1, 11), (0, 10)]"
  by (auto simp: dll_rep_def two_nodes_def last_opt_def less_Suc_eq)

text \<open>The list that two insertions at the head leave in a pool of three nodes, and the empty list.\<close>
lemma dll_insert_refines_witness:
  "dll_rep two_nodes ([(1, 11)] @ (0, 10) # []) \<and>
   (\<exists>i l' h'. DoublyLinkedListInsertBeforeNode 0 5 two_nodes = Some (l', h')
      \<and> dll_rep (l', h') [(1, 11), (i, 5), (0, 10)])
   \<and> (\<exists>i l' h'. DoublyLinkedListInsertAtTail (5 :: nat) (DoublyLinkedListInitialize, replicate 2 free_node) = Some (l', h')
      \<and> dll_rep (l', h') [(i, 5)])"
proof (intro conjI)
  show rep: "dll_rep two_nodes ([(1, 11)] @ (0, 10) # [])" using two_nodes_rep by simp
  have "length ([(1, 11)] @ (0, 10) # []) < length (snd two_nodes)" by (simp add: two_nodes_def)
  with rep have "\<exists>i l' h'. DoublyLinkedListInsertBeforeNode 0 5 (fst two_nodes, snd two_nodes) = Some (l', h')
      \<and> dll_rep (l', h') ([(1, 11)] @ (i, 5) # (0, 10) # [])"
    by (intro dll_insert_refines [of "fst two_nodes" "snd two_nodes" "[(1, 11)] @ (0, 10) # []" 5, THEN conjunct2, THEN conjunct2,
          rule_format, of "[(1, 11)]" 0 10 "[]", THEN conjunct1]) simp_all
  then show "\<exists>i l' h'. DoublyLinkedListInsertBeforeNode 0 5 two_nodes = Some (l', h') \<and> dll_rep (l', h') [(1, 11), (i, 5), (0, 10)]"
    by simp
  show "\<exists>i l' h'. DoublyLinkedListInsertAtTail (5 :: nat) (DoublyLinkedListInitialize, replicate 2 free_node) = Some (l', h')
      \<and> dll_rep (l', h') [(i, 5)]"
    using dll_insert_refines [OF empty_list, of 2 "5 :: nat"] by auto
qed

text \<open>
  C32: Removing a node of a well-formed list leaves a well-formed list of the other nodes in
  their order, and the node is free for the next insertion; destroying the list frees every node.
\<close>
theorem dll_remove_and_destroy:
  assumes "dll_rep (l, h) (xs @ (i, d) # ys)"
  shows "\<exists>l' h'. DoublyLinkedListRemoveNode i (l, h) = (l', h') \<and> dll_rep (l', h') (xs @ ys)
      \<and> h' ! i = free_node \<and> DoublyLinkedListInsertAtHead e (l', h') \<noteq> None
      \<and> DoublyLinkedListDestroy (l, h) = (DoublyLinkedListInitialize, replicate (length h) free_node)"
proof -
  obtain l' h' where r: "DoublyLinkedListRemoveNode i (l, h) = (l', h')" "length h' = length h"
    "dll_rep (l', h') (xs @ ys)"
    using remove_node [OF assms] by blast
  note s = dll_repD [OF assms]
  have "i < length h"
    using dll_rep_nodes(1) [OF assms] by simp
  then have "h' ! i = free_node"
    using s(2) by (intro dll_repD(5) [OF r(3)]) (auto simp: r(2))
  moreover have "DoublyLinkedListInsertAtHead e (l', h') \<noteq> None"
    using dl.insert_head_iff [OF r(3), of e] dll_rep_nodes(3) [OF assms]
    by (simp add: pool_capacity_def r(2))
  moreover have "destroy_nodes (Suc (length h)) (dll_first l) h = replicate (length h) free_node"
    unfolding s(3) by (rule destroy_chain [OF s(1,2) _ s(5)]) (use dll_rep_nodes(3) [OF assms] in auto)
  ultimately show ?thesis
    using r(1,3) by (simp add: DoublyLinkedListDestroy_def DoublyLinkedListInitialize_def)
qed

lemma dll_remove_and_destroy_witness:
  "dll_rep two_nodes ([(1, 11)] @ (0, 10) # []) \<and>
   (\<exists>l' h'. DoublyLinkedListRemoveNode 0 two_nodes = (l', h') \<and> dll_rep (l', h') [(1, 11)])"
  using dll_remove_and_destroy [of "fst two_nodes" "snd two_nodes" "[(1, 11)]" 0 10 "[]" 5] two_nodes_rep
  by auto

subsection \<open>The pool of the connection list\<close>

text \<open>
  The numbers of connections of the POSIX configuration
  (\<^verbatim>\<open>ports/POSIX/sample_application/opener_user_conf.h\<close>) and the size of the node pool of the
  list of active connections (\<^verbatim>\<open>kNodesAmount\<close>).
\<close>

definition OPENER_CIP_NUM_EXPLICIT_CONNS :: nat where
  "OPENER_CIP_NUM_EXPLICIT_CONNS = 6"

definition OPENER_CIP_NUM_EXLUSIVE_OWNER_CONNS :: nat where
  "OPENER_CIP_NUM_EXLUSIVE_OWNER_CONNS = 1"

definition OPENER_CIP_NUM_INPUT_ONLY_CONNS :: nat where
  "OPENER_CIP_NUM_INPUT_ONLY_CONNS = 1"

definition OPENER_CIP_NUM_INPUT_ONLY_CONNS_PER_CON_PATH :: nat where
  "OPENER_CIP_NUM_INPUT_ONLY_CONNS_PER_CON_PATH = 3"

definition OPENER_CIP_NUM_LISTEN_ONLY_CONNS :: nat where
  "OPENER_CIP_NUM_LISTEN_ONLY_CONNS = 1"

definition OPENER_CIP_NUM_LISTEN_ONLY_CONNS_PER_CON_PATH :: nat where
  "OPENER_CIP_NUM_LISTEN_ONLY_CONNS_PER_CON_PATH = 3"

definition kNodesAmount :: nat where
  "kNodesAmount = OPENER_CIP_NUM_EXPLICIT_CONNS + OPENER_CIP_NUM_INPUT_ONLY_CONNS
     + OPENER_CIP_NUM_EXLUSIVE_OWNER_CONNS + OPENER_CIP_NUM_LISTEN_ONLY_CONNS"

text \<open>
  The connection objects that can be active at once: the explicit connection pool, one exclusive
  owner per exclusive owner path, and the per-path arrays of the input-only and listen-only
  connections (\<^verbatim>\<open>appcontype.c\<close>).
\<close>

definition active_connections_max :: nat where
  "active_connections_max = OPENER_CIP_NUM_EXPLICIT_CONNS + OPENER_CIP_NUM_EXLUSIVE_OWNER_CONNS
     + OPENER_CIP_NUM_INPUT_ONLY_CONNS * OPENER_CIP_NUM_INPUT_ONLY_CONNS_PER_CON_PATH
     + OPENER_CIP_NUM_LISTEN_ONLY_CONNS * OPENER_CIP_NUM_LISTEN_ONLY_CONNS_PER_CON_PATH"

lemmas connection_amounts = OPENER_CIP_NUM_EXPLICIT_CONNS_def OPENER_CIP_NUM_EXLUSIVE_OWNER_CONNS_def
  OPENER_CIP_NUM_INPUT_ONLY_CONNS_def OPENER_CIP_NUM_INPUT_ONLY_CONNS_PER_CON_PATH_def
  OPENER_CIP_NUM_LISTEN_ONLY_CONNS_def OPENER_CIP_NUM_LISTEN_ONLY_CONNS_PER_CON_PATH_def
  kNodesAmount_def active_connections_max_def

text \<open>
  The list of active connections takes exactly \<^term>\<open>kNodesAmount\<close> connections: inserting a
  list of connections into the empty list succeeds iff there are at most that many, and the
  insertion after them dereferences the null pointer of the allocator. The configured connection
  objects are more: with all of them active the node pool is too small.
\<close>
theorem connection_list_pool:
  "(insert_all DoublyLinkedListInsertAtHead ds (DoublyLinkedListInitialize, replicate kNodesAmount free_node) \<noteq> None
     \<longleftrightarrow> length ds \<le> kNodesAmount)
   \<and> insert_all DoublyLinkedListInsertAtHead [0..<active_connections_max] (DoublyLinkedListInitialize, replicate kNodesAmount free_node) = None"
proof -
  have iff: "insert_all DoublyLinkedListInsertAtHead ds (DoublyLinkedListInitialize, replicate kNodesAmount free_node) \<noteq> None
     \<longleftrightarrow> length ds \<le> kNodesAmount" for ds :: "'b list"
    using dl.insert_all_iff [OF empty_list, of ds kNodesAmount] by (simp add: pool_capacity_def)
  have "\<not> length [0..<active_connections_max] \<le> kNodesAmount"
    by (simp add: connection_amounts)
  then show ?thesis
    using iff [of ds] iff [of "[0..<active_connections_max]"] by blast
qed

end
