(* ===== verification/SocketTimer.thy ===== *)
theory SocketTimer
  imports Opener_Prelude
begin

text \<open>
  Socket timers (\<^verbatim>\<open>ports/socket_timer.c\<close>) and their removal
  (\<^verbatim>\<open>RemoveSocketTimerFromList\<close> of \<^verbatim>\<open>ports/generic_networkhandler.c\<close>). The array of timers is a
  list and a pointer to a timer is an index, or \<^term>\<open>None\<close> for the null pointer.
\<close>

subsection \<open>Operations\<close>

record socket_timer =
  timer_socket :: int
  last_update :: MilliSeconds

definition cleared_timer :: socket_timer where
  "cleared_timer = \<lparr>timer_socket = kEipInvalidSocket, last_update = 0\<rparr>"

text \<open>Setting the socket does not test the pointer, setting the time does.\<close>

definition SocketTimerSetSocket :: "nat option \<Rightarrow> int \<Rightarrow> socket_timer list \<Rightarrow> socket_timer list option" where
  "SocketTimerSetSocket p socket ts = do {
     i \<leftarrow> p;
     Some (ts[i := (ts ! i)\<lparr>timer_socket := socket\<rparr>]) }"

definition SocketTimerSetLastUpdate :: "nat option \<Rightarrow> MilliSeconds \<Rightarrow> socket_timer list \<Rightarrow> socket_timer list" where
  "SocketTimerSetLastUpdate p actual_time ts =
     (case p of None \<Rightarrow> ts | Some i \<Rightarrow> ts[i := (ts ! i)\<lparr>last_update := actual_time\<rparr>])"

definition SocketTimerGetLastUpdate :: "nat \<Rightarrow> socket_timer list \<Rightarrow> MilliSeconds" where
  "SocketTimerGetLastUpdate i ts = last_update (ts ! i)"

definition SocketTimerClear :: "nat \<Rightarrow> socket_timer list \<Rightarrow> socket_timer list" where
  "SocketTimerClear i ts = ts[i := cleared_timer]"

definition SocketTimerArrayInitialize :: "socket_timer list \<Rightarrow> socket_timer list" where
  "SocketTimerArrayInitialize ts = fold SocketTimerClear [0..<length ts] ts"

definition SocketTimerArrayGetSocketTimer :: "socket_timer list \<Rightarrow> int \<Rightarrow> nat option" where
  "SocketTimerArrayGetSocketTimer ts socket = first_index (\<lambda>t. socket = timer_socket t) ts"

definition SocketTimerArrayGetEmptySocketTimer :: "socket_timer list \<Rightarrow> nat option" where
  "SocketTimerArrayGetEmptySocketTimer ts = SocketTimerArrayGetSocketTimer ts kEipInvalidSocket"

text \<open>The loop clears one timer per turn until none has the socket; \<^term>\<open>None\<close> is a loop without end.\<close>

partial_function (option) RemoveSocketTimerFromList ::
    "int \<Rightarrow> socket_timer list \<Rightarrow> socket_timer list option" where
  "RemoveSocketTimerFromList socket ts =
     (case SocketTimerArrayGetSocketTimer ts socket of
        None \<Rightarrow> Some ts
      | Some i \<Rightarrow> RemoveSocketTimerFromList socket (SocketTimerClear i ts))"

subsection \<open>Looking up a timer\<close>

lemma get_timer_None:
  "SocketTimerArrayGetSocketTimer ts s = None \<longleftrightarrow> s \<notin> timer_socket ` set ts"
  by (auto simp: SocketTimerArrayGetSocketTimer_def first_index_None)

lemma get_timer_Some:
  "SocketTimerArrayGetSocketTimer ts s = Some j \<longleftrightarrow> j < length ts \<and> timer_socket (ts ! j) = s
     \<and> (\<forall>i < j. timer_socket (ts ! i) \<noteq> s)"
  by (auto simp: SocketTimerArrayGetSocketTimer_def first_index_Some)

lemma initialize_prefix:
  "k \<le> length ts \<Longrightarrow> fold SocketTimerClear [0..<k] ts = replicate k cleared_timer @ drop k ts"
proof (induction k)
  case (Suc k)
  then have "drop k ts = ts ! k # drop (Suc k) ts" by (simp add: Cons_nth_drop_Suc)
  then show ?case
    using Suc by (simp add: SocketTimerClear_def list_update_append replicate_append_same [symmetric])
qed simp

lemma timer_array_initialized [simp]:
  "SocketTimerArrayInitialize ts = replicate (length ts) cleared_timer"
  by (simp add: SocketTimerArrayInitialize_def initialize_prefix)

subsection \<open>Removing the timers of a socket\<close>

definition clear_socket :: "int \<Rightarrow> socket_timer list \<Rightarrow> socket_timer list" where
  "clear_socket s ts = map (\<lambda>t. if timer_socket t = s then cleared_timer else t) ts"

lemma clear_socket_absent: "s \<notin> timer_socket ` set ts \<Longrightarrow> clear_socket s ts = ts"
  by (induction ts) (auto simp: clear_socket_def)

lemma clear_socket_one:
  "j < length ts \<Longrightarrow> timer_socket (ts ! j) = s \<Longrightarrow> clear_socket s (SocketTimerClear j ts) = clear_socket s ts"
  by (rule nth_equalityI) (auto simp: clear_socket_def SocketTimerClear_def nth_list_update cleared_timer_def)

lemma length_filter_split:
  "j < length xs \<Longrightarrow> length (filter P xs) = length (filter P (take j xs)) + (if P (xs ! j) then 1 else 0)
     + length (filter P (drop (Suc j) xs))"
  by (subst id_take_nth_drop [of j xs]) simp_all

lemma timers_left:
  assumes "j < length ts" "timer_socket (ts ! j) = s" "s \<noteq> kEipInvalidSocket"
  shows "length (filter (\<lambda>t. timer_socket t = s) (SocketTimerClear j ts))
     < length (filter (\<lambda>t. timer_socket t = s) ts)"
proof -
  have "timer_socket cleared_timer \<noteq> s" using assms(3) by (simp add: cleared_timer_def)
  then show ?thesis
    using assms(1,2) length_filter_split [of j ts "\<lambda>t. timer_socket t = s"]
      length_filter_split [of j "SocketTimerClear j ts" "\<lambda>t. timer_socket t = s"]
    by (simp add: SocketTimerClear_def)
qed

lemma remove_timer_valid:
  "s \<noteq> kEipInvalidSocket \<Longrightarrow> RemoveSocketTimerFromList s ts = Some (clear_socket s ts)"
proof (induction "length (filter (\<lambda>t. timer_socket t = s) ts)" arbitrary: ts rule: less_induct)
  case less
  show ?case
  proof (cases "SocketTimerArrayGetSocketTimer ts s")
    case None
    moreover from None have "clear_socket s ts = ts" by (simp add: clear_socket_absent get_timer_None)
    ultimately show ?thesis
      by (subst RemoveSocketTimerFromList.simps) simp
  next
    case (Some j)
    then have j: "j < length ts" "timer_socket (ts ! j) = s" by (simp_all add: get_timer_Some)
    from less(1) [OF timers_left [OF j less(2)] less(2)] show ?thesis
      by (subst RemoveSocketTimerFromList.simps) (simp add: Some clear_socket_one [OF j])
  qed
qed

text \<open>With the invalid socket the first free timer is found and cleared again and again.\<close>

lemma remove_timer_diverges:
  "RemoveSocketTimerFromList s ts = Some r \<Longrightarrow> s = kEipInvalidSocket \<Longrightarrow> s \<notin> timer_socket ` set ts"
proof (induction rule: RemoveSocketTimerFromList.raw_induct [rotated 1, consumes 1])
  case (1 f s ts r)
  show ?case
  proof (cases "SocketTimerArrayGetSocketTimer ts s")
    case (Some j)
    then have j: "j < length ts" by (simp add: get_timer_Some)
    from 1(2) Some have "f s (SocketTimerClear j ts) = Some r" by simp
    from 1(1) [OF this 1(3)] 1(3) have "kEipInvalidSocket \<notin> timer_socket ` set (SocketTimerClear j ts)" by simp
    moreover have "cleared_timer \<in> set (SocketTimerClear j ts)"
      using j by (simp add: SocketTimerClear_def set_update_memI)
    ultimately show ?thesis by (force simp: cleared_timer_def)
  qed (simp add: get_timer_None)
qed

text \<open>
  Closing a socket removes all of its timers and leaves the others alone, and the loop that
  does so ends, for every socket; for the invalid socket it ends only when all timers are in use,
  since a cleared timer carries the invalid socket again.
\<close>

theorem RemoveSocketTimerFromList_result:
  "RemoveSocketTimerFromList socket ts =
     (if socket = kEipInvalidSocket \<and> socket \<in> timer_socket ` set ts then None
      else Some (map (\<lambda>t. if timer_socket t = socket then cleared_timer else t) ts))"
proof (cases "socket = kEipInvalidSocket")
  case True
  show ?thesis
  proof (cases "socket \<in> timer_socket ` set ts")
    case True
    with \<open>socket = kEipInvalidSocket\<close> remove_timer_diverges [of socket ts]
    show ?thesis by (cases "RemoveSocketTimerFromList socket ts") auto
  next
    case False
    then have "SocketTimerArrayGetSocketTimer ts socket = None" "clear_socket socket ts = ts"
      by (simp_all add: get_timer_None clear_socket_absent)
    then show ?thesis
      using False by (subst RemoveSocketTimerFromList.simps) (simp add: clear_socket_def)
  qed
next
  case False
  then show ?thesis using remove_timer_valid [OF False, of ts] by (simp add: clear_socket_def)
qed

end
