(* ===== verification/CipIdentity.thy ===== *)
theory CipIdentity
  imports CipString
begin

text \<open>
  The identity of the device (\<^verbatim>\<open>cip/cipidentity.c\<close>): the structure \<^verbatim>\<open>g_identity\<close>, its setters, the
  status word, which carries the status flags and the extended device status in one word, and
  the callback of the reset service. The reset functions are the application's.
\<close>

subsection \<open>Data and setters\<close>

abbreviation (input) kMajorRecoverableFault :: CipWord where "kMajorRecoverableFault \<equiv> 0x0400"
abbreviation (input) kMajorUnrecoverableFault :: CipWord where "kMajorUnrecoverableFault \<equiv> 0x0800"
abbreviation (input) kMajorFault :: CipWord where "kMajorFault \<equiv> 0x0050"
abbreviation (input) kExtStatusMask :: CipWord where "kExtStatusMask \<equiv> 0x00F0"

record identity_object =
  vendor_id :: CipUint
  device_type :: CipUint
  product_code :: CipUint
  major_revision :: CipUsint
  minor_revision :: CipUsint
  id_status :: CipWord
  ext_status :: CipWord
  serial_number :: CipUdint
  product_name :: cip_short_string
  id_state :: CipUsint

definition SetDeviceRevision :: "octet \<Rightarrow> octet \<Rightarrow> identity_object \<Rightarrow> identity_object" where
  "SetDeviceRevision major minor g = g\<lparr>major_revision := major, minor_revision := minor\<rparr>"

definition SetDeviceSerialNumber :: "32 word \<Rightarrow> identity_object \<Rightarrow> identity_object" where
  "SetDeviceSerialNumber n g = g\<lparr>serial_number := n\<rparr>"

definition SetDeviceType :: "16 word \<Rightarrow> identity_object \<Rightarrow> identity_object" where
  "SetDeviceType t g = g\<lparr>device_type := t\<rparr>"

definition SetDeviceProductCode :: "16 word \<Rightarrow> identity_object \<Rightarrow> identity_object" where
  "SetDeviceProductCode c g = g\<lparr>product_code := c\<rparr>"

definition SetDeviceStatus :: "CipWord \<Rightarrow> identity_object \<Rightarrow> identity_object" where
  "SetDeviceStatus s g = g\<lparr>id_status := s, ext_status := s AND kExtStatusMask\<rparr>"

definition SetDeviceVendorId :: "CipUint \<Rightarrow> identity_object \<Rightarrow> identity_object" where
  "SetDeviceVendorId v g = g\<lparr>vendor_id := v\<rparr>"

text \<open>A null pointer is ignored; \<open>calloc_ok\<close> tells whether the memory for the string is available.\<close>

definition SetDeviceProductName :: "bool \<Rightarrow> octet list option \<Rightarrow> identity_object \<Rightarrow> identity_object option" where
  "SetDeviceProductName calloc_ok name g =
     (case name of
        None \<Rightarrow> Some g
      | Some cstr \<Rightarrow> do {
          (s, _) \<leftarrow> SetCipShortStringByCstr calloc_ok (product_name g) cstr;
          Some (g\<lparr>product_name := s\<rparr>) })"

subsection \<open>The status word\<close>

definition MergeStatusAndExtStatus :: "identity_object \<Rightarrow> identity_object" where
  "MergeStatusAndExtStatus g =
     (let status_flags = id_status g AND NOT kExtStatusMask;
          ext = ext_status g AND kExtStatusMask;
          ext = (if status_flags AND (kMajorRecoverableFault OR kMajorUnrecoverableFault) \<noteq> 0 then kMajorFault else ext)
      in g\<lparr>id_status := status_flags OR ext\<rparr>)"

definition CipIdentitySetStatusFlags :: "CipWord \<Rightarrow> identity_object \<Rightarrow> identity_object" where
  "CipIdentitySetStatusFlags status_flags g =
     MergeStatusAndExtStatus (g\<lparr>id_status := id_status g OR (status_flags AND NOT kExtStatusMask)\<rparr>)"

definition CipIdentityClearStatusFlags :: "CipWord \<Rightarrow> identity_object \<Rightarrow> identity_object" where
  "CipIdentityClearStatusFlags status_flags g =
     MergeStatusAndExtStatus (g\<lparr>id_status := id_status g AND NOT (status_flags AND NOT kExtStatusMask)\<rparr>)"

definition CipIdentitySetExtendedDeviceStatus :: "CipWord \<Rightarrow> identity_object \<Rightarrow> identity_object" where
  "CipIdentitySetExtendedDeviceStatus extended_status g =
     MergeStatusAndExtStatus (g\<lparr>ext_status := extended_status AND kExtStatusMask\<rparr>)"

subsection \<open>Reset\<close>

text \<open>
  \<open>reset_device\<close> and \<open>reset_to_initial\<close> are the application's \<^verbatim>\<open>ResetDevice\<close> and
  \<^verbatim>\<open>ResetDeviceToInitialConfiguration\<close>, on its state.
\<close>

definition IdentityObjectPreResetCallback ::
    "('s \<Rightarrow> EipStatus \<times> 's) \<Rightarrow> ('s \<Rightarrow> EipStatus \<times> 's) \<Rightarrow> mr_request \<Rightarrow> mr_response \<Rightarrow> 's
      \<Rightarrow> (EipStatus \<times> mr_response \<times> 's) option" where
  "IdentityObjectPreResetCallback reset_device reset_to_initial req resp s =
     (if request_data_size req > 1
      then Some (kEipStatusOkSend, resp\<lparr>general_status := kCipErrorTooMuchData\<rparr>, s)
      else do {
        reset_type \<leftarrow> (if request_data_size req = 1
           then map_option fst (GetUsintFromMessage (req_data req)) else Some 0);
        let invalid = resp\<lparr>general_status := kCipErrorInvalidParameter\<rparr>;
        let run = (\<lambda>f. case f s of (status, s) \<Rightarrow>
           Some (kEipStatusOkSend, if status = kEipStatusError then invalid else resp, s));
        if reset_type = 0 then run reset_device
        else if reset_type = 1 then run reset_to_initial
        else Some (kEipStatusOkSend, invalid, s) })"

subsection \<open>Properties\<close>

text \<open>
  The word shown to a reader: outside the extended field the flags, inside it the last extended
  status, or the major fault value while a major fault flag is set.
\<close>

definition status_consistent :: "identity_object \<Rightarrow> bool" where
  "status_consistent g \<longleftrightarrow> ext_status g AND NOT kExtStatusMask = 0
     \<and> id_status g AND kExtStatusMask =
         (if id_status g AND 0x0C00 \<noteq> 0 then kMajorFault else ext_status g)"

lemma and_split_mask:
  fixes x e m :: CipWord
  shows "((x AND NOT m) OR e) AND NOT m = (x OR e) AND NOT m"
    and "((x AND NOT m) OR e) AND m = e AND m"
  by (auto simp: bit_eq_iff bit_simps)

lemma fault_flags:
  "(x AND NOT kExtStatusMask) AND (kMajorRecoverableFault OR kMajorUnrecoverableFault) = x AND 0x0C00"
proof -
  have "NOT kExtStatusMask AND (kMajorRecoverableFault OR kMajorUnrecoverableFault) = (0x0C00 :: CipWord)"
    by simp
  then show ?thesis by (metis and.assoc)
qed

lemma fault_flags_kept: "x AND NOT kExtStatusMask = y AND NOT kExtStatusMask \<Longrightarrow> x AND 0x0C00 = y AND (0x0C00 :: CipWord)"
  using fault_flags [of x] fault_flags [of y] by simp

lemma merge_flags: "id_status (MergeStatusAndExtStatus g) AND NOT kExtStatusMask = id_status g AND NOT kExtStatusMask"
proof -
  have "kMajorFault AND NOT kExtStatusMask = (0 :: CipWord)" by simp
  then show ?thesis
    by (auto simp: MergeStatusAndExtStatus_def Let_def and_split_mask and.assoc bit.conj_disj_distrib2)
qed

lemma merge_ext:
  "id_status (MergeStatusAndExtStatus g) AND kExtStatusMask =
     (if id_status g AND 0x0C00 \<noteq> 0 then kMajorFault else ext_status g AND kExtStatusMask)"
  "ext_status (MergeStatusAndExtStatus g) = ext_status g"
  unfolding MergeStatusAndExtStatus_def Let_def fault_flags
  by (simp_all add: and_split_mask [where m = kExtStatusMask, simplified] and.assoc)

lemma merge_consistent:
  assumes "ext_status g AND NOT kExtStatusMask = 0"
  shows "status_consistent (MergeStatusAndExtStatus g)"
proof -
  have "ext_status g AND kExtStatusMask = ext_status g"
    using assms by (metis bit.conj_disj_distrib bit.disj_cancel_right and.right_neutral or.right_neutral)
  then show ?thesis
    using assms fault_flags_kept [OF merge_flags [of g]] by (simp add: status_consistent_def merge_ext)
qed

text \<open>
  Setting or clearing status flags changes exactly these flags and never the extended status
  field, setting the extended status changes no flag, and afterwards the field of the status
  word shows the extended status last set, overridden by the major fault value exactly while a
  major fault flag is set.
\<close>

theorem identity_status_word:
  assumes "ext_status g AND NOT kExtStatusMask = 0"
  shows "status_consistent (CipIdentitySetStatusFlags f g)
    \<and> status_consistent (CipIdentityClearStatusFlags f g)
    \<and> status_consistent (CipIdentitySetExtendedDeviceStatus x g)
    \<and> id_status (CipIdentitySetStatusFlags f g) AND NOT kExtStatusMask = (id_status g OR f) AND NOT kExtStatusMask
    \<and> id_status (CipIdentityClearStatusFlags f g) AND NOT kExtStatusMask = (id_status g AND NOT f) AND NOT kExtStatusMask
    \<and> id_status (CipIdentitySetExtendedDeviceStatus x g) AND NOT kExtStatusMask = id_status g AND NOT kExtStatusMask
    \<and> ext_status (CipIdentitySetStatusFlags f g) = ext_status g
    \<and> ext_status (CipIdentityClearStatusFlags f g) = ext_status g
    \<and> ext_status (CipIdentitySetExtendedDeviceStatus x g) = x AND kExtStatusMask"
proof -
  have e: "(x AND m) AND NOT m = 0" "(y OR (f AND NOT m)) AND NOT m = (y OR f) AND NOT m"
      "(y AND NOT (f AND NOT m)) AND NOT m = (y AND NOT f) AND NOT m" for y m :: CipWord
    by (auto simp: bit_eq_iff bit_simps)
  have c: "status_consistent (MergeStatusAndExtStatus (g\<lparr>id_status := y\<rparr>))"
      "status_consistent (MergeStatusAndExtStatus (g\<lparr>ext_status := x AND kExtStatusMask\<rparr>))" for y
    by (rule merge_consistent, simp add: assms [simplified])
       (rule merge_consistent, simp add: e [where m = kExtStatusMask, simplified])
  show ?thesis
    unfolding CipIdentitySetStatusFlags_def CipIdentityClearStatusFlags_def CipIdentitySetExtendedDeviceStatus_def
      merge_ext merge_flags by (intro conjI c) (simp_all add: e [where m = kExtStatusMask, simplified])
qed

definition example_identity :: identity_object where
  "example_identity = \<lparr>vendor_id = 1, device_type = 12, product_code = 65001, major_revision = 2, minor_revision = 3,
     id_status = 0, ext_status = 0, serial_number = 123456789,
     product_name = \<lparr>ss_length = 2, ss_string = Some [79, 112]\<rparr>, id_state = 3\<rparr>"

lemma identity_status_word_witness:
  "status_consistent (CipIdentitySetStatusFlags 0x0400 example_identity)
   \<and> ext_status (CipIdentitySetExtendedDeviceStatus 0x60 example_identity) = 0x60"
  using identity_status_word [of example_identity "0x0400" "0x60"] by (simp add: example_identity_def)

end
