(* ===== verification/CipAssembly.thy ===== *)
theory CipAssembly
  imports MessageRouter
begin

text \<open>
  The assembly object (\<^verbatim>\<open>cip/cipassembly.c\<close>). The data of an assembly is a byte array in the memory
  of the application; attribute 3 of the instance refers to it, and attribute 4 to its length. The
  application's functions \<open>before\<close> (\<^verbatim>\<open>BeforeAssemblyDataSend\<close>) and \<open>after\<close>
  (\<^verbatim>\<open>AfterAssemblyDataReceived\<close>) are arguments; they work on that memory.
\<close>

type_synonym app_memory = "nat \<Rightarrow> cip_value"

type_synonym before_send = "cip_instance \<Rightarrow> app_memory \<Rightarrow> bool \<times> app_memory"

type_synonym after_received = "cip_instance \<Rightarrow> app_memory \<Rightarrow> EipStatus \<times> app_memory"

definition kCipAssemblyClassCode :: CipUdint where
  "kCipAssemblyClassCode = 0x04"

definition kAssemblyObjectInstanceAttributeIdData :: CipUint where
  "kAssemblyObjectInstanceAttributeIdData = 3"

subsection \<open>Callbacks of the class\<close>

text \<open>The memory of the services restricted to the application's objects, and back.\<close>

definition on_app_memory :: "(app_memory \<Rightarrow> app_memory) \<Rightarrow> cip_mem \<Rightarrow> cip_mem" where
  "on_app_memory f mem = (\<lambda>ref. case ref of Obj n \<Rightarrow> f (\<lambda>k. mem (Obj k)) n | _ \<Rightarrow> mem ref)"

definition AssemblyPreGetCallback :: "before_send \<Rightarrow> get_set_callback" where
  "AssemblyPreGetCallback before inst a service = on_app_memory (\<lambda>m. snd (before inst m))"

definition AssemblyPostSetCallback :: "after_received \<Rightarrow> get_set_callback" where
  "AssemblyPostSetCallback after inst a service = on_app_memory (\<lambda>m. snd (after inst m))"

text \<open>
  A decoder sees its own value only. \<open>accept\<close> is whether the application accepts the new data of
  the instance; the application's function runs once more in the post-set callback, where its
  effect on the memory is modelled.
\<close>

fun DecodeCipAssemblyAttribute3 :: "(cip_value \<Rightarrow> EipStatus) \<Rightarrow> decode_fn" where
  "DecodeCipAssemblyAttribute3 accept (VByteArray n d) req resp =
     (if request_data_size req < ucast n then
        Some (-1, VByteArray n d, req, resp\<lparr>general_status := kCipErrorNotEnoughData\<rparr>)
      else if request_data_size req > ucast n then
        Some (-1, VByteArray n d, req, resp\<lparr>general_status := kCipErrorTooMuchData\<rparr>)
      else do {
        bs \<leftarrow> copy_octets (unat n) (req_data req);
        guard (unat n \<le> length d);
        let v = VByteArray n (splice_at 0 bs d);
        Some (int (unat n), v, req, resp\<lparr>general_status :=
           (if accept v \<noteq> kEipStatusOk then kCipErrorInvalidAttributeValue else kCipErrorSuccess)\<rparr>) })"
| "DecodeCipAssemblyAttribute3 _ _ _ _ = None"

subsection \<open>Class and instances\<close>

definition CreateAssemblyClass ::
    "before_send \<Rightarrow> after_received \<Rightarrow> 'u std_service registry
      \<Rightarrow> ('u std_service cip_class \<times> 'u std_service registry) option" where
  "CreateAssemblyClass before after objects = do {
     (c, objects) \<leftarrow> CreateCipClass objects kCipAssemblyClassCode 0 7 1 2 4 2 0 ''assembly'' 2 None;
     cc \<leftarrow> InsertService (core c) kGetAttributeSingle SvcGetAttributeSingle ''GetAttributeSingle'';
     cc \<leftarrow> InsertService cc kSetAttributeSingle SvcSetAttributeSingle ''SetAttributeSingle'';
     let cc = InsertGetSetCallback cc (AssemblyPreGetCallback before) kPreGetFunc;
     let cc = InsertGetSetCallback cc (AssemblyPostSetCallback after) kPostSetFunc;
     let c = c\<lparr>core := cc\<rparr>;
     Some (c, store_class kCipAssemblyClassCode c objects) }"

definition CipAssemblyInitialize ::
    "before_send \<Rightarrow> after_received \<Rightarrow> 'u std_service registry \<Rightarrow> (EipStatus \<times> 'u std_service registry) option" where
  "CipAssemblyInitialize before after objects = do {
     (_, objects) \<leftarrow> CreateAssemblyClass before after objects;
     Some (kEipStatusOk, objects) }"

text \<open>Writing through the pointer to an instance of the class: the first instance with that number.\<close>

fun store_instance :: "CipInstanceNum \<Rightarrow> cip_instance \<Rightarrow> cip_instance list \<Rightarrow> cip_instance list" where
  "store_instance n i' [] = []"
| "store_instance n i' (i # is) = (if inst_number i = n then i' # is else i # store_instance n i' is)"

text \<open>\<open>a\<close> is the address of the new byte array; the field with its length is at the next address.\<close>

definition CreateAssemblyObject ::
    "before_send \<Rightarrow> after_received \<Rightarrow> (cip_value \<Rightarrow> EipStatus) \<Rightarrow> nat \<Rightarrow> CipInstanceNum \<Rightarrow> octet list \<Rightarrow> 16 word
      \<Rightarrow> 'u std_service registry \<times> app_memory \<Rightarrow> (cip_instance \<times> 'u std_service registry \<times> app_memory) option" where
  "CreateAssemblyObject before after accept a instance_id data data_length = (\<lambda>(objects, mem). do {
     (c, objects) \<leftarrow> (case GetCipClass objects kCipAssemblyClassCode of
         Some c \<Rightarrow> Some (c, objects) | None \<Rightarrow> CreateAssemblyClass before after objects);
     (c, inst) \<leftarrow> AddCipInstance c instance_id;
     let mem = mem(a := VByteArray data_length data, Suc a := V16 data_length);
     (cc, inst) \<leftarrow> InsertAttribute (core c) inst 3 kCipByteArray (Some EncodeCipByteArray)
        (Some (DecodeCipAssemblyAttribute3 accept)) (Obj a) (kSetAndGetAble OR kPreGetFunc OR kPostSetFunc);
     (cc, inst) \<leftarrow> InsertAttribute cc inst 4 kCipUint (Some EncodeCipUint) None (Obj (Suc a)) kGetableSingle;
     let c = c\<lparr>core := cc, instances := store_instance instance_id inst (instances c)\<rparr>;
     Some (inst, store_class kCipAssemblyClassCode c objects, mem) })"

subsection \<open>Connected data\<close>

text \<open>The byte array behind the first attribute of an instance, with its address.\<close>

definition assembly_bytes :: "cip_instance \<Rightarrow> app_memory \<Rightarrow> (nat \<times> 16 word \<times> octet list) option" where
  "assembly_bytes inst mem =
     (case attributes inst of
        [] \<Rightarrow> None
      | a # _ \<Rightarrow> (case attr_data a of
          Some (Obj n) \<Rightarrow> (case mem n of VByteArray l d \<Rightarrow> Some (n, l, d) | _ \<Rightarrow> None)
        | _ \<Rightarrow> None))"

definition NotifyAssemblyConnectedDataReceived ::
    "after_received \<Rightarrow> cip_instance \<Rightarrow> octet list \<Rightarrow> nat \<Rightarrow> app_memory \<Rightarrow> (EipStatus \<times> app_memory) option" where
  "NotifyAssemblyConnectedDataReceived after inst data data_length mem = do {
     (n, l, d) \<leftarrow> assembly_bytes inst mem;
     if unat l \<noteq> data_length then Some (kEipStatusError, mem)
     else do {
       bs \<leftarrow> copy_octets data_length data;
       guard (data_length \<le> length d);
       Some (after inst (mem(n := VByteArray l (splice_at 0 bs d)))) } }"

end
