(* ===== verification/ObjectSetup.thy ===== *)
theory ObjectSetup
  imports CipAssembly
begin

text \<open>
  What the initialization functions of the standard objects have in common: inserting a list of
  attributes and services, one after the other, and writing the instance back into its class.
\<close>

type_synonym attribute_row = "CipUint \<times> octet \<times> encode_fn \<times> decode_fn option \<times> data_ref \<times> octet"

type_synonym 'svc service_row = "octet \<times> 'svc \<times> string"

fun insert_attributes :: "attribute_row list \<Rightarrow> 'svc cip_core \<times> cip_instance \<Rightarrow> ('svc cip_core \<times> cip_instance) option" where
  "insert_attributes [] x = Some x"
| "insert_attributes ((n, type, enc, dec, ref, fl) # rows) (cc, inst) = do {
     x \<leftarrow> InsertAttribute cc inst n type (Some enc) dec ref fl;
     insert_attributes rows x }"

fun insert_services :: "'svc service_row list \<Rightarrow> 'svc cip_core \<Rightarrow> 'svc cip_core option" where
  "insert_services [] cc = Some cc"
| "insert_services ((n, f, name) # rows) cc = do {
     cc \<leftarrow> InsertService cc n f name;
     insert_services rows cc }"

text \<open>Attributes of the instance \<open>n\<close> of a class, then services of the class.\<close>

definition setup_instance ::
    "CipInstanceNum \<Rightarrow> attribute_row list \<Rightarrow> 'svc service_row list \<Rightarrow> 'svc cip_class \<Rightarrow> 'svc cip_class option" where
  "setup_instance n rows svcs c = do {
     inst \<leftarrow> GetCipInstance c n;
     (cc, inst) \<leftarrow> insert_attributes rows (core c, inst);
     cc \<leftarrow> insert_services svcs cc;
     Some (c\<lparr>core := cc, instances := store_instance n inst (instances c)\<rparr>) }"

end
