(* ===== verification/CipTcpIp.thy ===== *)
theory CipTcpIp
  imports ObjectSetup
begin

text \<open>
  The TCP/IP interface object (\<^verbatim>\<open>cip/ciptcpipinterface.c\<close>): its data, the checks of names and addresses, its
  encoders, the set-up of the class, and the multicast address of the device. Addresses are in network byte order, as in the code;
  \<open>e\<close> is the endianess of the platform. The theory \<open>TcpIpSettings\<close> holds the decoders that change the configuration.
\<close>

subsection \<open>Data\<close>

record CipTcpIpInterfaceConfiguration =
  ip_address :: CipUdint
  network_mask :: CipUdint
  gateway :: CipUdint
  name_server :: CipUdint
  name_server_2 :: CipUdint
  domain_name :: cip_string

record MulticastAddressConfiguration =
  alloc_control :: CipUsint
  reserved_shall_be_zero :: CipUsint
  number_of_allocated_multicast_addresses :: CipUint
  starting_multicast_address :: CipUdint

record CipTcpIpObject =
  tcpip_status :: CipDword
  config_capability :: CipDword
  config_control :: CipDword
  physical_link_object :: cip_epath
  interface_configuration :: CipTcpIpInterfaceConfiguration
  hostname :: cip_string
  mcast_ttl_value :: CipUsint
  mcast_config :: MulticastAddressConfiguration
  select_acd :: CipBool
  encapsulation_inactivity_timeout :: CipUint

abbreviation tcpip_ip_address :: "CipTcpIpObject \<Rightarrow> CipUdint" where
  "tcpip_ip_address t \<equiv> ip_address (interface_configuration t)"

abbreviation (input) kTcpipStatusIfaceCfgPend :: CipDword where "kTcpipStatusIfaceCfgPend \<equiv> 0x20"
abbreviation (input) kTcpipCfgCtrlStaticIp :: CipDword where "kTcpipCfgCtrlStaticIp \<equiv> 0"
abbreviation (input) kTcpipCfgCtrlMethodMask :: CipDword where "kTcpipCfgCtrlMethodMask \<equiv> 0x0F"
abbreviation (input) kTcpipCfgCtrlDnsEnable :: CipDword where "kTcpipCfgCtrlDnsEnable \<equiv> 0x10"

definition null_string :: cip_string where
  "null_string = \<lparr>s_length = 0, s_string = None\<rparr>"

text \<open>The initial value of \<^verbatim>\<open>g_tcpip\<close>, for one Ethernet link and a configuration that is not settable.\<close>

definition initial_tcpip :: CipTcpIpObject where
  "initial_tcpip = \<lparr>tcpip_status = 1, config_capability = 4, config_control = 2,
     physical_link_object = \<lparr>path_size = 2, class_id = 0xF6, instance_number = 1, attribute_number = 0\<rparr>,
     interface_configuration = \<lparr>ip_address = 0, network_mask = 0, gateway = 0, name_server = 0, name_server_2 = 0,
        domain_name = null_string\<rparr>,
     hostname = null_string, mcast_ttl_value = 1,
     mcast_config = \<lparr>alloc_control = 0, reserved_shall_be_zero = 0, number_of_allocated_multicast_addresses = 1,
        starting_multicast_address = 0\<rparr>,
     select_acd = 0, encapsulation_inactivity_timeout = 120\<rparr>"

lemma initial_tcpip_simps [simp]:
  "tcpip_ip_address initial_tcpip = 0" "encapsulation_inactivity_timeout initial_tcpip = 120"
  by (simp_all add: initial_tcpip_def)

subsection \<open>Names\<close>

text \<open>The strings here are those of C, without the final zero. \<^verbatim>\<open>'-'\<close> is 45 and \<^verbatim>\<open>'.'\<close> is 46.\<close>

definition isalnum_c :: "octet \<Rightarrow> bool" where
  "isalnum_c b \<longleftrightarrow> (97 \<le> b \<and> b \<le> 122) \<or> (65 \<le> b \<and> b \<le> 90) \<or> (48 \<le> b \<and> b \<le> 57)"

fun name_label_rest :: "octet \<Rightarrow> octet list \<Rightarrow> bool" where
  "name_label_rest previous [] \<longleftrightarrow> previous \<noteq> 45"
| "name_label_rest previous (c # cs) \<longleftrightarrow> (isalnum_c c \<or> c = 45) \<and> name_label_rest c cs"

fun IsValidNameLabel :: "octet list \<Rightarrow> bool" where
  "IsValidNameLabel [] \<longleftrightarrow> False"
| "IsValidNameLabel (c # cs) \<longleftrightarrow> isalnum_c c \<and> name_label_rest c cs"

text \<open>The first dot is overwritten by a zero while the label in front of it is checked.\<close>

function IsValidDomain :: "octet list \<Rightarrow> bool" where
  "IsValidDomain domain =
     (if domain \<noteq> [] \<and> hd domain = 46 then False
      else case dropWhile (\<lambda>c. c \<noteq> 46) domain of
        [] \<Rightarrow> IsValidNameLabel domain
      | _ # rest \<Rightarrow> IsValidNameLabel (takeWhile (\<lambda>c. c \<noteq> 46) domain) \<and> rest \<noteq> [] \<and> IsValidDomain rest)"
  by pat_completeness auto

termination
proof (relation "measure length")
  fix domain :: "octet list" and x rest
  assume "dropWhile (\<lambda>c. c \<noteq> 46) domain = x # rest"
  then have "length (x # rest) \<le> length domain" by (metis length_dropWhile_le)
  then show "(rest, domain) \<in> measure length" by simp
qed simp

declare IsValidDomain.simps [simp del]

subsection \<open>Addresses\<close>

abbreviation (input) ntohl :: "OpenerEndianess \<Rightarrow> 32 word \<Rightarrow> 32 word" where "ntohl \<equiv> htonl"

definition IsValidNetmask :: "OpenerEndianess \<Rightarrow> 32 word \<Rightarrow> bool" where
  "IsValidNetmask e netmask =
     (let v = NOT (ntohl e netmask) + 1; valid = (v \<noteq> 0 \<and> v AND (v - 1) = 0)
      in valid \<and> netmask \<noteq> 0xFFFFFFFF)"

definition IsInClassAbc :: "OpenerEndianess \<Rightarrow> 32 word \<Rightarrow> bool" where
  "IsInClassAbc e ip_addr =
     (let ip = ntohl e ip_addr
      in ip AND 0x80000000 = 0 \<or> ip AND 0xC0000000 = 0x80000000 \<or> ip AND 0xE0000000 = 0xC0000000)"

definition IsOnLoopbackNetwork :: "OpenerEndianess \<Rightarrow> 32 word \<Rightarrow> bool" where
  "IsOnLoopbackNetwork e ip_addr \<longleftrightarrow> ntohl e ip_addr AND 0xFF000000 = 0x7F000001 AND 0xFF000000"

definition IsNetworkOrBroadcastIp :: "32 word \<Rightarrow> 32 word \<Rightarrow> bool" where
  "IsNetworkOrBroadcastIp ip_addr net_mask \<longleftrightarrow> ip_addr AND net_mask = ip_addr \<or> ip_addr OR NOT net_mask = ip_addr"

definition IsValidNetworkConfig :: "OpenerEndianess \<Rightarrow> CipTcpIpInterfaceConfiguration \<Rightarrow> bool" where
  "IsValidNetworkConfig e c \<longleftrightarrow>
     (if ntohl e (ip_address c) = 0 then False
      else if ntohl e (network_mask c) \<noteq> 0 \<and> \<not> IsValidNetmask e (network_mask c) then False
      else if \<not> IsInClassAbc e (ip_address c) \<or> \<not> IsInClassAbc e (gateway c) \<or> \<not> IsInClassAbc e (name_server c)
        \<or> \<not> IsInClassAbc e (name_server_2 c) then False
      else if IsOnLoopbackNetwork e (ip_address c) \<or> IsOnLoopbackNetwork e (gateway c) then False
      else if IsNetworkOrBroadcastIp (ip_address c) (network_mask c)
        \<or> (ntohl e (gateway c) \<noteq> 0 \<and> IsNetworkOrBroadcastIp (gateway c) (network_mask c)) then False
      else if ntohl e (gateway c) \<noteq> 0 \<and> ntohl e (network_mask c) \<noteq> 0
        \<and> network_mask c AND ip_address c \<noteq> network_mask c AND gateway c then False
      else True)"

definition CipTcpIpCalculateMulticastIp :: "OpenerEndianess \<Rightarrow> CipTcpIpObject \<Rightarrow> CipTcpIpObject" where
  "CipTcpIpCalculateMulticastIp e t =
     (let host_id = ntohl e (tcpip_ip_address t) AND NOT (ntohl e (network_mask (interface_configuration t)));
          host_id = (host_id - 1) AND 0x3FF
      in t\<lparr>mcast_config := (mcast_config t)\<lparr>starting_multicast_address := htonl e (0xEFC00100 + push_bit 5 host_id)\<rparr>\<rparr>)"

subsection \<open>Encoders and decoders\<close>

fun udint_of :: "cip_value \<Rightarrow> CipUdint option" where
  "udint_of (V32 v) = Some v"
| "udint_of _ = None"

definition EncodeCipTcpIpInterfaceConfiguration :: "OpenerEndianess \<Rightarrow> encode_fn" where
  "EncodeCipTcpIpInterfaceConfiguration e v m =
     (case v of
        VStruct [ip, net, gw, ns, ns2, domain] \<Rightarrow> do {
          ip \<leftarrow> udint_of ip;
          m \<leftarrow> AddDintToMessage (ntohl e ip) m;
          net \<leftarrow> udint_of net;
          m \<leftarrow> AddDintToMessage (ntohl e net) m;
          gw \<leftarrow> udint_of gw;
          m \<leftarrow> AddDintToMessage (ntohl e gw) m;
          ns \<leftarrow> udint_of ns;
          m \<leftarrow> AddDintToMessage (ntohl e ns) m;
          ns2 \<leftarrow> udint_of ns2;
          m \<leftarrow> AddDintToMessage (ntohl e ns2) m;
          EncodeCipString domain m }
      | _ \<Rightarrow> None)"

text \<open>This encoder reads the global object, whatever its argument.\<close>

definition EncodeCipTcpIpMulticastConfiguration :: "OpenerEndianess \<Rightarrow> CipTcpIpObject \<Rightarrow> encode_fn" where
  "EncodeCipTcpIpMulticastConfiguration e tcpip data m = do {
     let c = mcast_config tcpip;
     m \<leftarrow> AddSintToMessage (alloc_control c) m;
     m \<leftarrow> AddSintToMessage (reserved_shall_be_zero c) m;
     m \<leftarrow> AddIntToMessage (number_of_allocated_multicast_addresses c) m;
     AddDintToMessage (ntohl e (starting_multicast_address c)) m }"

definition EncodeSafetyNetworkNumber :: encode_fn where
  "EncodeSafetyNetworkNumber data m = FillNextNMessageOctetsWithValueAndMoveToNextPosition 0 6 m"

definition EncodeCipLastConflictDetected :: encode_fn where
  "EncodeCipLastConflictDetected data m = FillNextNMessageOctetsWithValueAndMoveToNextPosition 0 35 m"

fun DecodeTcpIpInterfaceConfigurationControl :: decode_fn where
  "DecodeTcpIpInterfaceConfigurationControl (V32 old) req resp = do {
     (v, rest) \<leftarrow> GetUdintFromMessage (req_data req);
     let req = req\<lparr>req_data := rest\<rparr>;
     Some (if v AND kTcpipCfgCtrlMethodMask \<ge> 3 \<or> v AND NOT kTcpipCfgCtrlMethodMask \<noteq> 0
           then (-1, V32 old, req, resp\<lparr>general_status := kCipErrorInvalidAttributeValue\<rparr>)
           else (4, V32 (v AND (kTcpipCfgCtrlMethodMask OR kTcpipCfgCtrlDnsEnable)), req,
                 resp\<lparr>general_status := kCipErrorSuccess\<rparr>)) }"
| "DecodeTcpIpInterfaceConfigurationControl _ _ _ = None"

fun DecodeCipTcpIpInterfaceEncapsulationInactivityTimeout :: decode_fn where
  "DecodeCipTcpIpInterfaceEncapsulationInactivityTimeout (V16 old) req resp = do {
     (v, rest) \<leftarrow> GetUintFromMessage (req_data req);
     let req = req\<lparr>req_data := rest\<rparr>;
     Some (if v > 3600 then (-1, V16 old, req, resp\<lparr>general_status := kCipErrorInvalidAttributeValue\<rparr>)
           else (2, V16 v, req, resp\<lparr>general_status := kCipErrorSuccess\<rparr>)) }"
| "DecodeCipTcpIpInterfaceEncapsulationInactivityTimeout _ _ _ = None"

subsection \<open>The class\<close>

definition kCipTcpIpInterfaceClassCode :: CipUdint where
  "kCipTcpIpInterfaceClassCode = 0xF5"

text \<open>
  The attributes lie in the memory from the address \<open>p\<close> on, attribute \<open>n\<close> at \<open>p + n\<close>; \<^verbatim>\<open>dummy_data_field\<close> is at \<open>p\<close>.
  \<open>tcpip_cell\<close> is the content of the cells of an object. The configuration is not settable, the
  default of all ports.
\<close>

definition tcpip_cell :: "CipTcpIpObject \<Rightarrow> nat \<Rightarrow> cip_value" where
  "tcpip_cell t n =
     (let c = interface_configuration t; m = mcast_config t
      in if n = 1 then V32 (tcpip_status t) else if n = 2 then V32 (config_capability t) else if n = 3 then V32 (config_control t)
         else if n = 4 then VEpath (physical_link_object t)
         else if n = 5 then VStruct [V32 (ip_address c), V32 (network_mask c), V32 (gateway c), V32 (name_server c),
            V32 (name_server_2 c), VString (domain_name c)]
         else if n = 6 then VString (hostname t) else if n = 8 then V8 (mcast_ttl_value t)
         else if n = 9 then VStruct [V8 (alloc_control m), V8 (reserved_shall_be_zero m),
            V16 (number_of_allocated_multicast_addresses m), V32 (starting_multicast_address m)]
         else if n = 10 then V8 (select_acd t) else if n = 13 then V16 (encapsulation_inactivity_timeout t)
         else V8 0)"

definition tcpip_rows :: "OpenerEndianess \<Rightarrow> CipTcpIpObject \<Rightarrow> nat \<Rightarrow> attribute_row list" where
  "tcpip_rows e t p =
     [(1, kCipDword, EncodeCipDword, None, Obj (p + 1), kGetableSingleAndAll),
      (2, kCipDword, EncodeCipDword, None, Obj (p + 2), kGetableSingleAndAll),
      (3, kCipDword, EncodeCipDword, Some DecodeTcpIpInterfaceConfigurationControl, Obj (p + 3),
         kSetAndGetAble OR kNvDataFunc OR kNotSetOrGetable),
      (4, kCipEpath, EncodeCipEPath, None, Obj (p + 4), kGetableSingleAndAll),
      (5, kCipUdintUdintUdintUdintUdintString, EncodeCipTcpIpInterfaceConfiguration e, None, Obj (p + 5),
         kGetableSingleAndAll OR kNvDataFunc OR kNotSetOrGetable),
      (6, kCipString, EncodeCipString, None, Obj (p + 6), kGetableSingleAndAll OR kNvDataFunc OR kNotSetOrGetable),
      (7, kCipAny, EncodeSafetyNetworkNumber, None, Obj p, kGetableAllDummy),
      (8, kCipUsint, EncodeCipUsint, None, Obj (p + 8), kGetableSingleAndAll),
      (9, kCipAny, EncodeCipTcpIpMulticastConfiguration e t, None, Obj (p + 9), kGetableSingleAndAll),
      (10, kCipBool, EncodeCipBool, None, Obj (p + 10), kGetableAllDummy),
      (11, kCipBool, EncodeCipLastConflictDetected, None, Obj p, kGetableAllDummy),
      (12, kCipBool, EncodeCipBool, None, Obj p, kGetableAllDummy),
      (13, kCipUint, EncodeCipUint, Some DecodeCipTcpIpInterfaceEncapsulationInactivityTimeout, Obj (p + 13),
         kSetAndGetAble OR kNvDataFunc)]"

definition CipTcpIpInterfaceInit ::
    "OpenerEndianess \<Rightarrow> CipTcpIpObject \<Rightarrow> nat \<Rightarrow> 'u std_service registry \<Rightarrow> (EipStatus \<times> 'u std_service registry) option" where
  "CipTcpIpInterfaceInit e t p objects = do {
     (c, objects) \<leftarrow> CreateCipClass objects kCipTcpIpInterfaceClassCode 0 7 2 13 13 3 1 ''TCP/IP interface'' 4 None;
     c \<leftarrow> setup_instance 1 (tcpip_rows e t p)
        [(kGetAttributeSingle, SvcGetAttributeSingle, ''GetAttributeSingle''),
         (kGetAttributeAll, SvcGetAttributeAll, ''GetAttributeAll''),
         (kSetAttributeSingle, SvcSetAttributeSingle, ''SetAttributeSingle'')] c;
     Some (kEipStatusOk, store_class kCipTcpIpInterfaceClassCode c objects) }"

definition ShutdownTcpIpInterface :: "CipTcpIpObject \<Rightarrow> CipTcpIpObject" where
  "ShutdownTcpIpInterface t =
     (let t = (if s_string (hostname t) \<noteq> None then t\<lparr>hostname := (hostname t)\<lparr>s_string := None\<rparr>\<rparr> else t);
          c = interface_configuration t
      in if s_string (domain_name c) \<noteq> None
         then t\<lparr>interface_configuration := c\<lparr>domain_name := (domain_name c)\<lparr>s_string := None\<rparr>\<rparr>\<rparr> else t)"

text \<open>\<^term>\<open>None\<close> is the failed assertion that the attribute exists, or data of another type.\<close>

definition GetEncapsulationInactivityTimeout :: "'svc cip_core \<Rightarrow> cip_mem \<Rightarrow> cip_instance \<Rightarrow> CipUint option" where
  "GetEncapsulationInactivityTimeout cls mem inst = do {
     a \<leftarrow> GetCipAttribute cls inst 13;
     ref \<leftarrow> attr_data a;
     (case mem ref of V16 v \<Rightarrow> Some v | _ \<Rightarrow> None) }"

subsection \<open>Correctness of the checks\<close>

text \<open>The reference: the labels of a domain are the parts between its dots.\<close>

fun labels_of :: "octet list \<Rightarrow> octet list list" where
  "labels_of [] = [[]]"
| "labels_of (c # cs) = (if c = 46 then [] # labels_of cs else (c # hd (labels_of cs)) # tl (labels_of cs))"

definition host_name_label :: "octet list \<Rightarrow> bool" where
  "host_name_label l \<longleftrightarrow> l \<noteq> [] \<and> isalnum_c (hd l) \<and> isalnum_c (last l) \<and> (\<forall>c \<in> set l. isalnum_c c \<or> c = 45)"

lemma not_alnum [simp]: "\<not> isalnum_c 45" "\<not> isalnum_c 46"
  by (simp_all add: isalnum_c_def)

lemma name_label_rest_iff:
  "name_label_rest p cs \<longleftrightarrow> last (p # cs) \<noteq> 45 \<and> (\<forall>c \<in> set cs. isalnum_c c \<or> c = 45)"
  by (induction cs arbitrary: p) auto

lemma IsValidNameLabel_iff: "IsValidNameLabel l \<longleftrightarrow> host_name_label l"
proof (cases l)
  case (Cons c cs)
  have "last (c # cs) \<in> set (c # cs)" by (rule last_in_set) simp
  then show ?thesis
    using Cons by (auto simp: host_name_label_def name_label_rest_iff split: if_splits)
qed (simp add: host_name_label_def)

lemma labels_of_nonempty [simp]: "labels_of s \<noteq> []"
  by (cases s) simp_all

lemma labels_of_split:
  "labels_of s = (case dropWhile (\<lambda>c. c \<noteq> 46) s of
     [] \<Rightarrow> [s] | _ # rest \<Rightarrow> takeWhile (\<lambda>c. c \<noteq> 46) s # labels_of rest)"
  by (induction s) (auto split: list.splits simp del: dropWhile_eq_Nil_conv)

text \<open>
  C34: The recursive check of a domain accepts exactly the dot-separated lists of labels that consist of letters, digits
  and hyphens and neither begin nor end with a hyphen. So neither a leading nor a trailing nor a doubled dot is accepted.
\<close>
theorem IsValidDomain_iff: "IsValidDomain s \<longleftrightarrow> list_all host_name_label (labels_of s)"
proof (induction s rule: IsValidDomain.induct)
  case (1 s)
  show ?case
  proof (cases "dropWhile (\<lambda>c. c \<noteq> 46) s")
    case Nil
    then have "\<forall>c \<in> set s. c \<noteq> 46" by (simp add: dropWhile_eq_Nil_conv)
    then have "s = [] \<or> hd s \<noteq> 46" by (cases s) simp_all
    then show ?thesis
      using Nil by (subst IsValidDomain.simps, subst labels_of_split)
        (auto simp: IsValidNameLabel_iff simp del: dropWhile_eq_Nil_conv)
  next
    case (Cons x rest)
    have first: "\<not> host_name_label (takeWhile (\<lambda>c. c \<noteq> 46) s)" if "s \<noteq> [] \<and> hd s = 46"
      using that by (cases s) (simp_all add: host_name_label_def)
    have rest: "\<not> host_name_label []" by (simp add: host_name_label_def)
    show ?thesis
    proof (cases "s \<noteq> [] \<and> hd s = 46")
      case True
      then show ?thesis using Cons first by (subst IsValidDomain.simps, subst labels_of_split) simp
    next
      case False
      from 1 [OF False Cons] show ?thesis
        using Cons False rest by (subst IsValidDomain.simps, subst labels_of_split) (auto simp: IsValidNameLabel_iff)
    qed
  qed
qed

lemma nat_power_of_two: "0 < n \<Longrightarrow> (n::nat) AND (n - 1) = 0 \<Longrightarrow> \<exists>k. n = 2 ^ k"
proof (induction n rule: less_induct)
  case (less n)
  show ?case
  proof (cases "even n")
    case True
    then obtain k where k: "n = 2 * k" by blast
    then have "0 < k" using less(2) by simp
    then have "n - 1 = 1 + 2 * (k - 1)" using k by simp
    then have "2 * (k AND (k - 1)) = 0" using less(3) k \<open>0 < k\<close> by (simp add: and_nat_unfold [of "2 * k"])
    then obtain j where "k = 2 ^ j" using less(1) [of k] k \<open>0 < k\<close> by auto
    then show ?thesis using k by (intro exI [of _ "Suc j"]) simp
  next
    case False
    then obtain k where k: "n = 2 * k + 1" by (metis oddE)
    then have "k = 0 \<or> 2 * (k AND k) = 0" using less(3) by (cases "k = 0") (simp_all add: and_nat_unfold [of "Suc (2 * k)"])
    then show ?thesis using k by (intro exI [of _ 0]) simp
  qed
qed



lemma word_power_of_two:
  fixes v :: "'a::len word"
  shows "v \<noteq> 0 \<and> v AND (v - 1) = 0 \<longleftrightarrow> (\<exists>k < LENGTH('a). v = 2 ^ k)"
proof
  assume v: "v \<noteq> 0 \<and> v AND (v - 1) = 0"
  then have pos: "0 < unat v" by (simp add: unat_gt_0)
  then have "unat (v - 1) = unat v - 1" by (intro unat_minus_one) auto
  then have "unat v AND (unat v - 1) = 0" using v by (metis unat_0 unsigned_and_eq)
  then obtain k where k: "unat v = 2 ^ k" using nat_power_of_two pos by blast
  have "unat v < 2 ^ LENGTH('a)" by (rule unsigned_less)
  then have "k < LENGTH('a)" using k by simp
  moreover have "v = of_nat (unat v)" by simp
  then have "v = 2 ^ k" using k by simp
  ultimately show "\<exists>k < LENGTH('a). v = 2 ^ k" by blast
next
  assume "\<exists>k < LENGTH('a). v = 2 ^ k"
  then obtain k where k: "k < LENGTH('a)" "v = 2 ^ k" by blast
  have "v AND (v - 1) = take_bit k (2 ^ k)" using k by (simp add: take_bit_eq_mask mask_eq_exp_minus_1)
  then show "v \<noteq> 0 \<and> v AND (v - 1) = 0" using k by (simp add: take_bit_eq_mod)
qed

lemma htonl_htonl [simp]: "htonl e (htonl e v) = v"
  by (simp add: htonl_def le_octets_word le_word_octets)

lemma htonl_all_ones: "htonl e v = 0xFFFFFFFF \<longleftrightarrow> v = 0xFFFFFFFF"
proof -
  have "htonl e 0xFFFFFFFF = 0xFFFFFFFF" by (simp add: htonl_def le_octets_4 le_word_def)
  then show ?thesis by (metis htonl_htonl)
qed

text \<open>An accepted mask consists, in host byte order, of leading ones followed by between 1 and 31 zeros.\<close>

lemma netmask_iff:
  "IsValidNetmask e m \<longleftrightarrow> (\<exists>k. 1 \<le> k \<and> k \<le> 31 \<and> ntohl e m = NOT (mask k))"
proof -
  have "NOT v + 1 = 2 ^ k \<longleftrightarrow> v = NOT (mask k)" for v :: "32 word" and k
  proof -
    have "NOT v + 1 = 2 ^ k \<longleftrightarrow> NOT v = mask k" by (simp add: mask_eq_exp_minus_1 eq_diff_eq)
    then show ?thesis by (metis bit.double_compl)
  qed
  then have "(\<exists>k < 32. NOT v + 1 = 2 ^ k) \<longleftrightarrow> (\<exists>k < 32. v = NOT (mask k))" for v :: "32 word" by simp
  moreover have "(\<exists>k < 32. v = NOT (mask k)) \<and> v \<noteq> 0xFFFFFFFF \<longleftrightarrow> (\<exists>k. 1 \<le> k \<and> k \<le> 31 \<and> v = NOT (mask k))"
    for v :: "32 word"
  proof -
    have 0: "NOT (mask 0) = (0xFFFFFFFF :: 32 word)" by simp
    have "NOT (mask k) \<noteq> (0xFFFFFFFF :: 32 word)" if "1 \<le> k" for k
    proof
      assume "NOT (mask k) = (0xFFFFFFFF :: 32 word)"
      then have "bit (NOT (mask k) :: 32 word) 0 \<longleftrightarrow> bit (0xFFFFFFFF :: 32 word) 0" by simp
      then show False using that by (simp add: bit_not_iff bit_mask_iff)
    qed
    moreover have "k < 32 \<and> k \<noteq> 0 \<longleftrightarrow> 1 \<le> k \<and> k \<le> 31" for k :: nat by auto
    ultimately show ?thesis using 0 by metis
  qed
  ultimately show ?thesis
    using word_power_of_two [of "NOT (ntohl e m) + 1"]
    by (simp add: IsValidNetmask_def Let_def htonl_all_ones [symmetric, of m e]) metis
qed

text \<open>
  The multicast address of the device lies in the block 239.192.1.0 to 239.192.128.224, at a
  multiple of 32 above its start; it depends on the ten lowest bits of the host number only.
\<close>
theorem multicast_address_block:
  fixes t :: CipTcpIpObject and e
  defines "a \<equiv> ntohl e (starting_multicast_address (mcast_config (CipTcpIpCalculateMulticastIp e t)))"
    and "host \<equiv> ntohl e (tcpip_ip_address t) AND NOT (ntohl e (network_mask (interface_configuration t)))"
  shows "uint a = 0xEFC00100 + 32 * ((uint host - 1) mod 1024) \<and> 0xEFC00100 \<le> a \<and> a \<le> 0xEFC080E0"
proof -
  define h where "h = (host - 1) AND 0x3FF"
  have a: "a = 0xEFC00100 + push_bit 5 h"
    by (simp add: a_def h_def host_def CipTcpIpCalculateMulticastIp_def Let_def)
  have "h = take_bit 10 (host - 1)" by (simp add: h_def take_bit_eq_mask mask_eq_exp_minus_1)
  then have "uint h = take_bit 10 (uint (host - 1))" by (simp add: unsigned_take_bit_eq)
  also have "\<dots> = (uint host - 1) mod 1024" by (simp add: take_bit_eq_mod uint_word_arith_bintrs mod_mod_cancel)
  finally have h: "uint h = (uint host - 1) mod 1024" .
  then have le: "uint h \<le> 1023" by simp
  have "uint (push_bit 5 h) = 32 * uint h"
    using le by (simp add: push_bit_eq_mult uint_word_ariths)
  then have u: "uint a = 0xEFC00100 + 32 * uint h" using a le by (simp add: uint_word_ariths)
  then show ?thesis using le h by (simp add: word_le_def)
qed

lemma bit_htonl:
  "bit (htonl e v) i \<longleftrightarrow> i < 32 \<and> bit v (if e = kOpENerEndianessLittle then 8 * (3 - i div 8) + i mod 8 else i)"
proof (cases "i < 32")
  case True
  then have "i div 8 < 4" by simp
  then show ?thesis using True by (simp add: htonl_def bit_le_word bit_le_octets rev_nth)
next
  case False
  then show ?thesis using bit_imp_le_length [of "htonl e v" i] by auto
qed

lemma htonl_bitwise:
  "htonl e (a AND b) = htonl e a AND htonl e b" "htonl e (a OR b) = htonl e a OR htonl e b"
  "htonl e (NOT a) = NOT (htonl e a)"
  by (rule bit_word_eqI; auto simp: bit_htonl bit_simps)+

lemma htonl_eq_iff [simp]: "htonl e a = htonl e b \<longleftrightarrow> a = b"
  by (metis htonl_htonl)

lemma htonl_0 [simp]: "htonl e 0 = 0" "htonl e a = 0 \<longleftrightarrow> a = 0"
proof -
  show "htonl e 0 = 0" by (rule bit_word_eqI) (simp add: bit_htonl)
  then show "htonl e a = 0 \<longleftrightarrow> a = 0" by (metis htonl_htonl)
qed

text \<open>A usable address of a host: not reserved, not of the loopback network, and its host part is neither all zeros nor all ones.\<close>

definition host_address :: "32 word \<Rightarrow> 32 word \<Rightarrow> bool" where
  "host_address m a \<longleftrightarrow> a AND NOT m \<noteq> 0 \<and> a AND NOT m \<noteq> NOT m"

definition classful :: "32 word \<Rightarrow> bool" where
  "classful a \<longleftrightarrow> unat a < 0xE0000000"

definition loopback :: "32 word \<Rightarrow> bool" where
  "loopback a \<longleftrightarrow> unat a div 2 ^ 24 = 127"

lemma IsNetworkOrBroadcastIp_iff: "IsNetworkOrBroadcastIp (htonl e a) (htonl e m) \<longleftrightarrow> \<not> host_address m a"
proof -
  have "a AND m = a \<longleftrightarrow> a AND NOT m = 0" "a OR NOT m = a \<longleftrightarrow> a AND NOT m = NOT m"
    by (auto simp: bit_eq_iff bit_simps)
  then show ?thesis
    by (simp add: IsNetworkOrBroadcastIp_def host_address_def flip: htonl_bitwise)
qed

lemma high_bits_eq:
  fixes a b :: "32 word"
  shows "a AND NOT (mask n) = b \<longleftrightarrow> 2 ^ n * (unat a div 2 ^ n) = unat b"
proof -
  have "a AND NOT (mask n) = push_bit n (drop_bit n a)" by (rule bit_word_eqI) (auto simp: bit_simps)
  moreover have "2 ^ n * (unat a div 2 ^ n) \<le> unat a" by (simp add: times_div_less_eq_dividend)
  from le_less_trans [OF this unsigned_less] have "2 ^ n * (unat a div 2 ^ n) < 2 ^ 32" by simp
  moreover have "unat (push_bit n (drop_bit n a)) = take_bit 32 (push_bit n (drop_bit n (unat a)))"
    by (simp add: unsigned_push_bit_eq unsigned_drop_bit_eq take_bit_nat_eq_self unsigned_less [of a, where ?'a = nat, simplified])
  ultimately have "unat (a AND NOT (mask n)) = 2 ^ n * (unat a div 2 ^ n)"
    by (simp add: push_bit_eq_mult drop_bit_eq_div take_bit_eq_mod mult.commute)
  then show ?thesis by (simp add: word_unat_eq_iff)
qed

lemma IsOnLoopbackNetwork_iff: "IsOnLoopbackNetwork e (htonl e a) \<longleftrightarrow> loopback a"
proof -
  have "(0xFF000000 :: 32 word) = NOT (mask 24)" by (simp add: mask_eq_exp_minus_1)
  then have "a AND 0xFF000000 = 0x7F000000 \<longleftrightarrow> 2 ^ 24 * (unat a div 2 ^ 24) = unat (0x7F000000 :: 32 word)"
    using high_bits_eq by metis
  then show ?thesis by (auto simp: IsOnLoopbackNetwork_def loopback_def)
qed

lemma IsInClassAbc_iff: "IsInClassAbc e (htonl e a) \<longleftrightarrow> classful a"
proof -
  have "(0x80000000 :: 32 word) = NOT (mask 31)" "(0xC0000000 :: 32 word) = NOT (mask 30)" "(0xE0000000 :: 32 word) = NOT (mask 29)"
    by (simp_all add: mask_eq_exp_minus_1)
  then have "IsInClassAbc e (htonl e a) \<longleftrightarrow> 2 ^ 31 * (unat a div 2 ^ 31) = 0 \<or> 2 ^ 30 * (unat a div 2 ^ 30) = 0x80000000
      \<or> 2 ^ 29 * (unat a div 2 ^ 29) = 0xC0000000"
    using high_bits_eq [of a 31 0] high_bits_eq [of a 30 "0x80000000"] high_bits_eq [of a 29 "0xC0000000"]
    by (simp add: IsInClassAbc_def Let_def)
  also have "\<dots> \<longleftrightarrow> classful a" unfolding classful_def by simp arith
  finally show ?thesis .
qed

text \<open>
  C33: What the check of an interface configuration accepts, on addresses in host byte order and for both byte orders of the
  platform: an address of a host in its network, outside of the loopback and the multicast and reserved
  ranges; no network mask, or one of leading ones; no gateway, or one that is
  another such address of the same network; and name servers outside of the multicast and reserved ranges.
\<close>
theorem IsValidNetworkConfig_iff:
  assumes "ip_address c = htonl e a" "network_mask c = htonl e m" "gateway c = htonl e g"
    "name_server c = htonl e n1" "name_server_2 c = htonl e n2"
  shows "IsValidNetworkConfig e c \<longleftrightarrow>
     a \<noteq> 0 \<and> classful a \<and> \<not> loopback a \<and> host_address m a
     \<and> (m = 0 \<or> (\<exists>k. 1 \<le> k \<and> k \<le> 31 \<and> m = NOT (mask k)))
     \<and> (g = 0 \<or> classful g \<and> \<not> loopback g \<and> host_address m g \<and> (m = 0 \<or> m AND a = m AND g))
     \<and> classful n1 \<and> classful n2"
proof -
  have "classful 0" "\<not> loopback 0" by (simp_all add: classful_def loopback_def)
  then show ?thesis
    unfolding IsValidNetworkConfig_def assms IsInClassAbc_iff IsOnLoopbackNetwork_iff IsNetworkOrBroadcastIp_iff netmask_iff
    by (auto simp flip: htonl_bitwise)
qed

theorem IsValidNetworkConfig_iff_witness:
  "\<exists>c. IsValidNetworkConfig kOpENerEndianessLittle c \<and> ip_address c = htonl kOpENerEndianessLittle 0xC0A80102"
proof -
  define c where "c = \<lparr>ip_address = htonl kOpENerEndianessLittle 0xC0A80102, network_mask = htonl kOpENerEndianessLittle 0xFFFFFF00,
     gateway = htonl kOpENerEndianessLittle 0xC0A80101, name_server = htonl kOpENerEndianessLittle 0,
     name_server_2 = htonl kOpENerEndianessLittle 0, domain_name = null_string\<rparr>"
  have "(0xFFFFFF00 :: 32 word) = NOT (mask 8)" by (simp add: mask_eq_exp_minus_1)
  then have "\<exists>k. 1 \<le> k \<and> k \<le> 31 \<and> (0xFFFFFF00 :: 32 word) = NOT (mask k)" by (intro exI [of _ 8]) simp
  then have "IsValidNetworkConfig kOpENerEndianessLittle c"
    using IsValidNetworkConfig_iff [of c kOpENerEndianessLittle "0xC0A80102" "0xFFFFFF00" "0xC0A80101" 0 0]
    by (simp add: c_def classful_def loopback_def host_address_def)
  then show ?thesis by (intro exI [of _ c]) (simp add: c_def)
qed

end
