(* ===== verification/Cpf.thy ===== *)
theory Cpf
  imports ConnectionObject EncapHeader DoublyLinkedList SocketTimer CipIdentity CipTcpIp
begin

text \<open>
  The common packet format (\<^verbatim>\<open>enet_encap/cpf.c\<close>): taking a received packet apart into its
  address item, data item and socket address items, handing the data on to the message router,
  and assembling the reply. The parsed packet is the global \<^verbatim>\<open>g_common_packet_format_data_item\<close>,
  which also the services may change; it is a field of the state \<open>stack_state\<close> together with the
  memory of the connection objects and the list of the active ones.
\<close>

subsection \<open>Data\<close>

abbreviation (input) kCipItemIdNullAddress :: CipUint where "kCipItemIdNullAddress \<equiv> 0x0000"
abbreviation (input) kCipItemIdListServiceResponse :: CipUint where "kCipItemIdListServiceResponse \<equiv> 0x0100"
abbreviation (input) kCipItemIdConnectionAddress :: CipUint where "kCipItemIdConnectionAddress \<equiv> 0x00A1"
abbreviation (input) kCipItemIdConnectedDataItem :: CipUint where "kCipItemIdConnectedDataItem \<equiv> 0x00B1"
abbreviation (input) kCipItemIdUnconnectedDataItem :: CipUint where "kCipItemIdUnconnectedDataItem \<equiv> 0x00B2"
abbreviation (input) kCipItemIdSocketAddressInfoOriginatorToTarget :: CipUint where
  "kCipItemIdSocketAddressInfoOriginatorToTarget \<equiv> 0x8000"
abbreviation (input) kCipItemIdSocketAddressInfoTargetToOriginator :: CipUint where
  "kCipItemIdSocketAddressInfoTargetToOriginator \<equiv> 0x8001"
abbreviation (input) kCipItemIdSequencedAddressItem :: CipUint where "kCipItemIdSequencedAddressItem \<equiv> 0x8002"

record address_item =
  ai_type_id :: CipUint
  ai_length :: CipUint
  connection_identifier :: "32 word"
  sequence_number :: "32 word"

record data_item =
  di_type_id :: "16 word"
  di_length :: "16 word"
  di_data :: "octet list"

record socket_address_info_item =
  sa_type_id :: CipUint
  sa_length :: CipUint
  sa_family :: CipInt
  sa_port :: CipUint
  sa_addr :: CipUdint
  nasin_zero :: "octet list"

text \<open>\<open>address_info_item\<close> has two elements.\<close>

record cpf_data =
  item_count :: "16 word"
  cpf_address_item :: address_item
  cpf_data_item :: data_item
  address_info_item :: "socket_address_info_item list"

text \<open>
  The state of the stack: the memory of the connection objects, the list of the active ones,
  the parsed packet, and of the encapsulation layer and the network handler the sessions (a
  socket or the invalid one), the socket timers, the time, the sockets watched for input, the
  delayed replies and the calls of the socket interface so far, the latest one first. Of the
  TCP/IP object and the network status these are the fields this code reads.
\<close>

record delayed_message =
  dm_time_out :: "32 word"
  dm_socket :: int
  dm_receiver :: sockaddr_in
  dm_outgoing_message :: enip_message

datatype net_effect =
  ShutdownSocket int | ClosedSocket int | SentDatagram int sockaddr_in "octet list" | SentStream int "octet list"

record network_status =
  ns_ip_address :: CipUdint
  ns_network_mask :: CipUdint

record ('fn, 'app) stack_state =
  st_objects :: "nat \<Rightarrow> 'fn connection_object"
  st_connection_list :: "dll \<times> nat pool"
  st_cpf :: cpf_data
  g_registered_sessions :: "int list"
  g_timestamps :: "socket_timer list"
  g_actual_time :: MilliSeconds
  master_socket :: "int set"
  g_delayed_encapsulation_messages :: "delayed_message list"
  st_effects :: "net_effect list"
  g_identity :: identity_object
  g_tcpip :: CipTcpIpObject
  g_network_status :: network_status
  st_app :: 'app

subsection \<open>Parsing\<close>

definition set_info_type :: "nat \<Rightarrow> CipUint \<Rightarrow> cpf_data \<Rightarrow> cpf_data" where
  "set_info_type j t g =
     g\<lparr>address_info_item := (address_info_item g)[j := (address_info_item g ! j)\<lparr>sa_type_id := t\<rparr>]\<rparr>"

definition parse_address_item :: "octet list \<Rightarrow> cpf_data \<Rightarrow> (cpf_data \<times> octet list \<times> nat) option" where
  "parse_address_item data g = do {
     (t, data) \<leftarrow> GetUintFromMessage data;
     (l, data) \<leftarrow> GetUintFromMessage data;
     let a = (cpf_address_item g)\<lparr>ai_type_id := t, ai_length := l\<rparr>;
     let count = 4;
     (a, data, count) \<leftarrow> (if l \<ge> 4 then do {
         (i, data) \<leftarrow> GetUdintFromMessage data;
         Some (a\<lparr>connection_identifier := i\<rparr>, data, count + 4)
       } else Some (a, data, count));
     (a, data, count) \<leftarrow> (if l = 8 then do {
         (n, data) \<leftarrow> GetUdintFromMessage data;
         Some (a\<lparr>sequence_number := n\<rparr>, data, count + 4)
       } else Some (a, data, count));
     Some (g\<lparr>cpf_address_item := a\<rparr>, data, count) }"

text \<open>
  The socket address items: an item of another type is put back, but its two octets stay
  counted.
\<close>

fun parse_address_infos ::
    "nat list \<Rightarrow> octet list \<Rightarrow> nat \<Rightarrow> cpf_data \<Rightarrow> (cpf_data \<times> octet list \<times> nat) option" where
  "parse_address_infos [] data count g = Some (g, data, count)"
| "parse_address_infos (j # js) data count g = do {
     (t, p) \<leftarrow> GetIntFromMessage data;
     let count = count + 2;
     if t = kCipItemIdSocketAddressInfoOriginatorToTarget \<or> t = kCipItemIdSocketAddressInfoTargetToOriginator
     then do {
       (l, p) \<leftarrow> GetIntFromMessage p;
       (family, p) \<leftarrow> GetIntFromMessage p;
       (port, p) \<leftarrow> GetIntFromMessage p;
       (addr, p) \<leftarrow> GetUdintFromMessage p;
       guard (8 \<le> length p);
       parse_address_infos js (drop 8 p) (count + 18)
         (g\<lparr>address_info_item := (address_info_item g)[j := \<lparr>sa_type_id = t, sa_length = l, sa_family = family,
             sa_port = port, sa_addr = addr, nasin_zero = take 8 p\<rparr>]\<rparr>)
     } else parse_address_infos js data count (set_info_type j 0 g) }"

definition CreateCommonPacketFormatStructure ::
    "octet list \<Rightarrow> nat \<Rightarrow> cpf_data \<Rightarrow> (EipStatus \<times> cpf_data) option" where
  "CreateCommonPacketFormatStructure data data_length g = do {
     let g = set_info_type 1 0 (set_info_type 0 0 g);
     (n, data) \<leftarrow> GetUintFromMessage data;
     let g = g\<lparr>item_count := n\<rparr>;
     let length_count = 2;
     (g, data, length_count) \<leftarrow> (if n \<ge> 1 then do {
         (g, data, k) \<leftarrow> parse_address_item data g;
         Some (g, data, length_count + k)
       } else Some (g, data, length_count));
     let finish = (\<lambda>g length_count.
        let g = (if n < 4 then set_info_type 1 0 g else g);
            g = (if n < 3 then set_info_type 0 0 g else g)
        in Some (if length_count = data_length \<or> n > 2 then kEipStatusOk else kEipStatusError, g));
     if n \<ge> 2 then do {
       (t, data) \<leftarrow> GetUintFromMessage data;
       (l, data) \<leftarrow> GetUintFromMessage data;
       let g = g\<lparr>cpf_data_item := \<lparr>di_type_id = t, di_length = l, di_data = data\<rparr>\<rparr>;
       if data_length \<ge> length_count + 4 + unat l then do {
         guard (unat l \<le> length data);
         (g, data, length_count) \<leftarrow> parse_address_infos [0..<min 2 (unat (n - 2))] (drop (unat l) data)
            (length_count + 4 + unat l) g;
         finish g length_count
       } else Some (kEipStatusError, g)
     } else finish g length_count }"

subsection \<open>Assembling\<close>

definition EncodeNullAddressItem :: "enip_message \<Rightarrow> enip_message option" where
  "EncodeNullAddressItem m = do { m \<leftarrow> AddIntToMessage kCipItemIdNullAddress m; AddIntToMessage 0 m }"

definition EncodeConnectedAddressItem :: "cpf_data \<Rightarrow> enip_message \<Rightarrow> enip_message option" where
  "EncodeConnectedAddressItem g m = do {
     m \<leftarrow> AddIntToMessage kCipItemIdConnectionAddress m;
     m \<leftarrow> AddIntToMessage 4 m;
     AddDintToMessage (connection_identifier (cpf_address_item g)) m }"

definition kSequencedAddressItemLength :: "16 word" where
  "kSequencedAddressItemLength = 8"

definition EncodeSequencedAddressItem :: "cpf_data \<Rightarrow> enip_message \<Rightarrow> enip_message option" where
  "EncodeSequencedAddressItem g m = do {
     m \<leftarrow> AddIntToMessage kCipItemIdSequencedAddressItem m;
     m \<leftarrow> AddIntToMessage kSequencedAddressItemLength m;
     m \<leftarrow> AddDintToMessage (connection_identifier (cpf_address_item g)) m;
     AddDintToMessage (sequence_number (cpf_address_item g)) m }"

definition EncodeItemCount :: "cpf_data \<Rightarrow> enip_message \<Rightarrow> enip_message option" where
  "EncodeItemCount g m = AddIntToMessage (item_count g) m"

definition EncodeDataItemType :: "cpf_data \<Rightarrow> enip_message \<Rightarrow> enip_message option" where
  "EncodeDataItemType g m = AddIntToMessage (di_type_id (cpf_data_item g)) m"

definition EncodeDataItemLength :: "cpf_data \<Rightarrow> enip_message \<Rightarrow> enip_message option" where
  "EncodeDataItemLength g m = AddIntToMessage (di_length (cpf_data_item g)) m"

text \<open>The \<^verbatim>\<open>memcpy\<close> of \<open>n\<close> octets to the current position, which then moves behind them.\<close>

definition copy_n_octets :: "octet list \<Rightarrow> nat \<Rightarrow> enip_message \<Rightarrow> enip_message option" where
  "copy_n_octets src n m = do {
     guard (n \<le> length src);
     m \<leftarrow> put_octets (take n src) m;
     Some (m\<lparr>current_message_position := current_message_position m + n,
             used_message_length := used_message_length m + of_nat n\<rparr>) }"

definition EncodeDataItemData :: "cpf_data \<Rightarrow> enip_message \<Rightarrow> enip_message option" where
  "EncodeDataItemData g m = copy_n_octets (di_data (cpf_data_item g)) (unat (di_length (cpf_data_item g))) m"

definition EncodeConnectedDataItemLength :: "mr_response \<Rightarrow> enip_message \<Rightarrow> enip_message option" where
  "EncodeConnectedDataItemLength resp m =
     AddIntToMessage (ucast (used_message_length (message resp) + 4 + 2
       + 2 * ucast (size_of_additional_status resp))) m"

definition EncodeSequenceNumber :: "cpf_data \<Rightarrow> enip_message \<Rightarrow> enip_message option" where
  "EncodeSequenceNumber g m = AddIntToMessage (ucast (sequence_number (cpf_address_item g))) m"

definition EncodeReplyService :: "mr_response \<Rightarrow> enip_message \<Rightarrow> enip_message option" where
  "EncodeReplyService resp m = AddSintToMessage (reply_service resp) m"

definition EncodeReservedFieldOfLengthByte :: "mr_response \<Rightarrow> enip_message \<Rightarrow> enip_message option" where
  "EncodeReservedFieldOfLengthByte resp m = AddSintToMessage (reserved resp) m"

definition EncodeGeneralStatus :: "mr_response \<Rightarrow> enip_message \<Rightarrow> enip_message option" where
  "EncodeGeneralStatus resp m = AddSintToMessage (general_status resp) m"

definition EncodeExtendedStatusLength :: "mr_response \<Rightarrow> enip_message \<Rightarrow> enip_message option" where
  "EncodeExtendedStatusLength resp m = AddSintToMessage (size_of_additional_status resp) m"

definition MAX_SIZE_OF_ADD_STATUS :: nat where
  "MAX_SIZE_OF_ADD_STATUS = 2"

fun add_status_words :: "16 word list \<Rightarrow> enip_message \<Rightarrow> enip_message option" where
  "add_status_words [] m = Some m"
| "add_status_words (w # ws) m = Option.bind (AddIntToMessage w m) (add_status_words ws)"

definition EncodeExtendedStatusDataItems :: "mr_response \<Rightarrow> enip_message \<Rightarrow> enip_message option" where
  "EncodeExtendedStatusDataItems resp m =
     (let n = min (unat (size_of_additional_status resp)) MAX_SIZE_OF_ADD_STATUS
      in if n \<le> length (additional_status resp)
         then add_status_words (take n (additional_status resp)) m else None)"

definition EncodeExtendedStatus :: "mr_response \<Rightarrow> enip_message \<Rightarrow> enip_message option" where
  "EncodeExtendedStatus resp m = do {
     m \<leftarrow> EncodeExtendedStatusLength resp m;
     EncodeExtendedStatusDataItems resp m }"

definition EncodeUnconnectedDataItemLength :: "mr_response \<Rightarrow> enip_message \<Rightarrow> enip_message option" where
  "EncodeUnconnectedDataItemLength resp m =
     AddIntToMessage (ucast (used_message_length (message resp) + 4
       + 2 * ucast (size_of_additional_status resp))) m"

definition EncodeMessageRouterResponseData :: "mr_response \<Rightarrow> enip_message \<Rightarrow> enip_message option" where
  "EncodeMessageRouterResponseData resp m =
     copy_n_octets (message_buffer (message resp)) (unat (used_message_length (message resp))) m"

definition EncodeSockaddrInfoItemTypeId :: "nat \<Rightarrow> cpf_data \<Rightarrow> enip_message \<Rightarrow> enip_message option" where
  "EncodeSockaddrInfoItemTypeId j g m = do {
     guard (j = 0 \<or> j = 1);
     AddIntToMessage (sa_type_id (address_info_item g ! j)) m }"

definition EncodeSockaddrInfoLength :: "nat \<Rightarrow> cpf_data \<Rightarrow> enip_message \<Rightarrow> enip_message option" where
  "EncodeSockaddrInfoLength j g m = AddIntToMessage (sa_length (address_info_item g ! j)) m"

text \<open>The first of the two items that has the given type, if any, goes on the wire.\<close>

definition encode_sockaddr_of_type ::
    "OpenerEndianess \<Rightarrow> CipUint \<Rightarrow> cpf_data \<Rightarrow> enip_message \<Rightarrow> enip_message option" where
  "encode_sockaddr_of_type e t g m =
     (case find (\<lambda>j. sa_type_id (address_info_item g ! j) = t) [0, 1] of
        None \<Rightarrow> Some m
      | Some j \<Rightarrow> do {
          m \<leftarrow> EncodeSockaddrInfoItemTypeId j g m;
          m \<leftarrow> EncodeSockaddrInfoLength j g m;
          m \<leftarrow> EncapsulateIpAddress e (sa_port (address_info_item g ! j)) (sa_addr (address_info_item g ! j)) m;
          FillNextNMessageOctetsWithValueAndMoveToNextPosition 0 8 m })"

definition encode_reply :: "mr_response \<Rightarrow> enip_message \<Rightarrow> enip_message option" where
  "encode_reply resp m = do {
     m \<leftarrow> EncodeReplyService resp m;
     m \<leftarrow> EncodeReservedFieldOfLengthByte resp m;
     m \<leftarrow> EncodeGeneralStatus resp m;
     m \<leftarrow> EncodeExtendedStatus resp m;
     EncodeMessageRouterResponseData resp m }"

definition encode_data_item ::
    "mr_response option \<Rightarrow> cpf_data \<Rightarrow> cpf_data \<Rightarrow> enip_message \<Rightarrow> enip_message option" where
  "encode_data_item response glob g m =
     (if di_type_id (cpf_data_item g) = kCipItemIdUnconnectedDataItem
         \<or> di_type_id (cpf_data_item g) = kCipItemIdConnectedDataItem
      then (case response of
          Some resp \<Rightarrow> do {
            m \<leftarrow> EncodeDataItemType g m;
            m \<leftarrow> (if di_type_id (cpf_data_item g) = kCipItemIdConnectedDataItem then do {
                  m \<leftarrow> EncodeConnectedDataItemLength resp m;
                  EncodeSequenceNumber glob m
                } else EncodeUnconnectedDataItemLength resp m);
            encode_reply resp m }
        | None \<Rightarrow> do {
            m \<leftarrow> EncodeDataItemType g m;
            m \<leftarrow> EncodeDataItemLength g m;
            EncodeDataItemData g m })
      else Some m)"

text \<open>
  The sequence number is read from the global packet \<open>glob\<close>, everything else from the
  argument \<open>g\<close>.
\<close>

definition AssembleLinearMessage ::
    "OpenerEndianess \<Rightarrow> mr_response option \<Rightarrow> cpf_data \<Rightarrow> cpf_data \<Rightarrow> enip_message
      \<Rightarrow> (EipStatus \<times> enip_message) option" where
  "AssembleLinearMessage e response glob g m = do {
     m \<leftarrow> (if response \<noteq> None then do { m \<leftarrow> AddDintToMessage 0 m; AddIntToMessage 0 m } else Some m);
     m \<leftarrow> EncodeItemCount g m;
     let t = ai_type_id (cpf_address_item g);
     if t \<notin> {kCipItemIdNullAddress, kCipItemIdConnectionAddress, kCipItemIdSequencedAddressItem}
     then Some (kEipStatusError, m)
     else do {
       m \<leftarrow> (if t = kCipItemIdNullAddress then EncodeNullAddressItem m
             else if t = kCipItemIdConnectionAddress then EncodeConnectedAddressItem g m
             else EncodeSequencedAddressItem g m);
       m \<leftarrow> encode_data_item response glob g m;
       m \<leftarrow> encode_sockaddr_of_type e kCipItemIdSocketAddressInfoOriginatorToTarget g m;
       m \<leftarrow> encode_sockaddr_of_type e kCipItemIdSocketAddressInfoTargetToOriginator g m;
       Some (kEipStatusOk, m) } }"

definition AssembleIOMessage ::
    "OpenerEndianess \<Rightarrow> cpf_data \<Rightarrow> cpf_data \<Rightarrow> enip_message \<Rightarrow> enip_message option" where
  "AssembleIOMessage e glob g m = map_option snd (AssembleLinearMessage e None glob g m)"

subsection \<open>Received packets\<close>

definition InitializeMessageRouterResponse :: mr_response where
  "InitializeMessageRouterResponse = \<lparr>reply_service = 0, reserved = 0, general_status = 0,
     size_of_additional_status = 0, additional_status = [0, 0],
     message = \<lparr>message_buffer = replicate PC_OPENER_ETHERNET_BUFFER_SIZE 0, current_message_position = 0,
       used_message_length = 0\<rparr>\<rparr>"

text \<open>
  The reply of both handlers: the body behind the header, then the header at the start of the
  buffer, whose length field is the length of the body. The status of the assembly is ignored.
\<close>

definition write_reply ::
    "OpenerEndianess \<Rightarrow> mr_response \<Rightarrow> cpf_data \<Rightarrow> encapsulation_data \<Rightarrow> enip_message \<Rightarrow> enip_message option" where
  "write_reply e resp g received_data m = do {
     m \<leftarrow> SkipEncapsulationHeader m;
     (status, m) \<leftarrow> AssembleLinearMessage e (Some resp) g g m;
     let pos = current_message_position m;
     m \<leftarrow> GenerateEncapsulationHeader received_data (used_message_length m) (ed_session_handle received_data)
        kEncapsulationProtocolSuccess (m\<lparr>current_message_position := 0\<rparr>);
     Some (m\<lparr>current_message_position := pos\<rparr>) }"

text \<open>
  The environment of the handlers: the endianess of the platform and the services, which get
  the address of the originator and the session handle.
\<close>

type_synonym ('fn, 'app, 'svc) service_call =
  "sockaddr_in \<Rightarrow> CipSessionHandle \<Rightarrow> 'svc \<Rightarrow> 'svc cip_class \<Rightarrow> cip_instance \<Rightarrow> ('fn, 'app) stack_state
    \<Rightarrow> mr_request \<Rightarrow> mr_response
    \<Rightarrow> (EipStatus \<times> 'svc cip_class \<times> ('fn, 'app) stack_state \<times> mr_request \<times> mr_response) option"

type_synonym ('fn, 'app, 'svc) stack_result =
  "(EipStatus \<times> 'svc registry \<times> mr_request \<times> ('fn, 'app) stack_state \<times> enip_message) option"

definition NotifyCommonPacketFormat ::
    "OpenerEndianess \<Rightarrow> ('fn, 'app, 'svc) service_call \<Rightarrow> encapsulation_data \<Rightarrow> sockaddr_in \<Rightarrow> 'svc registry
      \<Rightarrow> mr_request \<Rightarrow> ('fn, 'app) stack_state \<Rightarrow> enip_message \<Rightarrow> ('fn, 'app, 'svc) stack_result" where
  "NotifyCommonPacketFormat e call received_data originator objects req st m = do {
     (status, g) \<leftarrow> CreateCommonPacketFormatStructure (current_communication_buffer_position received_data)
        (unat (ed_data_length received_data)) (st_cpf st);
     let st = st\<lparr>st_cpf := g\<rparr>;
     let incorrect_data = do {
       m \<leftarrow> GenerateEncapsulationHeader received_data 0 (ed_session_handle received_data)
          kEncapsulationProtocolIncorrectData m;
       Some (kEipStatusOkSend, objects, req, st, m) };
     if status = kEipStatusError then Some (kEipStatusError, objects, req, st, m)
     else if ai_type_id (cpf_address_item g) = kCipItemIdNullAddress then
       if di_type_id (cpf_data_item g) = kCipItemIdUnconnectedDataItem then do {
         (return_value, objects, req, st, resp) \<leftarrow>
            NotifyMessageRouter (call originator (ed_session_handle received_data)) (di_data (cpf_data_item g))
              (int (unat (di_length (cpf_data_item g)))) objects req st InitializeMessageRouterResponse;
         if return_value \<noteq> kEipStatusError then do {
           m \<leftarrow> write_reply e resp (st_cpf st) received_data m;
           Some (kEipStatusOkSend, objects, req, st, m)
         } else Some (kEipStatusError, objects, req, st, m)
       } else incorrect_data
     else incorrect_data }"

text \<open>
  Active connections are found by their consumed connection identifier
  (\<^verbatim>\<open>GetConnectedObject\<close> of \<^verbatim>\<open>cip/cipconnectionmanager.c\<close>); the result is the address of the
  connection object.
\<close>

definition GetConnectedObject :: "('fn, 'app) stack_state \<Rightarrow> 32 word \<Rightarrow> nat option" where
  "GetConnectedObject st connection_id =
     find (\<lambda>a. ConnectionObjectGetState (st_objects st a) = kConnectionObjectStateEstablished
              \<and> connection_id = cip_consumed_connection_id (st_objects st a)) (list_data (st_connection_list st))"

definition store_object ::
    "nat \<Rightarrow> 'fn connection_object \<Rightarrow> ('fn, 'app) stack_state \<Rightarrow> ('fn, 'app) stack_state" where
  "store_object a c st = st\<lparr>st_objects := (st_objects st)(a := c)\<rparr>"

definition reset_watchdog ::
    "nat \<Rightarrow> ('fn, 'app) stack_state \<Rightarrow> ('fn, 'app) stack_state option" where
  "reset_watchdog a st = do {
     c \<leftarrow> ConnectionObjectResetInactivityWatchdogTimerValue (st_objects st a);
     Some (store_object a c st) }"

text \<open>
  A repeated sequence count: the last reply is sent again under a new header. The code then
  sets the position to the read pointer of the request; the position of this message is not
  used any more, and is left behind the header here.
\<close>

definition repeat_last_reply ::
    "encapsulation_data \<Rightarrow> 'fn connection_object \<Rightarrow> enip_message option" where
  "repeat_last_reply received_data c =
     (let m = last_reply_sent c;
          n = used_message_length m - of_nat ENCAPSULATION_HEADER_LENGTH
      in GenerateEncapsulationHeader received_data n (ed_session_handle received_data)
           kEncapsulationProtocolSuccess (m\<lparr>current_message_position := 0, used_message_length := n\<rparr>))"

definition process_connected_data ::
    "OpenerEndianess \<Rightarrow> ('fn, 'app, 'svc) service_call \<Rightarrow> encapsulation_data \<Rightarrow> sockaddr_in \<Rightarrow> nat \<Rightarrow> 'svc registry
      \<Rightarrow> mr_request \<Rightarrow> ('fn, 'app) stack_state \<Rightarrow> enip_message
      \<Rightarrow> (bool \<times> 'svc registry \<times> mr_request \<times> ('fn, 'app) stack_state \<times> enip_message) option" where
  "process_connected_data e call received_data originator a objects req st m = do {
     (n, buffer) \<leftarrow> GetUintFromMessage (di_data (cpf_data_item (st_cpf st)));
     let g = (st_cpf st)\<lparr>cpf_address_item := (cpf_address_item (st_cpf st))\<lparr>sequence_number := ucast n\<rparr>\<rparr>;
     let st = st\<lparr>st_cpf := g\<rparr>;
     if sequence_count_consuming (st_objects st a) = n
     then do {
       m \<leftarrow> repeat_last_reply received_data (st_objects st a);
       Some (True, objects, req, st, m)
     } else do {
       let st = store_object a ((st_objects st a)\<lparr>sequence_count_consuming := n\<rparr>) st;
       st \<leftarrow> reset_watchdog a st;
       (return_value, objects, req, st, resp) \<leftarrow>
          NotifyMessageRouter (call originator (ed_session_handle received_data)) buffer
            (int (unat (di_length (cpf_data_item g))) - 2) objects req st InitializeMessageRouterResponse;
       if return_value \<noteq> kEipStatusError then do {
         let st = st\<lparr>st_cpf := (st_cpf st)\<lparr>cpf_address_item := (cpf_address_item (st_cpf st))
             \<lparr>connection_identifier := cip_produced_connection_id (st_objects st a)\<rparr>\<rparr>\<rparr>;
         m \<leftarrow> write_reply e resp (st_cpf st) received_data m;
         Some (False, objects, req, store_object a ((st_objects st a)\<lparr>last_reply_sent := m\<rparr>) st, m)
       } else Some (False, objects, req, st, m) } }"

definition NotifyConnectedCommonPacketFormat ::
    "OpenerEndianess \<Rightarrow> ('fn, 'app, 'svc) service_call \<Rightarrow> encapsulation_data \<Rightarrow> sockaddr_in \<Rightarrow> 'svc registry
      \<Rightarrow> mr_request \<Rightarrow> ('fn, 'app) stack_state \<Rightarrow> enip_message \<Rightarrow> ('fn, 'app, 'svc) stack_result" where
  "NotifyConnectedCommonPacketFormat e call received_data originator objects req st m = do {
     let finish = (\<lambda>objects req st m.
        Some (if used_message_length m \<noteq> 0 then kEipStatusOkSend else kEipStatusOk, objects, req, st, m));
     (status, g) \<leftarrow> CreateCommonPacketFormatStructure (current_communication_buffer_position received_data)
        (unat (ed_data_length received_data)) (st_cpf st);
     let st = st\<lparr>st_cpf := g\<rparr>;
     if status = kEipStatusError \<or> ai_type_id (cpf_address_item g) \<noteq> kCipItemIdConnectionAddress
     then finish objects req st m
     else case GetConnectedObject st (connection_identifier (cpf_address_item g)) of
       None \<Rightarrow> finish objects req st m
     | Some a \<Rightarrow> do {
         st \<leftarrow> reset_watchdog a st;
         if di_type_id (cpf_data_item g) = kCipItemIdConnectedDataItem then do {
           (repeated, objects, req, st, m) \<leftarrow> process_connected_data e call received_data originator a objects req st m;
           if repeated then Some (kEipStatusOkSend, objects, req, st, m) else finish objects req st m
         } else finish objects req st m } }"


subsection \<open>The octets of a packet\<close>

text \<open>
  A specification of the wire format: the address item of a packet, and a packet with its item
  count, address item, data item and socket address items.
\<close>

datatype cpf_address = NullAddress | ConnectedAddress "32 word" | SequencedAddress "32 word" "32 word"

fun address_octets :: "cpf_address \<Rightarrow> octet list" where
  "address_octets NullAddress = le_octets 2 kCipItemIdNullAddress @ le_octets 2 (0 :: 16 word)"
| "address_octets (ConnectedAddress i) =
     le_octets 2 kCipItemIdConnectionAddress @ le_octets 2 (4 :: 16 word) @ le_octets 4 i"
| "address_octets (SequencedAddress i s) =
     le_octets 2 kCipItemIdSequencedAddressItem @ le_octets 2 (8 :: 16 word) @ le_octets 4 i @ le_octets 4 s"

fun parsed_address :: "cpf_address \<Rightarrow> address_item \<Rightarrow> address_item" where
  "parsed_address NullAddress a = a\<lparr>ai_type_id := kCipItemIdNullAddress, ai_length := 0\<rparr>"
| "parsed_address (ConnectedAddress i) a =
     a\<lparr>ai_type_id := kCipItemIdConnectionAddress, ai_length := 4, connection_identifier := i\<rparr>"
| "parsed_address (SequencedAddress i s) a =
     a\<lparr>ai_type_id := kCipItemIdSequencedAddressItem, ai_length := 8, connection_identifier := i, sequence_number := s\<rparr>"

definition info_octets :: "socket_address_info_item \<Rightarrow> octet list" where
  "info_octets i = le_octets 2 (sa_type_id i) @ le_octets 2 (sa_length i) @ le_octets 2 (sa_family i)
     @ le_octets 2 (sa_port i) @ le_octets 4 (sa_addr i) @ nasin_zero i"

definition info_ok :: "socket_address_info_item \<Rightarrow> bool" where
  "info_ok i \<longleftrightarrow> sa_type_id i \<in> {kCipItemIdSocketAddressInfoOriginatorToTarget,
     kCipItemIdSocketAddressInfoTargetToOriginator} \<and> length (nasin_zero i) = 8"

definition packet_octets ::
    "cpf_address \<Rightarrow> 16 word \<Rightarrow> octet list \<Rightarrow> socket_address_info_item list \<Rightarrow> octet list" where
  "packet_octets a t payload infos =
     le_octets 2 (of_nat (2 + length infos) :: 16 word) @ address_octets a
     @ le_octets 2 t @ le_octets 2 (of_nat (length payload) :: 16 word) @ payload @ concat (map info_octets infos)"

text \<open>The structure of a parsed packet, with \<open>rest\<close> the memory behind it and \<open>g\<close> the previous packet.\<close>

definition parsed_packet ::
    "cpf_address \<Rightarrow> 16 word \<Rightarrow> octet list \<Rightarrow> socket_address_info_item list \<Rightarrow> octet list \<Rightarrow> cpf_data \<Rightarrow> cpf_data" where
  "parsed_packet a t payload infos rest g =
     g\<lparr>item_count := of_nat (2 + length infos),
       cpf_address_item := parsed_address a (cpf_address_item g),
       cpf_data_item := \<lparr>di_type_id = t, di_length = of_nat (length payload),
          di_data = payload @ concat (map info_octets infos) @ rest\<rparr>,
       address_info_item := infos @ map (\<lambda>i. i\<lparr>sa_type_id := 0\<rparr>) (drop (length infos) (address_info_item g))\<rparr>"

lemma parsed_packet_simps [simp]:
  "cpf_address_item (parsed_packet a t payload infos rest g) = parsed_address a (cpf_address_item g)"
  "di_type_id (cpf_data_item (parsed_packet a t payload infos rest g)) = t"
  "di_length (cpf_data_item (parsed_packet a t payload infos rest g)) = of_nat (length payload)"
  "di_data (cpf_data_item (parsed_packet a t payload infos rest g)) = payload @ concat (map info_octets infos) @ rest"
  "item_count (parsed_packet a t payload infos rest g) = of_nat (2 + length infos)"
  by (simp_all add: parsed_packet_def)

lemmas cpf_readers = uint.dec_enc udint.dec_enc Get_aliases

lemma parse_address_item_octets:
  "parse_address_item (address_octets a @ rest) g =
     Some (g\<lparr>cpf_address_item := parsed_address a (cpf_address_item g)\<rparr>, rest, length (address_octets a))"
  by (cases a) (simp_all add: parse_address_item_def cpf_readers)

lemma length_info_octets [simp]: "info_ok i \<Longrightarrow> length (info_octets i) = 20"
  by (simp add: info_octets_def info_ok_def)

lemma parse_address_infos_step:
  assumes "info_ok i"
  shows "parse_address_infos (j # js) (info_octets i @ rest) count g =
     parse_address_infos js rest (count + 20) (g\<lparr>address_info_item := (address_info_item g)[j := i]\<rparr>)"
  using assms by (cases i) (auto simp: info_octets_def cpf_readers info_ok_def add.commute)

lemma upt_0_2: "[0..<2] = [0, Suc 0]"
  by (simp add: upt_rec)

lemma CreateCommonPacketFormatStructure_packet:
  assumes infos: "length infos \<le> 2" "\<forall>i \<in> set infos. info_ok i" and payload: "length payload < 65536"
    and g: "length (address_info_item g) = 2"
  shows "CreateCommonPacketFormatStructure (packet_octets a t payload infos @ rest)
       (length (packet_octets a t payload infos)) g =
     Some (kEipStatusOk, parsed_packet a t payload infos rest g)"
proof -
  obtain i0 i1 where ai: "address_info_item g = [i0, i1]"
    using g by (auto simp: numeral_2_eq_2 length_Suc_conv)
  have p: "unat (of_nat (length payload) :: 16 word) = length payload"
    using payload by (rule unat_of_nat_16)
  consider "infos = []" | x where "infos = [x]" "info_ok x" | x y where "infos = [x, y]" "info_ok x" "info_ok y"
    using infos by (cases infos rule: list.exhaust; cases "tl infos"; cases "tl (tl infos)") auto
  then show ?thesis
    unfolding CreateCommonPacketFormatStructure_def packet_octets_def parsed_packet_def
    by cases (simp_all add: uint.dec_enc parse_address_item_octets p ai set_info_type_def parse_address_infos_step upt_0_2
        del: parse_address_infos.simps(2))
qed


subsection \<open>The octets of a reply\<close>

definition extended_status :: "mr_response \<Rightarrow> 16 word list" where
  "extended_status resp = take (unat (size_of_additional_status resp)) (additional_status resp)"

definition response_ok :: "mr_response \<Rightarrow> bool" where
  "response_ok resp \<longleftrightarrow> unat (size_of_additional_status resp) \<le> MAX_SIZE_OF_ADD_STATUS
     \<and> length (additional_status resp) = MAX_SIZE_OF_ADD_STATUS \<and> wf_msg (message resp)"

definition reply_octets :: "mr_response \<Rightarrow> octet list" where
  "reply_octets resp = [reply_service resp, reserved resp, general_status resp, size_of_additional_status resp]
     @ concat (map (le_octets 2) (extended_status resp)) @ msg_content (message resp)"

text \<open>The address item of a parsed packet; \<^term>\<open>None\<close> for an unknown type.\<close>

definition address_of :: "address_item \<Rightarrow> cpf_address option" where
  "address_of a =
     (if ai_type_id a = kCipItemIdNullAddress then Some NullAddress
      else if ai_type_id a = kCipItemIdConnectionAddress then Some (ConnectedAddress (connection_identifier a))
      else if ai_type_id a = kCipItemIdSequencedAddressItem
      then Some (SequencedAddress (connection_identifier a) (sequence_number a))
      else None)"

definition no_infos :: "cpf_data \<Rightarrow> bool" where
  "no_infos g \<longleftrightarrow> length (address_info_item g) = 2 \<and> (\<forall>i \<in> set (address_info_item g). sa_type_id i = 0)"

lemma copy_n_octets_emit: "n \<le> length src \<Longrightarrow> copy_n_octets src n = emit (take n src)"
  by (rule ext) (simp add: copy_n_octets_def emit_def)

lemma add_status_words_emit:
  "Option.bind (emit bs m) (\<lambda>m. Option.bind (add_status_words ws m) f) =
   Option.bind (emit (bs @ concat (map (le_octets 2) ws)) m) f"
proof (induction ws arbitrary: bs)
  case (Cons w ws)
  have "Option.bind (emit bs m) (\<lambda>m. Option.bind (add_status_words (w # ws) m) f) =
        Option.bind (emit (bs @ le_octets 2 w) m) (\<lambda>m. Option.bind (add_status_words ws m) f)"
    by (simp add: AddInt_emit bind_assoc emit_bind)
  also have "\<dots> = Option.bind (emit ((bs @ le_octets 2 w) @ concat (map (le_octets 2) ws)) m) f"
    by (rule Cons.IH)
  finally show ?case by simp
qed simp

lemma response_content:
  assumes "wf_msg (message resp)"
  shows "take (unat (used_message_length (message resp))) (message_buffer (message resp)) = msg_content (message resp)"
    and "unat (used_message_length (message resp)) \<le> length (message_buffer (message resp))"
    and "unat (used_message_length (message resp)) = length (msg_content (message resp))"
  using assms unat_used_message_length [OF assms] length_msg_content [OF assms]
  by (auto simp: wf_msg_def msg_content_def)

lemma encode_reply_emit:
  assumes "response_ok resp"
  shows "encode_reply resp = emit (reply_octets resp)"
proof
  fix m
  have s: "min (unat (size_of_additional_status resp)) MAX_SIZE_OF_ADD_STATUS = unat (size_of_additional_status resp)"
    "unat (size_of_additional_status resp) \<le> length (additional_status resp)" "wf_msg (message resp)"
    using assms by (simp_all add: response_ok_def)
  have "encode_reply resp m =
     Option.bind (emit [reply_service resp, reserved resp, general_status resp, size_of_additional_status resp] m)
       (\<lambda>m. Option.bind (add_status_words (extended_status resp) m) (emit (msg_content (message resp))))"
    using s response_content [OF s(3)]
    by (simp add: encode_reply_def EncodeReplyService_def EncodeReservedFieldOfLengthByte_def EncodeGeneralStatus_def
        EncodeExtendedStatus_def EncodeExtendedStatusLength_def EncodeExtendedStatusDataItems_def
        EncodeMessageRouterResponseData_def copy_n_octets_emit AddSint_emit emit_bind bind_assoc extended_status_def
        cong: option.case_cong)
  then show "encode_reply resp m = emit (reply_octets resp) m"
    by (simp add: add_status_words_emit emit_emit reply_octets_def)
qed

lemma length_reply_octets:
  assumes "response_ok resp"
  shows "length (reply_octets resp) =
    4 + 2 * unat (size_of_additional_status resp) + unat (used_message_length (message resp))"
proof -
  have "length (extended_status resp) = unat (size_of_additional_status resp)"
    using assms by (simp add: response_ok_def extended_status_def)
  moreover have "length (concat (map (le_octets 2) (ws :: 16 word list))) = 2 * length ws" for ws
    by (induction ws) simp_all
  ultimately show ?thesis
    using response_content(3) [of resp] assms by (simp add: reply_octets_def response_ok_def)
qed

lemma unconnected_length:
  assumes "response_ok resp"
  shows "(ucast (used_message_length (message resp) + 4 + 2 * ucast (size_of_additional_status resp)) :: 16 word)
     = of_nat (length (reply_octets resp))"
    and "(ucast (used_message_length (message resp) + 4 + 2 + 2 * ucast (size_of_additional_status resp)) :: 16 word)
     = of_nat (2 + length (reply_octets resp))"
    and "length (reply_octets resp) \<le> 520"
proof -
  let ?u = "used_message_length (message resp)" and ?k = "size_of_additional_status resp"
  have b: "unat ?u \<le> 512" "unat ?k \<le> 2"
    using assms response_content(2) [of resp]
    by (auto simp: response_ok_def wf_msg_def MAX_SIZE_OF_ADD_STATUS_def PC_OPENER_ETHERNET_BUFFER_SIZE_def)
  have l: "length (reply_octets resp) = 4 + 2 * unat ?k + unat ?u"
    using assms by (rule length_reply_octets)
  have "?u + 4 + 2 * ucast ?k = of_nat (length (reply_octets resp))"
    by (simp add: l algebra_simps)
  moreover have "?u + 4 + 2 + 2 * ucast ?k = of_nat (2 + length (reply_octets resp))"
    by (simp add: l algebra_simps)
  moreover have "(ucast (of_nat n :: size_t) :: 16 word) = of_nat n" if "n \<le> 1000" for n
    using that by (simp add: unsigned_of_nat take_bit_nat_eq_self)
  ultimately show "(ucast (?u + 4 + 2 * ucast ?k) :: 16 word) = of_nat (length (reply_octets resp))"
    "(ucast (?u + 4 + 2 + 2 * ucast ?k) :: 16 word) = of_nat (2 + length (reply_octets resp))"
    using l b by (simp_all only:)
  show "length (reply_octets resp) \<le> 520"
    using l b by simp
qed


definition reply_payload :: "mr_response \<Rightarrow> cpf_data \<Rightarrow> octet list" where
  "reply_payload resp g =
     (if di_type_id (cpf_data_item g) = kCipItemIdConnectedDataItem
      then le_octets 2 (ucast (sequence_number (cpf_address_item g)) :: 16 word) else []) @ reply_octets resp"

text \<open>A parsed packet without socket address items that asks for a reply.\<close>

definition reply_packet_ok :: "cpf_data \<Rightarrow> bool" where
  "reply_packet_ok g \<longleftrightarrow> item_count g = 2 \<and> no_infos g \<and> address_of (cpf_address_item g) \<noteq> None
     \<and> di_type_id (cpf_data_item g) \<in> {kCipItemIdUnconnectedDataItem, kCipItemIdConnectedDataItem}"

definition reply_body :: "mr_response \<Rightarrow> cpf_data \<Rightarrow> octet list" where
  "reply_body resp g = le_octets 4 (0 :: 32 word) @ le_octets 2 (0 :: 16 word)
     @ packet_octets (the (address_of (cpf_address_item g))) (di_type_id (cpf_data_item g)) (reply_payload resp g) []"

lemma encode_address_emit:
  assumes "address_of (cpf_address_item g) = Some a"
  shows "(if ai_type_id (cpf_address_item g) = kCipItemIdNullAddress then EncodeNullAddressItem m
          else if ai_type_id (cpf_address_item g) = kCipItemIdConnectionAddress then EncodeConnectedAddressItem g m
          else EncodeSequencedAddressItem g m) = emit (address_octets a) m"
    and "ai_type_id (cpf_address_item g) \<in> {kCipItemIdNullAddress, kCipItemIdConnectionAddress, kCipItemIdSequencedAddressItem}"
  using assms
  by (auto simp: address_of_def EncodeNullAddressItem_def EncodeConnectedAddressItem_def EncodeSequencedAddressItem_def
      kSequencedAddressItemLength_def codec_simps split: if_splits)

lemma encode_data_item_emit:
  assumes "response_ok resp"
    and "di_type_id (cpf_data_item g) \<in> {kCipItemIdUnconnectedDataItem, kCipItemIdConnectedDataItem}"
  shows "encode_data_item (Some resp) g g = emit (le_octets 2 (di_type_id (cpf_data_item g))
     @ le_octets 2 (of_nat (length (reply_payload resp g)) :: 16 word) @ reply_payload resp g)"
  using assms(2) unconnected_length [OF assms(1)] encode_reply_emit [OF assms(1)]
  by (auto simp: encode_data_item_def EncodeDataItemType_def EncodeConnectedDataItemLength_def EncodeSequenceNumber_def
      EncodeUnconnectedDataItemLength_def reply_payload_def codec_simps intro!: ext)

lemma no_infos_nothing:
  assumes "no_infos g" and "t \<noteq> 0"
  shows "encode_sockaddr_of_type e t g = Some"
proof -
  have "sa_type_id (address_info_item g ! 0) = 0" "sa_type_id (address_info_item g ! 1) = 0"
    using assms(1) unfolding no_infos_def by (simp_all add: all_set_conv_all_nth)
  then have "find (\<lambda>j. sa_type_id (address_info_item g ! j) = t) [0, 1] = None"
    using assms(2) by simp
  then show ?thesis
    by (intro ext) (simp add: encode_sockaddr_of_type_def)
qed

lemma AssembleLinearMessage_reply:
  assumes resp: "response_ok resp" and g: "reply_packet_ok g"
  shows "AssembleLinearMessage e (Some resp) g g m = map_option (Pair kEipStatusOk) (emit (reply_body resp g) m)"
proof -
  obtain a where a: "address_of (cpf_address_item g) = Some a"
    using g by (auto simp: reply_packet_ok_def)
  have t: "di_type_id (cpf_data_item g) \<in> {kCipItemIdUnconnectedDataItem, kCipItemIdConnectedDataItem}"
    and i: "no_infos g" and c: "item_count g = 2"
    using g by (simp_all add: reply_packet_ok_def)
  have "AssembleLinearMessage e (Some resp) g g m = Option.bind (emit (reply_body resp g) m) (\<lambda>m. Some (kEipStatusOk, m))"
    unfolding AssembleLinearMessage_def Let_def
    by (simp only: encode_address_emit [OF a] encode_data_item_emit [OF resp t] if_False
        not_True_eq_False) (simp add: EncodeItemCount_def codec_simps reply_body_def packet_octets_def a c no_infos_nothing [OF i])
  then show ?thesis by (cases "emit (reply_body resp g) m") simp_all
qed


lemma emit_at:
  "current_message_position m + length bs \<le> length (message_buffer m) \<Longrightarrow>
   emit bs m = Some (m\<lparr>message_buffer := splice_at (current_message_position m) bs (message_buffer m),
     current_message_position := current_message_position m + length bs,
     used_message_length := used_message_length m + of_nat (length bs)\<rparr>)"
  by (simp add: emit_def put_octets_def)

lemma take_splice_header:
  "length h = n \<Longrightarrow> n + length bs \<le> length buf \<Longrightarrow>
   take (n + length bs) (splice_at 0 h (splice_at n bs buf)) = h @ bs"
  by (simp add: splice_at_def)

text \<open>What is on the wire: the octets of the buffer up to the used length.\<close>

definition sent_octets :: "enip_message \<Rightarrow> octet list" where
  "sent_octets m = take (unat (used_message_length m)) (message_buffer m)"

definition success_header :: "encapsulation_data \<Rightarrow> nat \<Rightarrow> octet list" where
  "success_header d n = header_octets (command_code d) (of_nat n) (ed_session_handle d) 0 (sender_context d)"

lemma write_reply_result:
  assumes resp: "response_ok resp" and g: "reply_packet_ok g"
    and ctx: "length (sender_context d) = kSenderContextSize"
  shows "(case write_reply e resp g d (InitializeENIPMessage old) of
            None \<Rightarrow> 512 < 24 + length (reply_body resp g)
          | Some m \<Rightarrow> 24 + length (reply_body resp g) \<le> 512
              \<and> sent_octets m = success_header d (length (reply_body resp g)) @ reply_body resp g
              \<and> wf_msg m)"
proof -
  let ?b = "reply_body resp g" and ?h = "success_header d (length (reply_body resp g))"
  let ?m = "InitializeENIPMessage old"
  have skip: "SkipEncapsulationHeader ?m = Some (?m\<lparr>current_message_position := 24\<rparr>)"
    by (simp add: SkipEncapsulationHeader_def InitializeENIPMessage_def ENCAPSULATION_HEADER_LENGTH_def
        PC_OPENER_ETHERNET_BUFFER_SIZE_def)
  show ?thesis
  proof (cases "24 + length ?b \<le> 512")
    case False
    then have "emit ?b (?m\<lparr>current_message_position := 24\<rparr>) = None"
      by (simp add: emit_None_iff InitializeENIPMessage_def PC_OPENER_ETHERNET_BUFFER_SIZE_def)
    then show ?thesis
      using False by (simp add: write_reply_def skip AssembleLinearMessage_reply [OF resp g])
  next
    case True
    let ?m1 = "?m\<lparr>message_buffer := splice_at 24 ?b (replicate 512 0), current_message_position := 24 + length ?b,
       used_message_length := of_nat (length ?b)\<rparr>"
    have e1: "emit ?b (?m\<lparr>current_message_position := 24\<rparr>) = Some ?m1"
      using True by (subst emit_at) (simp_all add: InitializeENIPMessage_def PC_OPENER_ETHERNET_BUFFER_SIZE_def)
    have u: "(ucast (of_nat (length ?b) :: size_t) :: 16 word) = of_nat (length ?b)"
      using True by (simp add: unsigned_of_nat take_bit_nat_eq_self)
    have lh: "length ?h = 24"
      using ctx by (simp add: success_header_def kSenderContextSize_def)
    have h: "GenerateEncapsulationHeader d (of_nat (length ?b)) (ed_session_handle d) kEncapsulationProtocolSuccess = emit ?h"
      by (simp add: GenerateEncapsulationHeader_emit [OF ctx] u success_header_def)
    have e2: "emit ?h (?m1\<lparr>current_message_position := 0\<rparr>) = Some (?m\<lparr>
        message_buffer := splice_at 0 ?h (splice_at 24 ?b (replicate 512 0)), current_message_position := 24,
        used_message_length := of_nat (24 + length ?b)\<rparr>)"
      using True lh by (subst emit_at) (simp_all add: add.commute)
    have w: "write_reply e resp g d ?m = Some (?m\<lparr>
        message_buffer := splice_at 0 ?h (splice_at 24 ?b (replicate 512 0)),
        current_message_position := 24 + length ?b, used_message_length := of_nat (24 + length ?b)\<rparr>)"
      using e2 by (simp add: write_reply_def skip AssembleLinearMessage_reply [OF resp g] e1 h)
    have "unat (of_nat (24 + length ?b) :: size_t) = 24 + length ?b"
      using True by (intro unat_of_nat_64) simp
    then show ?thesis
      using True lh take_splice_header [OF lh, of ?b "replicate 512 0"]
      by (simp add: w sent_octets_def wf_msg_def PC_OPENER_ETHERNET_BUFFER_SIZE_def)
  qed
qed


lemma unconnected_overhead:
  assumes "response_ok resp" and "ai_type_id (cpf_address_item g) = kCipItemIdNullAddress"
    and "di_type_id (cpf_data_item g) = kCipItemIdUnconnectedDataItem"
  shows "24 + length (reply_body resp g) =
     44 + 2 * unat (size_of_additional_status resp) + unat (used_message_length (message resp))"
  using assms(2,3) length_reply_octets [OF assms(1)]
  by (simp add: reply_body_def packet_octets_def reply_payload_def address_of_def)

lemma unconnected_request_parsed:
  assumes "current_communication_buffer_position d = packet_octets NullAddress kCipItemIdUnconnectedDataItem payload [] @ rest"
    and "unat (ed_data_length d) = length payload + 10" and "length (address_info_item (st_cpf st)) = 2"
  defines "g \<equiv> parsed_packet NullAddress kCipItemIdUnconnectedDataItem payload [] rest (st_cpf st)"
  shows "CreateCommonPacketFormatStructure (current_communication_buffer_position d)
        (unat (ed_data_length d)) (st_cpf st) = Some (kEipStatusOk, g)"
    and "reply_packet_ok g" and "ai_type_id (cpf_address_item g) = kCipItemIdNullAddress"
    and "di_type_id (cpf_data_item g) = kCipItemIdUnconnectedDataItem" and "di_data (cpf_data_item g) = payload @ rest"
    and "unat (di_length (cpf_data_item g)) = length payload"
proof -
  have "unat (ed_data_length d) < 65536" by (rule unat_uint16_less)
  then have p: "length payload < 65536" using assms(2) by simp
  have l: "length (packet_octets NullAddress kCipItemIdUnconnectedDataItem payload []) = unat (ed_data_length d)"
    by (simp add: packet_octets_def assms(2))
  show "CreateCommonPacketFormatStructure (current_communication_buffer_position d)
        (unat (ed_data_length d)) (st_cpf st) = Some (kEipStatusOk, g)"
    using CreateCommonPacketFormatStructure_packet [OF _ _ p assms(3), of "[]" NullAddress kCipItemIdUnconnectedDataItem rest]
    by (simp add: assms(1) l g_def)
  show "reply_packet_ok g" "ai_type_id (cpf_address_item g) = kCipItemIdNullAddress"
    "di_type_id (cpf_data_item g) = kCipItemIdUnconnectedDataItem" "di_data (cpf_data_item g) = payload @ rest"
    "unat (di_length (cpf_data_item g)) = length payload"
    using assms(3) unat_of_nat_16 [OF p]
    by (auto simp: g_def parsed_packet_def reply_packet_ok_def no_infos_def address_of_def)
qed

subsection \<open>Properties\<close>

text \<open>
  C29: A well-formed packet (any of the three address items, a data item, and up to two socket
  address items) is accepted, whatever the memory behind it and the previous packet, and the
  structure has exactly its items; the socket address items that it does not have are marked as
  not set.
\<close>
theorem CreateCommonPacketFormatStructure_well_formed:
  assumes "length infos \<le> 2" and "\<forall>i \<in> set infos. info_ok i" and "length payload < 65536"
    and "length (address_info_item g) = 2"
  shows "CreateCommonPacketFormatStructure (packet_octets a t payload infos @ rest)
       (length (packet_octets a t payload infos)) g =
     Some (kEipStatusOk, parsed_packet a t payload infos rest g)"
  using assms by (rule CreateCommonPacketFormatStructure_packet)

definition zero_info :: socket_address_info_item where
  "zero_info = \<lparr>sa_type_id = 0, sa_length = 0, sa_family = 0, sa_port = 0, sa_addr = 0, nasin_zero = replicate 8 0\<rparr>"

definition zero_cpf :: cpf_data where
  "zero_cpf = \<lparr>item_count = 0,
     cpf_address_item = \<lparr>ai_type_id = 0, ai_length = 0, connection_identifier = 0, sequence_number = 0\<rparr>,
     cpf_data_item = \<lparr>di_type_id = 0, di_length = 0, di_data = []\<rparr>, address_info_item = [zero_info, zero_info]\<rparr>"

lemma CreateCommonPacketFormatStructure_well_formed_witness:
  "\<exists>g'. CreateCommonPacketFormatStructure (packet_octets (ConnectedAddress 7) kCipItemIdConnectedDataItem [1, 0, 14, 0]
         [zero_info\<lparr>sa_type_id := 0x8001\<rparr>]) 38 zero_cpf = Some (kEipStatusOk, g')
     \<and> connection_identifier (cpf_address_item g') = 7"
proof -
  let ?i = "zero_info\<lparr>sa_type_id := 0x8001\<rparr>"
  have i: "length [?i] \<le> 2" "\<forall>i \<in> set [?i]. info_ok i"
    by (simp_all add: info_ok_def zero_info_def)
  have "length (packet_octets (ConnectedAddress 7) kCipItemIdConnectedDataItem [1, 0, 14, 0] [?i]) = 38"
    by (simp add: packet_octets_def info_octets_def zero_info_def)
  with CreateCommonPacketFormatStructure_well_formed [OF i, of "[1, 0, 14, 0]" zero_cpf "ConnectedAddress 7"
      kCipItemIdConnectedDataItem "[]"]
  show ?thesis by (simp add: zero_cpf_def)
qed

text \<open>
  C1: The reply to an unconnected request is framed right. For a well-formed packet with a null
  address and an unconnected data item, the message router gets exactly the octets of the data
  item; when it answers with at most 468 octets behind the fixed four, and the service leaves the
  parsed packet as it is (no socket address items to send), the octets sent are an encapsulation header with
  status success, the request's command, session and context, whose length field is the length of the
  rest, and a packet with a null address whose data item is the answer: reading the sent octets
  back gives no remaining octets and the answer.
\<close>
theorem unconnected_reply_framed:
  assumes request: "current_communication_buffer_position d =
      packet_octets NullAddress kCipItemIdUnconnectedDataItem payload [] @ rest"
    and len: "unat (ed_data_length d) = length payload + 10"
    and ctx: "length (sender_context d) = kSenderContextSize" and infos: "length (address_info_item (st_cpf st)) = 2"
    and router: "NotifyMessageRouter (call originator (ed_session_handle d)) (payload @ rest) (int (length payload))
        objects req (st\<lparr>st_cpf := parsed_packet NullAddress kCipItemIdUnconnectedDataItem payload [] rest (st_cpf st)\<rparr>)
        InitializeMessageRouterResponse = Some (rv, objects', req', st', resp)"
      "st_cpf st' = parsed_packet NullAddress kCipItemIdUnconnectedDataItem payload [] rest (st_cpf st)"
    and ok: "rv \<noteq> kEipStatusError" "response_ok resp"
    and fits: "44 + 2 * unat (size_of_additional_status resp) + unat (used_message_length (message resp)) \<le> 512"
  shows "\<exists>m ed g'. NotifyCommonPacketFormat e call d originator objects req st (InitializeENIPMessage old)
        = Some (kEipStatusOkSend, objects', req', st', m) \<and> wf_msg m
     \<and> CreateEncapsulationStructure (sent_octets m) (used_message_length m) = Some (0, ed)
     \<and> command_code ed = command_code d \<and> ed_session_handle ed = ed_session_handle d
     \<and> sender_context ed = sender_context d \<and> ed_status ed = 0
     \<and> CreateCommonPacketFormatStructure (drop 6 (current_communication_buffer_position ed))
          (unat (ed_data_length ed) - 6) (st_cpf st) = Some (kEipStatusOk, g')
     \<and> ai_type_id (cpf_address_item g') = kCipItemIdNullAddress
     \<and> di_type_id (cpf_data_item g') = kCipItemIdUnconnectedDataItem \<and> di_data (cpf_data_item g') = reply_octets resp"
proof -
  let ?g = "parsed_packet NullAddress kCipItemIdUnconnectedDataItem payload [] rest (st_cpf st)"
  note g = unconnected_request_parsed [OF request len infos]
  have ui: "uint (of_nat (length payload) :: 16 word) = int (length payload)"
    using arg_cong [OF g(6), of int] by simp
  let ?b = "reply_body resp ?g"
  have b: "24 + length ?b \<le> 512" "length (reply_octets resp) < 65536"
    using fits unconnected_overhead [OF ok(2) g(3,4)] unconnected_length(3) [OF ok(2)] by simp_all
  then obtain m where m: "write_reply e resp ?g d (InitializeENIPMessage old) = Some m" "wf_msg m"
      "sent_octets m = success_header d (length ?b) @ ?b"
    using write_reply_result [OF ok(2) g(2) ctx, of e old] by (auto split: option.splits)
  have "NotifyCommonPacketFormat e call d originator objects req st (InitializeENIPMessage old)
      = Some (kEipStatusOkSend, objects', req', st', m)"
    using router ok(1) m(1) by (simp add: NotifyCommonPacketFormat_def g ui)
  moreover have "length (sent_octets m) = unat (used_message_length m)"
    using m(2) length_msg_content [OF m(2)] unat_used_message_length [OF m(2)]
    unfolding sent_octets_def wf_msg_def by simp
  then have u: "unat (used_message_length m) = 24 + length ?b"
    using m(3) ctx by (simp add: success_header_def kSenderContextSize_def)
  then have "unat (used_message_length m) \<le> 2147483647" using b by simp
  note ed = CreateEncapsulationStructure_header [OF ctx this, of "command_code d" "of_nat (length ?b)" "ed_session_handle d" 0 ?b]
  have lb: "unat (of_nat (length ?b) :: 16 word) = length ?b"
    using b by (intro unat_of_nat_16) simp
  have body: "drop 6 ?b = packet_octets NullAddress kCipItemIdUnconnectedDataItem (reply_octets resp) []"
    "length ?b - 6 = length (packet_octets NullAddress kCipItemIdUnconnectedDataItem (reply_octets resp) [])"
    using g(3,4) by (simp_all add: reply_body_def reply_payload_def address_of_def)
  note parsed = CreateCommonPacketFormatStructure_packet [OF _ _ b(2) infos, of "[]" NullAddress kCipItemIdUnconnectedDataItem "[]"]
  ultimately show ?thesis
    using ed m(2,3) u lb parsed by (simp add: success_header_def body)
qed


definition example_stack :: "(unit, unit) stack_state" where
  "example_stack = \<lparr>st_objects = (\<lambda>_. ConnectionObjectInitializeEmpty), st_connection_list = (DoublyLinkedListInitialize, []),
     st_cpf = zero_cpf, g_registered_sessions = [], g_timestamps = [], g_actual_time = 0, master_socket = {},
     g_delayed_encapsulation_messages = [], st_effects = [], g_identity = example_identity,
     g_tcpip = initial_tcpip,
     g_network_status = \<lparr>ns_ip_address = 0, ns_network_mask = 0\<rparr>, st_app = ()\<rparr>"

definition example_payload :: "octet list" where
  "example_payload = [0x0E, 2, 0x20, 1, 0x24, 1]"

definition example_unconnected :: encapsulation_data where
  "example_unconnected = example_header\<lparr>command_code := 0x6F, ed_data_length := 16, ed_session_handle := 1,
     current_communication_buffer_position :=
       packet_octets NullAddress kCipItemIdUnconnectedDataItem example_payload []\<rparr>"

lemma unknown_class:
  "\<exists>req' resp'. NotifyMessageRouter call (example_payload @ rest) (int (length example_payload)) [] empty_request s
       InitializeMessageRouterResponse = Some (kEipStatusOkSend, [], req', s, resp')
     \<and> response_ok resp' \<and> size_of_additional_status resp' = 0 \<and> used_message_length (message resp') = 0"
proof -
  let ?segs = "[ClassSeg 1, InstanceSeg 1]"
  have "\<exists>req'. CreateMessageRouterRequestStructure (example_payload @ rest) (of_int (int (length example_payload))) empty_request
       = Some (kCipErrorSuccess, req')"
    using request_structure [where w = 2 and segs = ?segs and svc = "0x0E" and rest = rest and req = empty_request and len = 6]
    by (simp add: example_payload_def)
  then show ?thesis
    by (auto simp: NotifyMessageRouter_def GetRegisteredObject_def InitializeMessageRouterResponse_def response_ok_def
        MAX_SIZE_OF_ADD_STATUS_def wf_msg_def)
qed


lemma unconnected_reply_framed_witness:
  "\<exists>st' req' m ed g'. NotifyCommonPacketFormat kOpENerEndianessLittle (\<lambda>_ _ _ _ _ _ _ _. None) example_unconnected
        zero_address ([] :: unit registry) empty_request example_stack (InitializeENIPMessage undefined)
        = Some (kEipStatusOkSend, [], req', st', m)
     \<and> CreateEncapsulationStructure (sent_octets m) (used_message_length m) = Some (0, ed)
     \<and> CreateCommonPacketFormatStructure (drop 6 (current_communication_buffer_position ed))
          (unat (ed_data_length ed) - 6) zero_cpf = Some (kEipStatusOk, g')"
proof -
  let ?st = "example_stack\<lparr>st_cpf := parsed_packet NullAddress kCipItemIdUnconnectedDataItem example_payload [] [] (st_cpf example_stack)\<rparr>"
  let ?call = "\<lambda>_ _ _ _ _ _ _ _. None"
  obtain req' resp' where r: "NotifyMessageRouter (?call zero_address (ed_session_handle example_unconnected))
       (example_payload @ []) (int (length example_payload)) ([] :: unit registry) empty_request ?st
       InitializeMessageRouterResponse = Some (kEipStatusOkSend, [], req', ?st, resp')"
     "response_ok resp'" "size_of_additional_status resp' = 0" "used_message_length (message resp') = 0"
    using unknown_class [where call = "\<lambda>_ _ _ _ _ _. None" and rest = "[]" and s = ?st] by blast
  have d: "current_communication_buffer_position example_unconnected =
      packet_octets NullAddress kCipItemIdUnconnectedDataItem example_payload [] @ []"
    "unat (ed_data_length example_unconnected) = length example_payload + 10"
    "length (sender_context example_unconnected) = kSenderContextSize"
    "length (address_info_item (st_cpf example_stack)) = 2"
    by (simp_all add: example_unconnected_def example_header_def example_payload_def kSenderContextSize_def
        example_stack_def zero_cpf_def)
  show ?thesis
    using unconnected_reply_framed [where call = ?call and originator = zero_address and e = kOpENerEndianessLittle
        and old = undefined, OF d r(1) _ _ r(2)] r(3,4)
    by (force simp: example_stack_def)
qed




text \<open>
  A packet that says it has no items is accepted, and leaves the address and the data item
  of the \<^emph>\<open>previous\<close> packet in the global structure. When that one was an unconnected
  request, the handler passes its data item to the message router again.
\<close>
theorem empty_packet_replays:
  assumes "current_communication_buffer_position d = 0 # 0 # rest" and "ed_data_length d = 2"
    and "ai_type_id (cpf_address_item (st_cpf st)) = kCipItemIdNullAddress"
    and "di_type_id (cpf_data_item (st_cpf st)) = kCipItemIdUnconnectedDataItem"
  shows "\<exists>g. cpf_data_item g = cpf_data_item (st_cpf st) \<and> cpf_address_item g = cpf_address_item (st_cpf st)
     \<and> NotifyCommonPacketFormat e call d originator objects req st m = do {
         (rv, objects', req', st', resp) \<leftarrow>
           NotifyMessageRouter (call originator (ed_session_handle d)) (di_data (cpf_data_item (st_cpf st)))
             (int (unat (di_length (cpf_data_item (st_cpf st))))) objects req (st\<lparr>st_cpf := g\<rparr>)
             InitializeMessageRouterResponse;
         if rv \<noteq> kEipStatusError then do {
           m' \<leftarrow> write_reply e resp (st_cpf st') d m;
           Some (kEipStatusOkSend, objects', req', st', m')
         } else Some (kEipStatusError, objects', req', st', m) }"
proof -
  have "\<exists>g. CreateCommonPacketFormatStructure (0 # 0 # rest) 2 (st_cpf st) = Some (kEipStatusOk, g)
     \<and> cpf_data_item g = cpf_data_item (st_cpf st) \<and> cpf_address_item g = cpf_address_item (st_cpf st)"
    by (simp add: CreateCommonPacketFormatStructure_def set_info_type_def)
  then obtain g where g: "CreateCommonPacketFormatStructure (0 # 0 # rest) 2 (st_cpf st) = Some (kEipStatusOk, g)"
      "cpf_data_item g = cpf_data_item (st_cpf st)" "cpf_address_item g = cpf_address_item (st_cpf st)" by blast
  show ?thesis
    using assms(3,4) g by (intro exI [of _ g]) (simp add: NotifyCommonPacketFormat_def assms(1,2))
qed

lemma empty_packet_replays_witness:
  "\<exists>g. di_data (cpf_data_item g) = example_payload
     \<and> NotifyCommonPacketFormat kOpENerEndianessLittle (\<lambda>_ _ _ _ _ _ _ _. None)
         (example_unconnected\<lparr>ed_data_length := 2, current_communication_buffer_position := [0, 0]\<rparr>) zero_address
         ([] :: unit registry) empty_request (example_stack\<lparr>st_cpf := zero_cpf\<lparr>cpf_data_item :=
            \<lparr>di_type_id = kCipItemIdUnconnectedDataItem, di_length = 6, di_data = example_payload\<rparr>\<rparr>\<rparr>)
         (InitializeENIPMessage undefined) = do {
         (rv, objects', req', st', resp) \<leftarrow>
           NotifyMessageRouter (\<lambda>_ _ _ _ _ _. None) example_payload 6 [] empty_request
             (example_stack\<lparr>st_cpf := g\<rparr>) InitializeMessageRouterResponse;
         if rv \<noteq> kEipStatusError then do {
           m' \<leftarrow> write_reply kOpENerEndianessLittle resp (st_cpf st') (example_unconnected\<lparr>ed_data_length := 2,
              current_communication_buffer_position := [0, 0]\<rparr>) (InitializeENIPMessage undefined);
           Some (kEipStatusOkSend, objects', req', st', m')
         } else Some (kEipStatusError, objects', req', st', InitializeENIPMessage undefined) }"
  using empty_packet_replays [where d = "example_unconnected\<lparr>ed_data_length := 2, current_communication_buffer_position := [0, 0]\<rparr>"
      and rest = "[]" and st = "example_stack\<lparr>st_cpf := zero_cpf\<lparr>cpf_data_item :=
            \<lparr>di_type_id = kCipItemIdUnconnectedDataItem, di_length = 6, di_data = example_payload\<rparr>\<rparr>\<rparr>"
      and e = kOpENerEndianessLittle and call = "\<lambda>_ _ _ _ _ _ _ _. None" and originator = zero_address
      and objects = "[] :: unit registry" and req = empty_request and m = "InitializeENIPMessage undefined"]
  by (force simp: zero_cpf_def)

subsection \<open>Connected requests\<close>

text \<open>A connected request for an active connection, as the handler sees it after parsing.\<close>

definition connected_request ::
    "encapsulation_data \<Rightarrow> ('fn, 'app) stack_state \<Rightarrow> cpf_data \<Rightarrow> nat \<Rightarrow> CipUint \<Rightarrow> octet list \<Rightarrow> bool" where
  "connected_request d st g a n buffer \<longleftrightarrow>
     CreateCommonPacketFormatStructure (current_communication_buffer_position d) (unat (ed_data_length d)) (st_cpf st)
        = Some (kEipStatusOk, g)
     \<and> ai_type_id (cpf_address_item g) = kCipItemIdConnectionAddress
     \<and> di_type_id (cpf_data_item g) = kCipItemIdConnectedDataItem
     \<and> GetConnectedObject (st\<lparr>st_cpf := g\<rparr>) (connection_identifier (cpf_address_item g)) = Some a
     \<and> GetUintFromMessage (di_data (cpf_data_item g)) = Some (n, buffer)"

lemma store_object_simps [simp]:
  "st_objects (store_object a c st) = (st_objects st)(a := c)" "st_cpf (store_object a c st) = st_cpf st"
  "st_app (store_object a c st) = st_app st" "st_connection_list (store_object a c st) = st_connection_list st"
  by (simp_all add: store_object_def)

lemma ResetInactivityWatchdog_frame:
  assumes "ConnectionObjectResetInactivityWatchdogTimerValue c = Some c'"
  shows "last_reply_sent c' = last_reply_sent c" and "sequence_count_consuming c' = sequence_count_consuming c"
    and "cip_produced_connection_id c' = cip_produced_connection_id c"
  using assms by (auto simp: ConnectionObjectResetInactivityWatchdogTimerValue_def)

lemma repeat_last_reply_sent:
  assumes "wf_msg (last_reply_sent c)" and "24 \<le> unat (used_message_length (last_reply_sent c))"
    and "length (sender_context d) = kSenderContextSize"
  shows "\<exists>m. repeat_last_reply d c = Some m
     \<and> sent_octets m = success_header d (unat (used_message_length (last_reply_sent c)) - 24)
          @ drop 24 (sent_octets (last_reply_sent c))"
proof -
  let ?m = "last_reply_sent c" and ?u = "unat (used_message_length (last_reply_sent c))"
  have b: "?u \<le> 512" "length (message_buffer ?m) = 512"
    using assms(1) unat_used_message_length [OF assms(1)] length_msg_content [OF assms(1)]
    by (auto simp: wf_msg_def PC_OPENER_ETHERNET_BUFFER_SIZE_def)
  have uw: "used_message_length ?m = of_nat ?u" by simp
  have n: "used_message_length ?m - of_nat ENCAPSULATION_HEADER_LENGTH = of_nat (?u - 24)"
    using assms(2) by (subst uw) (simp add: ENCAPSULATION_HEADER_LENGTH_def of_nat_diff)
  have c: "(ucast (of_nat (?u - 24) :: size_t) :: 16 word) = of_nat (?u - 24)"
    using b by (simp add: unsigned_of_nat take_bit_nat_eq_self)
  let ?h = "success_header d (?u - 24)"
  have lh: "length ?h = 24"
    using assms(3) by (simp add: success_header_def kSenderContextSize_def)
  have "repeat_last_reply d c = emit ?h (?m\<lparr>current_message_position := 0, used_message_length := of_nat (?u - 24)\<rparr>)"
    unfolding repeat_last_reply_def Let_def n GenerateEncapsulationHeader_emit [OF assms(3)] c
    by (simp add: success_header_def)
  also have "\<dots> = Some (?m\<lparr>message_buffer := splice_at 0 ?h (message_buffer ?m),
      current_message_position := 24, used_message_length := of_nat ?u\<rparr>)"
    using b lh assms(2) by (subst emit_at) (simp_all add: of_nat_diff)
  finally have r: "repeat_last_reply d c = Some (?m\<lparr>message_buffer := splice_at 0 ?h (message_buffer ?m),
      current_message_position := 24, used_message_length := of_nat ?u\<rparr>)" .
  have "take ?u (splice_at 0 ?h (message_buffer ?m)) = ?h @ drop 24 (take ?u (message_buffer ?m))"
    using lh assms(2) b by (simp add: splice_at_def drop_take)
  then show ?thesis
    using r by (simp add: sent_octets_def)
qed

text \<open>
  C9: A connected request whose sequence count is the one of the connection's last request is not
  executed again: the classes, the request structure and everything of the state but the parsed packet and the
  connection's watchdog stay as they are, and the last reply is sent again under a header for
  the new request.
\<close>
theorem connected_duplicate:
  assumes req: "connected_request d st g a n buffer" and same: "sequence_count_consuming (st_objects st a) = n"
    and last: "wf_msg (last_reply_sent (st_objects st a))" "24 \<le> unat (used_message_length (last_reply_sent (st_objects st a)))"
    and ctx: "length (sender_context d) = kSenderContextSize"
    and watchdog: "ConnectionObjectResetInactivityWatchdogTimerValue (st_objects st a) = Some c"
  shows "\<exists>m'. NotifyConnectedCommonPacketFormat e call d originator objects rq st m
      = Some (kEipStatusOkSend, objects, rq, st\<lparr>st_cpf := g\<lparr>cpf_address_item := (cpf_address_item g)\<lparr>sequence_number := ucast n\<rparr>\<rparr>,
          st_objects := (st_objects st)(a := c)\<rparr>, m')
    \<and> sent_octets m' = success_header d (unat (used_message_length (last_reply_sent (st_objects st a))) - 24)
        @ drop 24 (sent_octets (last_reply_sent (st_objects st a)))"
proof -
  have c: "last_reply_sent c = last_reply_sent (st_objects st a)"
      "sequence_count_consuming c = sequence_count_consuming (st_objects st a)"
    using ResetInactivityWatchdog_frame [OF watchdog] by simp_all
  obtain m' where m': "repeat_last_reply d c = Some m'"
     "sent_octets m' = success_header d (unat (used_message_length (last_reply_sent (st_objects st a))) - 24)
        @ drop 24 (sent_octets (last_reply_sent (st_objects st a)))"
    using repeat_last_reply_sent [of c d] last ctx c by auto
  show ?thesis
    using req same m' c watchdog
    by (simp add: connected_request_def NotifyConnectedCommonPacketFormat_def reset_watchdog_def process_connected_data_def
        store_object_def)
qed


definition active_connection :: "unit connection_object" where
  "active_connection = ConnectionObjectInitializeEmpty\<lparr>co_state := 3, cip_consumed_connection_id := 7,
     cip_produced_connection_id := 9, sequence_count_consuming := 5,
     last_reply_sent := \<lparr>message_buffer = replicate 512 1, current_message_position = 60, used_message_length = 60\<rparr>\<rparr>"

definition connected_stack :: "(unit, unit) stack_state" where
  "connected_stack = example_stack\<lparr>st_objects := (\<lambda>_. active_connection), 
     st_connection_list := (\<lparr>dll_first = Some 0, dll_last = Some 0\<rparr>,
        [\<lparr>node_data = Some 0, node_previous = None, node_next = None\<rparr>])\<rparr>"

definition connected_message :: "CipUint \<Rightarrow> encapsulation_data" where
  "connected_message n = example_header\<lparr>command_code := 0x70, ed_data_length := 22, ed_session_handle := 1,
     current_communication_buffer_position :=
       packet_octets (ConnectedAddress 7) kCipItemIdConnectedDataItem (le_octets 2 n @ example_payload) []\<rparr>"

lemma connected_message_request:
  assumes "list_data (st_connection_list st) = [0]" "length (address_info_item (st_cpf st)) = 2"
    "ConnectionObjectGetState (st_objects st 0) = kConnectionObjectStateEstablished"
    "cip_consumed_connection_id (st_objects st 0) = 7"
  shows "connected_request (connected_message n) st (parsed_packet (ConnectedAddress 7) kCipItemIdConnectedDataItem
      (le_octets 2 n @ example_payload) [] [] (st_cpf st)) 0 n example_payload"
proof -
  have l: "length (packet_octets (ConnectedAddress 7) kCipItemIdConnectedDataItem (le_octets 2 n @ example_payload) []) = 22"
      "length (le_octets 2 n @ example_payload) < 65536"
    by (simp_all add: packet_octets_def example_payload_def)
  show ?thesis
    using CreateCommonPacketFormatStructure_packet [OF _ _ l(2) assms(2), of "[]"
        "ConnectedAddress 7" kCipItemIdConnectedDataItem "[]"] assms
    unfolding l(1) by (simp add: connected_request_def connected_message_def GetConnectedObject_def uint.dec_enc)
qed

lemma connected_duplicate_witness:
  "\<exists>st' m'. NotifyConnectedCommonPacketFormat kOpENerEndianessLittle (\<lambda>_ _ _ _ _ _ _ _. None) (connected_message 5) zero_address
       ([] :: unit registry) empty_request connected_stack (InitializeENIPMessage undefined)
      = Some (kEipStatusOkSend, [], empty_request, st', m')
    \<and> sent_octets m' = success_header (connected_message 5) 36 @ replicate 36 1"
proof -
  have r: "connected_request (connected_message 5) connected_stack (parsed_packet (ConnectedAddress 7) kCipItemIdConnectedDataItem
      (le_octets 2 (5 :: CipUint) @ example_payload) [] [] (st_cpf connected_stack)) 0 5 example_payload"
    by (rule connected_message_request)
      (simp_all add: connected_stack_def example_stack_def zero_cpf_def active_connection_def ConnectionObjectGetState_def
        list_data_def List.map_filter_simps)
  have s: "sequence_count_consuming (st_objects connected_stack 0) = 5"
    "wf_msg (last_reply_sent (st_objects connected_stack 0))"
    "24 \<le> unat (used_message_length (last_reply_sent (st_objects connected_stack 0)))"
    "length (sender_context (connected_message 5)) = kSenderContextSize"
    by (simp_all add: connected_stack_def active_connection_def connected_message_def example_header_def wf_msg_def
        kSenderContextSize_def PC_OPENER_ETHERNET_BUFFER_SIZE_def)
  obtain c where c: "ConnectionObjectResetInactivityWatchdogTimerValue (st_objects connected_stack 0) = Some c"
    by (simp add: connected_stack_def active_connection_def ConnectionObjectInitializeEmpty_def
        ConnectionObjectResetInactivityWatchdogTimerValue_def ConnectionObjectCalculateRegularInactivityWatchdogTimerValue_def)
  show ?thesis
    using connected_duplicate [OF r s c, of kOpENerEndianessLittle "\<lambda>_ _ _ _ _ _ _ _. None" zero_address
        "[] :: unit registry" empty_request "InitializeENIPMessage undefined"]
    by (auto simp: connected_stack_def active_connection_def sent_octets_def)
qed


text \<open>
  The first request on a new connection is taken for a repetition when its sequence count is
  0, the value the count is reset to: it is not executed, and the handler asks for a reply of
  length 0 to be sent.
\<close>
theorem connected_first_zero:
  assumes req: "connected_request d st g a 0 buffer"
    and new: "sequence_count_consuming (st_objects st a) = sequence_count_consuming (ConnectionObjectResetSequenceCounts (st_objects st a))"
      "used_message_length (last_reply_sent (st_objects st a)) = 0"
      "length (message_buffer (last_reply_sent (st_objects st a))) = PC_OPENER_ETHERNET_BUFFER_SIZE"
    and ctx: "length (sender_context d) = kSenderContextSize"
    and watchdog: "ConnectionObjectResetInactivityWatchdogTimerValue (st_objects st a) = Some c"
  shows "\<exists>st' m'. NotifyConnectedCommonPacketFormat e call d originator objects rq st m
      = Some (kEipStatusOkSend, objects, rq, st', m') \<and> st_app st' = st_app st \<and> used_message_length m' = 0"
proof -
  have seq: "sequence_count_consuming c = 0" and lr: "last_reply_sent c = last_reply_sent (st_objects st a)"
    using ResetInactivityWatchdog_frame [OF watchdog] new by (simp_all add: ConnectionObjectResetSequenceCounts_def)
  have "length (header_octets (command_code d) k (ed_session_handle d) 0 (sender_context d)) = 24" for k
    using ctx by (simp add: kSenderContextSize_def)
  then have "\<exists>m'. repeat_last_reply d c = Some m' \<and> used_message_length m' = 0"
    unfolding repeat_last_reply_def Let_def GenerateEncapsulationHeader_emit [OF ctx] lr
    using new(2,3) by (subst emit_at) (simp_all add: PC_OPENER_ETHERNET_BUFFER_SIZE_def ENCAPSULATION_HEADER_LENGTH_def)
  then show ?thesis
    using req seq watchdog
    by (auto simp: connected_request_def NotifyConnectedCommonPacketFormat_def reset_watchdog_def process_connected_data_def
        store_object_def)
qed

definition new_connection :: "unit connection_object" where
  "new_connection = ConnectionObjectInitializeEmpty\<lparr>co_state := 3, cip_consumed_connection_id := 7\<rparr>"

lemma connected_first_zero_witness:
  "\<exists>st' m'. NotifyConnectedCommonPacketFormat kOpENerEndianessLittle (\<lambda>_ _ _ _ _ _ _ _. None) (connected_message 0) zero_address
       ([] :: unit registry) empty_request (connected_stack\<lparr>st_objects := (\<lambda>_. new_connection)\<rparr>) (InitializeENIPMessage undefined)
      = Some (kEipStatusOkSend, [], empty_request, st', m') \<and> used_message_length m' = 0"
proof -
  let ?st = "connected_stack\<lparr>st_objects := (\<lambda>_. new_connection)\<rparr>"
  have r: "connected_request (connected_message 0) ?st (parsed_packet (ConnectedAddress 7) kCipItemIdConnectedDataItem
      (le_octets 2 (0 :: CipUint) @ example_payload) [] [] (st_cpf ?st)) 0 0 example_payload"
    by (rule connected_message_request)
      (simp_all add: connected_stack_def example_stack_def zero_cpf_def new_connection_def ConnectionObjectGetState_def
        list_data_def List.map_filter_simps)
  have s: "sequence_count_consuming (st_objects ?st 0) = sequence_count_consuming (ConnectionObjectResetSequenceCounts (st_objects ?st 0))"
    "used_message_length (last_reply_sent (st_objects ?st 0)) = 0"
    "length (message_buffer (last_reply_sent (st_objects ?st 0))) = PC_OPENER_ETHERNET_BUFFER_SIZE"
    "length (sender_context (connected_message 0)) = kSenderContextSize"
    by (simp_all add: new_connection_def connected_message_def example_header_def kSenderContextSize_def
        ConnectionObjectResetSequenceCounts_def ConnectionObjectInitializeEmpty_def)
  obtain c where c: "ConnectionObjectResetInactivityWatchdogTimerValue (st_objects ?st 0) = Some c"
    by (simp add: new_connection_def ConnectionObjectInitializeEmpty_def
        ConnectionObjectResetInactivityWatchdogTimerValue_def ConnectionObjectCalculateRegularInactivityWatchdogTimerValue_def)
  show ?thesis
    using connected_first_zero [OF r s c, of kOpENerEndianessLittle "\<lambda>_ _ _ _ _ _ _ _. None" zero_address
        "[] :: unit registry" empty_request "InitializeENIPMessage undefined"]
    by blast
qed


text \<open>The state in which a request with a new sequence count reaches the message router.\<close>

definition accept_sequence ::
    "nat \<Rightarrow> CipUint \<Rightarrow> cpf_data \<Rightarrow> ('fn, 'app) stack_state \<Rightarrow> ('fn, 'app) stack_state option" where
  "accept_sequence a n g st = do {
     st \<leftarrow> reset_watchdog a (st\<lparr>st_cpf := g\<rparr>);
     let st = st\<lparr>st_cpf := g\<lparr>cpf_address_item := (cpf_address_item g)\<lparr>sequence_number := ucast n\<rparr>\<rparr>\<rparr>;
     reset_watchdog a (store_object a ((st_objects st a)\<lparr>sequence_count_consuming := n\<rparr>) st) }"

lemma connected_fresh:
  assumes req: "connected_request d st g a n buffer" and new: "sequence_count_consuming (st_objects st a) \<noteq> n"
    and acc: "accept_sequence a n g st = Some st1"
    and router: "NotifyMessageRouter (call originator (ed_session_handle d)) buffer
        (int (unat (di_length (cpf_data_item g))) - 2) objects rq st1 InitializeMessageRouterResponse
        = Some (rv, objects', rq', st', resp)" "rv \<noteq> kEipStatusError"
  defines "st2 \<equiv> st'\<lparr>st_cpf := (st_cpf st')\<lparr>cpf_address_item := (cpf_address_item (st_cpf st'))
      \<lparr>connection_identifier := cip_produced_connection_id (st_objects st' a)\<rparr>\<rparr>\<rparr>"
  shows "NotifyConnectedCommonPacketFormat e call d originator objects rq st m =
     map_option (\<lambda>m'. (if used_message_length m' \<noteq> 0 then kEipStatusOkSend else kEipStatusOk, objects', rq',
       store_object a ((st_objects st2 a)\<lparr>last_reply_sent := m'\<rparr>) st2, m')) (write_reply e resp (st_cpf st2) d m)"
proof -
  obtain c where c: "ConnectionObjectResetInactivityWatchdogTimerValue (st_objects st a) = Some c"
    using acc by (auto simp: accept_sequence_def reset_watchdog_def)
  have seq: "sequence_count_consuming c \<noteq> n"
    using ResetInactivityWatchdog_frame(2) [OF c] new by simp
  obtain c' where c': "ConnectionObjectResetInactivityWatchdogTimerValue (c\<lparr>sequence_count_consuming := n\<rparr>) = Some c'"
    and st1: "st1 = store_object a c' (store_object a (c\<lparr>sequence_count_consuming := n\<rparr>) ((store_object a c (st\<lparr>st_cpf := g\<rparr>))
        \<lparr>st_cpf := g\<lparr>cpf_address_item := (cpf_address_item g)\<lparr>sequence_number := ucast n\<rparr>\<rparr>\<rparr>))"
    using acc c by (auto simp: accept_sequence_def reset_watchdog_def)
  show ?thesis
    using req c seq c' router
    unfolding connected_request_def NotifyConnectedCommonPacketFormat_def process_connected_data_def reset_watchdog_def
      st1 st2_def
    by (cases "write_reply e resp (st_cpf st2) d m") (simp_all add: Let_def st2_def del: bind_Some_iff)
qed


text \<open>
  C4: A connected request with a new sequence count, whose packet has no socket address items, is
  executed once, when the message router answers it and the executed service leaves the parsed
  packet as it is. If the answer, without its fixed four octets and with its additional status,
  has at most 462 octets, the reply is framed right: after an encapsulation header whose length
  field is the length of the rest, a packet with the produced connection identifier of the
  connection, whose data item is the sequence count of the request and the answer of the message
  router. The reply is kept in the connection for a repetition. A longer answer is written past
  the end of the 512 octet buffer, which the model gives as None.
\<close>
theorem connected_reply_framed:
  assumes req: "connected_request d st g a n buffer" and new: "sequence_count_consuming (st_objects st a) \<noteq> n"
    and g: "item_count g = 2" "no_infos g" and acc: "accept_sequence a n g st = Some st1"
    and router: "NotifyMessageRouter (call originator (ed_session_handle d)) buffer
        (int (unat (di_length (cpf_data_item g))) - 2) objects rq st1 InitializeMessageRouterResponse
        = Some (rv, objects', rq', st', resp)" "rv \<noteq> kEipStatusError" "st_cpf st' = st_cpf st1" "response_ok resp"
    and ctx: "length (sender_context d) = kSenderContextSize"
  defines "body \<equiv> le_octets 4 (0 :: 32 word) @ le_octets 2 (0 :: 16 word)
      @ packet_octets (ConnectedAddress (cip_produced_connection_id (st_objects st' a))) kCipItemIdConnectedDataItem
          (le_octets 2 n @ reply_octets resp) []"
  shows "if 2 * unat (size_of_additional_status resp) + unat (used_message_length (message resp)) \<le> 462
    then \<exists>st'' m'. NotifyConnectedCommonPacketFormat e call d originator objects rq st (InitializeENIPMessage old)
        = Some (kEipStatusOkSend, objects', rq', st'', m')
      \<and> sent_octets m' = success_header d (length body) @ body \<and> last_reply_sent (st_objects st'' a) = m'
    else NotifyConnectedCommonPacketFormat e call d originator objects rq st (InitializeENIPMessage old) = None"
proof -
  let ?g = "(st_cpf st')\<lparr>cpf_address_item := (cpf_address_item (st_cpf st'))
      \<lparr>connection_identifier := cip_produced_connection_id (st_objects st' a)\<rparr>\<rparr>"
  have s: "st_cpf st1 = g\<lparr>cpf_address_item := (cpf_address_item g)\<lparr>sequence_number := ucast n\<rparr>\<rparr>"
    using acc by (auto simp: accept_sequence_def reset_watchdog_def)
  have t: "ai_type_id (cpf_address_item ?g) = kCipItemIdConnectionAddress"
      "di_type_id (cpf_data_item ?g) = kCipItemIdConnectedDataItem"
    using req by (simp_all add: connected_request_def router(3) s)
  have u: "(ucast (ucast n :: 32 word) :: 16 word) = n"
    by (rule bit_word_eqI) (auto simp: bit_simps)
  have ok: "reply_packet_ok ?g"
    using g t by (simp add: reply_packet_ok_def no_infos_def address_of_def router(3) s)
  have body: "reply_body resp ?g = body"
    using t by (simp add: body_def reply_body_def reply_payload_def address_of_def router(3) s u)
  have len: "24 + length body = 50 + 2 * unat (size_of_additional_status resp) + unat (used_message_length (message resp))"
    using length_reply_octets [OF router(4)] by (simp add: body_def packet_octets_def)
  have n: "NotifyConnectedCommonPacketFormat e call d originator objects rq st (InitializeENIPMessage old) =
      map_option (\<lambda>m'. (if used_message_length m' \<noteq> 0 then kEipStatusOkSend else kEipStatusOk, objects', rq',
        store_object a ((st_objects st' a)\<lparr>last_reply_sent := m'\<rparr>) (st'\<lparr>st_cpf := ?g\<rparr>), m'))
        (write_reply e resp ?g d (InitializeENIPMessage old))"
    using connected_fresh [where call = call and originator = originator and e = e and m = "InitializeENIPMessage old",
        OF req new acc router(1,2)] by simp
  have used: "used_message_length m' \<noteq> 0" if "sent_octets m' = success_header d (length body) @ body" for m'
  proof -
    have "length (sent_octets m') \<noteq> 0" using that ctx by (simp add: success_header_def kSenderContextSize_def)
    then show ?thesis by (auto simp: sent_octets_def)
  qed
  show ?thesis
  proof (cases "write_reply e resp ?g d (InitializeENIPMessage old)")
    case None
    then show ?thesis
      using write_reply_result [OF router(4) ok ctx, of e old] unfolding n body by (simp add: len)
  next
    case (Some m')
    then have "sent_octets m' = success_header d (length body) @ body"
      "2 * unat (size_of_additional_status resp) + unat (used_message_length (message resp)) \<le> 462"
      using write_reply_result [OF router(4) ok ctx, of e old] unfolding body by (simp_all add: len)
    then show ?thesis using used Some unfolding n by (simp add: store_object_def)
  qed
qed

lemma connected_reply_framed_witness:
  "\<exists>rq' st'' m' resp. NotifyConnectedCommonPacketFormat kOpENerEndianessLittle (\<lambda>_ _ _ _ _ _ _ _. None) (connected_message 6)
       zero_address ([] :: unit registry) empty_request connected_stack (InitializeENIPMessage undefined)
      = Some (kEipStatusOkSend, [], rq', st'', m')
    \<and> drop 30 (sent_octets m') = packet_octets (ConnectedAddress 9) kCipItemIdConnectedDataItem
         (le_octets 2 (6 :: CipUint) @ reply_octets resp) []"
proof -
  let ?g = "parsed_packet (ConnectedAddress 7) kCipItemIdConnectedDataItem
      (le_octets 2 (6 :: CipUint) @ example_payload) [] [] (st_cpf connected_stack)"
  have r: "connected_request (connected_message 6) connected_stack ?g 0 6 example_payload"
    by (rule connected_message_request)
      (simp_all add: connected_stack_def example_stack_def zero_cpf_def active_connection_def ConnectionObjectGetState_def
        list_data_def List.map_filter_simps)
  have s: "sequence_count_consuming (st_objects connected_stack 0) \<noteq> 6" "item_count ?g = 2" "no_infos ?g"
    "length (sender_context (connected_message 6)) = kSenderContextSize"
    by (auto simp: connected_stack_def example_stack_def active_connection_def connected_message_def example_header_def
        kSenderContextSize_def no_infos_def parsed_packet_def zero_cpf_def)
  obtain st1 where st1: "accept_sequence 0 6 ?g connected_stack = Some st1"
      "cip_produced_connection_id (st_objects st1 0) = 9"
    by (simp add: accept_sequence_def reset_watchdog_def connected_stack_def active_connection_def
        ConnectionObjectInitializeEmpty_def ConnectionObjectResetInactivityWatchdogTimerValue_def
        ConnectionObjectCalculateRegularInactivityWatchdogTimerValue_def)
  let ?call = "\<lambda>_ _ _ _ _ _ _ _. None"
  have l: "int (unat (di_length (cpf_data_item ?g))) - 2 = int (length example_payload)"
    by (simp add: example_payload_def)
  obtain rq' resp where n: "NotifyMessageRouter (?call zero_address (ed_session_handle (connected_message 6)))
       example_payload (int (unat (di_length (cpf_data_item ?g))) - 2) ([] :: unit registry) empty_request st1
       InitializeMessageRouterResponse = Some (kEipStatusOkSend, [], rq', st1, resp)"
     "response_ok resp" "size_of_additional_status resp = 0" "used_message_length (message resp) = 0"
    using unknown_class [where call = "\<lambda>_ _ _ _ _ _. None" and rest = "[]" and s = st1] unfolding l append_Nil2 by blast
  have h: "length (success_header (connected_message 6) k) = 24" for k
    using s(4) by (simp add: success_header_def kSenderContextSize_def)
  show ?thesis
    using connected_reply_framed [where call = ?call and originator = zero_address and e = kOpENerEndianessLittle
        and old = undefined, OF r s(1-3) st1(1) n(1) _ _ n(2) s(4)] n(3,4) st1(2) h
    by fastforce
qed


end
