(* ===== verification/EncapSession.thy ===== *)
theory EncapSession
  imports Cpf "HOL-Library.Multiset"
begin

text \<open>
  Encapsulation sessions (\<^verbatim>\<open>enet_encap/encap.c\<close>) with the closing of TCP sockets
  (\<^verbatim>\<open>ports/generic_networkhandler.c\<close>). A session is a slot of \<^verbatim>\<open>g_registered_sessions\<close> that holds
  the socket of its client; its handle is the index of the slot plus one. A socket with a
  session also has a socket timer. The function pointers of connection objects are values; what
  calling one does is the argument \<open>close\<close>.
\<close>

subsection \<open>Closing sockets\<close>

definition OPENER_NUMBER_OF_SUPPORTED_SESSIONS :: nat where
  "OPENER_NUMBER_OF_SUPPORTED_SESSIONS = 20"

definition log_effect :: "net_effect \<Rightarrow> ('fn, 'app) stack_state \<Rightarrow> ('fn, 'app) stack_state" where
  "log_effect ev st = st\<lparr>st_effects := ev # st_effects st\<rparr>"

definition CloseSocket :: "int \<Rightarrow> ('fn, 'app) stack_state \<Rightarrow> ('fn, 'app) stack_state" where
  "CloseSocket s st =
     (if s \<noteq> kEipInvalidSocket
      then log_effect (ClosedSocket s) (st\<lparr>master_socket := master_socket st - {s}\<rparr>) else st)"

definition CloseUdpSocket :: "int \<Rightarrow> ('fn, 'app) stack_state \<Rightarrow> ('fn, 'app) stack_state" where
  "CloseUdpSocket s st = CloseSocket s st"

definition remove_socket_timer :: "int \<Rightarrow> ('fn, 'app) stack_state \<Rightarrow> ('fn, 'app) stack_state option" where
  "remove_socket_timer s st = do {
     ts \<leftarrow> RemoveSocketTimerFromList s (g_timestamps st);
     Some (st\<lparr>g_timestamps := ts\<rparr>) }"

definition CloseTcpSocket :: "int \<Rightarrow> ('fn, 'app) stack_state \<Rightarrow> ('fn, 'app) stack_state option" where
  "CloseTcpSocket s st = do {
     st \<leftarrow> remove_socket_timer s (log_effect (ShutdownSocket s) st);
     Some (CloseSocket s st) }"

subsection \<open>Sessions\<close>

type_synonym ('fn, 'app) close_call =
  "'fn \<Rightarrow> nat \<Rightarrow> ('fn, 'app) stack_state \<Rightarrow> ('fn, 'app) stack_state option"

definition session_at :: "('fn, 'app) stack_state \<Rightarrow> nat \<Rightarrow> int option" where
  "session_at st i =
     (if i < length (g_registered_sessions st) then Some (g_registered_sessions st ! i) else None)"

definition free_session :: "nat \<Rightarrow> ('fn, 'app) stack_state \<Rightarrow> ('fn, 'app) stack_state" where
  "free_session i st = st\<lparr>g_registered_sessions := (g_registered_sessions st)[i := kEipInvalidSocket]\<rparr>"

definition GetFreeSessionIndex :: "('fn, 'app) stack_state \<Rightarrow> nat option" where
  "GetFreeSessionIndex st = first_index (\<lambda>s. kEipInvalidSocket = s) (g_registered_sessions st)"

definition CheckRegisteredSessions :: "CipSessionHandle \<Rightarrow> ('fn, 'app) stack_state \<Rightarrow> bool" where
  "CheckRegisteredSessions h st \<longleftrightarrow>
     0 < h \<and> h \<le> of_nat OPENER_NUMBER_OF_SUPPORTED_SESSIONS
     \<and> g_registered_sessions st ! unat (h - 1) \<noteq> kEipInvalidSocket"

definition GetSessionFromSocket :: "int \<Rightarrow> ('fn, 'app) stack_state \<Rightarrow> CipSessionHandle" where
  "GetSessionFromSocket s st =
     (case first_index (\<lambda>x. s = x) (g_registered_sessions st) of
        Some i \<Rightarrow> of_nat i
      | None \<Rightarrow> of_nat OPENER_NUMBER_OF_SUPPORTED_SESSIONS)"

text \<open>
  The loop over the list of active connections goes on from the current node, which a close
  function may have freed. \<^term>\<open>None\<close> also stands for a loop without end.
\<close>

definition is_class3_of :: "CipSessionHandle \<Rightarrow> 'fn connection_object \<Rightarrow> bool" where
  "is_class3_of h c \<longleftrightarrow>
     TransportClass3 = ConnectionObjectGetTransportClassTriggerTransportClass c
     \<and> associated_encapsulation_session c = h"

partial_function (option) close_class3_loop ::
    "('fn, 'app) close_call \<Rightarrow> CipSessionHandle \<Rightarrow> nat option \<Rightarrow> ('fn, 'app) stack_state
      \<Rightarrow> ('fn, 'app) stack_state option" where
  "close_class3_loop close h node st =
     (case node of
        None \<Rightarrow> Some st
      | Some n \<Rightarrow> do {
          a \<leftarrow> node_data (snd (st_connection_list st) ! n);
          st \<leftarrow> (if is_class3_of h (st_objects st a) then do {
              f \<leftarrow> connection_close_function (st_objects st a);
              close f a st
            } else Some st);
          close_class3_loop close h (node_next (snd (st_connection_list st) ! n)) st })"

definition CloseClass3ConnectionBasedOnSession ::
    "('fn, 'app) close_call \<Rightarrow> CipSessionHandle \<Rightarrow> ('fn, 'app) stack_state \<Rightarrow> ('fn, 'app) stack_state option" where
  "CloseClass3ConnectionBasedOnSession close h st =
     close_class3_loop close h (dll_first (fst (st_connection_list st))) st"

text \<open>The handle 0 gives an index outside of the table.\<close>

definition CloseSessionBySessionHandle ::
    "'fn connection_object \<Rightarrow> ('fn, 'app) stack_state \<Rightarrow> ('fn, 'app) stack_state option" where
  "CloseSessionBySessionHandle c st = do {
     let i = unat (associated_encapsulation_session c - 1);
     s \<leftarrow> session_at st i;
     st \<leftarrow> CloseTcpSocket s st;
     Some (free_session i st) }"

definition CloseSession ::
    "('fn, 'app) close_call \<Rightarrow> int \<Rightarrow> ('fn, 'app) stack_state \<Rightarrow> ('fn, 'app) stack_state option" where
  "CloseSession close s st =
     (case first_index (\<lambda>x. x = s) (g_registered_sessions st) of
        None \<Rightarrow> Some st
      | Some i \<Rightarrow> do {
          st \<leftarrow> CloseTcpSocket s st;
          CloseClass3ConnectionBasedOnSession close (of_nat i + 1) (free_session i st) })"

definition RemoveSession ::
    "('fn, 'app) close_call \<Rightarrow> int \<Rightarrow> ('fn, 'app) stack_state \<Rightarrow> ('fn, 'app) stack_state option" where
  "RemoveSession close s st =
     (case first_index (\<lambda>x. x = s) (g_registered_sessions st) of
        None \<Rightarrow> Some st
      | Some i \<Rightarrow> CloseClass3ConnectionBasedOnSession close (of_nat i + 1) (free_session i st))"

text \<open>A loop over all sessions, each turn in the state the last one left.\<close>

fun for_sessions ::
    "nat list \<Rightarrow> (nat \<Rightarrow> int \<Rightarrow> ('fn, 'app) stack_state \<Rightarrow> ('fn, 'app) stack_state option)
      \<Rightarrow> ('fn, 'app) stack_state \<Rightarrow> ('fn, 'app) stack_state option" where
  "for_sessions [] f st = Some st"
| "for_sessions (i # is) f st = do {
     s \<leftarrow> session_at st i;
     st \<leftarrow> (if s \<noteq> kEipInvalidSocket then f i s st else Some st);
     for_sessions is f st }"

definition EncapsulationShutDown :: "('fn, 'app) stack_state \<Rightarrow> ('fn, 'app) stack_state option" where
  "EncapsulationShutDown =
     for_sessions [0..<OPENER_NUMBER_OF_SUPPORTED_SESSIONS]
       (\<lambda>i s st. map_option (free_session i) (CloseTcpSocket s st))"

text \<open>
  \<open>getpeername\<close> gives the address of the client of a socket; when it fails the address stays 0.
\<close>

definition CloseEncapsulationSessionBySockAddr ::
    "('fn, 'app) close_call \<Rightarrow> (int \<Rightarrow> sockaddr_in option) \<Rightarrow> 'fn connection_object
      \<Rightarrow> ('fn, 'app) stack_state \<Rightarrow> ('fn, 'app) stack_state option" where
  "CloseEncapsulationSessionBySockAddr close getpeername c =
     for_sessions [0..<OPENER_NUMBER_OF_SUPPORTED_SESSIONS]
       (\<lambda>i s st. let addr = (case getpeername s of None \<Rightarrow> zero_address | Some a \<Rightarrow> a)
          in if sin_addr addr = sin_addr (originator_address c) then CloseSession close s st else Some st)"

definition CheckEncapsulationInactivity ::
    "('fn, 'app) close_call \<Rightarrow> int \<Rightarrow> ('fn, 'app) stack_state \<Rightarrow> ('fn, 'app) stack_state option" where
  "CheckEncapsulationInactivity close s st =
     (if 0 < encapsulation_inactivity_timeout (g_tcpip st)
      then case SocketTimerArrayGetSocketTimer (g_timestamps st) s of
          None \<Rightarrow> Some st
        | Some i \<Rightarrow>
            if g_actual_time st - SocketTimerGetLastUpdate i (g_timestamps st)
               \<ge> 1000 * ucast (encapsulation_inactivity_timeout (g_tcpip st))
            then do {
              st \<leftarrow> CloseClass3ConnectionBasedOnSession close (GetSessionFromSocket s st) st;
              st \<leftarrow> CloseTcpSocket s st;
              RemoveSession close s st
            } else Some st
      else Some st)"

subsection \<open>The tables of sessions and timers\<close>

text \<open>
  The invariant of the tables: the sockets with a timer are the sockets with a session, each
  exactly once.
\<close>

definition valid_sockets :: "int list \<Rightarrow> int multiset" where
  "valid_sockets xs = filter_mset (\<lambda>s. s \<noteq> kEipInvalidSocket) (mset xs)"

definition sessions_wf :: "('fn, 'app) stack_state \<Rightarrow> bool" where
  "sessions_wf st \<longleftrightarrow> length (g_registered_sessions st) = OPENER_NUMBER_OF_SUPPORTED_SESSIONS
     \<and> length (g_timestamps st) = OPENER_NUMBER_OF_SUPPORTED_SESSIONS
     \<and> valid_sockets (map timer_socket (g_timestamps st)) = valid_sockets (g_registered_sessions st)
     \<and> (\<forall>s. count (valid_sockets (g_registered_sessions st)) s \<le> 1)"

lemma valid_sockets_update:
  assumes "i < length xs"
  shows "valid_sockets (xs[i := s]) =
     (if s \<noteq> kEipInvalidSocket then {#s#} else {#}) + (valid_sockets xs - {#xs ! i#})"
proof -
  have "xs ! i \<notin># valid_sockets xs" if "xs ! i = kEipInvalidSocket"
    using that by (simp add: valid_sockets_def)
  moreover have "filter_mset P (A - {#a#}) = filter_mset P A - (if P a then {#a#} else {#})" if "a \<in># A"
    for P and A :: "int multiset" and a
    using that by (auto simp: multiset_eq_iff)
  ultimately show ?thesis
    using assms by (auto simp: valid_sockets_def mset_update diff_single_trivial)
qed

lemma valid_sockets_size: "size (valid_sockets xs) < length xs \<longleftrightarrow> kEipInvalidSocket \<in> set xs"
proof -
  have "size (valid_sockets xs) + size (filter_mset (\<lambda>s. s = kEipInvalidSocket) (mset xs)) = length xs"
    using multiset_partition [of "mset xs" "\<lambda>s. s = kEipInvalidSocket"]
    unfolding valid_sockets_def by (metis add.commute size_mset size_union)
  moreover have "size (filter_mset (\<lambda>s. s = kEipInvalidSocket) (mset xs)) = 0 \<longleftrightarrow> kEipInvalidSocket \<notin> set xs"
    by (auto simp: filter_mset_eq_conv)
  ultimately show ?thesis by linarith
qed

lemma count_valid_sockets: "s \<noteq> kEipInvalidSocket \<Longrightarrow> s \<in># valid_sockets xs \<longleftrightarrow> s \<in> set xs"
  by (auto simp: valid_sockets_def)

lemma valid_sockets_clear:
  "valid_sockets (map timer_socket (clear_socket s ts)) = filter_mset (\<lambda>x. x \<noteq> s) (valid_sockets (map timer_socket ts))"
  by (induction ts) (auto simp: valid_sockets_def clear_socket_def cleared_timer_def)

lemma length_clear_socket [simp]: "length (clear_socket s ts) = length ts"
  by (simp add: clear_socket_def)

text \<open>A free session means a free timer: registering a session always finds one.\<close>

lemma free_timer_iff:
  assumes "sessions_wf st"
  shows "kEipInvalidSocket \<in> timer_socket ` set (g_timestamps st) \<longleftrightarrow> kEipInvalidSocket \<in> set (g_registered_sessions st)"
  using assms valid_sockets_size [of "g_registered_sessions st"] valid_sockets_size [of "map timer_socket (g_timestamps st)"]
  unfolding sessions_wf_def by (metis length_map list.set_map)

lemma session_index:
  assumes "sessions_wf st" "i < length (g_registered_sessions st)" "g_registered_sessions st ! i = s" "s \<noteq> kEipInvalidSocket"
  shows "first_index (\<lambda>x. x = s) (g_registered_sessions st) = Some i"
proof (rule first_index_unique)
  fix j
  assume j: "j < length (g_registered_sessions st)" "g_registered_sessions st ! j = s"
  show "j = i"
  proof (rule ccontr)
    assume "j \<noteq> i"
    let ?xs = "g_registered_sessions st"
    have "s \<in> set (?xs[i := kEipInvalidSocket])"
      using j \<open>j \<noteq> i\<close> by (metis length_list_update nth_list_update_neq nth_mem)
    then have "s \<in># valid_sockets ?xs - {#s#}"
      using valid_sockets_update [OF assms(2), of kEipInvalidSocket] assms(3,4)
        count_valid_sockets [OF assms(4), of "?xs[i := kEipInvalidSocket]"] by simp
    then have "1 < count (valid_sockets ?xs) s" by (simp add: in_diff_count)
    moreover have "count (valid_sockets ?xs) s \<le> 1" using assms(1) by (simp add: sessions_wf_def)
    ultimately show False by simp
  qed
qed (use assms in simp_all)

lemma wf_add:
  assumes "sessions_wf st" "i < length (g_registered_sessions st)" "g_registered_sessions st ! i = kEipInvalidSocket"
    and "j < length (g_timestamps st)" "timer_socket (g_timestamps st ! j) = kEipInvalidSocket"
    and "s \<noteq> kEipInvalidSocket" "s \<notin> set (g_registered_sessions st)"
  shows "sessions_wf (st\<lparr>g_timestamps := (g_timestamps st)[j := \<lparr>timer_socket = s, last_update = t\<rparr>],
     g_registered_sessions := (g_registered_sessions st)[i := s]\<rparr>)"
proof -
  have inv: "kEipInvalidSocket \<notin># valid_sockets xs" for xs by (simp add: valid_sockets_def)
  have "count (valid_sockets (g_registered_sessions st)) s = 0"
    using assms(6,7) count_valid_sockets [of s "g_registered_sessions st"] by (simp add: not_in_iff)
  then show ?thesis
    using assms(1-6) by (auto simp: sessions_wf_def map_update valid_sockets_update diff_single_trivial inv)
qed

lemma wf_remove:
  assumes wf: "sessions_wf st" and i: "i < length (g_registered_sessions st)" "g_registered_sessions st ! i = s"
    and s: "s \<noteq> kEipInvalidSocket"
  shows "sessions_wf (st\<lparr>g_timestamps := clear_socket s (g_timestamps st),
     g_registered_sessions := (g_registered_sessions st)[i := kEipInvalidSocket]\<rparr>)"
proof -
  let ?v = "valid_sockets (g_registered_sessions st)"
  have "s \<in># ?v" using i s nth_mem by (fastforce simp: valid_sockets_def)
  then have "count ?v s = 1" using wf by (metis One_nat_def count_greater_zero_iff le_antisym Suc_leI sessions_wf_def)
  then have "filter_mset (\<lambda>x. x \<noteq> s) ?v = ?v - {#s#}"
    by (auto simp: multiset_eq_iff)
  moreover have "count (?v - {#s#}) x \<le> 1" for x
    using wf by (auto simp: sessions_wf_def le_SucI)
  ultimately show ?thesis
    using wf i s by (simp add: sessions_wf_def valid_sockets_clear valid_sockets_update)
qed

lemma wf_clear_absent:
  assumes "sessions_wf st" "s \<notin> set (g_registered_sessions st)" "s \<noteq> kEipInvalidSocket"
  shows "clear_socket s (g_timestamps st) = g_timestamps st"
proof (rule clear_socket_absent)
  have "s \<notin># valid_sockets (map timer_socket (g_timestamps st))"
    using assms count_valid_sockets by (simp add: sessions_wf_def)
  then show "s \<notin> timer_socket ` set (g_timestamps st)"
    using count_valid_sockets [OF assms(3), of "map timer_socket (g_timestamps st)"] by simp
qed

subsection \<open>Closing keeps the tables consistent\<close>

lemma remove_timer_Some: "RemoveSocketTimerFromList s ts = Some r \<Longrightarrow> r = clear_socket s ts"
proof (cases "s = kEipInvalidSocket")
  case True
  assume r: "RemoveSocketTimerFromList s ts = Some r"
  with True remove_timer_diverges have a: "s \<notin> timer_socket ` set ts" by blast
  then have "SocketTimerArrayGetSocketTimer ts s = None" by (simp add: get_timer_None)
  with r have "r = ts" by (subst (asm) RemoveSocketTimerFromList.simps) simp
  then show "r = clear_socket s ts" using clear_socket_absent [OF a] by simp
qed (simp add: remove_timer_valid)

lemma CloseTcpSocket_tables:
  assumes "CloseTcpSocket s st = Some st'"
  shows "g_registered_sessions st' = g_registered_sessions st" and "g_timestamps st' = clear_socket s (g_timestamps st)"
  using assms by (auto simp: CloseTcpSocket_def remove_socket_timer_def log_effect_def CloseSocket_def
      dest!: remove_timer_Some)

lemma CloseTcpSocket_valid:
  "s \<noteq> kEipInvalidSocket \<Longrightarrow> CloseTcpSocket s st =
     Some (st\<lparr>g_timestamps := clear_socket s (g_timestamps st), master_socket := master_socket st - {s},
       st_effects := ClosedSocket s # ShutdownSocket s # st_effects st\<rparr>)"
  by (simp add: CloseTcpSocket_def remove_socket_timer_def remove_timer_valid log_effect_def CloseSocket_def)

lemma CloseTcpSocket_invalid_diverges:
  assumes "kEipInvalidSocket \<in> timer_socket ` set (g_timestamps st)"
  shows "CloseTcpSocket kEipInvalidSocket st = None"
proof -
  have "RemoveSocketTimerFromList kEipInvalidSocket (g_timestamps st) = None"
    using remove_timer_diverges assms by (cases "RemoveSocketTimerFromList kEipInvalidSocket (g_timestamps st)") auto
  then show ?thesis by (simp add: CloseTcpSocket_def remove_socket_timer_def log_effect_def)
qed

lemma wf_tables_cong:
  "sessions_wf st \<Longrightarrow> g_registered_sessions st' = g_registered_sessions st \<Longrightarrow> g_timestamps st' = g_timestamps st
     \<Longrightarrow> sessions_wf st'"
  by (simp add: sessions_wf_def)

text \<open>Freeing the session of a socket whose timers are removed already.\<close>

definition without_timers :: "int \<Rightarrow> ('fn, 'app) stack_state \<Rightarrow> ('fn, 'app) stack_state \<Rightarrow> bool" where
  "without_timers s st st' \<longleftrightarrow> g_registered_sessions st' = g_registered_sessions st
     \<and> g_timestamps st' = clear_socket s (g_timestamps st)"

lemma wf_free_session:
  assumes "sessions_wf st" "without_timers s st st'" "s \<noteq> kEipInvalidSocket"
    and "first_index (\<lambda>x. x = s) (g_registered_sessions st) = Some i"
  shows "sessions_wf (free_session i st')"
proof -
  have "i < length (g_registered_sessions st)" "g_registered_sessions st ! i = s"
    using assms(4) by (simp_all add: first_index_Some)
  from wf_remove [OF assms(1) this assms(3)] show ?thesis
    using assms(2) by (simp add: sessions_wf_def free_session_def without_timers_def)
qed

lemma wf_without_session:
  assumes "sessions_wf st" "without_timers s st st'" "s \<noteq> kEipInvalidSocket"
    and "first_index (\<lambda>x. x = s) (g_registered_sessions st) = None"
  shows "sessions_wf st'"
proof -
  have "s \<notin> set (g_registered_sessions st)" using assms(4) by (auto simp: first_index_None)
  from wf_clear_absent [OF assms(1) this assms(3)] show ?thesis
    using assms(1,2) by (simp add: sessions_wf_def without_timers_def)
qed

text \<open>The interface to the functions connection objects point to: they leave the tables consistent.\<close>

locale close_functions =
  fixes close :: "('fn, 'app) close_call"
  assumes close_wf: "close f a st = Some st' \<Longrightarrow> sessions_wf st \<Longrightarrow> sessions_wf st'"
begin

lemma close_class3_loop_wf:
  "close_class3_loop c h node st = Some st' \<Longrightarrow> c = close \<Longrightarrow> sessions_wf st \<Longrightarrow> sessions_wf st'"
proof (induction rule: close_class3_loop.raw_induct [rotated 1, consumes 1])
  case (1 loop c h node st st')
  show ?case
  proof (cases node)
    case (Some n)
    obtain a st1 where a: "node_data (snd (st_connection_list st) ! n) = Some a"
      and st1: "(if is_class3_of h (st_objects st a) then connection_close_function (st_objects st a) \<bind> (\<lambda>f. c f a st)
          else Some st) = Some st1"
      and rest: "loop c h (node_next (snd (st_connection_list st1) ! n)) st1 = Some st'"
      using 1(2) Some by auto
    have "sessions_wf st1" using st1 1(3,4) close_wf by (auto split: if_splits)
    then show ?thesis using 1(1) [OF rest 1(3)] by simp
  qed (use 1(2,4) in simp)
qed

lemma CloseClass3_wf:
  "CloseClass3ConnectionBasedOnSession close h st = Some st' \<Longrightarrow> sessions_wf st \<Longrightarrow> sessions_wf st'"
  unfolding CloseClass3ConnectionBasedOnSession_def by (rule close_class3_loop_wf [OF _ refl])

lemma RemoveSession_wf:
  assumes wf: "sessions_wf st" and t: "without_timers s st st1" and s: "s \<noteq> kEipInvalidSocket"
    and r: "RemoveSession close s st1 = Some st'"
  shows "sessions_wf st'"
proof -
  have g: "g_registered_sessions st1 = g_registered_sessions st" using t by (simp add: without_timers_def)
  show ?thesis
  proof (cases "first_index (\<lambda>x. x = s) (g_registered_sessions st)")
    case None
    with r g have "st' = st1" by (simp add: RemoveSession_def)
    then show ?thesis using wf_without_session [OF wf t s None] by simp
  next
    case (Some i)
    with r g have "CloseClass3ConnectionBasedOnSession close (of_nat i + 1) (free_session i st1) = Some st'"
      by (simp add: RemoveSession_def)
    from CloseClass3_wf [OF this wf_free_session [OF wf t s Some]] show ?thesis .
  qed
qed

lemma CloseSession_wf:
  assumes wf: "sessions_wf st" and s: "s \<noteq> kEipInvalidSocket" and c: "CloseSession close s st = Some st'"
  shows "sessions_wf st'"
proof (cases "first_index (\<lambda>x. x = s) (g_registered_sessions st)")
  case None
  with c wf show ?thesis by (simp add: CloseSession_def)
next
  case (Some i)
  with c obtain st1 where st1: "CloseTcpSocket s st = Some st1"
    and r: "CloseClass3ConnectionBasedOnSession close (of_nat i + 1) (free_session i st1) = Some st'"
    by (auto simp: CloseSession_def)
  have "without_timers s st st1" using CloseTcpSocket_tables [OF st1] by (simp add: without_timers_def)
  from CloseClass3_wf [OF r wf_free_session [OF wf this s Some]] show ?thesis .
qed

lemma close_and_remove_wf:
  assumes wf: "sessions_wf st" and s: "s \<noteq> kEipInvalidSocket"
    and c: "CloseTcpSocket s st = Some st1" "RemoveSession close s st1 = Some st'"
  shows "sessions_wf st'"
  using RemoveSession_wf [OF wf _ s c(2)] CloseTcpSocket_tables [OF c(1)] by (simp add: without_timers_def)

lemma CheckEncapsulationInactivity_wf:
  assumes wf: "sessions_wf st" and s: "s \<noteq> kEipInvalidSocket"
    and c: "CheckEncapsulationInactivity close s st = Some st'"
  shows "sessions_wf st'"
proof (cases "st' = st")
  case False
  with c obtain st1 st2 where
      1: "CloseClass3ConnectionBasedOnSession close (GetSessionFromSocket s st) st = Some st1"
    and 2: "CloseTcpSocket s st1 = Some st2" "RemoveSession close s st2 = Some st'"
    by (auto simp: CheckEncapsulationInactivity_def split: if_splits option.splits)
  have "sessions_wf st1" using CloseClass3_wf [OF 1 wf] .
  from close_and_remove_wf [OF this s 2] show ?thesis .
qed (use wf in simp)

lemma for_sessions_wf:
  assumes "\<And>i s st st'. sessions_wf st \<Longrightarrow> s \<noteq> kEipInvalidSocket \<Longrightarrow> session_at st i = Some s \<Longrightarrow> f i s st = Some st'
      \<Longrightarrow> sessions_wf st'"
  shows "sessions_wf st \<Longrightarrow> for_sessions is f st = Some st' \<Longrightarrow> sessions_wf st'"
  by (induction "is" arbitrary: st) (auto split: if_splits dest: assms)

lemma CloseBySockAddr_wf:
  "sessions_wf st \<Longrightarrow> CloseEncapsulationSessionBySockAddr close peer c st = Some st' \<Longrightarrow> sessions_wf st'"
  unfolding CloseEncapsulationSessionBySockAddr_def
  by (erule for_sessions_wf [rotated]) (auto simp: Let_def split: if_splits dest: CloseSession_wf)

end

lemma session_index_at:
  "sessions_wf st \<Longrightarrow> session_at st i = Some s \<Longrightarrow> s \<noteq> kEipInvalidSocket
     \<Longrightarrow> first_index (\<lambda>x. x = s) (g_registered_sessions st) = Some i"
  by (auto simp: session_at_def split: if_splits intro: session_index)

lemma close_and_free_wf:
  assumes "sessions_wf st" "session_at st i = Some s" "s \<noteq> kEipInvalidSocket" "CloseTcpSocket s st = Some st'"
  shows "sessions_wf (free_session i st')"
  using wf_free_session [OF assms(1) _ assms(3) session_index_at [OF assms(1-3)]] CloseTcpSocket_tables [OF assms(4)]
  by (simp add: without_timers_def)

end
