(* ===== verification/Encap.thy ===== *)
theory Encap
  imports EncapSession
begin

text \<open>
  The commands of the encapsulation protocol (\<^verbatim>\<open>enet_encap/encap.c\<close>): registering and
  unregistering sessions, the lists of services, interfaces and identities, the delayed reply to
  a broadcast, and the dispatch of a message received over TCP or UDP.
\<close>

subsection \<open>Lists of services and interfaces\<close>

abbreviation (input) kEncapsulationCommandNoOperation :: CipUint where "kEncapsulationCommandNoOperation \<equiv> 0x0000"
abbreviation (input) kEncapsulationCommandListServices :: CipUint where "kEncapsulationCommandListServices \<equiv> 0x0004"
abbreviation (input) kEncapsulationCommandListIdentity :: CipUint where "kEncapsulationCommandListIdentity \<equiv> 0x0063"
abbreviation (input) kEncapsulationCommandListInterfaces :: CipUint where "kEncapsulationCommandListInterfaces \<equiv> 0x0064"
abbreviation (input) kEncapsulationCommandRegisterSession :: CipUint where "kEncapsulationCommandRegisterSession \<equiv> 0x0065"
abbreviation (input) kEncapsulationCommandUnregisterSession :: CipUint where "kEncapsulationCommandUnregisterSession \<equiv> 0x0066"
abbreviation (input) kEncapsulationCommandSendRequestReplyData :: CipUint where
  "kEncapsulationCommandSendRequestReplyData \<equiv> 0x006F"
abbreviation (input) kEncapsulationCommandSendUnitData :: CipUint where "kEncapsulationCommandSendUnitData \<equiv> 0x0070"

abbreviation (input) kSupportedProtocolVersion :: CipUint where "kSupportedProtocolVersion \<equiv> 1"
abbreviation (input) kListIdentityDefaultDelayTime :: CipUint where "kListIdentityDefaultDelayTime \<equiv> 2000"
abbreviation (input) kListIdentityMinimumDelayTime :: CipUint where "kListIdentityMinimumDelayTime \<equiv> 500"
abbreviation (input) kOpenerEthernetPort :: CipUint where "kOpenerEthernetPort \<equiv> 0xAF12"

text \<open>The structure \<^verbatim>\<open>g_service_information\<close>, which \<^verbatim>\<open>EncapsulationInit\<close> fills; its name is ''Communications''.\<close>

record service_information =
  si_type_code :: CipUint
  si_length :: CipUint
  si_protocol_version :: CipUint
  si_capability_flags :: CipUint
  si_name_of_service :: "octet list"

definition g_service_information :: service_information where
  "g_service_information = \<lparr>si_type_code = kCipItemIdListServiceResponse, si_length = 24, si_protocol_version = 1,
     si_capability_flags = 0x0020 OR 0x0100,
     si_name_of_service = [67, 111, 109, 109, 117, 110, 105, 99, 97, 116, 105, 111, 110, 115, 0, 0]\<rparr>"

definition HandleReceivedListServicesCommand :: "encapsulation_data \<Rightarrow> enip_message \<Rightarrow> enip_message option" where
  "HandleReceivedListServicesCommand d m = do {
     m \<leftarrow> GenerateEncapsulationHeader d (2 + 24) 0 kEncapsulationProtocolSuccess m;
     m \<leftarrow> AddIntToMessage 1 m;
     m \<leftarrow> AddIntToMessage (si_type_code g_service_information) m;
     m \<leftarrow> AddIntToMessage (si_length g_service_information - 4) m;
     m \<leftarrow> AddIntToMessage (si_protocol_version g_service_information) m;
     m \<leftarrow> AddIntToMessage (si_capability_flags g_service_information) m;
     m \<leftarrow> put_octets (si_name_of_service g_service_information) m;
     Some (m\<lparr>current_message_position := current_message_position m + 16,
             used_message_length := used_message_length m + 16\<rparr>) }"

definition HandleReceivedListInterfacesCommand :: "encapsulation_data \<Rightarrow> enip_message \<Rightarrow> enip_message option" where
  "HandleReceivedListInterfacesCommand d m = do {
     m \<leftarrow> GenerateEncapsulationHeader d 2 0 kEncapsulationProtocolSuccess m;
     AddIntToMessage 0 m }"

subsection \<open>List of identities\<close>

definition ListIdentityGetCipIdentityItemLength :: "identity_object \<Rightarrow> CipUint" where
  "ListIdentityGetCipIdentityItemLength ident =
     2 + 2 + 2 + 4 + 8 * 1 + 2 + 2 + 2 + 2 * 1 + 2 + 4 + 1 + ucast (ss_length (product_name ident)) + 1"

definition EncodeListIdentityCipIdentityItem ::
    "OpenerEndianess \<Rightarrow> identity_object \<Rightarrow> CipTcpIpObject \<Rightarrow> enip_message \<Rightarrow> enip_message option" where
  "EncodeListIdentityCipIdentityItem e ident tcpip m = do {
     m \<leftarrow> AddIntToMessage 0x0C m;
     m \<leftarrow> AddIntToMessage (ListIdentityGetCipIdentityItemLength ident) m;
     m \<leftarrow> AddIntToMessage kSupportedProtocolVersion m;
     m \<leftarrow> EncapsulateIpAddress e (htons e kOpenerEthernetPort) (tcpip_ip_address tcpip) m;
     m \<leftarrow> FillNextNMessageOctetsWithValueAndMoveToNextPosition 0 8 m;
     m \<leftarrow> AddIntToMessage (vendor_id ident) m;
     m \<leftarrow> AddIntToMessage (device_type ident) m;
     m \<leftarrow> AddIntToMessage (product_code ident) m;
     m \<leftarrow> AddSintToMessage (major_revision ident) m;
     m \<leftarrow> AddSintToMessage (minor_revision ident) m;
     m \<leftarrow> AddIntToMessage (id_status ident) m;
     m \<leftarrow> AddDintToMessage (serial_number ident) m;
     m \<leftarrow> AddSintToMessage (ss_length (product_name ident)) m;
     name \<leftarrow> (if ss_length (product_name ident) = 0 then Some []
        else do { s \<leftarrow> ss_string (product_name ident); copy_octets (unat (ss_length (product_name ident))) s });
     m \<leftarrow> put_octets name m;
     let m = m\<lparr>current_message_position := current_message_position m + length name,
               used_message_length := used_message_length m + of_nat (length name)\<rparr>;
     AddSintToMessage (id_state ident) m }"

definition EncapsulateListIdentityResponseMessage ::
    "OpenerEndianess \<Rightarrow> identity_object \<Rightarrow> CipTcpIpObject \<Rightarrow> encapsulation_data \<Rightarrow> enip_message \<Rightarrow> enip_message option" where
  "EncapsulateListIdentityResponseMessage e ident tcpip d m = do {
     let len = ListIdentityGetCipIdentityItemLength ident + 2 + 2 + 2;
     m \<leftarrow> GenerateEncapsulationHeader d (ucast len) 0 kEncapsulationProtocolSuccess m;
     m \<leftarrow> AddIntToMessage 1 m;
     EncodeListIdentityCipIdentityItem e ident tcpip m }"

definition HandleReceivedListIdentityCommandTcp ::
    "OpenerEndianess \<Rightarrow> ('fn, 'app) stack_state \<Rightarrow> encapsulation_data \<Rightarrow> enip_message \<Rightarrow> enip_message option" where
  "HandleReceivedListIdentityCommandTcp e st = EncapsulateListIdentityResponseMessage e (g_identity st) (g_tcpip st)"

text \<open>\<open>rand_value\<close> is the value \<^verbatim>\<open>rand()\<close> returns.\<close>

definition DetermineDelayTime :: "nat \<Rightarrow> octet list \<Rightarrow> (32 word) option" where
  "DetermineDelayTime rand_value buffer_start = do {
     (maximum_delay_time, _) \<leftarrow> GetUintFromMessage (drop 12 buffer_start);
     let maximum_delay_time =
       (if maximum_delay_time = 0 then kListIdentityDefaultDelayTime
        else if kListIdentityMinimumDelayTime > maximum_delay_time then kListIdentityMinimumDelayTime
        else maximum_delay_time);
     Some (of_nat (rand_value mod unat maximum_delay_time)) }"

definition HandleReceivedListIdentityCommandUdp ::
    "OpenerEndianess \<Rightarrow> nat \<Rightarrow> int \<Rightarrow> sockaddr_in \<Rightarrow> encapsulation_data \<Rightarrow> ('fn, 'app) stack_state
      \<Rightarrow> ('fn, 'app) stack_state option" where
  "HandleReceivedListIdentityCommandUdp e rand_value socket from_address d st =
     (let ms = g_delayed_encapsulation_messages st
      in case first_index (\<lambda>dm. kEipInvalidSocket = dm_socket dm) ms of
           None \<Rightarrow> Some st
         | Some i \<Rightarrow> do {
             time_out \<leftarrow> DetermineDelayTime rand_value (communication_buffer_start d);
             m \<leftarrow> EncapsulateListIdentityResponseMessage e (g_identity st) (g_tcpip st) d
                (InitializeENIPMessage (dm_outgoing_message (ms ! i)));
             Some (st\<lparr>g_delayed_encapsulation_messages := ms[i := \<lparr>dm_time_out = time_out, dm_socket = socket,
               dm_receiver = from_address, dm_outgoing_message = m\<rparr>]\<rparr>) })"

text \<open>
  The delays are signed; the elapsed time is subtracted modulo \<open>2 ^ 32\<close>. Sending is an entry of
  the log.
\<close>

definition manage_delayed ::
    "MilliSeconds \<Rightarrow> nat \<Rightarrow> ('fn, 'app) stack_state \<Rightarrow> ('fn, 'app) stack_state" where
  "manage_delayed elapsed_time i st =
     (let ms = g_delayed_encapsulation_messages st; dm = ms ! i
      in if dm_socket dm \<noteq> kEipInvalidSocket then
           let dm = dm\<lparr>dm_time_out := dm_time_out dm - ucast elapsed_time\<rparr>
           in if 0 \<ge> sint (dm_time_out dm)
              then log_effect (SentDatagram (dm_socket dm) (dm_receiver dm)
                     (take (unat (used_message_length (dm_outgoing_message dm))) (message_buffer (dm_outgoing_message dm))))
                   (st\<lparr>g_delayed_encapsulation_messages := ms[i := dm\<lparr>dm_socket := kEipInvalidSocket\<rparr>]\<rparr>)
              else st\<lparr>g_delayed_encapsulation_messages := ms[i := dm]\<rparr>
         else st)"

definition ENCAP_NUMBER_OF_SUPPORTED_DELAYED_ENCAP_MESSAGES :: nat where
  "ENCAP_NUMBER_OF_SUPPORTED_DELAYED_ENCAP_MESSAGES = 2"

definition ManageEncapsulationMessages ::
    "MilliSeconds \<Rightarrow> ('fn, 'app) stack_state \<Rightarrow> ('fn, 'app) stack_state" where
  "ManageEncapsulationMessages elapsed_time =
     fold (manage_delayed elapsed_time) [0..<ENCAP_NUMBER_OF_SUPPORTED_DELAYED_ENCAP_MESSAGES]"

subsection \<open>Sessions\<close>

text \<open>The service information and the platform's endianess, which are also set here, are constant.\<close>

definition EncapsulationInit :: "('fn, 'app) stack_state \<Rightarrow> ('fn, 'app) stack_state" where
  "EncapsulationInit st =
     st\<lparr>g_registered_sessions := map (\<lambda>_. kEipInvalidSocket) [0..<OPENER_NUMBER_OF_SUPPORTED_SESSIONS],
        g_delayed_encapsulation_messages := map (\<lambda>dm. dm\<lparr>dm_socket := kEipInvalidSocket\<rparr>)
           (g_delayed_encapsulation_messages st)\<rparr>"

definition EncapsulateRegisterSessionCommandResponseMessage ::
    "encapsulation_data \<Rightarrow> CipSessionHandle \<Rightarrow> EncapsulationProtocolErrorCode \<Rightarrow> enip_message \<Rightarrow> enip_message option" where
  "EncapsulateRegisterSessionCommandResponseMessage d session_handle status m = do {
     m \<leftarrow> GenerateEncapsulationHeader d 4 session_handle status m;
     m \<leftarrow> AddIntToMessage 1 m;
     AddIntToMessage 0 m }"

definition register_session ::
    "int \<Rightarrow> ('fn, 'app) stack_state \<Rightarrow> (CipSessionHandle \<times> EncapsulationProtocolErrorCode \<times> ('fn, 'app) stack_state) option" where
  "register_session socket st =
     (case first_index (\<lambda>s. s = socket) (g_registered_sessions st) of
        Some i \<Rightarrow> Some (of_nat i + 1, kEncapsulationProtocolInvalidCommand, st)
      | None \<Rightarrow> (case GetFreeSessionIndex st of
            None \<Rightarrow> Some (0, kEncapsulationProtocolInsufficientMemory, st)
          | Some i \<Rightarrow> do {
              let socket_timer = SocketTimerArrayGetEmptySocketTimer (g_timestamps st);
              ts \<leftarrow> SocketTimerSetSocket socket_timer socket (g_timestamps st);
              let ts = SocketTimerSetLastUpdate socket_timer (g_actual_time st) ts;
              Some (of_nat i + 1, kEncapsulationProtocolSuccess,
                st\<lparr>g_timestamps := ts, g_registered_sessions := (g_registered_sessions st)[i := socket]\<rparr>) }))"

definition HandleReceivedRegisterSessionCommand ::
    "int \<Rightarrow> encapsulation_data \<Rightarrow> ('fn, 'app) stack_state \<Rightarrow> enip_message
      \<Rightarrow> (('fn, 'app) stack_state \<times> enip_message) option" where
  "HandleReceivedRegisterSessionCommand socket d st m = do {
     (protocol_version, p) \<leftarrow> GetUintFromMessage (current_communication_buffer_position d);
     (option_flag, p) \<leftarrow> GetUintFromMessage p;
     (session_handle, status, st) \<leftarrow>
       (if 0 < protocol_version \<and> protocol_version \<le> kSupportedProtocolVersion \<and> 0 = option_flag
        then register_session socket st
        else Some (0, kEncapsulationProtocolUnsupportedProtocol, st));
     m \<leftarrow> EncapsulateRegisterSessionCommandResponseMessage d session_handle status m;
     Some (st, m) }"

definition HandleReceivedUnregisterSessionCommand ::
    "('fn, 'app) close_call \<Rightarrow> encapsulation_data \<Rightarrow> ('fn, 'app) stack_state \<Rightarrow> enip_message
      \<Rightarrow> (EipStatus \<times> ('fn, 'app) stack_state \<times> enip_message) option" where
  "HandleReceivedUnregisterSessionCommand close d st m = do {
     let h = ed_session_handle d;
     let i = unat (h - 1);
     if 0 < h \<and> h \<le> of_nat OPENER_NUMBER_OF_SUPPORTED_SESSIONS \<and> g_registered_sessions st ! i \<noteq> kEipInvalidSocket
     then do {
       st \<leftarrow> CloseTcpSocket (g_registered_sessions st ! i) st;
       st \<leftarrow> CloseClass3ConnectionBasedOnSession close h (free_session i st);
       Some (kEipStatusOk, st, m)
     } else do {
       m \<leftarrow> GenerateEncapsulationHeader d 0 h kEncapsulationProtocolInvalidSessionHandle m;
       Some (kEipStatusOkSend, st, m) } }"

subsection \<open>Requests\<close>

text \<open>The interface handle and the timeout, which are not used.\<close>

definition skip_interface_handle :: "encapsulation_data \<Rightarrow> encapsulation_data option" where
  "skip_interface_handle d = do {
     (_, p) \<leftarrow> GetDintFromMessage (current_communication_buffer_position d);
     (_, p) \<leftarrow> GetIntFromMessage p;
     Some (d\<lparr>current_communication_buffer_position := p, ed_data_length := ed_data_length d - 6\<rparr>) }"

definition with_registered_session ::
    "(encapsulation_data \<Rightarrow> 'svc registry \<Rightarrow> mr_request \<Rightarrow> ('fn, 'app) stack_state \<Rightarrow> enip_message
        \<Rightarrow> ('fn, 'app, 'svc) stack_result)
      \<Rightarrow> encapsulation_data \<Rightarrow> 'svc registry \<Rightarrow> mr_request \<Rightarrow> ('fn, 'app) stack_state \<Rightarrow> enip_message
        \<Rightarrow> ('fn, 'app, 'svc) stack_result" where
  "with_registered_session notify d objects req st m =
     (if ed_data_length d \<ge> 6 then do {
        d \<leftarrow> skip_interface_handle d;
        if CheckRegisteredSessions (ed_session_handle d) st then notify d objects req st m
        else do {
          m \<leftarrow> GenerateEncapsulationHeader d 0 (ed_session_handle d) kEncapsulationProtocolInvalidSessionHandle
             (InitializeENIPMessage m);
          Some (kEipStatusOkSend, objects, req, st, m) }
      } else Some (kEipStatusOk, objects, req, st, m))"

definition HandleReceivedSendUnitDataCommand ::
    "OpenerEndianess \<Rightarrow> ('fn, 'app, 'svc) service_call \<Rightarrow> encapsulation_data \<Rightarrow> sockaddr_in \<Rightarrow> 'svc registry
      \<Rightarrow> mr_request \<Rightarrow> ('fn, 'app) stack_state \<Rightarrow> enip_message \<Rightarrow> ('fn, 'app, 'svc) stack_result" where
  "HandleReceivedSendUnitDataCommand e call d originator =
     with_registered_session (\<lambda>d. NotifyConnectedCommonPacketFormat e call d originator) d"

definition HandleReceivedSendRequestResponseDataCommand ::
    "OpenerEndianess \<Rightarrow> ('fn, 'app, 'svc) service_call \<Rightarrow> encapsulation_data \<Rightarrow> sockaddr_in \<Rightarrow> 'svc registry
      \<Rightarrow> mr_request \<Rightarrow> ('fn, 'app) stack_state \<Rightarrow> enip_message \<Rightarrow> ('fn, 'app, 'svc) stack_result" where
  "HandleReceivedSendRequestResponseDataCommand e call d originator =
     with_registered_session (\<lambda>d. NotifyCommonPacketFormat e call d originator) d"

definition HandleReceivedInvalidCommand :: "encapsulation_data \<Rightarrow> enip_message \<Rightarrow> enip_message option" where
  "HandleReceivedInvalidCommand d m =
     GenerateEncapsulationHeader d 0 (ed_session_handle d) kEncapsulationProtocolInvalidCommand m"

subsection \<open>Dispatch\<close>

text \<open>The result carries the number of remaining octets behind the status.\<close>

definition tcp_command ::
    "('fn, 'app) close_call \<Rightarrow> OpenerEndianess \<Rightarrow> ('fn, 'app, 'svc) service_call \<Rightarrow> int \<Rightarrow> encapsulation_data
      \<Rightarrow> sockaddr_in \<Rightarrow> 'svc registry \<Rightarrow> mr_request \<Rightarrow> ('fn, 'app) stack_state \<Rightarrow> enip_message
      \<Rightarrow> ('fn, 'app, 'svc) stack_result" where
  "tcp_command close e call socket d originator objects req st m =
     (let c = command_code d; reply = map_option (\<lambda>m. (kEipStatusOkSend, objects, req, st, m))
      in if c = kEncapsulationCommandNoOperation then Some (kEipStatusOk, objects, req, st, m)
         else if c = kEncapsulationCommandListServices then reply (HandleReceivedListServicesCommand d m)
         else if c = kEncapsulationCommandListIdentity then reply (HandleReceivedListIdentityCommandTcp e st d m)
         else if c = kEncapsulationCommandListInterfaces then reply (HandleReceivedListInterfacesCommand d m)
         else if c = kEncapsulationCommandRegisterSession then do {
           (st, m) \<leftarrow> HandleReceivedRegisterSessionCommand socket d st m;
           Some (kEipStatusOkSend, objects, req, st, m) }
         else if c = kEncapsulationCommandUnregisterSession then do {
           (status, st, m) \<leftarrow> HandleReceivedUnregisterSessionCommand close d st m;
           Some (status, objects, req, st, m) }
         else if c = kEncapsulationCommandSendRequestReplyData
         then HandleReceivedSendRequestResponseDataCommand e call d originator objects req st m
         else if c = kEncapsulationCommandSendUnitData
         then HandleReceivedSendUnitDataCommand e call d originator objects req st m
         else reply (HandleReceivedInvalidCommand d m))"

definition HandleReceivedExplictTcpData ::
    "('fn, 'app) close_call \<Rightarrow> OpenerEndianess \<Rightarrow> ('fn, 'app, 'svc) service_call \<Rightarrow> int \<Rightarrow> octet list \<Rightarrow> size_t
      \<Rightarrow> sockaddr_in \<Rightarrow> 'svc registry \<Rightarrow> mr_request \<Rightarrow> ('fn, 'app) stack_state \<Rightarrow> enip_message
      \<Rightarrow> (int \<times> EipStatus \<times> 'svc registry \<times> mr_request \<times> ('fn, 'app) stack_state \<times> enip_message) option" where
  "HandleReceivedExplictTcpData close e call socket buffer len originator objects req st m = do {
     (remaining_bytes, d) \<leftarrow> CreateEncapsulationStructure buffer len;
     if remaining_bytes < 0 then Some (0, kEipStatusError, objects, req, st, m)
     else if ed_options d = 0
     then map_option (Pair remaining_bytes)
        (tcp_command close e call socket (d\<lparr>ed_status := protocol_error_value kEncapsulationProtocolSuccess\<rparr>)
           originator objects req st m)
     else Some (remaining_bytes, kEipStatusOk, objects, req, st, m) }"

definition HandleReceivedExplictUdpData ::
    "OpenerEndianess \<Rightarrow> nat \<Rightarrow> int \<Rightarrow> sockaddr_in \<Rightarrow> octet list \<Rightarrow> size_t \<Rightarrow> bool \<Rightarrow> ('fn, 'app) stack_state
      \<Rightarrow> enip_message \<Rightarrow> (int \<times> EipStatus \<times> ('fn, 'app) stack_state \<times> enip_message) option" where
  "HandleReceivedExplictUdpData e rand_value socket from_address buffer len unicast st m = do {
     (remaining_bytes, d) \<leftarrow> CreateEncapsulationStructure buffer len;
     if remaining_bytes < 0 then Some (0, kEipStatusError, st, m)
     else if ed_options d = 0 then
       let d = d\<lparr>ed_status := protocol_error_value kEncapsulationProtocolSuccess\<rparr>; c = command_code d;
           reply = map_option (\<lambda>m. (remaining_bytes, kEipStatusOkSend, st, m))
       in if c = kEncapsulationCommandListServices then reply (HandleReceivedListServicesCommand d m)
          else if c = kEncapsulationCommandListIdentity then
            if unicast then reply (HandleReceivedListIdentityCommandTcp e st d m)
            else map_option (\<lambda>st. (remaining_bytes, kEipStatusOk, st, m))
                   (HandleReceivedListIdentityCommandUdp e rand_value socket from_address d st)
          else if c = kEncapsulationCommandListInterfaces then reply (HandleReceivedListInterfacesCommand d m)
          else Some (remaining_bytes, kEipStatusOkSend, st, m)
     else Some (remaining_bytes, kEipStatusOk, st, m) }"

subsection \<open>The octets of the replies\<close>

definition frame_octets ::
    "encapsulation_data \<Rightarrow> CipSessionHandle \<Rightarrow> EncapsulationProtocolErrorCode \<Rightarrow> octet list \<Rightarrow> octet list" where
  "frame_octets d session status body =
     header_octets (command_code d) (of_nat (length body)) session (protocol_error_value status) (sender_context d) @ body"

definition services_body :: "octet list" where
  "services_body = [1, 0, 0, 1, 20, 0, 1, 0, 0x20, 1,
     67, 111, 109, 109, 117, 110, 105, 99, 97, 116, 105, 111, 110, 115, 0, 0]"

definition product_name_octets :: "identity_object \<Rightarrow> octet list option" where
  "product_name_octets ident =
     (if ss_length (product_name ident) = 0 then Some []
      else do { s \<leftarrow> ss_string (product_name ident); copy_octets (unat (ss_length (product_name ident))) s })"

definition identity_body :: "identity_object \<Rightarrow> octet list \<Rightarrow> CipUdint \<Rightarrow> octet list" where
  "identity_body ident name ip =
     [1, 0, 0x0C, 0] @ le_octets 2 (of_nat (34 + length name) :: 16 word) @ [1, 0]
     @ be_octets 2 AF_INET @ be_octets 2 kOpenerEthernetPort @ le_octets 4 ip @ replicate 8 0
     @ le_octets 2 (vendor_id ident) @ le_octets 2 (device_type ident) @ le_octets 2 (product_code ident)
     @ [major_revision ident, minor_revision ident] @ le_octets 2 (id_status ident)
     @ le_octets 4 (serial_number ident) @ of_nat (length name) # name @ [id_state ident]"

lemma put_octets_move:
  "n = length bs \<Longrightarrow> w = of_nat n \<Longrightarrow> Option.bind (put_octets bs m) (\<lambda>m. Some (m\<lparr>current_message_position := current_message_position m + n,
     used_message_length := used_message_length m + w\<rparr>)) = emit bs m"
  by (simp add: emit_def)

lemma list_services_emit:
  assumes "length (sender_context d) = kSenderContextSize"
  shows "HandleReceivedListServicesCommand d m = emit (frame_octets d 0 kEncapsulationProtocolSuccess services_body) m"
proof -
  have "le_octets 2 (256 :: 16 word) = [0, 1]" "le_octets 2 (288 :: 16 word) = [0x20, 1]"
      "le_octets 2 (1 :: 16 word) = [1, 0]" "le_octets 2 (20 :: 16 word) = [20, 0]"
    by (simp_all add: le_octets_2)
  then show ?thesis
    using assms
    by (simp add: HandleReceivedListServicesCommand_def GenerateEncapsulationHeader_emit put_octets_move g_service_information_def
        message_ops frame_octets_def services_body_def bind_assoc)
qed

lemma list_interfaces_emit:
  assumes "length (sender_context d) = kSenderContextSize"
  shows "HandleReceivedListInterfacesCommand d m = emit (frame_octets d 0 kEncapsulationProtocolSuccess [0, 0]) m"
  using assms
  by (simp add: HandleReceivedListInterfacesCommand_def GenerateEncapsulationHeader_emit message_ops frame_octets_def le_octets_2)

lemma register_reply_emit:
  assumes "length (sender_context d) = kSenderContextSize"
  shows "EncapsulateRegisterSessionCommandResponseMessage d h status m = emit (frame_octets d h status [1, 0, 0, 0]) m"
  using assms
  by (simp add: EncapsulateRegisterSessionCommandResponseMessage_def GenerateEncapsulationHeader_emit message_ops
      frame_octets_def le_octets_2)

lemma empty_reply_emit:
  assumes "length (sender_context d) = kSenderContextSize"
  shows "GenerateEncapsulationHeader d 0 h status m = emit (frame_octets d h status []) m"
  using assms by (simp add: GenerateEncapsulationHeader_emit frame_octets_def)

lemma product_name_length:
  assumes "product_name_octets ident = Some name"
  shows "length name = unat (ss_length (product_name ident))"
  using assms by (auto simp: product_name_octets_def split: if_splits)

lemma EncapsulateIpAddress_little:
  "EncapsulateIpAddress kOpENerEndianessLittle (htons kOpENerEndianessLittle port) ip m =
     emit (be_octets 2 AF_INET @ be_octets 2 port @ le_octets 4 ip) m"
  by (simp add: EncapsulateIpAddress_def htons_def AddInt_emit AddDint_emit le_octets_swap emit_emit)

lemma list_identity_emit:
  assumes "length (sender_context d) = kSenderContextSize" and "product_name_octets ident = Some name"
  shows "EncapsulateListIdentityResponseMessage kOpENerEndianessLittle ident tcpip d m =
     emit (frame_octets d 0 kEncapsulationProtocolSuccess (identity_body ident name (tcpip_ip_address tcpip))) m"
proof -
  have l: "unat (ss_length (product_name ident)) = length name" using product_name_length [OF assms(2)] by simp
  then have s: "ss_length (product_name ident) = of_nat (length name)" by (simp flip: l)
  have b: "length name < 256" using l unat_octet_less [of "ss_length (product_name ident)"] by simp
  have u: "ucast (ss_length (product_name ident)) = (of_nat (length name) :: 16 word)"
    using b by (simp add: s unsigned_of_nat take_bit_nat_eq_self)
  have i: "ListIdentityGetCipIdentityItemLength ident = of_nat (34 + length name)"
    by (simp add: ListIdentityGetCipIdentityItemLength_def u)
  have cc: "ucast (ucast w :: size_t) = w" for w :: "16 word"
    by (rule bit_word_eqI) (simp add: bit_simps)
  have c: "ucast (ucast (ListIdentityGetCipIdentityItemLength ident + 2 + 2 + 2) :: size_t) = (of_nat (40 + length name) :: 16 word)"
    unfolding cc by (simp add: i)
  have lb: "length (identity_body ident name (tcpip_ip_address tcpip)) = 40 + length name"
    by (simp add: identity_body_def be_octets_def)
  have p: "(if ss_length (product_name ident) = 0 then Some []
        else do { s \<leftarrow> ss_string (product_name ident); copy_octets (unat (ss_length (product_name ident))) s }) = Some name"
    using assms(2) by (simp only: product_name_octets_def)
  show ?thesis
    unfolding EncapsulateListIdentityResponseMessage_def EncodeListIdentityCipIdentityItem_def Let_def
      GenerateEncapsulationHeader_emit [OF assms(1)] c p Option.bind.bind_lunit
    unfolding i s
    by (simp add: message_ops EncapsulateIpAddress_little frame_octets_def lb put_octets_emit [OF refl, simplified] bind_assoc)
      (simp add: identity_body_def le_octets_2)
qed

lemma sent_octets_wf: "wf_msg m \<Longrightarrow> sent_octets m = msg_content m"
  using unat_used_message_length [of m] length_msg_content [of m] by (simp add: sent_octets_def msg_content_def)

lemma emit_reply:
  assumes "wf_msg m" "length bs \<le> msg_room m"
  shows "\<exists>m'. emit bs m = Some m' \<and> wf_msg m' \<and> sent_octets m' = sent_octets m @ bs"
  using emit_wf_fits [OF assms] assms(1) by (auto simp: sent_octets_wf)

lemma length_frame_octets:
  "length (sender_context d) = kSenderContextSize \<Longrightarrow> length (frame_octets d h status body) = 24 + length body"
  by (simp add: frame_octets_def kSenderContextSize_def)

definition received_header :: "encapsulation_data \<Rightarrow> octet list \<Rightarrow> size_t \<Rightarrow> octet list \<Rightarrow> bool" where
  "received_header d buffer n payload \<longleftrightarrow>
     buffer = header_octets (command_code d) (ed_data_length d) (ed_session_handle d) (ed_status d) (sender_context d) @ payload
     \<and> d = \<lparr>command_code = command_code d, ed_data_length = ed_data_length d, ed_session_handle = ed_session_handle d,
            ed_status = ed_status d, sender_context = sender_context d, ed_options = 0, communication_buffer_start = buffer,
            current_communication_buffer_position = payload\<rparr>
     \<and> length (sender_context d) = kSenderContextSize \<and> unat n \<le> 2147483647 \<and> 24 + unat (ed_data_length d) \<le> unat n"

lemma tcp_data_dispatch:
  assumes "received_header d buffer n payload"
  shows "HandleReceivedExplictTcpData close e call socket buffer n originator objects req st m =
     map_option (Pair (int (unat n) - 24 - int (unat (ed_data_length d))))
       (tcp_command close e call socket (d\<lparr>ed_status := 0\<rparr>) originator objects req st m)"
proof -
  have r: "CreateEncapsulationStructure buffer n = Some (int (unat n) - 24 - int (unat (ed_data_length d)), d)"
    using assms unfolding received_header_def by (metis CreateEncapsulationStructure_header)
  have o: "ed_options d = 0" using assms unfolding received_header_def by (metis encapsulation_data.select_convs(6))
  have "0 \<le> int (unat n) - 24 - int (unat (ed_data_length d))"
    using assms unfolding received_header_def by linarith
  then show ?thesis
    unfolding HandleReceivedExplictTcpData_def r Option.bind.bind_lunit prod.case o protocol_error_value.simps
    by (simp only: not_le [symmetric] not_True_eq_False if_False if_True simp_thms refl)
qed

subsection \<open>Properties\<close>

text \<open>
  C11: A \<^verbatim>\<open>SendRRData\<close> or \<^verbatim>\<open>SendUnitData\<close> command with a session handle that is not registered
  reaches neither the message router nor any other part of the stack: the classes, the request
  structure and the whole state stay as they are. If its data has at least the 6 octets of the
  interface handle and the timeout, it is answered with the header of the request, length 0 and
  the status Invalid Session Handle; with fewer it is not answered at all. The other commands
  do not look at the handle this way and are not part of the claim.
\<close>

theorem unregistered_session_rejected:
  assumes header: "received_header d buffer n payload"
    and command: "command_code d = kEncapsulationCommandSendRequestReplyData \<or> command_code d = kEncapsulationCommandSendUnitData"
    and len: "6 \<le> ed_data_length d \<Longrightarrow> 6 \<le> length payload"
    and session: "\<not> CheckRegisteredSessions (ed_session_handle d) st"
  shows "\<exists>k status m'. HandleReceivedExplictTcpData close e call socket buffer n originator objects req st m
      = Some (k, status, objects, req, st, m')
    \<and> (if 6 \<le> ed_data_length d
       then status = kEipStatusOkSend
         \<and> sent_octets m' = frame_octets d (ed_session_handle d) kEncapsulationProtocolInvalidSessionHandle []
       else status = kEipStatusOk \<and> m' = m)"
proof (cases "6 \<le> ed_data_length d")
  case False
  then show ?thesis
    using command tcp_data_dispatch [OF header, of close e call socket originator objects req st m]
    by (auto simp: tcp_command_def HandleReceivedSendRequestResponseDataCommand_def
        HandleReceivedSendUnitDataCommand_def with_registered_session_def)
next
  case True
  note len = True len [OF True]
  let ?d = "d\<lparr>ed_status := 0\<rparr>"
  have p: "current_communication_buffer_position d = payload"
    and c: "length (sender_context d) = kSenderContextSize"
    using header by (auto simp: received_header_def) (metis encapsulation_data.select_convs(8))
  have l: "\<not> length payload - 4 < 2" "\<not> length payload < 4" using len(2) by linarith+
  obtain a b where ab: "GetDintFromMessage payload = Some (a, drop 4 payload)"
      "GetIntFromMessage (drop 4 payload) = Some (b, drop 6 payload)"
    using l by (simp add: Get_aliases GetUdint_le GetUint_le)
  let ?d' = "?d\<lparr>current_communication_buffer_position := drop 6 payload, ed_data_length := ed_data_length d - 6\<rparr>"
  have s: "skip_interface_handle ?d = Some ?d'"
    using p ab by (simp add: skip_interface_handle_def)
  obtain m' where m': "emit (frame_octets ?d' (ed_session_handle d) kEncapsulationProtocolInvalidSessionHandle [])
      (InitializeENIPMessage m) = Some m'"
      "sent_octets m' = frame_octets ?d' (ed_session_handle d) kEncapsulationProtocolInvalidSessionHandle []"
    using emit_reply [of "InitializeENIPMessage m" "frame_octets ?d' (ed_session_handle d) kEncapsulationProtocolInvalidSessionHandle []"]
      c length_frame_octets [of ?d'] by (auto simp: PC_OPENER_ETHERNET_BUFFER_SIZE_def sent_octets_wf)
  have w: "with_registered_session notify ?d objects req st m = Some (kEipStatusOkSend, objects, req, st, m')"
    for notify :: "encapsulation_data \<Rightarrow> 'c registry \<Rightarrow> mr_request \<Rightarrow> ('a, 'b) stack_state \<Rightarrow> enip_message
        \<Rightarrow> ('a, 'b, 'c) stack_result"
    using len(1) s session m'(1) c by (simp add: with_registered_session_def empty_reply_emit)
  have "tcp_command close e call socket ?d originator objects req st m = Some (kEipStatusOkSend, objects, req, st, m')"
    using command w by (auto simp: tcp_command_def HandleReceivedSendRequestResponseDataCommand_def
        HandleReceivedSendUnitDataCommand_def)
  moreover have "frame_octets ?d' = frame_octets d" by (intro ext) (simp add: frame_octets_def)
  ultimately show ?thesis
    using m'(2) True tcp_data_dispatch [OF header, of close e call socket originator objects req st m] by simp
qed

definition empty_tables :: "(unit, unit) stack_state" where
  "empty_tables = example_stack\<lparr>g_registered_sessions := replicate 20 kEipInvalidSocket,
     g_timestamps := replicate 20 cleared_timer\<rparr>"

lemma empty_tables_wf: "sessions_wf empty_tables"
  by (simp add: sessions_wf_def empty_tables_def OPENER_NUMBER_OF_SUPPORTED_SESSIONS_def valid_sockets_def
      cleared_timer_def)

definition example_request :: "CipUint \<Rightarrow> octet list \<Rightarrow> encapsulation_data" where
  "example_request code payload = \<lparr>command_code = code, ed_data_length = of_nat (length payload), ed_session_handle = 3,
     ed_status = 0, sender_context = [1, 2, 3, 4, 5, 6, 7, 8], ed_options = 0,
     communication_buffer_start = header_octets code (of_nat (length payload)) 3 0 [1, 2, 3, 4, 5, 6, 7, 8] @ payload,
     current_communication_buffer_position = payload\<rparr>"

lemma example_received:
  "length payload < 500 \<Longrightarrow> received_header (example_request code payload)
     (communication_buffer_start (example_request code payload)) (of_nat (24 + length payload)) payload"
  by (simp add: received_header_def example_request_def kSenderContextSize_def unsigned_of_nat take_bit_nat_eq_self
      del: of_nat_add)

lemma unregistered_session_rejected_witness:
  "\<exists>k m'. HandleReceivedExplictTcpData (\<lambda>_ _ _. None) kOpENerEndianessLittle (\<lambda>_ _ _ _ _ _ _ _. None) 5
       (communication_buffer_start (example_request 0x6F [0, 0, 0, 0, 0, 0])) 30 zero_address ([] :: unit registry)
       empty_request empty_tables (InitializeENIPMessage undefined)
      = Some (k, kEipStatusOkSend, [], empty_request, empty_tables, m')
    \<and> sent_octets m' = frame_octets (example_request 0x6F [0, 0, 0, 0, 0, 0]) 3 kEncapsulationProtocolInvalidSessionHandle []"
proof -
  let ?d = "example_request 0x6F [0, 0, 0, 0, 0, 0]"
  have h: "received_header ?d (communication_buffer_start ?d) 30 [0, 0, 0, 0, 0, 0]"
    using example_received [of "[0, 0, 0, 0, 0, 0]" "0x6F"] by simp
  have s: "\<not> CheckRegisteredSessions (ed_session_handle ?d) empty_tables"
    by (simp add: CheckRegisteredSessions_def empty_tables_def example_request_def)
  have "command_code ?d = 0x6F \<or> command_code ?d = 0x70" "6 \<le> ed_data_length ?d" "6 \<le> length [0, 0, 0, 0, 0, 0 :: octet]"
      "ed_session_handle ?d = 3"
    by (simp_all add: example_request_def)
  then show ?thesis
    using unregistered_session_rejected [OF h _ _ s] by metis
qed

lemma set_timer_registers:
  assumes "SocketTimerArrayGetEmptySocketTimer ts = Some j"
  shows "SocketTimerSetSocket (Some j) s ts = Some (ts[j := (ts ! j)\<lparr>timer_socket := s\<rparr>])"
    and "SocketTimerSetLastUpdate (Some j) t (ts[j := (ts ! j)\<lparr>timer_socket := s\<rparr>]) =
      ts[j := \<lparr>timer_socket = s, last_update = t\<rparr>]"
    and "j < length ts" and "timer_socket (ts ! j) = kEipInvalidSocket"
  using assms by (simp_all add: SocketTimerSetSocket_def SocketTimerSetLastUpdate_def SocketTimerArrayGetEmptySocketTimer_def
      get_timer_Some) (cases "ts ! j"; simp)

lemma register_session_fresh:
  assumes wf: "sessions_wf st" and s: "socket \<noteq> kEipInvalidSocket" "socket \<notin> set (g_registered_sessions st)"
    and free: "kEipInvalidSocket \<in> set (g_registered_sessions st)"
  shows "\<exists>i ts. i < OPENER_NUMBER_OF_SUPPORTED_SESSIONS \<and> g_registered_sessions st ! i = kEipInvalidSocket
    \<and> register_session socket st = Some (of_nat i + 1, kEncapsulationProtocolSuccess,
         st\<lparr>g_timestamps := ts, g_registered_sessions := (g_registered_sessions st)[i := socket]\<rparr>)
    \<and> sessions_wf (st\<lparr>g_timestamps := ts, g_registered_sessions := (g_registered_sessions st)[i := socket]\<rparr>)"
proof -
  have n: "first_index (\<lambda>x. x = socket) (g_registered_sessions st) = None"
    using s(2) by (auto simp: first_index_None)
  obtain i where i: "GetFreeSessionIndex st = Some i"
    using free by (cases "GetFreeSessionIndex st") (auto simp: GetFreeSessionIndex_def first_index_None)
  then have i': "i < length (g_registered_sessions st)" "g_registered_sessions st ! i = kEipInvalidSocket"
    by (simp_all add: GetFreeSessionIndex_def first_index_Some)
  obtain j where j: "SocketTimerArrayGetEmptySocketTimer (g_timestamps st) = Some j"
    using free_timer_iff [OF wf] free
    by (cases "SocketTimerArrayGetEmptySocketTimer (g_timestamps st)")
      (auto simp: SocketTimerArrayGetEmptySocketTimer_def get_timer_None)
  note t = set_timer_registers [OF j]
  have "i < OPENER_NUMBER_OF_SUPPORTED_SESSIONS" using i'(1) wf by (simp add: sessions_wf_def)
  moreover have "register_session socket st = Some (of_nat i + 1, kEncapsulationProtocolSuccess,
      st\<lparr>g_timestamps := (g_timestamps st)[j := \<lparr>timer_socket = socket, last_update = g_actual_time st\<rparr>],
         g_registered_sessions := (g_registered_sessions st)[i := socket]\<rparr>)"
    by (simp add: register_session_def n i j t(1,2) Let_def)
  ultimately show ?thesis
    using i' wf_add [OF wf i' t(3,4) s] by blast
qed

lemma session_handle_index:
  assumes "i < OPENER_NUMBER_OF_SUPPORTED_SESSIONS"
  shows "unat (of_nat i + 1 - 1 :: CipSessionHandle) = i" and "(0 :: CipSessionHandle) < of_nat i + 1"
    and "(of_nat i + 1 :: CipSessionHandle) \<le> of_nat OPENER_NUMBER_OF_SUPPORTED_SESSIONS"
proof -
  have b: "i < 20" using assms by (simp add: OPENER_NUMBER_OF_SUPPORTED_SESSIONS_def)
  then show "unat (of_nat i + 1 - 1 :: CipSessionHandle) = i"
    by (simp add: unsigned_of_nat take_bit_nat_eq_self)
  have "unat (of_nat (Suc i) :: CipSessionHandle) = Suc i"
    using b by (simp only: unsigned_of_nat) (simp add: take_bit_nat_eq_self)
  then have u: "unat (of_nat i + 1 :: CipSessionHandle) = Suc i" by (simp add: add.commute)
  then show "(0 :: CipSessionHandle) < of_nat i + 1" by (simp add: word_less_nat_alt)
  show "(of_nat i + 1 :: CipSessionHandle) \<le> of_nat OPENER_NUMBER_OF_SUPPORTED_SESSIONS"
    unfolding word_le_nat_alt u using b by (simp add: OPENER_NUMBER_OF_SUPPORTED_SESSIONS_def)
qed

text \<open>
  C10: Registering a session. While the tables are consistent the handler always produces a reply
  and leaves them consistent. Only protocol version 1 without options is accepted; a socket
  with a session gets the handle of that session and the status Invalid Command; when all
  sessions are taken the status is Insufficient Memory; otherwise a free session is taken, whose
  handle is valid from then on and was not before, and the null pointer of a full timer table is
  never used.
\<close>

theorem register_session_reply:
  fixes version opts :: CipUint
  assumes wf: "sessions_wf st" and socket: "socket \<noteq> kEipInvalidSocket"
    and data: "current_communication_buffer_position d = le_octets 2 version @ le_octets 2 opts @ rest"
    and ctx: "length (sender_context d) = kSenderContextSize"
    and m: "wf_msg m" "28 \<le> msg_room m"
  shows "\<exists>h status st' m'. HandleReceivedRegisterSessionCommand socket d st m = Some (st', m')
    \<and> sessions_wf st' \<and> sent_octets m' = sent_octets m @ frame_octets d h status [1, 0, 0, 0]
    \<and> (if version \<noteq> 1 \<or> opts \<noteq> 0 then status = kEncapsulationProtocolUnsupportedProtocol \<and> h = 0 \<and> st' = st
       else if socket \<in> set (g_registered_sessions st)
       then status = kEncapsulationProtocolInvalidCommand \<and> st' = st \<and> session_at st (unat (h - 1)) = Some socket
       else if kEipInvalidSocket \<notin> set (g_registered_sessions st)
       then status = kEncapsulationProtocolInsufficientMemory \<and> h = 0 \<and> st' = st
       else status = kEncapsulationProtocolSuccess \<and> \<not> CheckRegisteredSessions h st \<and> CheckRegisteredSessions h st'
         \<and> g_registered_sessions st' = (g_registered_sessions st)[unat (h - 1) := socket]
         \<and> socket \<in> timer_socket ` set (g_timestamps st'))"
proof -
  have reply: "\<exists>m'. EncapsulateRegisterSessionCommandResponseMessage d h status m = Some m'
      \<and> sent_octets m' = sent_octets m @ frame_octets d h status [1, 0, 0, 0]" for h status
    using emit_reply [OF m(1), of "frame_octets d h status [1, 0, 0, 0]"] m(2) length_frame_octets [OF ctx]
    by (auto simp: register_reply_emit [OF ctx])
  have read: "GetUintFromMessage (current_communication_buffer_position d) = Some (version, le_octets 2 opts @ rest)"
      "GetUintFromMessage (le_octets 2 opts @ rest) = Some (opts, rest)"
    by (simp_all add: data uint.dec_enc)
  have v: "0 < version \<and> version \<le> 1 \<longleftrightarrow> version = 1" for version :: CipUint
  proof
    assume "0 < version \<and> version \<le> 1"
    then have "unat version = unat (1 :: CipUint)" unfolding word_less_nat_alt word_le_nat_alt by simp
    then show "version = 1" unfolding word_unat_eq_iff .
  qed simp
  have v': "(0 < version \<and> version \<le> 1 \<and> 0 = opts) = (version = 1 \<and> opts = 0)" using v [of version] by auto
  have step: "HandleReceivedRegisterSessionCommand socket d st m =
      Option.bind (if version = 1 \<and> opts = 0 then register_session socket st
         else Some (0, kEncapsulationProtocolUnsupportedProtocol, st))
        (\<lambda>(h, status, st). map_option (Pair st) (EncapsulateRegisterSessionCommandResponseMessage d h status m))"
    unfolding HandleReceivedRegisterSessionCommand_def read Option.bind.bind_lunit prod.case v'
    by (rule arg_cong2 [where f = Option.bind]) (auto simp: fun_eq_iff map_conv_bind_option o_def)
  consider (protocol) "version \<noteq> 1 \<or> opts \<noteq> 0"
    | (known) "version = 1" "opts = 0" "socket \<in> set (g_registered_sessions st)"
    | (full) "version = 1" "opts = 0" "socket \<notin> set (g_registered_sessions st)" "kEipInvalidSocket \<notin> set (g_registered_sessions st)"
    | (free) "version = 1" "opts = 0" "socket \<notin> set (g_registered_sessions st)" "kEipInvalidSocket \<in> set (g_registered_sessions st)"
    by blast
  then show ?thesis
  proof cases
    case protocol
    then show ?thesis
      using wf reply [of 0 kEncapsulationProtocolUnsupportedProtocol] unfolding step by fastforce
  next
    case known
    then obtain i where i: "first_index (\<lambda>x. x = socket) (g_registered_sessions st) = Some i"
      by (cases "first_index (\<lambda>x. x = socket) (g_registered_sessions st)") (auto simp: first_index_None)
    then have "i < OPENER_NUMBER_OF_SUPPORTED_SESSIONS" "session_at st i = Some socket"
      using wf by (auto simp: first_index_Some sessions_wf_def session_at_def)
    then have "session_at st (unat (of_nat i + 1 - 1 :: CipSessionHandle)) = Some socket"
      using session_handle_index(1) by simp
    then show ?thesis
      using known wf reply [of "of_nat i + 1" kEncapsulationProtocolInvalidCommand] i unfolding step
      by (fastforce simp: register_session_def)
  next
    case full
    then have "first_index (\<lambda>x. x = socket) (g_registered_sessions st) = None" "GetFreeSessionIndex st = None"
      by (auto simp: first_index_None GetFreeSessionIndex_def)
    then show ?thesis
      using full wf reply [of 0 kEncapsulationProtocolInsufficientMemory] unfolding step
      by (fastforce simp: register_session_def)
  next
    case free
    from register_session_fresh [OF wf socket free(3,4)] obtain i ts where
        i: "i < OPENER_NUMBER_OF_SUPPORTED_SESSIONS" "g_registered_sessions st ! i = kEipInvalidSocket"
      and r: "register_session socket st = Some (of_nat i + 1, kEncapsulationProtocolSuccess,
         st\<lparr>g_timestamps := ts, g_registered_sessions := (g_registered_sessions st)[i := socket]\<rparr>)"
      and wf': "sessions_wf (st\<lparr>g_timestamps := ts, g_registered_sessions := (g_registered_sessions st)[i := socket]\<rparr>)"
      by blast
    let ?st = "st\<lparr>g_timestamps := ts, g_registered_sessions := (g_registered_sessions st)[i := socket]\<rparr>"
    note x = session_handle_index [OF i(1)]
    have l: "i < length (g_registered_sessions st)" using i(1) wf by (simp add: sessions_wf_def)
    then have "\<not> CheckRegisteredSessions (of_nat i + 1) st" "CheckRegisteredSessions (of_nat i + 1) ?st"
      using i socket x by (simp_all add: CheckRegisteredSessions_def)
    moreover have "socket \<in># valid_sockets (map timer_socket ts)"
      using wf' l socket count_valid_sockets [of socket "(g_registered_sessions st)[i := socket]"]
      by (simp add: sessions_wf_def set_update_memI)
    then have "socket \<in> timer_socket ` set ts" using count_valid_sockets [OF socket] by simp
    ultimately show ?thesis
      using free wf' reply [of "of_nat i + 1" kEncapsulationProtocolSuccess] r x unfolding step
      by fastforce
  qed
qed

lemma register_session_reply_witness:
  "\<exists>st' m'. HandleReceivedRegisterSessionCommand 7 (example_request 0x65 [1, 0, 0, 0]) empty_tables (InitializeENIPMessage undefined)
      = Some (st', m') \<and> sessions_wf st' \<and> 7 \<in> timer_socket ` set (g_timestamps st')"
  using register_session_reply [OF empty_tables_wf, of 7 "example_request 0x65 [1, 0, 0, 0]" 1 0 "[]" "InitializeENIPMessage undefined"]
  by (fastforce simp: example_request_def le_octets_2 kSenderContextSize_def PC_OPENER_ETHERNET_BUFFER_SIZE_def empty_tables_def)

lemma sint_word_of_int_32:
  assumes "- 2147483648 \<le> k" and "k < 2147483648"
  shows "sint (word_of_int k :: 32 word) = k"
proof -
  have "(k + 2 ^ 31) mod 2 ^ 32 = k + 2 ^ 31"
    by (rule mod_pos_pos_trivial) (use assms in simp_all)
  then show ?thesis unfolding int_word_sint by simp
qed

lemma delay_left:
  assumes "unat (t :: 32 word) < 2147483648" and "unat (elapsed :: MilliSeconds) < 2147483648"
  shows "sint (t - ucast elapsed) \<le> 0 \<longleftrightarrow> \<not> unat elapsed < unat t"
    and "unat elapsed < unat t \<Longrightarrow> unat (t - ucast elapsed) = unat t - unat elapsed"
proof -
  have w: "ucast elapsed = (of_nat (unat elapsed) :: 32 word)" by simp
  have d: "t - ucast elapsed = word_of_int (int (unat t) - int (unat elapsed))"
    by simp
  have s: "sint (t - ucast elapsed) = int (unat t) - int (unat elapsed)"
    unfolding d by (rule sint_word_of_int_32) (use assms in linarith)+
  show "sint (t - ucast elapsed) \<le> 0 \<longleftrightarrow> \<not> unat elapsed < unat t" unfolding s by linarith
  have "unat (ucast elapsed :: 32 word) = unat elapsed"
    unfolding w using assms(2) by (subst unsigned_of_nat) (simp add: take_bit_nat_eq_self)
  then show "unat (t - ucast elapsed) = unat t - unat elapsed" if "unat elapsed < unat t"
    using that by (simp add: unat_sub word_le_nat_alt)
qed

lemma manage_one_delayed:
  assumes ms: "g_delayed_encapsulation_messages st = [dm, dm']" "dm_socket dm \<noteq> kEipInvalidSocket"
      "dm_socket dm' = kEipInvalidSocket"
    and b: "unat (dm_time_out dm) < 2147483648" "unat elapsed < 2147483648"
  shows "ManageEncapsulationMessages elapsed st =
     (let t = dm_time_out dm - ucast elapsed
      in if unat elapsed < unat (dm_time_out dm)
         then st\<lparr>g_delayed_encapsulation_messages := [dm\<lparr>dm_time_out := t\<rparr>, dm']\<rparr>
         else log_effect (SentDatagram (dm_socket dm) (dm_receiver dm) (sent_octets (dm_outgoing_message dm)))
                (st\<lparr>g_delayed_encapsulation_messages := [dm\<lparr>dm_time_out := t, dm_socket := kEipInvalidSocket\<rparr>, dm']\<rparr>))"
proof -
  have "[0..<ENCAP_NUMBER_OF_SUPPORTED_DELAYED_ENCAP_MESSAGES] = [0, 1]"
    by (simp add: ENCAP_NUMBER_OF_SUPPORTED_DELAYED_ENCAP_MESSAGES_def upt_conv_Cons)
  then show ?thesis
    using ms delay_left(1) [OF b]
    by (auto simp: ManageEncapsulationMessages_def manage_delayed_def Let_def log_effect_def sent_octets_def)
qed

lemma manage_none_delayed:
  assumes "g_delayed_encapsulation_messages st = [dm, dm']" "dm_socket dm = kEipInvalidSocket"
    "dm_socket dm' = kEipInvalidSocket"
  shows "ManageEncapsulationMessages elapsed st = st"
  using assms by (simp add: ManageEncapsulationMessages_def manage_delayed_def ENCAP_NUMBER_OF_SUPPORTED_DELAYED_ENCAP_MESSAGES_def
      upt_conv_Cons Let_def)

lemma delay_bounds:
  assumes "DetermineDelayTime r buffer = Some t" and "GetUintFromMessage (drop 12 buffer) = Some (w, rest)"
  shows "unat t < (if w = 0 then 2000 else max 500 (unat w))"
proof -
  let ?n = "if w = 0 then 2000 else max 500 (unat w)"
  have "t = of_nat (r mod ?n)"
    using assms by (auto simp: DetermineDelayTime_def Let_def word_less_nat_alt max_def split: if_splits)
  moreover have "r mod ?n < ?n" by simp
  moreover have "?n < 65536" using unat_uint16_less [of w] by simp
  ultimately show ?thesis by (simp add: unsigned_of_nat take_bit_nat_eq_self)
qed

lemma nothing_delayed_run:
  "g_delayed_encapsulation_messages st = [dm, dm'] \<Longrightarrow> dm_socket dm = kEipInvalidSocket \<Longrightarrow> dm_socket dm' = kEipInvalidSocket
     \<Longrightarrow> fold ManageEncapsulationMessages es st = st"
  by (induction es) (simp_all add: manage_none_delayed)

lemma delayed_run:
  assumes "g_delayed_encapsulation_messages st = [dm, dm']" "dm_socket dm \<noteq> kEipInvalidSocket"
      "dm_socket dm' = kEipInvalidSocket" "unat (dm_time_out dm) < 2147483648" "\<forall>e \<in> set es. unat e < 2147483648"
  shows "st_effects (fold ManageEncapsulationMessages es st) =
     (if es \<noteq> [] \<and> unat (dm_time_out dm) \<le> sum_list (map unat es)
      then [SentDatagram (dm_socket dm) (dm_receiver dm) (sent_octets (dm_outgoing_message dm))] else []) @ st_effects st"
  using assms
proof (induction es arbitrary: st dm)
  case (Cons e es)
  then have b: "unat e < 2147483648" by simp
  note m = manage_one_delayed [OF Cons.prems(1-4) b]
  show ?case
  proof (cases "unat e < unat (dm_time_out dm)")
    case True
    let ?dm = "dm\<lparr>dm_time_out := dm_time_out dm - ucast e\<rparr>"
    have t: "unat (dm_time_out ?dm) = unat (dm_time_out dm) - unat e"
      using delay_left(2) [OF Cons.prems(4) b True] by simp
    have "st_effects (fold ManageEncapsulationMessages es (st\<lparr>g_delayed_encapsulation_messages := [?dm, dm']\<rparr>)) =
       (if es \<noteq> [] \<and> unat (dm_time_out ?dm) \<le> sum_list (map unat es)
        then [SentDatagram (dm_socket dm) (dm_receiver dm) (sent_octets (dm_outgoing_message dm))] else []) @ st_effects st"
      using Cons.IH [of "st\<lparr>g_delayed_encapsulation_messages := [?dm, dm']\<rparr>" ?dm] Cons.prems t by simp
    then show ?thesis using True m t by (auto simp: Let_def)
  next
    case False
    then have "fold ManageEncapsulationMessages (e # es) st = ManageEncapsulationMessages e st"
      using m Cons.prems(3) nothing_delayed_run
        [of "ManageEncapsulationMessages e st" "dm\<lparr>dm_time_out := dm_time_out dm - ucast e, dm_socket := kEipInvalidSocket\<rparr>" dm' es]
      by (simp add: Let_def log_effect_def)
    then show ?thesis using False m by (simp add: Let_def log_effect_def)
  qed
qed simp

text \<open>
  The reply to a List Identity request received by broadcast is not sent at once but by
  \<^verbatim>\<open>ManageEncapsulationMessages\<close>, exactly once, as soon as the elapsed times add up to a delay
  below the maximum the sender asks for (2 seconds when it asks for 0, at least half a second).
  It carries the sender context of the request and the identity of the device.
\<close>

theorem list_identity_broadcast_reply:
  assumes header: "received_header d buffer n payload" and command: "command_code d = kEncapsulationCommandListIdentity"
    and name: "product_name_octets (g_identity st) = Some name"
    and slots: "g_delayed_encapsulation_messages st = [dm, dm']" "dm_socket dm = kEipInvalidSocket" "dm_socket dm' = kEipInvalidSocket"
    and socket: "socket \<noteq> kEipInvalidSocket"
  shows "\<exists>k st' t. HandleReceivedExplictUdpData kOpENerEndianessLittle r socket from buffer n False st m
        = Some (k, kEipStatusOk, st', m)
    \<and> t < (let w = le_word (take 2 (sender_context d)) :: CipUint in if w = 0 then 2000 else max 500 (unat w))
    \<and> (\<forall>es. (\<forall>e \<in> set es. unat e < 2 ^ 31) \<longrightarrow> st_effects (fold ManageEncapsulationMessages es st') =
         (if es \<noteq> [] \<and> t \<le> sum_list (map unat es)
          then [SentDatagram socket from (frame_octets d 0 kEncapsulationProtocolSuccess
                  (identity_body (g_identity st) name (tcpip_ip_address (g_tcpip st))))] else []) @ st_effects st)"
proof -
  let ?d = "d\<lparr>ed_status := 0\<rparr>"
  let ?body = "identity_body (g_identity st) name (tcpip_ip_address (g_tcpip st))"
  have r: "CreateEncapsulationStructure buffer n = Some (int (unat n) - 24 - int (unat (ed_data_length d)), d)"
    and c: "length (sender_context d) = kSenderContextSize"
    and k: "\<not> int (unat n) - 24 - int (unat (ed_data_length d)) < 0"
    using header unfolding received_header_def by (metis CreateEncapsulationStructure_header, blast, linarith)
  have o: "ed_options d = 0" and start: "communication_buffer_start d = buffer"
    using header unfolding received_header_def by (metis encapsulation_data.select_convs(6,7))+
  have "drop 12 buffer = sender_context d @ le_octets 4 (0 :: 32 word) @ payload"
    using header by (auto simp: received_header_def header_octets_def)
  then have w: "GetUintFromMessage (drop 12 buffer) =
      Some (le_word (take 2 (sender_context d)), drop 2 (sender_context d) @ le_octets 4 (0 :: 32 word) @ payload)"
    using c by (simp add: GetUint_le kSenderContextSize_def)
  then obtain t where t: "DetermineDelayTime r buffer = Some t" by (auto simp: DetermineDelayTime_def Let_def)
  have "length name < 256" using product_name_length [OF name] unat_octet_less by simp
  then have lf: "length (frame_octets ?d 0 kEncapsulationProtocolSuccess ?body) \<le> 512"
    using length_frame_octets [of ?d] c by (simp add: identity_body_def be_octets_def)
  obtain m' where m': "EncapsulateListIdentityResponseMessage kOpENerEndianessLittle (g_identity st) (g_tcpip st) ?d
        (InitializeENIPMessage (dm_outgoing_message dm)) = Some m'"
      "sent_octets m' = frame_octets ?d 0 kEncapsulationProtocolSuccess ?body"
    using emit_reply [of "InitializeENIPMessage (dm_outgoing_message dm)" "frame_octets ?d 0 kEncapsulationProtocolSuccess ?body"]
      lf c by (auto simp: list_identity_emit [OF _ name] PC_OPENER_ETHERNET_BUFFER_SIZE_def sent_octets_wf)
  let ?dm = "\<lparr>dm_time_out = t, dm_socket = socket, dm_receiver = from, dm_outgoing_message = m'\<rparr>"
  let ?st = "st\<lparr>g_delayed_encapsulation_messages := [?dm, dm']\<rparr>"
  have "HandleReceivedExplictUdpData kOpENerEndianessLittle r socket from buffer n False st m =
      Some (int (unat n) - 24 - int (unat (ed_data_length d)), kEipStatusOk, ?st, m)"
    using k o command t m'(1) slots start
    by (simp add: HandleReceivedExplictUdpData_def r HandleReceivedListIdentityCommandUdp_def Let_def)
  moreover have bt: "unat t < (let w = le_word (take 2 (sender_context d)) :: CipUint in if w = 0 then 2000 else max 500 (unat w))"
    using delay_bounds [OF t w] by (simp add: Let_def)
  moreover have "unat t < 2147483648"
    using bt unat_uint16_less [of "le_word (take 2 (sender_context d))"] by (auto simp: Let_def split: if_splits)
  then have "st_effects (fold ManageEncapsulationMessages es ?st) =
      (if es \<noteq> [] \<and> unat t \<le> sum_list (map unat es)
       then [SentDatagram socket from (sent_octets m')] else []) @ st_effects st"
    if "\<forall>e \<in> set es. unat e < 2 ^ 31" for es
    using delayed_run [of ?st ?dm dm' es] that socket slots(3) by simp
  moreover have "frame_octets ?d = frame_octets d" by (intro ext) (simp add: frame_octets_def)
  ultimately show ?thesis using m'(2) by metis
qed

lemma list_identity_broadcast_reply_witness:
  "\<exists>k st'. HandleReceivedExplictUdpData kOpENerEndianessLittle 1234 6 zero_address
        (communication_buffer_start (example_request 0x63 [])) 24 False
        (empty_tables\<lparr>g_delayed_encapsulation_messages := replicate 2 \<lparr>dm_time_out = 0, dm_socket = kEipInvalidSocket,
           dm_receiver = zero_address, dm_outgoing_message = InitializeENIPMessage undefined\<rparr>\<rparr>) (InitializeENIPMessage undefined)
        = Some (k, kEipStatusOk, st', InitializeENIPMessage undefined)
     \<and> st_effects (fold ManageEncapsulationMessages [300, 300] st') =
         [SentDatagram 6 zero_address (frame_octets (example_request 0x63 []) 0 kEncapsulationProtocolSuccess
            (identity_body example_identity [79, 112] 0))]"
proof -
  let ?dm = "\<lparr>dm_time_out = 0, dm_socket = kEipInvalidSocket, dm_receiver = zero_address,
    dm_outgoing_message = InitializeENIPMessage undefined\<rparr>"
  let ?st = "empty_tables\<lparr>g_delayed_encapsulation_messages := replicate 2 ?dm\<rparr>"
  let ?d = "example_request 0x63 []"
  have h: "received_header ?d (communication_buffer_start ?d) 24 []"
    using example_received [of "[]" "0x63"] by simp
  have two: "replicate 2 x = [x, x]" for x :: delayed_message by (simp add: numeral_2_eq_2)
  have s: "product_name_octets (g_identity ?st) = Some [79, 112]" "g_delayed_encapsulation_messages ?st = [?dm, ?dm]"
      "command_code ?d = 0x63" "st_effects ?st = []" "g_identity ?st = example_identity" "tcpip_ip_address (g_tcpip ?st) = 0"
    by (simp_all add: empty_tables_def example_stack_def example_identity_def product_name_octets_def copy_octets_def
        example_request_def two)
  from list_identity_broadcast_reply [OF h s(3,1,2), of 6 1234 zero_address "InitializeENIPMessage undefined"]
  obtain k st' and t :: nat where r: "HandleReceivedExplictUdpData kOpENerEndianessLittle 1234 6 zero_address
        (communication_buffer_start ?d) 24 False ?st (InitializeENIPMessage undefined)
        = Some (k, kEipStatusOk, st', InitializeENIPMessage undefined)"
      and b: "t < (let w = le_word (take 2 (sender_context ?d)) :: CipUint in if w = 0 then 2000 else max 500 (unat w))"
      and e: "\<forall>es. (\<forall>e \<in> set es. unat e < 2 ^ 31) \<longrightarrow> st_effects (fold ManageEncapsulationMessages es st') =
         (if es \<noteq> [] \<and> t \<le> sum_list (map unat es)
          then [SentDatagram 6 zero_address (frame_octets ?d 0 kEncapsulationProtocolSuccess
                  (identity_body (g_identity ?st) [79, 112] (tcpip_ip_address (g_tcpip ?st))))] else []) @ st_effects ?st"
    by auto
  have "t \<le> 600" using b by (simp add: example_request_def)
  with e [rule_format, of "[300, 300]"] r show ?thesis unfolding s(4-6) by (intro exI [of _ k] exI [of _ st']) simp
qed

text \<open>
  A command that is not allowed over UDP, such as registering a session, does nothing, but the
  status asks the network handler to send the reply, which is empty.
\<close>

theorem udp_invalid_command_empty_reply:
  assumes header: "received_header d buffer n payload"
    and command: "command_code d \<notin> {kEncapsulationCommandListServices, kEncapsulationCommandListIdentity,
        kEncapsulationCommandListInterfaces}"
  shows "\<exists>k. HandleReceivedExplictUdpData e r socket from buffer n unicast st (InitializeENIPMessage m)
      = Some (k, kEipStatusOkSend, st, InitializeENIPMessage m) \<and> sent_octets (InitializeENIPMessage m) = []"
proof -
  have r: "CreateEncapsulationStructure buffer n = Some (int (unat n) - 24 - int (unat (ed_data_length d)), d)"
    and k: "\<not> int (unat n) - 24 - int (unat (ed_data_length d)) < 0"
    using header unfolding received_header_def by (metis CreateEncapsulationStructure_header, linarith)
  have o: "ed_options d = 0"
    using header unfolding received_header_def by (metis encapsulation_data.select_convs(6))
  show ?thesis
    using k o command by (simp add: HandleReceivedExplictUdpData_def r Let_def sent_octets_wf)
qed

lemma udp_invalid_command_empty_reply_witness:
  "\<exists>k. HandleReceivedExplictUdpData kOpENerEndianessLittle 0 6 zero_address
        (communication_buffer_start (example_request 0x65 [1, 0, 0, 0])) 28 True empty_tables (InitializeENIPMessage undefined)
      = Some (k, kEipStatusOkSend, empty_tables, InitializeENIPMessage undefined)"
proof -
  have h: "received_header (example_request 0x65 [1, 0, 0, 0]) (communication_buffer_start (example_request 0x65 [1, 0, 0, 0])) 28 [1, 0, 0, 0]"
    using example_received [of "[1, 0, 0, 0]" "0x65"] by simp
  show ?thesis
    using udp_invalid_command_empty_reply [OF h, of kOpENerEndianessLittle 0 6 zero_address True empty_tables undefined]
    by (simp add: example_request_def)
qed

subsection \<open>The tables under every command\<close>

lemma NotifyMessageRouter_state:
  assumes "NotifyMessageRouter call data n objects req s resp = Some (status, objects', req', s', resp')"
  shows "s' = s \<or> (\<exists>f c inst rq rs x. call f c inst s rq rs = Some x \<and> s' = fst (snd (snd x)))"
proof (cases "s' = s")
  case False
  with assms show ?thesis
    by (fastforce simp: NotifyMessageRouter_def NotifyClass_def Let_def split: if_splits option.splits prod.splits)
qed simp

lemma sessions_wf_frame [simp]:
  "sessions_wf (st\<lparr>st_cpf := g\<rparr>) \<longleftrightarrow> sessions_wf st" "sessions_wf (store_object a c st) \<longleftrightarrow> sessions_wf st"
  by (simp_all add: sessions_wf_def store_object_def)

lemma reset_watchdog_wf: "reset_watchdog a st = Some st' \<Longrightarrow> sessions_wf st' \<longleftrightarrow> sessions_wf st"
  by (auto simp: reset_watchdog_def)

text \<open>What the commands rely on: services, too, leave the tables consistent.\<close>

locale tcp_services = close_functions close for close :: "('fn, 'app) close_call" +
  fixes call :: "('fn, 'app, 'svc) service_call"
  assumes call_wf: "call originator h f c inst st req resp = Some (status, c', st', req', resp') \<Longrightarrow> sessions_wf st
    \<Longrightarrow> sessions_wf st'"
begin

lemma router_wf:
  assumes "NotifyMessageRouter (call originator h) data n objects req st resp = Some (status, objects', req', st', resp')"
    and "sessions_wf st"
  shows "sessions_wf st'"
  using NotifyMessageRouter_state [OF assms(1)] call_wf assms(2) by (metis prod.collapse)

lemma unconnected_wf:
  assumes "NotifyCommonPacketFormat e call d originator objects req st m = Some (status, objects', req', st', m')"
    and "sessions_wf st"
  shows "sessions_wf st'"
  using assms router_wf
  by (fastforce simp: NotifyCommonPacketFormat_def Let_def split: if_splits)

lemma process_connected_wf:
  assumes "process_connected_data e call d originator a objects req st m = Some (b, objects', req', st', m')"
    and "sessions_wf st"
  shows "sessions_wf st'"
proof -
  obtain n buffer where "GetUintFromMessage (di_data (cpf_data_item (st_cpf st))) = Some (n, buffer)"
    using assms by (auto simp: process_connected_data_def)
  with assms show ?thesis
    by (fastforce simp: process_connected_data_def Let_def reset_watchdog_def split: if_splits dest!: router_wf)
qed

lemma connected_wf:
  assumes "NotifyConnectedCommonPacketFormat e call d originator objects req st m = Some (status, objects', req', st', m')"
    and "sessions_wf st"
  shows "sessions_wf st'"
  using assms
  by (fastforce simp: NotifyConnectedCommonPacketFormat_def Let_def reset_watchdog_def split: if_splits option.splits
        dest!: process_connected_wf)

lemma with_session_wf:
  assumes "with_registered_session notify d objects req st m = Some (status, objects', req', st', m')" and "sessions_wf st"
    and "\<And>d status objects' req' st' m'. notify d objects req st m = Some (status, objects', req', st', m') \<Longrightarrow> sessions_wf st
      \<Longrightarrow> sessions_wf st'"
  shows "sessions_wf st'"
  using assms by (auto simp: with_registered_session_def split: if_splits)

lemma register_wf:
  assumes wf: "sessions_wf st" and s: "socket \<noteq> kEipInvalidSocket"
    and r: "register_session socket st = Some (h, status, st')"
  shows "sessions_wf st'"
proof (cases "socket \<in> set (g_registered_sessions st) \<or> kEipInvalidSocket \<notin> set (g_registered_sessions st)")
  case True
  then have "first_index (\<lambda>x. x = socket) (g_registered_sessions st) \<noteq> None \<or> GetFreeSessionIndex st = None"
    by (auto simp: GetFreeSessionIndex_def first_index_None)
  then have "st' = st"
    using r by (auto simp: register_session_def split: option.splits)
  then show ?thesis using wf by simp
next
  case False
  then show ?thesis using register_session_fresh [OF wf s] r by fastforce
qed

lemma unregister_wf:
  assumes wf: "sessions_wf st" and r: "HandleReceivedUnregisterSessionCommand close d st m = Some (status, st', m')"
  shows "sessions_wf st'"
proof (cases "st' = st")
  case False
  let ?h = "ed_session_handle d" and ?i = "unat (ed_session_handle d - 1)"
  from False r obtain st1 where h: "0 < ?h" "?h \<le> of_nat OPENER_NUMBER_OF_SUPPORTED_SESSIONS"
      "g_registered_sessions st ! ?i \<noteq> kEipInvalidSocket"
    and st1: "CloseTcpSocket (g_registered_sessions st ! ?i) st = Some st1"
    and c: "CloseClass3ConnectionBasedOnSession close ?h (free_session ?i st1) = Some st'"
    by (auto simp: HandleReceivedUnregisterSessionCommand_def Let_def split: if_splits)
  have "?i < OPENER_NUMBER_OF_SUPPORTED_SESSIONS"
    using h(1,2) by (simp add: word_less_nat_alt word_le_nat_alt unat_sub OPENER_NUMBER_OF_SUPPORTED_SESSIONS_def)
  then have "session_at st ?i = Some (g_registered_sessions st ! ?i)"
    using wf by (simp add: session_at_def sessions_wf_def)
  from CloseClass3_wf [OF c close_and_free_wf [OF wf this h(3) st1]] show ?thesis .
qed (use wf in simp)

lemma tcp_command_wf:
  assumes wf: "sessions_wf st" and s: "socket \<noteq> kEipInvalidSocket"
    and r: "tcp_command close e call socket d originator objects req st m = Some (status, objects', req', st', m')"
  shows "sessions_wf st'"
proof -
  consider (same) "st' = st"
    | (register) m where "HandleReceivedRegisterSessionCommand socket d st m = Some (st', m')"
    | (unregister) m status where "HandleReceivedUnregisterSessionCommand close d st m = Some (status, st', m')"
    | (request) "HandleReceivedSendRequestResponseDataCommand e call d originator objects req st m = Some (status, objects', req', st', m')"
    | (unit_data) "HandleReceivedSendUnitDataCommand e call d originator objects req st m = Some (status, objects', req', st', m')"
    using r by (auto simp: tcp_command_def Let_def split: if_splits)
  then show ?thesis
  proof cases
    case same
    then show ?thesis using wf by simp
  next
    case (register m)
    then show ?thesis
      using wf register_wf [OF wf s] by (auto simp: HandleReceivedRegisterSessionCommand_def split: if_splits)
  next
    case (unregister m status)
    then show ?thesis using unregister_wf [OF wf] by blast
  next
    case request
    from this wf show ?thesis
      unfolding HandleReceivedSendRequestResponseDataCommand_def by (rule with_session_wf) (rule unconnected_wf)
  next
    case unit_data
    from this wf show ?thesis
      unfolding HandleReceivedSendUnitDataCommand_def by (rule with_session_wf) (rule connected_wf)
  qed
qed

lemma tcp_data_wf:
  assumes "sessions_wf st" "socket \<noteq> kEipInvalidSocket"
    and "HandleReceivedExplictTcpData close e call socket buffer n originator objects req st m = Some (k, status, objects', req', st', m')"
  shows "sessions_wf st'"
  using assms tcp_command_wf [OF assms(1,2)] by (auto simp: HandleReceivedExplictTcpData_def split: if_splits)

end

end
