(* ===== verification/ConnectionManager.thy ===== *)
theory ConnectionManager
  imports Encap
begin

text \<open>
  The list of active connections and the life of a connection: \<^verbatim>\<open>cip/cipconnectionmanager.c\<close>
  without the forward open and close services, and \<^verbatim>\<open>cip/cipclass3connection.c\<close>. Connection
  objects are named by addresses: the buffer object of the forward open service, the pool of
  explicit connections, and others behind them. The functions connection objects point to are
  values of \<open>connection_fn\<close>: those of this theory, and others.
\<close>

subsection \<open>Connection objects in memory\<close>

definition g_dummy_connection_object :: nat where
  "g_dummy_connection_object = 0"

definition explicit_connection_object_pool :: "nat \<Rightarrow> nat" where
  "explicit_connection_object_pool i = Suc i"

datatype 'u connection_fn = FnCloseConnection | FnClass3ConnectionTimeoutHandler | FnOther 'u

record 'open connection_management_handling =
  cm_class_id :: "32 word"
  open_connection_function :: "'open option"

text \<open>
  The further variables of the connection manager: the table of connectable objects, the
  incarnation identifier, the connection counter and the configuration data of the last
  forward open request; \<open>cm_rest\<close> is the rest of the application.
\<close>

record ('open, 'x) cm_state =
  g_connection_management_list :: "'open connection_management_handling list"
  g_incarnation_id :: "32 word"
  cm_connection_id :: CipUint
  g_config_data_length :: "32 word"
  g_config_data_buffer :: "octet list option"
  cm_rest :: 'x

type_synonym ('u, 'open, 'x) cm_stack = "('u connection_fn, ('open, 'x) cm_state) stack_state"

definition GetConnectionId :: "('fn, ('open, 'x) cm_state) stack_state \<Rightarrow> CipUdint \<times> ('fn, ('open, 'x) cm_state) stack_state" where
  "GetConnectionId st =
     (let n = cm_connection_id (st_app st) + 1
      in (g_incarnation_id (st_app st) OR ucast n, st\<lparr>st_app := (st_app st)\<lparr>cm_connection_id := n\<rparr>\<rparr>))"

definition g_kNumberOfConnectableObjects :: nat where
  "g_kNumberOfConnectableObjects = 2 + 1"

definition AddConnectableObject ::
    "CipUdint \<Rightarrow> 'open option \<Rightarrow> ('fn, ('open, 'x) cm_state) stack_state
      \<Rightarrow> EipStatus \<times> ('fn, ('open, 'x) cm_state) stack_state" where
  "AddConnectableObject code f st =
     (let es = g_connection_management_list (st_app st)
      in case first_index (\<lambda>en. 0 = cm_class_id en \<or> code = cm_class_id en) es of
           None \<Rightarrow> (kEipStatusError, st)
         | Some i \<Rightarrow> (kEipStatusOk, st\<lparr>st_app := (st_app st)\<lparr>g_connection_management_list :=
             es[i := \<lparr>cm_class_id = code, open_connection_function = f\<rparr>]\<rparr>\<rparr>))"

definition GetConnectionManagementEntry ::
    "32 word \<Rightarrow> ('fn, ('open, 'x) cm_state) stack_state \<Rightarrow> 'open connection_management_handling option" where
  "GetConnectionManagementEntry code st =
     find (\<lambda>en. code = cm_class_id en) (g_connection_management_list (st_app st))"

subsection \<open>Active connections\<close>

definition AddNewActiveConnection :: "nat \<Rightarrow> ('fn, 'app) stack_state \<Rightarrow> ('fn, 'app) stack_state option" where
  "AddNewActiveConnection a st = do {
     l \<leftarrow> DoublyLinkedListInsertAtHead a (st_connection_list st);
     c \<leftarrow> ConnectionObjectSetState (st_objects st a) kConnectionObjectStateEstablished;
     Some (store_object a c (st\<lparr>st_connection_list := l\<rparr>)) }"

definition list_nodes :: "dll \<times> 'a pool \<Rightarrow> nat list" where
  "list_nodes = (\<lambda>(l, h). walk (Suc (length h)) (dll_first l) h)"

definition RemoveFromActiveConnections :: "nat \<Rightarrow> ('fn, 'app) stack_state \<Rightarrow> ('fn, 'app) stack_state" where
  "RemoveFromActiveConnections a st =
     (case find (\<lambda>i. node_data (snd (st_connection_list st) ! i) = Some a) (list_nodes (st_connection_list st)) of
        None \<Rightarrow> st
      | Some i \<Rightarrow> st\<lparr>st_connection_list := DoublyLinkedListRemoveNode i (st_connection_list st)\<rparr>)"

definition CloseConnection :: "nat \<Rightarrow> ('fn, 'app) stack_state \<Rightarrow> ('fn, 'app) stack_state" where
  "CloseConnection a st =
     (let c = st_objects st a;
          st = (if TransportClass3 \<noteq> ConnectionObjectGetTransportClassTriggerTransportClass c
                then store_object a (c\<lparr>socket_consuming := kEipInvalidSocket, socket_producing := kEipInvalidSocket\<rparr>)
                       (CloseUdpSocket (socket_producing c) (CloseUdpSocket (socket_consuming c) st))
                else st)
      in store_object a ConnectionObjectInitializeEmpty (RemoveFromActiveConnections a st))"

definition find_active ::
    "('fn connection_object \<Rightarrow> bool) \<Rightarrow> ('fn, 'app) stack_state \<Rightarrow> nat option" where
  "find_active P st = find (\<lambda>a. P (st_objects st a)) (list_data (st_connection_list st))"

definition GetConnectedOutputAssembly :: "32 word \<Rightarrow> ('fn, 'app) stack_state \<Rightarrow> nat option" where
  "GetConnectedOutputAssembly output_assembly_id =
     find_active (\<lambda>c. instance_type c = kInstanceTypeIOExclusiveOwner
        \<and> (ConnectionObjectGetState c = kConnectionObjectStateEstablished
           \<or> ConnectionObjectGetState c = kConnectionObjectStateTimedOut)
        \<and> output_assembly_id = ucast (cp_instance_id (produced_path c)))"

definition CheckForExistingConnection :: "'fn connection_object \<Rightarrow> ('fn, 'app) stack_state \<Rightarrow> nat option" where
  "CheckForExistingConnection connection =
     find_active (\<lambda>c. ConnectionObjectGetState c = kConnectionObjectStateEstablished \<and> EqualConnectionTriad connection c)"

definition IsConnectedOutputAssembly :: "CipInstanceNum \<Rightarrow> ('fn, 'app) stack_state \<Rightarrow> bool" where
  "IsConnectedOutputAssembly n st \<longleftrightarrow>
     find_active (\<lambda>c. n = cp_instance_id (consumed_path c) \<and> ConnectionObjectIsTypeIOConnection c) st \<noteq> None"

definition TriggerConnections ::
    "32 word \<Rightarrow> 32 word \<Rightarrow> ('fn, 'app) stack_state \<Rightarrow> EipStatus \<times> ('fn, 'app) stack_state" where
  "TriggerConnections output_assembly input_assembly st =
     (case find_active (\<lambda>c. output_assembly = ucast (cp_instance_id (consumed_path c))
           \<and> input_assembly = ucast (cp_instance_id (produced_path c))) st of
        None \<Rightarrow> (kEipStatusError, st)
      | Some a \<Rightarrow>
          let c = st_objects st a
          in if ConnectionObjectGetTransportClassTriggerProductionTrigger c = ProductionTriggerApplicationObject
             then (kEipStatusOk, store_object a (c\<lparr>transmission_trigger_timer := ucast (production_inhibit_time c)\<rparr>) st)
             else (kEipStatusError, st))"

definition CheckForTimedOutConnectionsAndCloseTCPConnections ::
    "nat \<Rightarrow> ('fn connection_object \<Rightarrow> ('fn, 'app) stack_state \<Rightarrow> ('fn, 'app) stack_state option)
      \<Rightarrow> ('fn, 'app) stack_state \<Rightarrow> ('fn, 'app) stack_state option" where
  "CheckForTimedOutConnectionsAndCloseTCPConnections a CloseSessions st =
     (if find (\<lambda>b. ConnectionObjectEqualOriginator (st_objects st a) (st_objects st b) \<and> a \<noteq> b
           \<and> ConnectionObjectGetState (st_objects st b) \<noteq> kConnectionObjectStateTimedOut)
           (list_data (st_connection_list st)) = None
      then CloseSessions (st_objects st a) st else Some st)"

subsection \<open>Explicit connections\<close>

definition GetFreeExplicitConnection :: "('fn, 'app) stack_state \<Rightarrow> nat option" where
  "GetFreeExplicitConnection st =
     find (\<lambda>a. ConnectionObjectGetState (st_objects st a) = kConnectionObjectStateNonExistent)
       (map explicit_connection_object_pool [0..<OPENER_CIP_NUM_EXPLICIT_CONNS])"

definition Class3ConnectionTimeoutHandler :: "nat \<Rightarrow> ('fn, 'app) stack_state \<Rightarrow> ('fn, 'app) stack_state option" where
  "Class3ConnectionTimeoutHandler a st = do {
     st \<leftarrow> CheckForTimedOutConnectionsAndCloseTCPConnections a CloseSessionBySessionHandle st;
     Some (CloseConnection a st) }"

text \<open>\<open>a\<close> is the object with the parameters of the request, the buffer object.\<close>

definition EstablishClass3Connection ::
    "nat \<Rightarrow> 16 word \<Rightarrow> ('u, 'open, 'x) cm_stack \<Rightarrow> (octet \<times> 16 word \<times> ('u, 'open, 'x) cm_stack) option" where
  "EstablishClass3Connection a extended_error st =
     (case GetFreeExplicitConnection st of
        None \<Rightarrow> Some (kCipErrorConnectionFailure, 0x0113, st)
      | Some b \<Rightarrow> do {
          let (c, st) = ConnectionObjectGeneralConfiguration GetConnectionId st (st_objects st a);
          let c = c\<lparr>instance_type := kInstanceTypeExplicitMessaging,
            connection_close_function := Some FnCloseConnection,
            connection_timeout_function := Some FnClass3ConnectionTimeoutHandler\<rparr>;
          st \<leftarrow> AddNewActiveConnection b (store_object b c st);
          Some (kCipErrorSuccess, extended_error, st) })"

text \<open>Memory filled with 0; unlike an empty connection object its sockets are 0.\<close>

definition zero_connection_object :: "'fn connection_object" where
  "zero_connection_object = ConnectionObjectInitializeEmpty\<lparr>socket_consuming := 0, socket_producing := 0\<rparr>"

definition InitializeClass3ConnectionData :: "('fn, 'app) stack_state \<Rightarrow> ('fn, 'app) stack_state" where
  "InitializeClass3ConnectionData st =
     fold (\<lambda>i st. store_object (explicit_connection_object_pool i) zero_connection_object st) [0..<OPENER_CIP_NUM_EXPLICIT_CONNS] st"

text \<open>The state handlers of explicit connections; the other states are refused.\<close>

definition CipClass3ConnectionObjectStateEstablishedHandler ::
    "'fn connection_object \<Rightarrow> ConnectionObjectState \<Rightarrow> (EipStatus \<times> 'fn connection_object) option" where
  "CipClass3ConnectionObjectStateEstablishedHandler c new_state =
     (if new_state = kConnectionObjectStateNonExistent
      then map_option (Pair kEipStatusOk) (ConnectionObjectSetState ConnectionObjectInitializeEmpty new_state)
      else Some (kEipStatusError, c))"

definition CipClass3ConnectionObjectStateNonExistentHandler ::
    "'fn connection_object \<Rightarrow> ConnectionObjectState \<Rightarrow> (EipStatus \<times> 'fn connection_object) option" where
  "CipClass3ConnectionObjectStateNonExistentHandler c new_state =
     (if new_state = kConnectionObjectStateEstablished
      then map_option (Pair kEipStatusOk) (ConnectionObjectSetState c new_state)
      else Some (kEipStatusError, c))"

text \<open>Calling a function of a connection object: \<open>other\<close> is what the other functions do.\<close>

definition run_fn ::
    "('u \<Rightarrow> nat \<Rightarrow> ('u connection_fn, 'app) stack_state \<Rightarrow> ('u connection_fn, 'app) stack_state option)
      \<Rightarrow> ('u connection_fn, 'app) close_call" where
  "run_fn other f a st =
     (case f of
        FnCloseConnection \<Rightarrow> Some (CloseConnection a st)
      | FnClass3ConnectionTimeoutHandler \<Rightarrow> Class3ConnectionTimeoutHandler a st
      | FnOther u \<Rightarrow> other u a st)"

subsection \<open>Received data and the passing of time\<close>

definition SEQ_GT32 :: "32 word \<Rightarrow> 32 word \<Rightarrow> bool" where
  "SEQ_GT32 a b \<longleftrightarrow> sint (a - b) > 0"

text \<open>\<open>receive\<close> is what the receive function of a connection does with the data.\<close>

definition receive_connected_data ::
    "('fn \<Rightarrow> nat \<Rightarrow> octet list \<Rightarrow> CipUint \<Rightarrow> ('fn, 'app) stack_state \<Rightarrow> (EipStatus \<times> ('fn, 'app) stack_state) option)
      \<Rightarrow> nat \<Rightarrow> ('fn, 'app) stack_state \<Rightarrow> (EipStatus \<times> ('fn, 'app) stack_state) option" where
  "receive_connected_data receive a st = do {
     let g = st_cpf st;
     c \<leftarrow> ConnectionObjectResetLastPackageInactivityTimerValue (st_objects st a);
     let st = store_object a c st;
     if SEQ_GT32 (sequence_number (cpf_address_item g)) (eip_level_sequence_count_consuming c)
        \<or> \<not> eip_first_level_sequence_count_received c
     then do {
       c \<leftarrow> ConnectionObjectResetInactivityWatchdogTimerValue c;
       let st = store_object a (c\<lparr>eip_level_sequence_count_consuming := sequence_number (cpf_address_item g),
          eip_first_level_sequence_count_received := True\<rparr>) st;
       case connection_receive_data_function c of
         None \<Rightarrow> Some (kEipStatusOk, st)
       | Some f \<Rightarrow> receive f a (di_data (cpf_data_item g)) (di_length (cpf_data_item g)) st
     } else Some (kEipStatusOk, st) }"

definition HandleReceivedConnectedData ::
    "('fn \<Rightarrow> nat \<Rightarrow> octet list \<Rightarrow> CipUint \<Rightarrow> ('fn, 'app) stack_state \<Rightarrow> (EipStatus \<times> ('fn, 'app) stack_state) option)
      \<Rightarrow> octet list \<Rightarrow> nat \<Rightarrow> sockaddr_in \<Rightarrow> ('fn, 'app) stack_state \<Rightarrow> (EipStatus \<times> ('fn, 'app) stack_state) option" where
  "HandleReceivedConnectedData receive data data_length from_address st = do {
     (status, g) \<leftarrow> CreateCommonPacketFormatStructure data data_length (st_cpf st);
     let st = st\<lparr>st_cpf := g\<rparr>;
     if status = kEipStatusError then Some (kEipStatusError, st)
     else if ai_type_id (cpf_address_item g) \<in> {kCipItemIdConnectionAddress, kCipItemIdSequencedAddressItem}
        \<and> di_type_id (cpf_data_item g) = kCipItemIdConnectedDataItem
     then case GetConnectedObject st (connection_identifier (cpf_address_item g)) of
         None \<Rightarrow> Some (kEipStatusError, st)
       | Some a \<Rightarrow>
           if sin_addr (originator_address (st_objects st a)) = sin_addr from_address
           then receive_connected_data receive a st
           else Some (kEipStatusOk, st)
     else Some (kEipStatusOk, st) }"

text \<open>
  One turn of the loop of \<^verbatim>\<open>ManageConnections\<close>: the watchdog, then the production. \<open>call\<close> runs a
  timeout function, \<open>send\<close> a send function.
\<close>

definition check_watchdog ::
    "('fn, 'app) close_call \<Rightarrow> MilliSeconds \<Rightarrow> nat \<Rightarrow> ('fn, 'app) stack_state \<Rightarrow> ('fn, 'app) stack_state option" where
  "check_watchdog call elapsed_time a st =
     (let c = st_objects st a
      in if consuming_instance c \<noteq> None \<or> ConnectionObjectGetTransportClassTriggerDirection c = TriggerDirectionServer
         then if elapsed_time \<ge> inactivity_watchdog_timer c
              then do { f \<leftarrow> connection_timeout_function c; call f a st }
              else Some (store_object a (c\<lparr>inactivity_watchdog_timer := inactivity_watchdog_timer c - elapsed_time,
                     last_package_watchdog_timer := last_package_watchdog_timer c - elapsed_time\<rparr>) st)
         else Some st)"

definition produce_data ::
    "('fn \<Rightarrow> nat \<Rightarrow> ('fn, 'app) stack_state \<Rightarrow> (EipStatus \<times> ('fn, 'app) stack_state) option)
      \<Rightarrow> MilliSeconds \<Rightarrow> nat \<Rightarrow> ('fn, 'app) stack_state \<Rightarrow> ('fn, 'app) stack_state option" where
  "produce_data send elapsed_time a st = do {
     let c = st_objects st a;
     let cyclic = (ConnectionObjectGetTransportClassTriggerProductionTrigger c = ProductionTriggerCyclic);
     if expected_packet_rate c \<noteq> 0 \<and> socket_producing c \<noteq> kEipInvalidSocket then do {
       let c = (if \<not> cyclic \<and> \<not> elapsed_time \<le> production_inhibit_timer c
                then c\<lparr>production_inhibit_timer := production_inhibit_timer c - elapsed_time\<rparr> else c);
       let st = store_object a c st;
       if transmission_trigger_timer c \<le> elapsed_time then do {
         f \<leftarrow> connection_send_data_function c;
         (_, st) \<leftarrow> send f a st;
         let c = st_objects st a;
         let t = transmission_trigger_timer c + ucast (ConnectionObjectGetRequestedPacketInterval c);
         let c = c\<lparr>transmission_trigger_timer := (if t > elapsed_time then t - elapsed_time else 0)\<rparr>;
         let c = (if ConnectionObjectGetTransportClassTriggerProductionTrigger c \<noteq> ProductionTriggerCyclic
                  then ConnectionObjectResetProductionInhibitTimer c else c);
         Some (store_object a c st)
       } else Some (store_object a (c\<lparr>transmission_trigger_timer := transmission_trigger_timer c - elapsed_time\<rparr>) st)
     } else Some st }"

definition manage_connection ::
    "('fn, 'app) close_call \<Rightarrow> ('fn \<Rightarrow> nat \<Rightarrow> ('fn, 'app) stack_state \<Rightarrow> (EipStatus \<times> ('fn, 'app) stack_state) option)
      \<Rightarrow> MilliSeconds \<Rightarrow> nat \<Rightarrow> ('fn, 'app) stack_state \<Rightarrow> ('fn, 'app) stack_state option" where
  "manage_connection call send elapsed_time a st =
     (if ConnectionObjectGetState (st_objects st a) = kConnectionObjectStateEstablished then do {
        st \<leftarrow> check_watchdog call elapsed_time a st;
        if ConnectionObjectGetState (st_objects st a) = kConnectionObjectStateEstablished
        then produce_data send elapsed_time a st else Some st
      } else Some st)"

partial_function (option) manage_loop ::
    "('fn, 'app) close_call \<Rightarrow> ('fn \<Rightarrow> nat \<Rightarrow> ('fn, 'app) stack_state \<Rightarrow> (EipStatus \<times> ('fn, 'app) stack_state) option)
      \<Rightarrow> MilliSeconds \<Rightarrow> nat option \<Rightarrow> ('fn, 'app) stack_state \<Rightarrow> ('fn, 'app) stack_state option" where
  "manage_loop call send elapsed_time node st =
     (case node of
        None \<Rightarrow> Some st
      | Some n \<Rightarrow> do {
          a \<leftarrow> node_data (snd (st_connection_list st) ! n);
          st \<leftarrow> manage_connection call send elapsed_time a st;
          manage_loop call send elapsed_time (node_next (snd (st_connection_list st) ! n)) st })"

text \<open>\<open>handle_application\<close> is the application's function that runs once per tick.\<close>

definition ManageConnections ::
    "(('fn, 'app) stack_state \<Rightarrow> ('fn, 'app) stack_state) \<Rightarrow> ('fn, 'app) close_call
      \<Rightarrow> ('fn \<Rightarrow> nat \<Rightarrow> ('fn, 'app) stack_state \<Rightarrow> (EipStatus \<times> ('fn, 'app) stack_state) option)
      \<Rightarrow> MilliSeconds \<Rightarrow> ('fn, 'app) stack_state \<Rightarrow> ('fn, 'app) stack_state option" where
  "ManageConnections handle_application call send elapsed_time st =
     (let st = ManageEncapsulationMessages elapsed_time (handle_application st)
      in manage_loop call send elapsed_time (dll_first (fst (st_connection_list st))) st)"

subsection \<open>The list of active connections\<close>

text \<open>\<open>active st xs\<close>: the list of active connections is \<open>xs\<close>, nodes with the addresses of different objects.\<close>

definition active :: "('fn, 'app) stack_state \<Rightarrow> (nat \<times> nat) list \<Rightarrow> bool" where
  "active st xs \<longleftrightarrow> dll_rep (st_connection_list st) xs \<and> distinct (map snd xs)"

lemma list_nodes_rep: "dll_rep s xs \<Longrightarrow> list_nodes s = map fst xs"
proof -
  assume r: "dll_rep s xs"
  obtain l h where s: "s = (l, h)" by (cases s)
  have "length xs \<le> length h" using dl.bounded [OF r] by (simp add: s pool_capacity_def)
  then show ?thesis
    using walk_chain [of h None xs "Suc (length h)"] r by (simp add: s dll_rep_def list_nodes_def)
qed

lemma dll_rep_first: "dll_rep s xs \<Longrightarrow> dll_first (fst s) = hd_opt (map fst xs)"
  by (cases s) (simp add: dll_rep_def)

lemma dll_rep_node:
  assumes "dll_rep s (xs @ (i, a) # ys)"
  shows "node_data (snd s ! i) = Some a" and "node_next (snd s ! i) = hd_opt (map fst ys)"
proof -
  obtain l h where s: "s = (l, h)" by (cases s)
  have "chain h None (xs @ (i, a) # ys) None" using assms by (simp add: s dll_rep_def)
  then have c: "chain h (last_of xs) ((i, a) # ys) None"
    unfolding chain_append_None by simp
  then show "node_data (snd s ! i) = Some a" by (simp add: s)
  show "node_next (snd s ! i) = hd_opt (map fst ys)" using c by (cases ys) (auto simp: s)
qed

lemma dll_rep_removed:
  assumes "dll_rep s (xs @ (i, a) # ys)"
  shows "snd (DoublyLinkedListRemoveNode i s) ! i = free_node"
proof -
  have r: "dll_rep (DoublyLinkedListRemoveNode i s) (xs @ ys)" using dl.remove_node [OF assms] by simp
  have l: "length (snd (DoublyLinkedListRemoveNode i s)) = length (snd s)"
    using dl.remove_node [OF assms] by (simp add: pool_capacity_def split: prod.splits)
  have "i < length (snd s)" "i \<notin> fst ` set (xs @ ys)"
    using assms by (auto simp: dll_rep_def chain_append_None split: prod.splits dest: chain_in_pool)
  then show ?thesis
    using r l by (auto simp: dll_rep_def split: prod.splits)
qed

lemma find_append: "find P (xs @ ys) = (case find P xs of None \<Rightarrow> find P ys | Some x \<Rightarrow> Some x)"
  by (induction xs) simp_all

lemma find_node:
  assumes "dll_rep s (xs @ (i, a) # ys)" "a \<notin> snd ` set xs"
  shows "find (\<lambda>n. node_data (snd s ! n) = Some a) (list_nodes s) = Some i"
proof -
  have "node_data (snd s ! n) \<noteq> Some a" if n: "n \<in> fst ` set xs" for n
  proof -
    obtain b where b: "(n, b) \<in> set xs" using n by auto
    then obtain us vs where "xs = us @ (n, b) # vs" by (auto dest: split_list)
    then have "node_data (snd s ! n) = Some b"
      using dll_rep_node(1) [of s us n b "vs @ (i, a) # ys"] assms(1) by simp
    then show ?thesis using b assms(2) by force
  qed
  then have "find (\<lambda>n. node_data (snd s ! n) = Some a) (map fst xs) = None"
    by (auto simp: find_None_iff)
  then show ?thesis
    using dll_rep_node(1) [OF assms(1)] by (simp add: list_nodes_rep [OF assms(1)] find_append)
qed

lemma remove_active:
  assumes "active st (xs @ (i, a) # ys)"
  shows "RemoveFromActiveConnections a st =
     st\<lparr>st_connection_list := DoublyLinkedListRemoveNode i (st_connection_list st)\<rparr>"
  using find_node [of "st_connection_list st" xs i a ys] assms
  by (simp add: active_def RemoveFromActiveConnections_def)

lemma not_active_removed:
  assumes "active st xs" "a \<notin> snd ` set xs"
  shows "RemoveFromActiveConnections a st = st"
proof -
  have r: "dll_rep (st_connection_list st) xs" using assms(1) by (simp add: active_def)
  have "node_data (snd (st_connection_list st) ! n) \<noteq> Some a" if n: "(n, b) \<in> set xs" for n b
  proof -
    obtain us vs where "xs = us @ (n, b) # vs" using n by (auto dest: split_list)
    then show ?thesis using dll_rep_node(1) [of "st_connection_list st" us n b vs] r n assms(2) by force
  qed
  then have "find (\<lambda>n. node_data (snd (st_connection_list st) ! n) = Some a) (map fst xs) = None"
    by (auto simp: find_None_iff)
  then show ?thesis by (simp add: RemoveFromActiveConnections_def list_nodes_rep [OF r])
qed

lemma close_udp_frame [simp]:
  "st_connection_list (CloseUdpSocket s st) = st_connection_list st" "st_objects (CloseUdpSocket s st) = st_objects st"
  "g_registered_sessions (CloseUdpSocket s st) = g_registered_sessions st" "g_timestamps (CloseUdpSocket s st) = g_timestamps st"
  by (simp_all add: CloseUdpSocket_def CloseSocket_def log_effect_def)

lemma active_cong: "st_connection_list st' = st_connection_list st \<Longrightarrow> active st' xs = active st xs"
  by (simp add: active_def)

lemma active_store [simp]: "active (store_object a c st) xs = active st xs"
  by (rule active_cong) simp

lemma remove_frame [simp]:
  "g_registered_sessions (RemoveFromActiveConnections a st) = g_registered_sessions st"
  "g_timestamps (RemoveFromActiveConnections a st) = g_timestamps st"
  "st_objects (RemoveFromActiveConnections a st) = st_objects st"
  by (simp_all add: RemoveFromActiveConnections_def split: option.split)

lemma CloseConnection_frame [simp]:
  "g_registered_sessions (CloseConnection a st) = g_registered_sessions st"
  "g_timestamps (CloseConnection a st) = g_timestamps st"
  "st_objects (CloseConnection a st) = (st_objects st)(a := ConnectionObjectInitializeEmpty)"
  by (auto simp: CloseConnection_def Let_def store_object_def)

lemma CloseConnection_list:
  assumes "active st (xs @ (i, a) # ys)"
  shows "st_connection_list (CloseConnection a st) = DoublyLinkedListRemoveNode i (st_connection_list st)"
proof -
  have "active (store_object a c (CloseUdpSocket s (CloseUdpSocket t st))) (xs @ (i, a) # ys)" for c s t
    using assms by (simp add: active_def)
  note remove_active [OF this]
  then show ?thesis
    using remove_active [OF assms] by (simp add: CloseConnection_def Let_def)
qed

lemma CloseConnection_active:
  assumes "active st (xs @ (i, a) # ys)"
  shows "active (CloseConnection a st) (xs @ ys)" and "snd (st_connection_list (CloseConnection a st)) ! i = free_node"
proof -
  have r: "dll_rep (st_connection_list st) (xs @ (i, a) # ys)" using assms by (simp add: active_def)
  show "snd (st_connection_list (CloseConnection a st)) ! i = free_node"
    using dll_rep_removed [OF r] by (simp add: CloseConnection_list [OF assms])
  show "active (CloseConnection a st) (xs @ ys)"
    using dl.remove_node [OF r] assms by (auto simp: active_def CloseConnection_list [OF assms])
qed

lemma CloseConnection_wf: "sessions_wf (CloseConnection a st) \<longleftrightarrow> sessions_wf st"
  by (simp add: sessions_wf_def)

text \<open>
  The loops over the list go on from the node they are at. A node that has been removed is
  free and has no successor, so that a loop ends there.
\<close>

lemma close_class3_loop_first:
  assumes "active st (us @ xs)"
    and "\<And>i a. (i, a) \<in> set xs \<Longrightarrow> is_class3_of h (st_objects st a) \<Longrightarrow>
      connection_close_function (st_objects st a) = Some FnCloseConnection"
  shows "close_class3_loop (run_fn other) h (first_of xs) st =
     Some (case find (\<lambda>a. is_class3_of h (st_objects st a)) (map snd xs) of None \<Rightarrow> st | Some a \<Rightarrow> CloseConnection a st)"
  using assms
proof (induction xs arbitrary: us)
  case Nil
  show ?case by (subst close_class3_loop.simps) simp
next
  case (Cons x xs)
  obtain i a where x: "x = (i, a)" by (cases x)
  have act: "active st (us @ (i, a) # xs)" using Cons.prems(1) by (simp add: x)
  then have "dll_rep (st_connection_list st) (us @ (i, a) # xs)" by (simp add: active_def)
  note n = dll_rep_node [OF this]
  have IH: "close_class3_loop (run_fn other) h (first_of xs) st =
     Some (case find (\<lambda>a. is_class3_of h (st_objects st a)) (map snd xs) of None \<Rightarrow> st | Some a \<Rightarrow> CloseConnection a st)"
    using Cons.IH [of "us @ [x]"] Cons.prems by auto
  show ?case
  proof (cases "is_class3_of h (st_objects st a)")
    case True
    then have "connection_close_function (st_objects st a) = Some FnCloseConnection"
      using Cons.prems(2) [of i a] by (simp add: x)
    moreover have "close_class3_loop (run_fn other) h None (CloseConnection a st) = Some (CloseConnection a st)"
      by (subst close_class3_loop.simps) simp
    ultimately show ?thesis
      using True n CloseConnection_active(2) [OF act]
      by (subst close_class3_loop.simps) (simp add: x run_fn_def free_node_def)
  next
    case False
    then show ?thesis
      using n IH by (subst close_class3_loop.simps) (simp add: x)
  qed
qed

lemma CloseClass3_first:
  assumes "active st xs"
    and "\<And>i a. (i, a) \<in> set xs \<Longrightarrow> is_class3_of h (st_objects st a) \<Longrightarrow>
      connection_close_function (st_objects st a) = Some FnCloseConnection"
  shows "CloseClass3ConnectionBasedOnSession (run_fn other) h st =
     Some (case find (\<lambda>a. is_class3_of h (st_objects st a)) (map snd xs) of None \<Rightarrow> st | Some a \<Rightarrow> CloseConnection a st)"
proof -
  have "dll_first (fst (st_connection_list st)) = first_of xs"
    using assms(1) by (simp add: active_def dll_rep_first)
  then show ?thesis
    using close_class3_loop_first [of st "[]" xs h other] assms
    by (simp add: CloseClass3ConnectionBasedOnSession_def)
qed

lemma session_at_mem: "session_at st i = Some s \<Longrightarrow> s \<in> set (g_registered_sessions st)"
  by (auto simp: session_at_def in_set_conv_nth split: if_splits)


text \<open>The timeout of a class 3 connection keeps the tables of sessions and timers consistent.\<close>

lemma CloseSessionBySessionHandle_wf:
  assumes "sessions_wf st" "CloseSessionBySessionHandle c st = Some st'"
  shows "sessions_wf st'"
proof -
  obtain s st1 where s: "session_at st (unat (associated_encapsulation_session c - 1)) = Some s"
    and c: "CloseTcpSocket s st = Some st1" "st' = free_session (unat (associated_encapsulation_session c - 1)) st1"
    using assms(2) by (auto simp: CloseSessionBySessionHandle_def Let_def)
  have "s \<noteq> kEipInvalidSocket"
  proof
    assume inv: "s = kEipInvalidSocket"
    then have "kEipInvalidSocket \<in> set (g_registered_sessions st)"
      using session_at_mem [OF s] by simp
    then show False
      using CloseTcpSocket_invalid_diverges [of st] free_timer_iff [OF assms(1)] c(1) inv by simp
  qed
  from close_and_free_wf [OF assms(1) s this c(1)] show ?thesis by (simp add: c(2))
qed

lemma Class3ConnectionTimeoutHandler_wf:
  "sessions_wf st \<Longrightarrow> Class3ConnectionTimeoutHandler a st = Some st' \<Longrightarrow> sessions_wf st'"
  by (auto simp: Class3ConnectionTimeoutHandler_def CheckForTimedOutConnectionsAndCloseTCPConnections_def
      CloseConnection_wf split: if_splits dest: CloseSessionBySessionHandle_wf)


lemma manage_delayed_frame [simp]:
  "st_connection_list (manage_delayed t i st) = st_connection_list st" "st_objects (manage_delayed t i st) = st_objects st"
  "g_registered_sessions (manage_delayed t i st) = g_registered_sessions st" "g_timestamps (manage_delayed t i st) = g_timestamps st"
  by (simp_all add: manage_delayed_def log_effect_def Let_def)

lemma manage_messages_frame [simp]:
  "st_connection_list (ManageEncapsulationMessages t st) = st_connection_list st"
  "st_objects (ManageEncapsulationMessages t st) = st_objects st"
  "g_registered_sessions (ManageEncapsulationMessages t st) = g_registered_sessions st"
  "g_timestamps (ManageEncapsulationMessages t st) = g_timestamps st"
  by (simp_all add: ManageEncapsulationMessages_def ENCAP_NUMBER_OF_SUPPORTED_DELAYED_ENCAP_MESSAGES_def upt_rec)

subsection \<open>Properties\<close>

text \<open>
  C23: Closing the class 3 connections of a session closes only the first of them in the list of
  active connections. \<^verbatim>\<open>CloseClass3ConnectionBasedOnSession\<close> goes on from the node it has just
  freed, and a free node has no successor: later class 3 connections of the session stay active,
  and with none in the list nothing changes.
\<close>
theorem class3_of_session_closed:
  assumes "active st xs"
    and "\<forall>(i, a)\<in>set xs. is_class3_of h (st_objects st a) \<longrightarrow>
      connection_close_function (st_objects st a) = Some FnCloseConnection"
  shows "CloseClass3ConnectionBasedOnSession (run_fn other) h st =
     Some (case find (\<lambda>a. is_class3_of h (st_objects st a)) (map snd xs) of
             None \<Rightarrow> st | Some a \<Rightarrow> CloseConnection a st)"
  using assms by (intro CloseClass3_first) auto

text \<open>A device with a session in slot 0, two class 3 connections of it, and room for more.\<close>

definition class3_connection :: "'u connection_fn connection_object" where
  "class3_connection = ConnectionObjectInitializeEmpty\<lparr>co_state := 3, instance_type := kInstanceTypeExplicitMessaging,
     transport_class_trigger := 0xa3, associated_encapsulation_session := 1, inactivity_watchdog_timer := 10,
     connection_close_function := Some FnCloseConnection,
     connection_timeout_function := Some FnClass3ConnectionTimeoutHandler\<rparr>"

definition two_class3 :: "(unit connection_fn, unit) stack_state" where
  "two_class3 = \<lparr>st_objects = (\<lambda>_. class3_connection),
     st_connection_list = (\<lparr>dll_first = Some 1, dll_last = Some 0\<rparr>,
       [\<lparr>node_data = Some 1, node_previous = Some 1, node_next = None\<rparr>,
        \<lparr>node_data = Some 2, node_previous = None, node_next = Some 0\<rparr>, free_node]),
     st_cpf = zero_cpf, g_registered_sessions = 5 # replicate 19 kEipInvalidSocket,
     g_timestamps = \<lparr>timer_socket = 5, last_update = 0\<rparr> # replicate 19 \<lparr>timer_socket = kEipInvalidSocket, last_update = 0\<rparr>,
     g_actual_time = 0, master_socket = {5},
     g_delayed_encapsulation_messages = [], st_effects = [], g_identity = example_identity,
     g_tcpip = initial_tcpip,
     g_network_status = \<lparr>ns_ip_address = 0, ns_network_mask = 0\<rparr>, st_app = ()\<rparr>"

lemma two_class3_active: "active two_class3 [(1, 2), (0, 1)]"
  by (auto simp: active_def dll_rep_def two_class3_def last_opt_def less_Suc_eq)


lemma class3_connection_simps:
  "is_class3_of 1 class3_connection" "connection_close_function class3_connection = Some FnCloseConnection"
  "connection_timeout_function class3_connection = Some FnClass3ConnectionTimeoutHandler"
  "ConnectionObjectGetState class3_connection = kConnectionObjectStateEstablished"
  "ConnectionObjectGetTransportClassTriggerDirection class3_connection = TriggerDirectionServer"
  "inactivity_watchdog_timer class3_connection = 10" "co_state class3_connection = 3"
  by (simp_all add: is_class3_of_def class3_connection_def ConnectionObjectGetTransportClassTriggerTransportClass_def
      ConnectionObjectGetState_def ConnectionObjectGetTransportClassTriggerDirection_def)

lemma two_class3_simps: "st_objects two_class3 = (\<lambda>_. class3_connection)" "session_at two_class3 0 = Some 5"
  by (simp_all add: two_class3_def session_at_def)

lemma class3_of_session_closed_witness:
  "active two_class3 [(1, 2), (0, 1)]
   \<and> CloseClass3ConnectionBasedOnSession (run_fn (\<lambda>_ _. Some)) 1 two_class3 = Some (CloseConnection 2 two_class3)"
  using class3_of_session_closed [OF two_class3_active, of 1 "\<lambda>_ _. Some"] two_class3_active
  by (simp add: two_class3_simps class3_connection_simps)




subsection \<open>The tick of the connection manager\<close>

text \<open>
  The reference: the connections in the order of the list, each with its two timers
  reduced, up to the first one whose watchdog expires.
\<close>

definition tick_connection :: "MilliSeconds \<Rightarrow> 'fn connection_object \<Rightarrow> 'fn connection_object" where
  "tick_connection t c = c\<lparr>inactivity_watchdog_timer := inactivity_watchdog_timer c - t,
     last_package_watchdog_timer := last_package_watchdog_timer c - t\<rparr>"

primrec tick_list :: "MilliSeconds \<Rightarrow> nat list \<Rightarrow> ('fn, 'app) stack_state \<Rightarrow> ('fn, 'app) stack_state option" where
  "tick_list t [] st = Some st"
| "tick_list t (a # as) st =
     (if inactivity_watchdog_timer (st_objects st a) \<le> t then Class3ConnectionTimeoutHandler a st
      else tick_list t as (store_object a (tick_connection t (st_objects st a)) st))"

definition explicit_server :: "'u connection_fn connection_object \<Rightarrow> bool" where
  "explicit_server c \<longleftrightarrow> ConnectionObjectGetState c = kConnectionObjectStateEstablished
     \<and> ConnectionObjectGetTransportClassTriggerDirection c = TriggerDirectionServer
     \<and> connection_timeout_function c = Some FnClass3ConnectionTimeoutHandler \<and> socket_producing c = kEipInvalidSocket"

lemma tick_state [simp]: "ConnectionObjectGetState (tick_connection t c) = ConnectionObjectGetState c"
  by (simp add: tick_connection_def ConnectionObjectGetState_def)

lemma manage_explicit:
  assumes "explicit_server (st_objects st a)"
  shows "\<not> inactivity_watchdog_timer (st_objects st a) \<le> t \<Longrightarrow> manage_connection (run_fn other) send t a st =
      Some (store_object a (tick_connection t (st_objects st a)) st)"
    and "inactivity_watchdog_timer (st_objects st a) \<le> t \<Longrightarrow> Class3ConnectionTimeoutHandler a st = r
      \<Longrightarrow> manage_connection (run_fn other) send t a st = r"
proof -
  note e = assms [unfolded explicit_server_def]
  show "manage_connection (run_fn other) send t a st = Some (store_object a (tick_connection t (st_objects st a)) st)"
    if "\<not> inactivity_watchdog_timer (st_objects st a) \<le> t"
    using that e tick_state [of t "st_objects st a"]
    by (simp add: manage_connection_def check_watchdog_def produce_data_def Let_def tick_connection_def del: tick_state)
  show "manage_connection (run_fn other) send t a st = r"
    if "inactivity_watchdog_timer (st_objects st a) \<le> t" "Class3ConnectionTimeoutHandler a st = r"
  proof (cases r)
    case None
    then show ?thesis using that e by (simp add: manage_connection_def check_watchdog_def run_fn_def)
  next
    case (Some st')
    then have "st_objects st' a = ConnectionObjectInitializeEmpty"
      using that(2) by (auto simp: Class3ConnectionTimeoutHandler_def)
    then show ?thesis
      using that e Some by (simp add: manage_connection_def check_watchdog_def run_fn_def ConnectionObjectGetState_def
          ConnectionObjectInitializeEmpty_def)
  qed
qed

text \<open>Closing a session by its handle leaves the connections alone.\<close>

lemma CloseSessionBySessionHandle_connections:
  assumes "CloseSessionBySessionHandle c st = Some st'"
  shows "st_connection_list st' = st_connection_list st" "st_objects st' = st_objects st"
  using assms
  by (auto simp: CloseSessionBySessionHandle_def Let_def CloseTcpSocket_def remove_socket_timer_def CloseSocket_def
      log_effect_def free_session_def split: if_splits)

lemma Class3ConnectionTimeoutHandler_result:
  assumes "Class3ConnectionTimeoutHandler a st = Some st'" "active st (xs @ (i, a) # ys)"
  shows "active st' (xs @ ys)" "snd (st_connection_list st') ! i = free_node"
    "st_objects st' = (st_objects st)(a := ConnectionObjectInitializeEmpty)"
proof -
  obtain st1 where st1: "st_connection_list st1 = st_connection_list st" "st_objects st1 = st_objects st"
    and st': "st' = CloseConnection a st1"
    using assms(1) CloseSessionBySessionHandle_connections
    by (fastforce simp: Class3ConnectionTimeoutHandler_def CheckForTimedOutConnectionsAndCloseTCPConnections_def
        split: if_splits)
  have "active st1 (xs @ (i, a) # ys)" using assms(2) st1(1) by (simp add: active_def)
  from CloseConnection_active [OF this] show "active st' (xs @ ys)" "snd (st_connection_list st') ! i = free_node"
    by (simp_all add: st')
  show "st_objects st' = (st_objects st)(a := ConnectionObjectInitializeEmpty)" by (simp add: st' st1)
qed

lemma manage_loop_tick:
  assumes "active st (us @ xs)" "\<And>a. a \<in> snd ` set xs \<Longrightarrow> explicit_server (st_objects st a)"
  shows "manage_loop (run_fn other) send t (first_of xs) st = tick_list t (map snd xs) st"
  using assms
proof (induction xs arbitrary: us st)
  case Nil
  show ?case by (subst manage_loop.simps) simp
next
  case (Cons x xs)
  obtain i a where x: "x = (i, a)" by (cases x)
  have act: "active st (us @ (i, a) # xs)" using Cons.prems(1) by (simp add: x)
  then have "dll_rep (st_connection_list st) (us @ (i, a) # xs)" by (simp add: active_def)
  note n = dll_rep_node [OF this]
  have e: "explicit_server (st_objects st a)" using Cons.prems(2) by (simp add: x)
  have a: "a \<notin> snd ` set xs" using act by (simp add: active_def)
  show ?case
  proof (cases "inactivity_watchdog_timer (st_objects st a) \<le> t")
    case False
    let ?st = "store_object a (tick_connection t (st_objects st a)) st"
    have "manage_loop (run_fn other) send t (first_of xs) ?st = tick_list t (map snd xs) ?st"
    proof (rule Cons.IH [of _ "us @ [x]"])
      show "active ?st ((us @ [x]) @ xs)" using act by (simp add: x)
      show "explicit_server (st_objects ?st b)" if "b \<in> snd ` set xs" for b
        using that a Cons.prems(2) by (auto simp: store_object_def)
    qed
    then show ?thesis
      using False manage_explicit(1) [OF e] n by (subst manage_loop.simps) (simp add: x)
  next
    case True
    note m = manage_explicit(2) [OF e True refl, of other send]
    show ?thesis
    proof (cases "Class3ConnectionTimeoutHandler a st")
      case None
      then show ?thesis using True m n by (subst manage_loop.simps) (simp add: x)
    next
      case (Some st')
      have "manage_loop (run_fn other) send t None st' = Some st'" by (subst manage_loop.simps) simp
      then show ?thesis
        using True m n Some Class3ConnectionTimeoutHandler_result(2) [OF Some act]
        by (subst manage_loop.simps) (simp add: x free_node_def)
    qed
  qed
qed

text \<open>
  C21: A tick of the connection manager with explicit connections only: in the order of the list
  each connection's watchdog is reduced by the elapsed time, up to the first whose watchdog has
  expired. That one is closed, and the tick ends there: the connections behind it keep their
  timers, so that an expiring connection gives every connection behind it one more tick.
\<close>
theorem ManageConnections_explicit:
  assumes "active st xs" and "\<forall>a\<in>snd ` set xs. explicit_server (st_objects st a)"
    and "app st = st\<lparr>st_app := y\<rparr>"
  shows "ManageConnections app (run_fn other) send t st =
     tick_list t (map snd xs) (ManageEncapsulationMessages t (st\<lparr>st_app := y\<rparr>))"
proof -
  let ?st = "ManageEncapsulationMessages t (st\<lparr>st_app := y\<rparr>)"
  have act: "active ?st xs" using assms(1) by (simp add: active_def)
  have "manage_loop (run_fn other) send t (first_of xs) ?st = tick_list t (map snd xs) ?st"
    using act assms(2) by (intro manage_loop_tick [where us = "[]"]) auto
  moreover have "dll_first (fst (st_connection_list ?st)) = first_of xs"
    using act by (simp add: active_def dll_rep_first)
  ultimately show ?thesis
    using assms(3) by (simp add: ManageConnections_def)
qed

text \<open>One tick of 10 ms: the watchdog of the first connection in the list expires, the second keeps its 10 ms.\<close>

lemma ManageConnections_explicit_witness:
  "ManageConnections (\<lambda>x. x\<lparr>st_app := ()\<rparr>) (run_fn (\<lambda>_ _. Some)) undefined 10 two_class3 =
     Class3ConnectionTimeoutHandler 2 (ManageEncapsulationMessages 10 (two_class3\<lparr>st_app := ()\<rparr>))"
proof -
  have "explicit_server (class3_connection :: unit connection_fn connection_object)"
    by (simp add: explicit_server_def class3_connection_simps)
      (simp add: class3_connection_def ConnectionObjectInitializeEmpty_def)
  then show ?thesis
    using ManageConnections_explicit [OF two_class3_active, of "\<lambda>x. x\<lparr>st_app := ()\<rparr>" "()" "\<lambda>_ _. Some" undefined 10]
    by (simp add: two_class3_simps class3_connection_simps)
qed


subsection \<open>The invariant of the list\<close>

text \<open>
  The list of active connections is well formed, holds no connection object twice, and none that
  counts as free.
\<close>

definition connections_wf :: "('fn, 'app) stack_state \<Rightarrow> bool" where
  "connections_wf st \<longleftrightarrow> (\<exists>xs. active st xs
     \<and> (\<forall>a\<in>snd ` set xs. ConnectionObjectGetState (st_objects st a) \<noteq> kConnectionObjectStateNonExistent))"

lemma CloseConnection_connections: "connections_wf st \<Longrightarrow> connections_wf (CloseConnection a st)"
proof -
  assume "connections_wf st"
  then obtain xs where act: "active st xs"
    and s: "\<forall>a\<in>snd ` set xs. ConnectionObjectGetState (st_objects st a) \<noteq> kConnectionObjectStateNonExistent"
    by (auto simp: connections_wf_def)
  show ?thesis
  proof (cases "a \<in> snd ` set xs")
    case True
    then obtain i us vs where xs: "xs = us @ (i, a) # vs" by (auto dest: split_list)
    then have "distinct (map snd (us @ (i, a) # vs))" using act by (simp add: active_def)
    then have "a \<notin> snd ` set (us @ vs)" by auto
    then show ?thesis
      using CloseConnection_active(1) [of st us i a vs] act s xs unfolding connections_wf_def
      by (intro exI [of _ "us @ vs"]) (auto simp: image_Un)
  next
    case False
    have "active (CloseConnection a st) xs"
      using act False not_active_removed [of "store_object a c (CloseUdpSocket s (CloseUdpSocket t st))" xs a for c s t]
        not_active_removed [OF act False]
      by (simp add: CloseConnection_def Let_def active_def)
    then show ?thesis
      using s False unfolding connections_wf_def by (intro exI [of _ xs]) auto
  qed
qed

lemma connections_wf_cong:
  "connections_wf st \<Longrightarrow> st_connection_list st' = st_connection_list st \<Longrightarrow> st_objects st' = st_objects st \<Longrightarrow> connections_wf st'"
  by (simp add: connections_wf_def active_def)

lemma CheckForTimedOut_connections:
  assumes "CheckForTimedOutConnectionsAndCloseTCPConnections a CloseSessionBySessionHandle st = Some st'"
  shows "st_connection_list st' = st_connection_list st" "st_objects st' = st_objects st"
proof -
  have "st' = st \<or> CloseSessionBySessionHandle (st_objects st a) st = Some st'"
    using assms unfolding CheckForTimedOutConnectionsAndCloseTCPConnections_def by (metis option.inject)
  then show "st_connection_list st' = st_connection_list st" "st_objects st' = st_objects st"
    using CloseSessionBySessionHandle_connections by metis+
qed

lemma Class3ConnectionTimeoutHandler_connections:
  assumes "connections_wf st" "Class3ConnectionTimeoutHandler a st = Some st'"
  shows "connections_wf st'"
proof -
  obtain st1 where "CheckForTimedOutConnectionsAndCloseTCPConnections a CloseSessionBySessionHandle st = Some st1"
    and st': "st' = CloseConnection a st1"
    using assms(2) by (auto simp: Class3ConnectionTimeoutHandler_def)
  from connections_wf_cong [OF assms(1) CheckForTimedOut_connections [OF this(1)]] show ?thesis
    unfolding st' by (rule CloseConnection_connections)
qed

lemma pool_capacity_length: "pool_capacity s = length (snd s)"
  by (cases s) (simp add: pool_capacity_def)

lemma AddNewActiveConnection_result:
  assumes "active st xs" "a \<notin> snd ` set xs" "length xs < length (snd (st_connection_list st))"
  shows "\<exists>i st'. AddNewActiveConnection a st = Some st' \<and> active st' ((i, a) # xs)
     \<and> length (snd (st_connection_list st')) = length (snd (st_connection_list st))
     \<and> st_objects st' = (st_objects st)(a := (st_objects st a)\<lparr>co_state := 3\<rparr>)
     \<and> st' = st\<lparr>st_connection_list := st_connection_list st', st_objects := st_objects st'\<rparr>"
proof -
  have "dll_rep (st_connection_list st) xs" using assms(1) by (simp add: active_def)
  from dl.insert_free [OF this, of a] obtain i l where
    "DoublyLinkedListInsertAtHead a (st_connection_list st) = Some l" "dll_rep l ((i, a) # xs)"
    "length (snd l) = length (snd (st_connection_list st))"
    using assms(3) by (auto simp: pool_capacity_length)
  then show ?thesis
    using assms(1,2) by (auto simp: AddNewActiveConnection_def active_def store_object_def)
qed

lemma AddNewActiveConnection_connections:
  assumes "connections_wf st" "ConnectionObjectGetState (st_objects st a) = kConnectionObjectStateNonExistent"
    and "AddNewActiveConnection a (store_object a c st) = Some st'"
  shows "connections_wf st'"
proof -
  obtain xs where xs: "active st xs"
    "\<forall>a\<in>snd ` set xs. ConnectionObjectGetState (st_objects st a) \<noteq> kConnectionObjectStateNonExistent"
    using assms(1) by (auto simp: connections_wf_def)
  have a: "a \<notin> snd ` set xs" using xs(2) assms(2) by auto
  have r: "dll_rep (st_connection_list st) xs" using xs(1) by (simp add: active_def)
  have "DoublyLinkedListInsertAtHead a (st_connection_list st) \<noteq> None"
    using assms(3) by (auto simp: AddNewActiveConnection_def)
  then have "length xs < length (snd (st_connection_list st))"
    using dl.insert_head_iff [OF r] by (simp add: pool_capacity_length)
  moreover have "active (store_object a c st) xs" using xs(1) by simp
  ultimately
  obtain i where i: "active st' ((i, a) # xs)" "st_objects st' = (st_objects st)(a := c\<lparr>co_state := 3\<rparr>)"
    using AddNewActiveConnection_result [of "store_object a c st" xs a] a assms(3) by (auto simp: store_object_def)
  show ?thesis unfolding connections_wf_def
  proof (intro exI conjI)
    show "active st' ((i, a) # xs)" by (rule i(1))
    show "\<forall>b\<in>snd ` set ((i, a) # xs). ConnectionObjectGetState (st_objects st' b) \<noteq> kConnectionObjectStateNonExistent"
      using xs(2) a by (auto simp: i(2) ConnectionObjectGetState_def)
  qed
qed

subsection \<open>Establishing an explicit connection\<close>

lemma GeneralConfiguration_id:
  assumes "ConnectionObjectGetOToTConnectionType c = ConnectionTypePointToPoint"
    and "ConnectionObjectGetTToOConnectionType c = ConnectionTypePointToPoint"
  shows "ConnectionObjectGeneralConfiguration GetConnectionId st c =
    (c\<lparr>socket_consuming := kEipInvalidSocket, socket_producing := kEipInvalidSocket,
       cip_consumed_connection_id := fst (GetConnectionId st),
       eip_level_sequence_count_producing := 0, sequence_count_producing := 0,
       eip_level_sequence_count_consuming := 0, eip_first_level_sequence_count_received := False,
       sequence_count_consuming := 0, watchdog_timeout_action := 4,
       production_inhibit_timer := ucast (production_inhibit_time c), transmission_trigger_timer := 0\<rparr>,
     snd (GetConnectionId st))"
  using assms
  by (cases "GetConnectionId st") (simp add: ConnectionObjectGeneralConfiguration_def Let_def ConnectionObjectGetOToTConnectionType_def
      ConnectionObjectGetTToOConnectionType_def ConnectionObjectResetSequenceCounts_def ConnectionObjectSetWatchdogTimeoutAction_def
      ConnectionObjectResetProductionInhibitTimer_def)

text \<open>What the free object holds once the request's object \<open>c\<close> is copied to it and configured.\<close>

definition class3_object ::
  "CipUdint \<Rightarrow> 'u connection_fn connection_object \<Rightarrow> 'u connection_fn connection_object" where
  "class3_object n c = c\<lparr>socket_consuming := kEipInvalidSocket, socket_producing := kEipInvalidSocket,
       cip_consumed_connection_id := n,
       eip_level_sequence_count_producing := 0, sequence_count_producing := 0,
       eip_level_sequence_count_consuming := 0, eip_first_level_sequence_count_received := False,
       sequence_count_consuming := 0, watchdog_timeout_action := 4,
       production_inhibit_timer := ucast (production_inhibit_time c), transmission_trigger_timer := 0,
       instance_type := kInstanceTypeExplicitMessaging, connection_close_function := Some FnCloseConnection,
       connection_timeout_function := Some FnClass3ConnectionTimeoutHandler, co_state := 3\<rparr>"

lemma EstablishClass3Connection_object:
  assumes act: "active st xs" and live: "\<forall>b\<in>snd ` set xs. ConnectionObjectGetState (st_objects st b) \<noteq> kConnectionObjectStateNonExistent"
    and room: "length xs < length (snd (st_connection_list st))"
    and p2p: "ConnectionObjectGetOToTConnectionType (st_objects st a) = ConnectionTypePointToPoint"
      "ConnectionObjectGetTToOConnectionType (st_objects st a) = ConnectionTypePointToPoint"
    and free: "GetFreeExplicitConnection st = Some b"
  obtains i st' where "EstablishClass3Connection a e st = Some (kCipErrorSuccess, e, st')" "active st' ((i, b) # xs)"
    "st_objects st' = (st_objects st)(b := class3_object (fst (GetConnectionId st)) (st_objects st a))"
    "GetConnectedObject st' (fst (GetConnectionId st)) = Some b"
    "st' = (snd (GetConnectionId st))\<lparr>st_connection_list := st_connection_list st', st_objects := st_objects st'\<rparr>"
proof -
  have "ConnectionObjectGetState (st_objects st b) = kConnectionObjectStateNonExistent"
    using free by (auto simp: GetFreeExplicitConnection_def find_Some_iff)
  then have b: "b \<notin> snd ` set xs" using live by auto
  define c where "c = class3_object (fst (GetConnectionId st)) (st_objects st a)"
  define d where "d = fst (ConnectionObjectGeneralConfiguration GetConnectionId st (st_objects st a))"
  have d: "ConnectionObjectGeneralConfiguration GetConnectionId st (st_objects st a) = (d, snd (GetConnectionId st))"
    "c = d\<lparr>instance_type := kInstanceTypeExplicitMessaging, connection_close_function := Some FnCloseConnection,
     connection_timeout_function := Some FnClass3ConnectionTimeoutHandler, co_state := 3\<rparr>"
    by (simp_all add: d_def c_def class3_object_def GeneralConfiguration_id [OF p2p])
  let ?c = "d\<lparr>instance_type := kInstanceTypeExplicitMessaging, connection_close_function := Some FnCloseConnection,
     connection_timeout_function := Some FnClass3ConnectionTimeoutHandler\<rparr>"
  let ?st = "store_object b ?c (snd (GetConnectionId st))"
  have o: "st_objects (snd (GetConnectionId st)) = st_objects st" by (simp add: GetConnectionId_def Let_def)
  have st: "active ?st xs" "st_objects ?st = (st_objects st)(b := ?c)" "length xs < length (snd (st_connection_list ?st))"
    using act room by (simp_all add: active_def GetConnectionId_def Let_def store_object_def)
  obtain i st' where st': "AddNewActiveConnection b ?st = Some st'" "active st' ((i, b) # xs)"
    "st_objects st' = (st_objects st)(b := c)"
    "st' = ?st\<lparr>st_connection_list := st_connection_list st', st_objects := st_objects st'\<rparr>"
    using AddNewActiveConnection_result [OF st(1) b st(3)] by (auto simp: o d(2))
  have e: "EstablishClass3Connection a e st = Some (kCipErrorSuccess, e, st')"
    using free d(1) st'(1) by (simp add: EstablishClass3Connection_def)
  have "list_data (st_connection_list st') = b # map snd xs"
    using st'(2) list_data_rep by (fastforce simp: active_def)
  then have g: "GetConnectedObject st' (fst (GetConnectionId st)) = Some b"
    by (simp add: GetConnectedObject_def st'(3) ConnectionObjectGetState_def c_def class3_object_def)
  have "st' = (snd (GetConnectionId st))\<lparr>st_connection_list := st_connection_list st', st_objects := st_objects st'\<rparr>"
    using st'(4) by (simp add: store_object_def)
  then show ?thesis by (rule that [OF e st'(2) st'(3) [unfolded c_def] g])
qed

lemma EstablishClass3Connection_establishes:
  assumes "active st xs" "\<forall>b\<in>snd ` set xs. ConnectionObjectGetState (st_objects st b) \<noteq> kConnectionObjectStateNonExistent"
    and "length xs < length (snd (st_connection_list st))"
    and "ConnectionObjectGetOToTConnectionType (st_objects st a) = ConnectionTypePointToPoint"
      "ConnectionObjectGetTToOConnectionType (st_objects st a) = ConnectionTypePointToPoint"
    and "GetFreeExplicitConnection st = Some b"
  obtains i c st' where "EstablishClass3Connection a e st = Some (kCipErrorSuccess, e, st')" "active st' ((i, b) # xs)"
    "st_objects st' = (st_objects st)(b := c)" "is_large_forward_open c = is_large_forward_open (st_objects st a)"
proof (rule EstablishClass3Connection_object [OF assms, of e])
  let ?c = "class3_object (fst (GetConnectionId st)) (st_objects st a)"
  fix i st'
  assume "EstablishClass3Connection a e st = Some (kCipErrorSuccess, e, st')" "active st' ((i, b) # xs)"
    "st_objects st' = (st_objects st)(b := ?c)"
  moreover have "is_large_forward_open ?c = is_large_forward_open (st_objects st a)"
    by (simp add: class3_object_def)
  ultimately show thesis by (rule that)
qed

text \<open>
  C19: Opening an explicit connection, when the request asks for a point-to-point connection in
  both directions and the list of active connections, whose objects are all in use, has room for
  one more. With no free object in the pool the request fails with "no more connections" and
  nothing changes. Otherwise the first free object becomes a copy of the request's object, with
  all its parameters (triad, produced identifier, packet intervals, encapsulation session,
  watchdog timer and so on), except for: the new consumed connection identifier, no sockets,
  sequence counts 0, an invalid watchdog action, the restarted inhibit timer, transmission timer
  0, the explicit instance type, the class 3 close and timeout functions and the established
  state. It is put at the head of the list of active connections, data for the new identifier
  reaches it, no other object changes, and of the rest of the state only the identifier counter.
\<close>
theorem EstablishClass3Connection_result:
  assumes act: "active st xs" and live: "\<forall>b\<in>snd ` set xs. ConnectionObjectGetState (st_objects st b) \<noteq> kConnectionObjectStateNonExistent"
    and room: "length xs < length (snd (st_connection_list st))"
    and p2p: "ConnectionObjectGetOToTConnectionType (st_objects st a) = ConnectionTypePointToPoint"
      "ConnectionObjectGetTToOConnectionType (st_objects st a) = ConnectionTypePointToPoint"
  shows "case GetFreeExplicitConnection st of
      None \<Rightarrow> EstablishClass3Connection a e st = Some (kCipErrorConnectionFailure, 0x0113, st)
    | Some b \<Rightarrow> \<exists>i st'. EstablishClass3Connection a e st = Some (kCipErrorSuccess, e, st') \<and> active st' ((i, b) # xs)
        \<and> (\<forall>x. x \<noteq> b \<longrightarrow> st_objects st' x = st_objects st x)
        \<and> st_objects st' b = (st_objects st a)\<lparr>cip_consumed_connection_id := fst (GetConnectionId st),
             socket_consuming := kEipInvalidSocket, socket_producing := kEipInvalidSocket,
             eip_level_sequence_count_producing := 0, sequence_count_producing := 0,
             eip_level_sequence_count_consuming := 0, eip_first_level_sequence_count_received := False,
             sequence_count_consuming := 0, watchdog_timeout_action := 4,
             production_inhibit_timer := ucast (production_inhibit_time (st_objects st a)),
             transmission_trigger_timer := 0, instance_type := kInstanceTypeExplicitMessaging,
             connection_close_function := Some FnCloseConnection,
             connection_timeout_function := Some FnClass3ConnectionTimeoutHandler, co_state := 3\<rparr>
        \<and> ConnectionObjectGetState (st_objects st' b) = kConnectionObjectStateEstablished
        \<and> EqualConnectionTriad (st_objects st' b) (st_objects st a)
        \<and> GetConnectedObject st' (fst (GetConnectionId st)) = Some b
        \<and> st' = (snd (GetConnectionId st))\<lparr>st_connection_list := st_connection_list st', st_objects := st_objects st'\<rparr>"
proof (cases "GetFreeExplicitConnection st")
  case None
  then show ?thesis by (simp add: EstablishClass3Connection_def)
next
  case (Some b)
  from EstablishClass3Connection_object [OF act live room p2p Some, of e]
  obtain i st' where st': "EstablishClass3Connection a e st = Some (kCipErrorSuccess, e, st')" "active st' ((i, b) # xs)"
    "st_objects st' = (st_objects st)(b := class3_object (fst (GetConnectionId st)) (st_objects st a))"
    "GetConnectedObject st' (fst (GetConnectionId st)) = Some b"
    "st' = (snd (GetConnectionId st))\<lparr>st_connection_list := st_connection_list st', st_objects := st_objects st'\<rparr>" .
  show ?thesis unfolding Some option.case
    by (intro exI [of _ i] exI [of _ st'] conjI st'(5))
      (simp_all add: st'(1-4) class3_object_def ConnectionObjectGetState_def EqualConnectionTriad_def)
qed

text \<open>The device with one free node in the pool, and the parameters of a request in the buffer object.\<close>

definition open_example :: "(unit, unit, unit) cm_stack" where
  "open_example = \<lparr>st_objects = (\<lambda>a. if a = g_dummy_connection_object
       then ConnectionObjectInitializeEmpty\<lparr>o_to_t_network_connection_parameters := 0x43f8,
         t_to_o_network_connection_parameters := 0x43f8, connection_serial_number := 7\<rparr>
       else if a = 1 then class3_connection else ConnectionObjectInitializeEmpty),
     st_connection_list = (\<lparr>dll_first = Some 0, dll_last = Some 0\<rparr>,
       [\<lparr>node_data = Some 1, node_previous = None, node_next = None\<rparr>, free_node]),
     st_cpf = zero_cpf, g_registered_sessions = [], g_timestamps = [], g_actual_time = 0, master_socket = {},
     g_delayed_encapsulation_messages = [], st_effects = [], g_identity = example_identity,
     g_tcpip = initial_tcpip,
     g_network_status = \<lparr>ns_ip_address = 0, ns_network_mask = 0\<rparr>,
     st_app = \<lparr>g_connection_management_list = [], g_incarnation_id = 0x00120000, cm_connection_id = 4,
       g_config_data_length = 0, g_config_data_buffer = None, cm_rest = ()\<rparr>\<rparr>"

lemma open_example_free: "GetFreeExplicitConnection open_example = Some 2"
  by (simp add: GetFreeExplicitConnection_def open_example_def OPENER_CIP_NUM_EXPLICIT_CONNS_def upt_rec
      explicit_connection_object_pool_def g_dummy_connection_object_def class3_connection_simps
      ConnectionObjectGetState_def ConnectionObjectInitializeEmpty_def)

lemma open_example_simps:
  "st_objects open_example 1 = class3_connection" "length (snd (st_connection_list open_example)) = 2"
  "ConnectionObjectGetOToTConnectionType (st_objects open_example g_dummy_connection_object) = ConnectionTypePointToPoint"
  "ConnectionObjectGetTToOConnectionType (st_objects open_example g_dummy_connection_object) = ConnectionTypePointToPoint"
  "fst (GetConnectionId open_example) = 0x00120005"
  by (simp_all add: open_example_def g_dummy_connection_object_def ConnectionObjectGetOToTConnectionType_def
      ConnectionObjectGetTToOConnectionType_def ConnectionObjectGetConnectionType_def ConnectionObjectInitializeEmpty_def
      GetConnectionId_def)

lemma EstablishClass3Connection_result_witness:
  "\<exists>i st'. EstablishClass3Connection g_dummy_connection_object 0 open_example = Some (kCipErrorSuccess, 0, st')
     \<and> active st' [(i, 2), (0, 1)] \<and> GetConnectedObject st' 0x00120005 = Some 2"
proof -
  have act: "active open_example [(0, 1)]"
    by (auto simp: active_def dll_rep_def open_example_def last_opt_def less_Suc_eq)
  show ?thesis
    using EstablishClass3Connection_result [OF act, of g_dummy_connection_object 0] open_example_free
    by (fastforce simp: open_example_simps [simplified] class3_connection_simps)
qed

subsection \<open>Received connected data\<close>

lemma SEQ_GT32_iff: "SEQ_GT32 a b \<longleftrightarrow> 0 < unat (a - b) \<and> unat (a - b) < 2 ^ 31"
proof -
  define k where "k = unat (a - b)"
  have "sint (a - b) = int k - (if k < 2 ^ 31 then 0 else 2 ^ 32)"
    using sint_cases [of "a - b"] by (simp add: k_def)
  moreover have "k < 2 ^ 32"
    unfolding k_def using unat_uint32_less [of "a - b"] by simp
  ultimately show ?thesis by (simp add: SEQ_GT32_def k_def [symmetric])
qed

lemma GetConnectedObject_cpf [simp]: "GetConnectedObject (st\<lparr>st_cpf := g\<rparr>) i = GetConnectedObject st i"
  by (simp add: GetConnectedObject_def)

lemma watchdog_frame [simp]:
  "ConnectionObjectCalculateRegularInactivityWatchdogTimerValue (c\<lparr>last_package_watchdog_timer := v\<rparr>) =
     ConnectionObjectCalculateRegularInactivityWatchdogTimerValue c"
  by (simp add: ConnectionObjectCalculateRegularInactivityWatchdogTimerValue_def)

lemma HandleReceivedConnectedData_packet:
  assumes "length payload < 65536" "length (address_info_item (st_cpf st)) = 2"
    and "GetConnectedObject st i = Some a"
    and "ConnectionObjectCalculateRegularInactivityWatchdogTimerValue (st_objects st a) = Some v"
    and "connection_receive_data_function (st_objects st a) = Some f"
  shows "HandleReceivedConnectedData receive (packet_octets (SequencedAddress i n) kCipItemIdConnectedDataItem payload [])
       (length (packet_octets (SequencedAddress i n) kCipItemIdConnectedDataItem payload [])) from_address st =
    (let st' = st\<lparr>st_cpf := parsed_packet (SequencedAddress i n) kCipItemIdConnectedDataItem payload [] [] (st_cpf st)\<rparr>;
         c = (st_objects st a)\<lparr>last_package_watchdog_timer := v\<rparr>;
         ahead = unat (n - eip_level_sequence_count_consuming c)
     in if sin_addr (originator_address c) \<noteq> sin_addr from_address then Some (kEipStatusOk, st')
        else if \<not> eip_first_level_sequence_count_received c \<or> 0 < ahead \<and> ahead < 2 ^ 31
        then receive f a payload (of_nat (length payload))
               (store_object a (c\<lparr>inactivity_watchdog_timer := v, eip_level_sequence_count_consuming := n,
                  eip_first_level_sequence_count_received := True\<rparr>) st')
        else Some (kEipStatusOk, store_object a c st'))"
proof -
  have "CreateCommonPacketFormatStructure (packet_octets (SequencedAddress i n) kCipItemIdConnectedDataItem payload [])
      (length (packet_octets (SequencedAddress i n) kCipItemIdConnectedDataItem payload [])) (st_cpf st) =
     Some (kEipStatusOk, parsed_packet (SequencedAddress i n) kCipItemIdConnectedDataItem payload [] [] (st_cpf st))"
    using CreateCommonPacketFormatStructure_packet [of "[]" payload "st_cpf st" "SequencedAddress i n"
        kCipItemIdConnectedDataItem "[]"] assms(1,2) by simp
  then show ?thesis
    using assms(3-5)
    by (simp add: HandleReceivedConnectedData_def receive_connected_data_def SEQ_GT32_iff Let_def store_object_def
        ConnectionObjectResetLastPackageInactivityTimerValue_def ConnectionObjectResetInactivityWatchdogTimerValue_def)
qed

text \<open>
  C20: Data received on a connection, from a well-formed packet with a sequenced address item: the
  data reaches the connection, with its watchdog set anew and its sequence number recorded, if it
  is the first packet or its sequence number is ahead of the last accepted one by less than half
  of the 32-bit range, across the wrap-around. A repeated or older packet only restarts the timer
  of the last packet, and a packet from another address than the originator's changes nothing.
\<close>
theorem connected_data_accepted_iff_newer:
  assumes "length payload < 65536" "length (address_info_item (st_cpf st)) = 2"
    and "GetConnectedObject st i = Some a"
    and "ConnectionObjectCalculateRegularInactivityWatchdogTimerValue (st_objects st a) = Some v"
    and "connection_receive_data_function (st_objects st a) = Some f"
  shows "HandleReceivedConnectedData receive (packet_octets (SequencedAddress i n) kCipItemIdConnectedDataItem payload [])
       (length (packet_octets (SequencedAddress i n) kCipItemIdConnectedDataItem payload [])) from_address st =
    (let st' = st\<lparr>st_cpf := parsed_packet (SequencedAddress i n) kCipItemIdConnectedDataItem payload [] [] (st_cpf st)\<rparr>;
         c = (st_objects st a)\<lparr>last_package_watchdog_timer := v\<rparr>;
         ahead = unat (n - eip_level_sequence_count_consuming c)
     in if sin_addr (originator_address c) \<noteq> sin_addr from_address then Some (kEipStatusOk, st')
        else if \<not> eip_first_level_sequence_count_received c \<or> 0 < ahead \<and> ahead < 2 ^ 31
        then receive f a payload (of_nat (length payload))
               (store_object a (c\<lparr>inactivity_watchdog_timer := v, eip_level_sequence_count_consuming := n,
                  eip_first_level_sequence_count_received := True\<rparr>) st')
        else Some (kEipStatusOk, store_object a c st'))"
  using assms by (rule HandleReceivedConnectedData_packet)

definition io_example :: "(unit connection_fn, unit) stack_state" where
  "io_example = two_class3\<lparr>st_objects := (\<lambda>_. class3_connection\<lparr>cip_consumed_connection_id := 77,
     o_to_t_requested_packet_interval := 10000, eip_first_level_sequence_count_received := True,
     eip_level_sequence_count_consuming := 0xffffffff, connection_receive_data_function := Some (FnOther ())\<rparr>)\<rparr>"

text \<open>The sequence number 1 follows 0xffffffff; the watchdog is four packet intervals.\<close>

lemma connected_data_accepted_iff_newer_witness:
  "\<exists>st. HandleReceivedConnectedData (\<lambda>_ _ data _ st. if data = [1, 2] then Some (kEipStatusOkSend, st) else None)
       (packet_octets (SequencedAddress 77 1) kCipItemIdConnectedDataItem [1, 2] [])
       (length (packet_octets (SequencedAddress 77 1) kCipItemIdConnectedDataItem [1, 2] [])) zero_address io_example =
     Some (kEipStatusOkSend, st) \<and> inactivity_watchdog_timer (st_objects st 2) = 40"
proof -
  have d: "list_data (st_connection_list io_example) = [2, 1]"
    using two_class3_active list_data_rep [of "st_connection_list two_class3" "[(1, 2), (0, 1)]"]
    by (simp add: active_def io_example_def)
  have 1: "length (address_info_item (st_cpf io_example)) = 2"
    by (simp add: io_example_def two_class3_def zero_cpf_def)
  have 2: "GetConnectedObject io_example 77 = Some 2"
    by (simp add: GetConnectedObject_def d) (simp add: io_example_def ConnectionObjectGetState_def class3_connection_simps)
  have 3: "ConnectionObjectCalculateRegularInactivityWatchdogTimerValue (st_objects io_example 2) = Some 40"
    by (simp add: io_example_def ConnectionObjectCalculateRegularInactivityWatchdogTimerValue_def class3_connection_def
        ConnectionObjectInitializeEmpty_def)
  show ?thesis
    using connected_data_accepted_iff_newer [of "[1, 2]", OF _ 1 2 3, of "FnOther ()" _ 1 zero_address]
    by (simp add: io_example_def Let_def class3_connection_def ConnectionObjectInitializeEmpty_def)
qed


end
