(* ===== verification/CipQos.thy ===== *)
theory CipQos
  imports ObjectSetup ConnectionObject
begin

text \<open>
  The quality of service object (\<^verbatim>\<open>cip/cipqos.c\<close>). The object \<^verbatim>\<open>g_qos\<close> lies in the memory of the
  attributes, from the address \<open>q\<close> on, one cell per field in the order of the structs; the active set of DSCP values
  \<^verbatim>\<open>s_active_dscp\<close> is a record.
\<close>

record dscp_values =
  dscp_event :: CipUsint
  dscp_general :: CipUsint
  dscp_urgent :: CipUsint
  dscp_scheduled :: CipUsint
  dscp_high :: CipUsint
  dscp_low :: CipUsint
  dscp_explicit_msg :: CipUsint

definition default_dscp :: dscp_values where
  "default_dscp = \<lparr>dscp_event = 59, dscp_general = 47, dscp_urgent = 55, dscp_scheduled = 47, dscp_high = 43, dscp_low = 31,
     dscp_explicit_msg = 27\<rparr>"

definition kCipQoSClassCode :: CipUdint where
  "kCipQoSClassCode = 0x48"

fun DecodeCipQoSAttribute :: decode_fn where
  "DecodeCipQoSAttribute (V8 old) req resp = do {
     (v, rest) \<leftarrow> GetUsintFromMessage (req_data req);
     let req = req\<lparr>req_data := rest\<rparr>;
     Some (if v < 64 then (1, V8 v, req, resp\<lparr>general_status := kCipErrorSuccess\<rparr>)
           else (-1, V8 old, req, resp\<lparr>general_status := kCipErrorInvalidAttributeValue\<rparr>)) }"
| "DecodeCipQoSAttribute _ _ _ = None"

text \<open>\<^term>\<open>None\<close> is the priority of explicit messages, and any other.\<close>

definition CipQosGetDscpPriority :: "dscp_values \<Rightarrow> ConnectionPriority option \<Rightarrow> CipUsint" where
  "CipQosGetDscpPriority active p =
     (case p of
        Some PriorityLow \<Rightarrow> dscp_low active
      | Some PriorityHigh \<Rightarrow> dscp_high active
      | Some PriorityScheduled \<Rightarrow> dscp_scheduled active
      | Some PriorityUrgent \<Rightarrow> dscp_urgent active
      | None \<Rightarrow> dscp_explicit_msg active)"

definition qos_rows :: "nat \<Rightarrow> attribute_row list" where
  "qos_rows q =
     (let ro = (\<lambda>n. (of_nat n, kCipUsint, EncodeCipUsint, None, Obj (q + n - 1), kNotSetOrGetable));
          rw = (\<lambda>n. (of_nat n, kCipUsint, EncodeCipUsint, Some DecodeCipQoSAttribute, Obj (q + n - 1),
                  kGetableSingle OR kSetable OR kNvDataFunc))
      in map ro [1, 2, 3] @ map rw [4, 5, 6, 7, 8])"

definition CipQoSInit :: "nat \<Rightarrow> 'u std_service registry \<Rightarrow> (EipStatus \<times> 'u std_service registry) option" where
  "CipQoSInit q objects = do {
     (c, objects) \<leftarrow> CreateCipClass objects kCipQoSClassCode 7 7 2 8 8 2 1 ''Quality of Service'' 1 None;
     c \<leftarrow> setup_instance 1 (qos_rows q)
        [(kGetAttributeSingle, SvcGetAttributeSingle, ''GetAttributeSingle''),
         (kSetAttributeSingle, SvcSetAttributeSingle, ''SetAttributeSingle'')] c;
     Some (kEipStatusOk, store_class kCipQoSClassCode c objects) }"

text \<open>The DSCP values in the memory.\<close>

fun usint_of :: "cip_value \<Rightarrow> CipUsint option" where
  "usint_of (V8 v) = Some v"
| "usint_of _ = None"

definition CipQosUpdateUsedSetQosValues :: "nat \<Rightarrow> app_memory \<Rightarrow> dscp_values option" where
  "CipQosUpdateUsedSetQosValues q mem = do {
     e \<leftarrow> usint_of (mem (q + 1));
     g \<leftarrow> usint_of (mem (q + 2));
     u \<leftarrow> usint_of (mem (q + 3));
     s \<leftarrow> usint_of (mem (q + 4));
     h \<leftarrow> usint_of (mem (q + 5));
     l \<leftarrow> usint_of (mem (q + 6));
     x \<leftarrow> usint_of (mem (q + 7));
     Some \<lparr>dscp_event = e, dscp_general = g, dscp_urgent = u, dscp_scheduled = s, dscp_high = h, dscp_low = l,
        dscp_explicit_msg = x\<rparr> }"

definition CipQosResetAttributesToDefaultValues :: "nat \<Rightarrow> app_memory \<Rightarrow> app_memory" where
  "CipQosResetAttributesToDefaultValues q mem =
     mem(q := V8 0, q + 1 := V8 (dscp_event default_dscp), q + 2 := V8 (dscp_general default_dscp),
       q + 3 := V8 (dscp_urgent default_dscp), q + 4 := V8 (dscp_scheduled default_dscp),
       q + 5 := V8 (dscp_high default_dscp), q + 6 := V8 (dscp_low default_dscp),
       q + 7 := V8 (dscp_explicit_msg default_dscp))"

end
