(* ===== verification/IoConnection.thy ===== *)
theory IoConnection
  imports ConnectionManager CipQos
begin

text \<open>
  I/O connections: the application connection types (\<^verbatim>\<open>cip/appcontype.c\<close>), setting up, closing and
  timing out of I/O connections and their data (\<^verbatim>\<open>cip/cipioconnection.c\<close>), and the functions of
  \<^verbatim>\<open>ports/generic_networkhandler.c\<close> these use. The registry of classes is an argument, as its
  structure does not change here; the data of the assemblies is memory in the state. Calls of the
  operating system and of the application are fields of the environment \<open>io_env\<close>; \<open>close\<close> is what
  calling a close function does.
\<close>

subsection \<open>State and environment\<close>

datatype io_fn =
  FnCloseIoConnection | FnHandleIoConnectionTimeOut | FnSendConnectedData | FnHandleReceivedIoConnectionData

datatype io_connection_event = IoConnectionEventOpened | IoConnectionEventTimedOut | IoConnectionEventClosed

datatype open_fn = OpenEstablishClass3Connection | OpenEstablishIoConnection

datatype udp_setup = UdpSetupOk | UdpNonBlockingFails | UdpReuseAddrFails | UdpBindFails

record io_env =
  os_udp_setup :: "int \<Rightarrow> udp_setup"
  os_sendto :: "int \<Rightarrow> sockaddr_in \<Rightarrow> octet list \<Rightarrow> int"
  os_getpeername :: "int \<Rightarrow> sockaddr_in option"
  os_set_qos :: "int \<Rightarrow> CipUsint \<Rightarrow> int"
  os_endianess :: OpenerEndianess
  app_io_connection_event :: "CipInstanceNum \<Rightarrow> CipInstanceNum \<Rightarrow> io_connection_event \<Rightarrow> app_memory \<Rightarrow> app_memory"
  app_run_idle_changed :: "32 word \<Rightarrow> app_memory \<Rightarrow> app_memory"
  app_after_received :: after_received
  app_before_send :: before_send
  app_handle_application :: "app_memory \<Rightarrow> app_memory"

record connection_point =
  output_assembly :: "32 word"
  input_assembly :: "32 word"
  config_assembly :: "32 word"

text \<open>
  The variables of these files, with the socket of the I/O messages and the results of the next
  calls of \<^verbatim>\<open>socket()\<close> and of \<^verbatim>\<open>rand()\<close>.
\<close>

record io_state =
  g_exlusive_owner_connections :: "connection_point list"
  g_input_only_connections :: "connection_point list"
  g_listen_only_connections :: "connection_point list"
  g_run_idle_state :: "32 word"
  s_consume_run_idle :: bool
  s_produce_run_idle :: bool
  udp_io_messaging :: int
  highest_socket_handle :: int
  s_active_dscp :: dscp_values
  g_current_active_tcp_socket :: int
  os_sockets :: "int list"
  os_rand :: "CipUint list"
  io_memory :: app_memory

type_synonym 'z io_stack = "(io_fn, open_fn, 'z io_state_scheme) cm_stack"

type_synonym 'z io_close = "(io_fn connection_fn, (open_fn, 'z io_state_scheme) cm_state) close_call"

abbreviation io :: "'z io_stack \<Rightarrow> 'z io_state_scheme" where
  "io st \<equiv> cm_rest (st_app st)"

definition upd_io :: "('z io_state_scheme \<Rightarrow> 'z io_state_scheme) \<Rightarrow> 'z io_stack \<Rightarrow> 'z io_stack" where
  "upd_io f st = st\<lparr>st_app := (st_app st)\<lparr>cm_rest := f (io st)\<rparr>\<rparr>"

definition on_memory :: "(app_memory \<Rightarrow> app_memory) \<Rightarrow> 'z io_stack \<Rightarrow> 'z io_stack" where
  "on_memory f = upd_io (\<lambda>i. i\<lparr>io_memory := f (io_memory i)\<rparr>)"

definition modify_object ::
    "nat \<Rightarrow> ('fn connection_object \<Rightarrow> 'fn connection_object) \<Rightarrow> ('fn, 'app) stack_state \<Rightarrow> ('fn, 'app) stack_state" where
  "modify_object a f st = store_object a (f (st_objects st a)) st"

definition kOpenerEipIoUdpPort :: "16 word" where
  "kOpenerEipIoUdpPort = 2222"

definition CipRunIdleHeaderSetO2T :: "bool \<Rightarrow> 'z io_stack \<Rightarrow> 'z io_stack" where
  "CipRunIdleHeaderSetO2T onoff = upd_io (\<lambda>i. i\<lparr>s_consume_run_idle := onoff\<rparr>)"

definition CipRunIdleHeaderSetT2O :: "bool \<Rightarrow> 'z io_stack \<Rightarrow> 'z io_stack" where
  "CipRunIdleHeaderSetT2O onoff = upd_io (\<lambda>i. i\<lparr>s_produce_run_idle := onoff\<rparr>)"

definition ConnectionObjectGetTToOPriority :: "'fn connection_object \<Rightarrow> ConnectionPriority option" where
  "ConnectionObjectGetTToOPriority c =
     ConnectionObjectGetPriority (t_to_o_network_connection_parameters c) (is_large_forward_open c)"

definition ConnectionObjectGetTToOConnectionSizeType :: "'fn connection_object \<Rightarrow> ConnectionSizeType" where
  "ConnectionObjectGetTToOConnectionSizeType c =
     ConnectionObjectGetConnectionSizeType (t_to_o_network_connection_parameters c) (is_large_forward_open c)"

subsection \<open>Sockets\<close>

text \<open>Setting a socket to non-blocking mode must not fail: an assertion.\<close>

definition CreateUdpSocket :: "io_env \<Rightarrow> 'z io_stack \<Rightarrow> (int \<times> 'z io_stack) option" where
  "CreateUdpSocket env st =
     (let s = (case os_sockets (io st) of [] \<Rightarrow> kEipInvalidSocket | x # _ \<Rightarrow> x);
          st = upd_io (\<lambda>i. i\<lparr>udp_io_messaging := s, os_sockets := tl (os_sockets i)\<rparr>) st
      in if s = kEipInvalidSocket then Some (kEipInvalidSocket, st)
         else case os_udp_setup env s of
           UdpSetupOk \<Rightarrow> Some (s, upd_io (\<lambda>i. i\<lparr>highest_socket_handle := max s (highest_socket_handle i)\<rparr>)
             (st\<lparr>master_socket := insert s (master_socket st)\<rparr>))
         | UdpNonBlockingFails \<Rightarrow> None
         | _ \<Rightarrow> Some (kEipInvalidSocket, CloseUdpSocket s st))"

definition GetPeerAddress :: "io_env \<Rightarrow> 'z io_stack \<Rightarrow> CipUdint" where
  "GetPeerAddress env st =
     (case os_getpeername env (g_current_active_tcp_socket (io st)) of None \<Rightarrow> 0 | Some p \<Rightarrow> sin_addr p)"

definition SetQos :: "io_env \<Rightarrow> ConnectionPriority option \<Rightarrow> 'z io_stack \<Rightarrow> int" where
  "SetQos env priority st = os_set_qos env (udp_io_messaging (io st)) (CipQosGetDscpPriority (s_active_dscp (io st)) priority)"

definition SendUdpData :: "io_env \<Rightarrow> sockaddr_in \<Rightarrow> enip_message \<Rightarrow> 'z io_stack \<Rightarrow> EipStatus \<times> 'z io_stack" where
  "SendUdpData env address m st =
     (let octets = take (unat (used_message_length m)) (message_buffer m);
          sent_length = os_sendto env (udp_io_messaging (io st)) address octets
      in (if sent_length < 0 \<or> sent_length \<noteq> int (unat (used_message_length m)) then kEipStatusError else kEipStatusOk,
          log_effect (SentDatagram (udp_io_messaging (io st)) address octets) st))"

subsection \<open>Application connection types\<close>

definition exclusive_owner_object :: "nat \<Rightarrow> nat" where
  "exclusive_owner_object i = 1 + OPENER_CIP_NUM_EXPLICIT_CONNS + i"

definition input_only_object :: "nat \<Rightarrow> nat \<Rightarrow> nat" where
  "input_only_object i j = 1 + OPENER_CIP_NUM_EXPLICIT_CONNS + OPENER_CIP_NUM_EXLUSIVE_OWNER_CONNS
     + OPENER_CIP_NUM_INPUT_ONLY_CONNS_PER_CON_PATH * i + j"

definition listen_only_object :: "nat \<Rightarrow> nat \<Rightarrow> nat" where
  "listen_only_object i j = 1 + OPENER_CIP_NUM_EXPLICIT_CONNS + OPENER_CIP_NUM_EXLUSIVE_OWNER_CONNS
     + OPENER_CIP_NUM_INPUT_ONLY_CONNS * OPENER_CIP_NUM_INPUT_ONLY_CONNS_PER_CON_PATH
     + OPENER_CIP_NUM_LISTEN_ONLY_CONNS_PER_CON_PATH * i + j"

definition ConfigureExclusiveOwnerConnectionPoint ::
    "nat \<Rightarrow> 32 word \<Rightarrow> 32 word \<Rightarrow> 32 word \<Rightarrow> 'z io_stack \<Rightarrow> 'z io_stack" where
  "ConfigureExclusiveOwnerConnectionPoint n out inp cfg st =
     (if OPENER_CIP_NUM_EXLUSIVE_OWNER_CONNS > n
      then upd_io (\<lambda>i. i\<lparr>g_exlusive_owner_connections := (g_exlusive_owner_connections i)[n :=
             \<lparr>output_assembly = out, input_assembly = inp, config_assembly = cfg\<rparr>]\<rparr>) st
      else st)"

definition ConfigureInputOnlyConnectionPoint ::
    "nat \<Rightarrow> 32 word \<Rightarrow> 32 word \<Rightarrow> 32 word \<Rightarrow> 'z io_stack \<Rightarrow> 'z io_stack" where
  "ConfigureInputOnlyConnectionPoint n out inp cfg st =
     (if OPENER_CIP_NUM_INPUT_ONLY_CONNS > n
      then upd_io (\<lambda>i. i\<lparr>g_input_only_connections := (g_input_only_connections i)[n :=
             \<lparr>output_assembly = out, input_assembly = inp, config_assembly = cfg\<rparr>]\<rparr>) st
      else st)"

definition ConfigureListenOnlyConnectionPoint ::
    "nat \<Rightarrow> 32 word \<Rightarrow> 32 word \<Rightarrow> 32 word \<Rightarrow> 'z io_stack \<Rightarrow> 'z io_stack" where
  "ConfigureListenOnlyConnectionPoint n out inp cfg st =
     (if OPENER_CIP_NUM_LISTEN_ONLY_CONNS > n
      then upd_io (\<lambda>i. i\<lparr>g_listen_only_connections := (g_listen_only_connections i)[n :=
             \<lparr>output_assembly = out, input_assembly = inp, config_assembly = cfg\<rparr>]\<rparr>) st
      else st)"

definition zero_point :: connection_point where
  "zero_point = \<lparr>output_assembly = 0, input_assembly = 0, config_assembly = 0\<rparr>"

definition InitializeIoConnectionData :: "'z io_stack \<Rightarrow> 'z io_stack" where
  "InitializeIoConnectionData st =
     fold (\<lambda>a. store_object a zero_connection_object)
       (map exclusive_owner_object [0..<OPENER_CIP_NUM_EXLUSIVE_OWNER_CONNS]
        @ concat (map (\<lambda>i. map (input_only_object i) [0..<OPENER_CIP_NUM_INPUT_ONLY_CONNS_PER_CON_PATH])
            [0..<OPENER_CIP_NUM_INPUT_ONLY_CONNS])
        @ concat (map (\<lambda>i. map (listen_only_object i) [0..<OPENER_CIP_NUM_LISTEN_ONLY_CONNS_PER_CON_PATH])
            [0..<OPENER_CIP_NUM_LISTEN_ONLY_CONNS]))
       (upd_io (\<lambda>i. i\<lparr>g_exlusive_owner_connections := replicate OPENER_CIP_NUM_EXLUSIVE_OWNER_CONNS zero_point,
          g_input_only_connections := replicate OPENER_CIP_NUM_INPUT_ONLY_CONNS zero_point,
          g_listen_only_connections := replicate OPENER_CIP_NUM_LISTEN_ONLY_CONNS zero_point\<rparr>) st)"

definition GetExistingProducerIoConnection :: "bool \<Rightarrow> CipInstanceNum \<Rightarrow> ('fn, 'app) stack_state \<Rightarrow> nat option" where
  "GetExistingProducerIoConnection multicast_only input_point =
     find_active (\<lambda>c. ConnectionObjectIsTypeIOConnection c \<and> input_point = cp_instance_id (produced_path c)
       \<and> kEipInvalidSocket \<noteq> socket_producing c
       \<and> (ConnectionObjectGetTToOConnectionType c = ConnectionTypeMulticast
          \<or> \<not> multicast_only \<and> ConnectionObjectGetTToOConnectionType c = ConnectionTypePointToPoint))"

definition GetNextNonControlMasterConnection :: "CipInstanceNum \<Rightarrow> ('fn, 'app) stack_state \<Rightarrow> nat option" where
  "GetNextNonControlMasterConnection input_point =
     find_active (\<lambda>c. ConnectionObjectIsTypeNonLOIOConnection c
       \<and> ConnectionObjectGetState c = kConnectionObjectStateEstablished
       \<and> input_point = cp_instance_id (produced_path c)
       \<and> ConnectionObjectGetTToOConnectionType c = ConnectionTypeMulticast
       \<and> kEipInvalidSocket = socket_producing c)"

definition ConnectionWithSameConfigPointExists :: "CipInstanceNum \<Rightarrow> ('fn, 'app) stack_state \<Rightarrow> bool" where
  "ConnectionWithSameConfigPointExists config_point st \<longleftrightarrow>
     find_active (\<lambda>c. config_point = cp_instance_id (configuration_path c)) st \<noteq> None"

definition CheckIoConnectionEvent :: "io_env \<Rightarrow> nat \<Rightarrow> io_connection_event \<Rightarrow> 'z io_stack \<Rightarrow> 'z io_stack" where
  "CheckIoConnectionEvent env a ev st =
     on_memory (app_io_connection_event env (cp_instance_id (consumed_path (st_objects st a)))
       (cp_instance_id (produced_path (st_objects st a))) ev) st"

definition close_if_same_type ::
    "io_env \<Rightarrow> 'z io_close \<Rightarrow> CipInstanceNum \<Rightarrow> CipUsint \<Rightarrow> nat \<Rightarrow> 'z io_stack \<Rightarrow> 'z io_stack option" where
  "close_if_same_type env close input_point itype a st =
     (if itype = instance_type (st_objects st a) \<and> input_point = cp_instance_id (produced_path (st_objects st a))
      then do {
        let st = CheckIoConnectionEvent env a IoConnectionEventClosed st;
        f \<leftarrow> connection_close_function (st_objects st a);
        close f a st
      } else Some st)"

text \<open>The next node is taken before the connection is closed.\<close>

partial_function (option) close_input_loop ::
    "io_env \<Rightarrow> 'z io_close \<Rightarrow> CipInstanceNum \<Rightarrow> CipUsint \<Rightarrow> nat option \<Rightarrow> 'z io_stack \<Rightarrow> 'z io_stack option" where
  "close_input_loop env close input_point itype node st =
     (case node of
        None \<Rightarrow> Some st
      | Some n \<Rightarrow> do {
          a \<leftarrow> node_data (snd (st_connection_list st) ! n);
          let next_node = node_next (snd (st_connection_list st) ! n);
          st \<leftarrow> close_if_same_type env close input_point itype a st;
          close_input_loop env close input_point itype next_node st })"

definition CloseAllConnectionsForInputWithSameType ::
    "io_env \<Rightarrow> 'z io_close \<Rightarrow> CipInstanceNum \<Rightarrow> CipUsint \<Rightarrow> 'z io_stack \<Rightarrow> 'z io_stack option" where
  "CloseAllConnectionsForInputWithSameType env close input_point itype st =
     close_input_loop env close input_point itype (dll_first (fst (st_connection_list st))) st"

partial_function (option) CloseAllConnections ::
    "('fn, 'app) close_call \<Rightarrow> ('fn, 'app) stack_state \<Rightarrow> ('fn, 'app) stack_state option" where
  "CloseAllConnections close st =
     (case dll_first (fst (st_connection_list st)) of
        None \<Rightarrow> Some st
      | Some n \<Rightarrow> do {
          a \<leftarrow> node_data (snd (st_connection_list st) ! n);
          f \<leftarrow> connection_close_function (st_objects st a);
          st \<leftarrow> close f a st;
          CloseAllConnections close st })"

text \<open>
  Looking for the object of a new connection: one exclusive owner per connection point; the
  input-only and listen-only points have several objects each. An object that timed out with the
  same originator is closed and taken again.
\<close>

definition GetExclusiveOwnerConnection ::
    "'z io_close \<Rightarrow> nat \<Rightarrow> 16 word \<Rightarrow> 'z io_stack \<Rightarrow> (nat option \<times> 16 word \<times> 'z io_stack) option" where
  "GetExclusiveOwnerConnection close a extended_error st =
     (let c = st_objects st a
      in case first_index (\<lambda>p. output_assembly p = ucast (cp_instance_id (consumed_path c))
             \<and> input_assembly p = ucast (cp_instance_id (produced_path c))
             \<and> config_assembly p = ucast (cp_instance_id (configuration_path c)))
             (g_exlusive_owner_connections (io st)) of
           None \<Rightarrow> Some (None, extended_error, st)
         | Some i \<Rightarrow>
             (case GetConnectedOutputAssembly (ucast (cp_instance_id (produced_path c))) st of
                None \<Rightarrow> Some (Some (exclusive_owner_object i), extended_error, st)
              | Some e \<Rightarrow>
                  if ConnectionObjectGetState (st_objects st e) = kConnectionObjectStateEstablished
                  then Some (None, 0x0106, st)
                  else if ConnectionObjectGetState (st_objects st e) = kConnectionObjectStateTimedOut
                     \<and> ConnectionObjectEqualOriginator c (st_objects st e)
                  then do {
                    f \<leftarrow> connection_close_function (st_objects st (exclusive_owner_object i));
                    st \<leftarrow> close f (exclusive_owner_object i) st;
                    Some (Some (exclusive_owner_object i), extended_error, st)
                  } else Some (None, 0x0106, st)))"

definition find_in_pool ::
    "'z io_close \<Rightarrow> nat list \<Rightarrow> nat \<Rightarrow> 'z io_stack \<Rightarrow> (nat option \<times> 16 word \<times> 'z io_stack) option" where
  "find_in_pool close pool a st =
     (case find (\<lambda>b. ConnectionObjectGetState (st_objects st b) = kConnectionObjectStateTimedOut
           \<and> ConnectionObjectEqualOriginator (st_objects st a) (st_objects st b)) pool of
        Some b \<Rightarrow> do {
          f \<leftarrow> connection_close_function (st_objects st b);
          st \<leftarrow> close f b st;
          Some (Some b, 0, st) }
      | None \<Rightarrow>
          (case find (\<lambda>b. ConnectionObjectGetState (st_objects st b) = kConnectionObjectStateNonExistent) pool of
             Some b \<Rightarrow> Some (Some b, 0, st)
           | None \<Rightarrow> Some (None, 0x011A, st)))"

fun search_points ::
    "'z io_close \<Rightarrow> (nat \<Rightarrow> nat list) \<Rightarrow> bool \<Rightarrow> nat \<Rightarrow> (nat \<times> connection_point) list \<Rightarrow> 16 word \<Rightarrow> 'z io_stack
      \<Rightarrow> (nat option \<times> 16 word \<times> 'z io_stack) option" where
  "search_points close pool producer_needed a [] err st = Some (None, err, st)"
| "search_points close pool producer_needed a ((i, p) # ps) err st =
     (let c = st_objects st a
      in if output_assembly p = ucast (cp_instance_id (consumed_path c)) then
           if input_assembly p \<noteq> ucast (cp_instance_id (produced_path c))
           then search_points close pool producer_needed a ps 0x012B st
           else if config_assembly p \<noteq> ucast (cp_instance_id (configuration_path c))
           then search_points close pool producer_needed a ps 0x012F st
           else if producer_needed \<and> GetExistingProducerIoConnection False (cp_instance_id (produced_path c)) st = None
           then Some (None, 0x0119, st)
           else find_in_pool close (pool i) a st
         else search_points close pool producer_needed a ps err st)"

text \<open>When an object is found the extended error of the caller stays.\<close>

definition keep_error :: "16 word \<Rightarrow> nat option \<times> 16 word \<times> 's \<Rightarrow> nat option \<times> 16 word \<times> 's" where
  "keep_error extended_error = (\<lambda>(r, err, st). (r, if r = None then err else extended_error, st))"

definition GetInputOnlyConnection ::
    "'z io_close \<Rightarrow> nat \<Rightarrow> 16 word \<Rightarrow> 'z io_stack \<Rightarrow> (nat option \<times> 16 word \<times> 'z io_stack) option" where
  "GetInputOnlyConnection close a extended_error st = map_option (keep_error extended_error)
     (search_points close (\<lambda>i. map (input_only_object i) [0..<OPENER_CIP_NUM_INPUT_ONLY_CONNS_PER_CON_PATH]) False a
       (enumerate 0 (g_input_only_connections (io st))) 0 st)"

definition GetListenOnlyConnection ::
    "'z io_close \<Rightarrow> nat \<Rightarrow> 16 word \<Rightarrow> 'z io_stack \<Rightarrow> (nat option \<times> 16 word \<times> 'z io_stack) option" where
  "GetListenOnlyConnection close a extended_error st = map_option (keep_error extended_error)
     (search_points close (\<lambda>i. map (listen_only_object i) [0..<OPENER_CIP_NUM_LISTEN_ONLY_CONNS_PER_CON_PATH]) True a
       (enumerate 0 (g_listen_only_connections (io st))) 0 st)"

definition GetIoConnectionForConnectionData ::
    "'z io_close \<Rightarrow> nat \<Rightarrow> 'z io_stack \<Rightarrow> (nat option \<times> 16 word \<times> 'z io_stack) option" where
  "GetIoConnectionForConnectionData close a st = do {
     let set_type = (\<lambda>t. modify_object a (\<lambda>c. c\<lparr>instance_type := t\<rparr>));
     (r, err, st) \<leftarrow> GetExclusiveOwnerConnection close a 0 st;
     (r, err, st) \<leftarrow>
       (if r \<noteq> None then Some (r, err, set_type kInstanceTypeIOExclusiveOwner st)
        else if err \<noteq> 0 then Some (None, err, st)
        else do {
          (r, err, st) \<leftarrow> GetInputOnlyConnection close a err st;
          if r \<noteq> None then Some (r, err, set_type kInstanceTypeIOInputOnly st)
          else if err \<noteq> 0 then Some (None, err, st)
          else do {
            (r, err, st) \<leftarrow> GetListenOnlyConnection close a err st;
            Some (if r = None \<and> err = 0 then (None, 0x012F, st)
                  else (r, err, set_type kInstanceTypeIOListenOnly st)) } });
     Some (r, err, case r of None \<Rightarrow> st | Some b \<Rightarrow> store_object b (st_objects st a) st) }"

subsection \<open>Setting up a connection\<close>

definition ProcessProductionInhibitTime :: "'fn connection_object \<Rightarrow> 16 word \<times> 'fn connection_object" where
  "ProcessProductionInhibitTime c =
     (if ConnectionObjectGetTransportClassTriggerProductionTrigger c = ProductionTriggerCyclic then
        if production_inhibit_time c = 256
        then (0, c\<lparr>production_inhibit_time := ucast (t_to_o_requested_packet_interval c div 4000)\<rparr>)
        else if ucast (production_inhibit_time c) > t_to_o_requested_packet_interval c div 1000 then (0x011B, c)
        else (0, c)
      else (0, c))"

definition SetIoConnectionCallbacks :: "io_fn connection_fn connection_object \<Rightarrow> io_fn connection_fn connection_object" where
  "SetIoConnectionCallbacks c = c\<lparr>connection_close_function := Some (FnOther FnCloseIoConnection),
     connection_timeout_function := Some (FnOther FnHandleIoConnectionTimeOut),
     connection_send_data_function := Some (FnOther FnSendConnectedData),
     connection_receive_data_function := Some (FnOther FnHandleReceivedIoConnectionData)\<rparr>"

definition assembly_data :: "'svc cip_class \<Rightarrow> cip_instance \<Rightarrow> app_memory \<Rightarrow> (16 word \<times> octet list) option" where
  "assembly_data cls inst mem = do {
     attr \<leftarrow> GetCipAttribute (core cls) inst kAssemblyObjectInstanceAttributeIdData;
     r \<leftarrow> attr_data attr;
     case r of Obj n \<Rightarrow> (case mem n of VByteArray l d \<Rightarrow> Some (l, d) | _ \<Rightarrow> None) | _ \<Rightarrow> None }"

text \<open>
  The size of the data of a connection with the connection size \<open>conn_size\<close>, without the sequence
  count of class 1 and the run/idle header, and the size of these two; heartbeat connections have no
  run/idle header.
\<close>

definition data_sizes :: "'fn connection_object \<Rightarrow> bool \<Rightarrow> bool \<Rightarrow> int \<Rightarrow> int \<times> int" where
  "data_sizes c run_idle is_heartbeat conn_size =
     (let (data_size, diff_size) =
            (if ConnectionObjectGetTransportClassTriggerTransportClass c = TransportClass1 then (conn_size - 2, 2) else (conn_size, 0))
      in if run_idle \<and> data_size > 0 \<and> \<not> is_heartbeat then (data_size - 4, diff_size + 4) else (data_size, diff_size))"

text \<open>\<open>b\<close> is the object of the new connection, \<open>a\<close> the object with the request.\<close>

definition SetupIoConnectionOriginatorToTargetConnectionPoint ::
    "'svc registry \<Rightarrow> nat \<Rightarrow> nat \<Rightarrow> 'z io_stack \<Rightarrow> (16 word \<times> 'z io_stack) option" where
  "SetupIoConnectionOriginatorToTargetConnectionPoint objects b a st = do {
     cls \<leftarrow> GetCipClass objects kCipAssemblyClassCode;
     let c = st_objects st b;
     case GetCipInstance cls (cp_instance_id (consumed_path c)) of
       None \<Rightarrow> Some (0x012A, st)
     | Some inst \<Rightarrow> do {
         let c = c\<lparr>consuming_instance := Some (cp_instance_id (consumed_path c)),
            consumed_path := (consumed_path c)\<lparr>cp_connection_point := 3\<rparr>\<rparr>;
         let st = store_object b c st;
         (l, d) \<leftarrow> assembly_data cls inst (io_memory (io st));
         let (data_size, diff_size) = data_sizes c (s_consume_run_idle (io st)) (l = 0)
            (int (unat (ConnectionObjectGetOToTConnectionSize c)));
         Some (if int (unat l) \<noteq> data_size
           then (0x0127, modify_object a (\<lambda>c. c\<lparr>correct_originator_to_target_size := l + of_int diff_size\<rparr>) st)
           else (0, st)) } }"

text \<open>The first connection in the list with the same input assembly and other parameters decides on the error.\<close>

definition multicast_mismatch :: "'fn connection_object \<Rightarrow> 'fn connection_object \<Rightarrow> 16 word" where
  "multicast_mismatch c d =
     (if cp_instance_id (produced_path c) \<noteq> cp_instance_id (produced_path d) then 0
      else if t_to_o_requested_packet_interval c \<noteq> t_to_o_requested_packet_interval d then 0x0112
      else if ConnectionObjectGetTToOConnectionSizeType c \<noteq> ConnectionObjectGetTToOConnectionSizeType d then 0x0135
      else if ConnectionObjectGetTToOPriority c \<noteq> ConnectionObjectGetTToOPriority d then 0x0136
      else if ConnectionObjectGetTransportClassTriggerTransportClass c
         \<noteq> ConnectionObjectGetTransportClassTriggerTransportClass d then 0x0137
      else if ConnectionObjectGetTransportClassTriggerProductionTrigger c
         \<noteq> ConnectionObjectGetTransportClassTriggerProductionTrigger d then 0x0138
      else if production_inhibit_time c \<noteq> production_inhibit_time d then 0x0139
      else 0)"

definition SetupIoConnectionTargetToOriginatorConnectionPoint ::
    "'svc registry \<Rightarrow> nat \<Rightarrow> nat \<Rightarrow> 'z io_stack \<Rightarrow> (16 word \<times> 'z io_stack) option" where
  "SetupIoConnectionTargetToOriginatorConnectionPoint objects b a st =
     (let c = st_objects st b
      in case (if ConnectionObjectGetTToOConnectionType c = ConnectionTypeMulticast
               then find_active (\<lambda>d. multicast_mismatch c d \<noteq> 0) st else None) of
           Some e \<Rightarrow> Some (multicast_mismatch c (st_objects st e), st)
         | None \<Rightarrow> do {
             cls \<leftarrow> GetCipClass objects kCipAssemblyClassCode;
             case GetCipInstance cls (cp_instance_id (produced_path c)) of
               None \<Rightarrow> Some (0x012B, st)
             | Some inst \<Rightarrow> do {
                 let c = c\<lparr>producing_instance := Some (cp_instance_id (produced_path c)),
                    produced_path := (produced_path c)\<lparr>cp_connection_point := 3\<rparr>\<rparr>;
                 let st = store_object b c st;
                 (l, d) \<leftarrow> assembly_data cls inst (io_memory (io st));
                 let (data_size, diff_size) = data_sizes c (s_produce_run_idle (io st)) (l = 0)
                    (int (unat (ConnectionObjectGetTToOConnectionSize c)));
                 Some (if int (unat l) \<noteq> data_size
                   then (0x0128, modify_object a (\<lambda>c. c\<lparr>correct_target_to_originator_size := l + of_int diff_size\<rparr>) st)
                   else (0, st)) } })"

subsection \<open>Opening the channels\<close>

datatype UdpCommuncationDirection = kUdpCommuncationDirectionConsuming | kUdpCommuncationDirectionProducing

definition AllocateSocketAddressInfoItem :: "cpf_data \<Rightarrow> CipUint \<Rightarrow> nat option" where
  "AllocateSocketAddressInfoItem g t =
     first_index (\<lambda>s. sa_type_id s = 0 \<or> sa_type_id s = t) (take 2 (address_info_item g))"

definition AF_INET :: "16 word" where
  "AF_INET = 2"

definition set_info :: "nat \<Rightarrow> (socket_address_info_item \<Rightarrow> socket_address_info_item) \<Rightarrow> ('fn, 'app) stack_state \<Rightarrow> ('fn, 'app) stack_state" where
  "set_info j f st = st\<lparr>st_cpf := (st_cpf st)\<lparr>address_info_item :=
     (address_info_item (st_cpf st))[j := f (address_info_item (st_cpf st) ! j)]\<rparr>\<rparr>"

definition OpenConsumingPointToPointConnection ::
    "io_env \<Rightarrow> nat \<Rightarrow> 'z io_stack \<Rightarrow> EipStatus \<times> 'z io_stack" where
  "OpenConsumingPointToPointConnection env b st =
     (case AllocateSocketAddressInfoItem (st_cpf st) kCipItemIdSocketAddressInfoOriginatorToTarget of
        None \<Rightarrow> (kEipStatusError, st)
      | Some j \<Rightarrow>
          let port = htons (os_endianess env) kOpenerEipIoUdpPort
          in if SetQos env (ConnectionObjectGetTToOPriority (st_objects st b)) st \<noteq> 0 then (kEipStatusError, st)
             else (kEipStatusOk,
               set_info j (\<lambda>s. s\<lparr>sa_length := 16, sa_type_id := kCipItemIdSocketAddressInfoOriginatorToTarget,
                   sa_port := port, sa_addr := 0, nasin_zero := replicate 8 0,
                   sa_family := htons (os_endianess env) AF_INET\<rparr>)
                 (modify_object b (\<lambda>c. c\<lparr>originator_address := \<lparr>sin_port = port, sin_addr = GetPeerAddress env st\<rparr>,
                    socket_consuming := udp_io_messaging (io st)\<rparr>) st)))"

text \<open>The result 0 is success; the error is the status \<^term>\<open>kEipStatusError\<close> in the place of a CIP error.\<close>

definition OpenProducingPointToPointConnection ::
    "io_env \<Rightarrow> nat \<Rightarrow> 'z io_stack \<Rightarrow> bool \<times> 'z io_stack" where
  "OpenProducingPointToPointConnection env b st =
     (let items = address_info_item (st_cpf st);
          port = (if sa_type_id (items ! 0) = kCipItemIdSocketAddressInfoTargetToOriginator then sa_port (items ! 0)
                  else if sa_type_id (items ! 1) = kCipItemIdSocketAddressInfoTargetToOriginator then sa_port (items ! 1)
                  else htons (os_endianess env) kOpenerEipIoUdpPort);
          st = modify_object b (\<lambda>c. c\<lparr>remote_address := \<lparr>sin_port = port, sin_addr = GetPeerAddress env st\<rparr>\<rparr>) st
      in if SetQos env (ConnectionObjectGetTToOPriority (st_objects st b)) st \<noteq> 0 then (False, st)
         else (True, modify_object b (\<lambda>c. c\<lparr>socket_producing := udp_io_messaging (io st)\<rparr>) st))"

definition OpenMulticastConnection ::
    "io_env \<Rightarrow> UdpCommuncationDirection \<Rightarrow> nat \<Rightarrow> 'z io_stack \<Rightarrow> EipStatus \<times> 'z io_stack" where
  "OpenMulticastConnection env direction b st =
     (let t = (case direction of kUdpCommuncationDirectionConsuming \<Rightarrow> kCipItemIdSocketAddressInfoOriginatorToTarget
               | kUdpCommuncationDirectionProducing \<Rightarrow> kCipItemIdSocketAddressInfoTargetToOriginator)
      in case first_index (\<lambda>s. sa_type_id s = t) (take 2 (address_info_item (st_cpf st))) of
           None \<Rightarrow> (kEipStatusError, st)
         | Some j \<Rightarrow>
             let e = os_endianess env;
                 st = (if t = kCipItemIdSocketAddressInfoTargetToOriginator
                       then set_info j (\<lambda>s. s\<lparr>sa_family := htons e AF_INET, sa_port := htons e kOpenerEipIoUdpPort,
                              sa_addr := starting_multicast_address (mcast_config (g_tcpip st)), nasin_zero := replicate 8 0, sa_length := 16\<rparr>) st
                       else st);
                 s = address_info_item (st_cpf st) ! j
             in if htons e AF_INET \<noteq> sa_family s then (kEipStatusError, st)
                else if SetQos env (ConnectionObjectGetTToOPriority (st_objects st b)) st \<noteq> 0 then (kEipStatusError, st)
                else (kEipStatusOk, (case direction of
                  kUdpCommuncationDirectionConsuming \<Rightarrow>
                    modify_object b (\<lambda>c. c\<lparr>socket_consuming := udp_io_messaging (io st),
                      originator_address := \<lparr>sin_port = sa_port s, sin_addr = GetPeerAddress env st\<rparr>\<rparr>) st
                | kUdpCommuncationDirectionProducing \<Rightarrow>
                    modify_object b (\<lambda>c. c\<lparr>socket_producing := udp_io_messaging (io st),
                      remote_address := \<lparr>sin_port = sa_port s, sin_addr = sa_addr s\<rparr>\<rparr>) st)))"

definition OpenProducingMulticastConnection :: "io_env \<Rightarrow> nat \<Rightarrow> 'z io_stack \<Rightarrow> EipStatus \<times> 'z io_stack" where
  "OpenProducingMulticastConnection env b st =
     (let existing = GetExistingProducerIoConnection True (cp_instance_id (produced_path (st_objects st b))) st;
          t = kCipItemIdSocketAddressInfoTargetToOriginator; e = os_endianess env
      in case AllocateSocketAddressInfoItem (st_cpf st) t of
           None \<Rightarrow> (kEipStatusError, st)
         | Some j \<Rightarrow>
             let s = address_info_item (st_cpf st) ! j;
                 port = (if t \<noteq> sa_type_id s then sa_port s else htons e kOpenerEipIoUdpPort);
                 st = set_info j (\<lambda>s. s\<lparr>sa_type_id := t\<rparr>) st
             in case existing of
                  None \<Rightarrow> OpenMulticastConnection env kUdpCommuncationDirectionProducing b st
                | Some x \<Rightarrow>
                    let st = modify_object b (\<lambda>c. c\<lparr>cip_produced_connection_id := cip_produced_connection_id (st_objects st x)\<rparr>) st;
                        st = (if instance_type (st_objects st b) = kInstanceTypeIOExclusiveOwner
                          then modify_object x (\<lambda>d. d\<lparr>socket_producing := kEipInvalidSocket\<rparr>)
                                 (modify_object b (\<lambda>c. c\<lparr>socket_producing := socket_producing (st_objects st x)\<rparr>) st)
                          else modify_object b (\<lambda>c. c\<lparr>socket_producing := kEipInvalidSocket\<rparr>) st);
                        m = starting_multicast_address (mcast_config (g_tcpip st))
                    in (kEipStatusOk,
                        set_info j (\<lambda>s. s\<lparr>sa_length := 16, sa_port := port, sa_addr := m, nasin_zero := replicate 8 0,
                            sa_family := htons e AF_INET\<rparr>)
                          (modify_object b (\<lambda>c. c\<lparr>remote_address := \<lparr>sin_port = port, sin_addr = m\<rparr>\<rparr>) st)))"

text \<open>The result of opening a consuming multicast connection is tested with the wrong sign.\<close>

definition OpenCommunicationChannels :: "io_env \<Rightarrow> nat \<Rightarrow> 'z io_stack \<Rightarrow> (octet \<times> 'z io_stack) option" where
  "OpenCommunicationChannels env b st = do {
     (_, st) \<leftarrow> CreateUdpSocket env st;
     let o_to_t = ConnectionObjectGetOToTConnectionType (st_objects st b);
     let t_to_o = ConnectionObjectGetTToOConnectionType (st_objects st b);
     let (ok, st) =
       (if o_to_t = ConnectionTypeMulticast
        then (case OpenMulticastConnection env kUdpCommuncationDirectionConsuming b st of
                (status, st) \<Rightarrow> (\<not> status \<noteq> kEipStatusError, st))
        else if o_to_t = ConnectionTypePointToPoint
        then (case OpenConsumingPointToPointConnection env b st of (status, st) \<Rightarrow> (status \<noteq> kEipStatusError, st))
        else (True, st));
     if \<not> ok then Some (kCipErrorConnectionFailure, st)
     else
       let (ok, st) =
         (if t_to_o = ConnectionTypeMulticast
          then (case OpenProducingMulticastConnection env b st of (status, st) \<Rightarrow> (status \<noteq> kEipStatusError, st))
          else if t_to_o = ConnectionTypePointToPoint then OpenProducingPointToPointConnection env b st
          else (True, st))
       in Some (if ok then kCipErrorSuccess else kCipErrorConnectionFailure, st) }"


subsection \<open>Configuration data\<close>

definition HandleConfigData :: "io_env \<Rightarrow> 'svc registry \<Rightarrow> nat \<Rightarrow> 'z io_stack \<Rightarrow> (16 word \<times> 'z io_stack) option" where
  "HandleConfigData env objects b st = do {
     cls \<leftarrow> GetCipClass objects kCipAssemblyClassCode;
     let n = cp_instance_id (configuration_path (st_objects st b));
     let len = unat (g_config_data_length (st_app st));
     if len \<noteq> 0 then do {
       inst \<leftarrow> GetCipInstance cls n;
       buffer \<leftarrow> g_config_data_buffer (st_app st);
       if ConnectionWithSameConfigPointExists n st then do {
         (l, d) \<leftarrow> assembly_data cls inst (io_memory (io st));
         if unat l \<noteq> len then Some (0x0106, st)
         else do {
           x \<leftarrow> copy_octets len d;
           y \<leftarrow> copy_octets len buffer;
           Some (if x \<noteq> y then 0x0106 else 0, st) }
       } else do {
         (status, mem) \<leftarrow> NotifyAssemblyConnectedDataReceived (app_after_received env) inst buffer len (io_memory (io st));
         Some (if status \<noteq> kEipStatusOk then 0x0129 else 0, on_memory (\<lambda>_. mem) st) }
     } else Some (0, st) }"

subsection \<open>Establishing\<close>

text \<open>
  \<open>a\<close> is the object with the parsed request. An assertion excludes a request that is null in
  both directions. The results are the general and the extended status.
\<close>

definition setup_direction ::
    "bool \<Rightarrow> ('z io_stack \<Rightarrow> (16 word \<times> 'z io_stack) option) \<Rightarrow> 16 word \<times> 'z io_stack \<Rightarrow> (16 word \<times> 'z io_stack) option" where
  "setup_direction needed f = (\<lambda>(err, st). if err = 0 \<and> needed then f st else Some (err, st))"

definition EstablishIoConnection ::
    "io_env \<Rightarrow> 'svc registry \<Rightarrow> 'z io_close \<Rightarrow> nat \<Rightarrow> 'z io_stack \<Rightarrow> (octet \<times> 16 word \<times> 'z io_stack) option" where
  "EstablishIoConnection env objects close a st = do {
     (r, err, st) \<leftarrow> GetIoConnectionForConnectionData close a st;
     case r of
       None \<Rightarrow> Some (kCipErrorConnectionFailure, err, st)
     | Some b \<Rightarrow> do {
         let (err, c) = ProcessProductionInhibitTime (st_objects st b);
         if err \<noteq> 0 then Some (kCipErrorConnectionFailure, err, store_object b c st)
         else do {
           let (c, st) = ConnectionObjectGeneralConfiguration GetConnectionId st (SetIoConnectionCallbacks c);
           let o_to_t = ConnectionObjectGetOToTConnectionType c;
           let t_to_o = ConnectionObjectGetTToOConnectionType c;
           guard (\<not> (o_to_t = ConnectionTypeNull \<and> t_to_o = ConnectionTypeNull));
           let st = store_object b (c\<lparr>consuming_instance := None, producing_instance := None\<rparr>) st;
           x \<leftarrow> setup_direction (o_to_t \<noteq> ConnectionTypeNull)
             (SetupIoConnectionOriginatorToTargetConnectionPoint objects b a) (0, st);
           x \<leftarrow> setup_direction (t_to_o \<noteq> ConnectionTypeNull)
             (SetupIoConnectionTargetToOriginatorConnectionPoint objects b a) x;
           (err, st) \<leftarrow> setup_direction (g_config_data_buffer (st_app (snd x)) \<noteq> None) (HandleConfigData env objects b) x;
           if err \<noteq> 0 then Some (kCipErrorConnectionFailure, err, st)
           else do {
             (cip_error, st) \<leftarrow> OpenCommunicationChannels env b st;
             if cip_error \<noteq> kCipErrorSuccess then Some (cip_error, 0, st)
             else do {
               st \<leftarrow> AddNewActiveConnection b st;
               Some (kCipErrorSuccess, 0, CheckIoConnectionEvent env b IoConnectionEventOpened st) } } } } }"

subsection \<open>Closing and timing out\<close>

definition transfer_master_connection :: "nat \<Rightarrow> ('fn, 'app) stack_state \<Rightarrow> bool \<times> ('fn, 'app) stack_state" where
  "transfer_master_connection a st =
     (let c = st_objects st a
      in case GetNextNonControlMasterConnection (cp_instance_id (produced_path c)) st of
           None \<Rightarrow> (False, st)
         | Some x \<Rightarrow> (True,
             modify_object x (\<lambda>d. d\<lparr>remote_address := remote_address c,
                 eip_level_sequence_count_producing := eip_level_sequence_count_producing c,
                 sequence_count_producing := sequence_count_producing c,
                 transmission_trigger_timer := transmission_trigger_timer c\<rparr>)
               (modify_object a (\<lambda>c. c\<lparr>socket_producing := kEipInvalidSocket\<rparr>)
                 (modify_object x (\<lambda>d. d\<lparr>socket_producing := socket_producing c\<rparr>) st))))"

definition CloseCommunicationChannelsAndRemoveFromActiveConnectionsList ::
    "nat \<Rightarrow> ('fn, 'app) stack_state \<Rightarrow> ('fn, 'app) stack_state" where
  "CloseCommunicationChannelsAndRemoveFromActiveConnectionsList a st =
     (let c = st_objects st a;
          st = (if kEipInvalidSocket \<noteq> socket_consuming c then CloseUdpSocket (socket_consuming c) st else st);
          st = (if kEipInvalidSocket \<noteq> socket_producing c then CloseUdpSocket (socket_producing c) st else st)
      in store_object a ConnectionObjectInitializeEmpty (RemoveFromActiveConnections a st))"

text \<open>
  A producer of multicast data hands its socket over to another connection of the same input
  assembly. The result tells whether it did; without such a connection the listen-only connections
  are closed.
\<close>

definition hand_over ::
    "io_env \<Rightarrow> 'z io_close \<Rightarrow> CipUsint \<Rightarrow> ConnectionType \<Rightarrow> nat \<Rightarrow> 'z io_stack \<Rightarrow> (bool \<times> 'z io_stack) option" where
  "hand_over env close itype conn_type a st =
     (let c = st_objects st a
      in if itype \<in> {kInstanceTypeIOExclusiveOwner, kInstanceTypeIOInputOnly}
            \<and> conn_type = ConnectionTypeMulticast \<and> kEipInvalidSocket \<noteq> socket_producing c
         then case transfer_master_connection a st of
             (True, st) \<Rightarrow> Some (True, st)
           | (False, st) \<Rightarrow> map_option (Pair False)
               (CloseAllConnectionsForInputWithSameType env close (cp_instance_id (produced_path c)) kInstanceTypeIOListenOnly st)
         else Some (False, st))"

definition CloseIoConnection :: "io_env \<Rightarrow> 'z io_close \<Rightarrow> nat \<Rightarrow> 'z io_stack \<Rightarrow> 'z io_stack option" where
  "CloseIoConnection env close a st = do {
     let itype = instance_type (st_objects st a);
     let conn_type = ConnectionObjectGetTToOConnectionType (st_objects st a);
     let st = CheckIoConnectionEvent env a IoConnectionEventClosed st;
     c \<leftarrow> ConnectionObjectSetState (st_objects st a) kConnectionObjectStateNonExistent;
     (_, st) \<leftarrow> hand_over env close itype conn_type a (store_object a c st);
     Some (CloseCommunicationChannelsAndRemoveFromActiveConnectionsList a st) }"

text \<open>The sessions of an originator end when its last packet came before the connection's last new data.\<close>

definition close_timed_out_sessions :: "io_env \<Rightarrow> 'z io_close \<Rightarrow> nat \<Rightarrow> 'z io_stack \<Rightarrow> 'z io_stack option" where
  "close_timed_out_sessions env close a st =
     (if last_package_watchdog_timer (st_objects st a) = inactivity_watchdog_timer (st_objects st a)
      then CheckForTimedOutConnectionsAndCloseTCPConnections a
             (CloseEncapsulationSessionBySockAddr close (os_getpeername env)) st
      else Some st)"

definition close_dependent_connections ::
    "io_env \<Rightarrow> 'z io_close \<Rightarrow> bool \<Rightarrow> CipInstanceNum \<Rightarrow> 'z io_stack \<Rightarrow> 'z io_stack option" where
  "close_dependent_connections env close needed input_point st =
     (if needed then do {
        st \<leftarrow> CloseAllConnectionsForInputWithSameType env close input_point kInstanceTypeIOInputOnly st;
        CloseAllConnectionsForInputWithSameType env close input_point kInstanceTypeIOListenOnly st
      } else Some st)"

definition HandleIoConnectionTimeOut :: "io_env \<Rightarrow> 'z io_close \<Rightarrow> nat \<Rightarrow> 'z io_stack \<Rightarrow> 'z io_stack option" where
  "HandleIoConnectionTimeOut env close a st = do {
     let itype = instance_type (st_objects st a);
     let conn_type = ConnectionObjectGetTToOConnectionType (st_objects st a);
     let st = CheckIoConnectionEvent env a IoConnectionEventTimedOut st;
     c \<leftarrow> ConnectionObjectSetState (st_objects st a) kConnectionObjectStateTimedOut;
     st \<leftarrow> close_timed_out_sessions env close a (store_object a c st);
     (handover, st) \<leftarrow> hand_over env close itype conn_type a st;
     st \<leftarrow> close_dependent_connections env close (itype = kInstanceTypeIOExclusiveOwner \<and> \<not> handover)
            (cp_instance_id (produced_path (st_objects st a))) st;
     c \<leftarrow> ConnectionObjectSetState (st_objects st a) kConnectionObjectStateTimedOut;
     Some (store_object a c st) }"

subsection \<open>Data\<close>

text \<open>A local message before it is initialized.\<close>

definition local_message :: enip_message where
  "local_message = \<lparr>message_buffer = [], current_message_position = 0, used_message_length = 0\<rparr>"

definition producing_packet :: "'fn connection_object \<Rightarrow> cpf_data \<Rightarrow> cpf_data" where
  "producing_packet c g =
     (let ai = (if ConnectionObjectGetTransportClassTriggerTransportClass c \<noteq> TransportClass0
        then (cpf_address_item g)\<lparr>ai_type_id := kCipItemIdSequencedAddressItem, ai_length := 8,
               sequence_number := eip_level_sequence_count_producing c\<rparr>
        else (cpf_address_item g)\<lparr>ai_type_id := kCipItemIdConnectionAddress, ai_length := 4\<rparr>)
      in g\<lparr>item_count := 2, cpf_address_item := ai\<lparr>connection_identifier := cip_produced_connection_id c\<rparr>,
           cpf_data_item := (cpf_data_item g)\<lparr>di_type_id := kCipItemIdConnectedDataItem, di_length := 0\<rparr>\<rparr>)"

text \<open>The length of the data item, the sequence count, the run/idle header and the data.\<close>

definition write_produced_data ::
    "'fn connection_object \<Rightarrow> CipUint \<Rightarrow> 32 word option \<Rightarrow> 16 word \<Rightarrow> octet list \<Rightarrow> enip_message \<Rightarrow> enip_message option" where
  "write_produced_data c len run_idle l d m = do {
     m \<leftarrow> AddIntToMessage len m;
     m \<leftarrow> (if ConnectionObjectGetTransportClassTriggerTransportClass c = TransportClass1
           then AddIntToMessage (sequence_count_producing c) m else Some m);
     m \<leftarrow> (case run_idle of Some n \<Rightarrow> AddDintToMessage n m | None \<Rightarrow> Some m);
     bs \<leftarrow> copy_octets (unat l) d;
     append_octets bs m }"

definition SendConnectedData ::
    "io_env \<Rightarrow> 'svc registry \<Rightarrow> nat \<Rightarrow> 'z io_stack \<Rightarrow> (EipStatus \<times> 'z io_stack) option" where
  "SendConnectedData env objects a st = do {
     let c = (st_objects st a)\<lparr>eip_level_sequence_count_producing := eip_level_sequence_count_producing (st_objects st a) + 1\<rparr>;
     let g = producing_packet c (st_cpf st);
     n \<leftarrow> producing_instance c;
     cls \<leftarrow> GetCipClass objects kCipAssemblyClassCode;
     inst \<leftarrow> GetCipInstance cls n;
     let (changed, mem) = app_before_send env inst (io_memory (io st));
     let c = (if changed then c\<lparr>sequence_count_producing := sequence_count_producing c + 1\<rparr> else c);
     let g = set_info_type 1 0 (set_info_type 0 0 g);
     m \<leftarrow> AssembleIOMessage (os_endianess env) g g (InitializeENIPMessage local_message);
     m \<leftarrow> MoveMessageNOctets (-2) m;
     (_, l, d) \<leftarrow> assembly_bytes inst mem;
     let run_idle = (if s_produce_run_idle (io st) \<and> l \<noteq> 0 then Some (g_run_idle_state (io st)) else None);
     let len = l + (if run_idle \<noteq> None then 4 else 0)
        + (if ConnectionObjectGetTransportClassTriggerTransportClass c = TransportClass1 then 2 else 0);
     let g = g\<lparr>cpf_data_item := (cpf_data_item g)\<lparr>di_length := len\<rparr>\<rparr>;
     m \<leftarrow> write_produced_data c len run_idle l d m;
     Some (SendUdpData env (remote_address c) m (store_object a c (on_memory (\<lambda>_. mem) (st\<lparr>st_cpf := g\<rparr>)))) }"

definition SEQ_LEQ16 :: "16 word \<Rightarrow> 16 word \<Rightarrow> bool" where
  "SEQ_LEQ16 a b \<longleftrightarrow> sint (a - b) \<le> 0"

definition check_sequence_count ::
    "nat \<Rightarrow> octet list \<Rightarrow> CipUint \<Rightarrow> 'z io_stack \<Rightarrow> (bool \<times> octet list \<times> CipUint \<times> 'z io_stack) option" where
  "check_sequence_count a data data_length st =
     (let c = st_objects st a
      in if ConnectionObjectGetTransportClassTriggerTransportClass c = TransportClass1 then do {
           (n, data) \<leftarrow> GetUintFromMessage data;
           Some (SEQ_LEQ16 n (sequence_count_consuming c), data, data_length - 2,
                 store_object a (c\<lparr>sequence_count_consuming := n\<rparr>) st)
         } else Some (False, data, data_length, st))"

definition receive_run_idle ::
    "io_env \<Rightarrow> octet list \<Rightarrow> CipUint \<Rightarrow> 'z io_stack \<Rightarrow> (octet list \<times> CipUint \<times> 'z io_stack) option" where
  "receive_run_idle env data data_length st =
     (if s_consume_run_idle (io st) then do {
        (n, data) \<leftarrow> GetUdintFromMessage data;
        let st = st\<lparr>g_identity := CipIdentitySetExtendedDeviceStatus (if 1 AND n = 1 then 0x0060 else 0x0070) (g_identity st)\<rparr>;
        let st = (if g_run_idle_state (io st) \<noteq> n then on_memory (app_run_idle_changed env n) st else st);
        Some (data, data_length - 4, upd_io (\<lambda>i. i\<lparr>g_run_idle_state := n\<rparr>) st)
      } else Some (data, data_length, st))"

definition HandleReceivedIoConnectionData ::
    "io_env \<Rightarrow> 'svc registry \<Rightarrow> nat \<Rightarrow> octet list \<Rightarrow> CipUint \<Rightarrow> 'z io_stack \<Rightarrow> (EipStatus \<times> 'z io_stack) option" where
  "HandleReceivedIoConnectionData env objects a data data_length st = do {
     (no_new_data, data, data_length, st) \<leftarrow> check_sequence_count a data data_length st;
     if data_length > 0 then do {
       (data, data_length, st) \<leftarrow> receive_run_idle env data data_length st;
       if no_new_data then Some (kEipStatusOk, st)
       else do {
         n \<leftarrow> consuming_instance (st_objects st a);
         cls \<leftarrow> GetCipClass objects kCipAssemblyClassCode;
         inst \<leftarrow> GetCipInstance cls n;
         (status, mem) \<leftarrow> NotifyAssemblyConnectedDataReceived (app_after_received env) inst data (unat data_length)
            (io_memory (io st));
         Some (if status \<noteq> kEipStatusOk then kEipStatusError else kEipStatusOk, on_memory (\<lambda>_. mem) st) }
     } else Some (kEipStatusOk, st) }"

subsection \<open>The functions of connection objects\<close>

text \<open>
  Closing a connection may close others: \<open>call_function env k\<close> follows up to \<open>k\<close> nested calls.
\<close>

definition run_io ::
    "io_env \<Rightarrow> 'z io_close \<Rightarrow> io_fn \<Rightarrow> nat \<Rightarrow> 'z io_stack \<Rightarrow> 'z io_stack option" where
  "run_io env close f a st =
     (case f of
        FnCloseIoConnection \<Rightarrow> CloseIoConnection env close a st
      | FnHandleIoConnectionTimeOut \<Rightarrow> HandleIoConnectionTimeOut env close a st
      | _ \<Rightarrow> None)"

primrec call_function :: "io_env \<Rightarrow> nat \<Rightarrow> 'z io_close" where
  "call_function env 0 = (\<lambda>f a st. None)"
| "call_function env (Suc k) = run_fn (run_io env (call_function env k))"

definition send_function ::
    "io_env \<Rightarrow> 'svc registry \<Rightarrow> io_fn connection_fn \<Rightarrow> nat \<Rightarrow> 'z io_stack \<Rightarrow> (EipStatus \<times> 'z io_stack) option" where
  "send_function env objects f a st =
     (if f = FnOther FnSendConnectedData then SendConnectedData env objects a st else None)"

definition receive_function ::
    "io_env \<Rightarrow> 'svc registry \<Rightarrow> io_fn connection_fn \<Rightarrow> nat \<Rightarrow> octet list \<Rightarrow> CipUint \<Rightarrow> 'z io_stack
      \<Rightarrow> (EipStatus \<times> 'z io_stack) option" where
  "receive_function env objects f a data n st =
     (if f = FnOther FnHandleReceivedIoConnectionData then HandleReceivedIoConnectionData env objects a data n st else None)"



subsection \<open>The tables of sessions under closing and timing out\<close>

lemma object_frame [simp]:
  "sessions_wf (modify_object a k st) \<longleftrightarrow> sessions_wf st" "sessions_wf (CloseUdpSocket s st) \<longleftrightarrow> sessions_wf st"
  "sessions_wf (RemoveFromActiveConnections a st) \<longleftrightarrow> sessions_wf st"
  by (simp_all add: sessions_wf_def modify_object_def store_object_def)

lemma io_frame [simp]:
  "sessions_wf (upd_io f st) \<longleftrightarrow> sessions_wf st" "sessions_wf (on_memory h st) \<longleftrightarrow> sessions_wf st"
  "sessions_wf (CheckIoConnectionEvent env a ev st) \<longleftrightarrow> sessions_wf st"
  by (simp_all add: sessions_wf_def upd_io_def on_memory_def CheckIoConnectionEvent_def)

lemma close_channels_wf:
  "sessions_wf (CloseCommunicationChannelsAndRemoveFromActiveConnectionsList a st) \<longleftrightarrow> sessions_wf st"
  by (simp add: CloseCommunicationChannelsAndRemoveFromActiveConnectionsList_def Let_def)

lemma transfer_wf: "transfer_master_connection a st = (b, st') \<Longrightarrow> sessions_wf st' \<longleftrightarrow> sessions_wf st"
  by (auto simp: transfer_master_connection_def Let_def split: option.splits)

lemma if_if_Some: "(if P then if Q then x else Some s else Some s) = Some s' \<Longrightarrow> s' = s \<or> x = Some s'"
  by (auto split: if_splits)

text \<open>Functions of I/O connections, given that the functions they call leave the tables consistent.\<close>

locale io_close_functions = close_functions close for close :: "'z io_close"
begin

lemma close_if_same_type_wf:
  "close_if_same_type env close input_point itype a st = Some st' \<Longrightarrow> sessions_wf st \<Longrightarrow> sessions_wf st'"
  by (auto simp: close_if_same_type_def Let_def split: if_splits dest: close_wf)

lemma close_input_loop_wf:
  "close_input_loop env c input_point itype node st = Some st' \<Longrightarrow> c = close \<Longrightarrow> sessions_wf st \<Longrightarrow> sessions_wf st'"
proof (induction rule: close_input_loop.raw_induct [rotated 1, consumes 1])
  case (1 loop env c input_point itype node st st')
  show ?case
  proof (cases node)
    case (Some n)
    then obtain a st1 where st1: "close_if_same_type env c input_point itype a st = Some st1"
      and rest: "loop env c input_point itype (node_next (snd (st_connection_list st) ! n)) st1 = Some st'"
      using 1(2) by (auto simp: Let_def)
    have "sessions_wf st1" using st1 1(3,4) close_if_same_type_wf by simp
    then show ?thesis using 1(1) [OF rest 1(3)] by simp
  qed (use 1(2,4) in simp)
qed

lemma close_all_wf:
  "CloseAllConnectionsForInputWithSameType env close input_point itype st = Some st' \<Longrightarrow> sessions_wf st \<Longrightarrow> sessions_wf st'"
  unfolding CloseAllConnectionsForInputWithSameType_def by (rule close_input_loop_wf [OF _ refl])

lemma hand_over_wf:
  assumes "hand_over env close itype conn_type a st = Some (b, st')" "sessions_wf st"
  shows "sessions_wf st'"
  using assms
  by (auto simp: hand_over_def Let_def split: if_splits prod.splits bool.splits dest: transfer_wf close_all_wf)

lemma CloseIoConnection_wf:
  assumes "CloseIoConnection env close a st = Some st'" "sessions_wf st"
  shows "sessions_wf st'"
  using assms by (auto simp: CloseIoConnection_def close_channels_wf Let_def dest: hand_over_wf)

lemma close_timed_out_sessions_wf:
  assumes "close_timed_out_sessions env close a st = Some st'" "sessions_wf st"
  shows "sessions_wf st'"
proof -
  have "st' = st \<or> CloseEncapsulationSessionBySockAddr close (os_getpeername env) (st_objects st a) st = Some st'"
    using assms(1) unfolding close_timed_out_sessions_def CheckForTimedOutConnectionsAndCloseTCPConnections_def
    by (rule if_if_Some)
  then show ?thesis using CloseBySockAddr_wf [OF assms(2)] assms(2) by blast
qed

lemma close_dependent_connections_wf:
  "close_dependent_connections env close needed input_point st = Some st' \<Longrightarrow> sessions_wf st \<Longrightarrow> sessions_wf st'"
  by (auto simp: close_dependent_connections_def split: if_splits dest: close_all_wf)

lemma HandleIoConnectionTimeOut_wf:
  assumes "HandleIoConnectionTimeOut env close a st = Some st'" "sessions_wf st"
  shows "sessions_wf st'"
  using assms
  by (auto simp: HandleIoConnectionTimeOut_def Let_def
      dest!: close_timed_out_sessions_wf hand_over_wf close_dependent_connections_wf)

lemma run_io_wf: "run_io env close f a st = Some st' \<Longrightarrow> sessions_wf st \<Longrightarrow> sessions_wf st'"
  by (cases f) (auto simp: run_io_def intro: CloseIoConnection_wf HandleIoConnectionTimeOut_wf)

end

lemma call_function_wf:
  fixes st :: "'z io_stack"
  shows "call_function env k f a st = Some st' \<Longrightarrow> sessions_wf st \<Longrightarrow> sessions_wf st'"
proof (induction k arbitrary: f a st st')
  case (Suc k)
  have "close_functions (call_function env k :: 'z io_close)" by unfold_locales (rule Suc.IH)
  then have io: "io_close_functions (call_function env k :: 'z io_close)" by (rule io_close_functions.intro)
  show ?case
    using Suc.prems
    by (cases f) (auto simp: run_fn_def CloseConnection_wf intro: Class3ConnectionTimeoutHandler_wf io_close_functions.run_io_wf [OF io])
qed simp

interpretation stack: io_close_functions "call_function env k" for env k
  by unfold_locales (rule call_function_wf)

end
