(* ===== verification/CipEpath.thy ===== *)
theory CipEpath
  imports CipIdentity PaddedEPath
begin

text \<open>
  Path segments (\<^verbatim>\<open>cip/cipepath.c\<close>) and the electronic key (\<^verbatim>\<open>cip/cipelectronickey.c\<close>). A path is
  the list of octets from the pointer on; reading behind its end and a failed assertion are
  \<^term>\<open>None\<close>. The setters change the first octets of a path.
\<close>

subsection \<open>Segment types\<close>

datatype SegmentType =
    kSegmentTypePortSegment | kSegmentTypeLogicalSegment | kSegmentTypeNetworkSegment
  | kSegmentTypeSymbolicSegment | kSegmentTypeDataSegment | kSegmentTypeDataTypeConstructed
  | kSegmentTypeDataTypeElementary | kSegmentTypeReserved | kSegmentTypeInvalid

definition octet_at :: "nat \<Rightarrow> octet list \<Rightarrow> octet option" where
  "octet_at i p = (if i < length p then Some (p ! i) else None)"

definition set_octet :: "nat \<Rightarrow> octet \<Rightarrow> octet list \<Rightarrow> octet list option" where
  "set_octet i v p = (if i < length p then Some (p[i := v]) else None)"

definition or_octet :: "octet \<Rightarrow> octet list \<Rightarrow> octet list option" where
  "or_octet v p = do { b \<leftarrow> octet_at 0 p; set_octet 0 (b OR v) p }"

definition GetPathSegmentType :: "octet list \<Rightarrow> SegmentType option" where
  "GetPathSegmentType p = do {
     b \<leftarrow> octet_at 0 p;
     let t = b AND 0xE0;
     Some (if t = 0x00 then kSegmentTypePortSegment
           else if t = 0x20 then kSegmentTypeLogicalSegment
           else if t = 0x40 then kSegmentTypeNetworkSegment
           else if t = 0x60 then kSegmentTypeSymbolicSegment
           else if t = 0x80 then kSegmentTypeDataSegment
           else if t = 0xA0 then kSegmentTypeDataTypeConstructed
           else if t = 0xC0 then kSegmentTypeDataTypeElementary
           else if t = 0xE0 then kSegmentTypeReserved
           else kSegmentTypeInvalid) }"

fun segment_type_value :: "SegmentType \<Rightarrow> octet option" where
  "segment_type_value kSegmentTypePortSegment = Some 0x00"
| "segment_type_value kSegmentTypeLogicalSegment = Some 0x20"
| "segment_type_value kSegmentTypeNetworkSegment = Some 0x40"
| "segment_type_value kSegmentTypeSymbolicSegment = Some 0x60"
| "segment_type_value kSegmentTypeDataSegment = Some 0x80"
| "segment_type_value kSegmentTypeDataTypeConstructed = Some 0xA0"
| "segment_type_value kSegmentTypeDataTypeElementary = Some 0xC0"
| "segment_type_value kSegmentTypeReserved = Some 0xE0"
| "segment_type_value kSegmentTypeInvalid = None"

definition SetPathSegmentType :: "SegmentType \<Rightarrow> octet list \<Rightarrow> octet list option" where
  "SetPathSegmentType t p = do { v \<leftarrow> segment_type_value t; set_octet 0 v p }"

definition is_segment :: "SegmentType \<Rightarrow> octet list \<Rightarrow> unit option" where
  "is_segment t p = do { s \<leftarrow> GetPathSegmentType p; guard (s = t) }"

subsection \<open>Port segments\<close>

definition kPortSegmentExtendedPort :: octet where
  "kPortSegmentExtendedPort = 15"

definition GetPathPortSegmentExtendedLinkAddressSizeBit :: "octet list \<Rightarrow> bool option" where
  "GetPathPortSegmentExtendedLinkAddressSizeBit p = do { b \<leftarrow> octet_at 0 p; Some (0x10 = b AND 0x10) }"

definition GetPathPortSegmentPortIdentifier :: "octet list \<Rightarrow> octet option" where
  "GetPathPortSegmentPortIdentifier p = do {
     b \<leftarrow> octet_at 0 p;
     is_segment kSegmentTypePortSegment p;
     guard (0 \<noteq> b AND 0x0F);
     Some (b AND 0x0F) }"

definition SetPathPortSegmentPortIdentifier :: "octet \<Rightarrow> octet list \<Rightarrow> octet list option" where
  "SetPathPortSegmentPortIdentifier port p = do { guard (port < 16); or_octet port p }"

definition GetPathPortSegmentLinkAddressSize :: "octet list \<Rightarrow> octet option" where
  "GetPathPortSegmentLinkAddressSize p = do {
     b \<leftarrow> GetPathPortSegmentExtendedLinkAddressSizeBit p;
     guard b;
     octet_at 1 p }"

definition extended_port_position :: "octet list \<Rightarrow> nat option" where
  "extended_port_position p = do {
     b \<leftarrow> GetPathPortSegmentExtendedLinkAddressSizeBit p;
     Some (if b then 2 else 1) }"

definition GetPathPortSegmentExtendedPortNumber :: "octet list \<Rightarrow> (32 word) option" where
  "GetPathPortSegmentExtendedPortNumber p = do {
     i \<leftarrow> GetPathPortSegmentPortIdentifier p;
     guard (kPortSegmentExtendedPort = i);
     k \<leftarrow> extended_port_position p;
     lo \<leftarrow> octet_at k p;
     hi \<leftarrow> octet_at (k + 1) p;
     Some (ucast lo + push_bit 8 (ucast hi)) }"

definition SetPathPortSegmentExtendedPortIdentifier :: "32 word \<Rightarrow> octet list \<Rightarrow> octet list option" where
  "SetPathPortSegmentExtendedPortIdentifier ident p = do {
     p \<leftarrow> SetPathPortSegmentPortIdentifier kPortSegmentExtendedPort p;
     k \<leftarrow> extended_port_position p;
     p \<leftarrow> set_octet k (ucast (ident AND 0x00FF)) p;
     set_octet (k + 1) (ucast (drop_bit 8 (ident AND 0xFF00))) p }"

subsection \<open>Logical segments\<close>

datatype LogicalSegmentLogicalType =
    kLogicalSegmentLogicalTypeClassId | kLogicalSegmentLogicalTypeInstanceId | kLogicalSegmentLogicalTypeMemberId
  | kLogicalSegmentLogicalTypeConnectionPoint | kLogicalSegmentLogicalTypeAttributeId
  | kLogicalSegmentLogicalTypeSpecial | kLogicalSegmentLogicalTypeServiceId
  | kLogicalSegmentLogicalTypeExtendedLogical | kLogicalSegmentLogicalTypeInvalid

datatype LogicalSegmentLogicalFormat =
    kLogicalSegmentLogicalFormatEightBit | kLogicalSegmentLogicalFormatSixteenBit
  | kLogicalSegmentLogicalFormatThirtyTwoBit | kLogicalSegmentLogicalFormatInvalid

definition GetPathLogicalSegmentLogicalType :: "octet list \<Rightarrow> LogicalSegmentLogicalType option" where
  "GetPathLogicalSegmentLogicalType p = do {
     is_segment kSegmentTypeLogicalSegment p;
     b \<leftarrow> octet_at 0 p;
     let t = b AND 0x1C;
     Some (if t = 0x00 then kLogicalSegmentLogicalTypeClassId
           else if t = 0x04 then kLogicalSegmentLogicalTypeInstanceId
           else if t = 0x08 then kLogicalSegmentLogicalTypeMemberId
           else if t = 0x0C then kLogicalSegmentLogicalTypeConnectionPoint
           else if t = 0x10 then kLogicalSegmentLogicalTypeAttributeId
           else if t = 0x14 then kLogicalSegmentLogicalTypeSpecial
           else if t = 0x18 then kLogicalSegmentLogicalTypeServiceId
           else if t = 0x1C then kLogicalSegmentLogicalTypeExtendedLogical
           else kLogicalSegmentLogicalTypeInvalid) }"

fun logical_type_value :: "LogicalSegmentLogicalType \<Rightarrow> octet option" where
  "logical_type_value kLogicalSegmentLogicalTypeClassId = Some 0x00"
| "logical_type_value kLogicalSegmentLogicalTypeInstanceId = Some 0x04"
| "logical_type_value kLogicalSegmentLogicalTypeMemberId = Some 0x08"
| "logical_type_value kLogicalSegmentLogicalTypeConnectionPoint = Some 0x0C"
| "logical_type_value kLogicalSegmentLogicalTypeAttributeId = Some 0x10"
| "logical_type_value kLogicalSegmentLogicalTypeSpecial = Some 0x14"
| "logical_type_value kLogicalSegmentLogicalTypeServiceId = Some 0x18"
| "logical_type_value kLogicalSegmentLogicalTypeExtendedLogical = Some 0x1C"
| "logical_type_value kLogicalSegmentLogicalTypeInvalid = None"

definition SetPathLogicalSegmentLogicalType :: "LogicalSegmentLogicalType \<Rightarrow> octet list \<Rightarrow> octet list option" where
  "SetPathLogicalSegmentLogicalType t p = do {
     is_segment kSegmentTypeLogicalSegment p;
     v \<leftarrow> logical_type_value t;
     or_octet v p }"

definition GetPathLogicalSegmentLogicalFormat :: "octet list \<Rightarrow> LogicalSegmentLogicalFormat option" where
  "GetPathLogicalSegmentLogicalFormat p = do {
     is_segment kSegmentTypeLogicalSegment p;
     b \<leftarrow> octet_at 0 p;
     let f = b AND 0x03;
     Some (if f = 0x00 then kLogicalSegmentLogicalFormatEightBit
           else if f = 0x01 then kLogicalSegmentLogicalFormatSixteenBit
           else if f = 0x02 then kLogicalSegmentLogicalFormatThirtyTwoBit
           else kLogicalSegmentLogicalFormatInvalid) }"

fun logical_format_value :: "LogicalSegmentLogicalFormat \<Rightarrow> octet option" where
  "logical_format_value kLogicalSegmentLogicalFormatEightBit = Some 0x00"
| "logical_format_value kLogicalSegmentLogicalFormatSixteenBit = Some 0x01"
| "logical_format_value kLogicalSegmentLogicalFormatThirtyTwoBit = Some 0x02"
| "logical_format_value kLogicalSegmentLogicalFormatInvalid = None"

definition SetPathLogicalSegmentLogicalFormat :: "LogicalSegmentLogicalFormat \<Rightarrow> octet list \<Rightarrow> octet list option" where
  "SetPathLogicalSegmentLogicalFormat f p = do {
     is_segment kSegmentTypeLogicalSegment p;
     v \<leftarrow> logical_format_value f;
     or_octet v p }"

text \<open>An invalid format gives the number 3 of its enumeration and skips the segment's first octet only.\<close>

definition CipEpathGetLogicalValue :: "octet list \<Rightarrow> (CipDword \<times> octet list) option" where
  "CipEpathGetLogicalValue msg = do {
     f \<leftarrow> GetPathLogicalSegmentLogicalFormat msg;
     msg \<leftarrow> advance 1 msg;
     case f of
       kLogicalSegmentLogicalFormatEightBit \<Rightarrow>
         map_option (\<lambda>(v, rest). (ucast v, rest)) (GetByteFromMessage msg)
     | kLogicalSegmentLogicalFormatSixteenBit \<Rightarrow> do {
         msg \<leftarrow> advance 1 msg;
         map_option (\<lambda>(v, rest). (ucast v, rest)) (GetWordFromMessage msg) }
     | kLogicalSegmentLogicalFormatThirtyTwoBit \<Rightarrow> do {
         msg \<leftarrow> advance 1 msg;
         GetDwordFromMessage msg }
     | kLogicalSegmentLogicalFormatInvalid \<Rightarrow> Some (3, msg) }"

definition CipEpathSetLogicalValue ::
    "CipDword \<Rightarrow> LogicalSegmentLogicalFormat \<Rightarrow> enip_message \<Rightarrow> enip_message option" where
  "CipEpathSetLogicalValue v f m =
     (case f of
        kLogicalSegmentLogicalFormatEightBit \<Rightarrow> do {
          guard (v \<le> 0xFF);
          AddSintToMessage (ucast v) m }
      | kLogicalSegmentLogicalFormatSixteenBit \<Rightarrow> do {
          m \<leftarrow> MoveMessageNOctets 1 m;
          guard (v \<le> 0xFFFF);
          AddIntToMessage (ucast v) m }
      | kLogicalSegmentLogicalFormatThirtyTwoBit \<Rightarrow> do {
          m \<leftarrow> MoveMessageNOctets 1 m;
          AddDintToMessage v m }
      | kLogicalSegmentLogicalFormatInvalid \<Rightarrow> None)"

datatype LogicalSegmentExtendedLogicalType =
    kLogicalSegmentExtendedLogicalTypeReserved | kLogicalSegmentExtendedLogicalTypeArrayIndex
  | kLogicalSegmentExtendedLogicalTypeIndirectArrayIndex | kLogicalSegmentExtendedLogicalTypeBitIndex
  | kLogicalSegmentExtendedLogicalTypeIndirectBitIndex | kLogicalSegmentExtendedLogicalTypeStructureMemberNumber
  | kLogicalSegmentExtendedLogicalTypeStructureMemberHandle | kLogicalSegmentExtendedLogicalTypeInvalid

definition GetPathLogicalSegmentExtendedLogicalType :: "octet list \<Rightarrow> LogicalSegmentExtendedLogicalType option" where
  "GetPathLogicalSegmentExtendedLogicalType p = do {
     t \<leftarrow> GetPathLogicalSegmentLogicalType p;
     guard (t = kLogicalSegmentLogicalTypeExtendedLogical);
     x \<leftarrow> octet_at 1 p;
     Some (if x = 1 then kLogicalSegmentExtendedLogicalTypeArrayIndex
           else if x = 2 then kLogicalSegmentExtendedLogicalTypeIndirectArrayIndex
           else if x = 3 then kLogicalSegmentExtendedLogicalTypeBitIndex
           else if x = 4 then kLogicalSegmentExtendedLogicalTypeIndirectBitIndex
           else if x = 5 then kLogicalSegmentExtendedLogicalTypeStructureMemberNumber
           else if x = 6 then kLogicalSegmentExtendedLogicalTypeStructureMemberHandle
           else if x = 0 then kLogicalSegmentExtendedLogicalTypeReserved
           else kLogicalSegmentExtendedLogicalTypeInvalid) }"

definition GetPathLogicalSegmentSpecialTypeLogicalType :: "octet list \<Rightarrow> bool option" where
  "GetPathLogicalSegmentSpecialTypeLogicalType p = do {
     t \<leftarrow> GetPathLogicalSegmentLogicalType p;
     guard (t = kLogicalSegmentLogicalTypeSpecial);
     b \<leftarrow> octet_at 0 p;
     Some (b AND 0x03 = 0) }"

definition GetPathLogicalSegmentElectronicKeyFormat :: "octet list \<Rightarrow> bool option" where
  "GetPathLogicalSegmentElectronicKeyFormat p = do {
     key \<leftarrow> GetPathLogicalSegmentSpecialTypeLogicalType p;
     guard key;
     x \<leftarrow> octet_at 1 p;
     Some (x = 4) }"

subsection \<open>The electronic key\<close>

record electronic_key_format_4 =
  ek_vendor_id :: CipUint
  ek_device_type :: CipUint
  ek_product_code :: CipUint
  ek_major_revision_compatibility :: CipByte
  ek_minor_revision :: CipUsint

definition ElectronicKeyFormat4New :: electronic_key_format_4 where
  "ElectronicKeyFormat4New = \<lparr>ek_vendor_id = 0, ek_device_type = 0, ek_product_code = 0,
     ek_major_revision_compatibility = 0, ek_minor_revision = 0\<rparr>"

definition ElectronicKeyFormat4GetMajorRevision :: "electronic_key_format_4 \<Rightarrow> CipByte" where
  "ElectronicKeyFormat4GetMajorRevision key = ek_major_revision_compatibility key AND 0x7F"

definition ElectronicKeyFormat4GetMajorRevisionCompatibility :: "electronic_key_format_4 \<Rightarrow> bool" where
  "ElectronicKeyFormat4GetMajorRevisionCompatibility key \<longleftrightarrow> 0x80 = ek_major_revision_compatibility key AND 0x80"

definition GetElectronicKeyFormat4FromMessage ::
    "octet list \<Rightarrow> electronic_key_format_4 \<Rightarrow> (electronic_key_format_4 \<times> octet list) option" where
  "GetElectronicKeyFormat4FromMessage msg key = do {
     f \<leftarrow> GetPathLogicalSegmentElectronicKeyFormat msg;
     guard f;
     msg \<leftarrow> advance 2 msg;
     (v, msg) \<leftarrow> GetUintFromMessage msg;
     (t, msg) \<leftarrow> GetUintFromMessage msg;
     (c, msg) \<leftarrow> GetUintFromMessage msg;
     (major, msg) \<leftarrow> GetByteFromMessage msg;
     (minor, msg) \<leftarrow> GetUsintFromMessage msg;
     Some (key\<lparr>ek_vendor_id := v, ek_device_type := t, ek_product_code := c,
       ek_major_revision_compatibility := major, ek_minor_revision := minor\<rparr>, msg) }"

subsection \<open>Network, symbolic and data segments\<close>

datatype NetworkSegmentSubtype =
    kNetworkSegmentSubtypeReserved | kNetworkSegmentSubtypeScheduleSegment | kNetworkSegmentSubtypeFixedTagSegment
  | kNetworkSegmentSubtypeProductionInhibitTimeInMilliseconds | kNetworkSegmentSubtypeSafetySegment
  | kNetworkSegmentSubtypeProductionInhibitTimeInMicroseconds | kNetworkSegmentSubtypeExtendedNetworkSegment

definition GetPathNetworkSegmentSubtype :: "octet list \<Rightarrow> NetworkSegmentSubtype option" where
  "GetPathNetworkSegmentSubtype p = do {
     is_segment kSegmentTypeNetworkSegment p;
     b \<leftarrow> octet_at 0 p;
     let t = b AND 0x1F;
     Some (if t = 0x01 then kNetworkSegmentSubtypeScheduleSegment
           else if t = 0x02 then kNetworkSegmentSubtypeFixedTagSegment
           else if t = 0x03 then kNetworkSegmentSubtypeProductionInhibitTimeInMilliseconds
           else if t = 0x04 then kNetworkSegmentSubtypeSafetySegment
           else if t = 0x10 then kNetworkSegmentSubtypeProductionInhibitTimeInMicroseconds
           else if t = 0x1F then kNetworkSegmentSubtypeExtendedNetworkSegment
           else kNetworkSegmentSubtypeReserved) }"

definition GetPathNetworkSegmentProductionInhibitTimeInMilliseconds :: "octet list \<Rightarrow> CipUsint option" where
  "GetPathNetworkSegmentProductionInhibitTimeInMilliseconds p = do {
     t \<leftarrow> GetPathNetworkSegmentSubtype p;
     guard (t = kNetworkSegmentSubtypeProductionInhibitTimeInMilliseconds);
     octet_at 1 p }"

definition GetPathNetworkSegmentProductionInhibitTimeInMicroseconds :: "octet list \<Rightarrow> CipUdint option" where
  "GetPathNetworkSegmentProductionInhibitTimeInMicroseconds p = do {
     t \<leftarrow> GetPathNetworkSegmentSubtype p;
     guard (t = kNetworkSegmentSubtypeProductionInhibitTimeInMicroseconds);
     n \<leftarrow> octet_at 1 p;
     guard (2 = n);
     q \<leftarrow> advance 2 p;
     map_option fst (GetUdintFromMessage q) }"

datatype SymbolicSegmentFormat = kSymbolicSegmentFormatASCII | kSymbolicSegmentFormatExtendedString

datatype SymbolicSegmentExtendedFormat =
    kSymbolicSegmentExtendedFormatDoubleByteChars | kSymbolicSegmentExtendedFormatTripleByteChars
  | kSymbolicSegmentExtendedFormatNumericSymbolUSINT | kSymbolicSegmentExtendedFormatNumericSymbolUINT
  | kSymbolicSegmentExtendedFormatNumericSymbolUDINT | kSymbolicSegmentExtendedFormatReserved

definition GetPathSymbolicSegmentFormat :: "octet list \<Rightarrow> SymbolicSegmentFormat option" where
  "GetPathSymbolicSegmentFormat p = do {
     b \<leftarrow> octet_at 0 p;
     Some (if b AND 0x1F = 0 then kSymbolicSegmentFormatExtendedString else kSymbolicSegmentFormatASCII) }"

definition GetPathSymbolicSegmentASCIIFormatLength :: "octet list \<Rightarrow> octet option" where
  "GetPathSymbolicSegmentASCIIFormatLength p = do {
     b \<leftarrow> octet_at 0 p;
     guard (0 \<noteq> b AND 0x1F);
     Some (b AND 0x1F) }"

definition GetPathSymbolicSegmentNumericType :: "octet list \<Rightarrow> SymbolicSegmentExtendedFormat option" where
  "GetPathSymbolicSegmentNumericType p = do {
     b \<leftarrow> octet_at 1 p;
     let t = b AND 0x1F;
     Some (if t = 0x06 then kSymbolicSegmentExtendedFormatNumericSymbolUSINT
           else if t = 0x07 then kSymbolicSegmentExtendedFormatNumericSymbolUINT
           else if t = 0x08 then kSymbolicSegmentExtendedFormatNumericSymbolUDINT
           else kSymbolicSegmentExtendedFormatReserved) }"

definition GetPathSymbolicSegmentExtendedFormat :: "octet list \<Rightarrow> SymbolicSegmentExtendedFormat option" where
  "GetPathSymbolicSegmentExtendedFormat p = do {
     is_segment kSegmentTypeSymbolicSegment p;
     f \<leftarrow> GetPathSymbolicSegmentFormat p;
     guard (f = kSymbolicSegmentFormatExtendedString);
     b \<leftarrow> octet_at 1 p;
     let t = b AND 0xE0;
     if t = 0x20 then Some kSymbolicSegmentExtendedFormatDoubleByteChars
     else if t = 0x40 then Some kSymbolicSegmentExtendedFormatTripleByteChars
     else if t = 0xC0 then GetPathSymbolicSegmentNumericType p
     else Some kSymbolicSegmentExtendedFormatReserved }"

datatype DataSegmentSubtype =
  kDataSegmentSubtypeReserved | kDataSegmentSubtypeSimpleData | kDataSegmentSubtypeANSIExtendedSymbol

definition GetPathDataSegmentSubtype :: "octet list \<Rightarrow> DataSegmentSubtype option" where
  "GetPathDataSegmentSubtype p = do {
     b \<leftarrow> octet_at 0 p;
     let t = b AND 0x1F;
     Some (if t = 0x00 then kDataSegmentSubtypeSimpleData
           else if t = 0x11 then kDataSegmentSubtypeANSIExtendedSymbol
           else kDataSegmentSubtypeReserved) }"

definition GetPathDataSegmentSimpleDataWordLength :: "octet list \<Rightarrow> CipUsint option" where
  "GetPathDataSegmentSimpleDataWordLength p = do {
     is_segment kSegmentTypeDataSegment p;
     t \<leftarrow> GetPathDataSegmentSubtype p;
     guard (t = kDataSegmentSubtypeSimpleData);
     octet_at 1 p }"

definition CipEpathGetNeededLogicalFormatForValue :: "CipDword \<Rightarrow> LogicalSegmentLogicalFormat" where
  "CipEpathGetNeededLogicalFormatForValue v =
     (let f = kLogicalSegmentLogicalFormatEightBit;
          f = (if 0xFF < v then kLogicalSegmentLogicalFormatSixteenBit else f)
      in if 0xFFFF < v then kLogicalSegmentLogicalFormatThirtyTwoBit else f)"

subsection \<open>Properties\<close>

text \<open>The first octet of a logical segment, as the setters build it up.\<close>

definition logical_segment_octet :: "LogicalSegmentLogicalType \<Rightarrow> LogicalSegmentLogicalFormat \<Rightarrow> octet list option" where
  "logical_segment_octet t f = do {
     p \<leftarrow> SetPathSegmentType kSegmentTypeLogicalSegment [0];
     p \<leftarrow> SetPathLogicalSegmentLogicalType t p;
     SetPathLogicalSegmentLogicalFormat f p }"

lemmas segment_defs = octet_at_def set_octet_def or_octet_def is_segment_def GetPathSegmentType_def SetPathSegmentType_def
  SetPathLogicalSegmentLogicalType_def SetPathLogicalSegmentLogicalFormat_def GetPathLogicalSegmentLogicalType_def
  GetPathLogicalSegmentLogicalFormat_def logical_segment_octet_def

lemma logical_segment_octet_reads:
  assumes "t \<noteq> kLogicalSegmentLogicalTypeInvalid" "f \<noteq> kLogicalSegmentLogicalFormatInvalid"
  shows "\<exists>b. logical_segment_octet t f = Some [b] \<and> GetPathSegmentType (b # rest) = Some kSegmentTypeLogicalSegment
     \<and> GetPathLogicalSegmentLogicalType (b # rest) = Some t \<and> GetPathLogicalSegmentLogicalFormat (b # rest) = Some f"
  using assms by (cases t; cases f; simp add: segment_defs)

lemma emit_move:
  assumes "MoveMessageNOctets 1 m = Some m1" "emit bs m1 = Some m'"
  shows "\<exists>pad. msg_content m' = msg_content m @ pad # bs"
proof -
  have c: "current_message_position m < length (message_buffer m)" "m1 = m\<lparr>current_message_position :=
      Suc (current_message_position m), used_message_length := used_message_length m + 1\<rparr>"
    using assms(1) by (auto simp: MoveMessageNOctets_def Let_def nat_add_distrib split: if_splits)
  have "msg_content m1 = msg_content m @ [message_buffer m ! current_message_position m]"
    using c by (simp add: msg_content_def take_Suc_conv_app_nth)
  then show ?thesis using emit_SomeD(1) [OF assms(2)] by simp
qed

lemma ucast_back:
  "unat v < 2 ^ LENGTH('b::len) \<Longrightarrow> ucast (ucast (v :: 32 word) :: 'b word) = v"
  by (simp add: word_unat_eq_iff unsigned_ucast_eq unsigned_take_bit_eq take_bit_nat_eq_self)

lemma ucast_small:
  "v \<le> 0xFF \<Longrightarrow> ucast (ucast (v :: 32 word) :: 8 word) = v" "v \<le> 0xFFFF \<Longrightarrow> ucast (ucast (v :: 32 word) :: 16 word) = v"
  by (rule ucast_back, simp add: word_le_nat_alt)+

lemma needed_format_cases:
  obtains (byte) "v \<le> 0xFF" "CipEpathGetNeededLogicalFormatForValue v = kLogicalSegmentLogicalFormatEightBit"
    | (word) "v \<le> 0xFFFF" "CipEpathGetNeededLogicalFormatForValue v = kLogicalSegmentLogicalFormatSixteenBit"
    | (dword) "CipEpathGetNeededLogicalFormatForValue v = kLogicalSegmentLogicalFormatThirtyTwoBit"
  unfolding CipEpathGetNeededLogicalFormatForValue_def Let_def by (meson leI)

text \<open>
  Logical segments round trip. The first octet that the setters build for a logical type and
  the format the value needs, followed by what \<^verbatim>\<open>CipEpathSetLogicalValue\<close> appends to a message,
  is read back as a logical segment of this type and format with this value, whatever the
  message held in the octet of padding before, and the reader stops behind the segment.
\<close>

theorem logical_segment_roundtrip:
  assumes "t \<noteq> kLogicalSegmentLogicalTypeInvalid" and "wf_msg m" and "5 \<le> msg_room m"
  shows "\<exists>b m' body. logical_segment_octet t (CipEpathGetNeededLogicalFormatForValue v) = Some [b]
    \<and> CipEpathSetLogicalValue v (CipEpathGetNeededLogicalFormatForValue v) m = Some m'
    \<and> msg_content m' = msg_content m @ body
    \<and> GetPathLogicalSegmentLogicalType (b # body @ rest) = Some t
    \<and> CipEpathGetLogicalValue (b # body @ rest) = Some (v, rest)"
proof -
  let ?f = "CipEpathGetNeededLogicalFormatForValue v"
  have f: "?f \<noteq> kLogicalSegmentLogicalFormatInvalid" by (simp add: CipEpathGetNeededLogicalFormatForValue_def Let_def)
  obtain b where b: "logical_segment_octet t ?f = Some [b]"
      "\<And>r. GetPathLogicalSegmentLogicalType (b # r) = Some t" "\<And>r. GetPathLogicalSegmentLogicalFormat (b # r) = Some ?f"
    using logical_segment_octet_reads [OF assms(1) f] by (metis (no_types, lifting) list.inject option.inject)
  have step: "\<exists>m1. MoveMessageNOctets 1 m = Some m1 \<and> wf_msg m1 \<and> 4 \<le> msg_room m1"
    using assms(2,3) by (auto simp: MoveMessageNOctets_def Let_def wf_msg_def msg_room_def nat_add_distrib)
  show ?thesis
  proof (cases v rule: needed_format_cases)
    case byte
    obtain m' where "emit [ucast v] m = Some m'" "msg_content m' = msg_content m @ [ucast v]"
      using emit_wf_fits [OF assms(2), of "[ucast v]"] assms(3) by auto
    with b byte ucast_small(1) show ?thesis
      by (intro exI [of _ b] exI [of _ m'] exI [of _ "[ucast v]"])
        (simp add: CipEpathSetLogicalValue_def CipEpathGetLogicalValue_def AddSint_emit advance_def)
  next
    case word
    obtain m1 where m1: "MoveMessageNOctets 1 m = Some m1" "wf_msg m1" "4 \<le> msg_room m1" using step by blast
    obtain m' where m': "emit (le_octets 2 (ucast v :: 16 word)) m1 = Some m'"
      using emit_wf_fits [OF m1(2), of "le_octets 2 (ucast v :: 16 word)"] m1(3) by auto
    obtain pad where "msg_content m' = msg_content m @ pad # le_octets 2 (ucast v :: 16 word)"
      using emit_move [OF m1(1) m'] by blast
    with b word ucast_small(2) m1(1) m' show ?thesis
      by (intro exI [of _ b] exI [of _ m'] exI [of _ "pad # le_octets 2 (ucast v :: 16 word)"])
        (simp add: CipEpathSetLogicalValue_def CipEpathGetLogicalValue_def AddInt_emit advance_def Get_aliases uint.dec_enc)
  next
    case dword
    obtain m1 where m1: "MoveMessageNOctets 1 m = Some m1" "wf_msg m1" "4 \<le> msg_room m1" using step by blast
    obtain m' where m': "emit (le_octets 4 v) m1 = Some m'"
      using emit_wf_fits [OF m1(2), of "le_octets 4 v"] m1(3) by auto
    obtain pad where "msg_content m' = msg_content m @ pad # le_octets 4 v"
      using emit_move [OF m1(1) m'] by blast
    with b dword m1(1) m' show ?thesis
      by (intro exI [of _ b] exI [of _ m'] exI [of _ "pad # le_octets 4 v"])
        (simp add: CipEpathSetLogicalValue_def CipEpathGetLogicalValue_def AddDint_emit advance_def Get_aliases udint.dec_enc)
  qed
qed

lemma logical_segment_roundtrip_witness:
  "\<exists>b m' body. logical_segment_octet kLogicalSegmentLogicalTypeClassId (CipEpathGetNeededLogicalFormatForValue 0x300) = Some [b]
    \<and> CipEpathSetLogicalValue 0x300 (CipEpathGetNeededLogicalFormatForValue 0x300) (InitializeENIPMessage undefined) = Some m'
    \<and> msg_content m' = body \<and> CipEpathGetLogicalValue (b # body @ [1]) = Some (0x300, [1])"
  using logical_segment_roundtrip [of kLogicalSegmentLogicalTypeClassId "InitializeENIPMessage undefined" "0x300" "[1]"]
  by (auto simp: PC_OPENER_ETHERNET_BUFFER_SIZE_def)

end
