(* ===== verification/ConnectionPath.thy ===== *)
theory ConnectionPath
  imports CipEpath ConnectionObject MessageRouter
begin

text \<open>
  The connection path of a forward open request (\<^verbatim>\<open>ParseConnectionPath\<close> and
  \<^verbatim>\<open>CheckElectronicKeyData\<close> of \<^verbatim>\<open>cip/cipconnectionmanager.c\<close>). The parser is composed of the steps
  the function takes; each step works on the variables of the function and on the two globals with the
  configuration data, and either goes on or returns a general status. \<^term>\<open>None\<close> is a failed
  assertion or a read behind the known memory.
\<close>

subsection \<open>The electronic key\<close>

definition CheckElectronicKeyData ::
    "identity_object \<Rightarrow> octet \<Rightarrow> electronic_key_format_4 \<Rightarrow> EipStatus \<times> 16 word" where
  "CheckElectronicKeyData identity key_format key =
     (let major = ElectronicKeyFormat4GetMajorRevision key; minor = ek_minor_revision key
      in if 4 \<noteq> key_format then (kEipStatusError, 0x0315)
         else if ek_vendor_id key \<noteq> vendor_id identity \<and> ek_vendor_id key \<noteq> 0
            \<or> ek_product_code key \<noteq> product_code identity \<and> ek_product_code key \<noteq> 0
         then (kEipStatusError, 0x0114)
         else if ek_device_type key \<noteq> device_type identity \<and> ek_device_type key \<noteq> 0
         then (kEipStatusError, 0x0115)
         else if \<not> ElectronicKeyFormat4GetMajorRevisionCompatibility key then
           if major = 0 then (kEipStatusOk, 0)
           else if major \<noteq> major_revision identity \<or> minor \<noteq> minor_revision identity \<and> minor \<noteq> 0
           then (kEipStatusError, 0x0116)
           else (kEipStatusOk, 0)
         else if major = major_revision identity \<and> minor > 0 \<and> minor \<le> minor_revision identity
         then (kEipStatusOk, 0)
         else (kEipStatusError, 0x0116))"

subsection \<open>Steps of the parser\<close>

record 'fn path_parse =
  pp_object :: "'fn connection_object"
  pp_message :: "octet list"
  pp_remaining :: size_t
  pp_error :: "16 word"
  pp_config_length :: "32 word"
  pp_config_buffer :: "octet list option"

type_synonym ('fn, 'a) path_step = "'fn path_parse \<Rightarrow> ((octet + 'a) \<times> 'fn path_parse) option"

definition path_ok :: "'a \<Rightarrow> ('fn, 'a) path_step" where
  "path_ok x p = Some (Inr x, p)"

definition path_fail :: "octet \<Rightarrow> 16 word \<Rightarrow> ('fn, 'a) path_step" where
  "path_fail status err p = Some (Inl status, p\<lparr>pp_error := err\<rparr>)"

definition path_then :: "('fn, 'a) path_step \<Rightarrow> ('a \<Rightarrow> ('fn, 'b) path_step) \<Rightarrow> ('fn, 'b) path_step" where
  "path_then f g p = do {
     (r, p) \<leftarrow> f p;
     case r of Inl status \<Rightarrow> Some (Inl status, p) | Inr x \<Rightarrow> g x p }"

definition is_key_segment :: "octet list \<Rightarrow> bool option" where
  "is_key_segment msg = do {
     t \<leftarrow> GetPathSegmentType msg;
     if t \<noteq> kSegmentTypeLogicalSegment then Some False
     else do {
       l \<leftarrow> GetPathLogicalSegmentLogicalType msg;
       if l \<noteq> kLogicalSegmentLogicalTypeSpecial then Some False
       else do {
         k \<leftarrow> GetPathLogicalSegmentSpecialTypeLogicalType msg;
         if \<not> k then Some False else GetPathLogicalSegmentElectronicKeyFormat msg } } }"

definition parse_electronic_key :: "identity_object \<Rightarrow> ('fn, unit) path_step" where
  "parse_electronic_key identity p = do {
     key_found \<leftarrow> is_key_segment (pp_message p);
     if \<not> key_found then path_ok () p
     else if pp_remaining p < 5 then path_fail kCipErrorNotEnoughData 0 p
     else do {
       (key, msg) \<leftarrow> GetElectronicKeyFormat4FromMessage (pp_message p) ElectronicKeyFormat4New;
       let (status, err) = CheckElectronicKeyData identity 4 key;
       let p = p\<lparr>pp_object := (pp_object p)\<lparr>electronic_key_format := 4\<rparr>, pp_message := msg,
          pp_remaining := pp_remaining p - 5, pp_error := err\<rparr>;
       if status \<noteq> kEipStatusOk then path_fail kCipErrorConnectionFailure err p else path_ok () p } }"

definition is_pit_segment :: "octet list \<Rightarrow> bool option" where
  "is_pit_segment msg = do {
     t \<leftarrow> GetPathSegmentType msg;
     if t \<noteq> kSegmentTypeNetworkSegment then Some False
     else do {
       s \<leftarrow> GetPathNetworkSegmentSubtype msg;
       Some (s = kNetworkSegmentSubtypeProductionInhibitTimeInMilliseconds) } }"

text \<open>The production inhibit time, with the number of words the code counts for its segment.\<close>

definition take_pit_segment :: "size_t \<Rightarrow> ('fn, unit) path_step" where
  "take_pit_segment words p = do {
     v \<leftarrow> octet_at 1 (pp_message p);
     msg \<leftarrow> advance 2 (pp_message p);
     path_ok () (p\<lparr>pp_object := (pp_object p)\<lparr>production_inhibit_time := ucast v\<rparr>, pp_message := msg,
       pp_remaining := pp_remaining p - words\<rparr>) }"

definition parse_pit :: "('fn, unit) path_step" where
  "parse_pit p =
     (if ConnectionObjectGetTransportClassTriggerProductionTrigger (pp_object p) \<noteq> ProductionTriggerCyclic
      then do {
        pit \<leftarrow> is_pit_segment (pp_message p);
        if pit then take_pit_segment 1 p else path_ok () p
      } else path_ok () p)"

definition is_logical :: "LogicalSegmentLogicalType set \<Rightarrow> octet list \<Rightarrow> bool option" where
  "is_logical types msg = do {
     t \<leftarrow> GetPathSegmentType msg;
     if t \<noteq> kSegmentTypeLogicalSegment then Some False
     else do {
       l \<leftarrow> GetPathLogicalSegmentLogicalType msg;
       Some (l \<in> types) } }"

definition parse_class :: "'svc registry \<Rightarrow> ('fn, CipDword \<times> 'svc cip_class) path_step" where
  "parse_class objects p = do {
     is_class \<leftarrow> is_logical {kLogicalSegmentLogicalTypeClassId} (pp_message p);
     if \<not> is_class then path_fail kCipErrorConnectionFailure 0x0315 p
     else do {
       (code, msg) \<leftarrow> CipEpathGetLogicalValue (pp_message p);
       let p = p\<lparr>pp_message := msg\<rparr>;
       case GetCipClass objects code of
         None \<Rightarrow> path_fail kCipErrorConnectionFailure (if code \<ge> 0xC8 then 0x0315 else 0x012F) p
       | Some cls \<Rightarrow> path_ok (code, cls) (p\<lparr>pp_remaining := pp_remaining p - 1\<rparr>) } }"

text \<open>Words counted for a segment with an instance number.\<close>

definition instance_words :: "CipInstanceNum \<Rightarrow> size_t" where
  "instance_words n = (if n > 0xFF then 2 else 1)"

definition parse_configuration_instance :: "'svc cip_class \<Rightarrow> ('fn, CipInstanceNum) path_step" where
  "parse_configuration_instance cls p = do {
     is_inst \<leftarrow> is_logical {kLogicalSegmentLogicalTypeInstanceId} (pp_message p);
     if \<not> is_inst then path_ok 0 p
     else do {
       (n, msg) \<leftarrow> CipEpathGetLogicalValue (pp_message p);
       let p = p\<lparr>pp_message := msg\<rparr>;
       if n > 0xFFFF \<or> GetCipInstance cls (ucast n) = None then path_fail kCipErrorConnectionFailure 0x0315 p
       else path_ok (ucast n) (p\<lparr>pp_remaining := pp_remaining p - instance_words (ucast n)\<rparr>) } }"

text \<open>The path points at instance 1 of the message router: a class 3 connection.\<close>

definition parse_class3 :: "CipDword \<Rightarrow> CipInstanceNum \<Rightarrow> ('fn, unit) path_step" where
  "parse_class3 code n p =
     (let path = \<lparr>cp_class_id = code, cp_instance_id = n, cp_connection_point = 0\<rparr>
      in if pp_remaining p > 0 then path_fail kCipErrorConnectionFailure 0x0315 p
         else if code \<noteq> kCipMessageRouterClassCode \<or> 1 \<noteq> n then path_fail kCipErrorConnectionFailure 0x012F p
         else path_ok () (p\<lparr>pp_object := (pp_object p)\<lparr>configuration_path := path, produced_path := path\<rparr>\<rparr>))"

datatype connection_path_kind = ConsumedPath | ProducedPath

definition paths_to_encode :: "'fn connection_object \<Rightarrow> connection_path_kind list" where
  "paths_to_encode c =
     (if ConnectionObjectGetOToTConnectionType c = ConnectionTypeNull
      then if ConnectionObjectGetTToOConnectionType c = ConnectionTypeNull then [] else [ProducedPath]
      else if ConnectionObjectGetTToOConnectionType c = ConnectionTypeNull then [ConsumedPath]
      else [ConsumedPath, ProducedPath])"

fun set_connection_path :: "connection_path_kind \<Rightarrow> connection_path_epath \<Rightarrow> 'fn connection_object \<Rightarrow> 'fn connection_object" where
  "set_connection_path ConsumedPath path c = c\<lparr>consumed_path := path\<rparr>"
| "set_connection_path ProducedPath path c = c\<lparr>produced_path := path\<rparr>"

definition parse_connection_point :: "CipDword \<Rightarrow> 'svc cip_class \<Rightarrow> connection_path_kind \<Rightarrow> ('fn, unit) path_step" where
  "parse_connection_point code cls kind p = do {
     is_point \<leftarrow> is_logical {kLogicalSegmentLogicalTypeInstanceId, kLogicalSegmentLogicalTypeConnectionPoint} (pp_message p);
     if \<not> is_point then path_fail kCipErrorConnectionFailure 0x0315 p
     else do {
       (n, msg) \<leftarrow> CipEpathGetLogicalValue (pp_message p);
       let p = p\<lparr>pp_message := msg\<rparr>;
       if n > 0xFFFF then path_fail kCipErrorConnectionFailure 0x0315 p
       else do {
         let path = \<lparr>cp_class_id = code, cp_instance_id = ucast n, cp_connection_point = 0\<rparr>;
         let p = p\<lparr>pp_object := set_connection_path kind path (pp_object p)\<rparr>;
         if GetCipInstance cls (ucast n) = None then path_fail kCipErrorConnectionFailure 0x012F p
         else path_ok () (p\<lparr>pp_remaining := pp_remaining p - instance_words (ucast n)\<rparr>) } } }"

fun parse_connection_points :: "CipDword \<Rightarrow> 'svc cip_class \<Rightarrow> connection_path_kind list \<Rightarrow> ('fn, unit) path_step" where
  "parse_connection_points code cls [] = path_ok ()"
| "parse_connection_points code cls (k # ks) =
     path_then (parse_connection_point code cls k) (\<lambda>_. parse_connection_points code cls ks)"

subsection \<open>Configuration data\<close>

text \<open>One segment behind the connection points: a simple data segment or a production inhibit time.\<close>

definition parse_data_segment :: "('fn, unit) path_step" where
  "parse_data_segment p = do {
     s \<leftarrow> GetPathDataSegmentSubtype (pp_message p);
     if s \<noteq> kDataSegmentSubtypeSimpleData then path_fail kCipErrorPathSegmentError (pp_error p) p
     else do {
       n \<leftarrow> octet_at 1 (pp_message p);
       let len = (ucast n * 2 :: 32 word);
       buffer \<leftarrow> advance 2 (pp_message p);
       msg \<leftarrow> advance (unat len + 2) (pp_message p);
       path_ok () (p\<lparr>pp_config_length := len, pp_config_buffer := Some buffer, pp_message := msg,
         pp_remaining := pp_remaining p - ucast ((len + 2) div 2)\<rparr>) } }"

definition parse_network_segment :: "size_t \<Rightarrow> ('fn, unit) path_step" where
  "parse_network_segment total_words p = do {
     s \<leftarrow> GetPathNetworkSegmentSubtype (pp_message p);
     if s \<noteq> kNetworkSegmentSubtypeProductionInhibitTimeInMilliseconds
     then path_fail kCipErrorPathSegmentError (pp_error p) p
     else if ConnectionObjectGetTransportClassTriggerProductionTrigger (pp_object p) \<noteq> ProductionTriggerCyclic
     then take_pit_segment 2 p
     else path_fail kCipErrorPathSegmentError (ucast (total_words - pp_remaining p)) p }"

definition parse_config_segment :: "size_t \<Rightarrow> ('fn, unit) path_step" where
  "parse_config_segment total_words p = do {
     t \<leftarrow> GetPathSegmentType (pp_message p);
     if t = kSegmentTypeDataSegment then parse_data_segment p
     else if t = kSegmentTypeNetworkSegment then parse_network_segment total_words p
     else path_fail kCipErrorPathSegmentError (ucast (total_words - pp_remaining p)) p }"

lemma parse_segment_shorter:
  "parse_data_segment p = Some (Inr u, p') \<Longrightarrow> length (pp_message p') < length (pp_message p)"
  "parse_network_segment total_words p = Some (Inr u, p') \<Longrightarrow> length (pp_message p') < length (pp_message p)"
  by (auto simp: parse_data_segment_def parse_network_segment_def take_pit_segment_def path_ok_def path_fail_def
      advance_def octet_at_def Let_def split: if_splits)

lemma parse_config_segment_shorter:
  "parse_config_segment total_words p = Some (Inr u, p') \<Longrightarrow> length (pp_message p') < length (pp_message p)"
  by (auto simp: parse_config_segment_def path_fail_def split: if_splits dest: parse_segment_shorter)

function parse_config_segments :: "size_t \<Rightarrow> ('fn, unit) path_step" where
  "parse_config_segments total_words p =
     (if pp_remaining p > 0
      then case parse_config_segment total_words p of
          None \<Rightarrow> None
        | Some (Inl status, p) \<Rightarrow> Some (Inl status, p)
        | Some (Inr _, p) \<Rightarrow> parse_config_segments total_words p
      else path_ok () p)"
  by auto

termination
  by (relation "measure (length \<circ> pp_message \<circ> snd)") (auto dest: parse_config_segment_shorter)

declare parse_config_segments.simps [simp del]

text \<open>The connection points of an I/O connection, with the configuration data.\<close>

definition parse_io :: "size_t \<Rightarrow> CipDword \<Rightarrow> 'svc cip_class \<Rightarrow> CipInstanceNum \<Rightarrow> ('fn, unit) path_step" where
  "parse_io total_words code cls n p =
     (let c = (pp_object p)\<lparr>configuration_path := \<lparr>cp_class_id = code, cp_instance_id = n, cp_connection_point = 0\<rparr>\<rparr>
      in path_then (parse_connection_points code cls (paths_to_encode c))
           (\<lambda>_ p. parse_config_segments total_words (p\<lparr>pp_config_length := 0, pp_config_buffer := None\<rparr>))
           (p\<lparr>pp_object := c\<rparr>))"

definition parse_end_point :: "size_t \<Rightarrow> CipDword \<Rightarrow> 'svc cip_class \<Rightarrow> CipInstanceNum \<Rightarrow> ('fn, unit) path_step" where
  "parse_end_point total_words code cls n p =
     (if ConnectionObjectGetTransportClassTriggerTransportClass (pp_object p) = TransportClass3
      then parse_class3 code n p else parse_io total_words code cls n p)"

definition parse_path :: "identity_object \<Rightarrow> 'svc registry \<Rightarrow> size_t \<Rightarrow> ('fn, unit) path_step" where
  "parse_path identity objects total_words =
     path_then (parse_electronic_key identity) (\<lambda>_.
     path_then parse_pit (\<lambda>_.
     path_then (parse_class objects) (\<lambda>(code, cls).
     path_then (parse_configuration_instance cls) (parse_end_point total_words code cls))))"

subsection \<open>The whole path\<close>

definition g_kForwardOpenHeaderLength :: size_t where
  "g_kForwardOpenHeaderLength = 36"

definition g_kLargeForwardOpenHeaderLength :: size_t where
  "g_kLargeForwardOpenHeaderLength = 40"

text \<open>
  \<open>p\<close> holds the connection object, the message of the request and the extended error of the caller,
  and the configuration data. The message of the request is advanced only when the path is accepted.
\<close>

definition ParseConnectionPath ::
    "identity_object \<Rightarrow> 'svc registry \<Rightarrow> size_t \<Rightarrow> 'fn path_parse \<Rightarrow> (octet \<times> 'fn path_parse) option" where
  "ParseConnectionPath identity objects data_size p = do {
     (n, msg) \<leftarrow> GetUsintFromMessage (pp_message p);
     if n = 0 then Some (0xFF, p)
     else do {
       let total_words = (ucast n :: size_t);
       let c = (pp_object p)\<lparr>production_inhibit_time := 256\<rparr>;
       let header = (if is_large_forward_open c then g_kLargeForwardOpenHeaderLength else g_kForwardOpenHeaderLength);
       if header + total_words * 2 < data_size then Some (kCipErrorTooMuchData, p\<lparr>pp_object := c, pp_error := 0\<rparr>)
       else if header + total_words * 2 > data_size then Some (kCipErrorNotEnoughData, p\<lparr>pp_object := c, pp_error := 0\<rparr>)
       else do {
         (r, q) \<leftarrow> parse_path identity objects total_words (p\<lparr>pp_object := c, pp_message := msg, pp_remaining := total_words\<rparr>);
         case r of
           Inl status \<Rightarrow> Some (status, q\<lparr>pp_message := pp_message p\<rparr>)
         | Inr _ \<Rightarrow> Some (kCipErrorSuccess, q) } } }"

end
