(* ===== verification/ForwardOpen.thy ===== *)
theory ForwardOpen
  imports IoConnection ConnectionPath
begin

text \<open>
  The services of the connection manager (\<^verbatim>\<open>cip/cipconnectionmanager.c\<close>): opening and closing
  connections, and the data of connections, with the set-up of the class. They are functions on the
  state of the stack; the buffer object \<^verbatim>\<open>g_dummy_connection_object\<close> is one of its connection objects.
\<close>

abbreviation (input) kCipErrorPrivilegeViolation :: octet where "kCipErrorPrivilegeViolation \<equiv> 0x0F"

type_synonym 'z cm_result = "(EipStatus \<times> mr_request \<times> mr_response \<times> 'z io_stack) option"

subsection \<open>Connection numbers\<close>

text \<open>\<open>used\<close> are the numbers of the active connections, \<open>rs\<close> the next results of \<^verbatim>\<open>rand()\<close>.\<close>

partial_function (option) draw_number ::
    "CipUint list \<Rightarrow> CipUint list \<Rightarrow> CipUint \<Rightarrow> CipUint list \<Rightarrow> (CipUint \<times> CipUint list) option" where
  "draw_number used ns r rs =
     (case ns of
        [] \<Rightarrow> Some (r, rs)
      | n # ns \<Rightarrow>
          if n = r then (case rs of
              [] \<Rightarrow> None
            | r # rs \<Rightarrow> Option.bind (draw_number used used r rs) (\<lambda>(r, rs). draw_number used ns r rs))
          else draw_number used ns r rs)"

definition GenerateRandomConnectionNumber :: "'z io_stack \<Rightarrow> (CipUint \<times> 'z io_stack) option" where
  "GenerateRandomConnectionNumber st =
     (let used = map (\<lambda>a. connection_number (st_objects st a)) (list_data (st_connection_list st))
      in case os_rand (io st) of
           [] \<Rightarrow> None
         | r # rs \<Rightarrow> do {
             (r, rs) \<leftarrow> draw_number used used r rs;
             Some (r, upd_io (\<lambda>i. i\<lparr>os_rand := rs\<rparr>) st) })"

subsection \<open>Replies\<close>

definition on_message :: "(enip_message \<Rightarrow> enip_message option) \<Rightarrow> mr_response \<Rightarrow> mr_response option" where
  "on_message f resp = map_option (\<lambda>m. resp\<lparr>message := m\<rparr>) (f (message resp))"

definition AddNullAddressItem :: "cpf_data \<Rightarrow> cpf_data option" where
  "AddNullAddressItem g =
     (if di_type_id (cpf_data_item g) = kCipItemIdUnconnectedDataItem
      then Some (g\<lparr>cpf_address_item := (cpf_address_item g)\<lparr>ai_type_id := kCipItemIdNullAddress, ai_length := 0\<rparr>\<rparr>)
      else None)"

definition unconnected_reply :: "cpf_data \<Rightarrow> cpf_data option" where
  "unconnected_reply g =
     AddNullAddressItem (g\<lparr>item_count := 2, cpf_data_item := (cpf_data_item g)\<lparr>di_type_id := kCipItemIdUnconnectedDataItem\<rparr>\<rparr>)"

text \<open>The number of items of a successful reply, which carries the socket addresses.\<close>

definition count_infos :: "cpf_data \<Rightarrow> cpf_data" where
  "count_infos g =
     (if sa_type_id (address_info_item g ! 0) \<noteq> 0
      then g\<lparr>item_count := if sa_type_id (address_info_item g ! 1) \<noteq> 0 then 4 else 3\<rparr> else g)"

definition open_error_status :: "octet \<Rightarrow> 16 word \<Rightarrow> 'fn connection_object \<Rightarrow> mr_response \<Rightarrow> mr_response" where
  "open_error_status status err c resp =
     (if status \<in> {kCipErrorNotEnoughData, kCipErrorTooMuchData} then resp\<lparr>size_of_additional_status := 0\<rparr>
      else let resp = resp\<lparr>additional_status := (additional_status resp)[0 := err]\<rparr>
        in if err = 0x0127 then resp\<lparr>size_of_additional_status := 2,
             additional_status := (additional_status resp)[1 := correct_originator_to_target_size c]\<rparr>
           else if err = 0x0128 then resp\<lparr>size_of_additional_status := 2,
             additional_status := (additional_status resp)[1 := correct_target_to_originator_size c]\<rparr>
           else resp\<lparr>size_of_additional_status := 1\<rparr>)"

definition connection_ids :: "'fn connection_object \<Rightarrow> enip_message \<Rightarrow> enip_message option" where
  "connection_ids c m = do {
     m \<leftarrow> AddDintToMessage (cip_consumed_connection_id c) m;
     AddDintToMessage (cip_produced_connection_id c) m }"

definition connection_triad :: "'fn connection_object \<Rightarrow> enip_message \<Rightarrow> enip_message option" where
  "connection_triad c m = do {
     m \<leftarrow> AddIntToMessage (connection_serial_number c) m;
     m \<leftarrow> AddIntToMessage (originator_vendor_id c) m;
     AddDintToMessage (originator_serial_number c) m }"

definition packet_intervals :: "'fn connection_object \<Rightarrow> enip_message \<Rightarrow> enip_message option" where
  "packet_intervals c m = do {
     m \<leftarrow> AddDintToMessage (o_to_t_requested_packet_interval c) m;
     AddDintToMessage (t_to_o_requested_packet_interval c) m }"

definition AssembleForwardOpenResponse ::
    "nat \<Rightarrow> mr_response \<Rightarrow> octet \<Rightarrow> 16 word \<Rightarrow> 'z io_stack \<Rightarrow> (EipStatus \<times> mr_response \<times> 'z io_stack) option" where
  "AssembleForwardOpenResponse a resp status err st = do {
     g \<leftarrow> unconnected_reply (st_cpf st);
     let c = st_objects st a;
     let success = (status = kCipErrorSuccess);
     let resp = resp\<lparr>reply_service := 0x80 OR (if is_large_forward_open c then kLargeForwardOpen else kForwardOpen),
        general_status := status\<rparr>;
     (resp, g, c) \<leftarrow>
       (if success then do {
          resp \<leftarrow> on_message (connection_ids c) (resp\<lparr>size_of_additional_status := 0\<rparr>);
          Some (resp, count_infos g, c)
        } else do {
          c \<leftarrow> ConnectionObjectSetState c kConnectionObjectStateNonExistent;
          Some (open_error_status status err c resp, g, c) });
     resp \<leftarrow> on_message (connection_triad c) resp;
     resp \<leftarrow> (if success then on_message (packet_intervals c) resp else Some resp);
     resp \<leftarrow> on_message (AddSintToMessage 0) resp;
     resp \<leftarrow> on_message (AddSintToMessage 0) resp;
     Some (kEipStatusOkSend, resp, store_object a c (st\<lparr>st_cpf := g\<rparr>)) }"

definition AssembleForwardCloseResponse ::
    "CipUint \<Rightarrow> CipUint \<Rightarrow> CipUdint \<Rightarrow> mr_request \<Rightarrow> mr_response \<Rightarrow> 16 word \<Rightarrow> 'z io_stack
      \<Rightarrow> (EipStatus \<times> mr_response \<times> 'z io_stack) option" where
  "AssembleForwardCloseResponse serial vendor orig_serial req resp err st = do {
     g \<leftarrow> unconnected_reply (st_cpf st);
     resp \<leftarrow> on_message (AddIntToMessage serial) resp;
     resp \<leftarrow> on_message (AddIntToMessage vendor) resp;
     resp \<leftarrow> on_message (AddDintToMessage orig_serial) resp;
     let resp = resp\<lparr>reply_service := 0x80 OR req_service req\<rparr>;
     resp \<leftarrow>
       (if err = 0 then do {
          resp \<leftarrow> on_message (AddSintToMessage 0) resp;
          Some (resp\<lparr>general_status := kCipErrorSuccess, size_of_additional_status := 0\<rparr>)
        } else do {
          b \<leftarrow> octet_at 0 (req_data req);
          resp \<leftarrow> on_message (AddSintToMessage b) resp;
          Some (if err = 0xFFFF then resp\<lparr>general_status := kCipErrorPrivilegeViolation\<rparr>
                else resp\<lparr>general_status := kCipErrorConnectionFailure,
                   additional_status := (additional_status resp)[0 := err], size_of_additional_status := 1\<rparr>) });
     resp \<leftarrow> on_message (AddSintToMessage 0) resp;
     Some (kEipStatusOkSend, resp, st\<lparr>st_cpf := g\<rparr>) }"

subsection \<open>Opening\<close>

text \<open>The reply of all handlers of a request: the request as it stands, and the reply for object \<open>a\<close>.\<close>

definition open_reply :: "nat \<Rightarrow> octet \<Rightarrow> 16 word \<Rightarrow> mr_request \<Rightarrow> mr_response \<Rightarrow> 'z io_stack \<Rightarrow> 'z cm_result" where
  "open_reply a status err req resp st =
     map_option (\<lambda>(s, resp, st). (s, req, resp, st)) (AssembleForwardOpenResponse a resp status err st)"

definition HandleNullNonMatchingForwardOpenRequest :: "mr_request \<Rightarrow> mr_response \<Rightarrow> 'z io_stack \<Rightarrow> 'z cm_result" where
  "HandleNullNonMatchingForwardOpenRequest = open_reply g_dummy_connection_object kCipErrorConnectionFailure 0x0132"

definition HandleNullMatchingForwardOpenRequest :: "mr_request \<Rightarrow> mr_response \<Rightarrow> 'z io_stack \<Rightarrow> 'z cm_result" where
  "HandleNullMatchingForwardOpenRequest = open_reply g_dummy_connection_object kCipErrorConnectionFailure 0x0132"

definition HandleNonNullMatchingForwardOpenRequest :: "mr_request \<Rightarrow> mr_response \<Rightarrow> 'z io_stack \<Rightarrow> 'z cm_result" where
  "HandleNonNullMatchingForwardOpenRequest = open_reply g_dummy_connection_object kCipErrorConnectionFailure 0x0100"

definition open_function ::
    "io_env \<Rightarrow> 'svc registry \<Rightarrow> 'z io_close \<Rightarrow> open_fn \<Rightarrow> nat \<Rightarrow> 16 word \<Rightarrow> 'z io_stack
      \<Rightarrow> (octet \<times> 16 word \<times> 'z io_stack) option" where
  "open_function env objects close f a err st =
     (case f of
        OpenEstablishClass3Connection \<Rightarrow> EstablishClass3Connection a err st
      | OpenEstablishIoConnection \<Rightarrow> EstablishIoConnection env objects close a st)"

text \<open>An entry without a function leaves the general status, success, but sets an extended error.\<close>

definition establish_connection ::
    "io_env \<Rightarrow> 'svc registry \<Rightarrow> 'z io_close \<Rightarrow> 'z io_stack \<Rightarrow> (octet \<times> 16 word \<times> 'z io_stack) option" where
  "establish_connection env objects close st =
     (case GetConnectionManagementEntry
         (cp_class_id (configuration_path (st_objects st g_dummy_connection_object))) st of
        None \<Rightarrow> Some (0xFF, 0x012F, st)
      | Some en \<Rightarrow> (case open_connection_function en of
          Some f \<Rightarrow> open_function env objects close f g_dummy_connection_object 0 st
        | None \<Rightarrow> Some (kCipErrorSuccess, 0x031C, st)))"

definition first_connection :: "('fn, 'app) stack_state \<Rightarrow> nat option" where
  "first_connection st = do {
     n \<leftarrow> dll_first (fst (st_connection_list st));
     node_data (snd (st_connection_list st) ! n) }"

definition parse_request_path ::
    "'svc registry \<Rightarrow> mr_request \<Rightarrow> 'z io_stack \<Rightarrow> (octet \<times> 16 word \<times> mr_request \<times> 'z io_stack) option" where
  "parse_request_path objects req st = do {
     (status, p) \<leftarrow> ParseConnectionPath (g_identity st) objects (request_data_size req)
        \<lparr>pp_object = st_objects st g_dummy_connection_object, pp_message = req_data req, pp_remaining = 0, pp_error = 0,
         pp_config_length = g_config_data_length (st_app st), pp_config_buffer = g_config_data_buffer (st_app st)\<rparr>;
     let st = store_object g_dummy_connection_object (pp_object p) st;
     let st = st\<lparr>st_app := (st_app st)\<lparr>g_config_data_length := pp_config_length p, g_config_data_buffer := pp_config_buffer p\<rparr>\<rparr>;
     Some (status, pp_error p, req\<lparr>req_data := pp_message p\<rparr>, st) }"

definition HandleNonNullNonMatchingForwardOpenRequest ::
    "io_env \<Rightarrow> 'svc registry \<Rightarrow> 'z io_close \<Rightarrow> mr_request \<Rightarrow> mr_response \<Rightarrow> 'z io_stack \<Rightarrow> 'z cm_result" where
  "HandleNonNullNonMatchingForwardOpenRequest env objects close req resp st =
     (if ConnectionObjectGetTransportClassTriggerProductionTrigger (st_objects st g_dummy_connection_object)
         = ProductionTriggerInvalid
      then open_reply g_dummy_connection_object kCipErrorConnectionFailure 0x0103 req resp st
      else do {
        (status, err, req, st) \<leftarrow> parse_request_path objects req st;
        if status \<noteq> kCipErrorSuccess then open_reply g_dummy_connection_object status err req resp st
        else do {
          (status, err, st) \<leftarrow> establish_connection env objects close st;
          if status \<noteq> kCipErrorSuccess then open_reply g_dummy_connection_object status err req resp st
          else do {
            a \<leftarrow> first_connection st;
            open_reply a kCipErrorSuccess 0 req resp st } } })"

text \<open>The parameters of a request, read into the buffer object.\<close>

definition read_open_request ::
    "sockaddr_in \<Rightarrow> CipSessionHandle \<Rightarrow> mr_request \<Rightarrow> 'z io_stack \<Rightarrow> (mr_request \<times> 'z io_stack) option" where
  "read_open_request originator session req st = do {
     (number, st) \<leftarrow> GenerateRandomConnectionNumber st;
     (c, data) \<leftarrow> ConnectionObjectInitializeFromMessage number (req_data req) (st_objects st g_dummy_connection_object);
     Some (req\<lparr>req_data := data\<rparr>, store_object g_dummy_connection_object
       (c\<lparr>associated_encapsulation_session := session, originator_address := originator\<rparr>) st) }"

definition off_subnet :: "sockaddr_in \<Rightarrow> ('fn, 'app) stack_state \<Rightarrow> bool" where
  "off_subnet originator st \<longleftrightarrow>
     sin_addr originator AND ns_network_mask (g_network_status st)
       \<noteq> ns_ip_address (g_network_status st) AND ns_network_mask (g_network_status st)"

definition ForwardOpenRoutine ::
    "io_env \<Rightarrow> 'svc registry \<Rightarrow> 'z io_close \<Rightarrow> sockaddr_in \<Rightarrow> CipSessionHandle \<Rightarrow> mr_request \<Rightarrow> mr_response \<Rightarrow> 'z io_stack
      \<Rightarrow> 'z cm_result" where
  "ForwardOpenRoutine env objects close originator session req resp st = do {
     (req, st) \<leftarrow> read_open_request originator session req st;
     let c = st_objects st g_dummy_connection_object;
     let o_to_t = ConnectionObjectGetOToTConnectionType c;
     let t_to_o = ConnectionObjectGetTToOConnectionType c;
     let refuse = (\<lambda>err. open_reply g_dummy_connection_object kCipErrorConnectionFailure err req resp st);
     if o_to_t = ConnectionTypeInvalid then refuse 0x0123
     else if t_to_o = ConnectionTypeInvalid then refuse 0x0124
     else if t_to_o = ConnectionTypeMulticast \<and> off_subnet originator st then refuse 0x0813
     else
       let is_null_request = (o_to_t = ConnectionTypeNull \<and> t_to_o = ConnectionTypeNull);
           is_matching_request = (CheckForExistingConnection c st \<noteq> None)
       in if is_null_request then
            if is_matching_request then HandleNullMatchingForwardOpenRequest req resp st
            else HandleNullNonMatchingForwardOpenRequest req resp st
          else if is_matching_request then HandleNonNullMatchingForwardOpenRequest req resp st
          else HandleNonNullNonMatchingForwardOpenRequest env objects close req resp st }"

definition LargeForwardOpen ::
    "io_env \<Rightarrow> 'svc registry \<Rightarrow> 'z io_close \<Rightarrow> sockaddr_in \<Rightarrow> CipSessionHandle \<Rightarrow> mr_request \<Rightarrow> mr_response \<Rightarrow> 'z io_stack
      \<Rightarrow> 'z cm_result" where
  "LargeForwardOpen env objects close originator session req resp st =
     ForwardOpenRoutine env objects close originator session req resp
       (modify_object g_dummy_connection_object (\<lambda>c. c\<lparr>is_large_forward_open := True\<rparr>) st)"

definition ForwardOpen ::
    "io_env \<Rightarrow> 'svc registry \<Rightarrow> 'z io_close \<Rightarrow> sockaddr_in \<Rightarrow> CipSessionHandle \<Rightarrow> mr_request \<Rightarrow> mr_response \<Rightarrow> 'z io_stack
      \<Rightarrow> 'z cm_result" where
  "ForwardOpen env objects close originator session req resp st =
     ForwardOpenRoutine env objects close originator session req resp
       (modify_object g_dummy_connection_object (\<lambda>c. c\<lparr>is_large_forward_open := False\<rparr>) st)"

subsection \<open>Closing\<close>

text \<open>The first established or timed out connection with the triad; only its originator may close it.\<close>

definition close_by_triad ::
    "'z io_close \<Rightarrow> sockaddr_in \<Rightarrow> CipUint \<Rightarrow> CipUint \<Rightarrow> CipUdint \<Rightarrow> 'z io_stack \<Rightarrow> (16 word \<times> 'z io_stack) option" where
  "close_by_triad close originator serial vendor orig_serial st =
     (case find_active (\<lambda>c. (ConnectionObjectGetState c = kConnectionObjectStateEstablished
           \<or> ConnectionObjectGetState c = kConnectionObjectStateTimedOut)
          \<and> connection_serial_number c = serial \<and> originator_vendor_id c = vendor
          \<and> originator_serial_number c = orig_serial) st of
        None \<Rightarrow> Some (0x0107, st)
      | Some a \<Rightarrow> do {
          f \<leftarrow> connection_close_function (st_objects st a);
          if sin_addr originator = sin_addr (originator_address (st_objects st a))
          then map_option (Pair 0) (close f a st)
          else Some (0xFFFF, st) })"

definition ForwardClose ::
    "'z io_close \<Rightarrow> sockaddr_in \<Rightarrow> mr_request \<Rightarrow> mr_response \<Rightarrow> 'z io_stack \<Rightarrow> 'z cm_result" where
  "ForwardClose close originator req resp st = do {
     let st = st\<lparr>st_cpf := set_info_type 1 0 (set_info_type 0 0 (st_cpf st))\<rparr>;
     data \<leftarrow> advance 2 (req_data req);
     (serial, data) \<leftarrow> GetUintFromMessage data;
     (vendor, data) \<leftarrow> GetUintFromMessage data;
     (orig_serial, data) \<leftarrow> GetUdintFromMessage data;
     let req = req\<lparr>req_data := data\<rparr>;
     (err, st) \<leftarrow> close_by_triad close originator serial vendor orig_serial st;
     (status, resp, st) \<leftarrow> AssembleForwardCloseResponse serial vendor orig_serial req resp err st;
     Some (status, req, resp, st) }"

subsection \<open>Data of connections\<close>

definition GetConnectionOwner :: "mr_request \<Rightarrow> mr_response \<Rightarrow> 'z io_stack \<Rightarrow> 'z cm_result" where
  "GetConnectionOwner req resp st = Some (kEipStatusOk, req, resp, st)"

definition AssembleConnectionDataResponseMessage :: "'fn connection_object \<Rightarrow> enip_message \<Rightarrow> enip_message option" where
  "AssembleConnectionDataResponseMessage c m = do {
     m \<leftarrow> AddIntToMessage (connection_number c) m;
     m \<leftarrow> AddIntToMessage (ucast (co_state c)) m;
     m \<leftarrow> AddIntToMessage (sin_port (originator_address c)) m;
     m \<leftarrow> AddIntToMessage (sin_port (remote_address c)) m;
     m \<leftarrow> AddIntToMessage (connection_serial_number c) m;
     m \<leftarrow> AddIntToMessage (originator_vendor_id c) m;
     m \<leftarrow> AddDintToMessage (originator_serial_number c) m;
     m \<leftarrow> AddDintToMessage (cip_consumed_connection_id c) m;
     m \<leftarrow> AddDintToMessage (cip_consumed_connection_id c) m;
     m \<leftarrow> AddSintToMessage (connection_timeout_multiplier c) m;
     m \<leftarrow> AddSintToMessage 0 m;
     m \<leftarrow> AddSintToMessage 0 m;
     m \<leftarrow> AddSintToMessage 0 m;
     m \<leftarrow> AddDintToMessage (o_to_t_requested_packet_interval c) m;
     m \<leftarrow> AddDintToMessage (ucast (transmission_trigger_timer c)) m;
     m \<leftarrow> AddDintToMessage (cip_produced_connection_id c) m;
     m \<leftarrow> AddDintToMessage (cip_produced_connection_id c) m;
     m \<leftarrow> AddSintToMessage (connection_timeout_multiplier c) m;
     m \<leftarrow> AddSintToMessage 0 m;
     m \<leftarrow> AddSintToMessage 0 m;
     m \<leftarrow> AddSintToMessage 0 m;
     m \<leftarrow> AddDintToMessage (t_to_o_requested_packet_interval c) m;
     AddDintToMessage (ucast (transmission_trigger_timer c)) m }"

definition connection_data_reply ::
    "nat option \<Rightarrow> mr_request \<Rightarrow> mr_response \<Rightarrow> 'z io_stack \<Rightarrow> 'z cm_result" where
  "connection_data_reply found req resp st =
     (case found of
        Some a \<Rightarrow> do {
          resp \<leftarrow> on_message (AssembleConnectionDataResponseMessage (st_objects st a)) resp;
          Some (kEipStatusOk, req, resp\<lparr>general_status := kCipErrorSuccess\<rparr>, st) }
      | None \<Rightarrow> Some (kEipStatusOk, req, resp\<lparr>general_status := kCipErrorPathDestinationUnknown\<rparr>, st))"

definition GetConnectionData :: "mr_request \<Rightarrow> mr_response \<Rightarrow> 'z io_stack \<Rightarrow> 'z cm_result" where
  "GetConnectionData req resp st = do {
     let resp = resp\<lparr>reply_service := 0x80 OR kGetConnectionData\<rparr>;
     (n, data) \<leftarrow> GetUintFromMessage (req_data req);
     connection_data_reply (find_active (\<lambda>c. connection_number c = n) st) (req\<lparr>req_data := data\<rparr>) resp st }"

definition SearchConnectionData :: "mr_request \<Rightarrow> mr_response \<Rightarrow> 'z io_stack \<Rightarrow> 'z cm_result" where
  "SearchConnectionData req resp st = do {
     let resp = resp\<lparr>reply_service := 0x80 OR kSearchConnectionData\<rparr>;
     (serial, data) \<leftarrow> GetUintFromMessage (req_data req);
     (vendor, data) \<leftarrow> GetUintFromMessage data;
     (orig_serial, data) \<leftarrow> GetUdintFromMessage data;
     connection_data_reply (find_active (\<lambda>c. connection_serial_number c = serial \<and> originator_vendor_id c = vendor
        \<and> originator_serial_number c = orig_serial) st) (req\<lparr>req_data := data\<rparr>) resp st }"

definition GetPaddedLogicalPath :: "octet list \<Rightarrow> (32 word \<times> octet list) option" where
  "GetPaddedLogicalPath p = do {
     (b, p) \<leftarrow> GetUsintFromMessage p;
     if b AND 3 = 0 then do {
       (v, p) \<leftarrow> GetUsintFromMessage p;
       Some (ucast v, p)
     } else if b AND 3 = 1 then do {
       p \<leftarrow> advance 1 p;
       (lo, p) \<leftarrow> GetUsintFromMessage p;
       (hi, p) \<leftarrow> GetUsintFromMessage p;
       Some (ucast lo OR push_bit 8 (ucast hi), p)
     } else Some (ucast b, p) }"

subsection \<open>The class and its services\<close>

definition kCipConnectionManagerClassCode :: CipUdint where
  "kCipConnectionManagerClassCode = 0x06"

datatype cm_service =
    SvcForwardOpen | SvcLargeForwardOpen | SvcForwardClose
  | SvcGetConnectionOwner | SvcGetConnectionData | SvcSearchConnectionData

definition InitializeConnectionManager :: "'u std_service cip_class \<Rightarrow> 'u std_service cip_class option" where
  "InitializeConnectionManager c = do {
     c \<leftarrow> insert_class_attribute 1 EncodeCipUint RevisionField kGetableSingleAndAll c;
     c \<leftarrow> insert_class_attribute 2 EncodeCipUint NumberOfInstancesField kGetableSingleAndAll c;
     c \<leftarrow> insert_class_attribute 3 EncodeCipUint NumberOfInstancesField kGetableSingle c;
     c \<leftarrow> insert_class_attribute 4 EncodeCipUint UintZero kNotSetOrGetable c;
     c \<leftarrow> insert_class_attribute 5 EncodeCipUint UintZero kNotSetOrGetable c;
     c \<leftarrow> insert_class_attribute 6 EncodeCipUint MetaHighestAttributeField kGetableSingleAndAll c;
     c \<leftarrow> insert_class_attribute 7 EncodeCipUint HighestAttributeField kGetableSingleAndAll c;
     c \<leftarrow> insert_class_service kGetAttributeAll SvcGetAttributeAll ''GetAttributeAll'' c;
     insert_class_service kGetAttributeSingle SvcGetAttributeSingle ''GetAttributeSingle'' c }"

definition InitializeConnectionManagerData :: "'z io_stack \<Rightarrow> 'z io_stack" where
  "InitializeConnectionManagerData st =
     InitializeIoConnectionData (InitializeClass3ConnectionData (st\<lparr>st_app := (st_app st)\<lparr>g_connection_management_list :=
       replicate g_kNumberOfConnectableObjects \<lparr>cm_class_id = 0, open_connection_function = None\<rparr>\<rparr>\<rparr>))"

text \<open>Creating the class fails, with \<^term>\<open>None\<close>, when it exists already.\<close>

definition ConnectionManagerInit ::
    "16 word \<Rightarrow> cm_service std_service registry \<Rightarrow> 'z io_stack
      \<Rightarrow> (EipStatus \<times> cm_service std_service registry \<times> 'z io_stack) option" where
  "ConnectionManagerInit unique_connection_id objects st = do {
     let st = InitializeConnectionManagerData st;
     (c, objects) \<leftarrow> CreateCipClass objects kCipConnectionManagerClassCode 0 7 2 0 14 8 1 ''connection manager'' 1
        (Some InitializeConnectionManager);
     cc \<leftarrow> InsertService (core c) kGetAttributeSingle SvcGetAttributeSingle ''GetAttributeSingle'';
     cc \<leftarrow> InsertService cc kGetAttributeAll SvcGetAttributeAll ''GetAttributeAll'';
     cc \<leftarrow> InsertService cc kForwardOpen (SvcOther SvcForwardOpen) ''ForwardOpen'';
     cc \<leftarrow> InsertService cc kLargeForwardOpen (SvcOther SvcLargeForwardOpen) ''LargeForwardOpen'';
     cc \<leftarrow> InsertService cc kForwardClose (SvcOther SvcForwardClose) ''ForwardClose'';
     cc \<leftarrow> InsertService cc kGetConnectionOwner (SvcOther SvcGetConnectionOwner) ''GetConnectionOwner'';
     cc \<leftarrow> InsertService cc kGetConnectionData (SvcOther SvcGetConnectionData) ''GetConnectionData'';
     cc \<leftarrow> InsertService cc kSearchConnectionData (SvcOther SvcSearchConnectionData) ''SearchConnectionData'';
     let st = st\<lparr>st_app := (st_app st)\<lparr>g_incarnation_id := push_bit 16 (ucast unique_connection_id)\<rparr>\<rparr>;
     let (_, st) = AddConnectableObject kCipMessageRouterClassCode (Some OpenEstablishClass3Connection) st;
     let (_, st) = AddConnectableObject kCipAssemblyClassCode (Some OpenEstablishIoConnection) st;
     Some (kEipStatusOk, store_class kCipConnectionManagerClassCode (c\<lparr>core := cc\<rparr>) objects, st) }"

text \<open>
  All services of the stack: the services of the connection manager work on the state, the common
  services on the memory of the application. \<open>objects\<close> is the registry at the time of the call.
\<close>

definition call_cm_service ::
    "io_env \<Rightarrow> 'svc registry \<Rightarrow> 'z io_close \<Rightarrow> sockaddr_in \<Rightarrow> CipSessionHandle \<Rightarrow> cm_service \<Rightarrow> mr_request \<Rightarrow> mr_response
      \<Rightarrow> 'z io_stack \<Rightarrow> 'z cm_result" where
  "call_cm_service env objects close originator session svc =
     (case svc of
        SvcForwardOpen \<Rightarrow> ForwardOpen env objects close originator session
      | SvcLargeForwardOpen \<Rightarrow> LargeForwardOpen env objects close originator session
      | SvcForwardClose \<Rightarrow> ForwardClose close originator
      | SvcGetConnectionOwner \<Rightarrow> GetConnectionOwner
      | SvcGetConnectionData \<Rightarrow> GetConnectionData
      | SvcSearchConnectionData \<Rightarrow> SearchConnectionData)"

definition call_service ::
    "io_env \<Rightarrow> 'z io_close \<Rightarrow> cm_service std_service registry
      \<Rightarrow> (io_fn connection_fn, (open_fn, 'z io_state_scheme) cm_state, cm_service std_service) service_call" where
  "call_service env close objects originator session svc c inst st req resp =
     (case svc of
        SvcOther u \<Rightarrow> map_option (\<lambda>(status, req, resp, st). (status, c, st, req, resp))
          (call_cm_service env objects close originator session u req resp st)
      | _ \<Rightarrow> map_option (\<lambda>(status, c, mem, req, resp). (status, c, on_memory (\<lambda>_. mem) st, req, resp))
          (call_std (\<lambda>_ _ _ _ _ _. None) svc c inst (io_memory (io st)) req resp))"


end
