(* ===== verification/StackServices.thy ===== *)
theory StackServices
  imports ForwardOpen
begin

text \<open>
  The services of the whole stack keep the tables of sessions consistent: the connection manager's
  services, which may close connections and with them sessions, and the common services. With this the
  contract \<open>tcp_services\<close> of the encapsulation layer holds of the stack's own services.
\<close>

subsection \<open>Opening leaves the tables\<close>

lemma update_frame [simp]:
  "sessions_wf (set_info j f st) \<longleftrightarrow> sessions_wf st" "sessions_wf (st\<lparr>st_app := x\<rparr>) \<longleftrightarrow> sessions_wf st"
  "sessions_wf (st\<lparr>st_connection_list := l\<rparr>) \<longleftrightarrow> sessions_wf st" "sessions_wf (st\<lparr>master_socket := s\<rparr>) \<longleftrightarrow> sessions_wf st"
  by (simp_all add: sessions_wf_def set_info_def)

lemma GeneralConfiguration_frame [simp]:
  "sessions_wf (snd (ConnectionObjectGeneralConfiguration GetConnectionId st c)) \<longleftrightarrow> sessions_wf st"
  by (simp add: ConnectionObjectGeneralConfiguration_def Let_def GetConnectionId_def)

lemma AddNewActiveConnection_frame: "AddNewActiveConnection a st = Some st' \<Longrightarrow> sessions_wf st' \<longleftrightarrow> sessions_wf st"
  by (auto simp: AddNewActiveConnection_def)

lemma EstablishClass3Connection_frame:
  "EstablishClass3Connection a err st = Some (status, err', st') \<Longrightarrow> sessions_wf st' \<longleftrightarrow> sessions_wf st"
  by (auto simp: EstablishClass3Connection_def Let_def case_prod_beta split: option.splits
      dest!: AddNewActiveConnection_frame)

lemma CreateUdpSocket_frame: "CreateUdpSocket env st = Some (s, st') \<Longrightarrow> sessions_wf st' \<longleftrightarrow> sessions_wf st"
  by (auto simp: CreateUdpSocket_def Let_def split: if_splits udp_setup.splits)

lemma open_frames:
  "sessions_wf (snd (OpenConsumingPointToPointConnection env b st)) \<longleftrightarrow> sessions_wf st"
  "sessions_wf (snd (OpenProducingPointToPointConnection env b st)) \<longleftrightarrow> sessions_wf st"
  "sessions_wf (snd (OpenMulticastConnection env d b st)) \<longleftrightarrow> sessions_wf st"
  by (simp_all add: OpenConsumingPointToPointConnection_def OpenProducingPointToPointConnection_def OpenMulticastConnection_def
      Let_def split: option.split UdpCommuncationDirection.split)

lemma OpenProducingMulticastConnection_frame:
  "sessions_wf (snd (OpenProducingMulticastConnection env b st)) \<longleftrightarrow> sessions_wf st"
  by (simp add: OpenProducingMulticastConnection_def Let_def open_frames split: option.split)

lemma OpenCommunicationChannels_frame:
  assumes "OpenCommunicationChannels env b st = Some (e, st')"
  shows "sessions_wf st' \<longleftrightarrow> sessions_wf st"
proof -
  obtain s st1 where st1: "CreateUdpSocket env st = Some (s, st1)" using assms by (auto simp: OpenCommunicationChannels_def)
  note frames = open_frames OpenProducingMulticastConnection_frame
  show ?thesis
    using assms CreateUdpSocket_frame [OF st1] frames [where st = st1]
      OpenProducingMulticastConnection_frame [where st = "snd (OpenConsumingPointToPointConnection env b st1)"]
      OpenProducingMulticastConnection_frame [where st = "snd (OpenMulticastConnection env kUdpCommuncationDirectionConsuming b st1)"]
    by (auto simp: OpenCommunicationChannels_def Let_def st1 case_prod_beta frames split: if_splits)
qed

lemma setup_frames:
  "SetupIoConnectionOriginatorToTargetConnectionPoint objects b a st = Some (e, st') \<Longrightarrow> sessions_wf st' \<longleftrightarrow> sessions_wf st"
  "SetupIoConnectionTargetToOriginatorConnectionPoint objects b a st = Some (e, st') \<Longrightarrow> sessions_wf st' \<longleftrightarrow> sessions_wf st"
  "HandleConfigData env objects b st = Some (e, st') \<Longrightarrow> sessions_wf st' \<longleftrightarrow> sessions_wf st"
  by (auto simp: SetupIoConnectionOriginatorToTargetConnectionPoint_def SetupIoConnectionTargetToOriginatorConnectionPoint_def
      HandleConfigData_def Let_def case_prod_beta split: option.splits if_splits)

lemma setup_direction_frame:
  assumes "setup_direction needed f (e, st) = Some (e', st')"
    and "\<And>e st'. f st = Some (e, st') \<Longrightarrow> sessions_wf st' \<longleftrightarrow> sessions_wf st"
  shows "sessions_wf st' \<longleftrightarrow> sessions_wf st"
  using assms by (auto simp: setup_direction_def split: if_splits)

lemma open_reply_frame: "open_reply a status e req resp st = Some (s, req', resp', st') \<Longrightarrow> sessions_wf st' \<longleftrightarrow> sessions_wf st"
  by (auto simp: open_reply_def AssembleForwardOpenResponse_def Let_def split: if_splits)

lemma close_response_frame:
  "AssembleForwardCloseResponse serial vendor orig req resp e st = Some (s, resp', st') \<Longrightarrow> sessions_wf st' \<longleftrightarrow> sessions_wf st"
  by (auto simp: AssembleForwardCloseResponse_def Let_def split: if_splits)

lemma read_open_request_frame:
  "read_open_request originator session req st = Some (req', st') \<Longrightarrow> sessions_wf st' \<longleftrightarrow> sessions_wf st"
  by (auto simp: read_open_request_def GenerateRandomConnectionNumber_def Let_def split: list.splits)

lemma parse_request_path_frame:
  "parse_request_path objects req st = Some (s, e, req', st') \<Longrightarrow> sessions_wf st' \<longleftrightarrow> sessions_wf st"
  by (auto simp: parse_request_path_def Let_def)

lemma connection_data_frames:
  "GetConnectionData req resp st = Some (s, req', resp', st') \<Longrightarrow> sessions_wf st' \<longleftrightarrow> sessions_wf st"
  "SearchConnectionData req resp st = Some (s, req', resp', st') \<Longrightarrow> sessions_wf st' \<longleftrightarrow> sessions_wf st"
  by (auto simp: GetConnectionData_def SearchConnectionData_def connection_data_reply_def Let_def split: option.splits)

subsection \<open>Services, given functions that close connections\<close>

context io_close_functions
begin

lemma find_in_pool_wf: "find_in_pool close pool a st = Some (r, e, st') \<Longrightarrow> sessions_wf st \<Longrightarrow> sessions_wf st'"
  by (auto simp: find_in_pool_def split: option.splits dest: close_wf)

lemma search_points_wf:
  "search_points close pool needed a ps err st = Some (r, e, st') \<Longrightarrow> sessions_wf st \<Longrightarrow> sessions_wf st'"
  by (induction ps arbitrary: err) (auto simp: Let_def split: if_splits dest: find_in_pool_wf)

lemma GetExclusiveOwnerConnection_wf:
  "GetExclusiveOwnerConnection close a e st = Some (r, e', st') \<Longrightarrow> sessions_wf st \<Longrightarrow> sessions_wf st'"
  by (auto simp: GetExclusiveOwnerConnection_def Let_def split: option.splits if_splits dest: close_wf)

lemma GetPoolConnection_wf:
  "GetInputOnlyConnection close a e st = Some (r, e', st') \<Longrightarrow> sessions_wf st \<Longrightarrow> sessions_wf st'"
  "GetListenOnlyConnection close a e st = Some (r, e', st') \<Longrightarrow> sessions_wf st \<Longrightarrow> sessions_wf st'"
  by (auto simp: GetInputOnlyConnection_def GetListenOnlyConnection_def keep_error_def dest: search_points_wf)

lemma GetIoConnectionForConnectionData_wf:
  assumes "GetIoConnectionForConnectionData close a st = Some (r, e, st')" "sessions_wf st"
  shows "sessions_wf st'"
  using assms
  by (auto simp: GetIoConnectionForConnectionData_def Let_def split: if_splits option.splits
      dest!: GetExclusiveOwnerConnection_wf GetPoolConnection_wf)

lemma EstablishIoConnection_wf:
  assumes "EstablishIoConnection env objects close a st = Some (status, e, st')" "sessions_wf st"
  shows "sessions_wf st'"
proof -
  obtain r e1 st1 where st1: "GetIoConnectionForConnectionData close a st = Some (r, e1, st1)" "sessions_wf st1"
    using assms GetIoConnectionForConnectionData_wf by (auto simp: EstablishIoConnection_def)
  show ?thesis
  proof (cases r)
    case None
    then show ?thesis using assms(1) st1 by (simp add: EstablishIoConnection_def)
  next
    case (Some b)
    show ?thesis
      using assms(1) st1 Some
      by (auto simp: EstablishIoConnection_def Let_def case_prod_beta split: if_splits
          dest!: setup_direction_frame [where f = "SetupIoConnectionOriginatorToTargetConnectionPoint objects b a", OF _ setup_frames(1)]
            setup_direction_frame [where f = "SetupIoConnectionTargetToOriginatorConnectionPoint objects b a", OF _ setup_frames(2)]
            setup_direction_frame [where f = "HandleConfigData env objects b", OF _ setup_frames(3)]
            OpenCommunicationChannels_frame AddNewActiveConnection_frame)
  qed
qed

lemma establish_connection_wf:
  assumes "establish_connection env objects close st = Some (status, e, st')" "sessions_wf st"
  shows "sessions_wf st'"
  using assms
  by (auto simp: establish_connection_def open_function_def split: option.splits open_fn.splits
      dest: EstablishIoConnection_wf EstablishClass3Connection_frame)

lemma ForwardOpenRoutine_wf:
  assumes r: "ForwardOpenRoutine env objects close originator session req resp st = Some (status, req', resp', st')" and wf: "sessions_wf st"
  shows "sessions_wf st'"
proof -
  obtain req1 st1 where st1: "read_open_request originator session req st = Some (req1, st1)"
    using r by (auto simp: ForwardOpenRoutine_def)
  have wf1: "sessions_wf st1" using read_open_request_frame [OF st1] wf by simp
  have nonnull: "sessions_wf st'"
    if "HandleNonNullNonMatchingForwardOpenRequest env objects close req1 resp st1 = Some (status, req', resp', st')"
    using that wf1
    by (auto simp: HandleNonNullNonMatchingForwardOpenRequest_def split: if_splits
        dest!: open_reply_frame parse_request_path_frame establish_connection_wf)
  show ?thesis
    using r st1 wf1 nonnull
    by (auto simp: ForwardOpenRoutine_def Let_def HandleNullMatchingForwardOpenRequest_def HandleNullNonMatchingForwardOpenRequest_def
        HandleNonNullMatchingForwardOpenRequest_def split: if_splits dest!: open_reply_frame)
qed

lemma close_by_triad_wf:
  "close_by_triad close originator serial vendor orig st = Some (e, st') \<Longrightarrow> sessions_wf st \<Longrightarrow> sessions_wf st'"
  by (auto simp: close_by_triad_def split: option.splits if_splits dest: close_wf)

lemma ForwardClose_wf:
  assumes "ForwardClose close originator req resp st = Some (status, req', resp', st')" "sessions_wf st"
  shows "sessions_wf st'"
  using assms by (auto simp: ForwardClose_def Let_def dest!: close_by_triad_wf close_response_frame)

lemma call_cm_service_wf:
  assumes "call_cm_service env objects close originator session svc req resp st = Some (status, req', resp', st')" "sessions_wf st"
  shows "sessions_wf st'"
  using assms
  by (cases svc) (auto simp: call_cm_service_def ForwardOpen_def LargeForwardOpen_def GetConnectionOwner_def
      dest: ForwardOpenRoutine_wf ForwardClose_wf connection_data_frames)

lemma call_service_wf:
  assumes "call_service env close objects originator session svc c inst st req resp = Some (status, c', st', req', resp')"
    and "sessions_wf st"
  shows "sessions_wf st'"
  using assms by (cases svc) (auto simp: call_service_def dest: call_cm_service_wf)

end

text \<open>The stack's services under the stack's closing functions meet the contract of the encapsulation layer.\<close>

interpretation stack_tcp: tcp_services "call_function env k" "call_service env (call_function env k) objects" for env k objects
  by unfold_locales (rule stack.call_service_wf)

end
