(* ===== verification/NetworkHandler.thy ===== *)
theory NetworkHandler
  imports StackServices
begin

text \<open>
  The network handler (\<^verbatim>\<open>ports/generic_networkhandler.c\<close>): the main loop that receives requests and data,
  hands them to the stack, sends the replies and lets time pass. The operating system is part of the
  state: the octets waiting on the TCP sockets, the datagrams waiting on the UDP sockets, and the
  sockets of clients that want to connect. A receiving call on a socket without data would block; one in
  blocking mode waits.
\<close>

subsection \<open>State\<close>

datatype tcp_end = PeerOpen | PeerClosed | PeerError

record tcp_stream =
  ts_pending :: "octet list"
  ts_end :: tcp_end

text \<open>A datagram with its sender; \<^term>\<open>None\<close> is a receive error.\<close>

type_synonym datagram = "(octet list \<times> sockaddr_in) option"

record net_state = io_state +
  read_socket :: "int set"
  tcp_listener :: int
  udp_unicast_listener :: int
  udp_global_broadcast_listener :: int
  ns_elapsed_time :: MilliSeconds
  g_last_time :: MilliSeconds
  timeout_checker_array :: "(MilliSeconds \<Rightarrow> app_memory \<Rightarrow> app_memory) option list"
  os_streams :: "int \<Rightarrow> tcp_stream"
  os_datagrams :: "int \<Rightarrow> datagram list"
  os_accept :: "int list"

type_synonym net_stack = "unit net_state_ext io_stack"

text \<open>The registry of classes and the global request structure are beside the state of the stack.\<close>

record device =
  dev_objects :: "cm_service std_service registry"
  dev_request :: mr_request
  dev_stack :: net_stack

definition on_stack :: "(net_stack \<Rightarrow> net_stack option) \<Rightarrow> device \<Rightarrow> device option" where
  "on_stack f dev = map_option (\<lambda>st. dev\<lparr>dev_stack := st\<rparr>) (f (dev_stack dev))"

subsection \<open>Calls of the operating system\<close>

datatype received = Received "octet list" | WouldBlock | ReceiveError

text \<open>
  A call of \<^verbatim>\<open>recv\<close> on an open connection without waiting octets is answered with \<open>WouldBlock\<close>, as on a socket in
  non-blocking mode. The handler sets this mode for the listener, not for the socket that \<^verbatim>\<open>accept\<close> returns
  (\<^verbatim>\<open>generic_networkhandler.c:419\<close>), and relies on its being inherited: where it is not, as on Linux, the call waits for
  the peer at the places where the model goes on with \<open>WouldBlock\<close>.
\<close>

definition recv :: "int \<Rightarrow> nat \<Rightarrow> net_stack \<Rightarrow> received \<times> net_stack" where
  "recv socket n st =
     (let s = os_streams (io st) socket
      in if ts_pending s = [] then
           (case ts_end s of PeerOpen \<Rightarrow> WouldBlock | PeerClosed \<Rightarrow> Received [] | PeerError \<Rightarrow> ReceiveError, st)
         else (Received (take n (ts_pending s)),
           upd_io (\<lambda>i. i\<lparr>os_streams := (os_streams i)(socket := s\<lparr>ts_pending := drop n (ts_pending s)\<rparr>)\<rparr>) st))"

text \<open>A datagram is cut off at the size of the buffer.\<close>

definition recvfrom :: "int \<Rightarrow> net_stack \<Rightarrow> received \<times> sockaddr_in \<times> net_stack" where
  "recvfrom socket st =
     (case os_datagrams (io st) socket of
        [] \<Rightarrow> (WouldBlock, zero_address, st)
      | d # ds \<Rightarrow>
          let st = upd_io (\<lambda>i. i\<lparr>os_datagrams := (os_datagrams i)(socket := ds)\<rparr>) st
          in case d of
               None \<Rightarrow> (ReceiveError, zero_address, st)
             | Some (bs, from_address) \<Rightarrow> (Received (take PC_OPENER_ETHERNET_BUFFER_SIZE bs), from_address, st))"

text \<open>A buffer of zeros with these octets from the position \<open>k\<close> on.\<close>

definition receive_buffer :: "nat \<Rightarrow> octet list \<Rightarrow> octet list \<Rightarrow> octet list" where
  "receive_buffer k bs buffer = splice_at k bs buffer"

definition zero_buffer :: "octet list" where
  "zero_buffer = replicate PC_OPENER_ETHERNET_BUFFER_SIZE 0"

definition CheckSocketSet :: "int \<Rightarrow> net_stack \<Rightarrow> bool \<times> net_stack" where
  "CheckSocketSet socket st =
     (socket \<in> read_socket (io st) \<and> socket \<in> master_socket st,
      upd_io (\<lambda>i. i\<lparr>read_socket := read_socket i - {socket}\<rparr>) st)"

subsection \<open>New connections\<close>

text \<open>
  A free socket timer must exist, an assertion, although none is taken here: the timer of a socket
  is set when its session is registered.
\<close>

definition CheckAndHandleTcpListenerSocket :: "net_stack \<Rightarrow> net_stack option" where
  "CheckAndHandleTcpListenerSocket st =
     (let (ready, st) = CheckSocketSet (tcp_listener (io st)) st
      in if \<not> ready then Some st
         else let new_socket = (case os_accept (io st) of [] \<Rightarrow> kEipInvalidSocket | s # _ \<Rightarrow> s);
                  st = upd_io (\<lambda>i. i\<lparr>os_accept := tl (os_accept i)\<rparr>) st
           in if new_socket = kEipInvalidSocket then Some st
              else do {
                guard (SocketTimerArrayGetEmptySocketTimer (g_timestamps st) \<noteq> None);
                Some (upd_io (\<lambda>i. i\<lparr>highest_socket_handle := max new_socket (highest_socket_handle i)\<rparr>)
                  (st\<lparr>master_socket := insert new_socket (master_socket st)\<rparr>)) })"

subsection \<open>UDP requests\<close>

text \<open>Replies to both kinds of requests leave from the unicast socket. \<open>rand_value\<close> is the result of \<^verbatim>\<open>rand()\<close>.\<close>

definition handle_udp_request :: "io_env \<Rightarrow> nat \<Rightarrow> int \<Rightarrow> bool \<Rightarrow> net_stack \<Rightarrow> net_stack option" where
  "handle_udp_request env rand_value listener unicast st =
     (let (ready, st) = CheckSocketSet listener st
      in if \<not> ready then Some st
         else case recvfrom listener st of
             (Received bs, from_address, st) \<Rightarrow>
               if bs = [] then Some st
               else do {
                 let socket = udp_unicast_listener (io st);
                 (_, status, st, m) \<leftarrow> HandleReceivedExplictUdpData (os_endianess env) rand_value socket from_address
                    (receive_buffer 0 bs zero_buffer) (of_nat (length bs)) unicast st (InitializeENIPMessage local_message);
                 Some (if status = kEipStatusOkSend then log_effect (SentDatagram socket from_address (sent_octets m)) st
                       else st) }
           | (_, _, st) \<Rightarrow> Some st)"

definition CheckAndHandleUdpUnicastSocket :: "io_env \<Rightarrow> nat \<Rightarrow> net_stack \<Rightarrow> net_stack option" where
  "CheckAndHandleUdpUnicastSocket env rand_value st =
     handle_udp_request env rand_value (udp_unicast_listener (io st)) True st"

definition CheckAndHandleUdpGlobalBroadcastSocket :: "io_env \<Rightarrow> nat \<Rightarrow> net_stack \<Rightarrow> net_stack option" where
  "CheckAndHandleUdpGlobalBroadcastSocket env rand_value st =
     handle_udp_request env rand_value (udp_global_broadcast_listener (io st)) False st"

subsection \<open>Consumed data\<close>

text \<open>
  The data is read from the latest I/O socket, whichever socket of a connection is ready. The result tells
  whether the loop goes on.
\<close>

definition consume_from_socket ::
    "io_env \<Rightarrow> 'svc registry \<Rightarrow> unit net_state_ext io_close \<Rightarrow> nat \<Rightarrow> net_stack \<Rightarrow> (bool \<times> net_stack) option" where
  "consume_from_socket env objects close a st =
     (let close_connection = (\<lambda>st. do {
            f \<leftarrow> connection_close_function (st_objects st a);
            map_option (Pair True) (close f a st) })
      in case recvfrom (udp_io_messaging (io st)) st of
           (Received bs, from_address, st) \<Rightarrow>
             if bs = [] then close_connection st
             else map_option (\<lambda>(_, st). (True, st))
               (HandleReceivedConnectedData (receive_function env objects) (receive_buffer 0 bs zero_buffer) (length bs)
                 from_address st)
         | (WouldBlock, _, st) \<Rightarrow> Some (False, st)
         | (ReceiveError, _, st) \<Rightarrow> close_connection st)"

partial_function (option) consume_loop ::
    "io_env \<Rightarrow> 'svc registry \<Rightarrow> unit net_state_ext io_close \<Rightarrow> nat option \<Rightarrow> net_stack \<Rightarrow> net_stack option" where
  "consume_loop env objects close node st =
     (case node of
        None \<Rightarrow> Some st
      | Some n \<Rightarrow> do {
          a \<leftarrow> node_data (snd (st_connection_list st) ! n);
          let next = node_next (snd (st_connection_list st) ! n);
          let s = socket_consuming (st_objects st a);
          if s = kEipInvalidSocket then consume_loop env objects close next st
          else
            let (ready, st) = CheckSocketSet s st
            in if \<not> ready then consume_loop env objects close next st
               else do {
                 (go_on, st) \<leftarrow> consume_from_socket env objects close a st;
                 if go_on then consume_loop env objects close next st else Some st } })"

definition CheckAndHandleConsumingUdpSocket ::
    "io_env \<Rightarrow> 'svc registry \<Rightarrow> unit net_state_ext io_close \<Rightarrow> net_stack \<Rightarrow> net_stack option" where
  "CheckAndHandleConsumingUdpSocket env objects close st =
     consume_loop env objects close (dll_first (fst (st_connection_list st))) st"

subsection \<open>TCP requests\<close>

datatype drop_result = DropDone | DropClosed | DropBlocked | DropFailed

lemma recv_shorter:
  "recv socket n st = (Received bs, st') \<Longrightarrow> bs \<noteq> [] \<Longrightarrow>
     length (ts_pending (os_streams (io st') socket)) < length (ts_pending (os_streams (io st) socket))"
  by (auto simp: recv_def Let_def upd_io_def split: if_splits tcp_end.splits)

text \<open>
  Dropping the \<open>data_size\<close> octets of a packet that is too long, at most \<open>data_sent\<close> at a time.
\<close>

function drop_packet :: "int \<Rightarrow> nat \<Rightarrow> size_t \<Rightarrow> net_stack \<Rightarrow> drop_result \<times> net_stack" where
  "drop_packet socket data_sent data_size st =
     (case recv socket data_sent st of
        (Received bs, st') \<Rightarrow>
          if bs = [] then (DropClosed, st')
          else
            let data_size' = data_size - of_nat (length bs);
                data_sent' = (if data_size' < of_nat PC_OPENER_ETHERNET_BUFFER_SIZE \<and> data_size' \<noteq> 0
                              then unat data_size' else data_sent)
            in if 0 < data_size' then drop_packet socket data_sent' data_size' st' else (DropDone, st')
      | (WouldBlock, st') \<Rightarrow> (DropBlocked, st')
      | (ReceiveError, st') \<Rightarrow> (DropFailed, st'))"
  by pat_completeness auto

termination
  by (relation "measure (\<lambda>(socket, _, _, st). length (ts_pending (os_streams (io st) socket)))") (auto intro: recv_shorter dest: sym)

declare drop_packet.simps [simp del]

definition set_last_update :: "nat option \<Rightarrow> ('fn, 'app) stack_state \<Rightarrow> ('fn, 'app) stack_state" where
  "set_last_update timer st = st\<lparr>g_timestamps := SocketTimerSetLastUpdate timer (g_actual_time st) (g_timestamps st)\<rparr>"

definition remove_timer :: "int \<Rightarrow> ('fn, 'app) stack_state \<Rightarrow> ('fn, 'app) stack_state option" where
  "remove_timer socket st = map_option (\<lambda>ts. st\<lparr>g_timestamps := ts\<rparr>) (RemoveSocketTimerFromList socket (g_timestamps st))"

definition drop_large_packet :: "int \<Rightarrow> nat option \<Rightarrow> size_t \<Rightarrow> net_stack \<Rightarrow> (EipStatus \<times> net_stack) option" where
  "drop_large_packet socket timer data_size st =
     (case drop_packet socket PC_OPENER_ETHERNET_BUFFER_SIZE data_size st of
        (DropDone, st) \<Rightarrow> Some (kEipStatusOk, set_last_update timer st)
      | (DropClosed, st) \<Rightarrow> map_option (Pair kEipStatusError) (remove_timer socket st)
      | (DropBlocked, st) \<Rightarrow> Some (kEipStatusOk, st)
      | (DropFailed, st) \<Rightarrow> Some (kEipStatusError, st))"

text \<open>The client has closed the connection.\<close>

definition tcp_closed :: "('fn, 'app) close_call \<Rightarrow> int \<Rightarrow> ('fn, 'app) stack_state \<Rightarrow> ('fn, 'app) stack_state option" where
  "tcp_closed close socket st = do {
     st \<leftarrow> remove_timer socket st;
     RemoveSession close socket st }"

text \<open>A complete packet of \<open>data_size\<close> octets in the buffer.\<close>

definition handle_tcp_packet ::
    "io_env \<Rightarrow> nat \<Rightarrow> int \<Rightarrow> nat option \<Rightarrow> octet list \<Rightarrow> size_t \<Rightarrow> device \<Rightarrow> device option" where
  "handle_tcp_packet env k socket timer buffer data_size dev = do {
     let st = upd_io (\<lambda>i. i\<lparr>g_current_active_tcp_socket := socket\<rparr>) (dev_stack dev);
     let sender = (case os_getpeername env socket of None \<Rightarrow> zero_address | Some p \<Rightarrow> p);
     (_, status, objects, req, st, m) \<leftarrow> HandleReceivedExplictTcpData (call_function env k) (os_endianess env)
        (call_service env (call_function env k) (dev_objects dev)) socket buffer data_size sender (dev_objects dev)
        (dev_request dev) st (InitializeENIPMessage local_message);
     let st = upd_io (\<lambda>i. i\<lparr>g_current_active_tcp_socket := kEipInvalidSocket\<rparr>) (set_last_update timer st);
     let st = (if status = kEipStatusOkSend
        then set_last_update timer (log_effect (SentStream socket (sent_octets m)) st) else st);
     Some \<lparr>dev_objects = objects, dev_request = req, dev_stack = st\<rparr> }"

definition receive_tcp_packet ::
    "io_env \<Rightarrow> nat \<Rightarrow> int \<Rightarrow> nat option \<Rightarrow> octet list \<Rightarrow> device \<Rightarrow> (EipStatus \<times> device) option" where
  "receive_tcp_packet env k socket timer buffer dev = do {
     (n, _) \<leftarrow> GetUintFromMessage (drop 2 buffer);
     let data_size = (ucast n :: size_t) + of_nat ENCAPSULATION_HEADER_LENGTH - 4;
     if of_nat PC_OPENER_ETHERNET_BUFFER_SIZE - 4 < data_size then
       map_option (\<lambda>(status, st). (status, dev\<lparr>dev_stack := st\<rparr>)) (drop_large_packet socket timer data_size (dev_stack dev))
     else case recv socket (unat data_size) (dev_stack dev) of
         (Received bs, st) \<Rightarrow>
           if bs = [] then map_option (\<lambda>st. (kEipStatusError, dev\<lparr>dev_stack := st\<rparr>)) (tcp_closed (call_function env k) socket st)
           else if length bs = unat data_size then
             map_option (Pair kEipStatusOk)
               (handle_tcp_packet env k socket timer (receive_buffer 4 bs buffer) (data_size + 4) (dev\<lparr>dev_stack := st\<rparr>))
           else Some (kEipStatusError, dev\<lparr>dev_stack := st\<rparr>)
       | (WouldBlock, st) \<Rightarrow> Some (kEipStatusOk, dev\<lparr>dev_stack := st\<rparr>)
       | (ReceiveError, st) \<Rightarrow> Some (kEipStatusError, dev\<lparr>dev_stack := st\<rparr>) }"

definition HandleDataOnTcpSocket :: "io_env \<Rightarrow> nat \<Rightarrow> int \<Rightarrow> device \<Rightarrow> (EipStatus \<times> device) option" where
  "HandleDataOnTcpSocket env k socket dev =
     (let (r, st) = recv socket 4 (dev_stack dev);
          timer = SocketTimerArrayGetSocketTimer (g_timestamps st) socket
      in case r of
           Received bs \<Rightarrow>
             if bs = [] then map_option (\<lambda>st. (kEipStatusError, dev\<lparr>dev_stack := st\<rparr>)) (tcp_closed (call_function env k) socket st)
             else receive_tcp_packet env k socket timer (receive_buffer 0 bs zero_buffer) (dev\<lparr>dev_stack := st\<rparr>)
         | WouldBlock \<Rightarrow> Some (kEipStatusOk, dev\<lparr>dev_stack := st\<rparr>)
         | ReceiveError \<Rightarrow> Some (kEipStatusError, dev\<lparr>dev_stack := st\<rparr>))"

subsection \<open>The main loop\<close>

definition check_tcp_socket :: "io_env \<Rightarrow> nat \<Rightarrow> int \<Rightarrow> device \<Rightarrow> device option" where
  "check_tcp_socket env k socket dev =
     (let (ready, st) = CheckSocketSet socket (dev_stack dev); dev = dev\<lparr>dev_stack := st\<rparr>
      in if \<not> ready then Some dev
         else do {
           (status, dev) \<leftarrow> HandleDataOnTcpSocket env k socket dev;
           if status = kEipStatusError then
             on_stack (\<lambda>st. do {
               st \<leftarrow> CloseTcpSocket socket st;
               RemoveSession (call_function env k) socket st }) dev
           else Some dev })"

text \<open>The loops run up to the highest socket, which may grow on the way.\<close>

partial_function (option) tcp_sockets_loop :: "io_env \<Rightarrow> nat \<Rightarrow> int \<Rightarrow> device \<Rightarrow> device option" where
  "tcp_sockets_loop env k socket dev =
     (if socket \<le> highest_socket_handle (io (dev_stack dev))
      then do { dev \<leftarrow> check_tcp_socket env k socket dev; tcp_sockets_loop env k (socket + 1) dev }
      else Some dev)"

partial_function (option) inactivity_loop :: "io_env \<Rightarrow> nat \<Rightarrow> int \<Rightarrow> net_stack \<Rightarrow> net_stack option" where
  "inactivity_loop env k socket st =
     (if socket \<le> highest_socket_handle (io st)
      then do { st \<leftarrow> CheckEncapsulationInactivity (call_function env k) socket st; inactivity_loop env k (socket + 1) st }
      else Some st)"

definition RegisterTimeoutChecker :: "(MilliSeconds \<Rightarrow> app_memory \<Rightarrow> app_memory) \<Rightarrow> net_stack \<Rightarrow> net_stack" where
  "RegisterTimeoutChecker f =
     upd_io (\<lambda>i. case first_index (\<lambda>x. x = None) (timeout_checker_array i) of
        None \<Rightarrow> i | Some j \<Rightarrow> i\<lparr>timeout_checker_array := (timeout_checker_array i)[j := Some f]\<rparr>)"

definition run_timeout_checkers :: "MilliSeconds \<Rightarrow> net_stack \<Rightarrow> net_stack" where
  "run_timeout_checkers t st =
     fold (\<lambda>c. case c of None \<Rightarrow> (\<lambda>st. st) | Some f \<Rightarrow> on_memory (f t)) (timeout_checker_array (io st)) st"

definition handle_ready_sockets :: "io_env \<Rightarrow> nat \<Rightarrow> nat \<Rightarrow> device \<Rightarrow> device option" where
  "handle_ready_sockets env k rand_value dev = do {
     dev \<leftarrow> on_stack CheckAndHandleTcpListenerSocket dev;
     dev \<leftarrow> on_stack (CheckAndHandleUdpUnicastSocket env rand_value) dev;
     dev \<leftarrow> on_stack (CheckAndHandleUdpGlobalBroadcastSocket env rand_value) dev;
     dev \<leftarrow> on_stack (CheckAndHandleConsumingUdpSocket env (dev_objects dev) (call_function env k)) dev;
     tcp_sockets_loop env k 0 dev }"

definition manage_time :: "io_env \<Rightarrow> nat \<Rightarrow> MilliSeconds \<Rightarrow> cm_service std_service registry \<Rightarrow> net_stack \<Rightarrow> net_stack option" where
  "manage_time env k now objects st = do {
     let st = st\<lparr>g_actual_time := now\<rparr>;
     let st = upd_io (\<lambda>i. i\<lparr>ns_elapsed_time := ns_elapsed_time i + (now - g_last_time i), g_last_time := now\<rparr>) st;
     let t = ns_elapsed_time (io st);
     if t \<ge> kOpenerTimerTickInMilliSeconds then do {
       st \<leftarrow> ManageConnections (on_memory (app_handle_application env)) (call_function env k) (send_function env objects) t st;
       Some (upd_io (\<lambda>i. i\<lparr>ns_elapsed_time := 0\<rparr>) (run_timeout_checkers t st))
     } else Some st }"

datatype select_result = SelectReady "int set" | SelectInterrupted | SelectError

text \<open>\<open>now\<close> is the time when the requests have been handled.\<close>

definition NetworkHandlerProcessCyclic ::
    "io_env \<Rightarrow> nat \<Rightarrow> select_result \<Rightarrow> nat \<Rightarrow> MilliSeconds \<Rightarrow> device \<Rightarrow> (EipStatus \<times> device) option" where
  "NetworkHandlerProcessCyclic env k selected rand_value now dev =
     (case selected of
        SelectInterrupted \<Rightarrow> Some (kEipStatusOk, dev)
      | SelectError \<Rightarrow> Some (kEipStatusError, dev)
      | SelectReady ready \<Rightarrow> do {
          let st = dev_stack dev;
          let dev = dev\<lparr>dev_stack := upd_io (\<lambda>i. i\<lparr>read_socket := ready \<inter> master_socket st\<rparr>) st\<rparr>;
          dev \<leftarrow> (if ready \<inter> master_socket st \<noteq> {} then handle_ready_sockets env k rand_value dev else Some dev);
          dev \<leftarrow> on_stack (inactivity_loop env k 0) dev;
          dev \<leftarrow> on_stack (manage_time env k now (dev_objects dev)) dev;
          Some (kEipStatusOk, dev) })"

definition NetworkHandlerFinish :: "net_stack \<Rightarrow> (EipStatus \<times> net_stack) option" where
  "NetworkHandlerFinish st = do {
     st \<leftarrow> CloseTcpSocket (tcp_listener (io st)) st;
     Some (kEipStatusOk, CloseUdpSocket (udp_global_broadcast_listener (io st))
       (CloseUdpSocket (udp_unicast_listener (io st)) st)) }"

definition GetMaxSocket :: "int \<Rightarrow> int \<Rightarrow> int \<Rightarrow> int \<Rightarrow> int" where
  "GetMaxSocket socket1 socket2 socket3 socket4 =
     (if socket1 > socket2 \<and> socket1 > socket3 \<and> socket1 > socket4 then socket1
      else if socket2 > socket1 \<and> socket2 > socket3 \<and> socket2 > socket4 then socket2
      else if socket3 > socket1 \<and> socket3 > socket2 \<and> socket3 > socket4 then socket3
      else socket4)"


subsection \<open>Initialization\<close>

text \<open>The calls that may fail while the listening sockets are set up.\<close>

datatype init_call =
  TcpReuseAddr | TcpNonBlocking | BroadcastReuseAddr | BroadcastNonBlocking | UnicastReuseAddr | UnicastNonBlocking
| TcpBind | UnicastBind | BroadcastEnable | BroadcastBind | TcpListen

definition next_socket :: "net_stack \<Rightarrow> int \<times> net_stack" where
  "next_socket st =
     (case os_sockets (io st) of [] \<Rightarrow> kEipInvalidSocket | s # _ \<Rightarrow> s, upd_io (\<lambda>i. i\<lparr>os_sockets := tl (os_sockets i)\<rparr>) st)"

text \<open>The tables and addresses; \<open>q\<close> is where the QoS object lies in the memory.\<close>

definition initialize_tables :: "io_env \<Rightarrow> nat \<Rightarrow> net_stack \<Rightarrow> net_stack option" where
  "initialize_tables env q st = do {
     let st = st\<lparr>g_timestamps := SocketTimerArrayInitialize (g_timestamps st)\<rparr>;
     dscp \<leftarrow> CipQosUpdateUsedSetQosValues q (io_memory (io st));
     let st = upd_io (\<lambda>i. i\<lparr>s_active_dscp := dscp\<rparr>) st;
     let st = st\<lparr>g_tcpip := CipTcpIpCalculateMulticastIp (os_endianess env) (g_tcpip st)\<rparr>;
     let st = st\<lparr>g_network_status := \<lparr>ns_ip_address = tcpip_ip_address (g_tcpip st),
        ns_network_mask = network_mask (interface_configuration (g_tcpip st))\<rparr>\<rparr>;
     let st = EncapsulationInit st;
     Some (upd_io (\<lambda>i. i\<lparr>read_socket := {}\<rparr>) (st\<lparr>master_socket := {}\<rparr>)) }"

text \<open>
  \<open>succeeds\<close> are the results of the calls on the sockets and \<open>now\<close> is the time. Failing to set the quality of service is only traced.
\<close>

definition NetworkHandlerInitialize ::
    "io_env \<Rightarrow> EipStatus \<Rightarrow> (init_call \<Rightarrow> bool) \<Rightarrow> nat \<Rightarrow> MilliSeconds \<Rightarrow> net_stack \<Rightarrow> (EipStatus \<times> net_stack) option" where
  "NetworkHandlerInitialize env platform succeeds q now st =
     (if platform \<noteq> kEipStatusOk then Some (kEipStatusError, st)
      else do {
        st \<leftarrow> initialize_tables env q st;
        let (s, st) = next_socket st; st = upd_io (\<lambda>i. i\<lparr>tcp_listener := s\<rparr>) st
        in if s = kEipInvalidSocket then Some (kEipStatusError, st)
        else if \<not> succeeds TcpReuseAddr then Some (kEipStatusError, st)
        else if \<not> succeeds TcpNonBlocking then Some (kEipStatusError, st)
        else let (s, st) = next_socket st; st = upd_io (\<lambda>i. i\<lparr>udp_global_broadcast_listener := s\<rparr>) st
        in if s = kEipInvalidSocket then Some (kEipStatusError, st)
        else let (s, st) = next_socket st; st = upd_io (\<lambda>i. i\<lparr>udp_unicast_listener := s\<rparr>) st
        in if s = kEipInvalidSocket then Some (kEipStatusError, st)
        else if \<not> succeeds BroadcastReuseAddr then Some (kEipStatusError, st)
        else if \<not> succeeds BroadcastNonBlocking then Some (kEipStatusError, st)
        else if \<not> succeeds UnicastReuseAddr then Some (kEipStatusError, st)
        else if \<not> succeeds UnicastNonBlocking then Some (kEipStatusError, st)
        else if \<not> succeeds TcpBind then Some (kEipStatusError, st)
        else if \<not> succeeds UnicastBind then Some (kEipStatusError, st)
        else if \<not> succeeds BroadcastEnable then Some (kEipStatusError, st)
        else if \<not> succeeds BroadcastBind then Some (kEipStatusError, st)
        else if \<not> succeeds TcpListen then Some (kEipStatusError, st)
        else
          let st = st\<lparr>master_socket := {tcp_listener (io st), udp_unicast_listener (io st), udp_global_broadcast_listener (io st)}
                \<union> master_socket st\<rparr>;
              st = upd_io (\<lambda>i. i\<lparr>highest_socket_handle :=
                GetMaxSocket (tcp_listener i) (udp_global_broadcast_listener i) 0 (udp_unicast_listener i)\<rparr>) st
          in Some (kEipStatusOk, upd_io (\<lambda>i. i\<lparr>g_last_time := now, ns_elapsed_time := 0\<rparr>) st) })"

end
