(* ===== verification/IoData.thy ===== *)
theory IoData
  imports IoConnection
begin

text \<open>
  What I/O connections put on the wire and take from it: the datagrams of
  \<^verbatim>\<open>SendConnectedData\<close>, the way of received data into an assembly, and the sockets of I/O
  connections.
\<close>

subsection \<open>Produced data\<close>

definition produced_address :: "'fn connection_object \<Rightarrow> cpf_address" where
  "produced_address c =
     (if ConnectionObjectGetTransportClassTriggerTransportClass c = TransportClass0
      then ConnectedAddress (cip_produced_connection_id c)
      else SequencedAddress (cip_produced_connection_id c) (eip_level_sequence_count_producing c))"

definition produced_payload :: "'fn connection_object \<Rightarrow> 32 word option \<Rightarrow> octet list \<Rightarrow> octet list" where
  "produced_payload c run_idle d =
     (if ConnectionObjectGetTransportClassTriggerTransportClass c = TransportClass1
      then le_octets 2 (sequence_count_producing c) else [])
     @ (case run_idle of Some n \<Rightarrow> le_octets 4 n | None \<Rightarrow> []) @ d"

lemma AssembleIOMessage_emit:
  assumes "item_count g = 2" "address_of (cpf_address_item g) = Some a" "no_infos g"
    and "di_type_id (cpf_data_item g) = kCipItemIdConnectedDataItem" "di_length (cpf_data_item g) = 0"
  shows "AssembleIOMessage e g g m =
     emit (le_octets 2 (2 :: 16 word) @ address_octets a @ le_octets 2 (kCipItemIdConnectedDataItem :: 16 word) @ le_octets 2 (0 :: 16 word)) m"
proof -
  have d: "encode_data_item None g g = emit (le_octets 2 (kCipItemIdConnectedDataItem :: 16 word) @ le_octets 2 (0 :: 16 word))"
  proof (rule ext)
    fix m
    have "EncodeDataItemData g = emit []"
      using assms(5) by (intro ext) (simp add: EncodeDataItemData_def copy_n_octets_emit)
    then show "encode_data_item None g g m = emit (le_octets 2 (kCipItemIdConnectedDataItem :: 16 word) @ le_octets 2 (0 :: 16 word)) m"
      using assms(4,5) by (simp add: encode_data_item_def EncodeDataItemType_def EncodeDataItemLength_def codec_simps)
  qed
  have "AssembleLinearMessage e None g g m = Option.bind (emit (le_octets 2 (2 :: 16 word) @ address_octets a
      @ le_octets 2 (kCipItemIdConnectedDataItem :: 16 word) @ le_octets 2 (0 :: 16 word)) m) (\<lambda>m. Some (kEipStatusOk, m))"
    unfolding AssembleLinearMessage_def Let_def
    by (simp only: encode_address_emit [OF assms(2)] d if_False not_True_eq_False)
      (simp add: EncodeItemCount_def codec_simps assms(1) no_infos_nothing [OF assms(3)])
  then show ?thesis
    unfolding AssembleIOMessage_def by (simp add: map_option_case split: option.splits bind_splits)
qed

text \<open>The two octets of the length written first are overwritten.\<close>

lemma move_back_emit:
  assumes "wf_msg m" "emit (bs @ [x, y]) m = Some m1"
  shows "\<exists>m2. MoveMessageNOctets (-2) m1 = Some m2 \<and> wf_msg m2 \<and> msg_content m2 = msg_content m @ bs"
proof -
  note e = emit_SomeD [OF assms(2)]
  let ?p = "current_message_position m"
  have p: "current_message_position m1 = ?p + length bs + 2" using e(3) by simp
  let ?m = "m1\<lparr>current_message_position := ?p + length bs, used_message_length := used_message_length m1 - 2\<rparr>"
  have "MoveMessageNOctets (-2) m1 = Some ?m"
    using e(4) by (simp add: MoveMessageNOctets_def p)
  moreover have "wf_msg ?m"
    using emit_wf [OF assms] p by (simp add: wf_msg_def)
  moreover have "msg_content ?m = msg_content m @ bs"
  proof -
    have "msg_content ?m = take (?p + length bs) (msg_content m1)"
      by (simp add: msg_content_def p min_def)
    then show ?thesis using e(1) assms(1) by (simp add: length_msg_content)
  qed
  ultimately show ?thesis by blast
qed

lemma SendUdpData_content:
  assumes "wf_msg m"
  shows "SendUdpData env address m st =
     (if os_sendto env (udp_io_messaging (io st)) address (msg_content m) = int (length (msg_content m))
      then kEipStatusOk else kEipStatusError,
      log_effect (SentDatagram (udp_io_messaging (io st)) address (msg_content m)) st)"
proof -
  have "take (unat (used_message_length m)) (message_buffer m) = msg_content m"
    using sent_octets_wf [OF assms] by (simp add: sent_octets_def)
  then show ?thesis
    unfolding SendUdpData_def Let_def using unat_used_message_length [OF assms] by auto
qed

lemma no_infos_cleared:
  assumes "length (address_info_item g) = 2"
  shows "no_infos (set_info_type 1 0 (set_info_type 0 0 g))"
proof -
  obtain x y where "address_info_item g = [x, y]" using assms by (auto simp: numeral_2_eq_2 length_Suc_conv)
  then show ?thesis by (simp add: no_infos_def set_info_type_def)
qed

lemma set_info_type_simps [simp]:
  "item_count (set_info_type j t g) = item_count g" "cpf_address_item (set_info_type j t g) = cpf_address_item g"
  "cpf_data_item (set_info_type j t g) = cpf_data_item g"
  by (simp_all add: set_info_type_def)

lemma write_produced_data_emit:
  assumes "length d = unat l"
  shows "write_produced_data c (l + (if r \<noteq> None then 4 else 0)
       + (if ConnectionObjectGetTransportClassTriggerTransportClass c = TransportClass1 then 2 else 0)) r l d m =
     emit (le_octets 2 (of_nat (length (produced_payload c r d)) :: 16 word) @ produced_payload c r d) m"
proof -
  have len: "of_nat (length (produced_payload c r d)) = l + (if r \<noteq> None then 4 else 0)
      + (if ConnectionObjectGetTransportClassTriggerTransportClass c = TransportClass1 then 2 else 0)"
    using assms by (cases r) (simp_all add: produced_payload_def)
  have copy: "copy_octets (unat l) d = Some d" using assms by simp
  show ?thesis
    unfolding len by (cases r; cases "ConnectionObjectGetTransportClassTriggerTransportClass c = TransportClass1")
      (simp_all add: copy write_produced_data_def produced_payload_def codec_simps add.commute)
qed

lemma producing_packet_ok:
  assumes "length (address_info_item g) = 2"
  shows "AssembleIOMessage e (set_info_type 1 0 (set_info_type 0 0 (producing_packet c g)))
      (set_info_type 1 0 (set_info_type 0 0 (producing_packet c g))) m =
    emit (le_octets 2 (2 :: 16 word) @ address_octets (produced_address c)
      @ le_octets 2 (kCipItemIdConnectedDataItem :: 16 word) @ le_octets 2 (0 :: 16 word)) m"
proof -
  have "no_infos (set_info_type 1 0 (set_info_type 0 0 (producing_packet c g)))"
    using assms by (intro no_infos_cleared) (simp add: producing_packet_def Let_def)
  then show ?thesis
    by (intro AssembleIOMessage_emit) (simp_all add: producing_packet_def Let_def address_of_def produced_address_def)
qed

subsection \<open>A device with an I/O connection\<close>

text \<open>Assembly 100 with two octets, an established class 1 connection on it, and a plain environment.\<close>

definition example_assembly :: cip_instance where
  "example_assembly = \<lparr>inst_number = 100, attributes = [\<lparr>attr_number = 3, attr_type = kCipByteArray, attr_encode = Some EncodeCipByteArray,
     attr_decode = None, attribute_flags = kSetAndGetAble, attr_data = Some (Obj 0)\<rparr>]\<rparr>"

definition example_registry :: "unit registry" where
  "example_registry = [\<lparr>class_inst = \<lparr>inst_number = 0, attributes = []\<rparr>, meta_class = empty_core, core = empty_core,
     class_code = kCipAssemblyClassCode, revision = 2, max_instance = 100, number_of_instances = 1,
     instances = [example_assembly], class_name = ''assembly''\<rparr>]"

definition example_env :: io_env where
  "example_env = \<lparr>os_udp_setup = (\<lambda>_. UdpSetupOk), os_sendto = (\<lambda>_ _ bs. int (length bs)), os_getpeername = (\<lambda>_. None),
     os_set_qos = (\<lambda>_ _. 0), os_endianess = kOpENerEndianessLittle, app_io_connection_event = (\<lambda>_ _ _ mem. mem),
     app_run_idle_changed = (\<lambda>_ mem. mem), app_after_received = (\<lambda>_ mem. (kEipStatusOk, mem)), app_before_send = (\<lambda>_ mem. (True, mem)), app_handle_application = (\<lambda>mem. mem)\<rparr>"

definition io_connection :: "io_fn connection_fn connection_object" where
  "io_connection = class3_connection\<lparr>instance_type := kInstanceTypeIOExclusiveOwner, transport_class_trigger := 0x01,
     cip_consumed_connection_id := 77, cip_produced_connection_id := 88, o_to_t_requested_packet_interval := 10000,
     consuming_instance := Some 100, producing_instance := Some 100, socket_producing := 7, socket_consuming := 7,
     connection_receive_data_function := Some (FnOther FnHandleReceivedIoConnectionData)\<rparr>"

definition io_device :: "unit io_stack" where
  "io_device = \<lparr>st_objects = (\<lambda>_. io_connection),
     st_connection_list = (\<lparr>dll_first = Some 0, dll_last = Some 0\<rparr>, [\<lparr>node_data = Some 1, node_previous = None, node_next = None\<rparr>, free_node]),
     st_cpf = zero_cpf, g_registered_sessions = g_registered_sessions two_class3, g_timestamps = g_timestamps two_class3,
     g_actual_time = 0, master_socket = {5, 7}, g_delayed_encapsulation_messages = [], st_effects = [],
     g_identity = example_identity, g_tcpip = g_tcpip two_class3, g_network_status = g_network_status two_class3,
     st_app = \<lparr>g_connection_management_list = [], g_incarnation_id = 0, cm_connection_id = 0, g_config_data_length = 0,
       g_config_data_buffer = None, cm_rest = \<lparr>g_exlusive_owner_connections = [], g_input_only_connections = [],
         g_listen_only_connections = [], g_run_idle_state = 1, s_consume_run_idle = True, s_produce_run_idle = False,
         udp_io_messaging = 7, highest_socket_handle = 7, s_active_dscp = default_dscp, g_current_active_tcp_socket = 5, os_sockets = [], os_rand = [],
         io_memory = (\<lambda>_. VByteArray 2 [1, 2])\<rparr>\<rparr>\<rparr>"

lemma io_device_simps [simp]:
  "st_objects io_device = (\<lambda>_. io_connection)" "length (address_info_item (st_cpf io_device)) = 2"
  "io_memory (io io_device) = (\<lambda>_. VByteArray 2 [1, 2])" "s_produce_run_idle (io io_device) = False"
  "s_consume_run_idle (io io_device) = True" "udp_io_messaging (io io_device) = 7" "g_run_idle_state (io io_device) = 1"
  by (simp_all add: io_device_def zero_cpf_def)

lemma io_connection_simps [simp]:
  "consuming_instance io_connection = Some 100" "producing_instance io_connection = Some 100"
  "ConnectionObjectGetTransportClassTriggerTransportClass io_connection = TransportClass1"
  "cip_consumed_connection_id io_connection = 77" "ConnectionObjectGetState io_connection = kConnectionObjectStateEstablished"
  "originator_address io_connection = zero_address" "remote_address io_connection = zero_address"
  "sequence_count_consuming io_connection = 0" "eip_level_sequence_count_consuming io_connection = 0"
  "connection_receive_data_function io_connection = Some (FnOther FnHandleReceivedIoConnectionData)"
  "ConnectionObjectCalculateRegularInactivityWatchdogTimerValue io_connection = Some 40"
  by (simp_all add: io_connection_def class3_connection_def ConnectionObjectInitializeEmpty_def ConnectionObjectGetState_def
      ConnectionObjectGetTransportClassTriggerTransportClass_def ConnectionObjectCalculateRegularInactivityWatchdogTimerValue_def)

lemma io_device_connected [simp]: "GetConnectedObject io_device 77 = Some 1"
  by (simp add: GetConnectedObject_def list_data_def) (simp add: io_device_def walk.simps)

lemma example_lookup [simp]:
  "GetCipClass example_registry kCipAssemblyClassCode = Some (hd example_registry)"
  "GetCipInstance (hd example_registry) 100 = Some example_assembly"
  "assembly_bytes example_assembly (\<lambda>_. VByteArray 2 [1, 2]) = Some (0, 2, [1, 2])"
  by (simp_all add: example_registry_def GetCipClass_def GetRegisteredObject_def GetCipInstance_def example_assembly_def assembly_bytes_def)

lemma example_env_simps [simp]:
  "app_before_send example_env = (\<lambda>_ mem. (True, mem))" "app_after_received example_env = (\<lambda>_ mem. (kEipStatusOk, mem))"
  "os_sendto example_env = (\<lambda>_ _ bs. int (length bs))" "app_run_idle_changed example_env = (\<lambda>_ mem. mem)"
  by (simp_all add: example_env_def)

text \<open>
  C8: A datagram of a producing connection carries, in a packet with the next 32-bit sequence number
  (class 0: without one), the current data of the producing assembly behind the class 1 sequence
  count, which advances only when the application has changed the data, and behind the run/idle
  header, if it is switched on and the data is not empty. The datagram goes to the
  connection's remote address over the latest I/O socket. Data that does not fit into the message
  buffer of 512 octets is written past its end.
\<close>
theorem SendConnectedData_datagram:
  assumes inst: "producing_instance (st_objects st a) = Some n" "GetCipClass objects kCipAssemblyClassCode = Some cls"
      "GetCipInstance cls n = Some inst"
    and data: "app_before_send env inst (io_memory (io st)) = (changed, mem)" "assembly_bytes inst mem = Some (i, l, d)" "length d = unat l"
    and infos: "length (address_info_item (st_cpf st)) = 2"
  defines "c \<equiv> (st_objects st a)\<lparr>eip_level_sequence_count_producing := eip_level_sequence_count_producing (st_objects st a) + 1,
      sequence_count_producing := sequence_count_producing (st_objects st a) + (if changed then 1 else 0)\<rparr>"
  defines "packet \<equiv> packet_octets (produced_address c) kCipItemIdConnectedDataItem
      (produced_payload c (if s_produce_run_idle (io st) \<and> l \<noteq> 0 then Some (g_run_idle_state (io st)) else None) d) []"
  shows "if length packet \<le> PC_OPENER_ETHERNET_BUFFER_SIZE
    then \<exists>g. SendConnectedData env objects a st =
      Some (if os_sendto env (udp_io_messaging (io st)) (remote_address c) packet = int (length packet)
              then kEipStatusOk else kEipStatusError,
            log_effect (SentDatagram (udp_io_messaging (io st)) (remote_address c) packet)
              (store_object a c (on_memory (\<lambda>_. mem) (st\<lparr>st_cpf := g\<rparr>))))
    else SendConnectedData env objects a st = None"
proof -
  define r where "r = (if s_produce_run_idle (io st) \<and> l \<noteq> 0 then Some (g_run_idle_state (io st)) else None)"
  define front where "front = le_octets 2 (2 :: 16 word) @ address_octets (produced_address c) @ le_octets 2 (kCipItemIdConnectedDataItem :: 16 word)"
  define rest where "rest = le_octets 2 (of_nat (length (produced_payload c r d)) :: 16 word) @ produced_payload c r d"
  have packet: "packet = front @ rest"
    by (simp add: packet_def packet_octets_def front_def rest_def r_def)
  define m where "m = InitializeENIPMessage local_message"
  have wf: "wf_msg m" "msg_content m = []" "msg_room m = PC_OPENER_ETHERNET_BUFFER_SIZE" by (simp_all add: m_def)
  have "length front \<le> 18" by (simp add: front_def produced_address_def)
  then obtain m1 where m1: "emit (front @ [0, 0]) m = Some m1"
    using emit_wf_fits [OF wf(1), of "front @ [0, 0]"] by (auto simp: wf(3) PC_OPENER_ETHERNET_BUFFER_SIZE_def)
  then obtain m2 where m2: "MoveMessageNOctets (-2) m1 = Some m2" "wf_msg m2" "msg_content m2 = front"
    using move_back_emit [OF wf(1)] wf(2) by fastforce
  define c1 where "c1 = (st_objects st a)\<lparr>eip_level_sequence_count_producing := eip_level_sequence_count_producing (st_objects st a) + 1\<rparr>"
  define g1 where "g1 = set_info_type 1 0 (set_info_type 0 0 (producing_packet c1 (st_cpf st)))"
  have c: "(if changed then c1\<lparr>sequence_count_producing := sequence_count_producing c1 + 1\<rparr> else c1) = c"
    and p: "producing_instance c1 = Some n"
    using inst(1) by (simp_all add: c_def c1_def)
  have "produced_address c1 = produced_address c"
    by (simp add: produced_address_def c_def c1_def ConnectionObjectGetTransportClassTriggerTransportClass_def)
  moreover have "le_octets 2 (0 :: 16 word) = [0, 0]" by (simp add: le_octets_2)
  ultimately have g: "AssembleIOMessage (os_endianess env) g1 g1 m = Some m1"
    using producing_packet_ok [OF infos, of "os_endianess env" c1 m] m1 by (simp add: front_def g1_def)
  define len where "len = l + (if r \<noteq> None then 4 else 0)
     + (if ConnectionObjectGetTransportClassTriggerTransportClass c = TransportClass1 then 2 else 0)"
  have w: "write_produced_data c len r l d m2 = emit rest m2"
    unfolding len_def rest_def by (rule write_produced_data_emit [OF data(3)])
  define g where "g = g1\<lparr>cpf_data_item := (cpf_data_item g1)\<lparr>di_length := len\<rparr>\<rparr>"
  define st' where "st' = store_object a c (on_memory (\<lambda>_. mem) (st\<lparr>st_cpf := g\<rparr>))"
  have send: "SendConnectedData env objects a st =
      Option.bind (emit rest m2) (\<lambda>m. Some (SendUdpData env (remote_address c) m st'))"
    unfolding SendConnectedData_def Let_def c1_def [symmetric] g1_def [symmetric]
    by (simp only: p inst(2,3) data(1,2) bind.bind_lunit prod.case c g m2(1) m_def [symmetric] r_def [symmetric]
        len_def [symmetric] w g_def [symmetric] st'_def [symmetric])
  have p2: "current_message_position m2 = length front" using length_msg_content [OF m2(2)] m2(3) by simp
  have b2: "length (message_buffer m2) = PC_OPENER_ETHERNET_BUFFER_SIZE" using m2(2) by (simp add: wf_msg_def)
  show ?thesis
  proof (cases "length packet \<le> PC_OPENER_ETHERNET_BUFFER_SIZE")
    case True
    have "length rest \<le> msg_room m2"
      using True packet by (simp add: msg_room_def p2 b2 PC_OPENER_ETHERNET_BUFFER_SIZE_def)
    then obtain m3 where m3: "emit rest m2 = Some m3" "wf_msg m3" "msg_content m3 = packet"
      using emit_wf_fits [OF m2(2)] m2(3) packet by auto
    have u: "udp_io_messaging (io st') = udp_io_messaging (io st)"
      by (simp add: st'_def on_memory_def upd_io_def store_object_def)
    note SendUdpData_content [OF m3(2), of env "remote_address c" st', unfolded m3(3) u]
    then show ?thesis using True send m3(1) by (auto simp: st'_def)
  next
    case False
    have "emit rest m2 = None"
      using False packet by (simp add: emit_None_iff p2 b2 PC_OPENER_ETHERNET_BUFFER_SIZE_def)
    then show ?thesis using False send by simp
  qed
qed

lemma produced_packet_length:
  "length (packet_octets (produced_address c) t (produced_payload c r d) []) \<le> 24 + length d"
  by (cases r) (simp_all add: packet_octets_def produced_address_def produced_payload_def)

lemma SendConnectedData_datagram_witness:
  "\<exists>st. SendConnectedData example_env example_registry 1 io_device = Some (kEipStatusOk, st)"
proof -
  have short: "length (packet_octets (produced_address c) t (produced_payload c r [1, 2]) []) \<le> PC_OPENER_ETHERNET_BUFFER_SIZE"
    for c :: "io_fn connection_fn connection_object" and t r
    using produced_packet_length [of c t r "[1, 2]"] by (simp add: PC_OPENER_ETHERNET_BUFFER_SIZE_def)
  show ?thesis
    using SendConnectedData_datagram [of io_device 1 100 example_registry "hd example_registry" example_assembly example_env
        True "\<lambda>_. VByteArray 2 [1, 2]" 0 2 "[1, 2]", unfolded if_P [OF short]] by auto
qed

subsection \<open>Consumed data\<close>

lemma SEQ_LEQ16_iff: "SEQ_LEQ16 a b \<longleftrightarrow> \<not> (0 < unat (a - b) \<and> unat (a - b) < 2 ^ 15)"
proof -
  define k where "k = unat (a - b)"
  have "sint (a - b) = int k - (if k < 2 ^ 15 then 0 else 2 ^ 16)"
    using sint_cases [of "a - b"] by (simp add: k_def)
  moreover have "k < 2 ^ 16"
    unfolding k_def using unsigned_less [of "a - b"] by simp
  ultimately show ?thesis by (simp add: SEQ_LEQ16_def k_def [symmetric])
qed


definition consumed_octets :: "CipUint \<Rightarrow> 32 word option \<Rightarrow> octet list \<Rightarrow> octet list" where
  "consumed_octets s r d = le_octets 2 s @ (case r of Some n \<Rightarrow> le_octets 4 n | None \<Rightarrow> []) @ d"

definition run_idle_memory :: "io_env \<Rightarrow> 32 word option \<Rightarrow> 'z io_stack \<Rightarrow> app_memory" where
  "run_idle_memory env r st =
     (case r of Some n \<Rightarrow> if g_run_idle_state (io st) \<noteq> n then app_run_idle_changed env n (io_memory (io st)) else io_memory (io st)
      | None \<Rightarrow> io_memory (io st))"

lemma io_simps [simp]:
  "io (upd_io f st) = f (io st)" "io (on_memory h st) = (io st)\<lparr>io_memory := h (io_memory (io st))\<rparr>"
  "io (store_object a c st) = io st" "io (st\<lparr>g_identity := x\<rparr>) = io st" "io (st\<lparr>st_cpf := y\<rparr>) = io st"
  by (simp_all add: upd_io_def on_memory_def store_object_def)

lemma HandleReceivedIoConnectionData_class1:
  assumes c: "ConnectionObjectGetTransportClassTriggerTransportClass (st_objects st a) = TransportClass1"
    and inst: "consuming_instance (st_objects st a) = Some n" "GetCipClass objects kCipAssemblyClassCode = Some cls"
      "GetCipInstance cls n = Some inst"
    and r: "s_consume_run_idle (io st) \<longleftrightarrow> r \<noteq> None" and d: "d \<noteq> []" "length (consumed_octets s r d) < 65536"
    and bytes: "assembly_bytes inst (run_idle_memory env r st) = Some (i, l, old)" "length old = unat l"
  defines "ahead \<equiv> unat (s - sequence_count_consuming (st_objects st a))"
  shows "\<exists>st'. HandleReceivedIoConnectionData env objects a (consumed_octets s r d) (of_nat (length (consumed_octets s r d))) st =
      Some (if 0 < ahead \<and> ahead < 2 ^ 15 \<and> (length d \<noteq> unat l
               \<or> fst (app_after_received env inst ((run_idle_memory env r st)(i := VByteArray l d))) \<noteq> kEipStatusOk)
            then kEipStatusError else kEipStatusOk, st')
    \<and> io_memory (io st') = (if 0 < ahead \<and> ahead < 2 ^ 15 \<and> length d = unat l
        then snd (app_after_received env inst ((run_idle_memory env r st)(i := VByteArray l d)))
        else run_idle_memory env r st)
    \<and> st_objects st' = (st_objects st)(a := (st_objects st a)\<lparr>sequence_count_consuming := s\<rparr>)"
proof -
  define st1 where "st1 = store_object a ((st_objects st a)\<lparr>sequence_count_consuming := s\<rparr>) st"
  define k where "k = length d + (if r \<noteq> None then 4 else 0)"
  have k: "length (consumed_octets s r d) = k + 2" by (cases r) (simp_all add: consumed_octets_def k_def)
  have seq: "check_sequence_count a (consumed_octets s r d) (of_nat (length (consumed_octets s r d))) st =
      Some (\<not> (0 < ahead \<and> ahead < 2 ^ 15), (case r of Some v \<Rightarrow> le_octets 4 v | None \<Rightarrow> []) @ d, of_nat k, st1)"
    using c by (simp add: check_sequence_count_def k st1_def SEQ_LEQ16_iff ahead_def) (simp add: consumed_octets_def cpf_readers Let_def)
  have uk: "unat (of_nat k :: 16 word) = k" using d(2) k by (intro unat_of_nat_16) simp
  then have pos: "0 < (of_nat k :: 16 word)" using d(1) by (simp add: word_less_nat_alt k_def)
  obtain st2 where st2: "receive_run_idle env ((case r of Some v \<Rightarrow> le_octets 4 v | None \<Rightarrow> []) @ d) (of_nat k) st1 =
      Some (d, of_nat (length d), st2)" "io_memory (io st2) = run_idle_memory env r st" "st_objects st2 = st_objects st1"
    using r by (cases r)
      (auto simp: receive_run_idle_def k_def run_idle_memory_def cpf_readers st1_def Let_def upd_io_def on_memory_def store_object_def)
  have ld: "unat (of_nat (length d) :: 16 word) = length d"
    using d(2) k by (intro unat_of_nat_16) (simp add: k_def split: if_splits)
  have i2: "consuming_instance (st_objects st2 a) = Some n" using inst(1) st2(3) by (simp add: st1_def)
  have o2: "st_objects (on_memory h st2) = (st_objects st)(a := (st_objects st a)\<lparr>sequence_count_consuming := s\<rparr>)"
    "st_objects st2 = (st_objects st)(a := (st_objects st a)\<lparr>sequence_count_consuming := s\<rparr>)" for h
    using st2(3) by (simp_all add: st1_def on_memory_def upd_io_def store_object_def)
  have sp: "splice_at 0 d old = d" if "length d = unat l" using that bytes(2) by (simp add: splice_at_def)
  obtain status mem where app: "app_after_received env inst ((run_idle_memory env r st)(i := VByteArray l d)) = (status, mem)"
    by force
  show ?thesis
    using pos inst(2,3) bytes sp i2 o2 app
    by (auto simp: HandleReceivedIoConnectionData_def seq st2(1,2) ld NotifyAssemblyConnectedDataReceived_def)
qed

text \<open>
  C7: From the packet to the assembly. A class 1 data packet from the originator of an established
  connection, ahead in its 32-bit sequence number, is written into the consuming assembly, and the
  application is told, exactly when its 16-bit sequence count is ahead too, by less than half of
  the range, and the data has the length of the assembly. Otherwise the data of the assembly stays.
  In both cases a changed run/idle word reaches the application, and the sequence count is recorded.
\<close>
theorem io_data_reaches_assembly:
  assumes a: "GetConnectedObject st j = Some a" "sin_addr (originator_address (st_objects st a)) = sin_addr from_address"
      "ConnectionObjectGetTransportClassTriggerTransportClass (st_objects st a) = TransportClass1"
      "connection_receive_data_function (st_objects st a) = Some (FnOther FnHandleReceivedIoConnectionData)"
      "ConnectionObjectCalculateRegularInactivityWatchdogTimerValue (st_objects st a) = Some v"
    and inst: "consuming_instance (st_objects st a) = Some n" "GetCipClass objects kCipAssemblyClassCode = Some cls"
      "GetCipInstance cls n = Some inst" "assembly_bytes inst (run_idle_memory env r st) = Some (i, l, old)" "length old = unat l"
    and packet: "s_consume_run_idle (io st) \<longleftrightarrow> r \<noteq> None" "d \<noteq> []" "length (consumed_octets s r d) < 65536"
      "length (address_info_item (st_cpf st)) = 2"
    and newer: "0 < unat (q - eip_level_sequence_count_consuming (st_objects st a))"
      "unat (q - eip_level_sequence_count_consuming (st_objects st a)) < 2 ^ 31"
  defines "accepted \<equiv> 0 < unat (s - sequence_count_consuming (st_objects st a))
      \<and> unat (s - sequence_count_consuming (st_objects st a)) < 2 ^ 15 \<and> length d = unat l"
  shows "\<exists>status st'. HandleReceivedConnectedData (receive_function env objects)
       (packet_octets (SequencedAddress j q) kCipItemIdConnectedDataItem (consumed_octets s r d) [])
       (length (packet_octets (SequencedAddress j q) kCipItemIdConnectedDataItem (consumed_octets s r d) [])) from_address st =
      Some (status, st')
    \<and> io_memory (io st') = (if accepted then snd (app_after_received env inst ((run_idle_memory env r st)(i := VByteArray l d)))
        else run_idle_memory env r st)
    \<and> sequence_count_consuming (st_objects st' a) = s \<and> eip_level_sequence_count_consuming (st_objects st' a) = q
    \<and> inactivity_watchdog_timer (st_objects st' a) = v"
proof -
  define g where "g = parsed_packet (SequencedAddress j q) kCipItemIdConnectedDataItem (consumed_octets s r d) [] [] (st_cpf st)"
  define st1 where "st1 = store_object a ((st_objects st a)\<lparr>last_package_watchdog_timer := v, inactivity_watchdog_timer := v,
     eip_level_sequence_count_consuming := q, eip_first_level_sequence_count_received := True\<rparr>) (st\<lparr>st_cpf := g\<rparr>)"
  have h: "HandleReceivedConnectedData (receive_function env objects)
       (packet_octets (SequencedAddress j q) kCipItemIdConnectedDataItem (consumed_octets s r d) [])
       (length (packet_octets (SequencedAddress j q) kCipItemIdConnectedDataItem (consumed_octets s r d) [])) from_address st =
     HandleReceivedIoConnectionData env objects a (consumed_octets s r d) (of_nat (length (consumed_octets s r d))) st1"
    using HandleReceivedConnectedData_packet [OF packet(3,4) a(1,5,4), of "receive_function env objects" q from_address] a(2) newer
    by (simp add: Let_def receive_function_def st1_def g_def)
  have m: "run_idle_memory env r st1 = run_idle_memory env r st" "s_consume_run_idle (io st1) = s_consume_run_idle (io st)"
    by (cases r; simp add: run_idle_memory_def st1_def store_object_def)+
  have o: "ConnectionObjectGetTransportClassTriggerTransportClass (st_objects st1 a) = TransportClass1"
    "consuming_instance (st_objects st1 a) = Some n"
    "sequence_count_consuming (st_objects st1 a) = sequence_count_consuming (st_objects st a)"
    using a(3) inst(1) by (simp_all add: st1_def ConnectionObjectGetTransportClassTriggerTransportClass_def)
  obtain status st' where st': "HandleReceivedIoConnectionData env objects a (consumed_octets s r d)
        (of_nat (length (consumed_octets s r d))) st1 = Some (status, st')"
      "io_memory (io st') = (if accepted then snd (app_after_received env inst ((run_idle_memory env r st)(i := VByteArray l d)))
        else run_idle_memory env r st)"
      "st_objects st' = (st_objects st1)(a := (st_objects st1 a)\<lparr>sequence_count_consuming := s\<rparr>)"
    using HandleReceivedIoConnectionData_class1 [OF o(1,2) inst(2,3) _ packet(2,3), of env i l old] inst(4,5) packet(1)
    unfolding m o(3) accepted_def by auto
  show ?thesis
    unfolding h by (intro exI [of _ status] exI [of _ st']) (simp add: st'(1,2), simp add: st'(3) st1_def)
qed

lemma io_data_reaches_assembly_witness:
  "\<exists>status st. HandleReceivedConnectedData (receive_function example_env example_registry)
       (packet_octets (SequencedAddress 77 1) kCipItemIdConnectedDataItem (consumed_octets 1 (Some 1) [8, 9]) [])
       (length (packet_octets (SequencedAddress 77 1) kCipItemIdConnectedDataItem (consumed_octets 1 (Some 1) [8, 9]) []))
       zero_address io_device = Some (status, st)
     \<and> io_memory (io st) 0 = VByteArray 2 [8, 9] \<and> inactivity_watchdog_timer (st_objects st 1) = 40"
  using io_data_reaches_assembly [of io_device 77 1 zero_address 40 100 example_registry "hd example_registry" example_assembly
      example_env "Some 1" 0 2 "[1, 2]" "[8, 9]" 1 1]
  by (simp add: run_idle_memory_def consumed_octets_def) (metis fun_upd_same)

end
