(* ===== verification/TcpFraming.thy ===== *)
theory TcpFraming
  imports NetworkHandler IoData
begin

text \<open>
  How the network handler divides the stream of octets of a TCP socket into packets: a packet that fits into the
  buffer is taken from the stream exactly and handed to the encapsulation layer; a longer one is dropped.
\<close>

subsection \<open>The stream of a socket\<close>

abbreviation pending :: "int \<Rightarrow> net_stack \<Rightarrow> octet list" where
  "pending socket st \<equiv> ts_pending (os_streams (io st) socket)"

definition set_pending_octets :: "int \<Rightarrow> octet list \<Rightarrow> net_stack \<Rightarrow> net_stack" where
  "set_pending_octets socket bs =
     upd_io (\<lambda>i. i\<lparr>os_streams := (os_streams i)(socket := (os_streams i socket)\<lparr>ts_pending := bs\<rparr>)\<rparr>)"

lemma pending_set [simp]: "pending socket (set_pending_octets socket bs st) = bs"
  by (simp add: set_pending_octets_def upd_io_def)

lemma end_set [simp]: "ts_end (os_streams (io (set_pending_octets socket bs st)) socket) = ts_end (os_streams (io st) socket)"
  by (simp add: set_pending_octets_def upd_io_def)

lemma set_set [simp]: "set_pending_octets socket bs (set_pending_octets socket cs st) = set_pending_octets socket bs st"
  by (simp add: set_pending_octets_def upd_io_def)

lemma set_pending_frame [simp]:
  "g_timestamps (set_pending_octets socket bs st) = g_timestamps st"
  by (simp add: set_pending_octets_def upd_io_def)

lemma recv_pending:
  "pending socket st \<noteq> [] \<Longrightarrow>
     recv socket n st = (Received (take n (pending socket st)), set_pending_octets socket (drop n (pending socket st)) st)"
  by (simp add: recv_def set_pending_octets_def Let_def upd_io_def)

lemma recv_blocks:
  "pending socket st = [] \<Longrightarrow> ts_end (os_streams (io st) socket) = PeerOpen \<Longrightarrow> recv socket n st = (WouldBlock, st)"
  by (simp add: recv_def Let_def)

subsection \<open>Packets that fit\<close>

lemma buffer_of_packet:
  assumes "length p \<le> PC_OPENER_ETHERNET_BUFFER_SIZE" "4 \<le> length p"
  shows "receive_buffer 4 (drop 4 p) (receive_buffer 0 (take 4 p) zero_buffer) =
     p @ replicate (PC_OPENER_ETHERNET_BUFFER_SIZE - length p) 0"
  using assms by (simp add: receive_buffer_def splice_at_def zero_buffer_def)

lemma packet_size:
  assumes "unat (n :: 16 word) + 24 \<le> PC_OPENER_ETHERNET_BUFFER_SIZE"
  defines "sz \<equiv> (ucast n :: size_t) + of_nat ENCAPSULATION_HEADER_LENGTH - 4"
  shows "unat sz = unat n + 20" "\<not> of_nat PC_OPENER_ETHERNET_BUFFER_SIZE - 4 < sz" "sz + 4 = of_nat (unat n + 24)"
proof -
  have s: "sz = of_nat (unat n + 20)" by (simp add: sz_def ENCAPSULATION_HEADER_LENGTH_def unsigned_ucast_eq)
  show 1: "unat sz = unat n + 20" using assms(1) unfolding s
    by (simp add: unsigned_of_nat take_bit_nat_eq_self PC_OPENER_ETHERNET_BUFFER_SIZE_def del: of_nat_add)
  show "\<not> of_nat PC_OPENER_ETHERNET_BUFFER_SIZE - 4 < sz"
    using 1 assms(1) by (simp add: word_less_nat_alt PC_OPENER_ETHERNET_BUFFER_SIZE_def)
  show "sz + 4 = of_nat (unat n + 24)" by (simp add: s)
qed

text \<open>
  C6: A packet at the head of the stream of a TCP socket, not longer than the buffer, is taken from the stream exactly:
  the encapsulation layer gets its octets, followed by zeros, and its length, while the octets behind it stay in the stream. What
  the encapsulation layer wants to be sent is sent on the same socket, and its changes of the classes, the request, the
  sessions, the effects and the stream of the socket take effect.
\<close>
theorem tcp_packet_answered:
  fixes dev :: device and socket :: int and cmd body rest :: "octet list" and n :: "16 word"
  defines "packet \<equiv> cmd @ le_octets 2 n @ body"
    and "st0 \<equiv> upd_io (\<lambda>i. i\<lparr>g_current_active_tcp_socket := socket\<rparr>) (set_pending_octets socket rest (dev_stack dev))"
  assumes pending: "pending socket (dev_stack dev) = packet @ rest" and len: "length cmd = 2" "length body = unat n + 20"
    and fits: "length packet \<le> PC_OPENER_ETHERNET_BUFFER_SIZE"
    and handled: "HandleReceivedExplictTcpData (call_function env k) (os_endianess env)
        (call_service env (call_function env k) (dev_objects dev)) socket
        (packet @ replicate (PC_OPENER_ETHERNET_BUFFER_SIZE - length packet) 0) (of_nat (length packet))
        (case os_getpeername env socket of None \<Rightarrow> zero_address | Some p \<Rightarrow> p) (dev_objects dev) (dev_request dev) st0
        (InitializeENIPMessage local_message) = Some (r, status, objects, req, st, m)"
  shows "\<exists>dev'. HandleDataOnTcpSocket env k socket dev = Some (kEipStatusOk, dev')
    \<and> dev_objects dev' = objects \<and> dev_request dev' = req
    \<and> st_effects (dev_stack dev') = (if status = kEipStatusOkSend then [SentStream socket (sent_octets m)] else []) @ st_effects st
    \<and> g_registered_sessions (dev_stack dev') = g_registered_sessions st
    \<and> pending socket (dev_stack dev') = pending socket st \<and> pending socket st0 = rest"
proof -
  have lp: "length packet = unat n + 24" using len by (simp add: packet_def)
  note size = packet_size [of n, folded lp, OF fits]
  have t4: "take 4 packet = cmd @ le_octets 2 n" and d4: "drop 4 packet = body" using len by (simp_all add: packet_def)
  have nonempty: "packet \<noteq> []" "body \<noteq> []" using lp len by auto
  define timer where "timer = SocketTimerArrayGetSocketTimer (g_timestamps (dev_stack dev)) socket"
  define st1 where "st1 = set_pending_octets socket (body @ rest) (dev_stack dev)"
  have r1: "recv socket 4 (dev_stack dev) = (Received (take 4 packet), st1)"
    using recv_pending [where socket = socket and st = "dev_stack dev" and n = 4] pending nonempty lp d4 by (simp add: st1_def)
  have r2: "recv socket (unat n + 20) st1 = (Received body, set_pending_octets socket rest (dev_stack dev))"
    using recv_pending [where socket = socket and st = st1 and n = "unat n + 20"] nonempty len by (simp add: st1_def)
  have g: "GetUintFromMessage (drop 2 (receive_buffer 0 (take 4 packet) zero_buffer)) = Some (n, drop 4 zero_buffer)"
    using len uint.dec_enc [of n] by (simp add: t4 receive_buffer_def splice_at_def)
  have buffer: "receive_buffer 4 body (receive_buffer 0 (take 4 packet) zero_buffer) =
      packet @ replicate (PC_OPENER_ETHERNET_BUFFER_SIZE - length packet) 0"
    using buffer_of_packet [OF fits] lp d4 by simp
  have "HandleDataOnTcpSocket env k socket dev = map_option (Pair kEipStatusOk) (handle_tcp_packet env k socket timer
      (packet @ replicate (PC_OPENER_ETHERNET_BUFFER_SIZE - length packet) 0) (of_nat (length packet))
      (dev\<lparr>dev_stack := set_pending_octets socket rest (dev_stack dev)\<rparr>))"
    using nonempty lp r2 size buffer len
    by (simp add: HandleDataOnTcpSocket_def r1 receive_tcp_packet_def g Let_def timer_def) (simp add: st1_def add.commute)
  then show ?thesis
    using handled
    by (simp add: handle_tcp_packet_def Let_def st0_def)
      (auto simp: set_last_update_def log_effect_def upd_io_def)
qed

subsection \<open>Packets that do not fit\<close>

lemma unat_minus_of_nat: "n \<le> unat (w :: 'a::len word) \<Longrightarrow> unat (w - of_nat n) = unat w - n"
proof -
  assume n: "n \<le> unat w"
  then have "unat (of_nat n :: 'a word) = n" by (rule le_unat_uoi)
  moreover from this have "of_nat n \<le> w" using n by (simp add: word_le_nat_alt)
  ultimately show ?thesis by (simp add: unat_sub)
qed

lemma drop_step:
  assumes "pending socket st \<noteq> []" "0 < n"
  shows "drop_packet socket n data_size st =
     (let k = min n (length (pending socket st)); data_size' = data_size - of_nat k;
          n' = (if data_size' < of_nat PC_OPENER_ETHERNET_BUFFER_SIZE \<and> data_size' \<noteq> 0 then unat data_size' else n);
          st' = set_pending_octets socket (drop n (pending socket st)) st
      in if 0 < data_size' then drop_packet socket n' data_size' st' else (DropDone, st'))"
  using assms by (subst drop_packet.simps) (simp add: recv_pending Let_def min.commute)

text \<open>With at most as many octets per turn as are left to drop, and the whole packet in the stream, exactly the packet is dropped.\<close>

lemma drop_packet_exact:
  assumes "0 < n" "n \<le> unat data_size" "n = PC_OPENER_ETHERNET_BUFFER_SIZE \<or> n = unat data_size"
    and "unat data_size \<le> length (pending socket st)"
  shows "drop_packet socket n data_size st = (DropDone, set_pending_octets socket (drop (unat data_size) (pending socket st)) st)"
  using assms
proof (induction "unat data_size" arbitrary: n data_size st rule: less_induct)
  case less
  have u: "unat (data_size - of_nat n) = unat data_size - n"
    using less.prems(2) by (rule unat_minus_of_nat)
  have nonempty: "pending socket st \<noteq> []" using less.prems(1,2,4) by auto
  have k: "min n (length (pending socket st)) = n" using less.prems(2,4) by simp
  show ?case
  proof (cases "unat data_size = n")
    case True
    then have "data_size - of_nat n = 0" using u by (simp add: unat_eq_0)
    then show ?thesis using True by (subst drop_step [OF nonempty less.prems(1)]) (simp add: Let_def k)
  next
    case False
    define left where "left = data_size - of_nat n"
    define st' where "st' = set_pending_octets socket (drop n (pending socket st)) st"
    define n' where "n' = (if left < of_nat PC_OPENER_ETHERNET_BUFFER_SIZE \<and> left \<noteq> 0 then unat left else n)"
    have l: "unat left = unat data_size - n" "0 < unat left" "left \<noteq> 0"
      using u False less.prems(2) by (auto simp: left_def unat_eq_0 [symmetric])
    have n: "n = PC_OPENER_ETHERNET_BUFFER_SIZE" using False less.prems(3) by simp
    have n': "0 < n'" "n' \<le> unat left" "n' = PC_OPENER_ETHERNET_BUFFER_SIZE \<or> n' = unat left"
      using l n by (auto simp: n'_def word_less_nat_alt PC_OPENER_ETHERNET_BUFFER_SIZE_def)
    have "drop_packet socket n data_size st = drop_packet socket n' left st'"
      using l by (subst drop_step [OF nonempty less.prems(1)]) (simp add: Let_def k left_def n'_def st'_def word_gt_0)
    also have "\<dots> = (DropDone, set_pending_octets socket (drop (unat left) (pending socket st')) st')"
      using less.prems l n' by (intro less.hyps) (auto simp: st'_def)
    also have "\<dots> = (DropDone, set_pending_octets socket (drop (unat data_size) (pending socket st)) st)"
      using l less.prems(2) by (simp add: st'_def)
    finally show ?thesis .
  qed
qed

text \<open>With more octets left to drop than the stream holds, the stream is emptied.\<close>

lemma drop_packet_blocked:
  assumes "0 < n" "length (pending socket st) + PC_OPENER_ETHERNET_BUFFER_SIZE \<le> unat data_size"
    and "ts_end (os_streams (io st) socket) = PeerOpen"
  shows "drop_packet socket n data_size st = (DropBlocked, set_pending_octets socket [] st)"
  using assms
proof (induction "length (pending socket st)" arbitrary: data_size st rule: less_induct)
  case less
  show ?case
  proof (cases "pending socket st = []")
    case True
    then have "set_pending_octets socket [] st = st" by (simp add: set_pending_octets_def upd_io_def fun_upd_idem)
    then show ?thesis using True less.prems(3) by (subst drop_packet.simps) (simp add: recv_blocks)
  next
    case False
    define k where "k = min n (length (pending socket st))"
    define left where "left = data_size - of_nat k"
    define st' where "st' = set_pending_octets socket (drop n (pending socket st)) st"
    have "unat left = unat data_size - k"
      using less.prems(2) unat_minus_of_nat [of k data_size] by (simp add: left_def k_def)
    then have l: "length (pending socket st') + PC_OPENER_ETHERNET_BUFFER_SIZE \<le> unat left"
      using less.prems(2) by (simp add: st'_def k_def)
    then have big: "\<not> left < of_nat PC_OPENER_ETHERNET_BUFFER_SIZE" "0 < left"
      by (auto simp: word_less_nat_alt PC_OPENER_ETHERNET_BUFFER_SIZE_def)
    have "drop_packet socket n data_size st = drop_packet socket n left st'"
      using big by (subst drop_step [OF False less.prems(1)]) (simp add: Let_def k_def [symmetric] left_def [symmetric] st'_def)
    also have "\<dots> = (DropBlocked, set_pending_octets socket [] st')"
      using less.prems l False by (intro less.hyps) (auto simp: st'_def)
    finally show ?thesis by (simp add: st'_def)
  qed
qed

lemma large_packet_read:
  fixes n :: "16 word"
  defines "sz \<equiv> (ucast n :: size_t) + of_nat ENCAPSULATION_HEADER_LENGTH - 4"
  assumes pending: "pending socket (dev_stack dev) = cmd @ le_octets 2 n @ tail" and len: "length cmd = 2"
    and large: "PC_OPENER_ETHERNET_BUFFER_SIZE < unat n + 24"
  shows "HandleDataOnTcpSocket env k socket dev = map_option (\<lambda>(status, st). (status, dev\<lparr>dev_stack := st\<rparr>))
      (drop_large_packet socket (SocketTimerArrayGetSocketTimer (g_timestamps (dev_stack dev)) socket) sz
        (set_pending_octets socket tail (dev_stack dev)))"
    and "unat sz = unat n + 20"
proof -
  have s: "sz = of_nat (unat n + 20)" by (simp add: sz_def ENCAPSULATION_HEADER_LENGTH_def unsigned_ucast_eq)
  have "unat n < 2 ^ 16" using unsigned_less [of n, where ?'a = nat] by simp
  then show u: "unat sz = unat n + 20" unfolding s by (simp add: unsigned_of_nat take_bit_nat_eq_self del: of_nat_add)
  have c: "of_nat PC_OPENER_ETHERNET_BUFFER_SIZE - 4 < sz"
    using u large by (simp add: word_less_nat_alt PC_OPENER_ETHERNET_BUFFER_SIZE_def)
  have t: "take 4 (cmd @ le_octets 2 n @ tail) = cmd @ le_octets 2 n" "drop 4 (cmd @ le_octets 2 n @ tail) = tail" using len by simp_all
  have r: "recv socket 4 (dev_stack dev) = (Received (cmd @ le_octets 2 n), set_pending_octets socket tail (dev_stack dev))"
    using recv_pending [where socket = socket and st = "dev_stack dev" and n = 4] pending t len by (cases cmd) auto
  have g: "GetUintFromMessage (drop 2 (receive_buffer 0 (cmd @ le_octets 2 n) zero_buffer)) = Some (n, drop 4 zero_buffer)"
    using len uint.dec_enc [of n] by (simp add: receive_buffer_def splice_at_def)
  have "cmd \<noteq> []" using len by auto
  then show "HandleDataOnTcpSocket env k socket dev = map_option (\<lambda>(status, st). (status, dev\<lparr>dev_stack := st\<rparr>))
      (drop_large_packet socket (SocketTimerArrayGetSocketTimer (g_timestamps (dev_stack dev)) socket) sz
        (set_pending_octets socket tail (dev_stack dev)))"
    using c by (simp add: HandleDataOnTcpSocket_def r receive_tcp_packet_def g Let_def sz_def [symmetric])
qed

lemma unat_negative:
  fixes w :: size_t
  assumes "unat w < n" "n \<le> PC_OPENER_ETHERNET_BUFFER_SIZE"
  shows "2 ^ 64 - PC_OPENER_ETHERNET_BUFFER_SIZE \<le> unat (w - of_nat n)"
proof (rule ccontr)
  assume neg: "\<not> 2 ^ 64 - PC_OPENER_ETHERNET_BUFFER_SIZE \<le> unat (w - of_nat n)"
  have n: "unat (of_nat n :: size_t) = n" using assms(2) by (simp add: unsigned_of_nat take_bit_nat_eq_self PC_OPENER_ETHERNET_BUFFER_SIZE_def)
  have "unat ((w - of_nat n) + of_nat n) = unat (w - of_nat n) + n"
    using neg n assms(2) by (subst unat_add_lem [THEN iffD1]) (auto simp: PC_OPENER_ETHERNET_BUFFER_SIZE_def)
  then show False using assms(1) by simp
qed

lemma drop_packet_underflow:
  assumes "unat data_size < PC_OPENER_ETHERNET_BUFFER_SIZE" "unat data_size < length (pending socket st)"
    and "length (pending socket st) < 2 ^ 63" "ts_end (os_streams (io st) socket) = PeerOpen"
  shows "drop_packet socket PC_OPENER_ETHERNET_BUFFER_SIZE data_size st = (DropBlocked, set_pending_octets socket [] st)"
proof -
  define k where "k = min PC_OPENER_ETHERNET_BUFFER_SIZE (length (pending socket st))"
  define left where "left = data_size - of_nat k"
  define st' where "st' = set_pending_octets socket (drop PC_OPENER_ETHERNET_BUFFER_SIZE (pending socket st)) st"
  have l: "2 ^ 64 - PC_OPENER_ETHERNET_BUFFER_SIZE \<le> unat left"
    unfolding left_def using assms(1,2) by (intro unat_negative) (simp_all add: k_def PC_OPENER_ETHERNET_BUFFER_SIZE_def)
  then have big: "\<not> left < of_nat PC_OPENER_ETHERNET_BUFFER_SIZE" "0 < left"
    by (auto simp: word_less_nat_alt PC_OPENER_ETHERNET_BUFFER_SIZE_def)
  have pos: "0 < PC_OPENER_ETHERNET_BUFFER_SIZE" "pending socket st \<noteq> []" using assms(2) by (auto simp: PC_OPENER_ETHERNET_BUFFER_SIZE_def)
  have "drop_packet socket PC_OPENER_ETHERNET_BUFFER_SIZE data_size st = drop_packet socket PC_OPENER_ETHERNET_BUFFER_SIZE left st'"
    using big by (subst drop_step [OF pos(2,1)]) (simp add: Let_def k_def [symmetric] left_def [symmetric] st'_def)
  also have "\<dots> = (DropBlocked, set_pending_octets socket [] st')"
    using l assms(3,4) pos by (intro drop_packet_blocked) (auto simp: st'_def PC_OPENER_ETHERNET_BUFFER_SIZE_def)
  finally show ?thesis by (simp add: st'_def)
qed

text \<open>
  C13: Packets longer than the buffer. One whose octets behind the first four fill the buffer is dropped exactly:
  nothing is handled or sent, and what follows it stays in the stream. But a packet that exceeds the buffer by
  one to three octets takes everything behind it along: the number of octets to drop runs below zero, and as an unsigned number it is huge. The connection stays open, and a call of \<^verbatim>\<open>recv\<close> when no octets are waiting returns
  at once, as on a socket in non-blocking mode.
\<close>
theorem large_packet_dropped:
  fixes n :: "16 word"
  assumes pending: "pending socket (dev_stack dev) = cmd @ le_octets 2 n @ body @ rest"
    and len: "length cmd = 2" "length body = unat n + 20" and large: "PC_OPENER_ETHERNET_BUFFER_SIZE < unat n + 24"
    and open_end: "ts_end (os_streams (io (dev_stack dev)) socket) = PeerOpen" "length rest < 2 ^ 62"
  defines "timer \<equiv> SocketTimerArrayGetSocketTimer (g_timestamps (dev_stack dev)) socket"
  shows "HandleDataOnTcpSocket env k socket dev = Some (kEipStatusOk, dev\<lparr>dev_stack :=
     (if PC_OPENER_ETHERNET_BUFFER_SIZE \<le> length body \<or> rest = []
      then set_last_update timer (set_pending_octets socket rest (dev_stack dev))
      else set_pending_octets socket [] (dev_stack dev))\<rparr>)"
proof -
  define data_size where "data_size = (ucast n :: size_t) + of_nat ENCAPSULATION_HEADER_LENGTH - 4"
  define st1 where "st1 = set_pending_octets socket (body @ rest) (dev_stack dev)"
  note read = large_packet_read [OF pending len(1) large, folded data_size_def timer_def st1_def]
  have u: "unat data_size = length body" using read(2) len(2) by simp
  have p: "pending socket st1 = body @ rest" "ts_end (os_streams (io st1) socket) = PeerOpen"
    using open_end(1) by (simp_all add: st1_def)
  have "unat n < 2 ^ 16" using unsigned_less [of n, where ?'a = nat] by simp
  show ?thesis
  proof (cases "PC_OPENER_ETHERNET_BUFFER_SIZE \<le> length body \<or> rest = []")
    case True
    have "drop_packet socket PC_OPENER_ETHERNET_BUFFER_SIZE data_size st1 = (DropDone, set_pending_octets socket rest st1)"
    proof (cases "PC_OPENER_ETHERNET_BUFFER_SIZE \<le> length body")
      case True
      then show ?thesis
        using drop_packet_exact [of PC_OPENER_ETHERNET_BUFFER_SIZE data_size st1 socket] u p by (simp add: PC_OPENER_ETHERNET_BUFFER_SIZE_def)
    next
      case False
      then have "rest = []" "min PC_OPENER_ETHERNET_BUFFER_SIZE (length body) = length body" "body \<noteq> []"
        using True len(2) by auto
      moreover have "data_size - of_nat (length body) = 0" by (simp add: u [symmetric])
      moreover have "drop PC_OPENER_ETHERNET_BUFFER_SIZE body = []"
        using False by (simp add: PC_OPENER_ETHERNET_BUFFER_SIZE_def)
      ultimately show ?thesis
        using p False by (subst drop_step) (simp_all add: Let_def)
    qed
    then show ?thesis using True read(1) by (simp add: drop_large_packet_def st1_def)
  next
    case False
    then have "drop_packet socket PC_OPENER_ETHERNET_BUFFER_SIZE data_size st1 = (DropBlocked, set_pending_octets socket [] st1)"
      using u p open_end(2) \<open>unat n < 2 ^ 16\<close> len(2) by (intro drop_packet_underflow) auto
    then show ?thesis using False read(1) by (simp add: drop_large_packet_def st1_def)
  qed
qed

subsection \<open>A device with a client\<close>

text \<open>A device without objects and connections, with these octets waiting on socket 5.\<close>

definition net_device :: "octet list \<Rightarrow> device" where
  "net_device bs = \<lparr>dev_objects = [],
     dev_request = \<lparr>req_service = 0, request_path = \<lparr>path_size = 0, class_id = 0, instance_number = 0, attribute_number = 0\<rparr>,
        request_data_size = 0, req_data = []\<rparr>,
     dev_stack = \<lparr>st_objects = (\<lambda>_. ConnectionObjectInitializeEmpty),
       st_connection_list = (\<lparr>dll_first = None, dll_last = None\<rparr>, []),
       st_cpf = zero_cpf, g_registered_sessions = replicate 20 kEipInvalidSocket, g_timestamps = replicate 20 cleared_timer,
       g_actual_time = 0, master_socket = {3, 4, 5}, g_delayed_encapsulation_messages = [], st_effects = [],
       g_identity = example_identity, g_tcpip = initial_tcpip, g_network_status = \<lparr>ns_ip_address = 0, ns_network_mask = 0\<rparr>,
       st_app = \<lparr>g_connection_management_list = [], g_incarnation_id = 0, cm_connection_id = 0, g_config_data_length = 0,
         g_config_data_buffer = None, cm_rest = \<lparr>g_exlusive_owner_connections = [], g_input_only_connections = [],
           g_listen_only_connections = [], g_run_idle_state = 1, s_consume_run_idle = True, s_produce_run_idle = False,
           udp_io_messaging = -1, highest_socket_handle = 5, s_active_dscp = default_dscp, g_current_active_tcp_socket = -1,
           os_sockets = [3, 4, 6], os_rand = [], io_memory = (\<lambda>_. V8 0), read_socket = {}, tcp_listener = 3, udp_unicast_listener = 4,
           udp_global_broadcast_listener = 6, ns_elapsed_time = 0, g_last_time = 0, timeout_checker_array = [None, None],
           os_streams = (\<lambda>_. \<lparr>ts_pending = bs, ts_end = PeerOpen\<rparr>), os_datagrams = (\<lambda>_. []), os_accept = []\<rparr>\<rparr>\<rparr>\<rparr>"

lemma net_device_simps [simp]:
  "pending socket (dev_stack (net_device bs)) = bs" "ts_end (os_streams (io (dev_stack (net_device bs))) socket) = PeerOpen"
  "dev_objects (net_device bs) = []" "st_effects (dev_stack (net_device bs)) = []"
  by (simp_all add: net_device_def)

lemma sent_octets_content: "wf_msg m \<Longrightarrow> sent_octets m = msg_content m"
  by (auto simp: sent_octets_def msg_content_def wf_msg_def PC_OPENER_ETHERNET_BUFFER_SIZE_def unsigned_of_nat take_bit_nat_eq_self)

lemma tcp_packet_answered_witness:
  "\<exists>dev'. HandleDataOnTcpSocket example_env 3 5 (net_device (header_octets 4 0 0 0 (replicate 8 0) @ [1])) = Some (kEipStatusOk, dev')
     \<and> st_effects (dev_stack dev') = [SentStream 5 (header_octets 4 26 0 0 (replicate 8 0) @ services_body)]
     \<and> pending 5 (dev_stack dev') = [1]"
proof -
  let ?dev = "net_device (header_octets 4 0 0 0 (replicate 8 0) @ [1])"
  define body where "body = drop 4 (header_octets 4 0 0 0 (replicate 8 0))"
  define st0 where "st0 = upd_io (\<lambda>i. i\<lparr>g_current_active_tcp_socket := 5\<rparr>) (set_pending_octets 5 [1] (dev_stack ?dev))"
  have h: "header_octets 4 0 0 0 (replicate 8 0) = le_octets 2 (4 :: 16 word) @ le_octets 2 (0 :: 16 word) @ body"
    by (simp add: body_def header_octets_def)
  have lb: "length body = 20" by (simp add: body_def header_octets_def)
  have c: "length (replicate 8 (0 :: octet)) = kSenderContextSize" by (simp add: kSenderContextSize_def)
  define d where "d = \<lparr>command_code = 4, ed_data_length = 0, ed_session_handle = 0, ed_status = 0,
       sender_context = replicate 8 0, ed_options = 0, communication_buffer_start = header_octets 4 0 0 0 (replicate 8 0) @ replicate 488 0,
       current_communication_buffer_position = replicate 488 0\<rparr>"
  have d: "command_code d = 4" "ed_options d = 0" "d\<lparr>ed_status := 0\<rparr> = d" by (simp_all add: d_def)
  let ?reply = "header_octets 4 26 0 0 (replicate 8 0) @ services_body"
  have frame: "frame_octets d 0 kEncapsulationProtocolSuccess services_body = ?reply"
    by (simp add: frame_octets_def d_def services_body_def)
  obtain m where "emit ?reply (InitializeENIPMessage local_message) = Some m" "wf_msg m" "msg_content m = ?reply"
    using emit_wf_fits [of "InitializeENIPMessage local_message" ?reply]
    by (auto simp: PC_OPENER_ETHERNET_BUFFER_SIZE_def services_body_def)
  then have m: "HandleReceivedListServicesCommand d (InitializeENIPMessage local_message) = Some m" "sent_octets m = ?reply"
    using list_services_emit [of d] c frame by (simp_all add: d_def sent_octets_content)
  have handled: "HandleReceivedExplictTcpData (call_function example_env 3) (os_endianess example_env)
      (call_service example_env (call_function example_env 3) (dev_objects ?dev)) 5
      ((le_octets 2 (4 :: 16 word) @ le_octets 2 (0 :: 16 word) @ body) @ replicate (PC_OPENER_ETHERNET_BUFFER_SIZE
         - length (le_octets 2 (4 :: 16 word) @ le_octets 2 (0 :: 16 word) @ body)) 0)
      (of_nat (length (le_octets 2 (4 :: 16 word) @ le_octets 2 (0 :: 16 word) @ body)))
      (case os_getpeername example_env 5 of None \<Rightarrow> zero_address | Some p \<Rightarrow> p) (dev_objects ?dev) (dev_request ?dev) st0
      (InitializeENIPMessage local_message) = Some (0, kEipStatusOkSend, [], dev_request ?dev, st0, m)"
    unfolding h [symmetric] HandleReceivedExplictTcpData_def
    by (subst CreateEncapsulationStructure_header [OF c])
      (simp_all add: PC_OPENER_ETHERNET_BUFFER_SIZE_def tcp_command_def Let_def d_def [symmetric] d m(1))
  show ?thesis
    using tcp_packet_answered [where dev = ?dev and socket = 5 and cmd = "le_octets 2 (4 :: 16 word)" and n = 0 and body = body
        and rest = "[1]" and env = example_env and k = 3 and st = st0 and m = m, folded st0_def, OF _ _ _ _ handled] lb h m(2)
    by (auto simp: PC_OPENER_ETHERNET_BUFFER_SIZE_def st0_def upd_io_def set_pending_octets_def net_device_def)
qed

lemma large_packet_dropped_witness:
  "\<exists>dev'. HandleDataOnTcpSocket example_env 3 5 (net_device ([4, 0] @ le_octets 2 (490 :: 16 word) @ replicate 510 0 @ [1, 2, 3])) =
       Some (kEipStatusOk, dev') \<and> pending 5 (dev_stack dev') = []"
  using large_packet_dropped [where dev = "net_device ([4, 0] @ le_octets 2 (490 :: 16 word) @ replicate 510 0 @ [1, 2, 3])"
      and socket = 5 and cmd = "[4, 0]" and n = 490 and body = "replicate 510 0" and rest = "[1, 2, 3]" and env = example_env and k = 3]
  by (simp add: PC_OPENER_ETHERNET_BUFFER_SIZE_def)

end
