(* ===== verification/NetworkInvariant.thy ===== *)
theory NetworkInvariant
  imports TcpFraming
begin

text \<open>
  The tables of sessions and socket timers stay consistent whatever the network handler does: an
  invariant of all states the device reaches while datagrams, octets and clients arrive.
\<close>

subsection \<open>Managing connections\<close>

text \<open>What the tick of the connection manager relies on: functions of connections leave the tables consistent.\<close>

locale connection_functions = close_functions close for close :: "('fn, 'app) close_call" +
  fixes send :: "'fn \<Rightarrow> nat \<Rightarrow> ('fn, 'app) stack_state \<Rightarrow> (EipStatus \<times> ('fn, 'app) stack_state) option"
  assumes send_wf: "send f a st = Some (status, st') \<Longrightarrow> sessions_wf st \<Longrightarrow> sessions_wf st'"
begin

lemma check_watchdog_wf: "check_watchdog close t a st = Some st' \<Longrightarrow> sessions_wf st \<Longrightarrow> sessions_wf st'"
  by (auto simp: check_watchdog_def Let_def split: if_splits dest: close_wf)

lemma produce_data_wf: "produce_data send t a st = Some st' \<Longrightarrow> sessions_wf st \<Longrightarrow> sessions_wf st'"
  by (auto simp: produce_data_def Let_def split: if_splits dest: send_wf)

lemma manage_connection_wf: "manage_connection close send t a st = Some st' \<Longrightarrow> sessions_wf st \<Longrightarrow> sessions_wf st'"
  by (auto simp: manage_connection_def split: if_splits dest: check_watchdog_wf produce_data_wf)

lemma manage_loop_wf:
  "manage_loop c s t node st = Some st' \<Longrightarrow> c = close \<Longrightarrow> s = send \<Longrightarrow> sessions_wf st \<Longrightarrow> sessions_wf st'"
proof (induction rule: manage_loop.raw_induct [rotated 1, consumes 1])
  case (1 loop c s t node st st')
  show ?case
  proof (cases node)
    case (Some n)
    then obtain a st1 where st1: "manage_connection c s t a st = Some st1"
      and rest: "loop c s t (node_next (snd (st_connection_list st1) ! n)) st1 = Some st'"
      using 1(2) by auto
    have "sessions_wf st1" using st1 1(3-5) manage_connection_wf by simp
    then show ?thesis using 1(1) [OF rest 1(3,4)] by simp
  qed (use 1(2,5) in simp)
qed

end

subsection \<open>Functions that leave the tables\<close>

lemma effect_frame [simp]:
  "sessions_wf (log_effect e st) \<longleftrightarrow> sessions_wf st" "sessions_wf (st\<lparr>g_identity := i\<rparr>) \<longleftrightarrow> sessions_wf st"
  "sessions_wf (st\<lparr>g_actual_time := t\<rparr>) \<longleftrightarrow> sessions_wf st"
  "sessions_wf (st\<lparr>g_delayed_encapsulation_messages := ms\<rparr>) \<longleftrightarrow> sessions_wf st"
  by (simp_all add: sessions_wf_def log_effect_def)

lemma ManageEncapsulationMessages_frame [simp]: "sessions_wf (ManageEncapsulationMessages t st) \<longleftrightarrow> sessions_wf st"
proof -
  have "sessions_wf (manage_delayed t i st) \<longleftrightarrow> sessions_wf st" for i and st :: "('a, 'b) stack_state"
    by (simp add: manage_delayed_def Let_def)
  then have "sessions_wf (fold (manage_delayed t) is st) \<longleftrightarrow> sessions_wf st" for "is"
    by (induction "is" arbitrary: st) simp_all
  then show ?thesis by (simp add: ManageEncapsulationMessages_def)
qed

lemma SendUdpData_frame: "SendUdpData env address m st = (status, st') \<Longrightarrow> sessions_wf st' \<longleftrightarrow> sessions_wf st"
  by (auto simp: SendUdpData_def Let_def)

lemma SendConnectedData_frame:
  "SendConnectedData env objects a st = Some (status, st') \<Longrightarrow> sessions_wf st' \<longleftrightarrow> sessions_wf st"
  by (auto simp: SendConnectedData_def Let_def case_prod_beta dest!: SendUdpData_frame)

interpretation stack_functions: connection_functions "call_function env k" "send_function env objects" for env k objects
  by unfold_locales (auto simp: send_function_def SendConnectedData_frame split: if_splits)

lemma receive_steps_frame:
  "check_sequence_count a data n st = Some (b, data', n', st') \<Longrightarrow> sessions_wf st' \<longleftrightarrow> sessions_wf st"
  "receive_run_idle env data n st = Some (data', n', st') \<Longrightarrow> sessions_wf st' \<longleftrightarrow> sessions_wf st"
  by (auto simp: check_sequence_count_def receive_run_idle_def Let_def split: if_splits)

lemma HandleReceivedIoConnectionData_frame:
  assumes "HandleReceivedIoConnectionData env objects a data n st = Some (status, st')"
  shows "sessions_wf st' \<longleftrightarrow> sessions_wf st"
proof -
  obtain b data1 n1 st1 where 1: "check_sequence_count a data n st = Some (b, data1, n1, st1)"
    using assms by (auto simp: HandleReceivedIoConnectionData_def)
  note f1 = receive_steps_frame(1) [OF 1]
  show ?thesis
  proof (cases "n1 > 0")
    case True
    obtain data2 n2 st2 where 2: "receive_run_idle env data1 n1 st1 = Some (data2, n2, st2)"
      using assms 1 True by (auto simp: HandleReceivedIoConnectionData_def)
    show ?thesis
      using assms True f1 receive_steps_frame(2) [OF 2]
      by (simp add: HandleReceivedIoConnectionData_def 1 2 split: if_splits bind_splits) auto
  next
    case False
    then show ?thesis using assms f1 by (simp add: HandleReceivedIoConnectionData_def 1)
  qed
qed

lemma receive_frame:
  "receive_function env objects f a data n st = Some (status, st') \<Longrightarrow> sessions_wf st' \<longleftrightarrow> sessions_wf st"
  by (auto simp: receive_function_def HandleReceivedIoConnectionData_frame split: if_splits)

lemma receive_connected_data_frame:
  "receive_connected_data (receive_function env objects) a st = Some (status, st') \<Longrightarrow> sessions_wf st' \<longleftrightarrow> sessions_wf st"
  by (auto simp: receive_connected_data_def Let_def split: if_splits option.splits dest!: receive_frame)

lemma HandleReceivedConnectedData_frame:
  assumes "HandleReceivedConnectedData (receive_function env objects) data n from_address st = Some (status, st')"
  shows "sessions_wf st' \<longleftrightarrow> sessions_wf st"
  using assms
  by (auto simp: HandleReceivedConnectedData_def Let_def split: if_splits option.splits dest!: receive_connected_data_frame)

lemma list_identity_udp_frame:
  "HandleReceivedListIdentityCommandUdp e r socket from_address d st = Some st' \<Longrightarrow> sessions_wf st' \<longleftrightarrow> sessions_wf st"
  by (auto simp: HandleReceivedListIdentityCommandUdp_def Let_def split: option.splits if_splits)

lemma udp_data_frame:
  "HandleReceivedExplictUdpData e r socket from_address buffer n unicast st m = Some (k, status, st', m')
     \<Longrightarrow> sessions_wf st' \<longleftrightarrow> sessions_wf st"
  by (auto simp: HandleReceivedExplictUdpData_def Let_def list_identity_udp_frame split: if_splits)

lemma receiving_frame:
  "recv socket n st = (r, st') \<Longrightarrow> sessions_wf st' \<longleftrightarrow> sessions_wf st"
  "recvfrom socket st = (r, from_address, st') \<Longrightarrow> sessions_wf st' \<longleftrightarrow> sessions_wf st"
  "CheckSocketSet socket st = (b, st') \<Longrightarrow> sessions_wf st' \<longleftrightarrow> sessions_wf st"
  by (auto simp: recv_def recvfrom_def CheckSocketSet_def Let_def split: if_splits list.splits option.splits)

lemma tcp_listener_frame: "CheckAndHandleTcpListenerSocket st = Some st' \<Longrightarrow> sessions_wf st' \<longleftrightarrow> sessions_wf st"
  by (auto simp: CheckAndHandleTcpListenerSocket_def Let_def split: prod.splits if_splits dest!: receiving_frame)

lemma handle_udp_request_frame:
  "handle_udp_request env r listener unicast st = Some st' \<Longrightarrow> sessions_wf st' \<longleftrightarrow> sessions_wf st"
  by (auto simp: handle_udp_request_def Let_def split: prod.splits if_splits received.splits dest!: receiving_frame udp_data_frame)

lemma consume_from_socket_wf:
  assumes "consume_from_socket env objects (call_function env k) a st = Some (b, st')" "sessions_wf st"
  shows "sessions_wf st'"
  using assms
  by (auto simp: consume_from_socket_def Let_def split: prod.splits if_splits received.splits
      dest!: receiving_frame HandleReceivedConnectedData_frame stack.close_wf)

lemma consume_loop_wf:
  "consume_loop env objects c node st = Some st' \<Longrightarrow> c = call_function env k \<Longrightarrow> sessions_wf st \<Longrightarrow> sessions_wf st'"
proof (induction rule: consume_loop.raw_induct [rotated 1, consumes 1])
  case (1 loop env objects c node st st')
  show ?case
  proof (cases node)
    case (Some n)
    define nx where "nx = node_next (snd (st_connection_list st) ! n)"
    from Some 1(2) obtain a where a: "node_data (snd (st_connection_list st) ! n) = Some a" by auto
    obtain ready st1 where st1: "CheckSocketSet (socket_consuming (st_objects st a)) st = (ready, st1)" by force
    then have wf1: "sessions_wf st1" using receiving_frame(3) 1(4) by blast
    consider "loop env objects c nx st = Some st'" | "loop env objects c nx st1 = Some st'"
      | b st2 where "consume_from_socket env objects c a st1 = Some (b, st2)"
          "(if b then loop env objects c nx st2 else Some st2) = Some st'"
      using 1(2) Some a st1 by (auto simp: nx_def Let_def split: if_splits)
    then show ?thesis
    proof cases
      case 3
      from consume_from_socket_wf [OF 3(1) [unfolded 1(3)] wf1] have "sessions_wf st2" .
      then show ?thesis using 3(2) 1(1) [OF _ 1(3)] by (auto split: if_splits)
    qed (use 1(1) [OF _ 1(3)] 1(4) wf1 in auto)
  qed (use 1(2,4) in simp)
qed


subsection \<open>TCP sockets\<close>

lemma recv_frame: "sessions_wf (snd (recv socket n st)) \<longleftrightarrow> sessions_wf st"
  by (simp add: recv_def Let_def)

lemma drop_packet_frame: "sessions_wf (snd (drop_packet socket n data_size st)) \<longleftrightarrow> sessions_wf st"
proof (induction socket n data_size st rule: drop_packet.induct)
  case (1 socket n data_size st)
  obtain r st1 where r: "recv socket n st = (r, st1)" by force
  then have f: "sessions_wf st1 \<longleftrightarrow> sessions_wf st" using recv_frame [of socket n st] by simp
  show ?case
    using 1 r f by (subst drop_packet.simps) (simp add: Let_def split: received.splits)
qed

lemma set_last_update_frame [simp]: "sessions_wf (set_last_update timer st) \<longleftrightarrow> sessions_wf st"
proof -
  have "timer_socket (ts[a := (ts ! a)\<lparr>last_update := t\<rparr>] ! i) = timer_socket (ts ! i)" if "i < length ts" for a i t ts
    using that by (cases "a = i") simp_all
  then have "map timer_socket (SocketTimerSetLastUpdate timer t ts) = map timer_socket ts" for t ts
    by (cases timer) (auto simp: SocketTimerSetLastUpdate_def intro!: nth_equalityI)
  moreover have "length (SocketTimerSetLastUpdate timer t ts) = length ts" for t ts
    by (cases timer) (simp_all add: SocketTimerSetLastUpdate_def)
  ultimately show ?thesis by (simp add: sessions_wf_def set_last_update_def)
qed

lemma remove_timer_without:
  "remove_timer socket st = Some st' \<Longrightarrow> socket \<noteq> kEipInvalidSocket \<Longrightarrow> without_timers socket st st'"
  by (auto simp: remove_timer_def remove_timer_valid without_timers_def)

text \<open>
  After an error the socket is about to be closed. Its session may then be without a timer already.
\<close>

definition closing :: "int \<Rightarrow> ('fn, 'app) stack_state \<Rightarrow> bool" where
  "closing socket st \<longleftrightarrow> sessions_wf st \<or> (\<exists>st0. sessions_wf st0 \<and> without_timers socket st0 st)"

lemma tcp_closed_wf:
  assumes "tcp_closed (call_function env k) socket st = Some st'" "socket \<noteq> kEipInvalidSocket" "sessions_wf st"
  shows "sessions_wf st'"
  using assms remove_timer_without stack.RemoveSession_wf by (fastforce simp: tcp_closed_def)

lemma drop_large_packet_wf:
  assumes "drop_large_packet socket timer n st = Some (status, st')" "socket \<noteq> kEipInvalidSocket" "sessions_wf st"
  shows "sessions_wf st' \<or> status = kEipStatusError \<and> closing socket st'"
proof -
  obtain r st1 where r: "drop_packet socket PC_OPENER_ETHERNET_BUFFER_SIZE n st = (r, st1)" by force
  then have "sessions_wf st1" using drop_packet_frame [of socket PC_OPENER_ETHERNET_BUFFER_SIZE n st] assms(3) by simp
  then show ?thesis
    using assms(1,2) r by (cases r) (auto simp: drop_large_packet_def closing_def dest: remove_timer_without)
qed

lemma handle_tcp_packet_wf:
  assumes "handle_tcp_packet env k socket timer buffer n dev = Some dev'" "socket \<noteq> kEipInvalidSocket"
    and "sessions_wf (dev_stack dev)"
  shows "sessions_wf (dev_stack dev')"
proof -
  define st0 where "st0 = upd_io (\<lambda>i. i\<lparr>g_current_active_tcp_socket := socket\<rparr>) (dev_stack dev)"
  have "sessions_wf st0" using assms(3) by (simp add: st0_def)
  note wf = stack_tcp.tcp_data_wf [OF this assms(2)]
  show ?thesis
    using assms(1) by (auto simp: handle_tcp_packet_def Let_def st0_def [symmetric] split: if_splits dest!: wf)
qed

lemma receive_tcp_packet_wf:
  assumes "receive_tcp_packet env k socket timer buffer dev = Some (status, dev')" "socket \<noteq> kEipInvalidSocket"
    and "sessions_wf (dev_stack dev)"
  shows "sessions_wf (dev_stack dev') \<or> status = kEipStatusError \<and> closing socket (dev_stack dev')"
proof -
  obtain n rest where n: "GetUintFromMessage (drop 2 buffer) = Some (n, rest)"
    using assms(1) by (auto simp: receive_tcp_packet_def)
  define data_size where "data_size = (ucast n :: size_t) + of_nat ENCAPSULATION_HEADER_LENGTH - 4"
  obtain r st1 where r: "recv socket (unat data_size) (dev_stack dev) = (r, st1)" by force
  then have wf1: "sessions_wf st1" using recv_frame [of socket "unat data_size" "dev_stack dev"] assms(3) by simp
  show ?thesis
    using assms(1) tcp_closed_wf [OF _ assms(2) wf1] wf1
      handle_tcp_packet_wf [OF _ assms(2), where dev = "dev\<lparr>dev_stack := st1\<rparr>"]
    by (auto simp: receive_tcp_packet_def n Let_def data_size_def [symmetric] r split: if_splits received.splits
        dest!: drop_large_packet_wf [OF _ assms(2,3)])
qed

lemma HandleDataOnTcpSocket_wf:
  assumes "HandleDataOnTcpSocket env k socket dev = Some (status, dev')" "socket \<noteq> kEipInvalidSocket"
    and "sessions_wf (dev_stack dev)"
  shows "sessions_wf (dev_stack dev') \<or> status = kEipStatusError \<and> closing socket (dev_stack dev')"
proof -
  obtain r st1 where r: "recv socket 4 (dev_stack dev) = (r, st1)" by force
  then have wf1: "sessions_wf st1" using recv_frame [of socket 4 "dev_stack dev"] assms(3) by simp
  show ?thesis
    using assms(1) wf1 tcp_closed_wf [OF _ assms(2) wf1]
      receive_tcp_packet_wf [OF _ assms(2), where dev = "dev\<lparr>dev_stack := st1\<rparr>"]
    by (auto simp: HandleDataOnTcpSocket_def r split: if_splits received.splits)
qed

lemma close_closing_wf:
  assumes "closing socket st" "socket \<noteq> kEipInvalidSocket"
    and "CloseTcpSocket socket st = Some st1" "RemoveSession (call_function env k) socket st1 = Some st'"
  shows "sessions_wf st'"
  using assms(1) unfolding closing_def
proof (elim disjE exE conjE)
  assume "sessions_wf st"
  from stack.close_and_remove_wf [OF this assms(2-4)] show ?thesis .
next
  fix st0 assume 0: "sessions_wf st0" "without_timers socket st0 st"
  have "clear_socket socket (clear_socket socket ts) = clear_socket socket ts" for ts
    by (simp add: clear_socket_def)
  then have "without_timers socket st0 st1"
    using 0(2) CloseTcpSocket_tables [OF assms(3)] by (simp add: without_timers_def)
  from stack.RemoveSession_wf [OF 0(1) this assms(2,4)] show ?thesis .
qed

lemma check_tcp_socket_wf:
  assumes "check_tcp_socket env k socket dev = Some dev'" "socket \<noteq> kEipInvalidSocket" "sessions_wf (dev_stack dev)"
  shows "sessions_wf (dev_stack dev')"
proof -
  obtain ready st1 where 1: "CheckSocketSet socket (dev_stack dev) = (ready, st1)" by force
  have wf1: "sessions_wf (dev_stack (dev\<lparr>dev_stack := st1\<rparr>))" using receiving_frame(3) [OF 1] assms(3) by simp
  show ?thesis
  proof (cases ready)
    case True
    obtain status dev2 where 2: "HandleDataOnTcpSocket env k socket (dev\<lparr>dev_stack := st1\<rparr>) = Some (status, dev2)"
      and 3: "(if status = kEipStatusError then on_stack (\<lambda>st. do {
               st \<leftarrow> CloseTcpSocket socket st;
               RemoveSession (call_function env k) socket st }) dev2 else Some dev2) = Some dev'"
      using assms(1) True by (auto simp: check_tcp_socket_def 1)
    have c: "closing socket (dev_stack dev2)" "status \<noteq> kEipStatusError \<Longrightarrow> sessions_wf (dev_stack dev2)"
      using HandleDataOnTcpSocket_wf [OF 2 assms(2) wf1] by (auto simp: closing_def)
    then show ?thesis
      using 3 close_closing_wf [OF c(1) assms(2)] by (auto simp: on_stack_def split: if_splits bind_splits)
  qed (use assms(1) wf1 in \<open>simp add: check_tcp_socket_def 1\<close>)
qed


subsection \<open>The main loop\<close>

lemma tcp_sockets_loop_wf:
  "tcp_sockets_loop env k socket dev = Some dev' \<Longrightarrow> 0 \<le> socket \<Longrightarrow> sessions_wf (dev_stack dev) \<Longrightarrow> sessions_wf (dev_stack dev')"
proof (induction rule: tcp_sockets_loop.raw_induct [rotated 1, consumes 1])
  case (1 loop env k socket dev dev')
  show ?case
  proof (cases "socket \<le> highest_socket_handle (io (dev_stack dev))")
    case True
    then obtain dev1 where 2: "check_tcp_socket env k socket dev = Some dev1" "loop env k (socket + 1) dev1 = Some dev'"
      using 1(2) by auto
    from check_tcp_socket_wf [OF 2(1) _ 1(4)] 1(3) show ?thesis using 1(1) [OF 2(2)] by simp
  qed (use 1(2,4) in simp)
qed

lemma inactivity_loop_wf:
  "inactivity_loop env k socket st = Some st' \<Longrightarrow> 0 \<le> socket \<Longrightarrow> sessions_wf st \<Longrightarrow> sessions_wf st'"
proof (induction rule: inactivity_loop.raw_induct [rotated 1, consumes 1])
  case (1 loop env k socket st st')
  show ?case
  proof (cases "socket \<le> highest_socket_handle (io st)")
    case True
    then obtain st1 where 2: "CheckEncapsulationInactivity (call_function env k) socket st = Some st1"
        "loop env k (socket + 1) st1 = Some st'"
      using 1(2) by auto
    from stack.CheckEncapsulationInactivity_wf [OF 1(4) _ 2(1)] 1(3) show ?thesis using 1(1) [OF 2(2)] by simp
  qed (use 1(2,4) in simp)
qed

lemma run_timeout_checkers_frame [simp]: "sessions_wf (run_timeout_checkers t st) \<longleftrightarrow> sessions_wf st"
proof -
  have "sessions_wf (fold (\<lambda>c. case c of None \<Rightarrow> (\<lambda>st. st) | Some f \<Rightarrow> on_memory (f t)) fs st) \<longleftrightarrow> sessions_wf st" for fs
    by (induction fs arbitrary: st) (simp_all split: option.split)
  then show ?thesis by (simp add: run_timeout_checkers_def)
qed

lemma manage_time_wf:
  assumes "manage_time env k now objects st = Some st'" "sessions_wf st"
  shows "sessions_wf st'"
proof -
  have *: "sessions_wf st2" if "ManageConnections (on_memory f) (call_function env k) (send_function env objects) t st1 = Some st2"
    "sessions_wf st1" for f t st1 st2
    using that by (auto simp: ManageConnections_def Let_def dest!: stack_functions.manage_loop_wf [OF _ refl refl])
  show ?thesis
    using assms by (auto simp: manage_time_def Let_def split: if_splits dest!: *)
qed

lemma handle_ready_sockets_wf:
  assumes h: "handle_ready_sockets env k r dev = Some dev'" and wf: "sessions_wf (dev_stack dev)"
  shows "sessions_wf (dev_stack dev')"
proof -
  obtain st1 st2 st3 st4 where 1: "CheckAndHandleTcpListenerSocket (dev_stack dev) = Some st1"
    and 2: "CheckAndHandleUdpUnicastSocket env r st1 = Some st2" and 3: "CheckAndHandleUdpGlobalBroadcastSocket env r st2 = Some st3"
    and 4: "CheckAndHandleConsumingUdpSocket env (dev_objects dev) (call_function env k) st3 = Some st4"
    and 5: "tcp_sockets_loop env k 0 (dev\<lparr>dev_stack := st4\<rparr>) = Some dev'"
    using h by (auto simp: handle_ready_sockets_def on_stack_def)
  have "sessions_wf st3"
    using tcp_listener_frame [OF 1] handle_udp_request_frame [OF 2 [unfolded CheckAndHandleUdpUnicastSocket_def]]
      handle_udp_request_frame [OF 3 [unfolded CheckAndHandleUdpGlobalBroadcastSocket_def]] wf by simp
  from consume_loop_wf [OF 4 [unfolded CheckAndHandleConsumingUdpSocket_def] refl this] have "sessions_wf st4" .
  then show ?thesis using tcp_sockets_loop_wf [OF 5] by simp
qed

lemma NetworkHandlerProcessCyclic_wf:
  assumes "NetworkHandlerProcessCyclic env k selected r now dev = Some (status, dev')" "sessions_wf (dev_stack dev)"
  shows "sessions_wf (dev_stack dev')"
proof (cases selected)
  case (SelectReady ready)
  define dev0 where "dev0 = dev\<lparr>dev_stack := upd_io (\<lambda>i. i\<lparr>read_socket := ready \<inter> master_socket (dev_stack dev)\<rparr>) (dev_stack dev)\<rparr>"
  have wf0: "sessions_wf (dev_stack dev0)" using assms(2) by (simp add: dev0_def)
  obtain dev1 st2 st3 where
      1: "(if ready \<inter> master_socket (dev_stack dev) \<noteq> {} then handle_ready_sockets env k r dev0 else Some dev0) = Some dev1"
    and 2: "inactivity_loop env k 0 (dev_stack dev1) = Some st2"
    and 3: "manage_time env k now (dev_objects dev1) st2 = Some st3" "dev' = dev1\<lparr>dev_stack := st3\<rparr>"
    using assms(1) SelectReady unfolding dev0_def by (auto simp: NetworkHandlerProcessCyclic_def Let_def on_stack_def)
  have "sessions_wf (dev_stack dev1)"
    using 1 wf0 handle_ready_sockets_wf by (auto split: if_splits)
  from manage_time_wf [OF 3(1) inactivity_loop_wf [OF 2 _ this]] show ?thesis using 3(2) by simp
qed (use assms in \<open>simp_all add: NetworkHandlerProcessCyclic_def\<close>)


subsection \<open>The device in its environment\<close>

text \<open>
  Between two turns of the main loop octets arrive at a TCP socket, a peer closes its end, a datagram
  arrives at a UDP socket, or a client waits for its connection. A turn of the main loop sees those
  sockets that \<^verbatim>\<open>select\<close> reports.
\<close>

definition on_net :: "(net_state \<Rightarrow> net_state) \<Rightarrow> device \<Rightarrow> device" where
  "on_net f dev = dev\<lparr>dev_stack := upd_io f (dev_stack dev)\<rparr>"

inductive device_step :: "io_env \<Rightarrow> nat \<Rightarrow> device \<Rightarrow> device \<Rightarrow> bool" for env k where
  octets_arrive: "device_step env k dev (on_net (\<lambda>i. i\<lparr>os_streams :=
      (os_streams i)(socket := (os_streams i socket)\<lparr>ts_pending := ts_pending (os_streams i socket) @ bs\<rparr>)\<rparr>) dev)"
| peer_ends: "device_step env k dev (on_net (\<lambda>i. i\<lparr>os_streams :=
      (os_streams i)(socket := (os_streams i socket)\<lparr>ts_end := e\<rparr>)\<rparr>) dev)"
| datagram_arrives: "device_step env k dev (on_net (\<lambda>i. i\<lparr>os_datagrams :=
      (os_datagrams i)(socket := os_datagrams i socket @ [d])\<rparr>) dev)"
| client_waits: "device_step env k dev (on_net (\<lambda>i. i\<lparr>os_accept := os_accept i @ [socket]\<rparr>) dev)"
| turn: "NetworkHandlerProcessCyclic env k selected r now dev = Some (status, dev') \<Longrightarrow> device_step env k dev dev'"

inductive device_run :: "io_env \<Rightarrow> nat \<Rightarrow> device \<Rightarrow> device \<Rightarrow> bool" for env k dev where
  start: "device_run env k dev dev"
| step: "device_run env k dev dev1 \<Longrightarrow> device_step env k dev1 dev2 \<Longrightarrow> device_run env k dev dev2"

lemma device_step_wf: "device_step env k dev dev' \<Longrightarrow> sessions_wf (dev_stack dev) \<Longrightarrow> sessions_wf (dev_stack dev')"
  by (cases rule: device_step.cases) (auto simp: on_net_def dest: NetworkHandlerProcessCyclic_wf)

lemma device_run_wf: "device_run env k dev dev' \<Longrightarrow> sessions_wf (dev_stack dev) \<Longrightarrow> sessions_wf (dev_stack dev')"
  by (induction rule: device_run.induct) (auto dest: device_step_wf)


subsection \<open>From the start of the device\<close>

lemma initialize_tables_wf:
  assumes "initialize_tables env q st = Some st'" "length (g_timestamps st) = OPENER_NUMBER_OF_SUPPORTED_SESSIONS"
  shows "sessions_wf st'"
proof -
  have "valid_sockets (map (\<lambda>_. kEipInvalidSocket) xs) = {#}" for xs :: "nat list"
    by (induction xs) (simp_all add: valid_sockets_def)
  moreover have "map timer_socket (replicate n cleared_timer) = map (\<lambda>_. kEipInvalidSocket) [0..<n]" for n
    by (simp add: cleared_timer_def map_replicate_const)
  ultimately show ?thesis
    using assms by (auto simp: initialize_tables_def Let_def sessions_wf_def EncapsulationInit_def upd_io_def)
qed

lemma NetworkHandlerInitialize_tables:
  assumes "NetworkHandlerInitialize env platform succeeds q now st = Some (kEipStatusOk, st')"
  obtains st1 where "initialize_tables env q st = Some st1" "sessions_wf st' \<longleftrightarrow> sessions_wf st1"
  using assms by (auto simp: NetworkHandlerInitialize_def next_socket_def Let_def split: if_splits)

text \<open>
  C5: Whatever arrives from the network after the initialization, over any number of turns of the main loop, the tables of sessions and
  socket timers stay consistent: both have their full length, a valid socket has a timer exactly if it has a session, and
  none has two. Here a turn of the main loop is taken to return.
\<close>
theorem sessions_always_consistent:
  assumes "length (g_timestamps (dev_stack dev)) = OPENER_NUMBER_OF_SUPPORTED_SESSIONS"
    and "NetworkHandlerInitialize env platform succeeds q now (dev_stack dev) = Some (kEipStatusOk, st)"
    and "device_run env k (dev\<lparr>dev_stack := st\<rparr>) dev'"
  shows "sessions_wf (dev_stack dev')"
proof -
  obtain st1 where "initialize_tables env q (dev_stack dev) = Some st1" "sessions_wf st \<longleftrightarrow> sessions_wf st1"
    using assms(2) by (rule NetworkHandlerInitialize_tables)
  then have "sessions_wf st" using initialize_tables_wf assms(1) by blast
  then show ?thesis using device_run_wf [OF assms(3)] by simp
qed

lemma sessions_always_consistent_witness:
  "\<exists>st. NetworkHandlerInitialize example_env kEipStatusOk (\<lambda>_. True) 0 7 (dev_stack (net_device [])) = Some (kEipStatusOk, st)
     \<and> sessions_wf (dev_stack (on_net (\<lambda>i. i\<lparr>os_accept := os_accept i @ [9]\<rparr>) ((net_device [])\<lparr>dev_stack := st\<rparr>)))"
proof -
  let ?dev = "net_device []"
  obtain st where st: "NetworkHandlerInitialize example_env kEipStatusOk (\<lambda>_. True) 0 7 (dev_stack ?dev) = Some (kEipStatusOk, st)"
    by (simp add: NetworkHandlerInitialize_def initialize_tables_def next_socket_def Let_def CipQosUpdateUsedSetQosValues_def
        net_device_def upd_io_def EncapsulationInit_def)
  have "device_run example_env 3 (?dev\<lparr>dev_stack := st\<rparr>)
      (on_net (\<lambda>i. i\<lparr>os_accept := os_accept i @ [9]\<rparr>) (?dev\<lparr>dev_stack := st\<rparr>))"
    by (rule device_run.step [OF device_run.start device_step.client_waits])
  from sessions_always_consistent [OF _ st this] st show ?thesis by (auto simp: net_device_def OPENER_NUMBER_OF_SUPPORTED_SESSIONS_def)
qed

text \<open>
  C12: A client that waits at the TCP listener is accepted exactly if a session is free; its socket then joins those the main loop watches.
  With all sessions in use, the assertion that a socket timer is free fails.
\<close>
theorem client_accepted_iff_session_free:
  assumes wf: "sessions_wf st" and ready: "tcp_listener (io st) \<in> read_socket (io st) \<inter> master_socket st"
    and client: "os_accept (io st) = s # ss" "s \<noteq> kEipInvalidSocket"
  shows "if kEipInvalidSocket \<in> set (g_registered_sessions st)
     then \<exists>st'. CheckAndHandleTcpListenerSocket st = Some st' \<and> master_socket st' = insert s (master_socket st)
        \<and> s \<le> highest_socket_handle (io st') \<and> os_accept (io st') = ss
     else CheckAndHandleTcpListenerSocket st = None"
proof -
  have "SocketTimerArrayGetEmptySocketTimer (g_timestamps st) \<noteq> None \<longleftrightarrow> kEipInvalidSocket \<in> set (g_registered_sessions st)"
    using free_timer_iff [OF wf] by (simp add: SocketTimerArrayGetEmptySocketTimer_def get_timer_None del: not_None_eq)
  then show ?thesis
    using ready client by (auto simp: CheckAndHandleTcpListenerSocket_def CheckSocketSet_def upd_io_def Let_def)
qed

definition waiting_client :: "int list \<Rightarrow> net_stack" where
  "waiting_client sessions = upd_io (\<lambda>i. i\<lparr>read_socket := {3}, os_accept := [9]\<rparr>)
     ((dev_stack (net_device []))\<lparr>g_registered_sessions := sessions,
        g_timestamps := map (\<lambda>s. \<lparr>timer_socket = s, last_update = 0\<rparr>) sessions\<rparr>)"

lemma waiting_client_wf:
  assumes "length sessions = OPENER_NUMBER_OF_SUPPORTED_SESSIONS" "distinct sessions"
  shows "sessions_wf (waiting_client sessions)"
proof -
  have "count (valid_sockets sessions) s \<le> 1" for s
    using assms(2) by (simp add: valid_sockets_def distinct_count_atmost_1)
  then show ?thesis
    using assms(1) by (simp add: sessions_wf_def waiting_client_def upd_io_def comp_def)
qed

lemma client_accepted_iff_session_free_witness:
  "CheckAndHandleTcpListenerSocket (waiting_client (map int [10..<30])) = None
     \<and> (\<exists>st'. CheckAndHandleTcpListenerSocket (waiting_client (kEipInvalidSocket # map int [10..<29])) = Some st'
          \<and> 9 \<in> master_socket st')"
proof -
  have "sessions_wf (waiting_client (map int [10..<30]))" "sessions_wf (waiting_client (kEipInvalidSocket # map int [10..<29]))"
    by (auto intro!: waiting_client_wf simp: distinct_map OPENER_NUMBER_OF_SUPPORTED_SESSIONS_def)
  note this [THEN client_accepted_iff_session_free, where s = 9 and ss = "[]"]
  then show ?thesis by (auto simp: waiting_client_def upd_io_def net_device_def)
qed

end
