(* ===== verification/TcpIpSettings.thy ===== *)
theory TcpIpSettings
  imports IoConnection
begin

text \<open>
  Setting the interface configuration and the host name of the TCP/IP interface object
  (\<^verbatim>\<open>cip/ciptcpipinterface.c\<close>, with \<^verbatim>\<open>OPENER_TCPIP_IFACE_CFG_SETTABLE\<close>). These decoders
  look at the list of connections and at other attributes of the object, so they work on the state of
  the stack. \<open>calloc_ok\<close> is whether memory for the string is found.
\<close>

abbreviation (input) kCipErrorDeviceStateConflict :: octet where "kCipErrorDeviceStateConflict \<equiv> 0x10"

definition IsIOConnectionActive :: "('fn, 'app) stack_state \<Rightarrow> bool" where
  "IsIOConnectionActive st \<longleftrightarrow>
     find_active (\<lambda>c. ConnectionObjectIsTypeIOConnection c \<and> kConnectionObjectStateTimedOut \<noteq> ConnectionObjectGetState c) st \<noteq> None"

text \<open>A null pointer to the string is \<^term>\<open>None\<close>, and so is reading it.\<close>

definition on_cstr :: "(octet list \<Rightarrow> bool) \<Rightarrow> cip_string \<Rightarrow> bool option" where
  "on_cstr f s = map_option (\<lambda>bs. f (takeWhile (\<lambda>c. c \<noteq> 0) bs)) (s_string s)"

definition read_interface_addresses ::
    "OpenerEndianess \<Rightarrow> octet list \<Rightarrow> (CipTcpIpInterfaceConfiguration \<times> octet list) option" where
  "read_interface_addresses e data = do {
     (ip, data) \<leftarrow> GetUdintFromMessage data;
     (net, data) \<leftarrow> GetUdintFromMessage data;
     (gw, data) \<leftarrow> GetUdintFromMessage data;
     (ns, data) \<leftarrow> GetUdintFromMessage data;
     (ns2, data) \<leftarrow> GetUdintFromMessage data;
     Some (\<lparr>ip_address = htonl e ip, network_mask = htonl e net, gateway = htonl e gw, name_server = htonl e ns,
        name_server_2 = htonl e ns2, domain_name = null_string\<rparr>, data) }"

definition set_pending :: "CipTcpIpObject \<Rightarrow> CipTcpIpObject" where
  "set_pending t = t\<lparr>tcpip_status := tcpip_status t OR kTcpipStatusIfaceCfgPend\<rparr>"

definition DecodeCipTcpIpInterfaceConfiguration ::
    "OpenerEndianess \<Rightarrow> bool \<Rightarrow> mr_request \<Rightarrow> mr_response \<Rightarrow> ('fn, 'app) stack_state
      \<Rightarrow> (int \<times> mr_request \<times> mr_response \<times> ('fn, 'app) stack_state) option" where
  "DecodeCipTcpIpInterfaceConfiguration e calloc_ok req resp st =
     (if IsIOConnectionActive st then Some (-1, req, resp\<lparr>general_status := kCipErrorDeviceStateConflict\<rparr>, st)
      else if kTcpipCfgCtrlStaticIp \<noteq> config_control (g_tcpip st) AND kTcpipCfgCtrlMethodMask then
        Some (-1, req, resp\<lparr>general_status := kCipErrorObjectStateConflict\<rparr>, st)
      else do {
        (if_cfg, data) \<leftarrow> read_interface_addresses e (req_data req);
        (n, data) \<leftarrow> GetUintFromMessage data;
        let req = req\<lparr>req_data := data\<rparr>;
        if n > 48 then Some (-1, req, resp\<lparr>general_status := kCipErrorTooMuchData\<rparr>, st)
        else do {
          (domain, _) \<leftarrow> SetCipStringByData calloc_ok (domain_name if_cfg) n data;
          let if_cfg = if_cfg\<lparr>domain_name := domain\<rparr>;
          let n = (n + 1) AND NOT 1;
          ok \<leftarrow> (if \<not> IsValidNetworkConfig e if_cfg then Some False
                else if n > 0 then on_cstr IsValidDomain domain else Some True);
          Some (if \<not> ok then (-1, req, resp\<lparr>general_status := kCipErrorInvalidAttributeValue\<rparr>, st)
                else (20 + int (unat n), req, resp\<lparr>general_status := kCipErrorSuccess\<rparr>,
                      st\<lparr>g_tcpip := set_pending ((g_tcpip st)\<lparr>interface_configuration := if_cfg\<rparr>)\<rparr>)) } })"

text \<open>The number of octets stays -1 even when the name is accepted.\<close>

definition DecodeCipTcpIpInterfaceHostName ::
    "bool \<Rightarrow> mr_request \<Rightarrow> mr_response \<Rightarrow> ('fn, 'app) stack_state
      \<Rightarrow> (int \<times> mr_request \<times> mr_response \<times> ('fn, 'app) stack_state) option" where
  "DecodeCipTcpIpInterfaceHostName calloc_ok req resp st = do {
     (n, data) \<leftarrow> GetUintFromMessage (req_data req);
     let req = req\<lparr>req_data := data\<rparr>;
     if n > 64 then Some (-1, req, resp\<lparr>general_status := kCipErrorTooMuchData\<rparr>, st)
     else do {
       (name, _) \<leftarrow> SetCipStringByData calloc_ok null_string n data;
       ok \<leftarrow> on_cstr IsValidNameLabel name;
       Some (if \<not> ok then (-1, req, resp\<lparr>general_status := kCipErrorInvalidAttributeValue\<rparr>, st)
             else (-1, req, resp\<lparr>general_status := kCipErrorSuccess\<rparr>,
                   st\<lparr>g_tcpip := set_pending ((g_tcpip st)\<lparr>hostname := name\<rparr>)\<rparr>)) } }"

end
