(* ===== verification/ConnectionServices.thy ===== *)
theory ConnectionServices
  imports ForwardOpen IoData
begin

text \<open>
  What the services of the connection manager promise: connection numbers are unique, the path of an I/O connection is
  read as it was written, a connection that exists is not opened twice, and only its originator closes a connection.
\<close>

subsection \<open>Connection numbers\<close>

definition first_unused :: "CipUint list \<Rightarrow> CipUint list \<Rightarrow> (CipUint \<times> CipUint list) option" where
  "first_unused used rs = (case dropWhile (\<lambda>r. r \<in> set used) rs of [] \<Rightarrow> None | r # rs \<Rightarrow> Some (r, rs))"

lemma first_unused_simps [simp]:
  "first_unused used [] = None"
  "first_unused used (r # rs) = (if r \<in> set used then first_unused used rs else Some (r, rs))"
  by (simp_all add: first_unused_def)

lemma first_unused_Some: "first_unused used rs = Some (r, rs') \<Longrightarrow> r \<notin> set used \<and> length rs' < length rs"
  by (induction rs) (auto split: if_splits)

lemma draw_number_first:
  "set ns \<subseteq> set used \<Longrightarrow> draw_number used ns r rs = (if r \<in> set ns then first_unused used rs else Some (r, rs))"
proof (induction rs arbitrary: ns r rule: length_induct)
  case (1 rs)
  note shorter = 1(1) [rule_format]
  show ?case
    using 1(2)
  proof (induction ns)
    case Nil
    then show ?case by (simp add: draw_number.simps)
  next
    case (Cons n ns)
    show ?case
    proof (cases "n = r")
      case True
      show ?thesis
      proof (cases rs)
        case (Cons x xs)
        have "draw_number used used x xs = first_unused used rs" using shorter [of xs used x] Cons by simp
        moreover have "draw_number used ns r1 rs1 = Some (r1, rs1)" if "first_unused used rs = Some (r1, rs1)" for r1 rs1
          using shorter [of rs1 ns r1] first_unused_Some [OF that] Cons.prems by auto
        ultimately show ?thesis
          using True Cons by (subst draw_number.simps) (cases "first_unused used rs"; auto)
      qed (simp add: True draw_number.simps)
    next
      case False
      then show ?thesis using Cons by (subst draw_number.simps) auto
    qed
  qed
qed

text \<open>
  The number of a new connection is the first result of \<^verbatim>\<open>rand()\<close> that is not the number of an active connection. The
  search ends as soon as there is one.
\<close>
theorem GenerateRandomConnectionNumber_first_unused:
  fixes st :: "'z io_stack"
  defines "used \<equiv> map (\<lambda>a. connection_number (st_objects st a)) (list_data (st_connection_list st))"
  shows "GenerateRandomConnectionNumber st =
     (case dropWhile (\<lambda>r. r \<in> set used) (os_rand (io st)) of
        [] \<Rightarrow> None | r # rs \<Rightarrow> Some (r, upd_io (\<lambda>i. i\<lparr>os_rand := rs\<rparr>) st))"
proof (cases "os_rand (io st)")
  case (Cons r rs)
  have "draw_number used used r rs = first_unused used (r # rs)" by (simp add: draw_number_first)
  then show ?thesis
    unfolding GenerateRandomConnectionNumber_def used_def [symmetric] Let_def Cons
    by (cases "dropWhile (\<lambda>r. r \<in> set used) (r # rs)")
      (simp_all add: first_unused_def del: dropWhile.simps dropWhile_eq_Nil_conv)
qed (simp add: GenerateRandomConnectionNumber_def Let_def)

subsection \<open>The path of an I/O connection\<close>

text \<open>A logical segment with a value of eight bits: class, instance or connection point.\<close>

lemmas segment_defs = is_logical_def is_key_segment_def is_pit_segment_def GetPathSegmentType_def GetPathLogicalSegmentLogicalType_def
  is_segment_def octet_at_def GetPathNetworkSegmentSubtype_def GetPathDataSegmentSubtype_def
  CipEpathGetLogicalValue_def GetPathLogicalSegmentLogicalFormat_def advance_def

lemma class_segment [simp]:
  "is_logical {kLogicalSegmentLogicalTypeClassId} (0x20 # v # rest) = Some True"
  "CipEpathGetLogicalValue (0x20 # v # rest) = Some (ucast v, rest)"
  "is_key_segment (0x20 # v # rest) = Some False" "is_pit_segment (0x20 # v # rest) = Some False"
  by (simp_all add: segment_defs)

lemma instance_segment [simp]:
  "is_logical {kLogicalSegmentLogicalTypeInstanceId} (0x24 # v # rest) = Some True"
  "CipEpathGetLogicalValue (0x24 # v # rest) = Some (ucast v, rest)"
  by (simp_all add: segment_defs)

lemma point_segment [simp]:
  "is_logical {kLogicalSegmentLogicalTypeInstanceId, kLogicalSegmentLogicalTypeConnectionPoint} (0x2C # v # rest) = Some True"
  "CipEpathGetLogicalValue (0x2C # v # rest) = Some (ucast v, rest)"
  by (simp_all add: segment_defs)

text \<open>The octets of a path: class, configuration, consuming and producing assembly, and the configuration data, in words.\<close>

definition io_path :: "octet \<Rightarrow> octet \<Rightarrow> octet \<Rightarrow> octet \<Rightarrow> octet list \<Rightarrow> octet list" where
  "io_path code config out inp d =
     [0x20, code, 0x24, config, 0x2C, out, 0x2C, inp] @ (if d = [] then [] else [0x80, of_nat (length d div 2)] @ d)"

lemma parse_no_key: "is_key_segment (pp_message p) = Some False \<Longrightarrow> parse_electronic_key identity p = path_ok () p"
  by (simp add: parse_electronic_key_def)

lemma parse_no_pit: "is_pit_segment (pp_message p) = Some False \<Longrightarrow> parse_pit p = path_ok () p"
  by (simp add: parse_pit_def)

lemma small_numbers [simp]:
  "\<not> 0xFFFF < (ucast (v :: octet) :: CipDword)" "ucast (ucast (v :: octet) :: CipDword) = (ucast v :: CipInstanceNum)"
  "instance_words (ucast (v :: octet)) = 1"
proof -
  have v: "unat v < 256" using unsigned_less [of v, where ?'a = nat] by simp
  then show "\<not> 0xFFFF < (ucast v :: CipDword)" "instance_words (ucast v) = 1"
    by (simp_all add: word_less_nat_alt instance_words_def unsigned_ucast_eq take_bit_nat_eq_self)
  show "ucast (ucast v :: CipDword) = (ucast v :: CipInstanceNum)"
    by (rule bit_word_eqI) (auto simp: bit_simps dest: bit_imp_le_length)
qed

lemma parse_class_segment:
  assumes "pp_message p = 0x20 # v # rest" "GetCipClass objects (ucast v) = Some cls"
  shows "parse_class objects p = path_ok (ucast v, cls) (p\<lparr>pp_message := rest, pp_remaining := pp_remaining p - 1\<rparr>)"
  using assms by (simp add: parse_class_def)

lemma parse_instance_segment:
  assumes "pp_message p = 0x24 # v # rest" "GetCipInstance cls (ucast v) \<noteq> None"
  shows "parse_configuration_instance cls p = path_ok (ucast v) (p\<lparr>pp_message := rest, pp_remaining := pp_remaining p - 1\<rparr>)"
  using assms by (auto simp: parse_configuration_instance_def Let_def)

lemma parse_point_segment:
  assumes "pp_message p = 0x2C # v # rest" "GetCipInstance cls (ucast v) \<noteq> None"
  shows "parse_connection_point code cls kind p = path_ok () (p\<lparr>pp_message := rest,
     pp_object := set_connection_path kind \<lparr>cp_class_id = code, cp_instance_id = ucast v, cp_connection_point = 0\<rparr> (pp_object p),
     pp_remaining := pp_remaining p - 1\<rparr>)"
  using assms by (auto simp: parse_connection_point_def Let_def)

lemma parse_config_octets:
  assumes "pp_message p = (if d = [] then [] else [0x80, of_nat (length d div 2)] @ d) @ rest" "even (length d)" "length d < 512"
    and "pp_remaining p = (if d = [] then 0 else of_nat (length d div 2 + 1))"
  shows "parse_config_segments words p = path_ok () (if d = [] then p else p\<lparr>pp_message := rest, pp_remaining := 0,
     pp_config_length := of_nat (length d), pp_config_buffer := Some (d @ rest)\<rparr>)"
proof (cases "d = []")
  case True
  then show ?thesis using assms by (subst parse_config_segments.simps) simp
next
  case False
  define n where "n = (of_nat (length d div 2) :: octet)"
  have "length d div 2 < 256" using assms(3) by simp
  then have n: "unat n = length d div 2" by (simp add: n_def unsigned_of_nat take_bit_nat_eq_self)
  have len: "(ucast n * 2 :: 32 word) = of_nat (length d)"
  proof -
    have "(ucast n :: 32 word) = of_nat (unat n)" by simp
    then have "(ucast n :: 32 word) = of_nat (length d div 2)" by (simp only: n)
    then have "(ucast n * 2 :: 32 word) = of_nat (length d div 2 * 2)" by simp
    then show ?thesis using assms(2) by simp
  qed
  have u: "unat (of_nat (length d) :: 32 word) = length d"
    using assms(3) by (simp add: unsigned_of_nat take_bit_nat_eq_self)
  have words: "pp_remaining p - ucast ((of_nat (length d) + 2 :: 32 word) div 2) = 0"
  proof -
    have small: "unat (of_nat k :: 32 word) = k" if "k < 600" for k
      using that by (simp add: unsigned_of_nat take_bit_nat_eq_self)
    have "unat (of_nat (length d + 2) :: 32 word) = length d + 2" by (rule small) (use assms(3) in simp)
    then have u2: "unat ((of_nat (length d) + 2 :: 32 word) div 2) = length d div 2 + 1"
      by (simp add: unat_div add.commute [of 2])
    have "(ucast w :: size_t) = of_nat (unat w)" for w :: "32 word" by simp
    then have "(ucast ((of_nat (length d) + 2 :: 32 word) div 2) :: size_t) = of_nat (length d div 2 + 1)"
      by (simp only: u2)
    then show ?thesis using assms(4) False by simp
  qed
  have small: "unat (of_nat k :: size_t) = k" if "k < 600" for k
    using that by (simp add: unsigned_of_nat take_bit_nat_eq_self)
  have "unat (of_nat (length d div 2 + 1) :: size_t) = length d div 2 + 1" by (rule small) (use assms(3) in simp)
  then have "0 < pp_remaining p" using assms(4) False by (simp add: word_less_nat_alt del: of_nat_add)
  then show ?thesis
    using False assms(1) len u words
    by (subst parse_config_segments.simps, subst parse_config_segments.simps)
      (simp add: parse_config_segment_def parse_data_segment_def segment_defs path_ok_def n_def [symmetric] Let_def)
qed

text \<open>
  C18: The usual path of an I/O connection is read back as it was written. The path consists of 8-bit segments for the class,
  the configuration instance and the consuming and producing connection point, and of a data segment with the configuration
  data if there is any (an even number of octets; the whole path at most 510), without an electronic key and a production
  inhibit segment; the connection is not of class 3 and has data in both directions. When the class and the
  three instances exist, the path is accepted, the object gets its class, instance and connection points, the
  inhibit time is marked as not given (256), the configuration data is kept, and the rest of the request stays behind it.
\<close>
theorem io_path_accepted:
  fixes p :: "'fn path_parse" and c :: "'fn connection_object" and code config out inp :: octet and d :: "octet list"
  defines "path \<equiv> io_path code config out inp d" and "point \<equiv> (\<lambda>n. \<lparr>cp_class_id = ucast code, cp_instance_id = ucast n, cp_connection_point = 0\<rparr>)"
  assumes object: "pp_object p = c" "ConnectionObjectGetTransportClassTriggerTransportClass c \<noteq> TransportClass3"
      "ConnectionObjectGetOToTConnectionType c \<noteq> ConnectionTypeNull" "ConnectionObjectGetTToOConnectionType c \<noteq> ConnectionTypeNull"
    and exist: "GetCipClass objects (ucast code) = Some cls" "GetCipInstance cls (ucast config) \<noteq> None"
      "GetCipInstance cls (ucast out) \<noteq> None" "GetCipInstance cls (ucast inp) \<noteq> None"
    and message: "pp_message p = of_nat (length path div 2) # path @ rest" "even (length d)" "length path \<le> 510"
      "data_size = (if is_large_forward_open c then g_kLargeForwardOpenHeaderLength else g_kForwardOpenHeaderLength) + of_nat (length path)"
  shows "\<exists>p'. ParseConnectionPath identity objects data_size p = Some (kCipErrorSuccess, p')
    \<and> pp_object p' = c\<lparr>production_inhibit_time := 256, configuration_path := point config, consumed_path := point out, produced_path := point inp\<rparr>
    \<and> pp_message p' = rest \<and> pp_config_length p' = of_nat (length d)
    \<and> pp_config_buffer p' = (if d = [] then None else Some (d @ rest))"
proof -
  define n where "n = length path div 2"
  have lp: "length path = 8 + (if d = [] then 0 else 2 + length d)" by (simp add: path_def io_path_def)
  then have n: "n = 4 + (if d = [] then 0 else 1 + length d div 2)" "2 * n = length path" "n < 256"
    using message(2,3) by (auto simp: n_def)
  have un: "unat (of_nat n :: octet) = n" using n(3) by (simp add: unsigned_of_nat take_bit_nat_eq_self)
  then have w: "(ucast (of_nat n :: octet) :: size_t) = of_nat n" proof -
    have "(ucast v :: size_t) = of_nat (unat v)" for v :: octet by simp
    then show ?thesis using un by (simp only:)
  qed
  define c1 where "c1 = c\<lparr>production_inhibit_time := 256, configuration_path := point config\<rparr>"
  define tail where "tail = (if d = [] then [] else [0x80, of_nat (length d div 2)] @ d) @ rest"
  define p0 where "p0 = p\<lparr>pp_object := c\<lparr>production_inhibit_time := 256\<rparr>, pp_message := path @ rest, pp_remaining := of_nat n\<rparr>"
  define p2 where "p2 = p0\<lparr>pp_message := [0x2C, out, 0x2C, inp] @ tail, pp_remaining := of_nat n - 2\<rparr>"
  define p4 where "p4 = p2\<lparr>pp_message := tail,
     pp_object := c1\<lparr>consumed_path := point out, produced_path := point inp\<rparr>, pp_remaining := of_nat n - 4, pp_config_length := 0, pp_config_buffer := None\<rparr>"
  have m0: "pp_message p0 = 0x20 # code # 0x24 # config # 0x2C # out # 0x2C # inp # tail"
    by (simp add: p0_def path_def io_path_def tail_def)
  have types: "paths_to_encode c1 = [ConsumedPath, ProducedPath]" "ConnectionObjectGetTransportClassTriggerTransportClass (pp_object p2) \<noteq> TransportClass3"
    using object(2-4) by (simp_all add: c1_def p2_def p0_def paths_to_encode_def ConnectionObjectGetOToTConnectionType_def
        ConnectionObjectGetTToOConnectionType_def ConnectionObjectGetTransportClassTriggerTransportClass_def)
  have start: "parse_path identity objects (of_nat n) p0 = parse_end_point (of_nat n) (ucast code) cls (ucast config) p2"
    using m0 exist
    by (simp add: parse_path_def path_then_def parse_no_key parse_no_pit parse_class_segment parse_instance_segment path_ok_def p2_def p0_def)
  have points: "parse_end_point (of_nat n) (ucast code) cls (ucast config) p2 = parse_config_segments (of_nat n) p4"
    using types exist(3,4)
    by (simp add: parse_end_point_def parse_io_def Let_def path_then_def parse_point_segment path_ok_def p2_def p0_def p4_def
        c1_def point_def)
  have config: "parse_config_segments (of_nat n) p4 = path_ok () (if d = [] then p4 else p4\<lparr>pp_message := rest, pp_remaining := 0,
     pp_config_length := of_nat (length d), pp_config_buffer := Some (d @ rest)\<rparr>)"
    using message(2,3) lp n by (intro parse_config_octets) (auto simp: p4_def tail_def split: if_splits)
  have "(of_nat n :: octet) \<noteq> 0" using n(1) un by (metis add_is_0 unat_0 zero_neq_numeral)
  moreover have "(if is_large_forward_open c then g_kLargeForwardOpenHeaderLength else g_kForwardOpenHeaderLength) + of_nat n * 2 = data_size"
    unfolding message(4) n(2) [symmetric] by simp
  ultimately have "ParseConnectionPath identity objects data_size p = map_option (\<lambda>(r, q). case r of
      Inl status \<Rightarrow> (status, q\<lparr>pp_message := pp_message p\<rparr>) | Inr _ \<Rightarrow> (kCipErrorSuccess, q)) (parse_path identity objects (of_nat n) p0)"
    using message(1) w object(1)
    by (cases "parse_path identity objects (of_nat n) p0")
      (auto simp: ParseConnectionPath_def n_def [symmetric] Let_def p0_def split: sum.splits)
  then show ?thesis
    unfolding start points config by (simp add: path_ok_def p4_def c1_def tail_def)
qed


subsection \<open>Closing\<close>

text \<open>A connection that can be closed: established or timed out, with this triad.\<close>

definition closable :: "CipUint \<Rightarrow> CipUint \<Rightarrow> CipUdint \<Rightarrow> 'fn connection_object \<Rightarrow> bool" where
  "closable serial vendor orig_serial c \<longleftrightarrow>
     ConnectionObjectGetState c \<in> {kConnectionObjectStateEstablished, kConnectionObjectStateTimedOut}
     \<and> connection_serial_number c = serial \<and> originator_vendor_id c = vendor \<and> originator_serial_number c = orig_serial"

lemma close_by_triad_result:
  "close_by_triad close originator serial vendor orig_serial st =
     (case find (\<lambda>a. closable serial vendor orig_serial (st_objects st a)) (list_data (st_connection_list st)) of
        None \<Rightarrow> Some (0x0107, st)
      | Some a \<Rightarrow> Option.bind (connection_close_function (st_objects st a)) (\<lambda>f.
          if sin_addr originator = sin_addr (originator_address (st_objects st a)) then map_option (Pair 0) (close f a st)
          else Some (0xFFFF, st)))"
  by (simp add: close_by_triad_def find_active_def closable_def)

lemma unconnected_reply_Some:
  "\<exists>g'. unconnected_reply g = Some g'"
  by (simp add: unconnected_reply_def AddNullAddressItem_def)

lemma AssembleForwardCloseResponse_result:
  assumes "wf_msg (message resp)" "10 \<le> msg_room (message resp)" "req_data req = b # bs"
  shows "\<exists>resp' g. AssembleForwardCloseResponse serial vendor orig_serial req resp err st = Some (kEipStatusOkSend, resp', st\<lparr>st_cpf := g\<rparr>)
    \<and> general_status resp' = (if err = 0 then kCipErrorSuccess else if err = 0xFFFF then kCipErrorPrivilegeViolation else kCipErrorConnectionFailure)
    \<and> (err \<notin> {0, 0xFFFF} \<longrightarrow> additional_status resp' = (additional_status resp)[0 := err] \<and> size_of_additional_status resp' = 1)
    \<and> msg_content (message resp') = msg_content (message resp) @ le_octets 2 serial @ le_octets 2 vendor @ le_octets 4 orig_serial
        @ [if err = 0 then 0 else b, 0]"
proof -
  obtain g where g: "unconnected_reply (st_cpf st) = Some g" using unconnected_reply_Some by blast
  define octets where "octets = le_octets 2 serial @ le_octets 2 vendor @ le_octets 4 orig_serial @ [if err = 0 then 0 else b, 0]"
  obtain m where m: "emit octets (message resp) = Some m" "msg_content m = msg_content (message resp) @ octets"
    using emit_wf_fits [OF assms(1), of octets] assms(2) by (auto simp: octets_def)
  have "octet_at 0 (req_data req) = Some b" using assms(3) by (simp add: octet_at_def)
  then show ?thesis
    using m unfolding AssembleForwardCloseResponse_def g on_message_def message_ops
    by (cases "err = 0"; cases "err = 0xFFFF")
      (simp_all add: octets_def message_ops bind_map_option comp_def Let_def, auto)
qed

text \<open>
  C17: A forward close with the triad of a connection closes this connection, by calling its close function, exactly if the request
  comes from the address of the connection's originator. To others the reply is a privilege violation, and the reply for an
  unknown triad is a connection failure with status 0x0107; in both cases no connection changes. Every reply repeats the triad.
\<close>
theorem ForwardClose_by_originator_only:
  fixes st :: "'z io_stack"
  assumes data: "req_data req = [t0, t1] @ le_octets 2 serial @ le_octets 2 vendor @ le_octets 4 orig_serial @ b # bs"
    and reply: "wf_msg (message resp)" "10 \<le> msg_room (message resp)"
  defines "found \<equiv> find (\<lambda>a. closable serial vendor orig_serial (st_objects st a)) (list_data (st_connection_list st))"
    and "triad \<equiv> le_octets 2 serial @ le_octets 2 vendor @ le_octets 4 orig_serial"
    and "st0 \<equiv> st\<lparr>st_cpf := set_info_type 1 0 (set_info_type 0 0 (st_cpf st))\<rparr>"
  shows "(found = None \<longrightarrow> (\<exists>req' resp' g. ForwardClose close originator req resp st = Some (kEipStatusOkSend, req', resp', st\<lparr>st_cpf := g\<rparr>)
        \<and> general_status resp' = kCipErrorConnectionFailure \<and> additional_status resp' = (additional_status resp)[0 := 0x0107]
        \<and> msg_content (message resp') = msg_content (message resp) @ triad @ [b, 0]))
    \<and> (\<forall>a f. found = Some a \<and> connection_close_function (st_objects st a) = Some f
        \<and> sin_addr originator \<noteq> sin_addr (originator_address (st_objects st a))
      \<longrightarrow> (\<exists>req' resp' g. ForwardClose close originator req resp st = Some (kEipStatusOkSend, req', resp', st\<lparr>st_cpf := g\<rparr>)
        \<and> general_status resp' = kCipErrorPrivilegeViolation
        \<and> msg_content (message resp') = msg_content (message resp) @ triad @ [b, 0]))
    \<and> (\<forall>a f st'. found = Some a \<and> connection_close_function (st_objects st a) = Some f
        \<and> sin_addr originator = sin_addr (originator_address (st_objects st a)) \<and> close f a st0 = Some st'
      \<longrightarrow> (\<exists>req' resp' g. ForwardClose close originator req resp st = Some (kEipStatusOkSend, req', resp', st'\<lparr>st_cpf := g\<rparr>)
        \<and> general_status resp' = kCipErrorSuccess
        \<and> msg_content (message resp') = msg_content (message resp) @ triad @ [0, 0]))"
proof -
  define req1 where "req1 = req\<lparr>req_data := b # bs\<rparr>"
  have found0: "found = find (\<lambda>a. closable serial vendor orig_serial (st_objects st0 a)) (list_data (st_connection_list st0))"
    by (simp add: found_def st0_def)
  have fc: "ForwardClose close originator req resp st = Option.bind (close_by_triad close originator serial vendor orig_serial st0)
      (\<lambda>(err, st). Option.bind (AssembleForwardCloseResponse serial vendor orig_serial req1 resp err st)
        (\<lambda>(status, resp, st). Some (status, req1, resp, st)))"
    using data by (simp add: ForwardClose_def advance_def cpf_readers st0_def req1_def Let_def)
  have req1: "req_data req1 = b # bs" by (simp add: req1_def)
  note resp = AssembleForwardCloseResponse_result [OF reply req1, of serial vendor orig_serial]
  show ?thesis
    using resp [of "0x0107" st0] resp [of "0xFFFF" st0] resp [of 0]
    by (auto simp: fc close_by_triad_result found0 [symmetric] triad_def) (auto simp: st0_def)
qed

subsection \<open>Opening\<close>

lemma refused_reply:
  fixes st :: "'z io_stack"
  assumes reply: "wf_msg (message resp)" "10 \<le> msg_room (message resp)" and err: "err \<notin> {0x0127, 0x0128}"
  defines "c \<equiv> st_objects st g_dummy_connection_object"
  shows "\<exists>resp' st'. open_reply g_dummy_connection_object kCipErrorConnectionFailure err req resp st = Some (kEipStatusOkSend, req, resp', st')
    \<and> general_status resp' = kCipErrorConnectionFailure \<and> additional_status resp' = (additional_status resp)[0 := err]
    \<and> size_of_additional_status resp' = 1
    \<and> msg_content (message resp') = msg_content (message resp) @ le_octets 2 (connection_serial_number c)
        @ le_octets 2 (originator_vendor_id c) @ le_octets 4 (originator_serial_number c) @ [0, 0]
    \<and> st_connection_list st' = st_connection_list st \<and> (\<forall>a. a \<noteq> g_dummy_connection_object \<longrightarrow> st_objects st' a = st_objects st a)
    \<and> io st' = io st \<and> master_socket st' = master_socket st \<and> st_effects st' = st_effects st"
proof -
  obtain g where g: "unconnected_reply (st_cpf st) = Some g" using unconnected_reply_Some by blast
  define octets where "octets = le_octets 2 (connection_serial_number c)
        @ le_octets 2 (originator_vendor_id c) @ le_octets 4 (originator_serial_number c) @ [0, 0 :: octet]"
  obtain m where m: "emit octets (message resp) = Some m" "msg_content m = msg_content (message resp) @ octets"
    using emit_wf_fits [OF reply(1), of octets] reply(2) by (auto simp: octets_def)
  obtain c' where c': "ConnectionObjectSetState c kConnectionObjectStateNonExistent = Some c'"
      "connection_serial_number c' = connection_serial_number c" "originator_vendor_id c' = originator_vendor_id c"
      "originator_serial_number c' = originator_serial_number c"
    by simp
  show ?thesis
    using m err
    unfolding open_reply_def AssembleForwardOpenResponse_def g on_message_def connection_triad_def message_ops c_def [symmetric]
    by (simp add: octets_def message_ops bind_map_option comp_def Let_def c' open_error_status_def store_object_def) 
qed

text \<open>Why a request is refused before its path is looked at: the extended status, from the parameters of the request.\<close>

definition refusal :: "sockaddr_in \<Rightarrow> io_fn connection_fn connection_object \<Rightarrow> 'z io_stack \<Rightarrow> 16 word option" where
  "refusal originator c st =
     (if ConnectionObjectGetOToTConnectionType c = ConnectionTypeInvalid then Some 0x0123
      else if ConnectionObjectGetTToOConnectionType c = ConnectionTypeInvalid then Some 0x0124
      else if ConnectionObjectGetTToOConnectionType c = ConnectionTypeMulticast \<and> off_subnet originator st then Some 0x0813
      else if ConnectionObjectGetOToTConnectionType c = ConnectionTypeNull \<and> ConnectionObjectGetTToOConnectionType c = ConnectionTypeNull
      then Some 0x0132
      else if \<exists>a \<in> set (list_data (st_connection_list st)). ConnectionObjectGetState (st_objects st a) = kConnectionObjectStateEstablished
           \<and> EqualConnectionTriad c (st_objects st a)
      then Some 0x0100
      else if ConnectionObjectGetTransportClassTriggerProductionTrigger c = ProductionTriggerInvalid then Some 0x0103
      else None)"

text \<open>
  C16: Forward open requests are refused, with the extended status that tells why and the triad of the request, when a connection type is invalid,
  when a multicast producer is requested from another network, when both directions are null, when a connection with the same
  triad is established already, or when the production trigger is invalid. A refused request changes no connection and opens no socket.
\<close>
theorem ForwardOpen_refused:
  fixes st :: "'z io_stack"
  assumes read: "read_open_request originator session req st = Some (req1, st1)"
    and reply: "wf_msg (message resp)" "10 \<le> msg_room (message resp)"
  defines "c \<equiv> st_objects st1 g_dummy_connection_object"
  assumes refused: "refusal originator c st1 = Some err"
  shows "\<exists>resp' st'. ForwardOpenRoutine env objects close originator session req resp st = Some (kEipStatusOkSend, req1, resp', st')
    \<and> general_status resp' = kCipErrorConnectionFailure \<and> additional_status resp' = (additional_status resp)[0 := err]
    \<and> msg_content (message resp') = msg_content (message resp) @ le_octets 2 (connection_serial_number c)
        @ le_octets 2 (originator_vendor_id c) @ le_octets 4 (originator_serial_number c) @ [0, 0]
    \<and> st_connection_list st' = st_connection_list st \<and> (\<forall>a. a \<noteq> g_dummy_connection_object \<longrightarrow> st_objects st' a = st_objects st a)
    \<and> master_socket st' = master_socket st \<and> os_sockets (io st') = os_sockets (io st) \<and> st_effects st' = st_effects st"
proof -
  have frame: "st_connection_list st1 = st_connection_list st" "a \<noteq> g_dummy_connection_object \<longrightarrow> st_objects st1 a = st_objects st a"
      "master_socket st1 = master_socket st" "os_sockets (io st1) = os_sockets (io st)" "st_effects st1 = st_effects st" for a
    using read by (auto simp: read_open_request_def GenerateRandomConnectionNumber_def store_object_def upd_io_def Let_def split: list.splits)
  have existing: "CheckForExistingConnection c st1 \<noteq> None \<longleftrightarrow> (\<exists>a \<in> set (list_data (st_connection_list st1)).
      ConnectionObjectGetState (st_objects st1 a) = kConnectionObjectStateEstablished \<and> EqualConnectionTriad c (st_objects st1 a))"
    unfolding CheckForExistingConnection_def find_active_def by (auto simp: find_None_iff simp del: not_None_eq)
  have "ForwardOpenRoutine env objects close originator session req resp st =
      open_reply g_dummy_connection_object kCipErrorConnectionFailure err req1 resp st1"
    using refused existing
    by (auto simp: ForwardOpenRoutine_def read c_def [symmetric] Let_def refusal_def HandleNullMatchingForwardOpenRequest_def
        HandleNullNonMatchingForwardOpenRequest_def HandleNonNullMatchingForwardOpenRequest_def
        HandleNonNullNonMatchingForwardOpenRequest_def split: if_splits)
  moreover have "err \<notin> {0x0127, 0x0128}" using refused by (auto simp: refusal_def split: if_splits)
  ultimately show ?thesis
    using refused_reply [OF reply, where err = err and st = st1 and req = req1] frame by (auto simp: c_def)
qed

text \<open>
  C15: The reply to a forward open request that is not refused, whose path is accepted and whose connection is established: success, with the
  identifiers of the new connection, the triad and the packet intervals, of the connection at the head of the list.
\<close>
theorem ForwardOpen_success_reply:
  fixes st :: "'z io_stack"
  assumes read: "read_open_request originator session req st = Some (req1, st1)"
    and accepted: "refusal originator (st_objects st1 g_dummy_connection_object) st1 = None"
      "parse_request_path objects req1 st1 = Some (kCipErrorSuccess, err1, req2, st2)"
      "establish_connection env objects close st2 = Some (kCipErrorSuccess, err2, st3)" "first_connection st3 = Some a"
    and reply: "wf_msg (message resp)" "26 \<le> msg_room (message resp)"
  defines "c \<equiv> st_objects st3 a"
  shows "\<exists>resp' g. ForwardOpenRoutine env objects close originator session req resp st = Some (kEipStatusOkSend, req2, resp', st3\<lparr>st_cpf := g\<rparr>)
    \<and> general_status resp' = kCipErrorSuccess \<and> size_of_additional_status resp' = 0
    \<and> reply_service resp' = (if is_large_forward_open c then 0xDB else 0xD4)
    \<and> msg_content (message resp') = msg_content (message resp) @ le_octets 4 (cip_consumed_connection_id c)
        @ le_octets 4 (cip_produced_connection_id c) @ le_octets 2 (connection_serial_number c) @ le_octets 2 (originator_vendor_id c)
        @ le_octets 4 (originator_serial_number c) @ le_octets 4 (o_to_t_requested_packet_interval c)
        @ le_octets 4 (t_to_o_requested_packet_interval c) @ [0, 0]"
proof -
  define octets where "octets = le_octets 4 (cip_consumed_connection_id c)
        @ le_octets 4 (cip_produced_connection_id c) @ le_octets 2 (connection_serial_number c) @ le_octets 2 (originator_vendor_id c)
        @ le_octets 4 (originator_serial_number c) @ le_octets 4 (o_to_t_requested_packet_interval c)
        @ le_octets 4 (t_to_o_requested_packet_interval c) @ [0, 0 :: octet]"
  obtain m where m: "emit octets (message resp) = Some m" "msg_content m = msg_content (message resp) @ octets"
    using emit_wf_fits [OF reply(1), of octets] reply(2) by (auto simp: octets_def)
  obtain g where g: "unconnected_reply (st_cpf st3) = Some g" using unconnected_reply_Some by blast
  have existing: "CheckForExistingConnection x st1 = None \<longleftrightarrow> \<not> (\<exists>a \<in> set (list_data (st_connection_list st1)).
      ConnectionObjectGetState (st_objects st1 a) = kConnectionObjectStateEstablished \<and> EqualConnectionTriad x (st_objects st1 a))" for x
    unfolding CheckForExistingConnection_def find_active_def by (auto simp: find_None_iff)
  have "ForwardOpenRoutine env objects close originator session req resp st = open_reply a kCipErrorSuccess 0 req2 resp st3"
    using accepted existing
    by (auto simp: ForwardOpenRoutine_def read Let_def refusal_def HandleNonNullNonMatchingForwardOpenRequest_def split: if_splits)
  moreover have "store_object a c (st3\<lparr>st_cpf := h\<rparr>) = st3\<lparr>st_cpf := h\<rparr>" for h by (simp add: store_object_def c_def)
  ultimately show ?thesis
    using m
    unfolding open_reply_def AssembleForwardOpenResponse_def g on_message_def connection_ids_def connection_triad_def packet_intervals_def
      message_ops c_def [symmetric]
    by (simp add: octets_def message_ops bind_map_option comp_def Let_def) auto
qed

subsection \<open>Examples\<close>

definition example_path :: "io_fn connection_fn path_parse" where
  "example_path = \<lparr>pp_object = io_connection\<lparr>o_to_t_network_connection_parameters := 0x4802, t_to_o_network_connection_parameters := 0x4802\<rparr>,
     pp_message = 6 # io_path 4 100 100 100 [7, 8] @ [9], pp_remaining = 0, pp_error = 0, pp_config_length = 0, pp_config_buffer = None\<rparr>"

lemma io_path_accepted_witness:
  "\<exists>p'. ParseConnectionPath example_identity example_registry 48 example_path = Some (kCipErrorSuccess, p')
     \<and> cp_instance_id (produced_path (pp_object p')) = 100 \<and> pp_message p' = [9] \<and> pp_config_length p' = 2"
proof -
  have large: "\<not> is_large_forward_open (pp_object example_path)"
    by (simp add: example_path_def io_connection_def class3_connection_def ConnectionObjectInitializeEmpty_def)
  have types: "ConnectionObjectGetTransportClassTriggerTransportClass (pp_object example_path) \<noteq> TransportClass3"
      "ConnectionObjectGetOToTConnectionType (pp_object example_path) \<noteq> ConnectionTypeNull"
      "ConnectionObjectGetTToOConnectionType (pp_object example_path) \<noteq> ConnectionTypeNull"
    by (simp_all add: example_path_def io_connection_def class3_connection_def ConnectionObjectInitializeEmpty_def
        ConnectionObjectGetTransportClassTriggerTransportClass_def ConnectionObjectGetOToTConnectionType_def
        ConnectionObjectGetTToOConnectionType_def ConnectionObjectGetConnectionType_def Let_def)
  have i: "GetCipInstance (hd example_registry) 100 \<noteq> None" by simp
  show ?thesis
    using io_path_accepted [where p = example_path and c = "pp_object example_path" and code = 4 and config = 100 and out = 100 and inp = 100
        and d = "[7, 8]" and rest = "[9]" and objects = example_registry and cls = "hd example_registry" and data_size = 48
        and identity = example_identity, OF refl types] large i
    by (auto simp: kCipAssemblyClassCode_def [symmetric] example_lookup io_path_def g_kForwardOpenHeaderLength_def) (auto simp: example_path_def io_path_def)
qed

definition example_request :: "octet list \<Rightarrow> mr_request" where
  "example_request d = \<lparr>req_service = 0x54, request_path = \<lparr>path_size = 0, class_id = 6, instance_number = 1, attribute_number = 0\<rparr>,
     request_data_size = of_nat (length d), req_data = d\<rparr>"

definition example_response :: mr_response where
  "example_response = \<lparr>reply_service = 0, reserved = 0, general_status = 0, size_of_additional_status = 0, additional_status = [0, 0],
     message = InitializeENIPMessage undefined\<rparr>"

lemma example_response_room [simp]: "wf_msg (message example_response)" "msg_room (message example_response) = 512"
  by (simp_all add: example_response_def PC_OPENER_ETHERNET_BUFFER_SIZE_def)

lemma io_device_list [simp]: "list_data (st_connection_list io_device) = [1]"
  by (simp add: io_device_def list_data_def walk.simps)

lemma ForwardClose_by_originator_only_witness:
  "\<exists>req' resp' g. ForwardClose (call_function example_env 3) (zero_address\<lparr>sin_addr := 1\<rparr>) (example_request (replicate 11 0))
       example_response io_device = Some (kEipStatusOkSend, req', resp', io_device\<lparr>st_cpf := g\<rparr>)
     \<and> general_status resp' = kCipErrorPrivilegeViolation"
proof -
  have d: "req_data (example_request (replicate 11 0)) = [0, 0] @ le_octets 2 (0 :: 16 word) @ le_octets 2 (0 :: 16 word) @ le_octets 4 (0 :: 32 word) @ 0 # []"
    by (simp add: example_request_def numeral_eq_Suc le_octets_Suc)
  have "closable 0 0 0 io_connection" "connection_close_function io_connection = Some FnCloseConnection"
    by (simp_all add: closable_def) (simp_all add: io_connection_def class3_connection_def ConnectionObjectInitializeEmpty_def)
  then show ?thesis
    using ForwardClose_by_originator_only [OF d, of example_response io_device "call_function example_env 3" "zero_address\<lparr>sin_addr := 1\<rparr>"]
    by (auto simp: zero_address_def)
qed

lemma ForwardOpen_refused_witness:
  "\<exists>req' resp' st'. ForwardOpenRoutine example_env example_registry (call_function example_env 3) zero_address 1
       (example_request (replicate 35 0)) example_response (upd_io (\<lambda>i. i\<lparr>os_rand := [5]\<rparr>) io_device) = Some (kEipStatusOkSend, req', resp', st')
     \<and> general_status resp' = kCipErrorConnectionFailure \<and> additional_status resp' = [0x0132, 0]"
proof -
  let ?st = "upd_io (\<lambda>i. i\<lparr>os_rand := [5]\<rparr>) io_device"
  have number: "GenerateRandomConnectionNumber ?st = Some (5, upd_io (\<lambda>i. i\<lparr>os_rand := []\<rparr>) io_device)"
    by (simp add: GenerateRandomConnectionNumber_def draw_number_first upd_io_def Let_def)
      (simp add: io_device_def io_connection_def class3_connection_def ConnectionObjectInitializeEmpty_def)
  obtain req1 st1 where "read_open_request zero_address 1 (example_request (replicate 35 0)) ?st = Some (req1, st1)"
      "refusal zero_address (st_objects st1 g_dummy_connection_object) st1 = Some 0x0132"
  proof -
    have z: "replicate 35 (0 :: octet) = [0, 0, 0, 0, 0, 0, 0, 0, 0, 0, 0, 0, 0, 0, 0, 0, 0, 0, 0, 0, 0, 0, 0, 0, 0, 0, 0, 0, 0, 0, 0, 0, 0, 0, 0]"
      by (simp add: numeral_eq_Suc)
    obtain c where c: "ConnectionObjectInitializeFromMessage 5 (replicate 35 0) io_connection = Some (c, [])"
        "o_to_t_network_connection_parameters c = 0" "t_to_o_network_connection_parameters c = 0" "\<not> is_large_forward_open c"
      unfolding z
      by (simp add: ConnectionObjectInitializeFromMessage_def advance_def read_connection_parameters_def Let_def
          ConnectionObjectSetInitialInactivityWatchdogTimerValue_def ConnectionObjectCalculateRegularInactivityWatchdogTimerValue_def
          ConnectionObjectSetExpectedPacketRate_def io_connection_def class3_connection_def ConnectionObjectInitializeEmpty_def)
    have "st_objects (upd_io (\<lambda>i. i\<lparr>os_rand := []\<rparr>) io_device) = (\<lambda>_. io_connection)" by (simp add: upd_io_def)
    then show ?thesis
      using c number that
      by (simp add: read_open_request_def example_request_def refusal_def ConnectionObjectGetOToTConnectionType_def
          ConnectionObjectGetTToOConnectionType_def ConnectionObjectGetConnectionType_def Let_def)
  qed
  from ForwardOpen_refused [OF this(1) _ _ this(2), of example_response example_env example_registry "call_function example_env 3"]
  show ?thesis by (auto simp: example_response_def)
qed


text \<open>A forward open request to the message router, on the device with one established I/O connection.\<close>

definition dialog_request :: "octet list" where
  "dialog_request = [0, 0, 0, 0, 0, 0, 9, 0, 0, 0, 1, 0, 2, 0, 3, 0, 0, 0, 0, 0, 0, 0, 0x10, 0x27, 0, 0, 0, 0x43,
     0x10, 0x27, 0, 0, 0, 0x43, 0xA3, 2, 0x20, 2, 0x24, 1]"

definition dialog_registry :: "unit registry" where
  "dialog_registry = [\<lparr>class_inst = \<lparr>inst_number = 0, attributes = []\<rparr>, meta_class = empty_core, core = empty_core,
     class_code = kCipMessageRouterClassCode, revision = 1, max_instance = 1, number_of_instances = 1,
     instances = [\<lparr>inst_number = 1, attributes = []\<rparr>], class_name = ''message router''\<rparr>]"

definition dialog_device :: "unit io_stack" where
  "dialog_device = io_device\<lparr>st_objects := (\<lambda>_. ConnectionObjectInitializeEmpty)(1 := io_connection),
     st_app := (st_app io_device)\<lparr>g_connection_management_list :=
       [\<lparr>cm_class_id = kCipMessageRouterClassCode, open_connection_function = Some OpenEstablishClass3Connection\<rparr>],
       cm_rest := (cm_rest (st_app io_device))\<lparr>os_rand := [5]\<rparr>\<rparr>\<rparr>"

lemma dialog_device_simps [simp]:
  "st_connection_list dialog_device = st_connection_list io_device" "st_objects dialog_device (Suc 0) = io_connection"
  "st_objects dialog_device 1 = io_connection" "connection_number io_connection = 0" "os_rand (io dialog_device) = [5]"
  by (simp_all add: dialog_device_def io_connection_def class3_connection_def ConnectionObjectInitializeEmpty_def)

definition dialog_start :: "io_fn connection_fn connection_object" where
  "dialog_start = the (map_option fst (ConnectionObjectInitializeFromMessage 5 dialog_request ConnectionObjectInitializeEmpty))"

definition dialog_object :: "io_fn connection_fn connection_object" where
  "dialog_object = dialog_start\<lparr>associated_encapsulation_session := 1, originator_address := zero_address\<rparr>"

lemma dialog_start:
  "ConnectionObjectInitializeFromMessage 5 dialog_request ConnectionObjectInitializeEmpty = Some (dialog_start, [2, 0x20, 2, 0x24, 1])"
  by (simp add: dialog_start_def dialog_request_def ConnectionObjectInitializeFromMessage_def advance_def read_connection_parameters_def Let_def
      ConnectionObjectSetInitialInactivityWatchdogTimerValue_def ConnectionObjectCalculateRegularInactivityWatchdogTimerValue_def
      ConnectionObjectSetExpectedPacketRate_def ConnectionObjectInitializeEmpty_def)

lemma dialog_object_simps [simp]:
  "o_to_t_network_connection_parameters dialog_object = 0x4300" "t_to_o_network_connection_parameters dialog_object = 0x4300"
  "connection_serial_number dialog_object = 1" "originator_vendor_id dialog_object = 2" "originator_serial_number dialog_object = 3"
  "transport_class_trigger dialog_object = 0xA3" "cip_produced_connection_id dialog_object = 9"
  "is_large_forward_open dialog_object = False" "co_state dialog_object = 0"
  by (simp_all add: dialog_object_def dialog_start_def dialog_request_def ConnectionObjectInitializeFromMessage_def advance_def read_connection_parameters_def Let_def
      ConnectionObjectSetInitialInactivityWatchdogTimerValue_def ConnectionObjectCalculateRegularInactivityWatchdogTimerValue_def
      ConnectionObjectSetExpectedPacketRate_def ConnectionObjectInitializeEmpty_def)

lemma dialog_types [simp]:
  "ConnectionObjectGetOToTConnectionType dialog_object = ConnectionTypePointToPoint"
  "ConnectionObjectGetTToOConnectionType dialog_object = ConnectionTypePointToPoint"
  "ConnectionObjectGetTransportClassTriggerTransportClass dialog_object = TransportClass3"
  "ConnectionObjectGetTransportClassTriggerProductionTrigger dialog_object = ProductionTriggerApplicationObject"
  by (simp_all add: ConnectionObjectGetTransportClassTriggerTransportClass_def ConnectionObjectGetOToTConnectionType_def
        ConnectionObjectGetTToOConnectionType_def ConnectionObjectGetConnectionType_def Let_def ConnectionObjectGetTransportClassTriggerProductionTrigger_def)

definition dialog_read :: "unit io_stack" where
  "dialog_read = store_object g_dummy_connection_object dialog_object (upd_io (\<lambda>i. i\<lparr>os_rand := []\<rparr>) dialog_device)"

lemma dialog_read:
  "read_open_request zero_address 1 (example_request dialog_request) dialog_device
     = Some ((example_request dialog_request)\<lparr>req_data := [2, 0x20, 2, 0x24, 1]\<rparr>, dialog_read)"
proof -
  have "GenerateRandomConnectionNumber dialog_device = Some (5, upd_io (\<lambda>i. i\<lparr>os_rand := []\<rparr>) dialog_device)"
    by (simp add: GenerateRandomConnectionNumber_def draw_number_first upd_io_def Let_def)
  moreover have "st_objects dialog_device g_dummy_connection_object = ConnectionObjectInitializeEmpty"
    by (simp add: dialog_device_def g_dummy_connection_object_def)
  ultimately show ?thesis
    using dialog_start by (simp add: read_open_request_def example_request_def dialog_read_def dialog_object_def upd_io_def)
qed

lemma dialog_read_simps [simp]:
  "st_objects dialog_read g_dummy_connection_object = dialog_object" "st_objects dialog_read (Suc 0) = io_connection"
  "st_connection_list dialog_read = st_connection_list io_device" "g_config_data_length (st_app dialog_read) = 0"
  "g_config_data_buffer (st_app dialog_read) = None"
  by (simp_all add: dialog_read_def upd_io_def g_dummy_connection_object_def)
    (simp_all add: dialog_device_def io_device_def)

lemma dialog_not_refused: "refusal zero_address (st_objects dialog_read g_dummy_connection_object) dialog_read = None"
  by (simp add: refusal_def EqualConnectionTriad_def)
    (simp add: io_connection_def class3_connection_def ConnectionObjectInitializeEmpty_def)

definition dialog_parsed :: "unit io_stack" where
  "dialog_parsed = store_object g_dummy_connection_object (dialog_object\<lparr>production_inhibit_time := 256,
     configuration_path := \<lparr>cp_class_id = 2, cp_instance_id = 1, cp_connection_point = 0\<rparr>,
     produced_path := \<lparr>cp_class_id = 2, cp_instance_id = 1, cp_connection_point = 0\<rparr>\<rparr>) dialog_read"

lemma dialog_parsed:
  "parse_request_path dialog_registry ((example_request dialog_request)\<lparr>req_data := [2, 0x20, 2, 0x24, 1]\<rparr>) dialog_read
     = Some (kCipErrorSuccess, 0, (example_request dialog_request)\<lparr>req_data := []\<rparr>, dialog_parsed)"
proof -
  have lookup: "GetCipClass dialog_registry 2 = Some (hd dialog_registry)" "GetCipInstance (hd dialog_registry) 1 \<noteq> None"
    by (simp_all add: dialog_registry_def GetCipClass_def GetRegisteredObject_def GetCipInstance_def kCipMessageRouterClassCode_def)
  have class3: "ConnectionObjectGetTransportClassTriggerTransportClass (dialog_object\<lparr>production_inhibit_time := t\<rparr>) = TransportClass3" for t
    by (simp add: ConnectionObjectGetTransportClassTriggerTransportClass_def)
  have sz: "request_data_size (example_request dialog_request) = 40" by (simp add: example_request_def dialog_request_def)
  have st: "dialog_parsed = dialog_parsed\<lparr>st_app := (st_app dialog_read)\<lparr>g_config_data_length := 0, g_config_data_buffer := None\<rparr>\<rparr>"
    by (simp add: dialog_parsed_def dialog_read_def upd_io_def) (simp add: dialog_device_def io_device_def)
  show ?thesis
    using lookup
    by (subst st) (simp add: parse_request_path_def ParseConnectionPath_def sz parse_path_def path_then_def parse_no_key parse_no_pit parse_class_segment
        parse_instance_segment path_ok_def parse_end_point_def parse_class3_def class3 g_kForwardOpenHeaderLength_def
        kCipMessageRouterClassCode_def Let_def dialog_parsed_def)
qed

lemma dialog_parsed_simps:
  "active dialog_parsed [(0, 1)]" "st_objects dialog_parsed (Suc 0) = io_connection"
  "ConnectionObjectGetOToTConnectionType (st_objects dialog_parsed g_dummy_connection_object) = ConnectionTypePointToPoint"
  "ConnectionObjectGetTToOConnectionType (st_objects dialog_parsed g_dummy_connection_object) = ConnectionTypePointToPoint"
  "is_large_forward_open (st_objects dialog_parsed g_dummy_connection_object) = False"
  "fst (GetConnectionId dialog_parsed) = 1" "length (snd (st_connection_list dialog_parsed)) = 2"
proof -
  show "active dialog_parsed [(0, 1)]" "length (snd (st_connection_list dialog_parsed)) = 2"
    by (auto simp: active_def dll_rep_def dialog_parsed_def io_device_def last_opt_def less_Suc_eq)
  show "fst (GetConnectionId dialog_parsed) = 1"
    by (simp add: GetConnectionId_def dialog_parsed_def dialog_read_def upd_io_def Let_def) (simp add: dialog_device_def io_device_def)
qed (simp_all add: dialog_parsed_def g_dummy_connection_object_def ConnectionObjectGetOToTConnectionType_def
      ConnectionObjectGetTToOConnectionType_def ConnectionObjectGetConnectionType_def Let_def)

lemma dialog_free: "GetFreeExplicitConnection dialog_parsed = Some 2"
  by (simp add: GetFreeExplicitConnection_def OPENER_CIP_NUM_EXPLICIT_CONNS_def upt_rec
      explicit_connection_object_pool_def dialog_parsed_def dialog_read_def upd_io_def g_dummy_connection_object_def)
   (simp add: dialog_device_def ConnectionObjectGetState_def ConnectionObjectInitializeEmpty_def
      io_connection_def class3_connection_def)

lemma ForwardOpen_success_reply_witness:
  "\<exists>req' resp' st'. ForwardOpenRoutine example_env dialog_registry (call_function example_env 3) zero_address 1
       (example_request dialog_request) example_response dialog_device = Some (kEipStatusOkSend, req', resp', st')
     \<and> general_status resp' = kCipErrorSuccess \<and> reply_service resp' = 0xD4 \<and> list_data (st_connection_list st') = [2, 1]"
proof -
  have live: "\<forall>b\<in>snd ` set [(0 :: nat, 1)]. ConnectionObjectGetState (st_objects dialog_parsed b) \<noteq> kConnectionObjectStateNonExistent"
    by (simp add: dialog_parsed_simps)
  have room: "length [(0 :: nat, 1 :: nat)] < length (snd (st_connection_list dialog_parsed))" by (simp add: dialog_parsed_simps)
  obtain i c st' where st': "EstablishClass3Connection g_dummy_connection_object 0 dialog_parsed = Some (kCipErrorSuccess, 0, st')"
      "active st' [(i, 2), (0, 1)]" "st_objects st' = (st_objects dialog_parsed)(2 := c)" "\<not> is_large_forward_open c"
    by (rule EstablishClass3Connection_establishes [OF dialog_parsed_simps(1) live room dialog_parsed_simps(3,4) dialog_free, of 0])
      (auto simp: dialog_parsed_simps(5))
  have "GetConnectionManagementEntry 2 dialog_parsed = Some \<lparr>cm_class_id = 2, open_connection_function = Some OpenEstablishClass3Connection\<rparr>"
    by (simp add: GetConnectionManagementEntry_def dialog_parsed_def dialog_read_def upd_io_def)
      (simp add: dialog_device_def kCipMessageRouterClassCode_def)
  moreover have "cp_class_id (configuration_path (st_objects dialog_parsed g_dummy_connection_object)) = 2"
    by (simp add: dialog_parsed_def)
  ultimately have e: "establish_connection example_env dialog_registry (call_function example_env 3) dialog_parsed = Some (kCipErrorSuccess, 0, st')"
    using st'(1) by (simp add: establish_connection_def open_function_def)
  have "dll_rep (st_connection_list st') [(i, 2), (0, 1)]" using st'(2) by (simp add: active_def)
  then have "first_connection st' = Some 2" "list_data (st_connection_list st') = [2, 1]"
    using dll_rep_first dll_rep_node(1) [of "st_connection_list st'" "[]" i 2 "[(0, 1)]"] list_data_rep
    by (fastforce simp: first_connection_def)+
  with ForwardOpen_success_reply [OF dialog_read dialog_not_refused dialog_parsed e, of 2 example_response] st'(3,4)
  show ?thesis by auto
qed

end
