(* ===== verification/CipEthernetLink.thy ===== *)
theory CipEthernetLink
  imports CipTcpIp
begin

text \<open>
  The Ethernet link object (\<^verbatim>\<open>cip/cipethernetlink.c\<close>, without the counters) and the device level ring
  object (\<^verbatim>\<open>cip/cipdlr.c\<close>). The objects lie in the memory of the attributes: the dummy attributes from the
  address \<open>p\<close> on, and \<^verbatim>\<open>g_ethernet_link[idx]\<close> in the block of 16 cells behind it, the attribute with the number \<open>n\<close> in the cell \<open>n\<close>
  of its block. The build switches \<^verbatim>\<open>OPENER_ETHLINK_INSTANCE_CNT\<close>, \<^verbatim>\<open>OPENER_ETHLINK_IFACE_CTRL_ENABLE\<close> and
  \<^verbatim>\<open>OPENER_ETHLINK_LABEL_ENABLE\<close> are a record.
\<close>

unbundle bit_operations_syntax

record ethlink_build =
  ethlink_instance_cnt :: nat
  ethlink_iface_ctrl :: bool
  ethlink_label :: bool

definition kCipEthernetLinkClassCode :: CipUdint where
  "kCipEthernetLinkClassCode = 0xF6"

abbreviation (input) kEthLinkIfCntrlAutonegotiate :: CipWord where "kEthLinkIfCntrlAutonegotiate \<equiv> 0x01"
abbreviation (input) kEthLinkIfCntrlForceDuplexFD :: CipWord where "kEthLinkIfCntrlForceDuplexFD \<equiv> 0x02"
abbreviation (input) kEthLinkIfCntrlMaxValid :: CipWord where "kEthLinkIfCntrlMaxValid \<equiv> 0x03"
abbreviation (input) kEthLinkCapAutoNeg :: CipDword where "kEthLinkCapAutoNeg \<equiv> 0x02"
abbreviation (input) kEthLinkSpeedDpx_100_FD :: "16 word" where "kEthLinkSpeedDpx_100_FD \<equiv> 0x08"
abbreviation (input) kEthLinkIfTypeInternal :: CipUsint where "kEthLinkIfTypeInternal \<equiv> 0x01"
abbreviation (input) kEthLinkIfTypeTwistedPair :: CipUsint where "kEthLinkIfTypeTwistedPair \<equiv> 0x02"

definition link_cell :: "nat \<Rightarrow> nat \<Rightarrow> nat \<Rightarrow> nat" where
  "link_cell p idx n = p + 16 * Suc idx + n"

text \<open>The speeds in Mbit/s with the duplex modes (1 is full duplex).\<close>

definition speed_duplex_table :: "(CipUint \<times> CipUsint) list" where
  "speed_duplex_table = [(10, 0), (10, 1), (100, 0), (100, 1), (1000, 0), (1000, 1)]"

subsection \<open>Encoders\<close>

definition EncodeCipEthernetLinkInterfaceCounters :: encode_fn where
  "EncodeCipEthernetLinkInterfaceCounters data m = FillNextNMessageOctetsWithValueAndMoveToNextPosition 0 44 m"

definition EncodeCipEthernetLinkMediaCounters :: encode_fn where
  "EncodeCipEthernetLinkMediaCounters data m = FillNextNMessageOctetsWithValueAndMoveToNextPosition 0 48 m"

text \<open>Without settable interface control the encoder writes a constant, whatever its argument.\<close>

definition s_interface_control :: cip_value where
  "s_interface_control = VStruct [V16 0, V16 0]"

definition EncodeCipEthernetLinkInterfaceControl :: "ethlink_build \<Rightarrow> encode_fn" where
  "EncodeCipEthernetLinkInterfaceControl b v m =
     (case (if ethlink_iface_ctrl b then v else s_interface_control) of
        VStruct [control_bits, forced_interface_speed] \<Rightarrow> do {
          m \<leftarrow> EncodeCipWord control_bits m;
          EncodeCipUint forced_interface_speed m }
      | _ \<Rightarrow> None)"

lemma clear_lowest_less: "(w :: 'a :: len word) \<noteq> 0 \<Longrightarrow> w AND (w - 1) < w"
proof -
  assume w: "w \<noteq> 0"
  have "w AND (w - 1) \<le> w - 1" by (rule word_and_le1)
  also have "w - 1 < w" using w unat_gt_0 [of w] by (simp add: word_less_nat_alt unat_minus_one del: unat_gt_0)
  finally show ?thesis .
qed

text \<open>The loop that clears the least significant bit and counts.\<close>

function count_selected :: "16 word \<Rightarrow> CipUsint \<Rightarrow> CipUsint" where
  "count_selected selected count =
     (if selected = 0 then count else count_selected (selected AND (selected - 1)) (count + 1))"
  by auto
termination
  by (relation "measure (unat \<circ> fst)") (auto simp: word_less_nat_alt [symmetric] dest: clear_lowest_less)

declare count_selected.simps [simp del]

text \<open>The loop over the table, from the index \<open>i\<close> on.\<close>

fun encode_speed_duplex :: "16 word \<Rightarrow> nat \<Rightarrow> (CipUint \<times> CipUsint) list \<Rightarrow> enip_message \<Rightarrow> enip_message option" where
  "encode_speed_duplex selector i [] m = Some m"
| "encode_speed_duplex selector i ((speed, duplex) # es) m =
     (if bit selector i then do {
        m \<leftarrow> EncodeCipUint (V16 speed) m;
        m \<leftarrow> EncodeCipUsint (V8 duplex) m;
        encode_speed_duplex selector (Suc i) es m
      } else encode_speed_duplex selector (Suc i) es m)"

definition EncodeCipEthernetLinkInterfaceCaps :: encode_fn where
  "EncodeCipEthernetLinkInterfaceCaps v m =
     (case v of
        VStruct [capability_bits, V16 selector] \<Rightarrow> do {
          m \<leftarrow> EncodeCipDword capability_bits m;
          m \<leftarrow> EncodeCipUsint (V8 (count_selected selector 0)) m;
          encode_speed_duplex selector 0 speed_duplex_table m }
      | _ \<Rightarrow> None)"

subsection \<open>Interface control\<close>

fun uint_of :: "cip_value \<Rightarrow> CipUint option" where
  "uint_of (V16 v) = Some v"
| "uint_of _ = None"

text \<open>The selector of an instance, from the memory; an index behind the array has none.\<close>

definition link_selector :: "ethlink_build \<Rightarrow> nat \<Rightarrow> app_memory \<Rightarrow> CipInstanceNum \<Rightarrow> 16 word option" where
  "link_selector b p mem instance_id = do {
     let idx = unat (instance_id - 1);
     guard (idx < ethlink_instance_cnt b);
     (case mem (link_cell p idx 11) of VStruct [_, V16 selector] \<Rightarrow> Some selector | _ \<Rightarrow> None) }"

definition mode_supported :: "16 word \<Rightarrow> CipUsint \<Rightarrow> CipUint \<Rightarrow> bool" where
  "mode_supported selector duplex_mode speed \<longleftrightarrow>
     list_ex (\<lambda>i. bit selector i \<and> speed_duplex_table ! i = (speed, duplex_mode)) [0..<length speed_duplex_table]"

definition IsIfaceControlAllowed ::
    "ethlink_build \<Rightarrow> nat \<Rightarrow> app_memory \<Rightarrow> CipInstanceNum \<Rightarrow> CipWord \<Rightarrow> CipUint \<Rightarrow> bool option" where
  "IsIfaceControlAllowed b p mem instance_id control_bits forced_interface_speed = do {
     let duplex_mode = (if control_bits AND kEthLinkIfCntrlForceDuplexFD \<noteq> 0 then 1 else 0);
     selector \<leftarrow> link_selector b p mem instance_id;
     Some (mode_supported selector duplex_mode forced_interface_speed) }"

text \<open>\<open>objects\<close> and \<open>mem\<close> are the registered classes and the memory of the attributes at the time of the call.\<close>

definition DecodeCipEthernetLinkInterfaceControl ::
    "ethlink_build \<Rightarrow> nat \<Rightarrow> 'svc registry \<Rightarrow> app_memory \<Rightarrow> decode_fn" where
  "DecodeCipEthernetLinkInterfaceControl b p objects mem old req resp = do {
     c \<leftarrow> GetCipClass objects (ucast (class_id (request_path req)));
     let inst = GetCipInstance c (instance_number (request_path req));
     (_, bits, req, resp) \<leftarrow> DecodeCipWord (V16 0) req resp;
     (_, speed, req, resp) \<leftarrow> DecodeCipUint (V16 0) req resp;
     control_bits \<leftarrow> uint_of bits;
     forced_interface_speed \<leftarrow> uint_of speed;
     let refuse = (\<lambda>status. Some (-1, old, req, resp\<lparr>general_status := status\<rparr>));
     let accept = Some (4, VStruct [V16 control_bits, V16 forced_interface_speed], req, resp\<lparr>general_status := kCipErrorSuccess\<rparr>);
     if control_bits > kEthLinkIfCntrlMaxValid then refuse kCipErrorInvalidAttributeValue
     else if control_bits AND kEthLinkIfCntrlAutonegotiate \<noteq> 0
        \<and> (control_bits AND kEthLinkIfCntrlForceDuplexFD \<noteq> 0 \<or> forced_interface_speed \<noteq> 0)
     then refuse kCipErrorObjectStateConflict
     else if control_bits AND kEthLinkIfCntrlAutonegotiate = 0 then do {
       i \<leftarrow> inst;
       allowed \<leftarrow> IsIfaceControlAllowed b p mem (inst_number i) control_bits forced_interface_speed;
       if \<not> allowed then refuse kCipErrorInvalidAttributeValue else accept
     } else accept }"

subsection \<open>The class\<close>

definition iface_label_table :: "cip_short_string list" where
  "iface_label_table = map (\<lambda>s. \<lparr>ss_length = of_nat (length s), ss_string = Some (map (of_nat \<circ> of_char) s)\<rparr>)
     [''PORT 1'', ''PORT 2'', ''PORT internal'']"

text \<open>The values \<^verbatim>\<open>CipEthernetLinkInit\<close> stores in one instance.\<close>

definition init_link :: "ethlink_build \<Rightarrow> nat \<Rightarrow> nat \<Rightarrow> app_memory \<Rightarrow> app_memory" where
  "init_link b p idx mem =
     (let mem = mem(link_cell p idx 1 := V32 100, link_cell p idx 2 := V32 0xF,
            link_cell p idx 7 := V8 (if idx = 2 then kEthLinkIfTypeInternal else kEthLinkIfTypeTwistedPair));
          mem = (if ethlink_label b then mem(link_cell p idx 10 := VShortString (iface_label_table ! idx)) else mem);
          mem = mem(link_cell p idx 11 := VStruct [V32 kEthLinkCapAutoNeg, V16 kEthLinkSpeedDpx_100_FD])
      in if ethlink_iface_ctrl b then mem(link_cell p idx 6 := VStruct [V16 kEthLinkIfCntrlAutonegotiate, V16 0]) else mem)"

definition link_rows :: "ethlink_build \<Rightarrow> decode_fn \<Rightarrow> nat \<Rightarrow> nat \<Rightarrow> attribute_row list" where
  "link_rows b dec p idx =
     (let cell = (\<lambda>n. Obj (link_cell p idx n));
          iface_ctrl_access_mode = kSetAndGetAble OR kNvDataFunc
      in [(1, kCipUdint, EncodeCipUdint, None, cell 1, kGetableSingleAndAll),
          (2, kCipDword, EncodeCipDword, None, cell 2, kGetableSingleAndAll),
          (3, kCip6Usint, EncodeCipEthernetLinkPhyisicalAddress, None, cell 3, kGetableSingleAndAll),
          (4, kCipAny, EncodeCipEthernetLinkInterfaceCounters, None, Obj (p + 1), kGetableAllDummy),
          (5, kCipAny, EncodeCipEthernetLinkMediaCounters, None, Obj (p + 1), kGetableAllDummy),
          (if ethlink_iface_ctrl b
           then (6, kCipAny, EncodeCipEthernetLinkInterfaceControl b, Some dec, cell 6,
                 if idx = 2 then iface_ctrl_access_mode AND NOT kSetable else iface_ctrl_access_mode)
           else (6, kCipAny, EncodeCipEthernetLinkInterfaceControl b, None, Obj (p + 2), kGetableAll)),
          (7, kCipUsint, EncodeCipUsint, None, cell 7, kGetableSingleAndAll),
          (8, kCipUsint, EncodeCipUsint, None, Obj p, kGetableAllDummy),
          (9, kCipUsint, EncodeCipUsint, None, Obj p, kGetableAllDummy),
          (10, kCipShortString, EncodeCipShortString, None, cell 10,
             if ethlink_label b then kGetableSingleAndAll else kGetableAll),
          (11, kCipAny, EncodeCipEthernetLinkInterfaceCaps, None, cell 11, kGetableSingleAndAll)])"

fun bind_links :: "ethlink_build \<Rightarrow> decode_fn \<Rightarrow> nat \<Rightarrow> nat list \<Rightarrow> 'svc cip_class \<Rightarrow> 'svc cip_class option" where
  "bind_links b dec p [] c = Some c"
| "bind_links b dec p (idx # is) c = do {
     c \<leftarrow> setup_instance (of_nat (idx + 1)) (link_rows b dec p idx) [] c;
     bind_links b dec p is c }"

text \<open>\<open>dec\<close> is the decoder of the interface control.\<close>

definition CipEthernetLinkInit ::
    "ethlink_build \<Rightarrow> decode_fn \<Rightarrow> nat \<Rightarrow> 'u std_service registry \<Rightarrow> app_memory
      \<Rightarrow> (EipStatus \<times> 'u std_service registry \<times> app_memory) option" where
  "CipEthernetLinkInit b dec p objects mem = do {
     (c, objects) \<leftarrow> CreateCipClass objects kCipEthernetLinkClassCode 0 7 2 11 11 (2 + (if ethlink_iface_ctrl b then 1 else 0))
        (of_nat (ethlink_instance_cnt b)) ''Ethernet Link'' 4 None;
     let mem = fold (init_link b p) [0..<ethlink_instance_cnt b] mem;
     cc \<leftarrow> insert_services ([(kGetAttributeSingle, SvcGetAttributeSingle, ''GetAttributeSingle''),
         (kGetAttributeAll, SvcGetAttributeAll, ''GetAttributeAll'')]
        @ (if ethlink_iface_ctrl b then [(kSetAttributeSingle, SvcSetAttributeSingle, ''SetAttributeSingle'')] else [])) (core c);
     c \<leftarrow> bind_links b dec p [0..<ethlink_instance_cnt b] (c\<lparr>core := cc\<rparr>);
     Some (kEipStatusOk, store_class kCipEthernetLinkClassCode c objects, mem) }"

definition CipEthernetLinkSetMac :: "ethlink_build \<Rightarrow> nat \<Rightarrow> octet list \<Rightarrow> app_memory \<Rightarrow> app_memory option" where
  "CipEthernetLinkSetMac b p physical_address mem = do {
     mac \<leftarrow> copy_octets 6 physical_address;
     Some (fold (\<lambda>idx mem. mem(link_cell p idx 3 := VOctets mac)) [0..<ethlink_instance_cnt b] mem) }"

subsection \<open>Device level ring\<close>

text \<open>
  The object \<^verbatim>\<open>g_dlr\<close> and the defaults of the missing attributes lie from the address \<open>d\<close> on, the
  attribute with the number \<open>n\<close> at \<open>d + n\<close>.
\<close>

definition kCipDlrClassCode :: CipUdint where
  "kCipDlrClassCode = 0x47"

text \<open>The constants that stand for attributes the device does not implement.\<close>

definition dlr_statics :: "nat \<Rightarrow> app_memory \<Rightarrow> app_memory" where
  "dlr_statics d mem = mem(d + 3 := V8 0xFF, d + 4 := V32 0, d + 5 := V16 0,
     d + 6 := VStruct [V32 0, VOctets (replicate 6 0)], d + 8 := V16 0xFFFF, d + 11 := V8 0)"

definition EncodeCipRingSupervisorConfig :: encode_fn where
  "EncodeCipRingSupervisorConfig data m = FillNextNMessageOctetsWithValueAndMoveToNextPosition 0 12 m"

definition EncodeCipNodeAddress :: encode_fn where
  "EncodeCipNodeAddress v m =
     (case v of
        VStruct [device_ip, device_mac] \<Rightarrow> do {
          m \<leftarrow> EncodeCipUdint device_ip m;
          EncodeCipEthernetLinkPhyisicalAddress device_mac m }
      | _ \<Rightarrow> None)"

definition dlr_rows :: "nat \<Rightarrow> attribute_row list" where
  "dlr_rows d =
     [(1, kCipUsint, EncodeCipUsint, None, Obj (d + 1), kGetableSingleAndAll),
      (2, kCipUsint, EncodeCipUsint, None, Obj (d + 2), kGetableSingleAndAll),
      (3, kCipUsint, EncodeCipUsint, None, Obj (d + 3), kGetableAll),
      (4, kCipAny, EncodeCipRingSupervisorConfig, None, Obj (d + 4), kGetableAllDummy),
      (5, kCipUint, EncodeCipUint, None, Obj (d + 5), kGetableAll),
      (6, kCipAny, EncodeCipNodeAddress, None, Obj (d + 6), kGetableAll),
      (7, kCipAny, EncodeCipNodeAddress, None, Obj (d + 6), kGetableAll),
      (8, kCipUint, EncodeCipUint, None, Obj (d + 8), kGetableAll),
      (10, kCipAny, EncodeCipNodeAddress, None, Obj (d + 10), kGetableSingleAndAll),
      (11, kCipUsint, EncodeCipUsint, None, Obj (d + 11), kGetableAll),
      (12, kCipDword, EncodeCipDword, None, Obj (d + 12), kGetableSingleAndAll)]"

definition CipDlrInit ::
    "nat \<Rightarrow> 'u std_service registry \<Rightarrow> app_memory \<Rightarrow> (EipStatus \<times> 'u std_service registry \<times> app_memory) option" where
  "CipDlrInit d objects mem = do {
     (c, objects) \<leftarrow> CreateCipClass objects kCipDlrClassCode 0 7 2 11 12 2 1 ''DLR'' 3 None;
     cc \<leftarrow> insert_services [(kGetAttributeSingle, SvcGetAttributeSingle, ''GetAttributeSingle''),
         (kGetAttributeAll, SvcGetAttributeAll, ''GetAttributeAll'')] (core c);
     c \<leftarrow> setup_instance 1 (dlr_rows d) [] (c\<lparr>core := cc\<rparr>);
     Some (kEipStatusOk, store_class kCipDlrClassCode c objects, mem(d + 12 := V32 0x82)) }"

subsection \<open>The announced modes\<close>

text \<open>The entries of the table with their bits set in a selector.\<close>

definition selected_modes :: "16 word \<Rightarrow> (CipUint \<times> CipUsint) list" where
  "selected_modes selector = nths speed_duplex_table {i. bit selector i}"

lemma speed_duplex_table_length: "length speed_duplex_table = 6"
  by (simp add: speed_duplex_table_def)

lemma and_minus_one_unset_lowest:
  fixes w :: "'a :: len word"
  assumes "bit w k" and "\<And>i. i < k \<Longrightarrow> \<not> bit w i"
  shows "w AND (w - 1) = unset_bit k w"
proof -
  let ?u = "unset_bit k w"
  have k: "k < LENGTH('a)" using assms(1) by (rule bit_imp_le_length)
  have "?u AND 2 ^ k = 0" by (rule bit_word_eqI) (auto simp: bit_simps)
  then have "?u + 2 ^ k = ?u OR 2 ^ k" by (rule disjunctive_add_eq_or)
  also have "\<dots> = w" using assms(1) k by (intro bit_word_eqI) (auto simp: bit_simps)
  finally have w: "w = ?u + 2 ^ k" ..
  have "?u AND mask k = 0" using assms(2) by (intro bit_word_eqI) (auto simp: bit_simps)
  then have "?u + mask k = ?u OR mask k" by (rule disjunctive_add_eq_or)
  moreover have "w - 1 = ?u + mask k" by (subst w) (simp add: mask_eq_exp_minus_1)
  ultimately have "w - 1 = ?u OR mask k" by simp
  then show ?thesis using assms k by (intro bit_word_eqI) (auto simp: bit_simps)
qed

lemma finite_bits [simp]: "finite {i. bit (w :: 'a :: len word) i}"
  by (rule finite_subset [of _ "{..<LENGTH('a)}"]) (auto dest: bit_imp_le_length)

lemma card_bits_clear_lowest:
  fixes w :: "'a :: len word"
  assumes "w \<noteq> 0"
  shows "card {i. bit w i} = Suc (card {i. bit (w AND (w - 1)) i})"
proof -
  have "\<exists>k. bit w k" using assms by (metis bit_0_eq bit_eq_iff bot2E bot_apply bot_bool_def)
  then obtain k where k: "bit w k" "\<And>i. i < k \<Longrightarrow> \<not> bit w i"
    using exists_least_iff [of "bit w"] by auto
  have "{i. bit w i} = insert k {i. bit (unset_bit k w) i}"
    using k(1) by (auto simp: bit_simps dest: bit_imp_le_length)
  moreover have "k \<notin> {i. bit (unset_bit k w) i}" by (simp add: bit_simps)
  ultimately have "card {i. bit w i} = Suc (card {i. bit (unset_bit k w) i})"
    by (metis card_insert_disjoint finite_bits)
  then show ?thesis by (simp only: and_minus_one_unset_lowest [OF k])
qed

lemma count_selected_card: "count_selected selected count = count + of_nat (card {i. bit selected i})"
proof (induction selected count rule: count_selected.induct)
  case (1 selected count)
  show ?case
  proof (cases "selected = 0")
    case False
    then show ?thesis
      using 1 card_bits_clear_lowest [of selected] by (subst count_selected.simps) simp
  qed (simp add: count_selected.simps)
qed

lemma encode_speed_duplex_emit:
  "Option.bind (emit bs m) (encode_speed_duplex selector i es) =
     emit (bs @ concat (map (\<lambda>(s, d). le_octets 2 s @ [d]) (nths es {j. bit selector (i + j)}))) m"
proof (induction es arbitrary: i bs)
  case Nil
  then show ?case by (cases "emit bs m") simp_all
next
  case (Cons e es)
  obtain s d where e: "e = (s, d)" by fastforce
  show ?case
  proof (cases "bit selector i")
    case True
    then have "encode_speed_duplex selector i (e # es) =
        (\<lambda>m. Option.bind (emit (le_octets 2 s @ [d]) m) (encode_speed_duplex selector (Suc i) es))"
      by (intro ext) (simp add: e message_ops)
    then show ?thesis using True Cons.IH [of "bs @ le_octets 2 s @ [d]" "Suc i"] by (simp add: e nths_Cons emit_bind)
  next
    case False
    then show ?thesis using Cons.IH [of bs "Suc i"] by (simp add: e nths_Cons)
  qed
qed

text \<open>
  C40: The interface capabilities are sent as the capability bits, the number of bits set in the selector, counted by
  clearing one bit after the other, and the speed and duplex mode of every entry of the table whose bit is set, in the order of
  the table. The announced number is the number of entries that follow, plus the bits behind the end of the table.
\<close>
theorem EncodeCipEthernetLinkInterfaceCaps_octets:
  "EncodeCipEthernetLinkInterfaceCaps (VStruct [V32 capability_bits, V16 selector]) m =
     emit (le_octets 4 capability_bits @ [of_nat (card {i. bit selector i})]
       @ concat (map (\<lambda>(speed, duplex). le_octets 2 speed @ [duplex]) (selected_modes selector))) m
   \<and> card {i. bit selector i} = length (selected_modes selector) + card {i. 6 \<le> i \<and> bit selector i}"
proof -
  have "card {i. bit selector i} = card ({i. i < 6 \<and> bit selector i} \<union> {i. 6 \<le> i \<and> bit selector i})"
    by (rule arg_cong [of _ _ card]) auto
  also have "\<dots> = card {i. i < 6 \<and> bit selector i} + card {i. 6 \<le> i \<and> bit selector i}"
    by (rule card_Un_disjoint) (auto intro: finite_subset [OF _ finite_bits [of selector]])
  finally have "card {i. bit selector i} = length (selected_modes selector) + card {i. 6 \<le> i \<and> bit selector i}"
    by (simp add: selected_modes_def length_nths speed_duplex_table_length)
  then show ?thesis
    using encode_speed_duplex_emit [of "le_octets 4 capability_bits @ [of_nat (card {i. bit selector i})]" m selector 0 speed_duplex_table]
    by (simp add: EncodeCipEthernetLinkInterfaceCaps_def EncodeCipDword_def message_ops count_selected_card selected_modes_def)
qed

lemma mode_supported_iff: "mode_supported selector duplex speed \<longleftrightarrow> (speed, duplex) \<in> set (selected_modes selector)"
  by (auto simp: mode_supported_def selected_modes_def set_nths list_ex_iff) metis

lemma decode_word: "DecodeCipWord (V16 w) req resp = decode_with GetUintFromMessage V16 2 req resp"
  by (simp add: Get_aliases)

text \<open>
  Setting the interface control: automatic negotiation is accepted when nothing is forced with it, and a forced mode is accepted exactly
  when it is one of the modes that the capabilities of the addressed instance announce. An accepted value is stored and
  reported as four octets; otherwise the attribute keeps its value, and the status is Object State Conflict
  when automatic negotiation is combined with forced settings, and Invalid Attribute Value in all other cases.
\<close>
theorem DecodeCipEthernetLinkInterfaceControl_modes:
  assumes lookup: "GetCipClass objects (ucast (class_id (request_path req))) = Some c"
      "GetCipInstance c (instance_number (request_path req)) = Some i" "link_selector b p mem (inst_number i) = Some selector"
    and data: "req_data req = le_octets 2 control_bits @ le_octets 2 speed @ rest"
  shows "DecodeCipEthernetLinkInterfaceControl b p objects mem old req resp =
     (if control_bits = 1 \<and> speed = 0
        \<or> control_bits \<in> {0, 2} \<and> (speed, if control_bits = 2 then 1 else 0) \<in> set (selected_modes selector)
      then Some (4, VStruct [V16 control_bits, V16 speed], req\<lparr>req_data := rest\<rparr>, resp\<lparr>general_status := kCipErrorSuccess\<rparr>)
      else Some (-1, old, req\<lparr>req_data := rest\<rparr>,
        resp\<lparr>general_status := if control_bits \<in> {1, 3} then kCipErrorObjectStateConflict else kCipErrorInvalidAttributeValue\<rparr>))"
proof -
  have cases: "control_bits = 0 \<or> control_bits = 1 \<or> control_bits = 2 \<or> control_bits = 3 \<or> 3 < control_bits"
  proof (rule ccontr)
    assume "\<not> ?thesis"
    then have "unat control_bits \<le> 3" "unat control_bits \<notin> {0, 1, 2, 3}"
      by (auto simp: word_le_nat_alt linorder_not_less word_unat_eq_iff)
    then show False by auto
  qed
  have "DecodeCipEthernetLinkInterfaceControl b p objects mem old req resp =
     (let refuse = (\<lambda>status. Some (-1, old, req\<lparr>req_data := rest\<rparr>, resp\<lparr>general_status := status\<rparr>));
          accept = Some (4, VStruct [V16 control_bits, V16 speed], req\<lparr>req_data := rest\<rparr>, resp\<lparr>general_status := kCipErrorSuccess\<rparr>)
      in if control_bits > 3 then refuse kCipErrorInvalidAttributeValue
         else if control_bits AND 1 \<noteq> 0 \<and> (control_bits AND 2 \<noteq> 0 \<or> speed \<noteq> 0) then refuse kCipErrorObjectStateConflict
         else if control_bits AND 1 = 0 \<and> (speed, if control_bits AND 2 \<noteq> 0 then 1 else 0) \<notin> set (selected_modes selector)
         then refuse kCipErrorInvalidAttributeValue else accept)"
    unfolding DecodeCipEthernetLinkInterfaceControl_def lookup decode_fixed decode_word decode_with_def data Let_def
    by (simp add: uint.dec_enc data lookup IsIfaceControlAllowed_def mode_supported_iff Let_def)
  then show ?thesis using cases by (auto simp: Let_def)
qed


definition example_build :: ethlink_build where
  "example_build = \<lparr>ethlink_instance_cnt = 1, ethlink_iface_ctrl = True, ethlink_label = False\<rparr>"

definition example_link_class :: "unit cip_class" where
  "example_link_class = \<lparr>class_inst = \<lparr>inst_number = 0, attributes = []\<rparr>, meta_class = empty_core, core = empty_core,
     class_code = kCipEthernetLinkClassCode, revision = 4, max_instance = 1, number_of_instances = 1,
     instances = [\<lparr>inst_number = 1, attributes = []\<rparr>], class_name = ''Ethernet Link''\<rparr>"

definition example_link_request :: "octet list \<Rightarrow> mr_request" where
  "example_link_request d = \<lparr>req_service = 0x10, request_path = \<lparr>path_size = 3, class_id = 0xF6, instance_number = 1, attribute_number = 6\<rparr>,
     request_data_size = of_nat (length d), req_data = d\<rparr>"

lemma DecodeCipEthernetLinkInterfaceControl_modes_witness:
  "\<forall>resp. \<exists>req' resp'. DecodeCipEthernetLinkInterfaceControl example_build 0 [example_link_class] (init_link example_build 0 0 (\<lambda>_. V8 0))
     (VStruct [V16 1, V16 0]) (example_link_request [2, 0, 100, 0]) resp = Some (4, VStruct [V16 2, V16 100], req', resp')"
proof
  fix resp
  let ?req = "example_link_request [2, 0, 100, 0]" and ?inst = "\<lparr>inst_number = 1, attributes = []\<rparr> :: cip_instance"
  have path: "class_id (request_path ?req) = 0xF6" "instance_number (request_path ?req) = 1"
    by (simp_all add: example_link_request_def)
  have lookup: "GetCipClass [example_link_class] (ucast (class_id (request_path ?req))) = Some example_link_class"
      "GetCipInstance example_link_class (instance_number (request_path ?req)) = Some ?inst"
    unfolding path
    by (simp_all add: example_link_class_def kCipEthernetLinkClassCode_def GetCipClass_def GetRegisteredObject_def GetCipInstance_def)
  have sel: "link_selector example_build 0 (init_link example_build 0 0 (\<lambda>_. V8 0)) (inst_number ?inst) = Some 8"
    by (simp add: link_selector_def example_build_def init_link_def Let_def link_cell_def)
  have data: "req_data ?req = le_octets 2 (2 :: 16 word) @ le_octets 2 (100 :: 16 word) @ []"
    by (simp add: example_link_request_def le_octets_2)
  have "(100, 1) \<in> set (selected_modes 8)"
    by (simp add: selected_modes_def set_nths speed_duplex_table_def) (rule exI [of _ 3], simp)
  then show "\<exists>req' resp'. DecodeCipEthernetLinkInterfaceControl example_build 0 [example_link_class] (init_link example_build 0 0 (\<lambda>_. V8 0))
     (VStruct [V16 1, V16 0]) ?req resp = Some (4, VStruct [V16 2, V16 100], req', resp')"
    using DecodeCipEthernetLinkInterfaceControl_modes [OF lookup sel data, of "VStruct [V16 1, V16 0]" resp] by simp
qed

end
