(* ===== verification/StandardObjects.thy ===== *)
theory StandardObjects
  imports CipEthernetLink ForwardOpen IoData
begin

text \<open>
  The identity class (\<^verbatim>\<open>CipIdentityInit\<close> of \<^verbatim>\<open>cip/cipidentity.c\<close>) and the start and the end of the stack
  (\<^verbatim>\<open>CipStackInit\<close> and \<^verbatim>\<open>ShutdownCipStack\<close> of \<^verbatim>\<open>cip/cipcommon.c\<close>), with what the
  initialization of the standard objects promises: every object is registered, and the
  attributes of its instance are exactly the ones inserted, with access masks that agree with their flags.
\<close>

subsection \<open>The identity class\<close>

definition kCipIdentityClassCode :: CipUdint where
  "kCipIdentityClassCode = 0x01"

definition EncodeRevision :: encode_fn where
  "EncodeRevision v m =
     (case v of
        VStruct [major, minor] \<Rightarrow> do {
          major \<leftarrow> usint_of major;
          minor \<leftarrow> usint_of minor;
          m \<leftarrow> AddSintToMessage major m;
          AddSintToMessage minor m }
      | _ \<Rightarrow> None)"

text \<open>\<open>reset\<close> is the callback before a reset, \<^verbatim>\<open>IdentityObjectPreResetCallback\<close> with the functions of the application.\<close>

definition InitializeCipIdentity :: "cip_callback \<Rightarrow> 'u std_service cip_class \<Rightarrow> 'u std_service cip_class option" where
  "InitializeCipIdentity reset c = do {
     c \<leftarrow> insert_class_attribute 1 EncodeCipUint RevisionField kGetableSingleAndAll c;
     c \<leftarrow> insert_class_attribute 2 EncodeCipUint NumberOfInstancesField kGetableSingleAndAll c;
     c \<leftarrow> insert_class_attribute 3 EncodeCipUint NumberOfInstancesField kGetableSingle c;
     c \<leftarrow> insert_class_attribute 4 EncodeCipUint UintZero kNotSetOrGetable c;
     c \<leftarrow> insert_class_attribute 5 EncodeCipUint UintZero kNotSetOrGetable c;
     c \<leftarrow> insert_class_attribute 6 EncodeCipUint MetaHighestAttributeField kGetableSingleAndAll c;
     c \<leftarrow> insert_class_attribute 7 EncodeCipUint HighestAttributeField kGetableSingleAndAll c;
     c \<leftarrow> insert_class_service kGetAttributeAll SvcGetAttributeAll ''GetAttributeAll'' c;
     c \<leftarrow> insert_class_service kGetAttributeSingle SvcGetAttributeSingle ''GetAttributeSingle'' c;
     Some (c\<lparr>core := (core c)\<lparr>PreResetCallback := Some reset\<rparr>\<rparr>) }"

text \<open>The attribute with the number \<open>n\<close> lies at the address \<open>i + n\<close>.\<close>

definition identity_rows :: "nat \<Rightarrow> attribute_row list" where
  "identity_rows i =
     [(1, kCipUint, EncodeCipUint, None, Obj (i + 1), kGetableSingleAndAll),
      (2, kCipUint, EncodeCipUint, None, Obj (i + 2), kGetableSingleAndAll),
      (3, kCipUint, EncodeCipUint, None, Obj (i + 3), kGetableSingleAndAll),
      (4, kCipUsintUsint, EncodeRevision, None, Obj (i + 4), kGetableSingleAndAll),
      (5, kCipWord, EncodeCipWord, None, Obj (i + 5), kGetableSingleAndAll),
      (6, kCipUdint, EncodeCipUdint, None, Obj (i + 6), kGetableSingleAndAll),
      (7, kCipShortString, EncodeCipShortString, None, Obj (i + 7), kGetableSingleAndAll)]"

text \<open>\<open>device_name\<close> is \<^verbatim>\<open>OPENER_DEVICE_NAME\<close>, the name of a device without one.\<close>

definition CipIdentityInit ::
    "cip_callback \<Rightarrow> nat \<Rightarrow> bool \<Rightarrow> octet list \<Rightarrow> 'u std_service registry \<Rightarrow> identity_object
      \<Rightarrow> (EipStatus \<times> 'u std_service registry \<times> identity_object) option" where
  "CipIdentityInit reset i calloc_ok device_name objects g = do {
     (c, objects) \<leftarrow> CreateCipClass objects kCipIdentityClassCode 0 7 2 7 7 5 1 ''identity'' 1 (Some (InitializeCipIdentity reset));
     g \<leftarrow> (if ss_length (product_name g) = 0 then SetDeviceProductName calloc_ok (Some device_name) g else Some g);
     c \<leftarrow> setup_instance 1 (identity_rows i)
        [(kGetAttributeSingle, SvcGetAttributeSingle, ''GetAttributeSingle''),
         (kGetAttributeAll, SvcGetAttributeAll, ''GetAttributeAll''),
         (kReset, SvcReset, ''Reset''),
         (kGetAttributeList, SvcGetAttributeList, ''GetAttributeList''),
         (kSetAttributeList, SvcSetAttributeList, ''SetAttributeList'')] c;
     Some (kEipStatusOk, store_class kCipIdentityClassCode c objects, g) }"

subsection \<open>Start and end of the stack\<close>

text \<open>
  The build of the stack, the addresses of the objects and what the application provides. \<open>app_init\<close> is
  \<^verbatim>\<open>ApplicationInitialization\<close>. The file object and the security objects are no part of the sources; their
  initializations are given when the stack is built with \<^verbatim>\<open>CIP_FILE_OBJECT\<close> or \<^verbatim>\<open>CIP_SECURITY_OBJECTS\<close>:
  \<open>sb_file_object\<close> is \<^verbatim>\<open>CipFileInit\<close>, \<open>sb_security_objects\<close> are \<^verbatim>\<open>CipSecurityInit\<close>, \<^verbatim>\<open>EIPSecurityInit\<close> and
  \<^verbatim>\<open>CertificateManagementObjectInit\<close>.
\<close>

type_synonym 'z init_step =
  "cm_service std_service registry \<Rightarrow> 'z io_stack \<Rightarrow> (EipStatus \<times> cm_service std_service registry \<times> 'z io_stack) option"

record 'z stack_build =
  sb_endianess :: OpenerEndianess
  sb_ethlink :: ethlink_build
  sb_dlr :: bool
  sb_device_name :: "octet list"
  sb_calloc_ok :: bool
  at_identity :: nat
  at_tcpip :: nat
  at_ethlink :: nat
  at_dlr :: nat
  at_qos :: nat
  app_reset :: cip_callback
  app_before :: before_send
  app_after :: after_received
  iface_control :: decode_fn
  sb_file_object :: "'z init_step option"
  sb_security_objects :: "('z init_step \<times> 'z init_step \<times> 'z init_step) option"
  app_init :: "'z init_step"

text \<open>A failed assertion on the status of a step is \<^term>\<open>None\<close>.\<close>

definition init_dlr_device ::
    "'z stack_build \<Rightarrow> cm_service std_service registry \<Rightarrow> 'z io_stack \<Rightarrow> (cm_service std_service registry \<times> 'z io_stack) option" where
  "init_dlr_device b objects st =
     (if sb_dlr b then do {
        (s, objects, mem) \<leftarrow> CipDlrInit (at_dlr b) objects (io_memory (io st));
        guard (s = kEipStatusOk);
        Some (objects, on_memory (\<lambda>_. mem) st)
      } else Some (objects, st))"

definition asserted_step ::
    "'z init_step \<Rightarrow> cm_service std_service registry \<Rightarrow> 'z io_stack \<Rightarrow> (cm_service std_service registry \<times> 'z io_stack) option" where
  "asserted_step f objects st = do {
     (s, objects, st) \<leftarrow> f objects st;
     guard (s = kEipStatusOk);
     Some (objects, st) }"

definition init_file_object ::
    "'z stack_build \<Rightarrow> cm_service std_service registry \<Rightarrow> 'z io_stack \<Rightarrow> (cm_service std_service registry \<times> 'z io_stack) option" where
  "init_file_object b objects st =
     (case sb_file_object b of None \<Rightarrow> Some (objects, st) | Some CipFileInit \<Rightarrow> asserted_step CipFileInit objects st)"

definition init_security_objects ::
    "'z stack_build \<Rightarrow> cm_service std_service registry \<Rightarrow> 'z io_stack \<Rightarrow> (cm_service std_service registry \<times> 'z io_stack) option" where
  "init_security_objects b objects st =
     (case sb_security_objects b of
        None \<Rightarrow> Some (objects, st)
      | Some (CipSecurityInit, EIPSecurityInit, CertificateManagementObjectInit) \<Rightarrow> do {
          (objects, st) \<leftarrow> asserted_step CipSecurityInit objects st;
          (objects, st) \<leftarrow> asserted_step EIPSecurityInit objects st;
          asserted_step CertificateManagementObjectInit objects st })"

definition CipStackInit ::
    "'z stack_build \<Rightarrow> 16 word \<Rightarrow> cm_service std_service registry \<Rightarrow> 'z io_stack
      \<Rightarrow> (EipStatus \<times> cm_service std_service registry \<times> 'z io_stack) option" where
  "CipStackInit b unique_connection_id objects st = do {
     (s, objects) \<leftarrow> CipMessageRouterInit objects;
     guard (s = kEipStatusOk);
     (s, objects, g) \<leftarrow> CipIdentityInit (app_reset b) (at_identity b) (sb_calloc_ok b) (sb_device_name b) objects (g_identity st);
     guard (s = kEipStatusOk);
     let st = st\<lparr>g_identity := g\<rparr>;
     (s, objects) \<leftarrow> CipTcpIpInterfaceInit (sb_endianess b) (g_tcpip st) (at_tcpip b) objects;
     guard (s = kEipStatusOk);
     (s, objects, mem) \<leftarrow> CipEthernetLinkInit (sb_ethlink b) (iface_control b) (at_ethlink b) objects (io_memory (io st));
     guard (s = kEipStatusOk);
     let st = on_memory (\<lambda>_. mem) st;
     (s, objects, st) \<leftarrow> ConnectionManagerInit unique_connection_id objects st;
     guard (s = kEipStatusOk);
     (s, objects) \<leftarrow> CipAssemblyInitialize (app_before b) (app_after b) objects;
     guard (s = kEipStatusOk);
     (objects, st) \<leftarrow> init_dlr_device b objects st;
     (s, objects) \<leftarrow> CipQoSInit (at_qos b) objects;
     guard (s = kEipStatusOk);
     (objects, st) \<leftarrow> init_file_object b objects st;
     (objects, st) \<leftarrow> init_security_objects b objects st;
     (s, objects, st) \<leftarrow> app_init b objects st;
     guard (s = kEipStatusOk);
     Some (s, objects, st) }"

text \<open>Freeing the memory of the assembly objects leaves no trace in the model.\<close>

definition ShutdownCipStack ::
    "(io_fn connection_fn, (open_fn, 'z io_state_scheme) cm_state) close_call \<Rightarrow> 'svc registry \<Rightarrow> 'z io_stack \<Rightarrow> ('svc registry \<times> 'z io_stack) option" where
  "ShutdownCipStack close objects st = do {
     st \<leftarrow> CloseAllConnections close st;
     st \<leftarrow> EncapsulationShutDown st;
     Some (DeleteAllClasses objects, st\<lparr>g_tcpip := ShutdownTcpIpInterface (g_tcpip st)\<rparr>) }"

subsection \<open>Inserting attributes and services\<close>

fun row_attribute :: "attribute_row \<Rightarrow> cip_attribute" where
  "row_attribute (n, type, enc, dec, ref, fl) =
     \<lparr>attr_number = n, attr_type = type, attr_encode = Some enc, attr_decode = dec, attribute_flags = fl, attr_data = Some ref\<rparr>"

fun row_service :: "'svc service_row \<Rightarrow> 'svc cip_service" where
  "row_service (n, f, name) = \<lparr>service_number = n, service_function = Some f, service_name = name\<rparr>"

lemma row_attribute_simps [simp]:
  "attr_data (row_attribute r) = Some (fst (snd (snd (snd (snd r)))))" "attr_number (row_attribute r) = fst r"
  by (cases r, simp)+

lemma row_service_simps [simp]: "service_function (row_service r) = Some (fst (snd r))" "service_number (row_service r) = fst r"
  by (cases r, simp)+

lemma insert_slot_first_free:
  "\<forall>x \<in> set xs. attr_data x \<noteq> None \<Longrightarrow> length xs < k \<Longrightarrow> attr_data e = None \<Longrightarrow> insert_slot k a (xs @ e # ys) = Some (xs @ a # ys)"
proof (induction xs arbitrary: k)
  case Nil
  then show ?case by (cases k) simp_all
next
  case (Cons x xs)
  then show ?case by (cases k) auto
qed

lemma insert_service_slot_first_free:
  "\<forall>x \<in> set xs. service_function x \<noteq> None \<and> service_number x \<noteq> service_number a \<Longrightarrow> length xs < k \<Longrightarrow> service_function e = None
     \<Longrightarrow> insert_service_slot k a (xs @ e # ys) = Some (xs @ a # ys)"
proof (induction xs arbitrary: k)
  case Nil
  then show ?case by (cases k) simp_all
next
  case (Cons x xs)
  then show ?case by (cases k) auto
qed

text \<open>An instance whose first slots hold these rows, the others being free.\<close>

definition filled :: "CipInstanceNum \<Rightarrow> attribute_row list \<Rightarrow> nat \<Rightarrow> cip_instance" where
  "filled k rows m = \<lparr>inst_number = k, attributes = map row_attribute rows @ replicate m empty_attribute\<rparr>"

lemma insert_row:
  assumes ok: "masks_ok cc (filled k old (Suc m))" and n: "fst r \<le> highest_attribute_number cc"
  obtains cc' where "insert_attributes (r # rows) (cc, filled k old (Suc m)) = insert_attributes rows (cc', filled k (old @ [r]) m)"
    "masks_ok cc' (filled k (old @ [r]) m)" "services cc' = services cc" "number_of_services cc' = number_of_services cc"
    "highest_attribute_number cc' = highest_attribute_number cc" "number_of_attributes cc' = number_of_attributes cc"
proof -
  obtain num type enc dec ref fl where r: "r = (num, type, enc, dec, ref, fl)" by (cases r)
  have free: "\<exists>s \<in> set (attributes (filled k old (Suc m))). attr_data s = None" by (simp add: filled_def empty_attribute_def)
  obtain cc' inst' where ins: "InsertAttribute cc (filled k old (Suc m)) num type (Some enc) dec ref fl = Some (cc', inst')" "masks_ok cc' inst'"
    using InsertAttribute_ok [OF ok _ free, of num type "Some enc" dec ref fl] n r by auto
  have "length old < unat (number_of_attributes cc)" using ok by (simp add: masks_ok_def filled_def)
  then have "insert_slot (unat (number_of_attributes cc)) (row_attribute r) (attributes (filled k old (Suc m)))
      = Some (attributes (filled k (old @ [r]) m))"
    using insert_slot_first_free [of "map row_attribute old" _ empty_attribute "row_attribute r" "replicate m empty_attribute"]
    by (auto simp: filled_def empty_attribute_def)
  then have "inst' = filled k (old @ [r]) m" "number_of_attributes cc' = number_of_attributes cc"
    using ins(1) by (auto simp: InsertAttribute_def Let_def r filled_def)
  with ins InsertAttribute_frame [OF ins(1)] show thesis by (intro that [of cc']) (simp_all add: r)
qed

lemma insert_rows:
  assumes "masks_ok cc (filled k old (length rows))" and "\<forall>r \<in> set rows. fst r \<le> highest_attribute_number cc"
  shows "\<exists>cc'. insert_attributes rows (cc, filled k old (length rows)) = Some (cc', filled k (old @ rows) 0)
     \<and> masks_ok cc' (filled k (old @ rows) 0) \<and> services cc' = services cc \<and> number_of_services cc' = number_of_services cc
     \<and> number_of_attributes cc' = number_of_attributes cc"
  using assms
proof (induction rows arbitrary: cc old)
  case (Cons r rows)
  obtain cc' where cc': "insert_attributes (r # rows) (cc, filled k old (Suc (length rows)))
      = insert_attributes rows (cc', filled k (old @ [r]) (length rows))"
      "masks_ok cc' (filled k (old @ [r]) (length rows))" "services cc' = services cc" "number_of_services cc' = number_of_services cc"
      "highest_attribute_number cc' = highest_attribute_number cc" "number_of_attributes cc' = number_of_attributes cc"
    by (rule insert_row [of cc k old "length rows" r rows]) (use Cons.prems in simp_all)
  then show ?case using Cons.IH [OF cc'(2)] Cons.prems(2) by simp
qed simp

lemma insert_service_rows:
  assumes "services cc = map row_service old @ replicate m empty_service" and "length rows \<le> m"
    and "length old + m \<le> unat (number_of_services cc)" and "distinct (map fst (old @ rows))"
  shows "\<exists>cc'. insert_services rows cc = Some cc' \<and> cc' = cc\<lparr>services := map row_service (old @ rows) @ replicate (m - length rows) empty_service\<rparr>"
  using assms
proof (induction rows arbitrary: cc old m)
  case Nil
  then show ?case by simp
next
  case (Cons r rows)
  obtain n f name where r: "r = (n, f, name)" by (cases r)
  obtain m' where m: "m = Suc m'" using Cons.prems(2) by (cases m) simp_all
  let ?cc = "cc\<lparr>services := map row_service (old @ [r]) @ replicate m' empty_service\<rparr>"
  have "fst r \<notin> fst ` set old" using Cons.prems(4) by simp
  then have "\<forall>x \<in> set old. fst x \<noteq> fst r" by (metis image_eqI)
  then have "insert_service_slot (unat (number_of_services cc)) (row_service r) (services cc) = Some (services ?cc)"
    using Cons.prems(1-3) insert_service_slot_first_free [of "map row_service old" "row_service r" "unat (number_of_services cc)"
        empty_service "replicate m' empty_service"]
    by (auto simp: m empty_service_def)
  then have "InsertService cc n f name = Some ?cc" by (simp add: InsertService_def r)
  moreover have "\<exists>cc'. insert_services rows ?cc = Some cc' \<and>
      cc' = ?cc\<lparr>services := map row_service ((old @ [r]) @ rows) @ replicate (m' - length rows) empty_service\<rparr>"
    by (rule Cons.IH) (use Cons.prems m in auto)
  ultimately show ?case by (simp add: r m)
qed

lemma find_row_service:
  "distinct (map fst rows) \<Longrightarrow> r \<in> set rows \<Longrightarrow> find (\<lambda>s. service_number s = fst r) (map row_service rows @ ys) = Some (row_service r)"
  by (induction rows) (auto simp: rev_image_eqI)


subsection \<open>Class attributes\<close>

fun insert_class_rows :: "(CipUint \<times> data_ref \<times> octet) list \<Rightarrow> 'svc cip_class \<Rightarrow> 'svc cip_class option" where
  "insert_class_rows [] c = Some c"
| "insert_class_rows ((n, ref, fl) # rows) c = do {
     c \<leftarrow> insert_class_attribute n EncodeCipUint ref fl c;
     insert_class_rows rows c }"

lemma insert_class_rows_ok:
  assumes "under_construction c0 used k c" and "length rows \<le> k" and "\<forall>r \<in> set rows. fst r \<le> highest_attribute_number (meta_class c0)"
  shows "\<exists>c' used'. insert_class_rows rows c = Some c' \<and> under_construction c0 used' (k - length rows) c'"
  using assms
proof (induction rows arbitrary: used k c)
  case (Cons r rows)
  obtain n ref fl where r: "r = (n, ref, fl)" by (cases r)
  obtain k' where k: "k = Suc k'" using Cons.prems(2) by (cases k) simp_all
  obtain c' where c': "insert_class_attribute n EncodeCipUint ref fl c = Some c'"
      "under_construction c0 (insert \<lparr>attr_number = n, attr_type = kCipUint, attr_encode = Some EncodeCipUint,
         attr_decode = None, attribute_flags = fl, attr_data = Some ref\<rparr> used) k' c'"
    by (rule insert_class_attribute_step [of c0 used k' c n EncodeCipUint ref fl]) (use Cons.prems k r in auto)
  then show ?case using Cons.IH [OF c'(2)] Cons.prems k r by simp
qed (auto simp: under_construction_def)

text \<open>What the initializer of a class may change.\<close>

definition keeps_instances :: "'svc cip_class \<Rightarrow> 'svc cip_class \<Rightarrow> bool" where
  "keeps_instances c c' \<longleftrightarrow> instances c' = instances c \<and> core c' = (core c)\<lparr>PreResetCallback := PreResetCallback (core c')\<rparr>
     \<and> class_code c' = class_code c \<and> number_of_instances c' = number_of_instances c \<and> max_instance c' = max_instance c"

lemma keeps_instances_trans:
  assumes "keeps_instances a b" and "keeps_instances b c"
  shows "keeps_instances a c"
proof -
  have "core c = (core b)\<lparr>PreResetCallback := PreResetCallback (core c)\<rparr>" using assms(2) by (simp add: keeps_instances_def)
  also have "\<dots> = ((core a)\<lparr>PreResetCallback := PreResetCallback (core b)\<rparr>)\<lparr>PreResetCallback := PreResetCallback (core c)\<rparr>"
    using assms(1) by (simp only: keeps_instances_def)
  finally show ?thesis using assms by (simp add: keeps_instances_def)
qed

lemma class_init_ok:
  assumes uc: "under_construction c0 used k c0" "length rows \<le> k" "\<forall>r \<in> set rows. fst r \<le> highest_attribute_number (meta_class c0)"
    and svc: "services (meta_class c0) = replicate m empty_service" "2 \<le> m" "m \<le> unat (number_of_services (meta_class c0))"
  shows "\<exists>c'. Option.bind (insert_class_rows rows c0) (\<lambda>c.
      Option.bind (insert_class_service kGetAttributeAll SvcGetAttributeAll ''GetAttributeAll'' c)
        (insert_class_service kGetAttributeSingle SvcGetAttributeSingle ''GetAttributeSingle'')) = Some c' \<and> keeps_instances c0 c'"
proof -
  obtain c used' where c: "insert_class_rows rows c0 = Some c" "under_construction c0 used' (k - length rows) c"
    using insert_class_rows_ok [OF uc] by blast
  have mc: "services (meta_class c) = map row_service [] @ replicate m empty_service"
      "length [] + m \<le> unat (number_of_services (meta_class c))"
    using c(2) svc by (simp_all add: under_construction_def)
  obtain cc' where "insert_services [(kGetAttributeAll, SvcGetAttributeAll, ''GetAttributeAll''),
      (kGetAttributeSingle, SvcGetAttributeSingle, ''GetAttributeSingle'')] (meta_class c) = Some cc'"
    using insert_service_rows [OF mc(1) _ mc(2), of "[(kGetAttributeAll, SvcGetAttributeAll, ''GetAttributeAll''),
      (kGetAttributeSingle, SvcGetAttributeSingle, ''GetAttributeSingle'')]"] svc(2) by auto
  moreover have "keeps_instances c0 (c\<lparr>meta_class := cc'\<rparr>)"
  proof -
    have "c = c0\<lparr>meta_class := meta_class c, class_inst := class_inst c\<rparr>" using c(2) by (simp add: under_construction_def)
    then have "instances c = instances c0" "core c = core c0" "class_code c = class_code c0"
        "number_of_instances c = number_of_instances c0" "max_instance c = max_instance c0"
      by (cases c; cases c0; simp)+
    then show ?thesis by (simp add: keeps_instances_def)
  qed
  ultimately show ?thesis using c(1) by (auto simp: insert_class_service_def split: Option.bind_splits)
qed

subsection \<open>Objects with one instance\<close>

text \<open>
  What an initialization function promises: a class with this code, well formed, whose instance 1 has exactly the
  attributes of the rows, in their order, with access masks that agree with the flags, and whose services are found under their codes.
\<close>

definition object_ready :: "CipUdint \<Rightarrow> attribute_row list \<Rightarrow> 'svc service_row list \<Rightarrow> 'svc cip_class \<Rightarrow> bool" where
  "object_ready code rows svcs c \<longleftrightarrow> class_code c = code \<and> wf_class c \<and> GetCipInstance c 1 = Some (filled 1 rows 0)
     \<and> masks_ok (core c) (filled 1 rows 0) \<and> (\<forall>r \<in> set svcs. GetCipService (core c) (fst r) = Some (row_service r))"

text \<open>The same before the attributes and the services are inserted: \<open>n\<close> free attribute slots and \<open>m\<close> free service slots.\<close>

definition object_blank :: "CipUdint \<Rightarrow> nat \<Rightarrow> nat \<Rightarrow> CipUint \<Rightarrow> 'svc service_row list \<Rightarrow> 'svc cip_class \<Rightarrow> bool" where
  "object_blank code n m highest svcs c \<longleftrightarrow> class_code c = code \<and> instances c = [filled 1 [] n] \<and> masks_ok (core c) (filled 1 [] n)
     \<and> highest_attribute_number (core c) = highest \<and> number_of_instances c = 1 \<and> max_instance c = 1
     \<and> services (core c) = map row_service svcs @ replicate m empty_service \<and> length svcs + m \<le> unat (number_of_services (core c))"

lemma object_blank_services:
  assumes "object_blank code n m highest [] c" and "length svcs \<le> m" and "distinct (map fst svcs)"
  shows "\<exists>cc. insert_services svcs (core c) = Some cc \<and> object_blank code n (m - length svcs) highest svcs (c\<lparr>core := cc\<rparr>)"
proof -
  obtain cc where cc: "insert_services svcs (core c) = Some cc"
      "cc = (core c)\<lparr>services := map row_service svcs @ replicate (m - length svcs) empty_service\<rparr>"
    using insert_service_rows [of "core c" "[]" m svcs] assms by (auto simp: object_blank_def)
  moreover have "masks_ok cc (filled 1 [] n)"
    using assms(1) masks_ok_cong [of cc "core c" "filled 1 [] n"] by (simp add: object_blank_def cc(2))
  ultimately show ?thesis using assms(1,2) by (simp add: object_blank_def)
qed

lemma setup_instance_ready:
  assumes b: "object_blank code (length rows) m highest old c" and rows: "\<forall>r \<in> set rows. fst r \<le> highest"
    and svcs: "length svcs \<le> m" "distinct (map fst (old @ svcs))"
  shows "\<exists>c'. setup_instance 1 rows svcs c = Some c' \<and> object_ready code rows (old @ svcs) c'"
proof -
  have inst: "GetCipInstance c 1 = Some (filled 1 [] (length rows))" using b by (simp add: object_blank_def GetCipInstance_def filled_def)
  obtain cc where cc: "insert_attributes rows (core c, filled 1 [] (length rows)) = Some (cc, filled 1 rows 0)" "masks_ok cc (filled 1 rows 0)"
      "services cc = services (core c)" "number_of_services cc = number_of_services (core c)" "number_of_attributes cc = number_of_attributes (core c)"
    using insert_rows [of "core c" 1 "[]" rows] b rows by (auto simp: object_blank_def)
  obtain cc' where cc': "insert_services svcs cc = Some cc'" "cc' = cc\<lparr>services := map row_service (old @ svcs) @ replicate (m - length svcs) empty_service\<rparr>"
    using insert_service_rows [of cc old m svcs] b svcs cc(3,4) by (auto simp: object_blank_def)
  let ?c = "c\<lparr>core := cc', instances := [filled 1 rows 0]\<rparr>"
  have "setup_instance 1 rows svcs c = Some ?c"
    using b inst cc(1) cc'(1) by (simp add: setup_instance_def object_blank_def) (simp add: filled_def)
  moreover have m: "masks_ok cc' (filled 1 rows 0)" using cc(2) masks_ok_cong [of cc' cc "filled 1 rows 0"] by (simp add: cc'(2))
  then have "wf_class ?c"
    using b by (simp add: wf_class_def wf_instances_def object_blank_def GetMaxInstanceNumber_def masks_ok_def) (simp add: filled_def)
  moreover have "GetCipService cc' (fst r) = Some (row_service r)" if "r \<in> set (old @ svcs)" for r
  proof -
    have "length (map row_service (old @ svcs) @ replicate (m - length svcs) empty_service) \<le> unat (number_of_services cc')"
      using b svcs(1) cc(4) by (simp add: object_blank_def cc'(2))
    then show ?thesis using find_row_service [OF svcs(2) that] by (simp add: GetCipService_def cc'(2))
  qed
  ultimately show ?thesis
    using b m by (auto simp: object_ready_def object_blank_def GetCipInstance_def filled_def)
qed

text \<open>Attributes and services behind the ones \<^verbatim>\<open>CreateCipClass\<close> inserts.\<close>

definition class_init :: "(CipUint \<times> data_ref \<times> octet) list \<Rightarrow> 'u std_service cip_class \<Rightarrow> 'u std_service cip_class option" where
  "class_init rows c = Option.bind (insert_class_rows rows c) (\<lambda>c.
      Option.bind (insert_class_service kGetAttributeAll SvcGetAttributeAll ''GetAttributeAll'' c)
        (insert_class_service kGetAttributeSingle SvcGetAttributeSingle ''GetAttributeSingle''))"

lemma blank_object:
  assumes c0: "c0 = blank_class code nca 7 2 nia hia nis name r"
  defines "c \<equiv> c0\<lparr>instances := [filled 1 [] (unat (of_int nia :: 16 word))], number_of_instances := 1, max_instance := 1,
     meta_class := AllocateAttributeMasks (meta_class c0), core := AllocateAttributeMasks (core c0)\<rparr>"
  assumes "GetCipClass objects code = None" and "name \<noteq> []"
  shows "CreateCipClass objects code nca 7 2 nia hia nis 1 name r i =
     map_option (\<lambda>c. (c, objects @ [c])) (case i of None \<Rightarrow> default_class_init 2 c | Some f \<Rightarrow> f c)"
proof -
  have "AddCipInstances c0 1 = Some (c0\<lparr>instances := [filled 1 [] (unat (of_int nia :: 16 word))], number_of_instances := 1, max_instance := 1\<rparr>, Some 1)"
    by (simp add: c0 AddCipInstances_def blank_class_def Let_def filled_def GetMaxInstanceNumber_def empty_core_def)
  then show ?thesis
    using assms(3,4) by (simp add: CreateCipClass_def c0 [symmetric] RegisterCipClass_def c_def Let_def map_conv_bind_option comp_def
        split: option.splits)
qed

lemma object_created:
  assumes "GetCipClass objects code = None" and "name \<noteq> []" and "0 \<le> nca" and "nca + 7 \<le> 65535"
    and init: "(case i of None \<Rightarrow> default_class_init 2 | Some f \<Rightarrow> f) = (\<lambda>c. map_option h (class_init rows c))"
      "\<And>c. keeps_instances c (h c)" "length rows = 7" "\<forall>r \<in> set rows. fst r \<le> 7"
  shows "\<exists>c. CreateCipClass objects code nca 7 2 nia hia nis 1 name r i = Some (c, objects @ [c])
     \<and> object_blank code (unat (of_int nia :: 16 word)) (unat (of_int nis :: 16 word)) (ucast hia) [] c"
proof -
  define c0 :: "'a std_service cip_class" where "c0 = blank_class code nca 7 2 nia hia nis name r"
  define c where "c = c0\<lparr>instances := [filled 1 [] (unat (of_int nia :: 16 word))], number_of_instances := 1, max_instance := 1,
     meta_class := AllocateAttributeMasks (meta_class c0), core := AllocateAttributeMasks (core c0)\<rparr>"
  have uc: "under_construction c {} (nat nca + 7) c"
    by (rule created_under_construction [OF assms(3,4) c0_def]) (simp_all add: c_def)
  have meta: "highest_attribute_number (meta_class c) = 7" "services (meta_class c) = replicate 2 empty_service"
      "number_of_services (meta_class c) = 2"
    by (simp_all add: c_def c0_def blank_class_def Let_def AllocateAttributeMasks_def)
  obtain c1 where c1: "class_init rows c = Some c1" "keeps_instances c c1"
    using class_init_ok [OF uc, of rows 2] init(3,4) meta by (auto simp: class_init_def)
  have "CreateCipClass objects code nca 7 2 nia hia nis 1 name r i = Some (h c1, objects @ [h c1])"
    using blank_object [OF c0_def assms(1,2), of i] fun_cong [OF init(1), of c] c1(1) by (cases i) (simp_all add: c_def)
  moreover have "object_blank code (unat (of_int nia :: 16 word)) (unat (of_int nis :: 16 word)) (ucast hia) [] (h c1)"
  proof -
    have k: "keeps_instances c (h c1)" by (rule keeps_instances_trans [OF c1(2) init(2)])
    obtain f where f: "core (h c1) = (core c)\<lparr>PreResetCallback := f\<rparr>" using k unfolding keeps_instances_def by metis
    have core: "core c = AllocateAttributeMasks (core c0)" "number_of_attributes (core c0) = of_int nia"
      by (simp_all add: c_def c0_def blank_class_def Let_def)
    have "masks_ok (core c) (filled 1 [] (unat (of_int nia :: 16 word)))"
      using masks_ok_empty [of "core c0" 1] by (simp add: core filled_def)
    then have "masks_ok (core (h c1)) (filled 1 [] (unat (of_int nia :: 16 word)))"
      using masks_ok_cong [of "core (h c1)" "core c"] by (simp add: f)
    moreover have "class_code (h c1) = code" "instances (h c1) = [filled 1 [] (unat (of_int nia :: 16 word))]"
        "number_of_instances (h c1) = 1" "max_instance (h c1) = 1"
      using k by (simp_all add: keeps_instances_def) (simp_all add: c_def c0_def)
    ultimately show ?thesis
      by (simp add: object_blank_def f) (simp add: c_def c0_def blank_class_def Let_def AllocateAttributeMasks_def)
  qed
  ultimately show ?thesis by blast
qed


subsection \<open>The objects of the stack\<close>

text \<open>The services of the instances.\<close>

definition router_services :: "'u std_service service_row list" where
  "router_services = [(kGetAttributeSingle, SvcGetAttributeSingle, ''GetAttributeSingle'')]"

definition tcpip_services :: "'u std_service service_row list" where
  "tcpip_services = [(kGetAttributeSingle, SvcGetAttributeSingle, ''GetAttributeSingle''), (kGetAttributeAll, SvcGetAttributeAll, ''GetAttributeAll''),
     (kSetAttributeSingle, SvcSetAttributeSingle, ''SetAttributeSingle'')]"

definition qos_services :: "'u std_service service_row list" where
  "qos_services = [(kGetAttributeSingle, SvcGetAttributeSingle, ''GetAttributeSingle''), (kSetAttributeSingle, SvcSetAttributeSingle, ''SetAttributeSingle'')]"

definition dlr_services :: "'u std_service service_row list" where
  "dlr_services = [(kGetAttributeSingle, SvcGetAttributeSingle, ''GetAttributeSingle''), (kGetAttributeAll, SvcGetAttributeAll, ''GetAttributeAll'')]"

lemma store_registered:
  "GetCipClass objects code = None \<Longrightarrow> class_code c = code \<Longrightarrow> store_class code c' (objects @ [c]) = objects @ [c']"
  by (induction objects) (auto simp: GetCipClass_eq GetRegisteredObject_def split: if_splits)

lemma default_class_init_2: "default_class_init 2 = (\<lambda>c. map_option id (class_init std_attributes c))"
  by (simp add: fun_eq_iff default_class_init_def class_init_def std_attributes_def option.map_id0)

lemma std_attributes_length: "length std_attributes = 7" "\<forall>r \<in> set std_attributes. fst r \<le> 7"
  by (simp_all add: std_attributes_def)

lemma keeps_instances_refl: "keeps_instances c (id c)"
  by (simp add: keeps_instances_def)

lemmas std_object_created = object_created [where i = None and h = id and rows = std_attributes,
    OF _ _ _ _ _ keeps_instances_refl std_attributes_length, simplified option.case, OF _ _ _ _ default_class_init_2]

text \<open>A class with the standard class attributes whose instance gets its attributes, then its services.\<close>

lemma std_object_setup:
  assumes "GetCipClass objects code = None" "name \<noteq> []" "0 \<le> nca" "nca + 7 \<le> 65535"
    and "unat (of_int nia :: 16 word) = length rows" "\<forall>r \<in> set rows. fst r \<le> ucast hia"
    and "length svcs \<le> unat (of_int nis :: 16 word)" "distinct (map fst svcs)"
  shows "\<exists>c. Option.bind (CreateCipClass objects code nca 7 2 nia hia nis 1 name r None)
        (\<lambda>(c, objects). map_option (\<lambda>c. (kEipStatusOk, store_class code c objects)) (setup_instance 1 rows svcs c)) =
        Some (kEipStatusOk, objects @ [c]) \<and> object_ready code rows svcs c"
proof -
  obtain c where c: "CreateCipClass objects code nca 7 2 nia hia nis 1 name r None = Some (c, objects @ [c])"
      "object_blank code (length rows) (unat (of_int nis :: 16 word)) (ucast hia) [] c"
    using std_object_created [OF assms(1-4), of nia hia nis r] assms(5) by auto
  obtain c' where "setup_instance 1 rows svcs c = Some c'" "object_ready code rows svcs c'"
    using setup_instance_ready [OF c(2) assms(6)] assms(7,8) by auto
  moreover have "class_code c = code" using c(2) by (simp add: object_blank_def)
  ultimately show ?thesis using c(1) store_registered [OF assms(1)] by auto
qed

lemma CipQoSInit_ready:
  assumes "GetCipClass objects kCipQoSClassCode = None"
  shows "\<exists>c. CipQoSInit q objects = Some (kEipStatusOk, objects @ [c]) \<and> object_ready kCipQoSClassCode (qos_rows q)
     qos_services c"
  using std_object_setup [OF assms, of "''Quality of Service''" 7 8 "qos_rows q" 8
    qos_services 2 1]
  by (simp add: CipQoSInit_def map_conv_bind_option comp_def qos_rows_def Let_def qos_services_def)

lemma CipTcpIpInterfaceInit_ready:
  assumes "GetCipClass objects kCipTcpIpInterfaceClassCode = None"
  shows "\<exists>c. CipTcpIpInterfaceInit e t p objects = Some (kEipStatusOk, objects @ [c]) \<and> object_ready kCipTcpIpInterfaceClassCode (tcpip_rows e t p)
     tcpip_services c"
  using std_object_setup [OF assms, of "''TCP/IP interface''" 0 13 "tcpip_rows e t p" 13
    tcpip_services 3 4]
  by (simp add: CipTcpIpInterfaceInit_def map_conv_bind_option comp_def tcpip_rows_def tcpip_services_def)


text \<open>The same with the services in front of the attributes.\<close>

lemma std_object_services_setup:
  assumes "GetCipClass objects code = None" "name \<noteq> []" "0 \<le> nca" "nca + 7 \<le> 65535"
    and "unat (of_int nia :: 16 word) = length rows" "\<forall>r \<in> set rows. fst r \<le> ucast hia"
    and "length svcs \<le> unat (of_int nis :: 16 word)" "distinct (map fst svcs)"
  obtains c cc c' where "CreateCipClass objects code nca 7 2 nia hia nis 1 name r None = Some (c, objects @ [c])"
    "insert_services svcs (core c) = Some cc" "setup_instance 1 rows [] (c\<lparr>core := cc\<rparr>) = Some c'"
    "store_class code c' (objects @ [c]) = objects @ [c']" "object_ready code rows svcs c'"
proof -
  obtain c where c: "CreateCipClass objects code nca 7 2 nia hia nis 1 name r None = Some (c, objects @ [c])"
      "object_blank code (length rows) (unat (of_int nis :: 16 word)) (ucast hia) [] c"
    using std_object_created [OF assms(1-4), of nia hia nis r] assms(5) by auto
  obtain cc where cc: "insert_services svcs (core c) = Some cc"
      "object_blank code (length rows) (unat (of_int nis :: 16 word) - length svcs) (ucast hia) svcs (c\<lparr>core := cc\<rparr>)"
    using object_blank_services [OF c(2) assms(7,8)] by blast
  obtain c' where "setup_instance 1 rows [] (c\<lparr>core := cc\<rparr>) = Some c'" "object_ready code rows svcs c'"
    using setup_instance_ready [OF cc(2) assms(6), of "[]"] assms(8) by auto
  moreover have "class_code c = code" using c(2) by (simp add: object_blank_def)
  ultimately show thesis using that c(1) cc(1) store_registered [OF assms(1)] by blast
qed

definition link_services :: "ethlink_build \<Rightarrow> 'u std_service service_row list" where
  "link_services b = [(kGetAttributeSingle, SvcGetAttributeSingle, ''GetAttributeSingle''), (kGetAttributeAll, SvcGetAttributeAll, ''GetAttributeAll'')]
     @ (if ethlink_iface_ctrl b then [(kSetAttributeSingle, SvcSetAttributeSingle, ''SetAttributeSingle'')] else [])"

lemma CipEthernetLinkInit_ready:
  assumes "GetCipClass objects kCipEthernetLinkClassCode = None" and one: "ethlink_instance_cnt b = 1"
  shows "\<exists>c. CipEthernetLinkInit b dec p objects mem = Some (kEipStatusOk, objects @ [c], init_link b p 0 mem)
     \<and> object_ready kCipEthernetLinkClassCode (link_rows b dec p 0) (link_services b) c"
proof -
  let ?nis = "2 + (if ethlink_iface_ctrl b then 1 else 0) :: int"
  have rows: "unat (of_int 11 :: 16 word) = length (link_rows b dec p 0)" "\<forall>r \<in> set (link_rows b dec p 0). fst r \<le> ucast (11 :: 32 word)"
    by (simp_all add: link_rows_def Let_def)
  have svcs: "length (link_services b :: 'a std_service service_row list) \<le> unat (of_int ?nis :: 16 word)"
      "distinct (map fst (link_services b :: 'a std_service service_row list))"
    by (simp_all add: link_services_def)
  obtain c cc c' where "CreateCipClass objects kCipEthernetLinkClassCode 0 7 2 11 11 ?nis 1 ''Ethernet Link'' 4 None = Some (c, objects @ [c])"
    "insert_services (link_services b) (core c) = Some cc" "setup_instance 1 (link_rows b dec p 0) [] (c\<lparr>core := cc\<rparr>) = Some c'"
    "store_class kCipEthernetLinkClassCode c' (objects @ [c]) = objects @ [c']"
    "object_ready kCipEthernetLinkClassCode (link_rows b dec p 0) (link_services b) c'"
    by (rule std_object_services_setup [OF assms(1) _ _ _ rows svcs, of "''Ethernet Link''" 0 4]) auto
  then show ?thesis unfolding CipEthernetLinkInit_def link_services_def [symmetric] by (simp add: one)
qed

lemma CipDlrInit_ready:
  assumes "GetCipClass objects kCipDlrClassCode = None"
  shows "\<exists>c. CipDlrInit d objects mem = Some (kEipStatusOk, objects @ [c], mem(d + 12 := V32 0x82))
     \<and> object_ready kCipDlrClassCode (dlr_rows d) dlr_services c"
proof -
  have rows: "unat (of_int 11 :: 16 word) = length (dlr_rows d)" "\<forall>r \<in> set (dlr_rows d). fst r \<le> ucast (12 :: 32 word)"
    by (simp_all add: dlr_rows_def)
  obtain c cc c' where "CreateCipClass objects kCipDlrClassCode 0 7 2 11 12 2 1 ''DLR'' 3 None = Some (c, objects @ [c])"
    "insert_services dlr_services (core c) = Some cc" "setup_instance 1 (dlr_rows d) [] (c\<lparr>core := cc\<rparr>) = Some c'"
    "store_class kCipDlrClassCode c' (objects @ [c]) = objects @ [c']" "object_ready kCipDlrClassCode (dlr_rows d) dlr_services c'"
    by (rule std_object_services_setup [OF assms _ _ _ rows, of "''DLR''" 0 dlr_services 2 3]) (auto simp: dlr_services_def)
  then show ?thesis unfolding CipDlrInit_def dlr_services_def [symmetric] by simp
qed

text \<open>Classes with an initializer of their own.\<close>

definition own_attributes :: "octet \<Rightarrow> octet \<Rightarrow> (CipUint \<times> data_ref \<times> octet) list" where
  "own_attributes fl2 fl4 = [(1, RevisionField, kGetableSingleAndAll), (2, NumberOfInstancesField, fl2), (3, NumberOfInstancesField, kGetableSingle),
     (4, UintZero, fl4), (5, UintZero, fl4), (6, MetaHighestAttributeField, kGetableSingleAndAll), (7, HighestAttributeField, kGetableSingleAndAll)]"

lemma own_inits:
  "InitializeCipMessageRouterClass = (\<lambda>c. map_option id (class_init (own_attributes kGetableSingle kGetableAll) c))"
  "InitializeConnectionManager = (\<lambda>c. map_option id (class_init (own_attributes kGetableSingleAndAll kNotSetOrGetable) c))"
  "InitializeCipIdentity reset = (\<lambda>c. map_option (\<lambda>c. c\<lparr>core := (core c)\<lparr>PreResetCallback := Some reset\<rparr>\<rparr>)
      (class_init (own_attributes kGetableSingleAndAll kNotSetOrGetable) c))"
  by (simp_all add: fun_eq_iff InitializeCipMessageRouterClass_def InitializeConnectionManager_def InitializeCipIdentity_def class_init_def
      own_attributes_def option.map_id0 map_conv_bind_option comp_def)

lemma own_attributes_length: "length (own_attributes fl2 fl4) = 7" "\<forall>r \<in> set (own_attributes fl2 fl4). fst r \<le> 7"
  by (simp_all add: own_attributes_def)

lemma own_object_created:
  assumes "GetCipClass objects code = None" "name \<noteq> []" "0 \<le> nca" "nca + 7 \<le> 65535"
    and "f = (\<lambda>c. map_option h (class_init (own_attributes fl2 fl4) c))" "\<And>c. keeps_instances c (h c)"
  shows "\<exists>c. CreateCipClass objects code nca 7 2 nia hia nis 1 name r (Some f) = Some (c, objects @ [c])
     \<and> object_blank code (unat (of_int nia :: 16 word)) (unat (of_int nis :: 16 word)) (ucast hia) [] c"
  by (rule object_created [where h = h and rows = "own_attributes fl2 fl4", OF assms(1-4)]) (use assms(5,6) own_attributes_length in simp_all)


lemma object_blank_ready:
  assumes "object_blank code 0 m highest svcs c" and "distinct (map fst svcs)"
  shows "object_ready code [] svcs c"
proof -
  have "GetCipService (core c) (fst r) = Some (row_service r)" if "r \<in> set svcs" for r
    using assms(1) find_row_service [OF assms(2) that] by (simp add: object_blank_def GetCipService_def)
  moreover have "wf_class c"
    using assms(1) by (auto simp: object_blank_def filled_def wf_class_def wf_instances_def GetMaxInstanceNumber_def masks_ok_def)
  ultimately show ?thesis
    using assms(1) by (simp add: object_ready_def object_blank_def GetCipInstance_def) (simp add: filled_def)
qed

lemma own_object_services:
  assumes "object_blank code 0 m highest [] c" "length svcs \<le> m" "distinct (map fst svcs)" "GetCipClass objects code = None"
  obtains cc where "insert_services svcs (core c) = Some cc" "store_class code (c\<lparr>core := cc\<rparr>) (objects @ [c]) = objects @ [c\<lparr>core := cc\<rparr>]"
    "object_ready code [] svcs (c\<lparr>core := cc\<rparr>)"
proof -
  obtain cc where cc: "insert_services svcs (core c) = Some cc" "object_blank code 0 (m - length svcs) highest svcs (c\<lparr>core := cc\<rparr>)"
    using object_blank_services [OF assms(1-3)] by blast
  moreover have "class_code c = code" using assms(1) by (simp add: object_blank_def)
  ultimately show thesis using object_blank_ready [OF cc(2) assms(3)] store_registered [OF assms(4)] by (intro that) auto
qed

lemma CipMessageRouterInit_ready:
  assumes "GetCipClass objects kCipMessageRouterClassCode = None"
  shows "\<exists>c. CipMessageRouterInit objects = Some (kEipStatusOk, objects @ [c]) \<and> object_ready kCipMessageRouterClassCode [] router_services c"
proof -
  obtain c where c: "CreateCipClass objects kCipMessageRouterClassCode 7 7 2 0 0 1 1 ''message router'' 1 (Some InitializeCipMessageRouterClass)
      = Some (c, objects @ [c])" "object_blank kCipMessageRouterClassCode 0 1 0 [] c"
    using own_object_created [OF assms, of "''message router''" 7 _ id, OF _ _ _ own_inits(1) keeps_instances_refl, of 0 0 1 1] by auto
  obtain cc where "insert_services router_services (core c) = Some cc"
      "store_class kCipMessageRouterClassCode (c\<lparr>core := cc\<rparr>) (objects @ [c]) = objects @ [c\<lparr>core := cc\<rparr>]"
      "object_ready kCipMessageRouterClassCode [] router_services (c\<lparr>core := cc\<rparr>)"
    by (rule own_object_services [OF c(2) _ _ assms, of router_services]) (auto simp: router_services_def)
  then show ?thesis using c(1) by (auto simp: CipMessageRouterInit_def router_services_def)
qed

definition manager_services :: "cm_service std_service service_row list" where
  "manager_services = [(kGetAttributeSingle, SvcGetAttributeSingle, ''GetAttributeSingle''), (kGetAttributeAll, SvcGetAttributeAll, ''GetAttributeAll''),
     (kForwardOpen, SvcOther SvcForwardOpen, ''ForwardOpen''), (kLargeForwardOpen, SvcOther SvcLargeForwardOpen, ''LargeForwardOpen''),
     (kForwardClose, SvcOther SvcForwardClose, ''ForwardClose''), (kGetConnectionOwner, SvcOther SvcGetConnectionOwner, ''GetConnectionOwner''),
     (kGetConnectionData, SvcOther SvcGetConnectionData, ''GetConnectionData''),
     (kSearchConnectionData, SvcOther SvcSearchConnectionData, ''SearchConnectionData'')]"

lemma ConnectionManagerInit_ready:
  assumes "GetCipClass objects kCipConnectionManagerClassCode = None"
  shows "\<exists>c st'. ConnectionManagerInit unique_connection_id objects st = Some (kEipStatusOk, objects @ [c], st')
     \<and> object_ready kCipConnectionManagerClassCode [] manager_services c"
proof -
  obtain c where c: "CreateCipClass objects kCipConnectionManagerClassCode 0 7 2 0 14 8 1 ''connection manager'' 1 (Some InitializeConnectionManager)
      = Some (c, objects @ [c])" "object_blank kCipConnectionManagerClassCode 0 8 14 [] c"
    using own_object_created [OF assms, of "''connection manager''" 0 _ id, OF _ _ _ own_inits(2) keeps_instances_refl, of 0 14 8 1] by auto
  obtain cc where "insert_services manager_services (core c) = Some cc"
      "store_class kCipConnectionManagerClassCode (c\<lparr>core := cc\<rparr>) (objects @ [c]) = objects @ [c\<lparr>core := cc\<rparr>]"
      "object_ready kCipConnectionManagerClassCode [] manager_services (c\<lparr>core := cc\<rparr>)"
    by (rule own_object_services [OF c(2) _ _ assms, of manager_services]) (auto simp: manager_services_def)
  then show ?thesis
    using c(1) by (simp add: ConnectionManagerInit_def Let_def case_prod_beta) (auto simp: manager_services_def)
qed

definition identity_services :: "'u std_service service_row list" where
  "identity_services = [(kGetAttributeSingle, SvcGetAttributeSingle, ''GetAttributeSingle''), (kGetAttributeAll, SvcGetAttributeAll, ''GetAttributeAll''),
     (kReset, SvcReset, ''Reset''), (kGetAttributeList, SvcGetAttributeList, ''GetAttributeList''), (kSetAttributeList, SvcSetAttributeList, ''SetAttributeList'')]"

lemma SetDeviceProductName_total: "\<exists>g'. SetDeviceProductName ok (Some name) g = Some g'"
proof -
  have "unat (of_nat (length name) :: octet) \<le> length name" by (simp add: unsigned_of_nat take_bit_nat_less_eq_self)
  then show ?thesis by (auto simp: SetDeviceProductName_def SetCipShortStringByCstr_def SetCipShortStringByData_def Let_def copy_octets_def)
qed

lemma CipIdentityInit_ready:
  assumes "GetCipClass objects kCipIdentityClassCode = None"
  shows "\<exists>c g'. CipIdentityInit reset i ok name objects g = Some (kEipStatusOk, objects @ [c], g')
     \<and> object_ready kCipIdentityClassCode (identity_rows i) identity_services c"
proof -
  have keep: "keeps_instances c (c\<lparr>core := (core c)\<lparr>PreResetCallback := Some reset\<rparr>\<rparr>)" for c :: "'a std_service cip_class"
    by (simp add: keeps_instances_def)
  have len: "length (identity_rows i) = 7" by (simp add: identity_rows_def)
  obtain c where c: "CreateCipClass objects kCipIdentityClassCode 0 7 2 7 7 5 1 ''identity'' 1 (Some (InitializeCipIdentity reset))
      = Some (c, objects @ [c])" "object_blank kCipIdentityClassCode (length (identity_rows i)) 5 7 [] c"
    using own_object_created [OF assms, of "''identity''" 0, OF _ _ _ own_inits(3) keep, of 7 7 5 1] by (auto simp: len)
  obtain c' where c': "setup_instance 1 (identity_rows i) identity_services c = Some c'"
      "object_ready kCipIdentityClassCode (identity_rows i) identity_services c'"
    using setup_instance_ready [OF c(2), of identity_services] by (auto simp: identity_rows_def identity_services_def)
  obtain g' where g': "(if ss_length (product_name g) = 0 then SetDeviceProductName ok (Some name) g else Some g) = Some g'"
    using SetDeviceProductName_total by (metis option.exhaust)
  have "class_code c = kCipIdentityClassCode" using c(2) by (simp add: object_blank_def)
  then have "CipIdentityInit reset i ok name objects g = Some (kEipStatusOk, objects @ [c'], g')"
    unfolding CipIdentityInit_def identity_services_def [symmetric] c(1) using c'(1) g' store_registered [OF assms] by simp
  then show ?thesis using c'(2) by blast
qed

lemma default_class_init_core: "default_class_init k c = Some c' \<Longrightarrow> core c' = core c \<and> class_code c' = class_code c"
  by (auto simp: default_class_init_def insert_class_attribute_def insert_class_service_def split: if_splits)

text \<open>
  The assembly class: it has no instances until the application creates assembly objects, and the services and the
  callbacks that reach the assembly data.
\<close>

definition assembly_ready :: "before_send \<Rightarrow> after_received \<Rightarrow> 'u std_service cip_class \<Rightarrow> bool" where
  "assembly_ready before after c \<longleftrightarrow> class_code c = kCipAssemblyClassCode \<and> wf_class c \<and> instances c = []
     \<and> map_option service_function (GetCipService (core c) kGetAttributeSingle) = Some (Some SvcGetAttributeSingle)
     \<and> map_option service_function (GetCipService (core c) kSetAttributeSingle) = Some (Some SvcSetAttributeSingle)
     \<and> PreGetCallback (core c) = Some (AssemblyPreGetCallback before)
     \<and> PostSetCallback (core c) = Some (AssemblyPostSetCallback after)"

lemma CipAssemblyInitialize_ready:
  assumes "GetCipClass objects kCipAssemblyClassCode = None"
  shows "\<exists>c. CipAssemblyInitialize before after objects = Some (kEipStatusOk, objects @ [c]) \<and> assembly_ready before after c"
proof -
  obtain c where c: "CreateCipClass objects kCipAssemblyClassCode 0 7 1 2 4 2 0 ''assembly'' 2 None = Some (c, objects @ [c])"
      "wf_class c" "length (instances c) = unat (0 :: CipInstanceNum)" "class_code c = kCipAssemblyClassCode"
    by (rule CreateCipClass_std [OF assms, of "''assembly''" 0 7 1 2 4 2 0 2]) auto
  have "core c = AllocateAttributeMasks (core (blank_class kCipAssemblyClassCode 0 7 1 2 4 2 ''assembly'' 2 :: 'a std_service cip_class))"
    using c(1) by (auto simp: CreateCipClass_def Let_def dest!: default_class_init_core)
  then have core: "services (core c) = map row_service [] @ replicate 2 empty_service" "number_of_services (core c) = 2"
    by (simp_all add: blank_class_def Let_def AllocateAttributeMasks_def)
  let ?svcs = "[(kGetAttributeSingle, SvcGetAttributeSingle, ''GetAttributeSingle''), (kSetAttributeSingle, SvcSetAttributeSingle, ''SetAttributeSingle'')]"
  obtain cc where cc: "insert_services ?svcs (core c) = Some cc" "cc = (core c)\<lparr>services := map row_service ?svcs\<rparr>"
    using insert_service_rows [OF core(1), of ?svcs] core(2) by auto
  define cc' where "cc' = InsertGetSetCallback (InsertGetSetCallback cc (AssemblyPreGetCallback before) kPreGetFunc) (AssemblyPostSetCallback after) kPostSetFunc"
  have na: "number_of_attributes cc' = number_of_attributes (core c)" "services cc' = map row_service ?svcs"
      "number_of_services cc' = 2" "PreGetCallback cc' = Some (AssemblyPreGetCallback before)"
      "PostSetCallback cc' = Some (AssemblyPostSetCallback after)"
    using core(2) by (simp_all add: cc(2) cc'_def InsertGetSetCallback_def Let_def)
  have "wf_class (c\<lparr>core := cc'\<rparr>)" using c(2,3) na(1) by (simp add: wf_class_def wf_instances_def GetMaxInstanceNumber_def)
  moreover have "CipAssemblyInitialize before after objects = Some (kEipStatusOk, objects @ [c\<lparr>core := cc'\<rparr>])"
    using cc(1) c(1,4) store_registered [OF assms c(4)]
    by (auto simp: CipAssemblyInitialize_def CreateAssemblyClass_def cc'_def [symmetric] Let_def split: Option.bind_splits)
  ultimately show ?thesis using c(3,4) na(2-5) by (auto simp: assembly_ready_def GetCipService_def)
qed

subsection \<open>The stack comes up\<close>

lemma lookup_absent: "GetCipClass objects code = None \<longleftrightarrow> code \<notin> class_code ` set objects"
  by (auto simp: GetCipClass_eq GetRegisteredObject_def find_None_iff)

lemma object_ready_code: "object_ready code rows svcs c \<Longrightarrow> class_code c = code"
  by (simp add: object_ready_def)

lemmas class_codes = kCipMessageRouterClassCode_def kCipIdentityClassCode_def kCipTcpIpInterfaceClassCode_def kCipEthernetLinkClassCode_def
  kCipConnectionManagerClassCode_def kCipAssemblyClassCode_def kCipDlrClassCode_def kCipQoSClassCode_def


text \<open>The first four objects, then the others; \<open>absent\<close> discharges that a class is not registered yet.\<close>

lemma first_objects:
  assumes one: "ethlink_instance_cnt (sb_ethlink b) = 1"
  obtains router identity tcpip link g mem where "CipMessageRouterInit [] = Some (kEipStatusOk, [router])"
    "CipIdentityInit (app_reset b) (at_identity b) (sb_calloc_ok b) (sb_device_name b) [router] g0 = Some (kEipStatusOk, [router, identity], g)"
    "CipTcpIpInterfaceInit (sb_endianess b) t (at_tcpip b) [router, identity] = Some (kEipStatusOk, [router, identity, tcpip])"
    "CipEthernetLinkInit (sb_ethlink b) (iface_control b) (at_ethlink b) [router, identity, tcpip] mem0
       = Some (kEipStatusOk, [router, identity, tcpip, link], mem)"
    "object_ready kCipMessageRouterClassCode [] router_services (router :: cm_service std_service cip_class)"
    "object_ready kCipIdentityClassCode (identity_rows (at_identity b)) identity_services identity"
    "object_ready kCipTcpIpInterfaceClassCode (tcpip_rows (sb_endianess b) t (at_tcpip b)) tcpip_services tcpip"
    "object_ready kCipEthernetLinkClassCode (link_rows (sb_ethlink b) (iface_control b) (at_ethlink b) 0) (link_services (sb_ethlink b)) link"
proof -
  obtain router where router: "CipMessageRouterInit [] = Some (kEipStatusOk, [router])"
      "object_ready kCipMessageRouterClassCode [] router_services (router :: cm_service std_service cip_class)"
    using CipMessageRouterInit_ready [of "[]"] by (auto simp: lookup_absent)
  note absent = lookup_absent class_codes router(2) [THEN object_ready_code]
  obtain identity g where identity: "CipIdentityInit (app_reset b) (at_identity b) (sb_calloc_ok b) (sb_device_name b) [router] g0
        = Some (kEipStatusOk, [router] @ [identity], g)"
      "object_ready kCipIdentityClassCode (identity_rows (at_identity b)) identity_services identity"
    using CipIdentityInit_ready [of "[router]"] by (fastforce simp: absent)
  note absent = absent identity(2) [THEN object_ready_code]
  obtain tcpip where tcpip: "CipTcpIpInterfaceInit (sb_endianess b) t (at_tcpip b) [router, identity] = Some (kEipStatusOk, [router, identity] @ [tcpip])"
      "object_ready kCipTcpIpInterfaceClassCode (tcpip_rows (sb_endianess b) t (at_tcpip b)) tcpip_services tcpip"
    using CipTcpIpInterfaceInit_ready [of "[router, identity]"] by (fastforce simp: absent)
  note absent = absent tcpip(2) [THEN object_ready_code]
  obtain link mem where link: "CipEthernetLinkInit (sb_ethlink b) (iface_control b) (at_ethlink b) [router, identity, tcpip] mem0
        = Some (kEipStatusOk, [router, identity, tcpip] @ [link], mem)"
      "object_ready kCipEthernetLinkClassCode (link_rows (sb_ethlink b) (iface_control b) (at_ethlink b) 0) (link_services (sb_ethlink b)) link"
    using CipEthernetLinkInit_ready [of "[router, identity, tcpip]", OF _ one] by (fastforce simp: absent)
  show thesis using that router identity tcpip link by simp
qed

lemma asserted_status:
  "Option.bind (guard (s = k)) (\<lambda>_. Some (s, result)) = (if s = k then Some (s, result) else None)"
  by simp

lemma optional_dlr:
  assumes "GetCipClass objects kCipDlrClassCode = None"
  obtains dlr st' where "init_dlr_device b objects st = Some (objects @ dlr, st')"
    "if sb_dlr b then \<exists>c. dlr = [c] \<and> object_ready kCipDlrClassCode (dlr_rows (at_dlr b)) dlr_services c else dlr = []"
proof (cases "sb_dlr b")
  case True
  obtain c where "CipDlrInit (at_dlr b) objects (io_memory (io st)) =
        Some (kEipStatusOk, objects @ [c], (io_memory (io st))(at_dlr b + 12 := V32 0x82))"
      "object_ready kCipDlrClassCode (dlr_rows (at_dlr b)) dlr_services c"
    using CipDlrInit_ready [OF assms] by blast
  then show thesis using True by (intro that [of "[c]"]) (simp_all add: init_dlr_device_def)
next
  case False
  then show thesis by (intro that [of "[]" st]) (simp_all add: init_dlr_device_def)
qed

text \<open>
  C39: The stack of a device with one Ethernet port comes up: starting without classes no assertion of the initialization
  of its objects fails. The initializations of the file and the security objects, when the stack is built with them, and last the
  one of the application run on a registry with the classes of the message router, the identity, the TCP/IP interface, the
  Ethernet link, the connection manager and the assemblies, of the ring object if it is built in, and of the quality of
  service, in this order. Each of these objects but the assembly class has instance 1 with exactly its attributes, with access
  masks that agree with their flags, and its services are found under their codes. The assembly class has no instance
  yet, its services to get and to set one attribute are found, and its callbacks around these services are installed.
\<close>
theorem CipStackInit_ready:
  assumes one: "ethlink_instance_cnt (sb_ethlink b) = 1"
  shows "\<exists>router identity tcpip link manager assembly dlr qos st'.
     CipStackInit b unique_connection_id [] st =
       do {
         (objects, st) \<leftarrow> init_file_object b ([router, identity, tcpip, link, manager, assembly] @ dlr @ [qos]) st';
         (objects, st) \<leftarrow> init_security_objects b objects st;
         (s, objects, st) \<leftarrow> app_init b objects st;
         if s = kEipStatusOk then Some (s, objects, st) else None }
     \<and> object_ready kCipMessageRouterClassCode [] router_services router
     \<and> object_ready kCipIdentityClassCode (identity_rows (at_identity b)) identity_services identity
     \<and> object_ready kCipTcpIpInterfaceClassCode (tcpip_rows (sb_endianess b) (g_tcpip st) (at_tcpip b)) tcpip_services tcpip
     \<and> object_ready kCipEthernetLinkClassCode (link_rows (sb_ethlink b) (iface_control b) (at_ethlink b) 0) (link_services (sb_ethlink b)) link
     \<and> object_ready kCipConnectionManagerClassCode [] manager_services manager
     \<and> assembly_ready (app_before b) (app_after b) assembly
     \<and> (if sb_dlr b then \<exists>c. dlr = [c] \<and> object_ready kCipDlrClassCode (dlr_rows (at_dlr b)) dlr_services c else dlr = [])
     \<and> object_ready kCipQoSClassCode (qos_rows (at_qos b)) qos_services qos"
proof -
  obtain router identity tcpip link g mem where
      first: "CipMessageRouterInit [] = Some (kEipStatusOk, [router])"
        "CipIdentityInit (app_reset b) (at_identity b) (sb_calloc_ok b) (sb_device_name b) [router] (g_identity st) = Some (kEipStatusOk, [router, identity], g)"
        "CipTcpIpInterfaceInit (sb_endianess b) (g_tcpip st) (at_tcpip b) [router, identity] = Some (kEipStatusOk, [router, identity, tcpip])"
        "CipEthernetLinkInit (sb_ethlink b) (iface_control b) (at_ethlink b) [router, identity, tcpip] (io_memory (io st))
           = Some (kEipStatusOk, [router, identity, tcpip, link], mem)"
      and ready: "object_ready kCipMessageRouterClassCode [] router_services (router :: cm_service std_service cip_class)"
        "object_ready kCipIdentityClassCode (identity_rows (at_identity b)) identity_services identity"
        "object_ready kCipTcpIpInterfaceClassCode (tcpip_rows (sb_endianess b) (g_tcpip st) (at_tcpip b)) tcpip_services tcpip"
        "object_ready kCipEthernetLinkClassCode (link_rows (sb_ethlink b) (iface_control b) (at_ethlink b) 0) (link_services (sb_ethlink b)) link"
    by (rule first_objects [OF one, of "g_identity st" "g_tcpip st" "io_memory (io st)"])
  note absent = lookup_absent class_codes ready [THEN object_ready_code]
  let ?o = "[router, identity, tcpip, link]" and ?st = "on_memory (\<lambda>_. mem) (st\<lparr>g_identity := g\<rparr>)"
  obtain manager st1 where manager: "ConnectionManagerInit unique_connection_id ?o ?st = Some (kEipStatusOk, ?o @ [manager], st1)"
      "object_ready kCipConnectionManagerClassCode [] manager_services manager"
    using ConnectionManagerInit_ready [of ?o unique_connection_id ?st] by (auto simp: absent)
  note absent = absent manager(2) [THEN object_ready_code]
  obtain asm where asm: "CipAssemblyInitialize (app_before b) (app_after b) (?o @ [manager]) = Some (kEipStatusOk, (?o @ [manager]) @ [asm])"
      "assembly_ready (app_before b) (app_after b) asm"
    using CipAssemblyInitialize_ready [of "?o @ [manager]"] by (auto simp: absent)
  have "class_code asm = kCipAssemblyClassCode" using asm(2) by (simp add: assembly_ready_def)
  note absent = absent this
  obtain dlr st2 where dlr: "init_dlr_device b (?o @ [manager, asm]) st1 = Some ((?o @ [manager, asm]) @ dlr, st2)"
      "if sb_dlr b then \<exists>c. dlr = [c] \<and> object_ready kCipDlrClassCode (dlr_rows (at_dlr b)) dlr_services c else dlr = []"
    by (rule optional_dlr [of "?o @ [manager, asm]" b st1]) (simp_all add: absent)
  have "\<forall>c \<in> set dlr. class_code c = kCipDlrClassCode" using dlr(2) by (auto dest: object_ready_code split: if_splits)
  then have "GetCipClass (?o @ [manager, asm] @ dlr) kCipQoSClassCode = None" by (auto simp: absent)
  from CipQoSInit_ready [OF this, of "at_qos b"]
  obtain qos where qos: "CipQoSInit (at_qos b) (?o @ [manager, asm] @ dlr) = Some (kEipStatusOk, (?o @ [manager, asm] @ dlr) @ [qos])"
      "object_ready kCipQoSClassCode (qos_rows (at_qos b)) qos_services qos"
    by blast
  have "CipStackInit b unique_connection_id [] st =
      do {
         (objects, st) \<leftarrow> init_file_object b ([router, identity, tcpip, link, manager, asm] @ dlr @ [qos]) st2;
         (objects, st) \<leftarrow> init_security_objects b objects st;
         (s, objects, st) \<leftarrow> app_init b objects st;
         if s = kEipStatusOk then Some (s, objects, st) else None }"
    using first manager(1) asm(1) dlr(1) qos(1) unfolding CipStackInit_def
    by (simp add: asserted_status)
  with ready manager(2) asm(2) dlr(2) qos(2) show ?thesis by blast
qed


definition example_stack_build :: "unit stack_build" where
  "example_stack_build = \<lparr>sb_endianess = kOpENerEndianessLittle, sb_ethlink = example_build, sb_dlr = True, sb_device_name = [79, 112],
     sb_calloc_ok = True, at_identity = 100, at_tcpip = 200, at_ethlink = 300, at_dlr = 400, at_qos = 500,
     app_reset = (\<lambda>_ _ resp mem. (kEipStatusOkSend, resp, mem)), app_before = (\<lambda>_ mem. (True, mem)), app_after = (\<lambda>_ mem. (kEipStatusOk, mem)),
     iface_control = (\<lambda>_ _ _. None), sb_file_object = None, sb_security_objects = None, app_init = (\<lambda>objects st. Some (kEipStatusOk, objects, st))\<rparr>"

lemma CipStackInit_ready_witness:
  "\<exists>objects st'. CipStackInit example_stack_build 7 [] io_device = Some (kEipStatusOk, objects, st')
     \<and> map class_code objects = [0x02, 0x01, 0xF5, 0xF6, 0x06, 0x04, 0x47, 0x48]"
proof -
  have "ethlink_instance_cnt (sb_ethlink example_stack_build) = 1" by (simp add: example_stack_build_def example_build_def)
  from CipStackInit_ready [OF this, of 7 io_device]
  show ?thesis by (auto simp: example_stack_build_def object_ready_def assembly_ready_def class_codes init_file_object_def
      init_security_objects_def)
qed

end
