(* ===== verification/CipStringI.thy ===== *)
theory CipStringI
  imports CipData
begin

text \<open>
  International strings (\<^verbatim>\<open>cip/cipstringi.c\<close>): a list of strings, each with its language, its character set
  and the type of its representation. Reading a string as another type than it has, writing through a null pointer and reading past the
  end of a memory are \<^term>\<open>None\<close>; \<open>calloc_ok\<close> is whether memory is found. The array
  has at least \<open>number_of_strings\<close> elements.
\<close>

record cip_string_i =
  number_of_strings :: CipUsint
  array_of_string_i_structs :: "string_i_struct list"

definition used_structs :: "cip_string_i \<Rightarrow> string_i_struct list option" where
  "used_structs s = do {
     guard (unat (number_of_strings s) \<le> length (array_of_string_i_structs s));
     Some (take (unat (number_of_strings s)) (array_of_string_i_structs s)) }"

text \<open>The cases of the switches over \<^verbatim>\<open>char_string_struct\<close>.\<close>

datatype string_kind = KShortString | KString | KString2 | KStringN | KInvalid

definition string_kind :: "string_i_struct \<Rightarrow> string_kind" where
  "string_kind x =
     (let t = char_string_struct x
      in if t = ucast kCipShortString then KShortString else if t = ucast kCipString then KString
         else if t = ucast kCipString2 then KString2 else if t = ucast kCipStringN then KStringN else KInvalid)"

text \<open>A string read as a type: the number of its symbols, the size of a symbol, and the data.\<close>

fun string_fields :: "string_kind \<Rightarrow> string_i_content \<Rightarrow> (nat \<times> nat \<times> octet list option) option" where
  "string_fields KShortString (SIShortString s) = Some (unat (ss_length s), 1, ss_string s)"
| "string_fields KString (SIString s) = Some (unat (s_length s), 1, s_string s)"
| "string_fields KString2 (SIString2 s) = Some (unat (s2_length s), 2, s2_string s)"
| "string_fields KStringN (SIStringN s) = Some (unat (sn_length s), unat (sn_size s), sn_string s)"
| "string_fields _ _ = None"

subsection \<open>Queries\<close>

text \<open>A string of an invalid type counts as empty.\<close>

fun any_empty :: "string_i_struct list \<Rightarrow> bool option" where
  "any_empty [] = Some False"
| "any_empty (x # xs) = do {
     n \<leftarrow> (if string_kind x = KInvalid then Some 0 else map_option fst (string_fields (string_kind x) (si_string x)));
     if n = 0 then Some True else any_empty xs }"

definition CipStringIsAnyStringEmpty :: "cip_string_i \<Rightarrow> bool option" where
  "CipStringIsAnyStringEmpty s = Option.bind (used_structs s) any_empty"

text \<open>
  The size in octets, kept in 16 bits, and the data that \<^verbatim>\<open>CipStringICompare\<close> compares. The product is computed as an
  \<^verbatim>\<open>int\<close> of 32 bits.
\<close>

definition compared_data :: "string_i_struct \<Rightarrow> (CipUint \<times> octet list option) option" where
  "compared_data x =
     (if string_kind x = KInvalid then Some (0, None)
      else do {
        (n, sz, d) \<leftarrow> string_fields (string_kind x) (si_string x);
        guard (n * sz < 2 ^ 31);
        Some (of_nat (n * sz), d) })"

fun any_match :: "CipUint \<Rightarrow> octet list option \<Rightarrow> string_i_struct list \<Rightarrow> bool option" where
  "any_match len_1 data_1 [] = Some False"
| "any_match len_1 data_1 (y # ys) = do {
     (len_2, data_2) \<leftarrow> compared_data y;
     (case (data_1, data_2) of
        (Some d1, Some d2) \<Rightarrow>
          if len_1 = len_2 then do {
            bs1 \<leftarrow> copy_octets (unat len_1) d1;
            bs2 \<leftarrow> copy_octets (unat len_1) d2;
            if bs1 = bs2 then Some True else any_match len_1 data_1 ys
          } else any_match len_1 data_1 ys
      | _ \<Rightarrow> any_match len_1 data_1 ys) }"

fun any_pair_match :: "string_i_struct list \<Rightarrow> string_i_struct list \<Rightarrow> bool option" where
  "any_pair_match [] ys = Some False"
| "any_pair_match (x # xs) ys = do {
     (len_1, data_1) \<leftarrow> compared_data x;
     found \<leftarrow> any_match len_1 data_1 ys;
     if found then Some True else any_pair_match xs ys }"

definition CipStringICompare :: "cip_string_i \<Rightarrow> cip_string_i \<Rightarrow> bool option" where
  "CipStringICompare stringI_1 stringI_2 = do {
     xs \<leftarrow> used_structs stringI_1;
     ys \<leftarrow> used_structs stringI_2;
     any_pair_match xs ys }"

subsection \<open>Copying\<close>

fun zero_string :: "string_kind \<Rightarrow> string_i_content" where
  "zero_string KShortString = SIShortString \<lparr>ss_length = 0, ss_string = None\<rparr>"
| "zero_string KString = SIString \<lparr>s_length = 0, s_string = None\<rparr>"
| "zero_string KString2 = SIString2 \<lparr>s2_length = 0, s2_string = None\<rparr>"
| "zero_string KStringN = SIStringN \<lparr>sn_size = 0, sn_length = 0, sn_string = None\<rparr>"
| "zero_string KInvalid = SINull"

text \<open>The result is whether the returned pointer is not null.\<close>

definition CipStringICreateStringStructure :: "bool \<Rightarrow> string_i_struct \<Rightarrow> bool \<times> string_i_struct" where
  "CipStringICreateStringStructure calloc_ok to =
     (if string_kind to = KInvalid then (False, to)
      else if calloc_ok then (True, to\<lparr>si_string := zero_string (string_kind to)\<rparr>)
      else (False, to\<lparr>si_string := SINull\<rparr>))"

text \<open>Allocating and copying \<open>n\<close> octets; copying nothing touches no memory.\<close>

definition copy_string_data :: "bool \<Rightarrow> nat \<Rightarrow> octet list option \<Rightarrow> octet list option option" where
  "copy_string_data calloc_ok n src =
     (if n = 0 then Some (if calloc_ok then Some [] else None)
      else if \<not> calloc_ok then None
      else do {
        d \<leftarrow> src;
        bs \<leftarrow> copy_octets n d;
        Some (Some bs) })"

definition CipStringIDeepCopyInternalString ::
    "bool \<Rightarrow> string_i_struct \<Rightarrow> string_i_struct \<Rightarrow> string_i_struct option" where
  "CipStringIDeepCopyInternalString calloc_ok to from =
     (let put = (\<lambda>c. Some (to\<lparr>si_string := c\<rparr>))
      in case string_kind to of
           KShortString \<Rightarrow> (case (si_string to, si_string from) of
               (SIShortString t, SIShortString f) \<Rightarrow> do {
                 d \<leftarrow> copy_string_data calloc_ok (unat (ss_length f)) (ss_string f);
                 put (SIShortString (t\<lparr>ss_length := ss_length f, ss_string := d\<rparr>)) }
             | _ \<Rightarrow> None)
         | KString \<Rightarrow> (case (si_string to, si_string from) of
               (SIString t, SIString f) \<Rightarrow> do {
                 d \<leftarrow> copy_string_data calloc_ok (unat (s_length f)) (s_string f);
                 put (SIString (t\<lparr>s_length := s_length f, s_string := d\<rparr>)) }
             | _ \<Rightarrow> None)
         | KString2 \<Rightarrow> (case (si_string to, si_string from) of
               (SIString2 t, SIString2 f) \<Rightarrow> do {
                 d \<leftarrow> copy_string_data calloc_ok (2 * unat (s2_length f)) (s2_string f);
                 put (SIString2 (t\<lparr>s2_length := s2_length f, s2_string := d\<rparr>)) }
             | _ \<Rightarrow> None)
         | KStringN \<Rightarrow> (case (si_string to, si_string from) of
               (SIStringN t, SIStringN f) \<Rightarrow> do {
                 d \<leftarrow> copy_string_data calloc_ok (unat (sn_size f) * unat (sn_length f)) (sn_string f);
                 put (SIStringN (t\<lparr>sn_length := sn_length f, sn_size := sn_size f, sn_string := d\<rparr>)) }
             | _ \<Rightarrow> None)
         | KInvalid \<Rightarrow> Some to)"

definition copy_struct :: "bool \<Rightarrow> string_i_struct \<Rightarrow> string_i_struct option" where
  "copy_struct calloc_ok from =
     CipStringIDeepCopyInternalString calloc_ok
       (snd (CipStringICreateStringStructure calloc_ok
          \<lparr>language_char_1 = language_char_1 from, language_char_2 = language_char_2 from, language_char_3 = language_char_3 from,
           char_string_struct = char_string_struct from, character_set = character_set from, si_string = SINull\<rparr>)) from"

fun copy_structs :: "bool \<Rightarrow> string_i_struct list \<Rightarrow> string_i_struct list option" where
  "copy_structs calloc_ok [] = Some []"
| "copy_structs calloc_ok (x # xs) = do {
     y \<leftarrow> copy_struct calloc_ok x;
     ys \<leftarrow> copy_structs calloc_ok xs;
     Some (y # ys) }"

definition CipStringICopy :: "bool \<Rightarrow> cip_string_i \<Rightarrow> cip_string_i option" where
  "CipStringICopy calloc_ok from = do {
     xs \<leftarrow> used_structs from;
     guard (calloc_ok \<or> xs = []);
     ys \<leftarrow> copy_structs calloc_ok xs;
     Some \<lparr>number_of_strings = number_of_strings from, array_of_string_i_structs = ys\<rparr> }"

subsection \<open>Reading from a message\<close>

definition decode_string_content :: "string_kind \<Rightarrow> octet list \<Rightarrow> (string_i_content \<times> octet list) option" where
  "decode_string_content k data =
     (case k of
        KShortString \<Rightarrow> do {
          (n, data) \<leftarrow> GetUsintFromMessage data;
          (s, _) \<leftarrow> SetCipShortStringByData True \<lparr>ss_length = 0, ss_string = None\<rparr> n data;
          data \<leftarrow> advance (unat n) data;
          Some (SIShortString s, data) }
      | KString \<Rightarrow> do {
          (n, data) \<leftarrow> GetUintFromMessage data;
          (s, _) \<leftarrow> SetCipStringByData True \<lparr>s_length = 0, s_string = None\<rparr> n data;
          data \<leftarrow> advance (unat n) data;
          Some (SIString s, data) }
      | KString2 \<Rightarrow> do {
          (n, data) \<leftarrow> GetUintFromMessage data;
          (s, _) \<leftarrow> SetCipString2ByData True \<lparr>s2_length = 0, s2_string = None\<rparr> n data;
          data \<leftarrow> advance (unat n * 2) data;
          Some (SIString2 s, data) }
      | KStringN \<Rightarrow> do {
          (sz, data) \<leftarrow> GetUintFromMessage data;
          (n, data) \<leftarrow> GetUintFromMessage data;
          (s, _) \<leftarrow> SetCipStringNByData True \<lparr>sn_size = 0, sn_length = 0, sn_string = None\<rparr> n sz data;
          guard (unat n * unat sz < 2 ^ 31);
          data \<leftarrow> advance (unat n * unat sz) data;
          Some (SIStringN s, data) }
      | KInvalid \<Rightarrow> Some (SINull, data))"

definition decode_struct :: "octet list \<Rightarrow> (string_i_struct \<times> octet list) option" where
  "decode_struct data = do {
     (l1, data) \<leftarrow> GetUsintFromMessage data;
     (l2, data) \<leftarrow> GetUsintFromMessage data;
     (l3, data) \<leftarrow> GetUsintFromMessage data;
     (t, data) \<leftarrow> GetUsintFromMessage data;
     (cs, data) \<leftarrow> GetUintFromMessage data;
     let x = \<lparr>language_char_1 = l1, language_char_2 = l2, language_char_3 = l3, char_string_struct = ucast t, character_set = cs, si_string = SINull\<rparr>;
     (s, data) \<leftarrow> decode_string_content (string_kind x) data;
     Some (x\<lparr>si_string := s\<rparr>, data) }"

fun decode_structs :: "nat \<Rightarrow> octet list \<Rightarrow> (string_i_struct list \<times> octet list) option" where
  "decode_structs 0 data = Some ([], data)"
| "decode_structs (Suc n) data = do {
     (x, data) \<leftarrow> decode_struct data;
     (xs, data) \<leftarrow> decode_structs n data;
     Some (x # xs, data) }"

text \<open>Memory is found for every string; without, the code writes through a null pointer.\<close>

definition CipStringIDecodeFromMessage :: "octet list \<Rightarrow> (cip_string_i \<times> octet list) option" where
  "CipStringIDecodeFromMessage data = do {
     (n, data) \<leftarrow> GetUsintFromMessage data;
     (xs, data) \<leftarrow> decode_structs (unat n) data;
     Some (\<lparr>number_of_strings = n, array_of_string_i_structs = xs\<rparr>, data) }"

subsection \<open>Properties\<close>

text \<open>A string of a valid type whose data has the announced size, in the limits of the comparison.\<close>

definition wf_struct :: "string_i_struct \<Rightarrow> bool" where
  "wf_struct x \<longleftrightarrow> (\<exists>n sz d. string_fields (string_kind x) (si_string x) = Some (n, sz, Some d) \<and> length d = n * sz \<and> n * sz < 2 ^ 16)"

lemma string_fieldsE:
  assumes "string_fields k c = Some (n, sz, d)"
  obtains s where "k = KShortString" "c = SIShortString s" "n = unat (ss_length s)" "sz = 1" "d = ss_string s"
  | s where "k = KString" "c = SIString s" "n = unat (s_length s)" "sz = 1" "d = s_string s"
  | s where "k = KString2" "c = SIString2 s" "n = unat (s2_length s)" "sz = 2" "d = s2_string s"
  | s where "k = KStringN" "c = SIStringN s" "n = unat (sn_length s)" "sz = unat (sn_size s)" "d = sn_string s"
  using assms by (cases k; cases c) auto

lemma copy_string_data_exact: "length d = n \<Longrightarrow> copy_string_data True n (Some d) = Some (Some d)"
  by (auto simp: copy_string_data_def copy_octets_def)

lemma copy_struct_exact:
  assumes "wf_struct x"
  shows "copy_struct True x = Some x"
proof -
  obtain n sz d where f: "string_fields (string_kind x) (si_string x) = Some (n, sz, Some d)" "length d = n * sz"
    using assms by (auto simp: wf_struct_def)
  have kind: "string_kind (x\<lparr>si_string := c\<rparr>) = string_kind x" for c by (simp add: string_kind_def)
  have header: "\<lparr>language_char_1 = language_char_1 x, language_char_2 = language_char_2 x, language_char_3 = language_char_3 x,
      char_string_struct = char_string_struct x, character_set = character_set x, si_string = SINull\<rparr> = x\<lparr>si_string := SINull\<rparr>" by simp
  have same: "x\<lparr>si_string := si_string x\<rparr> = x" by simp
  show ?thesis
    using f(1)
  proof (cases rule: string_fieldsE)
    case (1 s)
    then have "copy_string_data True (unat (ss_length s)) (ss_string s) = Some (ss_string s)" using f(2) by (metis copy_string_data_exact mult.right_neutral)
    then show ?thesis using 1 same unfolding copy_struct_def header
      by (simp add: CipStringICreateStringStructure_def CipStringIDeepCopyInternalString_def kind)
  next
    case (2 s)
    then have "copy_string_data True (unat (s_length s)) (s_string s) = Some (s_string s)" using f(2) by (metis copy_string_data_exact mult.right_neutral)
    then show ?thesis using 2 same unfolding copy_struct_def header
      by (simp add: CipStringICreateStringStructure_def CipStringIDeepCopyInternalString_def kind)
  next
    case (3 s)
    then have "copy_string_data True (2 * unat (s2_length s)) (s2_string s) = Some (s2_string s)" using f(2) by (metis copy_string_data_exact mult.commute)
    then show ?thesis using 3 same unfolding copy_struct_def header
      by (simp add: CipStringICreateStringStructure_def CipStringIDeepCopyInternalString_def kind)
  next
    case (4 s)
    then have "copy_string_data True (unat (sn_size s) * unat (sn_length s)) (sn_string s) = Some (sn_string s)"
      using f(2) by (metis copy_string_data_exact mult.commute)
    then show ?thesis using 4 same unfolding copy_struct_def header
      by (simp add: CipStringICreateStringStructure_def CipStringIDeepCopyInternalString_def kind)
  qed
qed

lemma compared_data_exact:
  assumes "wf_struct x"
  obtains d :: "octet list" where "compared_data x = Some (of_nat (length d), Some d)" "length d < 2 ^ 16"
proof -
  obtain n sz d where f: "string_fields (string_kind x) (si_string x) = Some (n, sz, Some d)" "length d = n * sz" "n * sz < 2 ^ 16"
    using assms by (auto simp: wf_struct_def)
  have "string_kind x \<noteq> KInvalid" using f(1) by (auto elim: string_fieldsE)
  then have "compared_data x = Some (of_nat (length d), Some d)"
    using f by (simp add: compared_data_def)
  then show thesis using f that by simp
qed

lemma copy_structs_exact: "\<forall>x\<in>set xs. wf_struct x \<Longrightarrow> copy_structs True xs = Some xs"
  by (induction xs) (simp_all add: copy_struct_exact)

lemma any_match_first:
  assumes "length d < 2 ^ 16" "compared_data y = Some (of_nat (length d), Some d)"
  shows "any_match (of_nat (length d)) (Some d) (y # ys) = Some True"
proof -
  have "unat (of_nat (length d) :: CipUint) = length d" using assms(1) by (simp add: unat_of_nat take_bit_eq_mod)
  then show ?thesis using assms(2) by (simp add: copy_octets_def)
qed

lemma any_pair_match_refl: "wf_struct x \<Longrightarrow> any_pair_match (x # xs) (x # xs) = Some True"
  by (erule compared_data_exact) (simp add: any_match_first del: any_match.simps)

lemma used_structs_all: "length (array_of_string_i_structs s) = unat (number_of_strings s) \<Longrightarrow> used_structs s = Some (array_of_string_i_structs s)"
  by (simp add: used_structs_def)

lemma CipStringICompare_refl:
  assumes "length (array_of_string_i_structs s) = unat (number_of_strings s)" and "\<forall>x\<in>set (array_of_string_i_structs s). wf_struct x"
  shows "CipStringICompare s s = Some (number_of_strings s \<noteq> 0)"
proof (cases "array_of_string_i_structs s")
  case Nil
  then show ?thesis using assms(1) by (simp add: used_structs_all CipStringICompare_def unat_eq_0)
next
  case (Cons x xs)
  then have "number_of_strings s \<noteq> 0" using assms(1) by auto
  then show ?thesis using assms Cons by (simp add: used_structs_all CipStringICompare_def any_pair_match_refl del: any_pair_match.simps)
qed

text \<open>A non-empty short string with data of the announced size, and the octets that its encoder writes.\<close>

definition short_struct :: "string_i_struct \<Rightarrow> bool" where
  "short_struct x \<longleftrightarrow> char_string_struct x = ucast kCipShortString
     \<and> (case si_string x of
          SIShortString s \<Rightarrow> (case ss_string s of Some bs \<Rightarrow> bs \<noteq> [] \<and> length bs = unat (ss_length s) | None \<Rightarrow> False)
        | _ \<Rightarrow> False)"

definition short_struct_octets :: "string_i_struct \<Rightarrow> octet list" where
  "short_struct_octets x = [language_char_1 x, language_char_2 x, language_char_3 x, ucast kCipShortString] @ le_octets 2 (character_set x)
     @ (case si_string x of SIShortString s \<Rightarrow> ss_length s # short_string_octets s | _ \<Rightarrow> [])"

lemma short_structE:
  assumes "short_struct x"
  obtains n bs where "si_string x = SIShortString \<lparr>ss_length = n, ss_string = Some bs\<rparr>" "n \<noteq> 0" "length bs = unat n"
    "char_string_struct x = ucast kCipShortString"
proof -
  obtain s bs where s: "si_string x = SIShortString s" "ss_string s = Some bs" "bs \<noteq> []" "length bs = unat (ss_length s)"
      "char_string_struct x = ucast kCipShortString"
    using assms by (auto simp: short_struct_def split: string_i_content.splits option.splits)
  have "s = \<lparr>ss_length = ss_length s, ss_string = Some bs\<rparr>" using s(2) by (cases s) simp
  moreover have "ss_length s \<noteq> 0" using s(3,4) by auto
  ultimately show thesis using s that by metis
qed

lemma encode_short_structs:
  assumes "\<forall>x\<in>set xs. short_struct x" and "current_message_position m \<le> length (message_buffer m)"
  shows "encode_string_i_structs xs m = emit (concat (map short_struct_octets xs)) m"
  using assms
proof (induction xs arbitrary: m)
  case (Cons x xs)
  from Cons.prems(1) have "short_struct x" by simp
  then obtain n bs where x: "si_string x = SIShortString \<lparr>ss_length = n, ss_string = Some bs\<rparr>" "n \<noteq> 0" "length bs = unat n"
    "char_string_struct x = ucast kCipShortString" by (rule short_structE)
  have "encode_string_i_structs (x # xs) m = Option.bind (emit (short_struct_octets x) m) (encode_string_i_structs xs)"
    using x by (simp add: CipStringIHeaderEncoding_def append_octets_emit codec_simps short_struct_octets_def copy_octets_def
        short_string_octets_def bind_assoc)
  also have "\<dots> = Option.bind (emit (short_struct_octets x) m) (emit (concat (map short_struct_octets xs)))"
  proof (rule Option.bind_cong [OF refl])
    fix m' assume "emit (short_struct_octets x) m = Some m'"
    then have "current_message_position m' \<le> length (message_buffer m')"
      by (auto simp: emit_def put_octets_def splice_at_def split: if_splits)
    then show "encode_string_i_structs xs m' = emit (concat (map short_struct_octets xs)) m'" using Cons by simp
  qed
  finally show ?case by (simp add: codec_simps)
qed simp

lemma decode_short_struct:
  assumes "short_struct x"
  shows "decode_struct (short_struct_octets x @ rest) = Some (x, rest)"
proof -
  obtain n bs where x: "si_string x = SIShortString \<lparr>ss_length = n, ss_string = Some bs\<rparr>" "n \<noteq> 0" "length bs = unat n"
    "char_string_struct x = ucast kCipShortString" using assms by (rule short_structE)
  have same: "x\<lparr>si_string := si_string x\<rparr> = x" by simp
  show ?thesis
    using x same
    by (simp add: decode_struct_def short_struct_octets_def uint.dec_enc decode_string_content_def string_kind_def
        short_string_octets_def SetCipShortStringByData_def ClearCipShortString_def copy_octets_def advance_def
        )
qed

lemma decode_short_structs:
  "\<forall>x\<in>set xs. short_struct x \<Longrightarrow> decode_structs (length xs) (concat (map short_struct_octets xs) @ rest) = Some (xs, rest)"
  by (induction xs) (simp_all add: decode_short_struct)

text \<open>
  Copies of international strings. Copying a list of strings, each of a valid type with data of the announced size (below 64 KiB), returns
  exactly these strings, in memory of their own, and the copy compares as equal with the original if and only if there is a string.
\<close>

theorem CipStringICopy_equal:
  assumes "length (array_of_string_i_structs s) = unat (number_of_strings s)" and "\<forall>x\<in>set (array_of_string_i_structs s). wf_struct x"
  shows "CipStringICopy True s = Some s \<and> CipStringICompare s s = Some (number_of_strings s \<noteq> 0)"
  using assms CipStringICompare_refl [OF assms] by (simp add: used_structs_all CipStringICopy_def copy_structs_exact)

definition example_strings :: cip_string_i where
  "example_strings = \<lparr>number_of_strings = 2, array_of_string_i_structs =
     [\<lparr>language_char_1 = 0x65, language_char_2 = 0x6E, language_char_3 = 0x67, char_string_struct = 0xDA, character_set = 4,
       si_string = SIShortString \<lparr>ss_length = 3, ss_string = Some [0x6F, 0x6E, 0x65]\<rparr>\<rparr>,
      \<lparr>language_char_1 = 0x64, language_char_2 = 0x65, language_char_3 = 0x75, char_string_struct = 0xDA, character_set = 4,
       si_string = SIShortString \<lparr>ss_length = 4, ss_string = Some [0x65, 0x69, 0x6E, 0x73]\<rparr>\<rparr>]\<rparr>"

lemma CipStringICopy_equal_witness: "CipStringICopy True example_strings = Some example_strings \<and> CipStringICompare example_strings example_strings = Some True"
  using CipStringICopy_equal [of example_strings] by (simp add: example_strings_def wf_struct_def string_kind_def)

text \<open>
  Round trip of international strings. If the message has room for them, the encoder of the attribute type writes a list of non-empty short
  strings, and the decoder reads from what was written exactly the same list, with its languages and character sets, and leaves what follows.
\<close>

theorem StringI_roundtrip:
  assumes "wf_msg m" and "unat n = length xs" and "\<forall>x\<in>set xs. short_struct x"
    and "1 + length (concat (map short_struct_octets xs)) \<le> msg_room m"
  shows "\<exists>m' bs. EncodeCipStringI (VStringI n xs) m = Some m' \<and> wf_msg m' \<and> msg_content m' = msg_content m @ bs
           \<and> CipStringIDecodeFromMessage (bs @ rest) = Some (\<lparr>number_of_strings = n, array_of_string_i_structs = xs\<rparr>, rest)"
proof -
  let ?ys = "concat (map short_struct_octets xs)"
  obtain m1 where m1: "emit [n] m = Some m1" "wf_msg m1"
    using emit_wf_fits [OF assms(1), of "[n]"] assms(4) by auto
  have "EncodeCipStringI (VStringI n xs) m = Option.bind (emit [n] m) (\<lambda>m. encode_string_i_structs xs m)"
    using assms(2) by (simp add: AddSint_emit)
  also have "\<dots> = emit ?ys m1"
    using m1 assms(3) by (simp add: encode_short_structs wf_msg_def)
  also have "\<dots> = emit (n # ?ys) m"
    using m1(1) emit_emit [of "[n]" m ?ys] by simp
  finally have enc: "EncodeCipStringI (VStringI n xs) m = emit (n # ?ys) m" .
  obtain m' where "emit (n # ?ys) m = Some m'" "wf_msg m'" "msg_content m' = msg_content m @ n # ?ys"
    using emit_wf_fits [OF assms(1), of "n # ?ys"] assms(4) by auto
  moreover have "CipStringIDecodeFromMessage ((n # ?ys) @ rest) = Some (\<lparr>number_of_strings = n, array_of_string_i_structs = xs\<rparr>, rest)"
    using decode_short_structs [OF assms(3), of rest] assms(2) by (simp add: CipStringIDecodeFromMessage_def)
  ultimately show ?thesis unfolding enc by blast
qed

lemma StringI_roundtrip_witness:
  "\<exists>m' bs. EncodeCipStringI (VStringI 2 (array_of_string_i_structs example_strings)) (InitializeENIPMessage undefined) = Some m'
     \<and> msg_content m' = bs \<and> CipStringIDecodeFromMessage (bs @ [7]) = Some (example_strings, [7])"
proof -
  have short: "\<forall>x\<in>set (array_of_string_i_structs example_strings). short_struct x"
    by (simp add: example_strings_def short_struct_def)
  have len: "unat (2 :: CipUsint) = length (array_of_string_i_structs example_strings)" by (simp add: example_strings_def)
  have room: "1 + length (concat (map short_struct_octets (array_of_string_i_structs example_strings))) \<le> msg_room (InitializeENIPMessage undefined)"
    by (simp add: example_strings_def short_struct_octets_def short_string_octets_def PC_OPENER_ETHERNET_BUFFER_SIZE_def)
  have eq: "\<lparr>number_of_strings = 2, array_of_string_i_structs = array_of_string_i_structs example_strings\<rparr> = example_strings"
    by (simp add: example_strings_def)
  show ?thesis
    using StringI_roundtrip [OF wf_msg_init len short room, of "[7]"] unfolding eq by (simp del: EncodeCipStringI.simps) blast
qed

end
