(* ===== verification/ConnectionAccessors.thy ===== *)
theory ConnectionAccessors
  imports IoConnection CipEpath
begin

text \<open>
  The accessors of connection objects (\<^verbatim>\<open>cip/cipconnectionobject.c\<close>): the fields that are only set and read, each shown to be a
  field of its own, and the parts of the packed network connection parameters; and those of the electronic key
  (\<^verbatim>\<open>cip/cipelectronickey.c\<close>). The lengths of the encoded paths are left out with the paths.
\<close>

subsection \<open>Fields\<close>

definition ConnectionObjectGetProducedConnectionSize :: "'fn connection_object \<Rightarrow> CipUint" where
  "ConnectionObjectGetProducedConnectionSize c = produced_connection_size c"

definition ConnectionObjectSetProducedConnectionSize :: "CipUint \<Rightarrow> 'fn connection_object \<Rightarrow> 'fn connection_object" where
  "ConnectionObjectSetProducedConnectionSize v c = c\<lparr>produced_connection_size := v\<rparr>"

definition ConnectionObjectGetConsumedConnectionSize :: "'fn connection_object \<Rightarrow> CipUint" where
  "ConnectionObjectGetConsumedConnectionSize c = consumed_connection_size c"

definition ConnectionObjectSetConsumedConnectionSize :: "CipUint \<Rightarrow> 'fn connection_object \<Rightarrow> 'fn connection_object" where
  "ConnectionObjectSetConsumedConnectionSize v c = c\<lparr>consumed_connection_size := v\<rparr>"

definition ConnectionObjectGetCipProducedConnectionID :: "'fn connection_object \<Rightarrow> CipUdint" where
  "ConnectionObjectGetCipProducedConnectionID c = cip_produced_connection_id c"

definition ConnectionObjectSetCipProducedConnectionID :: "CipUdint \<Rightarrow> 'fn connection_object \<Rightarrow> 'fn connection_object" where
  "ConnectionObjectSetCipProducedConnectionID v c = c\<lparr>cip_produced_connection_id := v\<rparr>"

definition ConnectionObjectGetCipConsumedConnectionID :: "'fn connection_object \<Rightarrow> CipUdint" where
  "ConnectionObjectGetCipConsumedConnectionID c = cip_consumed_connection_id c"

definition ConnectionObjectSetCipConsumedConnectionID :: "CipUdint \<Rightarrow> 'fn connection_object \<Rightarrow> 'fn connection_object" where
  "ConnectionObjectSetCipConsumedConnectionID v c = c\<lparr>cip_consumed_connection_id := v\<rparr>"

definition ConnectionObjectGetProductionInhibitTime :: "'fn connection_object \<Rightarrow> CipUint" where
  "ConnectionObjectGetProductionInhibitTime c = production_inhibit_time c"

definition ConnectionObjectSetProductionInhibitTime :: "CipUint \<Rightarrow> 'fn connection_object \<Rightarrow> 'fn connection_object" where
  "ConnectionObjectSetProductionInhibitTime v c = c\<lparr>production_inhibit_time := v\<rparr>"

definition ConnectionObjectGetConnectionSerialNumber :: "'fn connection_object \<Rightarrow> CipUint" where
  "ConnectionObjectGetConnectionSerialNumber c = connection_serial_number c"

definition ConnectionObjectSetConnectionSerialNumber :: "CipUint \<Rightarrow> 'fn connection_object \<Rightarrow> 'fn connection_object" where
  "ConnectionObjectSetConnectionSerialNumber v c = c\<lparr>connection_serial_number := v\<rparr>"

definition ConnectionObjectGetOriginatorVendorId :: "'fn connection_object \<Rightarrow> CipUint" where
  "ConnectionObjectGetOriginatorVendorId c = originator_vendor_id c"

definition ConnectionObjectSetOriginatorVendorId :: "CipUint \<Rightarrow> 'fn connection_object \<Rightarrow> 'fn connection_object" where
  "ConnectionObjectSetOriginatorVendorId v c = c\<lparr>originator_vendor_id := v\<rparr>"

definition ConnectionObjectGetOriginatorSerialNumber :: "'fn connection_object \<Rightarrow> CipUdint" where
  "ConnectionObjectGetOriginatorSerialNumber c = originator_serial_number c"

definition ConnectionObjectSetOriginatorSerialNumber :: "CipUdint \<Rightarrow> 'fn connection_object \<Rightarrow> 'fn connection_object" where
  "ConnectionObjectSetOriginatorSerialNumber v c = c\<lparr>originator_serial_number := v\<rparr>"

definition ConnectionObjectGetConnectionTimeoutMultiplier :: "'fn connection_object \<Rightarrow> CipUsint" where
  "ConnectionObjectGetConnectionTimeoutMultiplier c = connection_timeout_multiplier c"

definition ConnectionObjectSetConnectionTimeoutMultiplier :: "CipUsint \<Rightarrow> 'fn connection_object \<Rightarrow> 'fn connection_object" where
  "ConnectionObjectSetConnectionTimeoutMultiplier v c = c\<lparr>connection_timeout_multiplier := v\<rparr>"

definition ConnectionObjectGetOToTRequestedPacketInterval :: "'fn connection_object \<Rightarrow> CipUdint" where
  "ConnectionObjectGetOToTRequestedPacketInterval c = o_to_t_requested_packet_interval c"

definition ConnectionObjectSetOToTRequestedPacketInterval :: "CipUdint \<Rightarrow> 'fn connection_object \<Rightarrow> 'fn connection_object" where
  "ConnectionObjectSetOToTRequestedPacketInterval v c = c\<lparr>o_to_t_requested_packet_interval := v\<rparr>"

definition ConnectionObjectGetTToORequestedPacketInterval :: "'fn connection_object \<Rightarrow> CipUdint" where
  "ConnectionObjectGetTToORequestedPacketInterval c = t_to_o_requested_packet_interval c"

definition ConnectionObjectSetTToORequestedPacketInterval :: "CipUdint \<Rightarrow> 'fn connection_object \<Rightarrow> 'fn connection_object" where
  "ConnectionObjectSetTToORequestedPacketInterval v c = c\<lparr>t_to_o_requested_packet_interval := v\<rparr>"

definition ConnectionObjectGetInstanceType :: "'fn connection_object \<Rightarrow> CipUsint" where
  "ConnectionObjectGetInstanceType c = instance_type c"

definition ConnectionObjectSetInstanceType :: "CipUsint \<Rightarrow> 'fn connection_object \<Rightarrow> 'fn connection_object" where
  "ConnectionObjectSetInstanceType v c = c\<lparr>instance_type := v\<rparr>"

definition ConnectionObjectGetExpectedPacketRate :: "'fn connection_object \<Rightarrow> CipUint" where
  "ConnectionObjectGetExpectedPacketRate c = expected_packet_rate c"

definition ConnectionObjectGetConnectionlNumber :: "'fn connection_object \<Rightarrow> CipUdint" where
  "ConnectionObjectGetConnectionlNumber c = ucast (connection_number c)"

definition ConnectionObjectSetTToONetworkConnectionParameters :: "CipDword \<Rightarrow> 'fn connection_object \<Rightarrow> 'fn connection_object" where
  "ConnectionObjectSetTToONetworkConnectionParameters v c = c\<lparr>t_to_o_network_connection_parameters := v\<rparr>"

definition ConnectionObjectSetOToTNetworkConnectionParameters :: "CipDword \<Rightarrow> 'fn connection_object \<Rightarrow> 'fn connection_object" where
  "ConnectionObjectSetOToTNetworkConnectionParameters v c = c\<lparr>o_to_t_network_connection_parameters := v\<rparr>"

text \<open>The copy has the memory of its own that the record is.\<close>

definition ConnectionObjectDeepCopy :: "'fn connection_object \<Rightarrow> 'fn connection_object \<Rightarrow> 'fn connection_object" where
  "ConnectionObjectDeepCopy destination source = source"

datatype WatchdogTimeoutAction =
    TimeoutActionTransitionToTimedOut | TimeoutActionAutoDelete | TimeoutActionAutoReset | TimeoutActionDeferredDelete
  | TimeoutActionInvalid

definition ConnectionObjectGetWatchdogTimeoutAction :: "'fn connection_object \<Rightarrow> WatchdogTimeoutAction" where
  "ConnectionObjectGetWatchdogTimeoutAction c =
     (let a = watchdog_timeout_action c
      in if a = 0 then TimeoutActionTransitionToTimedOut else if a = 1 then TimeoutActionAutoDelete
         else if a = 2 then TimeoutActionAutoReset else if a = 3 then TimeoutActionDeferredDelete
         else TimeoutActionInvalid)"

subsection \<open>Parts of the network connection parameters\<close>

definition ConnectionObjectIsOToTRedundantOwner :: "'fn connection_object \<Rightarrow> bool" where
  "ConnectionObjectIsOToTRedundantOwner c =
     ConnectionObjectIsRedundantOwner (o_to_t_network_connection_parameters c) (is_large_forward_open c)"

definition ConnectionObjectIsTToORedundantOwner :: "'fn connection_object \<Rightarrow> bool" where
  "ConnectionObjectIsTToORedundantOwner c =
     ConnectionObjectIsRedundantOwner (t_to_o_network_connection_parameters c) (is_large_forward_open c)"

definition ConnectionObjectGetOToTPriority :: "'fn connection_object \<Rightarrow> ConnectionPriority option" where
  "ConnectionObjectGetOToTPriority c =
     ConnectionObjectGetPriority (o_to_t_network_connection_parameters c) (is_large_forward_open c)"

definition ConnectionObjectGetOToTConnectionSizeType :: "'fn connection_object \<Rightarrow> ConnectionSizeType" where
  "ConnectionObjectGetOToTConnectionSizeType c =
     ConnectionObjectGetConnectionSizeType (o_to_t_network_connection_parameters c) (is_large_forward_open c)"

subsection \<open>The electronic key\<close>

definition ElectronicKeyFormat4SetVendorId :: "CipUint \<Rightarrow> electronic_key_format_4 \<Rightarrow> electronic_key_format_4" where
  "ElectronicKeyFormat4SetVendorId v key = key\<lparr>ek_vendor_id := v\<rparr>"

definition ElectronicKeyFormat4GetVendorId :: "electronic_key_format_4 \<Rightarrow> CipUint" where
  "ElectronicKeyFormat4GetVendorId key = ek_vendor_id key"

definition ElectronicKeyFormat4SetDeviceType :: "CipUint \<Rightarrow> electronic_key_format_4 \<Rightarrow> electronic_key_format_4" where
  "ElectronicKeyFormat4SetDeviceType v key = key\<lparr>ek_device_type := v\<rparr>"

definition ElectronicKeyFormat4GetDeviceType :: "electronic_key_format_4 \<Rightarrow> CipUint" where
  "ElectronicKeyFormat4GetDeviceType key = ek_device_type key"

definition ElectronicKeyFormat4SetProductCode :: "CipUint \<Rightarrow> electronic_key_format_4 \<Rightarrow> electronic_key_format_4" where
  "ElectronicKeyFormat4SetProductCode v key = key\<lparr>ek_product_code := v\<rparr>"

definition ElectronicKeyFormat4GetProductCode :: "electronic_key_format_4 \<Rightarrow> CipUint" where
  "ElectronicKeyFormat4GetProductCode key = ek_product_code key"

definition ElectronicKeyFormat4SetMinorRevision :: "CipUsint \<Rightarrow> electronic_key_format_4 \<Rightarrow> electronic_key_format_4" where
  "ElectronicKeyFormat4SetMinorRevision v key = key\<lparr>ek_minor_revision := v\<rparr>"

definition ElectronicKeyFormat4GetMinorRevision :: "electronic_key_format_4 \<Rightarrow> CipUsint" where
  "ElectronicKeyFormat4GetMinorRevision key = ek_minor_revision key"

definition ElectronicKeyFormat4SetMajorRevisionCompatibility :: "CipByte \<Rightarrow> electronic_key_format_4 \<Rightarrow> electronic_key_format_4" where
  "ElectronicKeyFormat4SetMajorRevisionCompatibility v key = key\<lparr>ek_major_revision_compatibility := v\<rparr>"

text \<open>A pointer to a key is \<^term>\<open>None\<close> if it is null; freeing a key sets the pointer to null.\<close>

definition ElectronicKeyFormat4Delete :: "electronic_key_format_4 option \<Rightarrow> electronic_key_format_4 option" where
  "ElectronicKeyFormat4Delete key = None"

record cip_electronic_key =
  ke_key_format :: CipUsint
  ke_key_data :: "electronic_key_format_4 option"

definition ElectronicKeySetKeyFormat :: "CipUsint \<Rightarrow> cip_electronic_key \<Rightarrow> cip_electronic_key" where
  "ElectronicKeySetKeyFormat v key = key\<lparr>ke_key_format := v\<rparr>"

definition ElectronicKeyGetKeyFormat :: "cip_electronic_key \<Rightarrow> CipUint" where
  "ElectronicKeyGetKeyFormat key = ucast (ke_key_format key)"

definition ElectronicKeySetKeyData :: "electronic_key_format_4 option \<Rightarrow> cip_electronic_key \<Rightarrow> cip_electronic_key" where
  "ElectronicKeySetKeyData v key = key\<lparr>ke_key_data := v\<rparr>"

definition ElectronicKeyGetKeyData :: "cip_electronic_key \<Rightarrow> electronic_key_format_4 option" where
  "ElectronicKeyGetKeyData key = ke_key_data key"

subsection \<open>The laws of a field\<close>

locale field =
  fixes get :: "'s \<Rightarrow> 'v"
    and put :: "'v \<Rightarrow> 's \<Rightarrow> 's"
  assumes get_put [simp]: "get (put v s) = v"
    and put_get [simp]: "put (get s) s = s"
    and put_put [simp]: "put v (put w s) = put v s"
begin

lemma put_inj: "put v s = put w s \<longleftrightarrow> v = w"
  by (metis get_put)

lemma put_same_iff: "put v s = s \<longleftrightarrow> get s = v"
  by (metis get_put put_get)

lemma reachable_by_put: "(\<exists>v. t = put v s) \<Longrightarrow> put (get s) t = s"
  by auto

end

interpretation produced_connection_size_field: field ConnectionObjectGetProducedConnectionSize ConnectionObjectSetProducedConnectionSize
  by unfold_locales (simp_all add: ConnectionObjectGetProducedConnectionSize_def ConnectionObjectSetProducedConnectionSize_def)

interpretation consumed_connection_size_field: field ConnectionObjectGetConsumedConnectionSize ConnectionObjectSetConsumedConnectionSize
  by unfold_locales (simp_all add: ConnectionObjectGetConsumedConnectionSize_def ConnectionObjectSetConsumedConnectionSize_def)

interpretation cip_produced_connection_id_field: field ConnectionObjectGetCipProducedConnectionID ConnectionObjectSetCipProducedConnectionID
  by unfold_locales (simp_all add: ConnectionObjectGetCipProducedConnectionID_def ConnectionObjectSetCipProducedConnectionID_def)

interpretation cip_consumed_connection_id_field: field ConnectionObjectGetCipConsumedConnectionID ConnectionObjectSetCipConsumedConnectionID
  by unfold_locales (simp_all add: ConnectionObjectGetCipConsumedConnectionID_def ConnectionObjectSetCipConsumedConnectionID_def)

interpretation production_inhibit_time_field: field ConnectionObjectGetProductionInhibitTime ConnectionObjectSetProductionInhibitTime
  by unfold_locales (simp_all add: ConnectionObjectGetProductionInhibitTime_def ConnectionObjectSetProductionInhibitTime_def)

interpretation connection_serial_number_field: field ConnectionObjectGetConnectionSerialNumber ConnectionObjectSetConnectionSerialNumber
  by unfold_locales (simp_all add: ConnectionObjectGetConnectionSerialNumber_def ConnectionObjectSetConnectionSerialNumber_def)

interpretation originator_vendor_id_field: field ConnectionObjectGetOriginatorVendorId ConnectionObjectSetOriginatorVendorId
  by unfold_locales (simp_all add: ConnectionObjectGetOriginatorVendorId_def ConnectionObjectSetOriginatorVendorId_def)

interpretation originator_serial_number_field: field ConnectionObjectGetOriginatorSerialNumber ConnectionObjectSetOriginatorSerialNumber
  by unfold_locales (simp_all add: ConnectionObjectGetOriginatorSerialNumber_def ConnectionObjectSetOriginatorSerialNumber_def)

interpretation connection_timeout_multiplier_field: field ConnectionObjectGetConnectionTimeoutMultiplier ConnectionObjectSetConnectionTimeoutMultiplier
  by unfold_locales (simp_all add: ConnectionObjectGetConnectionTimeoutMultiplier_def ConnectionObjectSetConnectionTimeoutMultiplier_def)

interpretation o_to_t_requested_packet_interval_field: field ConnectionObjectGetOToTRequestedPacketInterval ConnectionObjectSetOToTRequestedPacketInterval
  by unfold_locales (simp_all add: ConnectionObjectGetOToTRequestedPacketInterval_def ConnectionObjectSetOToTRequestedPacketInterval_def)

interpretation t_to_o_requested_packet_interval_field: field ConnectionObjectGetTToORequestedPacketInterval ConnectionObjectSetTToORequestedPacketInterval
  by unfold_locales (simp_all add: ConnectionObjectGetTToORequestedPacketInterval_def ConnectionObjectSetTToORequestedPacketInterval_def)

interpretation instance_type_field: field ConnectionObjectGetInstanceType ConnectionObjectSetInstanceType
  by unfold_locales (simp_all add: ConnectionObjectGetInstanceType_def ConnectionObjectSetInstanceType_def)

interpretation ek_vendor_id_field: field ElectronicKeyFormat4GetVendorId ElectronicKeyFormat4SetVendorId
  by unfold_locales (simp_all add: ElectronicKeyFormat4GetVendorId_def ElectronicKeyFormat4SetVendorId_def)

interpretation ek_device_type_field: field ElectronicKeyFormat4GetDeviceType ElectronicKeyFormat4SetDeviceType
  by unfold_locales (simp_all add: ElectronicKeyFormat4GetDeviceType_def ElectronicKeyFormat4SetDeviceType_def)

interpretation ek_product_code_field: field ElectronicKeyFormat4GetProductCode ElectronicKeyFormat4SetProductCode
  by unfold_locales (simp_all add: ElectronicKeyFormat4GetProductCode_def ElectronicKeyFormat4SetProductCode_def)

interpretation ek_minor_revision_field: field ElectronicKeyFormat4GetMinorRevision ElectronicKeyFormat4SetMinorRevision
  by unfold_locales (simp_all add: ElectronicKeyFormat4GetMinorRevision_def ElectronicKeyFormat4SetMinorRevision_def)

interpretation key_data_field: field ElectronicKeyGetKeyData ElectronicKeySetKeyData
  by unfold_locales (simp_all add: ElectronicKeyGetKeyData_def ElectronicKeySetKeyData_def)

text \<open>The octet with the major revision holds the compatibility flag in its highest bit.\<close>

lemma major_revision_split:
  assumes "major < 0x80"
  shows "ElectronicKeyFormat4GetMajorRevision (ElectronicKeyFormat4SetMajorRevisionCompatibility (major OR (if compatible then 0x80 else 0)) key) = major"
    and "ElectronicKeyFormat4GetMajorRevisionCompatibility (ElectronicKeyFormat4SetMajorRevisionCompatibility (major OR (if compatible then 0x80 else 0)) key)
           = compatible"
proof -
  have "take_bit 7 major = major"
    using assms by (simp add: word_unat_eq_iff unsigned_take_bit_eq take_bit_nat_eq_self word_less_nat_alt)
  then have low: "major AND 0x7F = major" by (simp add: take_bit_eq_mask mask_eq_exp_minus_1)
  then have "major AND 0x80 = (major AND 0x7F) AND 0x80" by simp
  also have "\<dots> = 0" by (simp add: and.assoc)
  finally have high: "major AND 0x80 = 0" .
  show "ElectronicKeyFormat4GetMajorRevision (ElectronicKeyFormat4SetMajorRevisionCompatibility (major OR (if compatible then 0x80 else 0)) key) = major"
    using low by (simp add: ElectronicKeyFormat4GetMajorRevision_def ElectronicKeyFormat4SetMajorRevisionCompatibility_def bit.conj_disj_distrib2)
  show "ElectronicKeyFormat4GetMajorRevisionCompatibility (ElectronicKeyFormat4SetMajorRevisionCompatibility (major OR (if compatible then 0x80 else 0)) key)
           = compatible"
    using high by (simp add: ElectronicKeyFormat4GetMajorRevisionCompatibility_def ElectronicKeyFormat4SetMajorRevisionCompatibility_def bit.conj_disj_distrib2)
qed

subsection \<open>Reading back packed parameters\<close>

text \<open>The network connection parameters as the specification packs them, in 16 bits and, of a large forward open, in 32.\<close>

fun connection_type_code :: "ConnectionType \<Rightarrow> 2 word" where
  "connection_type_code ConnectionTypeNull = 0"
| "connection_type_code ConnectionTypeMulticast = 1"
| "connection_type_code ConnectionTypePointToPoint = 2"
| "connection_type_code ConnectionTypeInvalid = 3"

fun priority_code :: "ConnectionPriority \<Rightarrow> 2 word" where
  "priority_code PriorityLow = 0"
| "priority_code PriorityHigh = 1"
| "priority_code PriorityScheduled = 2"
| "priority_code PriorityUrgent = 3"

definition packed_parameters :: "bool \<Rightarrow> bool \<Rightarrow> 2 word \<Rightarrow> 2 word \<Rightarrow> bool \<Rightarrow> 16 word \<Rightarrow> CipDword" where
  "packed_parameters is_lfo owner t p variable sz =
     (if is_lfo
      then push_bit 31 (of_bool owner) OR push_bit 29 (ucast t) OR push_bit 26 (ucast p) OR push_bit 25 (of_bool variable) OR ucast sz
      else push_bit 15 (of_bool owner) OR push_bit 13 (ucast t) OR push_bit 10 (ucast p) OR push_bit 9 (of_bool variable) OR (ucast sz AND 0x1FF))"

lemma bit_2_word: "bit (t :: 2 word) n \<Longrightarrow> n < 2"
  using bit_imp_le_length [of t n] by simp

lemma bit_16_word: "bit (t :: 16 word) n \<Longrightarrow> n < 16"
  using bit_imp_le_length [of t n] by simp

lemma bit_three: "bit (3 :: CipDword) n \<longleftrightarrow> n < 2"
  using bit_mask_iff [of 2 n, where ?'a = CipDword] by (auto simp: mask_eq_exp_minus_1)

lemma bit_size_bits: "bit (0x1FF :: CipDword) n \<longleftrightarrow> n < 9"
  using bit_mask_iff [of 9 n, where ?'a = CipDword] by (auto simp: mask_eq_exp_minus_1)

lemma bit_large_size_bits: "bit (0xFFFF :: CipDword) n \<longleftrightarrow> n < 16"
  using bit_mask_iff [of 16 n, where ?'a = CipDword] by (auto simp: mask_eq_exp_minus_1)

lemmas parameter_bits = bit_simps bit_three bit_size_bits bit_large_size_bits packed_parameters_def

lemma packed_owner: "ConnectionObjectIsRedundantOwner (packed_parameters l owner t p v sz) l \<longleftrightarrow> owner"
  unfolding ConnectionObjectIsRedundantOwner_def bit_iff_and_push_bit_not_eq_0 [symmetric]
  by (auto simp: parameter_bits dest: bit_2_word bit_16_word simp del: bit_numeral_word_iff)

lemma packed_variable:
  "ConnectionObjectGetConnectionSizeType (packed_parameters l owner t p v sz) l = (if v then ConnectionSizeTypeVariable else ConnectionSizeTypeFixed)"
  unfolding ConnectionObjectGetConnectionSizeType_def bit_iff_and_push_bit_not_eq_0 [symmetric]
  by (auto simp: parameter_bits dest: bit_2_word bit_16_word simp del: bit_numeral_word_iff)

lemma packed_type_bits:
  "drop_bit (if l then 29 else 13) (packed_parameters l owner t p v sz AND push_bit (if l then 29 else 13) 3) = ucast t"
  by (rule bit_word_eqI) (auto simp: parameter_bits dest: bit_2_word bit_16_word simp del: bit_numeral_word_iff)

lemma packed_priority_bits:
  "drop_bit (if l then 26 else 10) (packed_parameters l owner t p v sz AND push_bit (if l then 26 else 10) 3) = ucast p"
  by (rule bit_word_eqI) (auto simp: parameter_bits dest: bit_2_word bit_16_word simp del: bit_numeral_word_iff)

lemma packed_size_bits: "packed_parameters l owner t p v sz AND (if l then 0xFFFF else 0x1FF) = ucast (if l then sz else sz AND 0x1FF)"
proof -
  have m: "bit (0x1FF :: 16 word) n \<longleftrightarrow> n < 9" for n
    using bit_mask_iff [of 9 n, where ?'a = "16 word"] by (auto simp: mask_eq_exp_minus_1)
  show ?thesis
    by (rule bit_word_eqI) (auto simp: parameter_bits m dest: bit_2_word bit_16_word simp del: bit_numeral_word_iff)
qed

lemma packed_type:
  "ConnectionObjectGetConnectionType (packed_parameters l owner (connection_type_code t) p v sz) l = t"
  using packed_type_bits [of l owner "connection_type_code t" p v sz]
  by (cases l; cases t) (simp_all add: ConnectionObjectGetConnectionType_def)

lemma packed_priority:
  "ConnectionObjectGetPriority (packed_parameters l owner t (priority_code p) v sz) l = Some p"
  using packed_priority_bits [of l owner t "priority_code p" v sz]
  by (cases l; cases p) (simp_all add: ConnectionObjectGetPriority_def)

text \<open>
  Parameters of a connection: network connection parameters that are packed as the specification lays them out, in 16 bits or, for a large
  forward open, in 32, and set on a connection object, are read back part by part: redundant owner, connection type, priority, fixed or variable size
  and size, in both directions.
\<close>

theorem network_parameters_roundtrip:
  fixes c :: "'fn connection_object"
  assumes "is_large_forward_open c = l" and "l \<or> sz < 512"
    and "p = packed_parameters l owner (connection_type_code t) (priority_code prio) v sz"
    and "to = ConnectionObjectSetTToONetworkConnectionParameters p c" and "from = ConnectionObjectSetOToTNetworkConnectionParameters p c"
  shows "ConnectionObjectIsTToORedundantOwner to = owner \<and> ConnectionObjectGetTToOConnectionType to = t
     \<and> ConnectionObjectGetTToOPriority to = Some prio
     \<and> ConnectionObjectGetTToOConnectionSizeType to = (if v then ConnectionSizeTypeVariable else ConnectionSizeTypeFixed)
     \<and> ConnectionObjectGetTToOConnectionSize to = ucast sz
     \<and> ConnectionObjectIsOToTRedundantOwner from = owner \<and> ConnectionObjectGetOToTConnectionType from = t
     \<and> ConnectionObjectGetOToTPriority from = Some prio
     \<and> ConnectionObjectGetOToTConnectionSizeType from = (if v then ConnectionSizeTypeVariable else ConnectionSizeTypeFixed)
     \<and> ConnectionObjectGetOToTConnectionSize from = ucast sz"
proof -
  have "sz AND 0x1FF = sz" if "\<not> l"
  proof -
    from that assms(2) have "unat sz < 2 ^ 9" by (auto simp: word_less_nat_alt)
    then have "take_bit 9 sz = sz" by (simp add: word_unat_eq_iff unsigned_take_bit_eq take_bit_nat_eq_self)
    then show ?thesis by (simp add: take_bit_eq_mask mask_eq_exp_minus_1)
  qed
  then have sz: "ConnectionObjectGetConnectionSize p l = ucast sz"
    unfolding ConnectionObjectGetConnectionSize_def assms(3) packed_size_bits
    by (intro bit_word_eqI) (auto simp: bit_simps dest: bit_16_word)
  have to: "is_large_forward_open to = l" "t_to_o_network_connection_parameters to = p"
    using assms(1,4) by (simp_all add: ConnectionObjectSetTToONetworkConnectionParameters_def)
  have "from": "is_large_forward_open from = l" "o_to_t_network_connection_parameters from = p"
    using assms(1,5) by (simp_all add: ConnectionObjectSetOToTNetworkConnectionParameters_def)
  show ?thesis
    unfolding ConnectionObjectIsTToORedundantOwner_def ConnectionObjectGetTToOConnectionType_def ConnectionObjectGetTToOPriority_def
      ConnectionObjectGetTToOConnectionSizeType_def ConnectionObjectGetTToOConnectionSize_def
      ConnectionObjectIsOToTRedundantOwner_def ConnectionObjectGetOToTConnectionType_def ConnectionObjectGetOToTPriority_def
      ConnectionObjectGetOToTConnectionSizeType_def ConnectionObjectGetOToTConnectionSize_def to "from" sz
    unfolding assms(3) by (simp add: packed_owner packed_type packed_priority packed_variable)
qed

lemma network_parameters_roundtrip_witness:
  "ConnectionObjectGetTToOConnectionType
      (ConnectionObjectSetTToONetworkConnectionParameters 0x4820 (ConnectionObjectInitializeEmpty :: unit connection_object)) = ConnectionTypePointToPoint
   \<and> ConnectionObjectGetOToTConnectionSize
      (ConnectionObjectSetOToTNetworkConnectionParameters 0x4820 (ConnectionObjectInitializeEmpty :: unit connection_object)) = 32"
proof -
  have l: "is_large_forward_open (ConnectionObjectInitializeEmpty :: unit connection_object) = False"
    by (simp add: ConnectionObjectInitializeEmpty_def)
  have sz: "False \<or> (32 :: 16 word) < 512" by simp
  have p: "0x4820 = packed_parameters False False (connection_type_code ConnectionTypePointToPoint) (priority_code PriorityScheduled) False 32"
    by (simp add: packed_parameters_def)
  from network_parameters_roundtrip [OF l sz p refl refl] show ?thesis by simp
qed

end
