(* ===== verification/NvData.thy ===== *)
theory NvData
  imports CipQos
begin

text \<open>
  Data that survives a restart (\<^verbatim>\<open>ports/nvdata\<close>): the configuration files (\<^verbatim>\<open>conffile.c\<close>), storing and
  loading the values of the QoS object (\<^verbatim>\<open>nvqos.c\<close>), the stubs of the TCP/IP object (\<^verbatim>\<open>nvtcpip.c\<close>), and the callbacks that
  store after an attribute was set (\<^verbatim>\<open>nvdata.c\<close>).

  The file system is a state: directories and the contents of the files, by their path, which is compared as a text; the entry written last counts. Whether the
  operating system carries out a request that the file system allows is an environment. The QoS object lies in the memory
  of the attributes from the address \<open>q\<close> on, as in the theory of the object.
\<close>

subsection \<open>Files\<close>

definition file_content :: "file_store \<Rightarrow> string \<Rightarrow> string option" where
  "file_content fs = map_of (files fs)"

definition put_file :: "string \<Rightarrow> string \<Rightarrow> file_store \<Rightarrow> file_store" where
  "put_file p text fs = fs\<lparr>files := (p, text) # files fs\<rparr>"

lemma file_content_put [simp]: "file_content (put_file p text fs) = (file_content fs)(p \<mapsto> text)"
  by (simp add: file_content_def put_file_def)

lemma put_file_frame [simp]:
  "directories (put_file p text fs) = directories fs" "file_content (fs\<lparr>directories := ds\<rparr>) = file_content fs"
  by (simp_all add: put_file_def file_content_def)

text \<open>\<open>left_by_failure\<close> is what is in a file that could not be written or closed.\<close>

record file_env =
  mkdir_ok :: "string \<Rightarrow> bool"
  fopen_ok :: "string \<Rightarrow> bool"
  fprintf_ok :: bool
  fclose_ok :: bool
  left_by_failure :: string

text \<open>The text in front of the last separator, if there is one (\<^verbatim>\<open>strrchr\<close>).\<close>

definition before_sep :: "string \<Rightarrow> string option" where
  "before_sep p =
     (if CHR ''/'' \<in> set p then Some (rev (tl (dropWhile (\<lambda>c. c \<noteq> CHR ''/'') (rev p)))) else None)"

definition parent_exists :: "string \<Rightarrow> file_store \<Rightarrow> bool" where
  "parent_exists p fs = (case before_sep p of None \<Rightarrow> True | Some d \<Rightarrow> d = [] \<or> d \<in> set (directories fs))"

definition Mkdir :: "file_env \<Rightarrow> string \<Rightarrow> file_store \<Rightarrow> file_store" where
  "Mkdir env p fs =
     (if p \<noteq> [] \<and> mkdir_ok env p \<and> p \<notin> set (directories fs) \<and> file_content fs p = None \<and> parent_exists p fs
      then fs\<lparr>directories := p # directories fs\<rparr> else fs)"

lemma before_sep_shorter: "before_sep p = Some d \<Longrightarrow> length d < length p"
proof -
  assume a: "before_sep p = Some d"
  let ?r = "dropWhile (\<lambda>c. c \<noteq> CHR ''/'') (rev p)"
  have s: "CHR ''/'' \<in> set p" "d = rev (tl ?r)" using a by (auto simp: before_sep_def split: if_splits)
  then have "?r \<noteq> []" by (auto simp: dropWhile_eq_Nil_conv)
  then have "length d < length ?r" using s(2) by simp
  also have "\<dots> \<le> length p" using length_dropWhile_le [of _ "rev p"] by simp
  finally show ?thesis .
qed

function RecMkdir :: "file_env \<Rightarrow> string \<Rightarrow> file_store \<Rightarrow> file_store" where
  "RecMkdir env p fs =
     Mkdir env p (case before_sep p of Some d \<Rightarrow> if d \<noteq> [] then RecMkdir env d fs else fs | None \<Rightarrow> fs)"
  by pat_completeness auto
termination
  by (relation "measure (\<lambda>(env, p, fs). length p)") (auto dest: before_sep_shorter)

declare RecMkdir.simps [simp del]

text \<open>The result is the path of the opened file. Opening for writing makes the file empty.\<close>

definition FopenMkdir :: "file_env \<Rightarrow> bool \<Rightarrow> string \<Rightarrow> file_store \<Rightarrow> string option \<times> file_store" where
  "FopenMkdir env write p fs =
     (let fs = (case before_sep p of Some d \<Rightarrow> if write then RecMkdir env d fs else fs | None \<Rightarrow> fs)
      in if write
         then if fopen_ok env p \<and> parent_exists p fs \<and> p \<notin> set (directories fs)
              then (Some p, put_file p [] fs) else (None, fs)
         else (if fopen_ok env p \<and> file_content fs p \<noteq> None then Some p else None, fs))"

text \<open>The path buffer has 64 characters with the terminating zero.\<close>

definition ConfFileOpen :: "file_env \<Rightarrow> bool \<Rightarrow> string \<Rightarrow> file_store \<Rightarrow> string option \<times> file_store" where
  "ConfFileOpen env write name fs = FopenMkdir env write (take 63 (''nvdata/'' @ name)) fs"

definition ConfFileClose :: "file_env \<Rightarrow> EipStatus" where
  "ConfFileClose env = (if fclose_ok env then kEipStatusOk else kEipStatusError)"

text \<open>What is in a file after writing to it and closing it.\<close>

definition write_file :: "file_env \<Rightarrow> string \<Rightarrow> string \<Rightarrow> file_store \<Rightarrow> file_store" where
  "write_file env p text fs =
     put_file p (if fprintf_ok env \<and> fclose_ok env then text else left_by_failure env) fs"

subsection \<open>Printing and scanning numbers\<close>

fun print_unsigned :: "nat \<Rightarrow> string" where
  "print_unsigned n = (if n < 10 then [char_of (48 + n)] else print_unsigned (n div 10) @ [char_of (48 + n mod 10)])"

declare print_unsigned.simps [simp del]

definition isspace :: "char \<Rightarrow> bool" where
  "isspace c \<longleftrightarrow> c = CHR '' '' \<or> (9 \<le> (of_char c :: nat) \<and> (of_char c :: nat) \<le> 13)"

definition isdigit :: "char \<Rightarrow> bool" where
  "isdigit c \<longleftrightarrow> 48 \<le> (of_char c :: nat) \<and> (of_char c :: nat) \<le> 57"

definition digits_value :: "string \<Rightarrow> nat" where
  "digits_value = foldl (\<lambda>v c. 10 * v + (of_char c - 48)) 0"

text \<open>
  The conversion \<^verbatim>\<open>%u\<close> after white space: \<open>Some None\<close> is a matching failure. A number that is negative or does not fit in an
  \<^verbatim>\<open>unsigned int\<close> has an undefined conversion, \<^term>\<open>None\<close>.
\<close>

definition scan_unsigned :: "string \<Rightarrow> (nat \<times> string) option option" where
  "scan_unsigned s =
     (let s = dropWhile isspace s;
          t = (case s of c # cs \<Rightarrow> if c = CHR ''+'' \<or> c = CHR ''-'' then cs else s | [] \<Rightarrow> []);
          digits = takeWhile isdigit t
      in if digits = [] then Some None
         else if hd s = CHR ''-'' \<or> 2 ^ 32 \<le> digits_value digits then None
         else Some (Some (digits_value digits, dropWhile isdigit t)))"

text \<open>\<open>n\<close> numbers with commas between them; scanning stops at the first text that does not match.\<close>

fun scan_numbers :: "nat \<Rightarrow> string \<Rightarrow> nat list option" where
  "scan_numbers 0 s = Some []"
| "scan_numbers (Suc n) s = do {
     r \<leftarrow> scan_unsigned s;
     (case r of
        None \<Rightarrow> Some []
      | Some (v, rest) \<Rightarrow>
          if n \<noteq> 0 \<and> rest \<noteq> [] \<and> hd rest = CHR '','' then map_option ((#) v) (scan_numbers n (tl rest))
          else Some [v]) }"

subsection \<open>The QoS object\<close>

text \<open>The five values that are stored, in their order: urgent, scheduled, high, low, explicit.\<close>

definition stored_dscp :: "nat \<Rightarrow> app_memory \<Rightarrow> CipUsint list option" where
  "stored_dscp q mem = do {
     u \<leftarrow> usint_of (mem (q + 3));
     s \<leftarrow> usint_of (mem (q + 4));
     h \<leftarrow> usint_of (mem (q + 5));
     l \<leftarrow> usint_of (mem (q + 6));
     x \<leftarrow> usint_of (mem (q + 7));
     Some [u, s, h, l, x] }"

definition NvQosLoad :: "file_env \<Rightarrow> nat \<Rightarrow> app_memory \<Rightarrow> file_store \<Rightarrow> (EipStatus \<times> app_memory \<times> file_store) option" where
  "NvQosLoad env q mem fs =
     (case ConfFileOpen env False ''qos.cfg'' fs of
        (None, fs) \<Rightarrow> Some (kEipStatusError, mem, fs)
      | (Some p, fs) \<Rightarrow> do {
          vs \<leftarrow> scan_numbers 5 (the (file_content fs p));
          Some (if ConfFileClose env = kEipStatusOk \<and> length vs = 5 \<and> list_all (\<lambda>v. v \<le> 255) vs
                then (kEipStatusOk,
                  mem(q + 3 := V8 (of_nat (vs ! 0)), q + 4 := V8 (of_nat (vs ! 1)), q + 5 := V8 (of_nat (vs ! 2)),
                      q + 6 := V8 (of_nat (vs ! 3)), q + 7 := V8 (of_nat (vs ! 4))), fs)
                else (kEipStatusError, mem, fs)) })"

definition dscp_text :: "CipUsint list \<Rightarrow> string" where
  "dscp_text vs =
     '' '' @ print_unsigned (unat (vs ! 0)) @ '', '' @ print_unsigned (unat (vs ! 1)) @ '', '' @ print_unsigned (unat (vs ! 2))
       @ '', '' @ print_unsigned (unat (vs ! 3)) @ '', '' @ print_unsigned (unat (vs ! 4)) @ [char_of (10 :: nat)]"

definition NvQosStore :: "file_env \<Rightarrow> nat \<Rightarrow> app_memory \<Rightarrow> file_store \<Rightarrow> (EipStatus \<times> file_store) option" where
  "NvQosStore env q mem fs =
     (case ConfFileOpen env True ''qos.cfg'' fs of
        (None, fs) \<Rightarrow> Some (kEipStatusOk, fs)
      | (Some p, fs) \<Rightarrow> do {
          vs \<leftarrow> stored_dscp q mem;
          let status = (if fprintf_ok env then kEipStatusOk else kEipStatusError);
          Some (if ConfFileClose env = kEipStatusError then kEipStatusError else status, write_file env p (dscp_text vs) fs) })"

subsection \<open>The TCP/IP object\<close>

text \<open>Nothing is read or written, and a file that was opened is an error; opening for writing empties the file.\<close>

definition NvTcpipLoad :: "file_env \<Rightarrow> file_store \<Rightarrow> EipStatus \<times> file_store" where
  "NvTcpipLoad env fs =
     (case ConfFileOpen env False ''tcpip.cfg'' fs of
        (None, fs) \<Rightarrow> (kEipStatusOk, fs)
      | (Some p, fs) \<Rightarrow> (kEipStatusError, fs))"

definition NvTcpipStore :: "file_env \<Rightarrow> file_store \<Rightarrow> EipStatus \<times> file_store" where
  "NvTcpipStore env fs = (kEipStatusError, snd (ConfFileOpen env True ''tcpip.cfg'' fs))"

subsection \<open>Loading and callbacks\<close>

definition NvdataLoad :: "file_env \<Rightarrow> nat \<Rightarrow> app_memory \<Rightarrow> file_store \<Rightarrow> (EipStatus \<times> app_memory \<times> file_store) option" where
  "NvdataLoad env q mem fs = do {
     (status, mem, fs) \<leftarrow> NvQosLoad env q mem fs;
     if status \<noteq> kEipStatusError then do {
       (stored, fs) \<leftarrow> NvQosStore env q mem fs;
       Some (if stored = kEipStatusError then kEipStatusError else status, mem, fs) }
     else Some (status, mem, fs) }"

definition NvQosSetCallback ::
    "file_env \<Rightarrow> nat \<Rightarrow> app_memory \<Rightarrow> cip_attribute \<Rightarrow> file_store \<Rightarrow> (EipStatus \<times> file_store) option" where
  "NvQosSetCallback env q mem attribute fs =
     (if kNvDataFunc AND attribute_flags attribute \<noteq> 0 then NvQosStore env q mem fs else Some (kEipStatusOk, fs))"

text \<open>
  The callback as the class of the object holds it. The storage lies in the cell \<open>f\<close> of the memory; the status is not used by the services
  that run callbacks. A memory without values of the object there has no meaning in the code, and stays as it is.
\<close>

definition nv_qos_callback :: "file_env \<Rightarrow> nat \<Rightarrow> nat \<Rightarrow> get_set_callback" where
  "nv_qos_callback env q f inst attribute service mem =
     (case mem (Obj f) of
        VFiles fs \<Rightarrow> (case NvQosSetCallback env q (\<lambda>k. mem (Obj k)) attribute fs of
            Some (_, fs) \<Rightarrow> mem(Obj f := VFiles fs)
          | None \<Rightarrow> mem)
      | _ \<Rightarrow> mem)"

definition NvTcpipSetCallback :: "file_env \<Rightarrow> cip_attribute \<Rightarrow> octet \<Rightarrow> file_store \<Rightarrow> EipStatus \<times> file_store" where
  "NvTcpipSetCallback env attribute service fs =
     (if kNvDataFunc AND attribute_flags attribute \<noteq> 0 \<and> 0x80 AND service = 0 then NvTcpipStore env fs else (kEipStatusOk, fs))"

subsection \<open>Properties\<close>

lemma digit_char: "d < 10 \<Longrightarrow> isdigit (char_of (48 + d)) \<and> (of_char (char_of (48 + d)) :: nat) = 48 + d"
  by (simp add: isdigit_def of_char_of)

lemma print_unsigned_digits:
  "print_unsigned n \<noteq> [] \<and> list_all isdigit (print_unsigned n) \<and> digits_value (print_unsigned n) = n"
proof (induction n rule: print_unsigned.induct)
  case (1 n)
  show ?case
  proof (cases "n < 10")
    case True
    then show ?thesis using digit_char [of n] by (simp add: print_unsigned.simps [of n] digits_value_def)
  next
    case False
    with 1 have "list_all isdigit (print_unsigned (n div 10))" "digits_value (print_unsigned (n div 10)) = n div 10" by auto
    then show ?thesis
      using False digit_char [of "n mod 10"] by (simp add: print_unsigned.simps [of n] digits_value_def)
  qed
qed

lemma takeWhile_all: "list_all P xs \<Longrightarrow> r = [] \<or> \<not> P (hd r) \<Longrightarrow> takeWhile P (xs @ r) = xs \<and> dropWhile P (xs @ r) = r"
  by (cases r) (auto simp: list_all_iff takeWhile_append2 dropWhile_append2)

lemma scan_print:
  assumes "n < 2 ^ 32" and "r = [] \<or> \<not> isdigit (hd r)"
  shows "scan_unsigned (CHR '' '' # print_unsigned n @ r) = Some (Some (n, r))"
proof -
  obtain c cs where p: "print_unsigned n = c # cs" using print_unsigned_digits [of n] by (cases "print_unsigned n") auto
  have c: "isdigit c" using print_unsigned_digits [of n] p by simp
  then have ns: "\<not> isspace c" "c \<noteq> CHR ''+''" "c \<noteq> CHR ''-''"
    by (auto simp: isdigit_def isspace_def)
  have sp: "isspace CHR '' ''" by (simp add: isspace_def)
  have w: "dropWhile isspace (CHR '' '' # print_unsigned n @ r) = print_unsigned n @ r"
    using ns p sp by simp
  have "takeWhile isdigit (print_unsigned n @ r) = print_unsigned n" "dropWhile isdigit (print_unsigned n @ r) = r"
    using takeWhile_all [of isdigit "print_unsigned n" r] print_unsigned_digits [of n] assms(2) by auto
  then show ?thesis
    using ns p assms(1) print_unsigned_digits [of n] unfolding scan_unsigned_def w by (simp add: Let_def)
qed

lemma scan_print_comma:
  "n < 2 ^ 32 \<Longrightarrow> scan_numbers (Suc (Suc k)) (CHR '' '' # print_unsigned n @ CHR '','' # r) = map_option ((#) n) (scan_numbers (Suc k) r)"
  by (subst scan_numbers.simps(2), subst scan_print) (simp_all add: isdigit_def)

lemma scan_print_last:
  "n < 2 ^ 32 \<Longrightarrow> scan_numbers (Suc 0) (CHR '' '' # print_unsigned n @ [char_of (10 :: nat)]) = Some [n]"
  by (subst scan_numbers.simps(2), subst scan_print) (simp_all add: isdigit_def of_char_of)

lemma unat_octet_bound: "unat (v :: CipUsint) \<le> 255"
  using unsigned_less [of v, where ?'a = nat] by simp

lemma scan_dscp_text:
  assumes "length vs = 5"
  shows "scan_numbers 5 (dscp_text vs) = Some (map unat vs)"
proof -
  obtain u s h l x where vs: "vs = [u, s, h, l, x]"
    using assms by (auto simp: length_Suc_conv eval_nat_numeral)
  have b: "unat (v :: CipUsint) < 2 ^ 32" for v using unat_octet_bound [of v] by simp
  show ?thesis
    using scan_print_comma [OF b] scan_print_last [OF b] by (simp add: vs dscp_text_def eval_nat_numeral)
qed

text \<open>The operating system carries out every request on the file of the QoS object.\<close>

definition storage_works :: "file_env \<Rightarrow> file_store \<Rightarrow> bool" where
  "storage_works env fs \<longleftrightarrow> mkdir_ok env ''nvdata'' \<and> fopen_ok env ''nvdata/qos.cfg'' \<and> fprintf_ok env \<and> fclose_ok env
     \<and> file_content fs ''nvdata'' = None \<and> ''nvdata/qos.cfg'' \<notin> set (directories fs)"

lemma qos_path: "before_sep ''nvdata/qos.cfg'' = Some ''nvdata''" "before_sep ''nvdata'' = None"
  by (simp_all add: before_sep_def)

lemma open_for_writing:
  assumes "storage_works env fs"
  shows "\<exists>fs'. ConfFileOpen env True ''qos.cfg'' fs = (Some ''nvdata/qos.cfg'', fs')
           \<and> file_content fs' = (file_content fs)(''nvdata/qos.cfg'' \<mapsto> []) \<and> set (directories fs') = insert ''nvdata'' (set (directories fs))"
  using assms
  by (auto simp: ConfFileOpen_def FopenMkdir_def qos_path RecMkdir.simps Mkdir_def parent_exists_def storage_works_def)

lemma NvQosStore_writes:
  assumes "storage_works env fs" and "stored_dscp q mem = Some vs"
  shows "\<exists>fs'. NvQosStore env q mem fs = Some (kEipStatusOk, fs')
           \<and> file_content fs' = (file_content fs)(''nvdata/qos.cfg'' \<mapsto> dscp_text vs) \<and> storage_works env fs'"
  using assms open_for_writing [OF assms(1)]
  by (auto simp: NvQosStore_def ConfFileClose_def write_file_def storage_works_def)

lemma stored_dscpE:
  assumes "stored_dscp q mem = Some vs"
  obtains u s h l x where "vs = [u, s, h, l, x]"
  using assms by (auto simp: stored_dscp_def)

lemma NvQosLoad_reads:
  assumes "storage_works env fs" and "file_content fs ''nvdata/qos.cfg'' = Some (dscp_text vs)" and "stored_dscp q mem = Some vs"
  shows "\<exists>mem''. NvQosLoad env q mem' fs = Some (kEipStatusOk, mem'', fs) \<and> stored_dscp q mem'' = Some vs
           \<and> (\<forall>a. a < q + 3 \<or> q + 7 < a \<longrightarrow> mem'' a = mem' a)"
proof -
  obtain u s h l x where vs: "vs = [u, s, h, l, x]" using assms(3) by (rule stored_dscpE)
  have "ConfFileOpen env False ''qos.cfg'' fs = (Some ''nvdata/qos.cfg'', fs)"
    using assms(1,2) by (simp add: ConfFileOpen_def FopenMkdir_def qos_path storage_works_def)
  then show ?thesis
    using assms(1,2) scan_dscp_text [of vs] unat_octet_bound
    by (simp add: NvQosLoad_def vs ConfFileClose_def storage_works_def stored_dscp_def)
qed

text \<open>
  Values of the QoS object survive a restart. When an attribute with the flag for non-volatile data is set and the storage works, the
  callback writes the five DSCP values to the file \<^verbatim>\<open>nvdata/qos.cfg\<close> and changes no other file; loading after a restart, whatever the
  memory then holds, reads exactly these values back from the printed text and changes nothing else in the memory.
\<close>

lemma qos_values_survive_restart:
  assumes "kNvDataFunc AND attribute_flags a \<noteq> 0" and "stored_dscp q mem = Some vs" and "storage_works env fs"
  shows "\<exists>fs' mem'' fs''. NvQosSetCallback env q mem a fs = Some (kEipStatusOk, fs')
           \<and> (\<forall>p. p \<noteq> ''nvdata/qos.cfg'' \<longrightarrow> file_content fs' p = file_content fs p)
           \<and> NvdataLoad env q mem' fs' = Some (kEipStatusOk, mem'', fs'')
           \<and> stored_dscp q mem'' = Some vs \<and> (\<forall>i. i < q + 3 \<or> q + 7 < i \<longrightarrow> mem'' i = mem' i)"
proof -
  obtain fs' where f: "NvQosStore env q mem fs = Some (kEipStatusOk, fs')"
    "file_content fs' = (file_content fs)(''nvdata/qos.cfg'' \<mapsto> dscp_text vs)" "storage_works env fs'"
    using NvQosStore_writes [OF assms(3,2)] by blast
  obtain mem'' where l: "NvQosLoad env q mem' fs' = Some (kEipStatusOk, mem'', fs')" "stored_dscp q mem'' = Some vs"
    "\<forall>i. i < q + 3 \<or> q + 7 < i \<longrightarrow> mem'' i = mem' i"
    using NvQosLoad_reads [OF f(3) _ assms(2)] f(2) by auto
  obtain fs'' where "NvQosStore env q mem'' fs' = Some (kEipStatusOk, fs'')"
    using NvQosStore_writes [OF f(3) l(2)] by blast
  then have "NvdataLoad env q mem' fs' = Some (kEipStatusOk, mem'', fs'')"
    using l(1) by (simp add: NvdataLoad_def)
  moreover have "NvQosSetCallback env q mem a fs = Some (kEipStatusOk, fs')"
    using assms(1) f(1) by (simp add: NvQosSetCallback_def)
  ultimately show ?thesis using f(2) l(2,3) by auto
qed

definition example_storage :: file_env where
  "example_storage = \<lparr>mkdir_ok = \<lambda>_. True, fopen_ok = \<lambda>_. True, fprintf_ok = True, fclose_ok = True, left_by_failure = []\<rparr>"

end
