(* ===== verification/QosSettings.thy ===== *)
theory QosSettings
  imports StandardObjects NvData
begin

text \<open>
  The quality of service object as its clients see it: the requests for its attributes through the message
  router, on a class that the start of the stack has made ready.
\<close>

definition qos_row :: "nat \<Rightarrow> CipUint \<Rightarrow> attribute_row" where
  "qos_row q n = (n, kCipUsint, EncodeCipUsint, Some DecodeCipQoSAttribute, Obj (q + unat n - 1), kGetableSingle OR kSetable OR kNvDataFunc)"

lemma qos_numbers: "4 \<le> n \<Longrightarrow> n \<le> (8 :: CipUint) \<Longrightarrow> n \<in> {4, 5, 6, 7, 8}"
proof -
  assume "4 \<le> n" "n \<le> 8"
  then have "unat n \<in> {4, 5, 6, 7, 8}" by (auto simp: word_le_nat_alt)
  then show ?thesis by (auto simp: word_unat_eq_iff)
qed

lemma qos_attribute:
  assumes "object_ready kCipQoSClassCode (qos_rows q) svcs c" and "4 \<le> n" and "n \<le> 8"
  shows "GetCipAttribute (core c) (filled 1 (qos_rows q) 0) n = Some (row_attribute (qos_row q n))"
proof -
  have "unat (number_of_attributes (core c)) = 8"
    using assms(1) by (simp add: object_ready_def masks_ok_def filled_def qos_rows_def Let_def)
  then show ?thesis
    using qos_numbers [OF assms(2,3)]
    by (auto simp: GetCipAttribute_def filled_def qos_rows_def Let_def qos_row_def)
qed

lemma qos_numbers_distinct: "inj_on attr_number (used_attributes (filled 1 (qos_rows q) 0))"
proof -
  have "distinct (map attr_number (attributes (filled 1 (qos_rows q) 0)))"
    by (simp add: filled_def qos_rows_def Let_def)
  then have "inj_on attr_number (set (attributes (filled 1 (qos_rows q) 0)))" by (simp add: distinct_map)
  then show ?thesis by (rule inj_on_subset) (auto simp: used_attributes_def)
qed

text \<open>
  The service, below the message router: \<open>v\<close> is stored if it is below 64, and refused otherwise; in both cases the callback runs then.
\<close>

lemma qos_set_service:
  assumes ready: "object_ready kCipQoSClassCode (qos_rows q) svcs c" and n: "4 \<le> n" "n \<le> 8"
    and cb: "PreSetCallback (core c) = None" "PostSetCallback (core c) = Some g"
    and old: "store (q + unat n - 1) = V8 old"
    and req: "attribute_number (request_path req) = n" "req_data req = v # rest"
  shows "SetAttributeSingle (core c) (filled 1 (qos_rows q) 0) (class_memory c store) req resp =
     Some (kEipStatusOkSend,
       g (filled 1 (qos_rows q) 0) (row_attribute (qos_row q n)) (req_service req)
         ((class_memory c store)(Obj (q + unat n - 1) := V8 (if v < 64 then v else old))), req\<lparr>req_data := rest\<rparr>,
       (GenerateSetAttributeSingleHeader req resp)\<lparr>general_status := if v < 64 then kCipErrorSuccess else kCipErrorInvalidAttributeValue\<rparr>)"
proof -
  let ?a = "row_attribute (qos_row q n)"
  have a: "GetCipAttribute (core c) (filled 1 (qos_rows q) 0) n = Some ?a" by (rule qos_attribute [OF ready n])
  have ok: "masks_ok (core c) (filled 1 (qos_rows q) 0)" using ready by (simp add: object_ready_def)
  have "mask_test (set_bit_mask (core c)) n = Some (attribute_flags ?a AND kSetable \<noteq> 0)"
    by (rule mask_exact_flag [OF masks_ok_exact(2) [OF ok] ok qos_numbers_distinct a]) simp
  then have settable: "mask_test (set_bit_mask (core c)) n = Some True" by (simp add: qos_row_def)
  have cell: "class_memory c store (Obj (q + unat n - 1)) = V8 old" using old by (simp add: class_memory_def)
  show ?thesis
    unfolding SetAttributeSingle_def req(1) a Let_def
    using settable cell req(2)
    by (simp add: qos_row_def decode_attribute_def run_callback_def cb)
qed

text \<open>What the callback leaves in the memory of the application.\<close>

lemma class_memory_upd: "(class_memory c store)(Obj i := x) = class_memory c (store(i := x))"
  by (auto simp: class_memory_def fun_eq_iff split: data_ref.splits)

lemma nv_qos_callback_memory:
  assumes "store f = VFiles fs" and "NvQosSetCallback env q store a fs = Some (status, fs')"
  shows "nv_qos_callback env q f inst a service (class_memory c store) = class_memory c (store(f := VFiles fs'))"
  using assms by (simp add: nv_qos_callback_def class_memory_def [of c store "Obj _"] class_memory_upd)

text \<open>The whole request, from its octets to the reply.\<close>

lemma qos_set_request:
  assumes c: "GetCipClass objects kCipQoSClassCode = Some c" and ready: "object_ready kCipQoSClassCode (qos_rows q) qos_services c"
    and n: "4 \<le> n" "n \<le> 8"
    and cb: "PreSetCallback (core c) = None" "PostSetCallback (core c) = Some (nv_qos_callback env q f)"
    and old: "store (q + unat n - 1) = V8 old"
    and w: "w = sum_list (map segment_words segs)" "w \<le> 255"
    and path: "class_id (segments_path segs (request_path req)) = ucast kCipQoSClassCode"
      "instance_number (segments_path segs (request_path req)) = 1" "attribute_number (segments_path segs (request_path req)) = n"
    and files: "(store(q + unat n - 1 := V8 (if v < 64 then v else old))) f = VFiles fs"
      "NvQosSetCallback env q (store(q + unat n - 1 := V8 (if v < 64 then v else old))) (row_attribute (qos_row q n)) fs = Some (status, fs')"
  shows "\<exists>req' resp'. NotifyMessageRouter (call_std other) (kSetAttributeSingle # of_nat w # concat (map segment_octets segs) @ [v]) (int (3 + 2 * w))
       objects req store resp
       = Some (kEipStatusOkSend, objects, req', store(q + unat n - 1 := V8 (if v < 64 then v else old), f := VFiles fs'), resp')
     \<and> general_status resp' = (if v < 64 then kCipErrorSuccess else kCipErrorInvalidAttributeValue)"
proof -
  define r where "r = req\<lparr>req_service := kSetAttributeSingle, request_path := segments_path segs (request_path req), req_data := [v], request_data_size := 1\<rparr>"
  define store1 where "store1 = store(q + unat n - 1 := V8 (if v < 64 then v else old))"
  have req: "CreateMessageRouterRequestStructure (kSetAttributeSingle # of_nat w # concat (map segment_octets segs) @ [v]) (of_int (int (3 + 2 * w))) req
      = Some (kCipErrorSuccess, r)"
    using request_structure [OF w, of "3 + 2 * w" kSetAttributeSingle "[v]" req] w(2) by (simp add: r_def)
  have obj: "GetRegisteredObject objects (ucast (class_id (request_path r))) = Some c"
    using c path(1) by (simp add: r_def GetCipClass_eq kCipQoSClassCode_def)
  have inst: "GetCipInstance c (instance_number (request_path r)) = Some (filled 1 (qos_rows q) 0)"
    using ready path(2) by (simp add: r_def object_ready_def)
  have core: "core_of c (filled 1 (qos_rows q) 0) = core c" by (simp add: core_of_def filled_def)
  have service: "GetCipService (core c) (req_service r) = Some (row_service (kSetAttributeSingle, SvcSetAttributeSingle, ''SetAttributeSingle''))"
    using ready by (auto simp: object_ready_def qos_services_def r_def)
  have "attribute_number (request_path r) = n" "req_data r = [v]" using path(3) by (simp_all add: r_def)
  note set = qos_set_service [where store = store, OF ready n cb old this,
      unfolded class_memory_upd store1_def [symmetric] nv_qos_callback_memory [OF files, folded store1_def]]
  have mem: "(\<lambda>k. class_memory c s (Obj k)) = s" for s by (rule ext) (simp add: class_memory_def)
  have "class_code c = kCipQoSClassCode" using ready by (simp add: object_ready_def)
  then have same: "store_class (class_code c) c objects = objects" using c by (simp add: GetCipClass_eq store_class_same)
  show ?thesis
    unfolding NotifyMessageRouter_def req store1_def [symmetric]
    by (simp add: obj NotifyClass_def inst core service call_std_def Let_def set mem same del: fun_upd_apply)
qed

text \<open>The five stored values, by the number of the attribute.\<close>

lemma stored_dscp_iff:
  "stored_dscp q store = Some vs \<longleftrightarrow> length vs = 5 \<and> (\<forall>k < 5. store (q + 3 + k) = V8 (vs ! k))"
proof -
  have cell: "usint_of m = Some x \<longleftrightarrow> m = V8 x" for m x by (cases m) auto
  have list: "(\<exists>u s h l x. (store (q + 3) = V8 u \<and> store (q + 4) = V8 s \<and> store (q + 5) = V8 h \<and> store (q + 6) = V8 l \<and> store (q + 7) = V8 x)
        \<and> vs = [u, s, h, l, x])
      \<longleftrightarrow> length vs = 5 \<and> (store (q + 3) = V8 (vs ! 0) \<and> store (q + 4) = V8 (vs ! 1) \<and> store (q + 5) = V8 (vs ! 2)
            \<and> store (q + 6) = V8 (vs ! 3) \<and> store (q + 7) = V8 (vs ! 4))"
    by (auto simp: length_Suc_conv eval_nat_numeral)
  have five: "(\<forall>k < 5. P k) \<longleftrightarrow> P 0 \<and> P 1 \<and> P 2 \<and> P 3 \<and> P (4 :: nat)" for P
    by (auto simp: less_Suc_eq eval_nat_numeral)
  have "stored_dscp q store = Some vs \<longleftrightarrow> (\<exists>u s h l x. (store (q + 3) = V8 u \<and> store (q + 4) = V8 s \<and> store (q + 5) = V8 h
      \<and> store (q + 6) = V8 l \<and> store (q + 7) = V8 x) \<and> vs = [u, s, h, l, x])"
    unfolding stored_dscp_def by (auto simp: bind_eq_Some_conv cell)
  then show ?thesis unfolding list five by (simp add: add.assoc add.commute [of _ q])
qed

lemma stored_dscp_update:
  assumes "stored_dscp q store = Some vs" and "4 \<le> n" and "n \<le> (8 :: CipUint)"
  shows "stored_dscp q (store(q + unat n - 1 := V8 v)) = Some (vs[unat n - 4 := v])"
    and "store (q + unat n - 1) = V8 (vs ! (unat n - 4))"
proof -
  have n: "4 \<le> unat n" "unat n \<le> 8" using assms(2,3) by (simp_all add: word_le_nat_alt)
  define k where "k = unat n - 4"
  have k: "k < 5" "q + unat n - 1 = q + 3 + k" using n by (simp_all add: k_def)
  show "store (q + unat n - 1) = V8 (vs ! (unat n - 4))"
    using assms(1) k by (simp add: stored_dscp_iff flip: k_def)
  show "stored_dscp q (store(q + unat n - 1 := V8 v)) = Some (vs[unat n - 4 := v])"
    using assms(1) unfolding k(2) k_def [symmetric] stored_dscp_iff by (auto simp: nth_list_update)
qed

subsection \<open>The class with the callback of the application\<close>

definition no_set_callbacks :: "'svc cip_core \<Rightarrow> bool" where
  "no_set_callbacks cc \<longleftrightarrow> PreSetCallback cc = None \<and> PostSetCallback cc = None"

lemma InsertAttribute_no_callbacks:
  "InsertAttribute cc inst n type enc dec ref fl = Some (cc', inst') \<Longrightarrow> no_set_callbacks cc' = no_set_callbacks cc"
  by (auto simp: InsertAttribute_def Let_def no_set_callbacks_def)

lemma insert_attributes_no_callbacks:
  "insert_attributes rows (cc, inst) = Some (cc', inst') \<Longrightarrow> no_set_callbacks cc' = no_set_callbacks cc"
  by (induction rows "(cc, inst)" arbitrary: cc inst rule: insert_attributes.induct) (auto dest: InsertAttribute_no_callbacks)

lemma insert_services_no_callbacks: "insert_services svcs cc = Some cc' \<Longrightarrow> no_set_callbacks cc' = no_set_callbacks cc"
  by (induction svcs cc rule: insert_services.induct) (auto simp: InsertService_def no_set_callbacks_def)

lemma setup_instance_no_callbacks:
  "setup_instance n rows svcs c = Some c' \<Longrightarrow> no_set_callbacks (core c') = no_set_callbacks (core c)"
  by (auto simp: setup_instance_def dest!: insert_attributes_no_callbacks insert_services_no_callbacks)

lemma add_instances_core: "add_instances_loop k n c = Some (c', ns) \<Longrightarrow> core c' = core c"
  by (induction k n c arbitrary: c' ns rule: add_instances_loop.induct) (auto simp: Let_def)

lemma CreateCipClass_no_callbacks:
  assumes "CreateCipClass objects code nca hca ncs nia hia nis n name r None = Some (c, objects')"
  shows "no_set_callbacks (core c)"
proof -
  have blank: "no_set_callbacks (AllocateAttributeMasks (core (blank_class code nca hca ncs nia hia nis name r)))"
    by (simp add: no_set_callbacks_def AllocateAttributeMasks_def blank_class_def empty_core_def Let_def)
  show ?thesis
    using assms blank
    by (auto simp: CreateCipClass_def AddCipInstances_def Let_def dest!: default_class_init_core add_instances_core split: if_splits)
qed

lemma store_class_absent: "GetCipClass objects code = None \<Longrightarrow> store_class code c objects = objects"
  by (induction objects) (auto simp: GetCipClass_eq GetRegisteredObject_def split: if_splits)

lemma CipQoSInit_no_callbacks:
  assumes "GetCipClass objects kCipQoSClassCode = None" and "CipQoSInit q objects = Some (kEipStatusOk, objects @ [c])"
  shows "no_set_callbacks (core c)"
proof -
  obtain c0 objects0 c1 where i: "CreateCipClass objects kCipQoSClassCode 7 7 2 8 8 2 1 ''Quality of Service'' 1 None = Some (c0, objects0)"
      "setup_instance 1 (qos_rows q) [(kGetAttributeSingle, SvcGetAttributeSingle, ''GetAttributeSingle''),
         (kSetAttributeSingle, SvcSetAttributeSingle, ''SetAttributeSingle'')] c0 = Some c1"
      "store_class kCipQoSClassCode c1 objects0 = objects @ [c]"
    using assms(2) by (auto simp: CipQoSInit_def)
  have "objects0 = objects @ [c0]" using i(1) by (auto simp: CreateCipClass_def RegisterCipClass_def Let_def)
  moreover have "class_code c0 = kCipQoSClassCode"
  proof -
    have "class_code c = kCipQoSClassCode" using CipQoSInit_ready [OF assms(1), of q] assms(2) by (auto simp: object_ready_def)
    show ?thesis
    proof (rule ccontr)
      assume "class_code c0 \<noteq> kCipQoSClassCode"
      then have "GetCipClass (objects @ [c0]) kCipQoSClassCode = None"
        using assms(1) GetCipClass_register [of c0 objects kCipQoSClassCode] by (simp add: RegisterCipClass_def)
      then have "store_class kCipQoSClassCode c1 (objects @ [c0]) = objects @ [c0]" by (rule store_class_absent)
      with i(3) calculation \<open>class_code c = kCipQoSClassCode\<close> \<open>class_code c0 \<noteq> kCipQoSClassCode\<close> show False by simp
    qed
  qed
  ultimately have "c = c1" using i(3) assms(1) by (simp add: store_registered)
  then show ?thesis using CreateCipClass_no_callbacks [OF i(1)] setup_instance_no_callbacks [OF i(2)] by simp
qed

lemma masks_ok_callback [simp]: "masks_ok (InsertGetSetCallback cc f fl) inst = masks_ok cc inst"
  by (simp add: InsertGetSetCallback_def masks_ok_def mask_exact_def Let_def)

lemma object_ready_callback:
  assumes "object_ready code rows svcs c"
  shows "object_ready code rows svcs (c\<lparr>core := InsertGetSetCallback (core c) f fl\<rparr>)"
proof -
  let ?c = "c\<lparr>core := InsertGetSetCallback (core c) f fl\<rparr>"
  have "wf_class ?c = wf_class c" by (simp add: wf_class_def wf_instances_def GetMaxInstanceNumber_def InsertGetSetCallback_def Let_def)
  moreover have "GetCipInstance ?c k = GetCipInstance c k" for k by (simp add: GetCipInstance_def)
  moreover have "GetCipService (core ?c) k = GetCipService (core c) k" for k by (simp add: GetCipService_def InsertGetSetCallback_def Let_def)
  ultimately show ?thesis using assms by (simp add: object_ready_def)
qed

text \<open>The class of the object after its initialization, with the callback that the application installs for non-volatile data.\<close>

definition with_nv_callback :: "file_env \<Rightarrow> nat \<Rightarrow> nat \<Rightarrow> 'svc cip_class \<Rightarrow> 'svc cip_class" where
  "with_nv_callback env q f c = c\<lparr>core := InsertGetSetCallback (core c) (nv_qos_callback env q f) kNvDataFunc\<rparr>"

lemma qos_class_installed:
  assumes "GetCipClass objects kCipQoSClassCode = None"
  obtains c where "CipQoSInit q objects = Some (kEipStatusOk, objects @ [c])"
    "object_ready kCipQoSClassCode (qos_rows q) qos_services (with_nv_callback env q f c)"
    "GetCipClass (objects @ [with_nv_callback env q f c]) kCipQoSClassCode = Some (with_nv_callback env q f c)"
    "PreSetCallback (core (with_nv_callback env q f c)) = None"
    "PostSetCallback (core (with_nv_callback env q f c)) = Some (nv_qos_callback env q f)"
proof -
  obtain c where c: "CipQoSInit q objects = Some (kEipStatusOk, objects @ [c])" "object_ready kCipQoSClassCode (qos_rows q) qos_services c"
    using CipQoSInit_ready [OF assms] by blast
  have "no_set_callbacks (core c)" by (rule CipQoSInit_no_callbacks [OF assms c(1)])
  moreover have ready: "object_ready kCipQoSClassCode (qos_rows q) qos_services (with_nv_callback env q f c)"
    unfolding with_nv_callback_def by (rule object_ready_callback [OF c(2)])
  moreover have "GetCipClass (objects @ [with_nv_callback env q f c]) kCipQoSClassCode = Some (with_nv_callback env q f c)"
    using GetCipClass_register [of "with_nv_callback env q f c" objects kCipQoSClassCode] assms ready by (simp add: RegisterCipClass_def object_ready_def)
  ultimately show thesis
    using c(1) by (intro that [of c]) (simp_all add: with_nv_callback_def InsertGetSetCallback_def no_set_callbacks_def Let_def)
qed

end
