(* ===== verification/Spec2Isabelle.thy ===== *)
theory Spec2Isabelle
  imports XorShift NetworkInvariant TcpIpSettings ConnectionServices StandardObjects CipStringI ConnectionAccessors QosSettings
begin

text \<open>
  \<^bold>\<open>OpENer, an EtherNet/IP stack for adapter devices.\<close>

  The program answers requests of the Common Industrial Protocol (CIP) that arrive in
  encapsulation packets over TCP and UDP, and exchanges cyclic data over UDP. Its parts and how they work together:

  \<^item> the network handler (\<^verbatim>\<open>ports/generic_networkhandler.c\<close>) owns the sockets; its main loop accepts clients, cuts the
    streams of octets into packets, passes packets and datagrams on, and runs the timers;
  \<^item> the encapsulation layer (\<^verbatim>\<open>enet_encap/encap.c\<close>) reads the header of 24 octets, keeps the table of sessions and selects
    a command;
  \<^item> the common packet format (\<^verbatim>\<open>enet_encap/cpf.c\<close>) takes the address item, the data item and the
    socket address items apart, looks up the connection of a connected request, and frames the
    reply;
  \<^item> the message router (\<^verbatim>\<open>cip/cipmessagerouter.c\<close>) reads service, path and data of the request,
    looks up the class and passes the request on;
  \<^item> the class model (\<^verbatim>\<open>cip/cipcommon.c\<close>) finds the instance and the service, and its attribute
    services read and write attributes through encoders and decoders;
  \<^item> the connection manager (\<^verbatim>\<open>cip/cipconnectionmanager.c\<close>) opens and closes connections on request, reads their paths, lets them time
    out, and routes the data of connections to their objects; connection objects (\<^verbatim>\<open>cip/cipconnectionobject.c\<close>) hold the parameters and
    timers of a connection, and a doubly linked list over a static pool (\<^verbatim>\<open>utils/doublylinkedlist.c\<close>) holds the active ones;
  \<^item> I/O connections (\<^verbatim>\<open>cip/cipioconnection.c\<close>, \<^verbatim>\<open>cip/appcontype.c\<close>) copy received data into assemblies
    (\<^verbatim>\<open>cip/cipassembly.c\<close>) and send the data of assemblies;
  \<^item> the standard objects (\<^verbatim>\<open>cip/cipidentity.c\<close>, \<^verbatim>\<open>cip/ciptcpipinterface.c\<close>, \<^verbatim>\<open>cip/cipethernetlink.c\<close>,
    \<^verbatim>\<open>cip/cipdlr.c\<close>, \<^verbatim>\<open>cip/cipqos.c\<close>) present the device; some of their attributes are kept in files
    (\<^verbatim>\<open>ports/nvdata\<close>).

  \<^bold>\<open>How the code is modelled.\<close> Integers are words of their width. A function that changes state takes and returns it; a result
  \<^verbatim>\<open>None\<close> is a run that leaves the defined behaviour of C (a failed assertion, a null pointer, a read or write outside
  of a buffer) or does not end, so that a theorem with a result \<^verbatim>\<open>Some\<close> includes memory safety and termination. The memory of
  the application's and the objects' attributes is a function from addresses to values, the global variables of the stack are a record that the
  components extend, and the pool of connection objects is addressed by indices. The operating system and the application are an environment
  record with the results of their calls; pending octets, datagrams and clients are part of the state of the network. Reading from a TCP
  connection without pending octets returns at once, as on a socket in non-blocking mode, which the handler does not set on the sockets that
  \<^verbatim>\<open>accept\<close> returns. The files of the device are a value in a cell of the memory, which the callback for non-volatile data writes. Function pointers of
  connections and services are values of datatypes with a meaning function. Build switches are arguments or records.

  \<^bold>\<open>Theories, data and codecs.\<close>

  \<^item> \<^verbatim>\<open>Opener_Prelude\<close>: type names (\<^verbatim>\<open>typedefs.h\<close>), the option monad, words, octets, lists.
  \<^item> \<^verbatim>\<open>EndianConv\<close>: the message buffer with its write position and the readers and writers of
    \<^verbatim>\<open>endianconv.c\<close> and \<^verbatim>\<open>enipmessage.c\<close>; the locales \<^verbatim>\<open>message_codec\<close> and \<^verbatim>\<open>message_writer\<close> state what a
    writer and its reader promise each other.
  \<^item> \<^verbatim>\<open>XorShift\<close>: the random numbers of \<^verbatim>\<open>xorshiftrandom.c\<close>.
  \<^item> \<^verbatim>\<open>CipTypes\<close>, \<^verbatim>\<open>CipString\<close>, \<^verbatim>\<open>CipStringI\<close>, \<^verbatim>\<open>CipData\<close>: the data types, strings, international
    strings, and the encoders and decoders of attributes, with round trips for each type.
  \<^item> \<^verbatim>\<open>PaddedEPath\<close>: writing and reading request paths: reading stays within the path and returns what was written.

  \<^bold>\<open>Theories, objects and services.\<close>

  \<^item> \<^verbatim>\<open>CipClass\<close>: classes, instances, attributes, services, access masks and the operations that
    build them; they keep the class well formed and the masks equal to the flags of the attributes.
  \<^item> \<^verbatim>\<open>CipServices\<close>: the attribute services, Create, Delete, Reset and the dispatch of a request to
    the service of an instance: when a value is returned, stored and refused.
  \<^item> \<^verbatim>\<open>MessageRouter\<close>: the registry of classes, \<^verbatim>\<open>CreateCipClass\<close>, reading a request and passing it to
    its class.
  \<^item> \<^verbatim>\<open>ObjectSetup\<close>, \<^verbatim>\<open>CipIdentity\<close>, \<^verbatim>\<open>CipAssembly\<close>, \<^verbatim>\<open>CipQos\<close>, \<^verbatim>\<open>CipTcpIp\<close>, \<^verbatim>\<open>TcpIpSettings\<close>,
    \<^verbatim>\<open>CipEthernetLink\<close>: the standard objects with their checks, encoders and decoders; the checks of network configurations and
    names are shown equal to reference definitions.
  \<^item> \<^verbatim>\<open>StandardObjects\<close>: the start and the end of the stack; after the start every object is ready. The initializations of the file and the
    security objects, which are no part of the sources, are arguments.
  \<^item> \<^verbatim>\<open>NvData\<close>, \<^verbatim>\<open>QosSettings\<close>: the files of the device, and the values of the QoS object from the request to the file and back.

  \<^bold>\<open>Theories, connections.\<close>

  \<^item> \<^verbatim>\<open>ConnectionObject\<close>, \<^verbatim>\<open>ConnectionAccessors\<close>: the connection object, its parameters, timers and accessors, and those of the electronic key; the locale \<^verbatim>\<open>field\<close> has
    the laws of an accessor.
  \<^item> \<^verbatim>\<open>DoublyLinkedList\<close>: the list of active connections over its node pool, refining HOL lists.
  \<^item> \<^verbatim>\<open>Cpf\<close>: the common packet format and the handlers of unconnected and connected requests, with
    the state of the whole stack: replies are framed as the protocol says, duplicates are answered from memory.
  \<^item> \<^verbatim>\<open>ConnectionManager\<close>: the list of active connections, explicit connections, received connected
    data, and the tick that runs the timers.
  \<^item> \<^verbatim>\<open>IoConnection\<close>, \<^verbatim>\<open>IoData\<close>: I/O connections from set-up to time-out, and their data on the wire.
  \<^item> \<^verbatim>\<open>CipEpath\<close>, \<^verbatim>\<open>ConnectionPath\<close>, \<^verbatim>\<open>ForwardOpen\<close>, \<^verbatim>\<open>ConnectionServices\<close>: path segments and electronic keys, connection paths, the services
    of the connection manager, and what these promise: which requests open a connection with which reply, which are refused, and that only its
    originator closes a connection.

  \<^bold>\<open>Theories, sessions and network.\<close>

  \<^item> \<^verbatim>\<open>EncapHeader\<close>, \<^verbatim>\<open>SocketTimer\<close>: the encapsulation header, and the table of socket timers (\<^verbatim>\<open>ports/socket_timer.c\<close>).
  \<^item> \<^verbatim>\<open>EncapSession\<close>, \<^verbatim>\<open>Encap\<close>: sessions, the closing of sockets, the encapsulation commands over TCP and UDP, and the invariant that
    ties the table of sessions to the table of timers.
  \<^item> \<^verbatim>\<open>StackServices\<close>: the services of the whole stack satisfy the contract of the encapsulation layer.
  \<^item> \<^verbatim>\<open>NetworkHandler\<close>, \<^verbatim>\<open>TcpFraming\<close>, \<^verbatim>\<open>NetworkInvariant\<close>: the main loop; packets are taken from a stream exactly; the tables stay
    consistent in every state the device reaches.

  \<^bold>\<open>Bounds and fuel.\<close> The search for a free instance number gets one attempt more than there are instances, which is enough
  (\<^verbatim>\<open>find_free_number_total\<close>). Calling the functions of a connection takes a depth: a time-out calls close
  functions, which may close the class 3 connections of a session, and these call nothing further, so that three levels are
  enough. Loops of the code that may run for ever are partial functions, whose value is then
  \<^verbatim>\<open>None\<close>. Tables have the sizes of the sample configuration; the message buffer has 512 octets.

  \<^bold>\<open>Not modelled.\<close> The counters of the Ethernet link and the callbacks that fetch them, as this part of the source does not compile; \<^verbatim>\<open>CipStringIDelete\<close>, whose effect depends on
  the layout of the memory; the decoders of floating point numbers; the encoded paths in connection objects, which nothing reads; socket options for multicast,
  reading the interface configuration, error texts and the main programs of the platforms, which are calls of the operating system; the sample applications; trace output;
  the release of memory, other than what is visible in the state.
\<close>

section \<open>A setting from the request to the next start\<close>

text \<open>
  C14: A DSCP value that a client sets survives a restart. On a device whose QoS class is initialized and holds the callback for non-volatile data, with
  the storage in the cell \<open>f\<close> of the memory, a Set Attribute Single request for attribute 4 to 8 of instance 1, with any encoding of its path, is
  answered with success if the value is below 64 and with Invalid Attribute Value otherwise, and changes at most that attribute and the storage. If the storage
  works, what the request leaves in it differs at most in the file \<^verbatim>\<open>nvdata/qos.cfg\<close>, and loading from it at the next start, whatever the rest of the memory then holds,
  yields the five values with the accepted one among them.
\<close>

theorem qos_setting_survives_restart:
  fixes v :: CipUsint
  assumes "GetCipClass objects kCipQoSClassCode = None" and n: "4 \<le> n" "n \<le> 8"
    and w: "w = sum_list (map segment_words segs)" "w \<le> 255"
    and path: "class_id (segments_path segs (request_path req)) = ucast kCipQoSClassCode"
      "instance_number (segments_path segs (request_path req)) = 1" "attribute_number (segments_path segs (request_path req)) = n"
    and stored: "stored_dscp q store = Some vs" and storage: "store f = VFiles fs" "storage_works env fs" "f < q + 3 \<or> q + 7 < f"
  defines "accepted \<equiv> if v < 64 then vs[unat n - 4 := v] else vs"
  shows "\<exists>c req' store' resp' fs' mem'' fs''.
     CipQoSInit q objects = Some (kEipStatusOk, objects @ [c])
     \<and> NotifyMessageRouter (call_std other) (kSetAttributeSingle # of_nat w # concat (map segment_octets segs) @ [v]) (int (3 + 2 * w))
         (objects @ [with_nv_callback env q f c]) req store resp = Some (kEipStatusOkSend, objects @ [with_nv_callback env q f c], req', store', resp')
     \<and> general_status resp' = (if v < 64 then kCipErrorSuccess else kCipErrorInvalidAttributeValue)
     \<and> stored_dscp q store' = Some accepted \<and> (\<forall>i. i \<noteq> q + unat n - 1 \<and> i \<noteq> f \<longrightarrow> store' i = store i)
     \<and> store' f = VFiles fs' \<and> (\<forall>p. p \<noteq> ''nvdata/qos.cfg'' \<longrightarrow> file_content fs' p = file_content fs p)
     \<and> NvdataLoad env q mem' fs' = Some (kEipStatusOk, mem'', fs'') \<and> stored_dscp q mem'' = Some accepted"
proof -
  obtain c where c: "CipQoSInit q objects = Some (kEipStatusOk, objects @ [c])"
      "object_ready kCipQoSClassCode (qos_rows q) qos_services (with_nv_callback env q f c)"
      "GetCipClass (objects @ [with_nv_callback env q f c]) kCipQoSClassCode = Some (with_nv_callback env q f c)"
      "PreSetCallback (core (with_nv_callback env q f c)) = None"
      "PostSetCallback (core (with_nv_callback env q f c)) = Some (nv_qos_callback env q f)"
    by (rule qos_class_installed [OF assms(1)])
  let ?v = "if v < 64 then v else vs ! (unat n - 4)"
  let ?store = "store(q + unat n - 1 := V8 ?v)"
  have "unat n \<le> 8" "4 \<le> unat n" using n by (simp_all add: word_le_nat_alt)
  then have f: "f \<noteq> q + unat n - 1" using storage(3) by auto
  have new: "stored_dscp q ?store = Some accepted"
    using stored_dscp_update(1) [OF stored n, of ?v] by (simp add: accepted_def)
  have "kNvDataFunc AND attribute_flags (row_attribute (qos_row q n)) \<noteq> 0" by (simp add: qos_row_def)
  from qos_values_survive_restart [OF this new storage(2), of mem']
  obtain fs' mem'' fs'' where nv: "NvQosSetCallback env q ?store (row_attribute (qos_row q n)) fs = Some (kEipStatusOk, fs')"
      "\<forall>p. p \<noteq> ''nvdata/qos.cfg'' \<longrightarrow> file_content fs' p = file_content fs p"
      "NvdataLoad env q mem' fs' = Some (kEipStatusOk, mem'', fs'')" "stored_dscp q mem'' = Some accepted"
    by blast
  have cell: "?store f = VFiles fs" using storage(1) f by simp
  obtain req' resp' where r: "NotifyMessageRouter (call_std other) (kSetAttributeSingle # of_nat w # concat (map segment_octets segs) @ [v])
         (int (3 + 2 * w)) (objects @ [with_nv_callback env q f c]) req store resp
         = Some (kEipStatusOkSend, objects @ [with_nv_callback env q f c], req', ?store(f := VFiles fs'), resp')"
      "general_status resp' = (if v < 64 then kCipErrorSuccess else kCipErrorInvalidAttributeValue)"
    using qos_set_request [where store = store, OF c(3,2) n c(4,5) stored_dscp_update(2) [OF stored n] w path cell nv(1)] by blast
  have "stored_dscp q (?store(f := VFiles fs')) = Some accepted"
    using new storage(3) by (auto simp: stored_dscp_iff)
  then show ?thesis using c(1) r nv f by (intro exI conjI allI impI) (assumption | simp)+
qed

lemma qos_setting_survives_restart_witness:
  "\<exists>c req' store' resp' fs' mem'' fs''.
     CipQoSInit 0 [] = Some (kEipStatusOk, [c])
     \<and> NotifyMessageRouter (call_std (\<lambda>(u :: unit) _ _ _ _ _. None)) [0x10, 3, 0x20, 0x48, 0x24, 1, 0x30, 5, 33] 9
         [with_nv_callback example_storage 0 9 c] empty_request
         ((CipQosResetAttributesToDefaultValues 0 (\<lambda>_. V8 0))(9 := VFiles \<lparr>directories = [], files = []\<rparr>)) service_response
         = Some (kEipStatusOkSend, [with_nv_callback example_storage 0 9 c], req', store', resp')
     \<and> general_status resp' = kCipErrorSuccess \<and> store' 9 = VFiles fs'
     \<and> NvdataLoad example_storage 0 (\<lambda>_. V8 0) fs' = Some (kEipStatusOk, mem'', fs'')
     \<and> stored_dscp 0 mem'' = Some [55, 33, 43, 31, 27]"
proof -
  define store where "store = (CipQosResetAttributesToDefaultValues 0 (\<lambda>_. V8 0))(9 := VFiles \<lparr>directories = [], files = []\<rparr>)"
  have s: "stored_dscp 0 store = Some [55, 47, 43, 31, 27]"
    by (simp add: store_def stored_dscp_def CipQosResetAttributesToDefaultValues_def default_dscp_def)
  have f: "store 9 = VFiles \<lparr>directories = [], files = []\<rparr>" by (simp add: store_def)
  have w: "storage_works example_storage \<lparr>directories = [], files = []\<rparr>"
    by (simp add: storage_works_def example_storage_def file_content_def)
  let ?segs = "[ClassSeg 0x48, InstanceSeg 1, AttributeSeg 5]"
  have p: "class_id (segments_path ?segs (request_path empty_request)) = ucast kCipQoSClassCode"
      "instance_number (segments_path ?segs (request_path empty_request)) = 1" "attribute_number (segments_path ?segs (request_path empty_request)) = 5"
    by (simp_all add: segments_path_def kCipQoSClassCode_def)
  have "GetCipClass [] kCipQoSClassCode = None" by (simp add: GetCipClass_eq GetRegisteredObject_def)
  from qos_setting_survives_restart [where v = 33 and n = 5 and w = 3 and segs = ?segs and other = "\<lambda>(u :: unit) _ _ _ _ _. None",
      OF this _ _ _ _ p s f w, of service_response "\<lambda>_. V8 0"]
  show ?thesis unfolding store_def [symmetric] by (auto simp del: fun_upd_apply)
qed

end
